(* ===== verification/Prelude.thy ===== *)
theory Prelude
  imports Complex_Main "HOL-Library.AList"
begin

text \<open>
  Shared vocabulary of the development: strings as the code uses them, the values of the
  source language, errors as values, guard lists, and the lemmas on association lists that
  every component uses.

  Strings are lists of characters; a character stands for one code unit below 256. The only
  characters above that range in the modelled code are the em dashes of two report texts,
  written as their UTF-8 bytes.
\<close>

named_theorems guard_simps \<open>rewriting of guard lists and sequenced results\<close>
named_theorems js_simps \<open>property access, truthiness and equality of values\<close>
named_theorems store_simps \<open>lookups in association lists after an update\<close>

section \<open>Strings\<close>

definition js_ws :: "char \<Rightarrow> bool" where
  "js_ws c = (c \<in> set [CHR 0x09, CHR 0x0A, CHR 0x0B, CHR 0x0C, CHR 0x0D, CHR 0x20, CHR 0xA0])"

definition js_trim :: "string \<Rightarrow> string" where
  "js_trim s = rev (dropWhile js_ws (rev (dropWhile js_ws s)))"

definition is_upper :: "char \<Rightarrow> bool" where
  "is_upper c = (let n = (of_char c :: nat) in 65 \<le> n \<and> n \<le> 90 \<or> 192 \<le> n \<and> n \<le> 222 \<and> n \<noteq> 215)"

text \<open>The lower case of a letter differs from its upper case in the bit of value 32.\<close>

definition lower_char :: "char \<Rightarrow> char" where
  "lower_char c = (if is_upper c
     then (case c of Char b0 b1 b2 b3 b4 b5 b6 b7 \<Rightarrow> Char b0 b1 b2 b3 b4 True b6 b7) else c)"

definition js_lower :: "string \<Rightarrow> string" where
  "js_lower s = map lower_char s"

definition starts_with :: "string \<Rightarrow> string \<Rightarrow> bool" where
  "starts_with p s = (take (length p) s = p)"

definition ends_with :: "string \<Rightarrow> string \<Rightarrow> bool" where
  "ends_with p s = (length p \<le> length s \<and> drop (length s - length p) s = p)"

fun contains :: "string \<Rightarrow> string \<Rightarrow> bool" where
  "contains [] p = (p = [])"
| "contains (c # s) p = (starts_with p (c # s) \<or> contains s p)"

fun join :: "string \<Rightarrow> string list \<Rightarrow> string" where
  "join sep [] = []"
| "join sep [x] = x"
| "join sep (x # y # zs) = x @ sep @ join sep (y # zs)"

text \<open>\<open>split c s\<close> is \<open>s.split(c)\<close> for a one-character separator.\<close>

fun split :: "char \<Rightarrow> string \<Rightarrow> string list" where
  "split c [] = [[]]"
| "split c (x # s) =
     (if x = c then [] # split c s
      else (case split c s of [] \<Rightarrow> [[x]] | w # ws \<Rightarrow> (x # w) # ws))"

definition is_digit :: "char \<Rightarrow> bool" where
  "is_digit c = (c \<in> set ''0123456789'')"

fun nat_string :: "nat \<Rightarrow> string" where
  "nat_string n =
    (if n < 10 then [char_of (48 + n)] else nat_string (n div 10) @ [char_of (48 + n mod 10)])"

declare nat_string.simps [simp del]

definition int_string :: "int \<Rightarrow> string" where
  "int_string i = (if i < 0 then ''-'' @ nat_string (nat (- i)) else nat_string (nat i))"

definition em_dash :: string where
  "em_dash = [CHR 0xE2, CHR 0x80, CHR 0x94]"

lemma is_digit_code: "is_digit c \<longleftrightarrow> 48 \<le> (of_char c :: nat) \<and> (of_char c :: nat) \<le> 57"
proof (cases c)
  case (Char b0 b1 b2 b3 b4 b5 b6 b7)
  then show ?thesis
    by (cases b0; cases b1; cases b2; cases b3; cases b4; cases b5; cases b6; cases b7)
      (simp_all add: is_digit_def)
qed

text \<open>How the tests on characters are evaluated.\<close>

lemma is_upper_code [code]:
  "is_upper (Char b0 b1 b2 b3 b4 b5 b6 b7) =
    (\<not> b5 \<and> b6 \<and>
     (if b7 then (\<not> (b0 \<and> b1 \<and> b2 \<and> b3 \<and> b4)) \<and> \<not> (b0 \<and> b1 \<and> b2 \<and> \<not> b3 \<and> b4)
      else (b0 \<or> b1 \<or> b2 \<or> b3 \<or> b4) \<and> \<not> (b4 \<and> b3 \<and> (b2 \<or> b1 \<and> b0))))"
  by (cases b0; cases b1; cases b2; cases b3; cases b4; cases b5; cases b6; cases b7)
    (simp_all add: is_upper_def)

lemma starts_with_iff: "starts_with p s \<longleftrightarrow> (\<exists>v. s = p @ v)"
  unfolding starts_with_def by (metis append_eq_conv_conj append_take_drop_id)

lemma starts_with_append [simp]: "starts_with p (p @ s)"
  by (simp add: starts_with_iff)

text \<open>\<open>s.includes(p)\<close> holds exactly if \<open>p\<close> is an infix.\<close>

lemma contains_iff: "contains s p \<longleftrightarrow> (\<exists>u v. s = u @ p @ v)"
proof (induction s)
  case (Cons c s)
  show ?case
  proof
    assume "contains (c # s) p"
    then consider v where "c # s = p @ v" | u v where "s = u @ p @ v"
      using Cons.IH by (auto simp: starts_with_iff)
    then show "\<exists>u v. c # s = u @ p @ v"
    proof cases
      case 1
      then show ?thesis by (intro exI[of _ "[]"] exI) simp
    next
      case 2
      then show ?thesis by (intro exI[of _ "c # u" for u] exI) simp
    qed
  next
    assume "\<exists>u v. c # s = u @ p @ v"
    then obtain u v where eq: "c # s = u @ p @ v" by blast
    show "contains (c # s) p"
    proof (cases u)
      case Nil
      with eq have "starts_with p (c # s)" by (auto simp: starts_with_iff)
      then show ?thesis by simp
    next
      case (Cons d u')
      with eq have "s = u' @ p @ v" by simp
      with Cons.IH show ?thesis by auto
    qed
  qed
qed auto

lemma contains_append: "contains (t @ p @ s) p"
  by (auto simp: contains_iff)

lemma contains_append_left: "contains s p \<Longrightarrow> contains (t @ s) p"
  by (metis append.assoc contains_iff)

lemma contains_append_right: "contains s p \<Longrightarrow> contains (s @ t) p"
  by (metis append.assoc contains_iff)

lemma split_nonempty [simp]: "split c s \<noteq> []"
  by (induction s) (auto split: list.splits)

lemma join_split: "join [c] (split c s) = s"
proof (induction s)
  case (Cons x s)
  obtain w ws where sp: "split c s = w # ws"
    by (metis split_nonempty neq_Nil_conv)
  have "join [c] ((x # w) # ws) = x # join [c] (w # ws)"
    by (cases ws) simp_all
  with Cons sp show ?case by simp
qed simp

lemma nat_string_nonempty [simp]: "nat_string n \<noteq> []"
  by (subst nat_string.simps) simp

section \<open>Errors and results\<close>

text \<open>
  A thrown error carries its message and, where the code attaches them, its \<open>code\<close> and its
  \<open>retryable\<close> flag. \<open>Err\<close> is an error with a message only. A fallible operation
  returns \<open>Inl\<close> of the error or \<open>Inr\<close> of its result.
\<close>

datatype js_error = JsError (err_message: string) (err_code: "string option") (err_retryable: "bool option")

abbreviation Err :: "string \<Rightarrow> js_error" where
  "Err m \<equiv> JsError m None None"

definition type_error :: js_error where
  "type_error = JsError ''TypeError'' (Some ''TypeError'') None"

type_synonym 'a res = "js_error + 'a"

definition and_then :: "'a res \<Rightarrow> ('a \<Rightarrow> 'b res) \<Rightarrow> 'b res" where
  "and_then r f = (case r of Inl e \<Rightarrow> Inl e | Inr v \<Rightarrow> f v)"

text \<open>\<open>xs.map(f)\<close> and \<open>xs.filter(p)\<close> for callbacks that may throw: the first error ends the loop.\<close>

fun map_res :: "('a \<Rightarrow> 'b res) \<Rightarrow> 'a list \<Rightarrow> 'b list res" where
  "map_res f [] = Inr []"
| "map_res f (x # xs) = and_then (f x) (\<lambda>y. and_then (map_res f xs) (\<lambda>ys. Inr (y # ys)))"

fun filter_res :: "('a \<Rightarrow> bool res) \<Rightarrow> 'a list \<Rightarrow> 'a list res" where
  "filter_res p [] = Inr []"
| "filter_res p (x # xs) =
     and_then (p x) (\<lambda>b. and_then (filter_res p xs) (\<lambda>ys. Inr (if b then x # ys else ys)))"

text \<open>
  A guard list is a sequence of checks in the order of the code: the first that fails throws its
  message, and the continuation is only reached when all hold.
\<close>

fun guard :: "(bool \<times> string) list \<Rightarrow> 'a res \<Rightarrow> 'a res" where
  "guard [] k = k"
| "guard ((ok, msg) # gs) k = (if ok then guard gs k else Inl (Err msg))"

lemma and_then_simps [simp, guard_simps]:
  "and_then (Inl e) f = Inl e"
  "and_then (Inr v) f = f v"
  by (simp_all add: and_then_def)

lemma and_then_Inr [guard_simps]: "and_then r f = Inr w \<longleftrightarrow> (\<exists>v. r = Inr v \<and> f v = Inr w)"
  by (cases r) auto

lemma and_then_Inl: "and_then r f = Inl e \<longleftrightarrow> r = Inl e \<or> (\<exists>v. r = Inr v \<and> f v = Inl e)"
  by (cases r) auto

lemma guard_Inr [guard_simps]: "guard gs k = Inr v \<longleftrightarrow> list_all fst gs \<and> k = Inr v"
  by (induction gs k rule: guard.induct) auto

lemma map_res_Inr: "map_res f xs = Inr ys \<longleftrightarrow> list_all2 (\<lambda>x y. f x = Inr y) xs ys"
  by (induction xs arbitrary: ys) (auto simp: and_then_Inr list_all2_Cons1)

lemma filter_res_Inr:
  "filter_res p xs = Inr ys \<longleftrightarrow> (\<forall>x \<in> set xs. \<exists>b. p x = Inr b) \<and> ys = filter (\<lambda>x. p x = Inr True) xs"
proof (induction xs arbitrary: ys)
  case (Cons x xs)
  show ?case
  proof (cases "p x")
    case (Inr b)
    then show ?thesis by (cases b) (auto simp: and_then_Inr Cons.IH)
  qed simp
qed auto

lemma map_res_member: "map_res f xs = Inr ys \<Longrightarrow> y \<in> set ys \<Longrightarrow> \<exists>x \<in> set xs. f x = Inr y"
  by (induction xs arbitrary: ys) (auto simp: and_then_Inr)

lemma filter_res_member: "filter_res p xs = Inr ys \<Longrightarrow> y \<in> set ys \<Longrightarrow> y \<in> set xs \<and> p y = Inr True"
  by (auto simp: filter_res_Inr)

lemma guard_append: "guard (gs @ hs) k = guard gs (guard hs k)"
  by (induction gs k rule: guard.induct) auto

lemma guard_all: "list_all fst gs \<Longrightarrow> guard gs k = k"
  by (induction gs k rule: guard.induct) auto

text \<open>The message thrown is the one of the first check that fails.\<close>

lemma guard_first_failure:
  "list_all fst gs \<Longrightarrow> \<not> ok \<Longrightarrow> guard (gs @ (ok, msg) # hs) k = Inl (Err msg)"
  by (induction gs k rule: guard.induct) auto

text \<open>Guard lists are not unfolded one by one, but through the lemmas above.\<close>

declare guard.simps(2) [simp del]

lemma guard_decided [simp]:
  "guard ((True, m) # gs) k = guard gs k"
  "guard ((False, m) # gs) k = Inl (Err m)"
  by (simp_all add: guard.simps(2))

section \<open>Association lists in insertion order\<close>

text \<open>
  A \<open>Map\<close> of the source keeps its entries in insertion order, and setting an existing key keeps
  its place: \<open>AList.update\<close>. Deleting is \<open>AList.delete\<close>.
\<close>

lemma map_of_update [simp, store_simps]:
  "map_of (AList.update k v al) k' = (if k = k' then Some v else map_of al k')"
  by (simp add: AList.update_conv')

lemma map_of_delete [simp, store_simps]:
  "map_of (AList.delete k al) k' = (if k = k' then None else map_of al k')"
  by (simp add: AList.delete_conv')

lemma distinct_update_keys [simp, store_simps]:
  "distinct (map fst al) \<Longrightarrow> distinct (map fst (AList.update k v al))"
  by (rule AList.distinct_update)

lemma distinct_delete_keys [simp, store_simps]:
  "distinct (map fst al) \<Longrightarrow> distinct (map fst (AList.delete k al))"
  by (rule AList.distinct_delete)

lemma map_fst_map_snd [simp]: "map fst (map (\<lambda>(k, v). (k, f k v)) al) = map fst al"
  by (induction al) auto

lemma map_of_map_values: "map_of (map (\<lambda>(k, v). (k, f k v)) al) k = map_option (f k) (map_of al k)"
  by (induction al) auto

lemma find_SomeD: "find P xs = Some x \<Longrightarrow> x \<in> set xs \<and> P x"
  by (auto simp: find_Some_iff)

end
