(* ===== verification/JsValue.thy ===== *)
theory JsValue
  imports Prelude
begin

text \<open>
  The values of the source language that flow through request bodies, database payloads and
  event records: the dynamic type the code inspects with \<open>typeof\<close>, \<open>??\<close>, \<open>?.\<close>, \<open>===\<close> and
  truthiness, object literals and spreads, and the JSON round trip used as a deep copy.

  Numbers are exact rationals, with \<open>NaN\<close> and the infinities apart; rounding of doubles is not
  modelled (the code computes on integers in the safe range). \<open>JFun\<close> stands for a function
  found through the prototype chain. Comparing two objects with \<open>===\<close> compares identities in the
  source; no modelled comparison has the same object on both sides, so it is false here.
\<close>

datatype jsval =
    JUndef
  | JNull
  | JBool bool
  | JNum rat
  | JNaN
  | JInf bool
  | JStr string
  | JArr "jsval list"
  | JObj "(string \<times> jsval) list"
  | JFun string

fun truthy :: "jsval \<Rightarrow> bool" where
  "truthy JUndef = False"
| "truthy JNull = False"
| "truthy (JBool b) = b"
| "truthy (JNum n) = (n \<noteq> 0)"
| "truthy JNaN = False"
| "truthy (JStr s) = (s \<noteq> [])"
| "truthy _ = True"

definition nullish :: "jsval \<Rightarrow> bool" where
  "nullish v = (case v of JUndef \<Rightarrow> True | JNull \<Rightarrow> True | _ \<Rightarrow> False)"

text \<open>\<open>a ?? b\<close>.\<close>

definition coalesce :: "jsval \<Rightarrow> jsval \<Rightarrow> jsval" where
  "coalesce a b = (if nullish a then b else a)"

text \<open>\<open>a?.k\<close>: undefined when \<open>a\<close> is null or undefined or has no own property \<open>k\<close>.\<close>

fun fld :: "jsval \<Rightarrow> string \<Rightarrow> jsval" where
  "fld (JObj fs) k = (case map_of fs k of None \<Rightarrow> JUndef | Some v \<Rightarrow> v)"
| "fld (JArr xs) k = (if k = ''length'' then JNum (of_nat (length xs)) else JUndef)"
| "fld (JStr s) k = (if k = ''length'' then JNum (of_nat (length s)) else JUndef)"
| "fld _ k = JUndef"

text \<open>\<open>a.k\<close>: a TypeError when \<open>a\<close> is null or undefined.\<close>

definition get_fld :: "jsval \<Rightarrow> string \<Rightarrow> jsval res" where
  "get_fld v k = (if nullish v then Inl type_error else Inr (fld v k))"

definition strict_eq :: "jsval \<Rightarrow> jsval \<Rightarrow> bool" where
  "strict_eq a b = (a = b \<and> (case a of JNaN \<Rightarrow> False | JArr _ \<Rightarrow> False | JObj _ \<Rightarrow> False | _ \<Rightarrow> True))"

text \<open>The equality of \<open>Array.prototype.includes\<close> and of \<open>Set\<close>: as \<open>===\<close>, with NaN equal to itself.\<close>

definition same_value_zero :: "jsval \<Rightarrow> jsval \<Rightarrow> bool" where
  "same_value_zero a b = (strict_eq a b \<or> a = JNaN \<and> b = JNaN)"

text \<open>Membership of a value in a set of string constants.\<close>

definition one_of :: "string list \<Rightarrow> jsval \<Rightarrow> bool" where
  "one_of xs v = (case v of JStr s \<Rightarrow> s \<in> set xs | _ \<Rightarrow> False)"

definition is_array :: "jsval \<Rightarrow> bool" where
  "is_array v = (case v of JArr _ \<Rightarrow> True | _ \<Rightarrow> False)"

definition is_obj :: "jsval \<Rightarrow> bool" where
  "is_obj v = (case v of JObj _ \<Rightarrow> True | _ \<Rightarrow> False)"

definition nonblank :: "jsval \<Rightarrow> bool" where
  "nonblank v = (case v of JStr s \<Rightarrow> js_trim s \<noteq> [] | _ \<Rightarrow> False)"

text \<open>String conversion of numbers: integers in decimal, fractions with at most 20 digits.\<close>

fun frac_digits :: "nat \<Rightarrow> rat \<Rightarrow> string" where
  "frac_digits 0 r = []"
| "frac_digits (Suc n) r =
     (if r = 0 then [] else
        (let d = \<lfloor>r * 10\<rfloor> in char_of (48 + nat d) # frac_digits n (r * 10 - of_int d)))"

definition num_string :: "rat \<Rightarrow> string" where
  "num_string r =
    (let a = \<bar>r\<bar>; i = \<lfloor>a\<rfloor>; f = a - of_int i in
     (if r < 0 then ''-'' else []) @ nat_string (nat i) @
     (if f = 0 then [] else ''.'' @ frac_digits 20 f))"

text \<open>\<open>String(v)\<close> and the conversion inside a template literal.\<close>

fun js_string :: "jsval \<Rightarrow> string"
  and elem_strings :: "jsval list \<Rightarrow> string list" where
  "js_string JUndef = ''undefined''"
| "js_string JNull = ''null''"
| "js_string (JBool b) = (if b then ''true'' else ''false'')"
| "js_string (JNum n) = num_string n"
| "js_string JNaN = ''NaN''"
| "js_string (JInf neg) = (if neg then ''-Infinity'' else ''Infinity'')"
| "js_string (JStr s) = s"
| "js_string (JArr xs) = join '','' (elem_strings xs)"
| "js_string (JObj fs) = ''[object Object]''"
| "js_string (JFun f) = ''function '' @ f @ ''() { [native code] }''"
| "elem_strings [] = []"
| "elem_strings (x # xs) = (if nullish x then [] else js_string x) # elem_strings xs"

text \<open>Assignment \<open>o.k = v\<close> on a fresh object, and the object literal \<open>{...o, k: v, ...}\<close>.\<close>

fun set_fld :: "string \<Rightarrow> jsval \<Rightarrow> jsval \<Rightarrow> jsval" where
  "set_fld k v (JObj fs) = JObj (AList.update k v fs)"
| "set_fld k v ob = ob"

fun own_fields :: "jsval \<Rightarrow> (string \<times> jsval) list" where
  "own_fields (JObj fs) = fs"
| "own_fields _ = []"

definition spread :: "jsval \<Rightarrow> (string \<times> jsval) list \<Rightarrow> jsval" where
  "spread ob fs = fold (\<lambda>(k, v) acc. set_fld k v acc) fs (JObj (own_fields ob))"

text \<open>\<open>v.includes(x)\<close> on an array or a string.\<close>

fun includes_call :: "jsval \<Rightarrow> jsval \<Rightarrow> bool res" where
  "includes_call (JArr xs) x = Inr (\<exists>y \<in> set xs. same_value_zero y x)"
| "includes_call (JStr s) x = Inr (contains s (js_string x))"
| "includes_call _ x = Inl type_error"

text \<open>\<open>JSON.parse(JSON.stringify(v))\<close>: undefined fields and functions disappear, and become null in arrays.\<close>

definition json_absent :: "jsval \<Rightarrow> bool" where
  "json_absent v = (case v of JUndef \<Rightarrow> True | JFun _ \<Rightarrow> True | _ \<Rightarrow> False)"

fun json_clone :: "jsval \<Rightarrow> jsval"
  and json_clone_elems :: "jsval list \<Rightarrow> jsval list"
  and json_clone_fields :: "(string \<times> jsval) list \<Rightarrow> (string \<times> jsval) list" where
  "json_clone JNaN = JNull"
| "json_clone (JInf neg) = JNull"
| "json_clone (JArr xs) = JArr (json_clone_elems xs)"
| "json_clone (JObj fs) = JObj (json_clone_fields fs)"
| "json_clone v = v"
| "json_clone_elems [] = []"
| "json_clone_elems (x # xs) = (if json_absent x then JNull else json_clone x) # json_clone_elems xs"
| "json_clone_fields [] = []"
| "json_clone_fields ((k, v) # fs) =
     (if json_absent v then json_clone_fields fs else (k, json_clone v) # json_clone_fields fs)"

section \<open>Lemmas\<close>

text \<open>Reading a property of an object literal goes through its fields one by one.\<close>

declare fld.simps(1) [simp del]

lemma fld_obj [simp, js_simps]:
  "fld (JObj []) k = JUndef"
  "fld (JObj ((k', v) # fs)) k = (if k = k' then v else fld (JObj fs) k)"
  "fld (JObj (AList.update k' v fs)) k = (if k = k' then v else fld (JObj fs) k)"
  "fld (JObj (fs @ gs)) k = (case map_of fs k of Some v \<Rightarrow> v | None \<Rightarrow> fld (JObj gs) k)"
  by (simp_all add: fld.simps(1) map_add_def split: option.splits)

lemma nullish_simps [simp, js_simps]:
  "nullish JUndef" "nullish JNull" "\<not> nullish (JBool b)" "\<not> nullish (JNum n)" "\<not> nullish JNaN"
  "\<not> nullish (JStr s)" "\<not> nullish (JArr xs)" "\<not> nullish (JObj fs)" "\<not> nullish (JInf i)"
  "\<not> nullish (JFun f)"
  by (simp_all add: nullish_def)

lemma coalesce_nullish [simp, js_simps]: "nullish a \<Longrightarrow> coalesce a b = b"
  by (simp add: coalesce_def)

lemma coalesce_present [simp, js_simps]: "\<not> nullish a \<Longrightarrow> coalesce a b = a"
  by (simp add: coalesce_def)

lemma nonblank_str: "nonblank v \<Longrightarrow> \<exists>s. v = JStr s \<and> s \<noteq> []"
  by (auto simp: nonblank_def js_trim_def split: jsval.splits)

lemma nonblank_not_nullish: "nonblank v \<Longrightarrow> \<not> nullish v"
  by (auto dest: nonblank_str)

lemma nonblank_truthy: "nonblank v \<Longrightarrow> truthy v"
  by (auto dest: nonblank_str)

lemma strict_eq_simps [simp, js_simps]:
  "strict_eq (JStr s) v \<longleftrightarrow> v = JStr s" "strict_eq v (JStr s) \<longleftrightarrow> v = JStr s"
  "strict_eq (JBool b) v \<longleftrightarrow> v = JBool b" "strict_eq v (JBool b) \<longleftrightarrow> v = JBool b"
  "strict_eq (JNum n) v \<longleftrightarrow> v = JNum n" "strict_eq v (JNum n) \<longleftrightarrow> v = JNum n"
  "strict_eq JNull v \<longleftrightarrow> v = JNull" "strict_eq v JNull \<longleftrightarrow> v = JNull"
  "strict_eq JUndef v \<longleftrightarrow> v = JUndef" "strict_eq v JUndef \<longleftrightarrow> v = JUndef"
  "\<not> strict_eq JNaN v" "\<not> strict_eq (JObj fs) v"
  by (auto simp: strict_eq_def)

lemma strict_eq_eq: "strict_eq a b \<Longrightarrow> a = b"
  by (simp add: strict_eq_def)

lemma same_value_zero_eq: "same_value_zero a b \<Longrightarrow> a = b"
  by (auto simp: same_value_zero_def strict_eq_def)

lemma same_value_zero_str [simp, js_simps]:
  "same_value_zero (JStr s) v \<longleftrightarrow> v = JStr s" "same_value_zero v (JStr s) \<longleftrightarrow> v = JStr s"
  by (auto simp: same_value_zero_def)

lemma one_of_str [simp, js_simps]: "one_of xs (JStr s) \<longleftrightarrow> s \<in> set xs"
  by (simp add: one_of_def)

lemma one_ofD: "one_of xs v \<Longrightarrow> \<exists>s. v = JStr s \<and> s \<in> set xs"
  by (auto simp: one_of_def split: jsval.splits)

text \<open>Setting a property changes that property and no other.\<close>

lemma fld_set_fld [simp, js_simps]:
  "fld (set_fld k v (JObj fs)) k' = (if k = k' then v else fld (JObj fs) k')"
  by (simp add: fld.simps(1))

lemma set_fld_obj: "\<exists>fs'. set_fld k v (JObj fs) = JObj fs'"
  by simp

lemma fold_set_fld_obj:
  "fold (\<lambda>(k, v) acc. set_fld k v acc) us (JObj fs) = JObj (fold (\<lambda>(k, v). AList.update k v) us fs)"
  by (induction us arbitrary: fs) auto

lemma map_of_fold_update:
  "map_of (fold (\<lambda>(k, v). AList.update k v) us fs) k =
     (case map_of (rev us) k of None \<Rightarrow> map_of fs k | Some v \<Rightarrow> Some v)"
  by (induction us arbitrary: fs) (auto simp: map_add_def split: option.splits)

text \<open>A property of a spread is the last override, or else the property of the base.\<close>

lemma fld_spread:
  "fld (spread (JObj fs) us) k =
     (case map_of (rev us) k of None \<Rightarrow> fld (JObj fs) k | Some v \<Rightarrow> v)"
  by (simp add: spread_def fold_set_fld_obj map_of_fold_update fld.simps(1) split: option.splits)

lemma spread_is_obj [simp, js_simps]: "\<exists>fs. spread ob us = JObj fs"
  by (simp add: spread_def fold_set_fld_obj)

lemma not_nullish_spread [simp, js_simps]: "\<not> nullish (spread ob us)"
  by (simp add: spread_def fold_set_fld_obj)

lemma json_absent_simps [simp, js_simps]:
  "json_absent JUndef" "\<not> json_absent JNull" "\<not> json_absent (JBool b)" "\<not> json_absent (JNum n)"
  "\<not> json_absent JNaN" "\<not> json_absent (JStr s)" "\<not> json_absent (JArr xs)" "\<not> json_absent (JObj fs)"
  "\<not> json_absent (JInf i)" "json_absent (JFun f)"
  by (simp_all add: json_absent_def)

lemma json_clone_not_absent: "json_absent (json_clone v) = json_absent v"
  by (cases v) (auto simp: json_absent_def)

text \<open>Copying twice is copying once.\<close>

lemma json_clone_idem:
  "json_clone (json_clone v) = json_clone v"
  "json_clone_elems (json_clone_elems xs) = json_clone_elems xs"
  "json_clone_fields (json_clone_fields fs) = json_clone_fields fs"
  by (induction v and xs and fs rule: json_clone_json_clone_elems_json_clone_fields.induct)
     (auto simp: json_clone_not_absent)

lemma map_of_json_clone_fields:
  "distinct (map fst fs) \<Longrightarrow> map_of (json_clone_fields fs) k =
     (case map_of fs k of None \<Rightarrow> None | Some v \<Rightarrow> if json_absent v then None else Some (json_clone v))"
proof (induction fs)
  case (Cons p fs)
  then show ?case
    by (cases p) (auto split: option.splits simp: map_of_eq_None_iff[symmetric] domIff dest: map_of_SomeD)
qed simp

lemma json_clone_str [simp]: "json_clone v = JStr s \<longleftrightarrow> v = JStr s"
  by (cases v) auto

section \<open>Checks shared by the domain packages\<close>

text \<open>The \<open>requiredString\<close> and \<open>requiredArray\<close> checks as entries of a guard list.\<close>

abbreviation req :: "jsval \<Rightarrow> string \<Rightarrow> bool \<times> string" where
  "req v label \<equiv> (nonblank v, label @ '' is required.'')"

abbreviation req_array :: "jsval \<Rightarrow> string \<Rightarrow> bool \<times> string" where
  "req_array v label \<equiv> (is_array v, label @ '' must be an array.'')"

text \<open>\<open>input?.staged !== true\<close>.\<close>

abbreviation is_true :: "jsval \<Rightarrow> bool" where
  "is_true v \<equiv> v = JBool True"

text \<open>
  The property names every object inherits; \<open>table[key]\<close> finds them even when the table literal
  does not list them. \<open>table[key]?.includes(v)\<close> then calls a method the found value lacks.
\<close>

definition proto_keys :: "string list" where
  "proto_keys = [''constructor'', ''toString'', ''valueOf'', ''hasOwnProperty'', ''isPrototypeOf'',
     ''propertyIsEnumerable'', ''toLocaleString'', ''__proto__'', ''__defineGetter__'',
     ''__defineSetter__'', ''__lookupGetter__'', ''__lookupSetter__'']"

definition table_includes :: "(string \<times> string list) list \<Rightarrow> jsval \<Rightarrow> jsval \<Rightarrow> bool res" where
  "table_includes table key v =
    (case map_of table (js_string key) of
       Some xs \<Rightarrow> Inr (one_of xs v)
     | None \<Rightarrow> if js_string key \<in> set proto_keys then Inl type_error else Inr False)"

text \<open>\<open>v + 1\<close>.\<close>

definition js_add1 :: "jsval \<Rightarrow> jsval" where
  "js_add1 v = (case v of JNum n \<Rightarrow> JNum (n + 1) | JNull \<Rightarrow> JNum 1 | JBool b \<Rightarrow> JNum (if b then 2 else 1)
     | JUndef \<Rightarrow> JNaN | JNaN \<Rightarrow> JNaN | JInf neg \<Rightarrow> JInf neg | _ \<Rightarrow> JStr (js_string v @ ''1''))"

text \<open>The elements a method of arrays runs over; a value without such a method has none.\<close>

definition elements :: "jsval \<Rightarrow> jsval list res" where
  "elements v = (case v of JArr xs \<Rightarrow> Inr xs | _ \<Rightarrow> Inl type_error)"

text \<open>\<open>v.find(p)\<close> for a callback that reads a property of the element.\<close>

fun find_first :: "(jsval \<Rightarrow> bool) \<Rightarrow> jsval list \<Rightarrow> jsval option res" where
  "find_first P [] = Inr None"
| "find_first P (x # xs) =
     (if nullish x then Inl type_error else if P x then Inr (Some x) else find_first P xs)"

definition js_find :: "(jsval \<Rightarrow> bool) \<Rightarrow> jsval \<Rightarrow> jsval option res" where
  "js_find P v = and_then (elements v) (find_first P)"

text \<open>The value of a result, for concrete examples.\<close>

definition ok_value :: "jsval res \<Rightarrow> jsval" where
  "ok_value r = (case r of Inr v \<Rightarrow> v | Inl e \<Rightarrow> JUndef)"

text \<open>\<open>v.toLowerCase()\<close>.\<close>

definition lower_call :: "jsval \<Rightarrow> string res" where
  "lower_call v = (case v of JStr s \<Rightarrow> Inr (js_lower s) | _ \<Rightarrow> Inl type_error)"

lemma find_first_Some: "find_first P xs = Inr (Some x) \<Longrightarrow> x \<in> set xs \<and> P x \<and> \<not> nullish x"
  by (induction P xs rule: find_first.induct) (auto split: if_splits)

text \<open>A parameter with a default: only \<open>undefined\<close> takes the default.\<close>

definition default_arg :: "jsval \<Rightarrow> jsval \<Rightarrow> jsval" where
  "default_arg v d = (if v = JUndef then d else v)"

text \<open>
  The environment's answers to one call: fresh random identifiers, the clock, and the hash
  functions of the platform's crypto module.
\<close>

record ctx =
  ctx_uuid :: "nat \<Rightarrow> string"
  ctx_now :: string
  ctx_sha256 :: "string \<Rightarrow> string"
  ctx_hmac :: "string \<Rightarrow> string \<Rightarrow> string"

end
