(* ===== verification/Json.thy ===== *)
theory Json
  imports JsValue "HOL-Library.List_Lexorder" "HOL-Library.Char_ord" "HOL-Library.Multiset"
begin

text \<open>
  JSON text as \<open>JSON.stringify\<close> prints it, and the canonical form of
  packages/audit/src/foundation.js, which sorts the keys of every object before printing. The main
  result is that the printed text determines the value up to what JSON drops: printing is
  injective on values whose numbers are integers.
\<close>

section \<open>Printing\<close>

definition hex_digit :: "nat \<Rightarrow> char" where
  "hex_digit n = ''0123456789abcdef'' ! n"

definition is_control :: "char \<Rightarrow> bool" where
  "is_control c = ((of_char c :: nat) < 32)"

definition quote_char :: "char \<Rightarrow> string" where
  "quote_char c =
    (if c = CHR 0x22 then [CHR 0x5C, CHR 0x22]
     else if c = CHR 0x5C then [CHR 0x5C, CHR 0x5C]
     else if c = CHR 0x08 then [CHR 0x5C, CHR ''b'']
     else if c = CHR 0x09 then [CHR 0x5C, CHR ''t'']
     else if c = CHR 0x0A then [CHR 0x5C, CHR ''n'']
     else if c = CHR 0x0C then [CHR 0x5C, CHR ''f'']
     else if c = CHR 0x0D then [CHR 0x5C, CHR ''r'']
     else if is_control c then
       [CHR 0x5C, CHR ''u'', CHR ''0'', CHR ''0'', hex_digit (of_char c div 16), hex_digit (of_char c mod 16)]
     else [c])"

lemma is_control_code [code]: "is_control (Char b0 b1 b2 b3 b4 b5 b6 b7) = (\<not> b5 \<and> \<not> b6 \<and> \<not> b7)"
  by (simp add: is_control_def)

definition quote :: "string \<Rightarrow> string" where
  "quote s = CHR 0x22 # concat (map quote_char s) @ [CHR 0x22]"

text \<open>
  \<open>JSON.stringify\<close>: what JSON has no form for is dropped first (\<open>json_clone\<close>), the rest is
  printed; a value that is absent on its own (undefined, a function) has no text.
\<close>

fun json_text :: "jsval \<Rightarrow> string"
  and json_elems :: "jsval list \<Rightarrow> string"
  and json_fields :: "(string \<times> jsval) list \<Rightarrow> string" where
  "json_text (JBool b) = (if b then ''true'' else ''false'')"
| "json_text (JNum n) = num_string n"
| "json_text (JStr s) = quote s"
| "json_text (JArr []) = ''[]''"
| "json_text (JArr (x # xs)) = ''['' @ json_text x @ json_elems xs"
| "json_text (JObj []) = ''{}''"
| "json_text (JObj ((k, v) # fs)) = ''{'' @ quote k @ '':'' @ json_text v @ json_fields fs"
| "json_text v = ''null''"
| "json_elems [] = '']''"
| "json_elems (x # xs) = '','' @ json_text x @ json_elems xs"
| "json_fields [] = ''}''"
| "json_fields ((k, v) # fs) = '','' @ quote k @ '':'' @ json_text v @ json_fields fs"

definition json_stringify :: "jsval \<Rightarrow> string option" where
  "json_stringify v = (if json_absent v then None else Some (json_text (json_clone v)))"

section \<open>Canonical form\<close>

text \<open>
  An object enumerates its integer-like keys first, in numeric order, and its other keys in
  insertion order. Assigning the key \<open>__proto__\<close> sets the prototype and adds no key.
\<close>

fun digits_value :: "nat \<Rightarrow> string \<Rightarrow> nat" where
  "digits_value acc [] = acc"
| "digits_value acc (c # s) = digits_value (10 * acc + (of_char c - 48)) s"

definition is_index :: "string \<Rightarrow> bool" where
  "is_index k = (k \<noteq> [] \<and> list_all is_digit k \<and> (hd k \<noteq> CHR ''0'' \<or> k = ''0'') \<and>
     digits_value 0 k < 4294967295)"

definition enum_order :: "(string \<times> 'v) list \<Rightarrow> (string \<times> 'v) list" where
  "enum_order fs = sort_key (\<lambda>(k, v). digits_value 0 k) (filter (\<lambda>(k, v). is_index k) fs)
     @ filter (\<lambda>(k, v). \<not> is_index k) fs"

definition canonical_fields :: "(string \<times> 'v) list \<Rightarrow> (string \<times> 'v) list" where
  "canonical_fields fs = enum_order (filter (\<lambda>(k, v). k \<noteq> ''__proto__'') (sort_key fst fs))"

fun canonicalize :: "jsval \<Rightarrow> jsval"
  and canonicalize_elems :: "jsval list \<Rightarrow> jsval list"
  and canonicalize_fields :: "(string \<times> jsval) list \<Rightarrow> (string \<times> jsval) list" where
  "canonicalize (JArr xs) = JArr (canonicalize_elems xs)"
| "canonicalize (JObj fs) = JObj (canonical_fields (canonicalize_fields fs))"
| "canonicalize v = v"
| "canonicalize_elems [] = []"
| "canonicalize_elems (x # xs) = canonicalize x # canonicalize_elems xs"
| "canonicalize_fields [] = []"
| "canonicalize_fields ((k, v) # fs) = (k, canonicalize v) # canonicalize_fields fs"

definition stableSerialize :: "jsval \<Rightarrow> string option" where
  "stableSerialize v = json_stringify (canonicalize v)"

section \<open>Printing is injective\<close>

text \<open>
  What follows a printed value inside a larger text never continues a number, so the text of a
  value followed by such a rest determines both. \<open>delimited\<close> is that condition on the rest.
\<close>

definition delimited :: "string \<Rightarrow> bool" where
  "delimited r = (r = [] \<or> \<not> is_digit (hd r))"

text \<open>Values as they are after \<open>json_clone\<close>, with integers as their only numbers.\<close>

fun clean :: "jsval \<Rightarrow> bool" where
  "clean JNull = True"
| "clean (JBool b) = True"
| "clean (JNum n) = (n \<in> \<int>)"
| "clean (JStr s) = True"
| "clean (JArr xs) = list_all clean xs"
| "clean (JObj fs) = list_all (\<lambda>(k, v). clean v) fs"
| "clean v = False"

subsection \<open>Strings\<close>

text \<open>Reading one escaped character back; \<open>None\<close> at the closing quote.\<close>

definition unhex :: "char \<Rightarrow> nat" where
  "unhex c = (let n = of_char c in if n < 58 then n - 48 else n - 87)"

definition unq :: "string \<Rightarrow> (char \<times> string) option" where
  "unq s = (case s of [] \<Rightarrow> None
     | d # ds \<Rightarrow>
        if d = CHR 0x22 then None
        else if d \<noteq> CHR 0x5C then Some (d, ds)
        else (case ds of [] \<Rightarrow> None
          | e # x \<Rightarrow>
             if e = CHR ''b'' then Some (CHR 0x08, x)
             else if e = CHR ''t'' then Some (CHR 0x09, x)
             else if e = CHR ''n'' then Some (CHR 0x0A, x)
             else if e = CHR ''f'' then Some (CHR 0x0C, x)
             else if e = CHR ''r'' then Some (CHR 0x0D, x)
             else if e = CHR ''u'' then Some (char_of (16 * unhex (x ! 2) + unhex (x ! 3)), drop 4 x)
             else Some (e, x)))"

lemma unq_close: "unq (CHR 0x22 # x) = None"
  by (simp add: unq_def)

lemma unq_control: "is_control c \<Longrightarrow> unq (quote_char c @ x) = Some (c, x)"
proof (cases c)
  case (Char b0 b1 b2 b3 b4 b5 b6 b7)
  assume "is_control c"
  with Char have "\<not> b5" "\<not> b6" "\<not> b7" by (simp_all add: is_control_code)
  with Char show ?thesis
    by (cases b0; cases b1; cases b2; cases b3; cases b4)
      (simp_all add: unq_def quote_char_def is_control_code hex_digit_def unhex_def Let_def
        char_of_eq_iff take_bit_eq_mod)
qed

lemma unq_quote_char: "unq (quote_char c @ x) = Some (c, x)"
proof (cases "is_control c")
  case True
  then show ?thesis
    by (rule unq_control)
next
  case False
  moreover from False have "c \<notin> {CHR 0x08, CHR 0x09, CHR 0x0A, CHR 0x0C, CHR 0x0D}"
    by (auto simp: is_control_def)
  ultimately show ?thesis
    by (auto simp: quote_char_def unq_def)
qed

lemma quote_body_inj:
  "concat (map quote_char s) @ CHR 0x22 # r = concat (map quote_char t) @ CHR 0x22 # r' \<Longrightarrow>
   s = t \<and> r = r'"
proof (induction s arbitrary: t)
  case Nil
  show ?case
  proof (cases t)
    case (Cons d t')
    with Nil have "unq (CHR 0x22 # r) = Some (d, concat (map quote_char t') @ CHR 0x22 # r')"
      by (simp add: unq_quote_char)
    then show ?thesis by (simp add: unq_close)
  qed (use Nil in simp)
next
  case (Cons c s)
  show ?case
  proof (cases t)
    case Nil
    with Cons.prems have "unq (quote_char c @ concat (map quote_char s) @ CHR 0x22 # r) = None"
      by (simp add: unq_close)
    then show ?thesis by (simp add: unq_quote_char)
  next
    case (Cons d t')
    with Cons.prems have "unq (quote_char c @ concat (map quote_char s) @ CHR 0x22 # r) =
        unq (quote_char d @ concat (map quote_char t') @ CHR 0x22 # r')"
      by simp
    then show ?thesis using Cons.IH [of t'] Cons by (simp add: unq_quote_char)
  qed
qed

lemma quote_inj: "quote s @ r = quote t @ r' \<longleftrightarrow> s = t \<and> r = r'"
  using quote_body_inj [of s r t r'] by (auto simp: quote_def)

subsection \<open>Numbers\<close>

lemma digits_value_append: "digits_value a (s @ t) = digits_value (digits_value a s) t"
  by (induction a s rule: digits_value.induct) auto

lemma digit_char: "n < 10 \<Longrightarrow> (of_char (char_of (48 + n) :: char) :: nat) = 48 + n"
  by (simp add: of_char_of)

lemma digits_value_nat_string: "digits_value 0 (nat_string n) = n"
proof (induction n rule: nat_string.induct)
  case (1 n)
  then show ?case
    by (subst nat_string.simps) (auto simp: digits_value_append digit_char)
qed

lemma is_digit_char: "(n :: nat) < 10 \<Longrightarrow> is_digit (char_of (48 + n))"
  by (simp add: is_digit_code digit_char)

lemma nat_string_digits: "list_all is_digit (nat_string n)"
proof (induction n rule: nat_string.induct)
  case (1 n)
  then show ?case
    by (subst nat_string.simps) (auto simp: is_digit_char)
qed

lemma nat_string_inj: "nat_string m = nat_string n \<longleftrightarrow> m = n"
  by (metis digits_value_nat_string)

lemma takeWhile_digits:
  "list_all is_digit s \<Longrightarrow> delimited r \<Longrightarrow> takeWhile is_digit (s @ r) = s"
  by (induction s) (auto simp: delimited_def takeWhile_eq_Nil_iff)

lemma nat_string_prefix:
  assumes "nat_string m @ r = nat_string n @ r'" "delimited r" "delimited r'"
  shows "m = n \<and> r = r'"
  by (metis assms takeWhile_digits nat_string_digits nat_string_inj append_same_eq same_append_eq)

lemma nat_string_head: "\<exists>c cs. nat_string n = c # cs \<and> is_digit c"
  using nat_string_digits [of n] nat_string_nonempty [of n] by (cases "nat_string n") auto

lemma num_string_int: "num_string (of_int i) = int_string i"
  by (simp add: num_string_def int_string_def Let_def nat_abs_int_diff)

lemma not_digit_minus [simp]: "\<not> is_digit CHR ''-''"
  by (simp add: is_digit_def)

lemma nat_string_not_minus: "nat_string n @ r \<noteq> CHR ''-'' # r'"
  using nat_string_head [of n] by auto

lemma int_string_prefix:
  assumes eq: "int_string i @ r = int_string j @ r'" and d: "delimited r" "delimited r'"
  shows "i = j \<and> r = r'"
proof (cases "i < 0 \<longleftrightarrow> j < 0")
  case True
  then have "nat_string (nat \<bar>i\<bar>) @ r = nat_string (nat \<bar>j\<bar>) @ r'"
    using eq by (cases "i < 0") (simp_all add: int_string_def)
  then have "nat \<bar>i\<bar> = nat \<bar>j\<bar> \<and> r = r'" by (rule nat_string_prefix [OF _ d])
  with True show ?thesis by auto
next
  case False
  then show ?thesis
    using eq nat_string_not_minus [of "nat i" r] nat_string_not_minus [of "nat j" r', THEN not_sym]
    by (auto simp: int_string_def split: if_splits)
qed

lemma int_string_head: "\<exists>c cs. int_string i = c # cs \<and> (is_digit c \<or> c = CHR ''-'')"
  using nat_string_head [of "nat i"] by (auto simp: int_string_def)

subsection \<open>Values\<close>

text \<open>The first character of a text tells the kind of the value.\<close>

definition text_kind :: "char \<Rightarrow> nat" where
  "text_kind c = (if c = CHR ''n'' then 0 else if c = CHR ''t'' then 1 else if c = CHR ''f'' then 2
     else if c = CHR 0x22 then 4 else if c = CHR ''['' then 5 else if c = CHR ''{'' then 6 else 3)"

definition value_kind :: "jsval \<Rightarrow> nat" where
  "value_kind v = (case v of JNull \<Rightarrow> 0 | JBool b \<Rightarrow> if b then 1 else 2 | JNum n \<Rightarrow> 3 | JStr s \<Rightarrow> 4
     | JArr xs \<Rightarrow> 5 | JObj fs \<Rightarrow> 6 | _ \<Rightarrow> 7)"

lemma text_kind_num: "is_digit c \<or> c = CHR ''-'' \<Longrightarrow> text_kind c = 3"
  by (auto simp: text_kind_def is_digit_def Let_def)

lemma json_text_kind: "clean v \<Longrightarrow> \<exists>c cs. json_text v = c # cs \<and> text_kind c = value_kind v"
proof (cases v)
  case (JNum n)
  assume "clean v"
  with JNum obtain i where "n = of_int i" by (auto elim: Ints_cases)
  with JNum int_string_head [of i] show ?thesis
    by (auto simp: num_string_int value_kind_def text_kind_num)
next
  case (JArr xs)
  then show ?thesis by (cases xs) (auto simp: text_kind_def value_kind_def)
next
  case (JObj fs)
  then show ?thesis by (cases fs) (auto simp: text_kind_def value_kind_def)
qed (auto simp: text_kind_def value_kind_def quote_def)

lemma json_text_same_kind:
  assumes "clean v" "clean w" "json_text v @ r = json_text w @ r'"
  shows "value_kind v = value_kind w"
  using json_text_kind [OF assms(1)] json_text_kind [OF assms(2)] assms(3) by auto

lemma json_text_form:
  assumes "clean v" "clean w" "json_text v @ r = json_text w @ r'"
  shows "case v of JNull \<Rightarrow> w = JNull | JBool b \<Rightarrow> w = JBool b | JNum n \<Rightarrow> \<exists>m. w = JNum m
    | JStr s \<Rightarrow> \<exists>t. w = JStr t | JArr xs \<Rightarrow> \<exists>ys. w = JArr ys | JObj fs \<Rightarrow> \<exists>gs. w = JObj gs | _ \<Rightarrow> False"
  using json_text_same_kind [OF assms] assms(1,2)
  by (cases v; cases w) (auto simp: value_kind_def split: if_splits)

lemma json_text_not_bracket: "clean v \<Longrightarrow> json_text v @ r \<noteq> CHR '']'' # r'"
proof (cases v)
  case (JNum n)
  assume "clean v"
  with JNum obtain i where "n = of_int i" by (auto elim: Ints_cases)
  with JNum int_string_head [of i] show ?thesis
    by (auto simp: num_string_int is_digit_def)
next
  case (JArr xs)
  then show ?thesis by (cases xs) auto
next
  case (JObj fs)
  then show ?thesis by (cases fs) auto
qed (auto simp: quote_def)

lemma quote_append: "quote k @ r = CHR 0x22 # concat (map quote_char k) @ CHR 0x22 # r"
  by (simp add: quote_def)

lemma delimited_cons [simp]: "delimited (c # r) \<longleftrightarrow> \<not> is_digit c"
  by (simp add: delimited_def)

lemma structural_not_digit [simp]:
  "\<not> is_digit CHR '',''" "\<not> is_digit CHR '']''" "\<not> is_digit CHR ''}''"
  by (simp_all add: is_digit_def)

lemma delimited_elems [simp]: "delimited (json_elems xs @ r)"
  by (cases xs) auto

lemma delimited_fields [simp]: "delimited (json_fields fs @ r)"
  by (cases fs) auto

text \<open>
  The printed text of a value determines the value and the rest of the text, for values, for the
  remaining elements of an array and for the remaining fields of an object.
\<close>

lemma json_text_prefix:
  "clean v \<Longrightarrow> clean w \<Longrightarrow> delimited r \<Longrightarrow> delimited r' \<Longrightarrow>
     json_text v @ r = json_text w @ r' \<Longrightarrow> v = w \<and> r = r'"
  "list_all clean xs \<Longrightarrow> list_all clean ys \<Longrightarrow> json_elems xs @ r = json_elems ys @ r' \<Longrightarrow>
     xs = ys \<and> r = r'"
  "list_all (\<lambda>(k, v). clean v) fs \<Longrightarrow> list_all (\<lambda>(k, v). clean v) gs \<Longrightarrow>
     json_fields fs @ r = json_fields gs @ r' \<Longrightarrow> fs = gs \<and> r = r'"
proof (induction v and xs and fs arbitrary: w r r' and ys r r' and gs r r'
    rule: json_text_json_elems_json_fields.induct)
  case (1 b)
  then show ?case using json_text_form [OF 1(1,2,5)] by (auto split: if_splits)
next
  case "8_2"
  then show ?case using json_text_form [OF "8_2"(1,2,5)] by auto
next
  case (2 n)
  then obtain m where w: "w = JNum m" using json_text_form [OF 2(1,2,5)] by auto
  with 2 obtain i j where "n = of_int i" "m = of_int j" by (auto elim!: Ints_cases)
  with 2 w show ?case using int_string_prefix [of i r j r'] by (simp add: num_string_int)
next
  case (3 s)
  then show ?case using json_text_form [OF 3(1,2,5)] by (auto simp: quote_inj)
next
  case 4
  then obtain ys where w: "w = JArr ys" using json_text_form [OF 4(1,2,5)] by auto
  with 4 show ?case by (cases ys) (auto dest: json_text_not_bracket [THEN notE, OF _ sym])
next
  case (5 x xs)
  then obtain ys where w: "w = JArr ys" using json_text_form [OF 5(3,4,7)] by auto
  show ?case
  proof (cases ys)
    case Nil
    with 5 w show ?thesis by (auto dest: json_text_not_bracket [THEN notE])
  next
    case (Cons y ys')
    have "x = y \<and> json_elems xs @ r = json_elems ys' @ r'"
      using 5(1)[of y "json_elems xs @ r" "json_elems ys' @ r'"] 5(3,4,7) w Cons by simp
    then show ?thesis using 5(2)[of ys' r r'] 5(3,4) w Cons by simp
  qed
next
  case 6
  then obtain gs where w: "w = JObj gs" using json_text_form [OF 6(1,2,5)] by auto
  with 6 show ?case by (cases gs) (auto simp: quote_append)
next
  case (7 k v fs)
  then obtain gs where w: "w = JObj gs" using json_text_form [OF 7(3,4,7)] by auto
  show ?case
  proof (cases gs)
    case Nil
    with 7 w show ?thesis by (auto simp: quote_append)
  next
    case (Cons g gs')
    obtain k' v' where g: "g = (k', v')" by (cases g)
    have kk: "k = k' \<and> json_text v @ json_fields fs @ r = json_text v' @ json_fields gs' @ r'"
      using 7(7) w Cons g quote_inj [of k "CHR '':'' # json_text v @ json_fields fs @ r" k'
          "CHR '':'' # json_text v' @ json_fields gs' @ r'"] by simp
    have "v = v' \<and> json_fields fs @ r = json_fields gs' @ r'"
      using 7(1)[of v' "json_fields fs @ r" "json_fields gs' @ r'"] 7(3,4) kk w Cons g by simp
    then show ?thesis using 7(2)[of gs' r r'] 7(3,4) kk w Cons g by simp
  qed
next
  case 9
  show ?case
  proof (cases ys)
    case (Cons y ys')
    with 9 show ?thesis by simp
  qed (use 9 in simp)
next
  case (10 x xs)
  show ?case
  proof (cases ys)
    case Nil
    with 10 show ?thesis by simp
  next
    case (Cons y ys')
    have "x = y \<and> json_elems xs @ r = json_elems ys' @ r'"
      using 10(1)[of y "json_elems xs @ r" "json_elems ys' @ r'"] 10(3,4,5) Cons by simp
    then show ?thesis using 10(2)[of ys' r r'] 10(3,4) Cons by simp
  qed
next
  case 11
  show ?case
  proof (cases gs)
    case (Cons g gs')
    with 11 show ?thesis by (cases g) simp
  qed (use 11 in simp)
next
  case (12 k v fs)
  show ?case
  proof (cases gs)
    case Nil
    with 12 show ?thesis by simp
  next
    case (Cons g gs')
    obtain k' v' where g: "g = (k', v')" by (cases g)
    have kk: "k = k' \<and> json_text v @ json_fields fs @ r = json_text v' @ json_fields gs' @ r'"
      using 12(5) Cons g quote_inj [of k "CHR '':'' # json_text v @ json_fields fs @ r" k'
          "CHR '':'' # json_text v' @ json_fields gs' @ r'"] by simp
    have "v = v' \<and> json_fields fs @ r = json_fields gs' @ r'"
      using 12(1)[of v' "json_fields fs @ r" "json_fields gs' @ r'"] 12(3,4) kk Cons g by simp
    then show ?thesis using 12(2)[of gs' r r'] 12(3,4) kk Cons g by simp
  qed
qed simp_all

lemma json_text_inj: "clean v \<Longrightarrow> clean w \<Longrightarrow> json_text v = json_text w \<longleftrightarrow> v = w"
  using json_text_prefix(1) [of v w "[]" "[]"] by (auto simp: delimited_def)

section \<open>Canonical values\<close>

text \<open>What the hash sees of a value.\<close>

definition image :: "jsval \<Rightarrow> jsval" where
  "image v = json_clone (canonicalize v)"

lemma image_str [simp]: "image (JStr s) = JStr s"
  by (simp add: image_def)

lemma map_fst_canonicalize_fields [simp]: "map fst (canonicalize_fields fs) = map fst fs"
  by (induction fs) auto

lemma map_of_canonicalize_fields: "map_of (canonicalize_fields fs) k = map_option canonicalize (map_of fs k)"
  by (induction fs) auto

lemma mset_enum_order: "mset (enum_order fs) = mset fs"
  unfolding enum_order_def mset_append mset_sort mset_filter case_prod_beta'
  by (rule multiset_partition [symmetric])

lemma mset_canonical_fields: "mset (canonical_fields fs) = mset (filter (\<lambda>(k, v). k \<noteq> ''__proto__'') fs)"
  by (simp add: canonical_fields_def mset_enum_order )

lemma distinct_canonical_fields:
  assumes "distinct (map fst fs)"
  shows "distinct (map fst (canonical_fields fs))"
proof -
  have "mset (map fst (canonical_fields fs)) = mset (map fst (filter (\<lambda>(k, v). k \<noteq> ''__proto__'') fs))"
    by (simp only: mset_map mset_canonical_fields)
  moreover have "distinct (map fst (filter (\<lambda>(k, v). k \<noteq> ''__proto__'') fs))"
    using assms by (rule distinct_map_filter)
  ultimately show ?thesis using mset_eq_imp_distinct_iff by blast
qed

lemma map_of_eqI:
  assumes "distinct (map fst fs)" "distinct (map fst gs)" "\<And>v. (k, v) \<in> set fs \<longleftrightarrow> (k, v) \<in> set gs"
  shows "map_of fs k = map_of gs k"
proof -
  have "map_of fs k = Some v \<longleftrightarrow> map_of gs k = Some v" for v
    using assms by (simp add: map_of_eq_Some_iff)
  then show ?thesis by (intro option.expand) (metis not_Some_eq option.sel)+
qed

lemma map_of_canonical_fields:
  assumes "distinct (map fst fs)" "k \<noteq> ''__proto__''"
  shows "map_of (canonical_fields fs) k = map_of fs k"
proof (rule map_of_eqI [OF distinct_canonical_fields [OF assms(1)] assms(1)])
  have "set (canonical_fields fs) = set (filter (\<lambda>(k, v). k \<noteq> ''__proto__'') fs)"
    by (metis mset_canonical_fields set_mset_mset)
  then show "(k, v) \<in> set (canonical_fields fs) \<longleftrightarrow> (k, v) \<in> set fs" for v
    using assms(2) by auto
qed

text \<open>The order of the fields of an object does not reach its text.\<close>

lemma sort_fst_unique:
  assumes "mset fs = mset gs" "distinct (map fst fs)"
  shows "sort_key fst fs = sort_key fst gs"
  using assms by (intro sort_key_eq_sort_key) (auto simp: distinct_map)

lemma canonicalize_fields_map: "canonicalize_fields fs = map (\<lambda>(k, v). (k, canonicalize v)) fs"
  by (induction fs) auto

lemma stableSerialize_field_order:
  assumes "mset fs = mset gs" "distinct (map fst fs)"
  shows "stableSerialize (JObj fs) = stableSerialize (JObj gs)"
proof -
  have "mset (canonicalize_fields fs) = mset (canonicalize_fields gs)"
    using assms(1) by (simp add: canonicalize_fields_map)
  then show ?thesis
    using assms(2) by (simp add: stableSerialize_def canonical_fields_def sort_fst_unique)
qed

lemma canonicalize_not_absent [simp]: "json_absent (canonicalize v) = json_absent v"
  by (cases v) (auto simp: json_absent_def)

lemma image_obj:
  assumes "distinct (map fst fs)" "k \<noteq> ''__proto__''" "map_of fs k = Some v" "\<not> json_absent v"
  shows "fld (image (JObj fs)) k = image v"
proof -
  have d: "distinct (map fst (canonical_fields (canonicalize_fields fs)))"
    using assms(1) by (simp add: distinct_canonical_fields)
  have "map_of (canonical_fields (canonicalize_fields fs)) k = Some (canonicalize v)"
    using assms(1-3) by (simp add: map_of_canonical_fields map_of_canonicalize_fields)
  then show ?thesis
    using assms(4) by (simp add: image_def fld.simps(1) map_of_json_clone_fields [OF d] canonicalize_not_absent)
qed

text \<open>A value all of whose numbers are integers; the image of such a value is printed injectively.\<close>

fun int_nums :: "jsval \<Rightarrow> bool" where
  "int_nums (JNum n) = (n \<in> \<int>)"
| "int_nums (JArr xs) = list_all int_nums xs"
| "int_nums (JObj fs) = list_all (\<lambda>(k, v). int_nums v) fs"
| "int_nums v = True"

lemma int_nums_canonicalize:
  "int_nums v \<Longrightarrow> int_nums (canonicalize v)"
  "list_all int_nums xs \<Longrightarrow> list_all int_nums (canonicalize_elems xs)"
  "list_all (\<lambda>(k, v). int_nums v) fs \<Longrightarrow> list_all (\<lambda>(k, v). int_nums v) (canonicalize_fields fs)"
proof (induction v and xs and fs rule: canonicalize_canonicalize_elems_canonicalize_fields.induct)
  case (2 fs)
  have "set (canonical_fields (canonicalize_fields fs)) \<subseteq> set (canonicalize_fields fs)"
    by (metis (no_types, lifting) filter_is_subset mset_canonical_fields set_mset_mset)
  with 2 show ?case by (auto simp: list_all_iff)
qed simp_all

lemma clean_clone:
  "int_nums v \<Longrightarrow> \<not> json_absent v \<Longrightarrow> clean (json_clone v)"
  "list_all int_nums xs \<Longrightarrow> list_all clean (json_clone_elems xs)"
  "list_all (\<lambda>(k, v). int_nums v) fs \<Longrightarrow> list_all (\<lambda>(k, v). clean v) (json_clone_fields fs)"
  by (induction v and xs and fs rule: json_clone_json_clone_elems_json_clone_fields.induct)
     (auto simp: json_absent_def)

lemma stableSerialize_inj:
  assumes "int_nums v" "int_nums w" "stableSerialize v = Some t" "stableSerialize w = Some t"
  shows "image v = image w"
  using assms json_text_inj [of "image v" "image w"] clean_clone(1) int_nums_canonicalize(1)
  by (auto simp: stableSerialize_def json_stringify_def image_def split: if_splits)

end
