(* ===== verification/AuditTrail.thy ===== *)
theory AuditTrail
  imports Json
begin

text \<open>
  The audit trail (packages/audit/src/foundation.js): events linked by SHA-256 hashes of their
  canonical JSON text, optionally signed, the verification of a chain, and the constructor of
  outbox events. The hash functions, the clock and the random identifiers come with the context;
  no property of the hash functions is assumed.
\<close>

section \<open>Operations\<close>

definition audit_base :: "ctx \<Rightarrow> jsval \<Rightarrow> (string \<times> jsval) list" where
  "audit_base c input =
    [(''eventId'', coalesce (fld input ''eventId'') (JStr (ctx_uuid c 0))),
     (''tenantId'', fld input ''tenantId''),
     (''actorType'', coalesce (fld input ''actorType'') (JStr ''system'')),
     (''actorId'', coalesce (fld input ''actorId'') (JStr ''unknown'')),
     (''action'', fld input ''action''),
     (''resourceType'', fld input ''resourceType''),
     (''resourceId'', fld input ''resourceId''),
     (''beforeStateRef'', coalesce (fld input ''beforeStateRef'') JNull),
     (''afterStateRef'', coalesce (fld input ''afterStateRef'') JNull),
     (''correlationId'', coalesce (fld input ''correlationId'') (JStr (ctx_uuid c 1))),
     (''requestId'', coalesce (fld input ''requestId'') (JStr (ctx_uuid c 2))),
     (''schemaVersion'', JNum 1),
     (''staged'', JBool True),
     (''timestamp'', coalesce (fld input ''timestamp'') (JStr (ctx_now c)))]"

text \<open>The content the hash commits to: the base event and the link to the previous hash.\<close>

definition audit_covered :: "ctx \<Rightarrow> jsval \<Rightarrow> (string \<times> jsval) list" where
  "audit_covered c input =
     audit_base c input @ [(''previousHash'', coalesce (fld input ''previousHash'') JNull)]"

definition createAuditEvent :: "ctx \<Rightarrow> jsval \<Rightarrow> jsval res" where
  "createAuditEvent c input =
    guard [(truthy (fld input ''tenantId'') \<and> truthy (fld input ''action'')
              \<and> truthy (fld input ''resourceType'') \<and> truthy (fld input ''resourceId''),
            ''Audit events require tenantId, action, resourceType, and resourceId.'')]
      (case stableSerialize (JObj (audit_covered c input)) of
         None \<Rightarrow> Inl type_error
       | Some t \<Rightarrow>
          (let eventHash = ctx_sha256 c t;
               event = audit_covered c input @ [(''eventHash'', JStr eventHash)]
           in if truthy (fld input ''signingKey'')
              then (case fld input ''signingKey'' of
                      JStr k \<Rightarrow> Inr (JObj (event @ [(''signature'', JStr (ctx_hmac c k eventHash))]))
                    | _ \<Rightarrow> Inl type_error)
              else Inr (JObj event)))"

record verdict =
  valid :: bool
  v_reason :: "string option"
  v_eventId :: jsval

definition verdict_ok :: verdict where
  "verdict_ok = \<lparr>valid = True, v_reason = None, v_eventId = JUndef\<rparr>"

definition verdict_bad :: "string \<Rightarrow> jsval \<Rightarrow> verdict" where
  "verdict_bad why i = \<lparr>valid = False, v_reason = Some why, v_eventId = i\<rparr>"

text \<open>Each call of \<open>createAuditEvent\<close> draws three identifiers; the next call sees later ones.\<close>

definition later :: "ctx \<Rightarrow> ctx" where
  "later c = c\<lparr>ctx_uuid := \<lambda>n. ctx_uuid c (n + 3)\<rparr>"

fun verify_from :: "ctx \<Rightarrow> jsval \<Rightarrow> jsval \<Rightarrow> jsval list \<Rightarrow> verdict res" where
  "verify_from c signingKey previousHash [] = Inr verdict_ok"
| "verify_from c signingKey previousHash (event # events) =
     and_then (get_fld event ''eventId'') (\<lambda>eventId.
     and_then (createAuditEvent c (spread event
         [(''previousHash'', previousHash), (''eventId'', eventId),
          (''correlationId'', fld event ''correlationId''), (''requestId'', fld event ''requestId''),
          (''timestamp'', fld event ''timestamp''), (''signingKey'', signingKey)])) (\<lambda>recalculated.
       if \<not> strict_eq (fld recalculated ''eventHash'') (fld event ''eventHash'')
       then Inr (verdict_bad ''hash_mismatch'' eventId)
       else if truthy signingKey \<and> \<not> truthy (fld event ''signature'')
       then Inr (verdict_bad ''signature_missing'' eventId)
       else if truthy signingKey \<and> \<not> strict_eq (fld recalculated ''signature'') (fld event ''signature'')
       then Inr (verdict_bad ''signature_mismatch'' eventId)
       else verify_from (later c) signingKey (fld event ''eventHash'') events))"

definition verifyAuditChain :: "ctx \<Rightarrow> jsval \<Rightarrow> jsval list \<Rightarrow> verdict res" where
  "verifyAuditChain c signingKey events = verify_from c signingKey JNull events"

definition buildAuditVerificationReport :: "ctx \<Rightarrow> jsval \<Rightarrow> jsval list \<Rightarrow> jsval res" where
  "buildAuditVerificationReport c signingKey events =
    and_then (verifyAuditChain c signingKey events) (\<lambda>result. Inr (JObj
      [(''valid'', JBool (valid result)),
       (''reason'', case v_reason result of None \<Rightarrow> JNull | Some r \<Rightarrow> JStr r),
       (''eventId'', coalesce (v_eventId result) JNull),
       (''checkedEventCount'', JNum (of_nat (length events))),
       (''signed'', JBool (truthy signingKey)),
       (''staged'', JBool True)]))"

definition createOutboxEvent :: "ctx \<Rightarrow> jsval \<Rightarrow> jsval res" where
  "createOutboxEvent c input =
    guard [(truthy (fld input ''eventType'') \<and> truthy (fld input ''aggregateType'')
              \<and> truthy (fld input ''aggregateId''),
            ''Outbox events require eventType, aggregateType, and aggregateId.'')]
      (Inr (JObj
        [(''id'', coalesce (fld input ''id'') (JStr (ctx_uuid c 0))),
         (''eventType'', fld input ''eventType''),
         (''eventVersion'', coalesce (fld input ''eventVersion'') (JNum 1)),
         (''aggregateType'', fld input ''aggregateType''),
         (''aggregateId'', fld input ''aggregateId''),
         (''tenantId'', coalesce (fld input ''tenantId'') JNull),
         (''payload'', coalesce (fld input ''payload'') (JObj [])),
         (''staged'', JBool True),
         (''status'', JStr ''pending''),
         (''occurredAt'', coalesce (fld input ''occurredAt'') (JStr (ctx_now c)))]))"

section \<open>Lemmas\<close>

lemma later_hashes [simp]:
  "ctx_sha256 (later c) = ctx_sha256 c" "ctx_hmac (later c) = ctx_hmac c" "ctx_now (later c) = ctx_now c"
  by (simp_all add: later_def)

lemma later_pow_sha [simp]: "ctx_sha256 ((later ^^ n) c) = ctx_sha256 c"
  and later_pow_hmac [simp]: "ctx_hmac ((later ^^ n) c) = ctx_hmac c"
  by (induction n) simp_all

lemma verdict_bad_ne [simp]: "verdict_bad w i \<noteq> verdict_ok" "verdict_ok \<noteq> verdict_bad w i"
  by (simp_all add: verdict_bad_def verdict_ok_def)

text \<open>The hash the next event links to.\<close>

definition last_hash :: "jsval \<Rightarrow> jsval list \<Rightarrow> jsval" where
  "last_hash p es = (if es = [] then p else fld (last es) ''eventHash'')"

lemma last_hash_simps [simp]:
  "last_hash p [] = p" "last_hash p (es @ [e]) = fld e ''eventHash''"
  "last_hash p (e # es) = last_hash (fld e ''eventHash'') es"
  by (simp_all add: last_hash_def)

lemma created_event:
  assumes "createAuditEvent c input = Inr ev"
  obtains t sig where "stableSerialize (JObj (audit_covered c input)) = Some t"
    "ev = JObj (audit_covered c input @ (''eventHash'', JStr (ctx_sha256 c t)) # sig)"
    "truthy (fld input ''tenantId'')" "truthy (fld input ''action'')"
    "truthy (fld input ''resourceType'')" "truthy (fld input ''resourceId'')"
    "truthy (fld input ''signingKey'') \<Longrightarrow> \<exists>k. fld input ''signingKey'' = JStr k \<and>
       sig = [(''signature'', JStr (ctx_hmac c k (ctx_sha256 c t)))]"
    "\<not> truthy (fld input ''signingKey'') \<Longrightarrow> sig = []"
  using assms
  by (auto simp: createAuditEvent_def Let_def guard_simps split: option.splits if_splits jsval.splits)

text \<open>The event a verification step recomputes.\<close>

definition checked_input :: "jsval \<Rightarrow> jsval \<Rightarrow> jsval \<Rightarrow> jsval" where
  "checked_input key p event = spread event
     [(''previousHash'', p), (''eventId'', fld event ''eventId''),
      (''correlationId'', fld event ''correlationId''), (''requestId'', fld event ''requestId''),
      (''timestamp'', fld event ''timestamp''), (''signingKey'', key)]"

lemma fld_checked_input:
  "fld (checked_input key p (JObj fs)) k =
     (if k = ''signingKey'' then key else if k = ''previousHash'' then p else fld (JObj fs) k)"
  by (auto simp: checked_input_def fld_spread)

lemma verify_step:
  assumes "verify_from c key p [e] = Inr verdict_ok"
  obtains t where "stableSerialize (JObj (audit_covered c (checked_input key p e))) = Some t"
    "fld e ''eventHash'' = JStr (ctx_sha256 c t)"
    "truthy key \<Longrightarrow> \<exists>k. key = JStr k \<and> fld e ''signature'' = JStr (ctx_hmac c k (ctx_sha256 c t))"
proof -
  obtain r where r: "createAuditEvent c (checked_input key p e) = Inr r"
    and heq: "strict_eq (fld r ''eventHash'') (fld e ''eventHash'')"
    and sg: "truthy key \<Longrightarrow> strict_eq (fld r ''signature'') (fld e ''signature'')"
    using assms
    by (auto simp: guard_simps get_fld_def checked_input_def split: if_splits)
  from heq have h: "fld e ''eventHash'' = fld r ''eventHash''" by (auto dest: strict_eq_eq)
  have k: "fld (checked_input key p e) ''signingKey'' = key"
    by (simp add: checked_input_def spread_def)
  show ?thesis
  proof (rule created_event [OF r], goal_cases)
    case (1 t sig)
    then have "fld e ''eventHash'' = JStr (ctx_sha256 c t)"
      using h by (simp add: audit_covered_def audit_base_def)
    moreover have "truthy key \<Longrightarrow> \<exists>k. key = JStr k \<and> fld e ''signature'' = JStr (ctx_hmac c k (ctx_sha256 c t))"
      using 1 k sg by (auto simp: audit_covered_def audit_base_def)
    ultimately show ?thesis using 1(1) that by blast
  qed
qed

lemma verify_append:
  "verify_from c key p (es @ fs) = Inr verdict_ok \<longleftrightarrow>
     verify_from c key p es = Inr verdict_ok \<and>
     verify_from ((later ^^ length es) c) key (last_hash p es) fs = Inr verdict_ok"
proof (induction es arbitrary: c p)
  case (Cons e es)
  show ?case
    by (simp add: guard_simps Cons.IH funpow_swap1) (auto simp: Cons.IH)
qed simp

text \<open>The audited properties, with null in place of an absent one.\<close>

definition audit_keys :: "string list" where
  "audit_keys = [''eventId'', ''tenantId'', ''actorType'', ''actorId'', ''action'', ''resourceType'',
     ''resourceId'', ''beforeStateRef'', ''afterStateRef'', ''correlationId'', ''requestId'', ''timestamp'']"

definition recorded :: "jsval \<Rightarrow> string \<Rightarrow> jsval" where
  "recorded e k = coalesce (fld e k) JNull"

text \<open>
  An event as \<open>createAuditEvent\<close> leaves it: an object with every property that has a default
  filled in, without functions.
\<close>

definition complete_event :: "jsval \<Rightarrow> bool" where
  "complete_event e = (is_obj e
     \<and> list_all (\<lambda>k. \<not> nullish (fld e k))
         [''eventId'', ''actorType'', ''actorId'', ''correlationId'', ''requestId'', ''timestamp'']
     \<and> list_all (\<lambda>k. \<not> json_absent (recorded e k)) audit_keys)"

lemma audit_covered_distinct: "distinct (map fst (audit_covered c input))"
  by (simp add: audit_covered_def audit_base_def)

lemma audit_covered_recorded:
  assumes "complete_event e" "k \<in> set audit_keys" "\<not> nullish (fld e ''tenantId'')"
    "\<not> nullish (fld e ''action'')" "\<not> nullish (fld e ''resourceType'')" "\<not> nullish (fld e ''resourceId'')"
  shows "map_of (audit_covered c (checked_input key p e)) k = Some (recorded e k)"
  using assms by (cases e) (auto simp: complete_event_def is_obj_def audit_keys_def audit_covered_def
      audit_base_def fld_checked_input recorded_def)

lemma covered_previousHash:
  "is_obj e \<Longrightarrow> map_of (audit_covered c (checked_input key p e)) ''previousHash'' = Some (coalesce p JNull)"
  by (cases e) (simp_all add: is_obj_def audit_covered_def audit_base_def fld_checked_input)

lemma verify_required:
  assumes "verify_from c key p [e] = Inr verdict_ok" "complete_event e"
    "k \<in> {''tenantId'', ''action'', ''resourceType'', ''resourceId''}"
  shows "truthy (fld e k)"
proof -
  obtain fs where e: "e = JObj fs" using assms(2) by (auto simp: complete_event_def is_obj_def split: jsval.splits)
  obtain r where "createAuditEvent c (checked_input key p e) = Inr r"
    using assms(1) by (auto simp: guard_simps get_fld_def checked_input_def split: if_splits)
  then show ?thesis
    using assms(3) e by (elim created_event) (auto simp: fld_checked_input)
qed

lemma truthy_not_nullish: "truthy v \<Longrightarrow> \<not> nullish v"
  by (cases v) auto

lemma int_nums_fld: "int_nums e \<Longrightarrow> int_nums (fld e k)"
  by (induction e k rule: fld.induct) (auto simp: fld.simps(1) list_all_iff split: option.splits dest: map_of_SomeD)

lemma int_nums_coalesce: "int_nums a \<Longrightarrow> int_nums b \<Longrightarrow> int_nums (coalesce a b)"
  by (simp add: coalesce_def)

lemma int_nums_covered:
  assumes "is_obj e" "int_nums e" "int_nums p"
  shows "int_nums (JObj (audit_covered c (checked_input key p e)))"
  using assms by (cases e) (simp_all add: is_obj_def audit_covered_def audit_base_def fld_checked_input
      int_nums_fld int_nums_coalesce)

text \<open>
  Without a collision of the hash function, two accepted events with the same hash agree on every
  audited property and on the link to the previous event.
\<close>

lemma same_hash_same_content:
  assumes ok: "verify_from c key p [e] = Inr verdict_ok" "verify_from c' key' p' [e'] = Inr verdict_ok"
    and sha: "ctx_sha256 c' = ctx_sha256 c" and inj: "inj (ctx_sha256 c)"
    and ev: "complete_event e" "complete_event e'" "int_nums e" "int_nums e'"
      "p = JNull \<or> (\<exists>x. p = JStr x)" "p' = JNull \<or> (\<exists>x. p' = JStr x)"
    and h: "fld e ''eventHash'' = fld e' ''eventHash''"
  shows "\<forall>k \<in> set audit_keys. image (recorded e k) = image (recorded e' k)"
    and "p = p'"
proof -
  have objs: "is_obj e" "is_obj e'" using ev by (auto simp: complete_event_def)
  let ?f = "audit_covered c (checked_input key p e)" and ?f' = "audit_covered c' (checked_input key' p' e')"
  obtain t where t: "stableSerialize (JObj ?f) = Some t" "fld e ''eventHash'' = JStr (ctx_sha256 c t)"
    using verify_step [OF ok(1)] by blast
  obtain t' where t': "stableSerialize (JObj ?f') = Some t'" "fld e' ''eventHash'' = JStr (ctx_sha256 c' t')"
    using verify_step [OF ok(2)] by blast
  have "t = t'" using t(2) t'(2) h sha inj by (auto dest: injD)
  then have im: "image (JObj ?f) = image (JObj ?f')"
    using stableSerialize_inj [OF int_nums_covered int_nums_covered t(1)] t'(1) \<open>t = t'\<close> ev objs
    by auto
  have req: "\<not> nullish (fld e k)" "\<not> nullish (fld e' k)"
    if "k \<in> {''tenantId'', ''action'', ''resourceType'', ''resourceId''}" for k
    using that verify_required [OF ok(1)] verify_required [OF ok(2)] ev truthy_not_nullish by blast+
  show "\<forall>k \<in> set audit_keys. image (recorded e k) = image (recorded e' k)"
  proof
    fix k assume k: "k \<in> set audit_keys"
    have np: "k \<noteq> ''__proto__''" using k by (auto simp: audit_keys_def)
    have ab: "\<not> json_absent (recorded e k)" "\<not> json_absent (recorded e' k)"
      using ev k by (auto simp: complete_event_def list_all_iff)
    have "fld (image (JObj ?f)) k = image (recorded e k)"
      using audit_covered_recorded [OF ev(1) k] req ab np by (intro image_obj audit_covered_distinct) simp_all
    moreover have "fld (image (JObj ?f')) k = image (recorded e' k)"
      using audit_covered_recorded [OF ev(2) k] req ab np by (intro image_obj audit_covered_distinct) simp_all
    ultimately show "image (recorded e k) = image (recorded e' k)" using im by simp
  qed
  have pm: "map_of ?f ''previousHash'' = Some p" "map_of ?f' ''previousHash'' = Some p'"
    using objs ev(5,6) covered_previousHash by fastforce+
  have "fld (image (JObj ?f)) ''previousHash'' = image p"
    using pm(1) ev(5) by (intro image_obj audit_covered_distinct) auto
  moreover have "fld (image (JObj ?f')) ''previousHash'' = image p'"
    using pm(2) ev(6) by (intro image_obj audit_covered_distinct) auto
  ultimately have "image p = image p'" using im by simp
  then show "p = p'" using ev(5,6) by (auto simp: image_def)
qed

lemma accepted_hash_string: "verify_from c key p [e] = Inr verdict_ok \<Longrightarrow> \<exists>x. fld e ''eventHash'' = JStr x"
  using verify_step by metis

lemma last_hash_shape:
  "verify_from c key JNull es = Inr verdict_ok \<Longrightarrow> last_hash JNull es = JNull \<or> (\<exists>x. last_hash JNull es = JStr x)"
proof (cases es rule: rev_cases)
  case (snoc fs e)
  assume "verify_from c key JNull es = Inr verdict_ok"
  with snoc show ?thesis using accepted_hash_string by (auto simp only: verify_append last_hash_simps)
qed simp

lemma chains_agree:
  assumes "verify_from c key JNull es = Inr verdict_ok" "verify_from c' key' JNull es' = Inr verdict_ok"
    and "ctx_sha256 c' = ctx_sha256 c" "inj (ctx_sha256 c)"
    and "list_all complete_event es" "list_all complete_event es'"
    and "list_all int_nums es" "list_all int_nums es'"
    and "length es = length es'" "last_hash JNull es = last_hash JNull es'"
  shows "list_all2 (\<lambda>e e'. \<forall>k \<in> set audit_keys. image (recorded e k) = image (recorded e' k)) es es'"
  using assms
proof (induction es arbitrary: es' rule: rev_induct)
  case (snoc e es)
  from snoc.prems(9) obtain fs e' where es': "es' = fs @ [e']"
    by (cases es' rule: rev_cases) auto
  let ?c = "(later ^^ length es) c" and ?c' = "(later ^^ length fs) c'"
  have v: "verify_from c key JNull es = Inr verdict_ok" "verify_from c' key' JNull fs = Inr verdict_ok"
    "verify_from ?c key (last_hash JNull es) [e] = Inr verdict_ok"
    "verify_from ?c' key' (last_hash JNull fs) [e'] = Inr verdict_ok"
    using snoc.prems(1,2) es' verify_append by blast+
  have side: "ctx_sha256 ?c' = ctx_sha256 ?c" "inj (ctx_sha256 ?c)" "complete_event e" "complete_event e'"
    "int_nums e" "int_nums e'" "fld e ''eventHash'' = fld e' ''eventHash''"
    using snoc.prems es' by simp_all
  note same = same_hash_same_content [OF v(3,4) side(1-6) last_hash_shape [OF v(1)] last_hash_shape [OF v(2)] side(7)]
  have "list_all2 (\<lambda>e e'. \<forall>k \<in> set audit_keys. image (recorded e k) = image (recorded e' k)) es fs"
    using snoc.prems es' same(2) v by (intro snoc.IH) simp_all
  with same(1) es' show ?case by (simp add: list_all2_appendI)
qed simp

text \<open>A created event is what verification recomputes.\<close>

lemma covered_again:
  assumes "createAuditEvent c' input = Inr ev" "fld input ''previousHash'' = p"
  shows "audit_covered c (checked_input key p ev) = audit_covered c' input"
  by (rule created_event [OF assms(1)])
    (simp add: assms(2) audit_covered_def audit_base_def fld_checked_input coalesce_def)

lemma recheck_created:
  assumes cr: "createAuditEvent c' input = Inr ev" and p: "fld input ''previousHash'' = p"
    and key: "fld input ''signingKey'' = key"
    and h: "ctx_sha256 c' = ctx_sha256 c" "ctx_hmac c' = ctx_hmac c" "\<And>k m. ctx_hmac c k m \<noteq> []"
  shows "verify_from c key p [ev] = Inr verdict_ok"
proof -
  obtain t sig where t: "stableSerialize (JObj (audit_covered c' input)) = Some t"
    and ev: "ev = JObj (audit_covered c' input @ (''eventHash'', JStr (ctx_sha256 c' t)) # sig)"
    and req: "truthy (fld input ''tenantId'')" "truthy (fld input ''action'')"
      "truthy (fld input ''resourceType'')" "truthy (fld input ''resourceId'')"
    and sig: "truthy (fld input ''signingKey'') \<Longrightarrow> \<exists>k. fld input ''signingKey'' = JStr k \<and>
       sig = [(''signature'', JStr (ctx_hmac c' k (ctx_sha256 c' t)))]"
    and nosig: "\<not> truthy (fld input ''signingKey'') \<Longrightarrow> sig = []"
    by (rule created_event [OF cr]) blast
  have f: "fld (checked_input key p ev) ''tenantId'' = fld input ''tenantId''"
    "fld (checked_input key p ev) ''action'' = fld input ''action''"
    "fld (checked_input key p ev) ''resourceType'' = fld input ''resourceType''"
    "fld (checked_input key p ev) ''resourceId'' = fld input ''resourceId''"
    by (simp_all add: ev fld_checked_input audit_covered_def audit_base_def)
  have sk: "fld (checked_input key p ev) ''signingKey'' = key"
    by (simp add: ev fld_checked_input)
  have out: "map_of (audit_covered c' input) ''eventHash'' = None" "map_of (audit_covered c' input) ''signature'' = None"
    by (simp_all add: audit_covered_def audit_base_def)
  have again: "createAuditEvent c (checked_input key p ev) = Inr ev"
  proof (cases "truthy key")
    case True
    with sig key obtain k where "key = JStr k" "sig = [(''signature'', JStr (ctx_hmac c' k (ctx_sha256 c' t)))]"
      by auto
    then show ?thesis
      using t covered_again [OF cr p, of c key] f req sk h ev True
      by (simp add: createAuditEvent_def Let_def)
  next
    case False
    with nosig key show ?thesis
      using t covered_again [OF cr p, of c key] f req sk h ev
      by (simp add: createAuditEvent_def Let_def)
  qed
  have hash: "fld ev ''eventHash'' = JStr (ctx_sha256 c' t)" "\<not> nullish ev"
    by (simp_all add: ev out map_add_def)
  have sg: "truthy key \<Longrightarrow> \<exists>s. fld ev ''signature'' = JStr s \<and> s \<noteq> []"
    using sig key h by (auto simp: ev out map_add_def)
  show ?thesis
    using again hash sg by (auto simp: get_fld_def simp flip: checked_input_def)
qed

section \<open>Properties\<close>

text \<open>
  C19. Tamper evidence. If two chains of the same length verify against the same hash function and
  end in the same event hash, then they agree on every audited property of every event, unless
  the hash function has a collision. (Recorded numbers are integers, and the events are complete
  objects, as \<open>createAuditEvent\<close> makes them.)
\<close>

theorem audit_tamper_evidence:
  assumes "verifyAuditChain c key es = Inr verdict_ok" "verifyAuditChain c' key' es' = Inr verdict_ok"
    and "ctx_sha256 c' = ctx_sha256 c"
    and "list_all complete_event es" "list_all complete_event es'"
    and "list_all int_nums es" "list_all int_nums es'"
    and "length es = length es'" "last_hash JNull es = last_hash JNull es'"
  shows "(\<exists>x y. x \<noteq> y \<and> ctx_sha256 c x = ctx_sha256 c y) \<or>
     list_all2 (\<lambda>e e'. \<forall>k \<in> set audit_keys. image (recorded e k) = image (recorded e' k)) es es'"
  using chains_agree [OF assms(1,2) [unfolded verifyAuditChain_def] assms(3) _ assms(4-9)]
  by (auto simp: inj_def)

definition demo_ctx :: ctx where
  "demo_ctx = \<lparr>ctx_uuid = (\<lambda>n. ''u'' @ nat_string n), ctx_now = ''2026-01-01T00:00:00.000Z'',
     ctx_sha256 = (\<lambda>s. s), ctx_hmac = (\<lambda>k s. ''m'' @ k @ s)\<rparr>"

definition demo_event :: jsval where
  "demo_event = JObj
    [(''eventId'', JStr ''e1''), (''tenantId'', JStr ''t''), (''actorType'', JStr ''user''),
     (''actorId'', JStr ''a''), (''action'', JStr ''x''), (''resourceType'', JStr ''r''),
     (''resourceId'', JStr ''1''), (''beforeStateRef'', JNull), (''afterStateRef'', JNull),
     (''correlationId'', JStr ''c''), (''requestId'', JStr ''q''), (''schemaVersion'', JNum 1),
     (''staged'', JBool True), (''timestamp'', JStr ''now''), (''previousHash'', JNull),
     (''eventHash'', JStr (the (stableSerialize (JObj (audit_covered demo_ctx
        (JObj [(''eventId'', JStr ''e1''), (''tenantId'', JStr ''t''), (''actorType'', JStr ''user''),
         (''actorId'', JStr ''a''), (''action'', JStr ''x''), (''resourceType'', JStr ''r''),
         (''resourceId'', JStr ''1''), (''correlationId'', JStr ''c''), (''requestId'', JStr ''q''),
         (''timestamp'', JStr ''now'')]))))))]"

lemma audit_tamper_evidence_witness:
  "(\<exists>x y. x \<noteq> y \<and> ctx_sha256 demo_ctx x = ctx_sha256 demo_ctx y) \<or>
     list_all2 (\<lambda>e e'. \<forall>k \<in> set audit_keys. image (recorded e k) = image (recorded e' k))
       [demo_event] [spread demo_event [(''schemaVersion'', JNum 2)]]"
proof (rule audit_tamper_evidence)
  show "verifyAuditChain demo_ctx JNull [demo_event] = Inr verdict_ok" by code_simp
  show "verifyAuditChain demo_ctx JNull [spread demo_event [(''schemaVersion'', JNum 2)]] = Inr verdict_ok"
    by code_simp
  show "list_all complete_event [demo_event]"
    "list_all complete_event [spread demo_event [(''schemaVersion'', JNum 2)]]" by code_simp+
  show "list_all int_nums [demo_event]" "list_all int_nums [spread demo_event [(''schemaVersion'', JNum 2)]]"
    by (simp_all add: demo_event_def spread_def)
  show "last_hash JNull [demo_event] = last_hash JNull [spread demo_event [(''schemaVersion'', JNum 2)]]"
    by code_simp
qed simp_all

text \<open>
  Appending keeps a chain valid: an event created with the hash of the last event as its
  \<open>previousHash\<close>, under the key the chain is verified with, extends a valid chain to a valid chain
  (\<open>hmac\<close> digests are never empty).
\<close>

theorem audit_append_valid:
  assumes "verifyAuditChain c key es = Inr verdict_ok"
    and "createAuditEvent c' input = Inr ev"
    and "fld input ''previousHash'' = last_hash JNull es" "fld input ''signingKey'' = key"
    and "ctx_sha256 c' = ctx_sha256 c" "ctx_hmac c' = ctx_hmac c"
    and "\<And>k m. ctx_hmac c k m \<noteq> []"
  shows "verifyAuditChain c key (es @ [ev]) = Inr verdict_ok"
  using assms(1) recheck_created [OF assms(2-4), of "(later ^^ length es) c"] assms(5-7)
  by (simp add: verifyAuditChain_def verify_append)

definition demo_input :: jsval where
  "demo_input = JObj [(''tenantId'', JStr ''t''), (''action'', JStr ''x''), (''resourceType'', JStr ''r''),
     (''resourceId'', JStr ''2''), (''previousHash'', fld demo_event ''eventHash''), (''signingKey'', JNull)]"

definition demo_created :: jsval where
  "demo_created = (case createAuditEvent demo_ctx demo_input of Inr e \<Rightarrow> e | Inl e \<Rightarrow> JUndef)"

lemma audit_append_valid_witness:
  "verifyAuditChain demo_ctx JNull ([demo_event] @ [demo_created]) = Inr verdict_ok"
proof (rule audit_append_valid)
  show "verifyAuditChain demo_ctx JNull [demo_event] = Inr verdict_ok" by code_simp
  show "createAuditEvent demo_ctx demo_input = Inr demo_created" by code_simp
  show "fld demo_input ''previousHash'' = last_hash JNull [demo_event]" by code_simp
  show "fld demo_input ''signingKey'' = JNull" by code_simp
qed (simp_all add: demo_ctx_def)

end
