(* ===== verification/Contracts.thy ===== *)
theory Contracts
  imports JsValue
begin

text \<open>
  The shared contracts (packages/shared-contracts/src/foundation.js), the synthetic sessions
  (packages/auth/src/synthetic-auth.js) and the staged-mode policy
  (packages/staged-mode/src/policy.js): entity factories that validate their input, the session
  guards every domain operation calls, and the outbound-operation guard.
\<close>

section \<open>Entity factories\<close>

definition organization_roles :: "string list" where
  "organization_roles =
    [''platform_admin'', ''company_admin'', ''executive'', ''department_head'', ''supervisor'',
     ''employee'', ''finance_reviewer'', ''legal_reviewer'', ''compliance_reviewer'',
     ''external_collaborator'', ''read_only_auditor'']"

definition project_roles :: "string list" where
  "project_roles =
    [''project_executive'', ''project_manager'', ''design_manager'', ''bim_vdc_manager'',
     ''discipline_lead'', ''designer'', ''engineer'', ''coordinator'', ''document_controller'',
     ''permit_coordinator'', ''superintendent'', ''field_user'', ''cost_reviewer'', ''approver'',
     ''viewer'']"

abbreviation staged_entity :: "jsval \<Rightarrow> bool \<times> string" where
  "staged_entity input \<equiv>
     (is_true (fld input ''staged''), ''Synthetic staged entities must set staged=true.'')"

definition createTenant :: "ctx \<Rightarrow> jsval \<Rightarrow> jsval res" where
  "createTenant cx input =
    guard [req (fld input ''id'') ''Tenant id'',
           req (fld input ''name'') ''Tenant name'',
           staged_entity input]
      (Inr (JObj
        [(''id'', fld input ''id''),
         (''name'', fld input ''name''),
         (''staged'', JBool True),
         (''status'', coalesce (fld input ''status'') (JStr ''active'')),
         (''createdAt'', coalesce (fld input ''createdAt'') (JStr (ctx_now cx)))]))"

definition createBusinessUnit :: "jsval \<Rightarrow> jsval res" where
  "createBusinessUnit input =
    guard [req (fld input ''id'') ''Business unit id'',
           req (fld input ''tenantId'') ''Business unit tenantId'',
           req (fld input ''name'') ''Business unit name'',
           staged_entity input]
      (Inr (JObj
        [(''id'', fld input ''id''),
         (''tenantId'', fld input ''tenantId''),
         (''name'', fld input ''name''),
         (''staged'', JBool True)]))"

definition createDepartment :: "jsval \<Rightarrow> jsval res" where
  "createDepartment input =
    guard [req (fld input ''id'') ''Department id'',
           req (fld input ''tenantId'') ''Department tenantId'',
           req (fld input ''businessUnitId'') ''Department businessUnitId'',
           req (fld input ''name'') ''Department name'',
           staged_entity input]
      (Inr (JObj
        [(''id'', fld input ''id''),
         (''tenantId'', fld input ''tenantId''),
         (''businessUnitId'', fld input ''businessUnitId''),
         (''name'', fld input ''name''),
         (''code'', coalesce (fld input ''code'') JNull),
         (''staged'', JBool True)]))"

definition createTeam :: "jsval \<Rightarrow> jsval res" where
  "createTeam input =
    guard [req (fld input ''id'') ''Team id'',
           req (fld input ''tenantId'') ''Team tenantId'',
           req (fld input ''departmentId'') ''Team departmentId'',
           req (fld input ''name'') ''Team name'',
           staged_entity input]
      (Inr (JObj
        [(''id'', fld input ''id''),
         (''tenantId'', fld input ''tenantId''),
         (''departmentId'', fld input ''departmentId''),
         (''name'', fld input ''name''),
         (''staged'', JBool True)]))"

definition createUser :: "jsval \<Rightarrow> jsval res" where
  "createUser input =
    guard [req (fld input ''id'') ''User id'',
           req (fld input ''tenantId'') ''User tenantId'',
           req (fld input ''email'') ''User email'',
           req (fld input ''displayName'') ''User displayName'',
           staged_entity input]
      (Inr (JObj
        [(''id'', fld input ''id''),
         (''tenantId'', fld input ''tenantId''),
         (''email'', fld input ''email''),
         (''displayName'', fld input ''displayName''),
         (''staged'', JBool True),
         (''status'', coalesce (fld input ''status'') (JStr ''active''))]))"

definition createMembership :: "jsval \<Rightarrow> jsval res" where
  "createMembership input =
    guard [req (fld input ''id'') ''Membership id'',
           req (fld input ''tenantId'') ''Membership tenantId'',
           req (fld input ''userId'') ''Membership userId'',
           req (fld input ''departmentId'') ''Membership departmentId'',
           req (fld input ''teamId'') ''Membership teamId'',
           staged_entity input,
           (one_of organization_roles (fld input ''organizationRole''),
            ''Unknown organization role: '' @ js_string (fld input ''organizationRole''))]
      (Inr (JObj
        [(''id'', fld input ''id''),
         (''tenantId'', fld input ''tenantId''),
         (''userId'', fld input ''userId''),
         (''departmentId'', fld input ''departmentId''),
         (''teamId'', fld input ''teamId''),
         (''organizationRole'', fld input ''organizationRole''),
         (''staged'', JBool True)]))"

definition createProject :: "jsval \<Rightarrow> jsval res" where
  "createProject input =
    guard [req (fld input ''id'') ''Project id'',
           req (fld input ''tenantId'') ''Project tenantId'',
           req (fld input ''name'') ''Project name'',
           staged_entity input]
      (Inr (JObj
        [(''id'', fld input ''id''),
         (''tenantId'', fld input ''tenantId''),
         (''name'', fld input ''name''),
         (''projectType'', coalesce (fld input ''projectType'') (JStr ''commercial'')),
         (''status'', coalesce (fld input ''status'') (JStr ''draft'')),
         (''staged'', JBool True)]))"

definition createProjectParticipant :: "jsval \<Rightarrow> jsval res" where
  "createProjectParticipant input =
    guard [req (fld input ''id'') ''Project participant id'',
           req (fld input ''tenantId'') ''Project participant tenantId'',
           req (fld input ''projectId'') ''Project participant projectId'',
           req (fld input ''userId'') ''Project participant userId'',
           staged_entity input,
           (one_of project_roles (fld input ''projectRole''),
            ''Unknown project role: '' @ js_string (fld input ''projectRole''))]
      (Inr (JObj
        [(''id'', fld input ''id''),
         (''tenantId'', fld input ''tenantId''),
         (''projectId'', fld input ''projectId''),
         (''userId'', fld input ''userId''),
         (''projectRole'', fld input ''projectRole''),
         (''staged'', JBool True)]))"

text \<open>A \<open>Set\<close> of values: the distinct values, as \<open>new Set(...)\<close> keeps them.\<close>

fun js_set :: "jsval list \<Rightarrow> jsval list" where
  "js_set [] = []"
| "js_set (x # xs) = x # filter (\<lambda>y. \<not> same_value_zero x y) (js_set xs)"

definition assertSameTenant :: "jsval list \<Rightarrow> unit res" where
  "assertSameTenant records =
    (let tenantIds = js_set (map (\<lambda>r. coalesce (fld r ''tenantId'') (fld r ''id'')) (filter truthy records))
     in guard [(length tenantIds \<le> 1, ''Cross-tenant combination rejected.'')] (Inr ()))"

definition getFoundationRoleCatalog :: "string list \<times> string list" where
  "getFoundationRoleCatalog = (organization_roles, project_roles)"

section \<open>Synthetic sessions\<close>

definition createSyntheticSession :: "jsval \<Rightarrow> jsval res" where
  "createSyntheticSession input =
    guard [req (fld input ''sessionId'') ''sessionId'',
           req (fld input ''tenantId'') ''tenantId'',
           req (fld input ''userId'') ''userId'',
           (is_true (fld input ''staged''), ''Synthetic sessions must be marked staged=true.'')]
      (Inr (JObj
        [(''sessionId'', fld input ''sessionId''),
         (''tenantId'', fld input ''tenantId''),
         (''userId'', fld input ''userId''),
         (''organizationRole'', coalesce (fld input ''organizationRole'') (JStr ''employee'')),
         (''projectRoles'', coalesce (fld input ''projectRoles'') (JArr [])),
         (''allowedProjectIds'', coalesce (fld input ''allowedProjectIds'') (JArr [])),
         (''staged'', JBool True)]))"

definition assertSessionTenantAccess :: "jsval \<Rightarrow> jsval \<Rightarrow> unit res" where
  "assertSessionTenantAccess session tenantId =
    guard [(truthy session \<and> is_true (fld session ''staged''), ''A staged synthetic session is required.''),
           (strict_eq (fld session ''tenantId'') tenantId, ''Tenant access denied.'')]
      (Inr ())"

definition assertProjectAccess :: "jsval \<Rightarrow> jsval \<Rightarrow> unit res" where
  "assertProjectAccess session projectId =
    and_then (get_fld session ''allowedProjectIds'') (\<lambda>allowed.
    and_then (includes_call allowed projectId) (\<lambda>found.
    guard [(found, ''Project access denied.'')] (Inr ())))"

definition buildAuthContext :: "jsval \<Rightarrow> jsval res" where
  "buildAuthContext session =
    guard [(truthy session \<and> is_true (fld session ''staged''),
            ''Cannot build auth context without a staged session.'')]
      (Inr (JObj
        [(''actorType'', JStr ''user''),
         (''actorId'', fld session ''userId''),
         (''tenantId'', fld session ''tenantId''),
         (''organizationRole'', fld session ''organizationRole''),
         (''projectRoles'', fld session ''projectRoles''),
         (''allowedProjectIds'', fld session ''allowedProjectIds''),
         (''staged'', JBool True)]))"

text \<open>The pair of guards the project-scoped operations start with.\<close>

definition project_guards :: "jsval \<Rightarrow> jsval \<Rightarrow> jsval \<Rightarrow> unit res" where
  "project_guards session tenantId projectId =
    and_then (assertSessionTenantAccess session tenantId) (\<lambda>_. assertProjectAccess session projectId)"

section \<open>Staged mode\<close>

definition blocked_hostname_fragments :: "string list" where
  "blocked_hostname_fragments =
    [''autodesk.com'', ''procore.com'', ''trimble.com'', ''microsoft.com'', ''office.com'',
     ''quickbooks.com'', ''intuit.com'', ''production'', ''prod.'']"

definition blocked_credential_patterns :: "string list" where
  "blocked_credential_patterns =
    [''sk_live_'', ''Bearer '', ''client_secret'', ''refresh_token'', ''prod_'']"

definition getStagedMode :: "jsval \<Rightarrow> bool" where
  "getStagedMode config = (fld config ''STAGED_MODE'' \<noteq> JBool False)"

definition assertStagedMode :: "jsval \<Rightarrow> unit res" where
  "assertStagedMode config =
    guard [(getStagedMode config, ''STAGED_MODE enforcement cannot be disabled in this repository.'')]
      (Inr ())"

text \<open>\<open>String(v || "")\<close>.\<close>

definition string_or_empty :: "jsval \<Rightarrow> string" where
  "string_or_empty v = (if truthy v then js_string v else [])"

definition assertNoProductionTarget :: "jsval \<Rightarrow> unit res" where
  "assertNoProductionTarget target =
    (let normalized = js_lower (string_or_empty target) in
     guard (map (\<lambda>fragment. (\<not> contains normalized (js_lower fragment),
                  ''Blocked potential production target: '' @ js_string target))
              blocked_hostname_fragments)
       (Inr ()))"

definition assertNoLiveCredentialValue :: "jsval \<Rightarrow> unit res" where
  "assertNoLiveCredentialValue v =
    guard (map (\<lambda>pattern. (\<not> contains (string_or_empty v) pattern,
                 ''Blocked potential live credential pattern: '' @ pattern))
             blocked_credential_patterns)
      (Inr ())"

definition assertStagedOutboundOperation :: "jsval \<Rightarrow> jsval res" where
  "assertStagedOutboundOperation operation =
    guard [(truthy operation \<and> (is_obj operation \<or> is_array operation), ''Operation metadata is required.'')]
    (and_then (if fld operation ''config'' = JNull then Inl type_error
               else assertStagedMode (fld operation ''config'')) (\<lambda>_.
     and_then (assertNoProductionTarget (fld operation ''target'')) (\<lambda>_.
     and_then (if truthy (fld operation ''credentialValue'')
               then assertNoLiveCredentialValue (fld operation ''credentialValue'') else Inr ()) (\<lambda>_.
     guard [(\<not> (truthy (fld operation ''method'') \<and> \<not> one_of [''GET'', ''HEAD''] (fld operation ''method'')),
             ''Blocked outbound write-like method in staged mode: '' @ js_string (fld operation ''method''))]
       (Inr (JObj [(''allowed'', JBool True), (''staged'', JBool True)]))))))"

definition createPolicyViolationRecord :: "ctx \<Rightarrow> jsval \<Rightarrow> jsval" where
  "createPolicyViolationRecord cx input = JObj
    [(''type'', JStr ''staged_policy_violation''),
     (''target'', coalesce (fld input ''target'') JNull),
     (''reason'', coalesce (fld input ''reason'') (JStr ''unknown'')),
     (''occurredAt'', coalesce (fld input ''occurredAt'') (JStr (ctx_now cx))),
     (''staged'', JBool True)]"

section \<open>Lemmas\<close>

lemma assertSessionTenantAccess_ok [guard_simps]:
  "assertSessionTenantAccess session tenantId = Inr u \<longleftrightarrow>
     is_true (fld session ''staged'') \<and> strict_eq (fld session ''tenantId'') tenantId"
  by (cases session) (auto simp: assertSessionTenantAccess_def guard_simps split: option.splits)

lemma assertProjectAccess_ok [guard_simps]:
  "assertProjectAccess session projectId = Inr u \<longleftrightarrow>
     includes_call (fld session ''allowedProjectIds'') projectId = Inr True"
  by (cases session) (auto simp: assertProjectAccess_def get_fld_def guard_simps)

lemma project_guards_ok [guard_simps]:
  "project_guards session tenantId projectId = Inr u \<longleftrightarrow>
     is_true (fld session ''staged'') \<and> strict_eq (fld session ''tenantId'') tenantId \<and>
     includes_call (fld session ''allowedProjectIds'') projectId = Inr True"
  by (simp add: project_guards_def guard_simps)

lemma js_set_members: "set (js_set vs) = set vs"
proof (induction vs)
  case (Cons x xs)
  then show ?case by (auto dest: same_value_zero_eq)
qed simp

text \<open>A set of strings has at most one element exactly if all of them are equal.\<close>

lemma js_set_single:
  assumes "list_all (\<lambda>v. \<exists>s. v = JStr s) vs"
  shows "length (js_set vs) \<le> Suc 0 \<longleftrightarrow> (\<forall>v \<in> set vs. \<forall>w \<in> set vs. v = w)"
proof (cases vs)
  case (Cons x xs)
  then obtain s where x: "x = JStr s" using assms by auto
  have "length (js_set vs) \<le> Suc 0 \<longleftrightarrow> (\<forall>y \<in> set xs. y = x)"
    using Cons x js_set_members [of xs] by (simp add: filter_empty_conv)
  with Cons show ?thesis by auto
qed simp

lemma guard_map_Inr: "guard (map (\<lambda>x. (P x, m x)) xs) (Inr u) = Inr v \<longleftrightarrow> list_all P xs \<and> u = v"
  by (auto simp: guard_simps list_all_iff)

section \<open>Properties\<close>

text \<open>
  The staged outbound guard: an operation is let through exactly if the staged mode is on, no
  blocked host fragment occurs in its lower-cased target, no live credential pattern occurs in
  its credential, and its method, when given, is GET or HEAD.
\<close>

theorem outbound_allowed_iff:
  "\<not> isl (assertStagedOutboundOperation (JObj fs)) \<longleftrightarrow>
     fld (JObj fs) ''config'' \<noteq> JNull \<and> fld (fld (JObj fs) ''config'') ''STAGED_MODE'' \<noteq> JBool False
     \<and> list_all (\<lambda>f. \<not> contains (js_lower (string_or_empty (fld (JObj fs) ''target''))) (js_lower f))
         blocked_hostname_fragments
     \<and> list_all (\<lambda>p. \<not> contains (string_or_empty (fld (JObj fs) ''credentialValue'')) p)
         blocked_credential_patterns
     \<and> (truthy (fld (JObj fs) ''method'') = one_of [''GET'', ''HEAD''] (fld (JObj fs) ''method''))"
proof -
  have ok_iff: "\<not> isl r \<longleftrightarrow> (\<exists>v. r = Inr v)" for r :: "jsval res"
    by (cases r) auto
  have target: "assertNoProductionTarget t = Inr u \<longleftrightarrow>
      list_all (\<lambda>f. \<not> contains (js_lower (string_or_empty t)) (js_lower f)) blocked_hostname_fragments" for t u
    by (simp add: assertNoProductionTarget_def guard_map_Inr)
  have cred: "(if truthy v then assertNoLiveCredentialValue v else Inr ()) = Inr u \<longleftrightarrow>
      list_all (\<lambda>p. \<not> contains (string_or_empty v) p) blocked_credential_patterns" for v u
    by (auto simp: assertNoLiveCredentialValue_def guard_map_Inr string_or_empty_def
        blocked_credential_patterns_def guard_simps)
  have verb: "\<not> (truthy m \<and> \<not> one_of [''GET'', ''HEAD''] m) \<longleftrightarrow> truthy m = one_of [''GET'', ''HEAD''] m" for m
    by (auto dest: one_ofD)
  have safe: "one_of [''GET'', ''HEAD''] m \<Longrightarrow> truthy m" for m
    by (auto dest: one_ofD)
  show ?thesis
    unfolding ok_iff assertStagedOutboundOperation_def
    by (auto simp: guard_simps target cred verb is_obj_def assertStagedMode_def getStagedMode_def dest: safe)
qed

text \<open>
  Cross-tenant combinations are rejected: a list of records that all carry a string as tenant
  (their \<open>tenantId\<close>, or their \<open>id\<close> where it is missing) is accepted exactly if all name the same.
\<close>

theorem assertSameTenant_iff:
  assumes "list_all (\<lambda>r. \<exists>s. coalesce (fld r ''tenantId'') (fld r ''id'') = JStr s) (filter truthy records)"
  shows "assertSameTenant records = Inr () \<longleftrightarrow>
    (\<exists>t. \<forall>r \<in> set records. \<not> truthy r \<or> coalesce (fld r ''tenantId'') (fld r ''id'') = t)"
proof -
  let ?t = "\<lambda>r. coalesce (fld r ''tenantId'') (fld r ''id'')"
  have "list_all (\<lambda>v. \<exists>s. v = JStr s) (map ?t (filter truthy records))"
    using assms by (simp add: list_all_iff)
  note single = js_set_single [OF this]
  have "assertSameTenant records = Inr () \<longleftrightarrow> length (js_set (map ?t (filter truthy records))) \<le> Suc 0"
    by (simp add: assertSameTenant_def Let_def guard_simps)
  also have "\<dots> \<longleftrightarrow> (\<forall>r \<in> set records. \<forall>q \<in> set records. truthy r \<longrightarrow> truthy q \<longrightarrow> ?t r = ?t q)"
    unfolding single by auto
  also have "\<dots> \<longleftrightarrow> (\<exists>t. \<forall>r \<in> set records. \<not> truthy r \<or> ?t r = t)"
    by blast
  finally show ?thesis .
qed

lemma assertSameTenant_witness:
  "assertSameTenant [JObj [(''tenantId'', JStr ''a'')], JNull, JObj [(''id'', JStr ''a'')]] = Inr ()"
  by (subst assertSameTenant_iff) auto

end
