(* ===== verification/Lifecycle.thy ===== *)
theory Lifecycle
  imports AuditTrail Contracts
begin

text \<open>
  Projects and permits: the discipline packages, review sessions and comments and the project
  lifecycle of packages/projects/src/index.js, and the permit packages and their lifecycle of
  packages/permits/src/index.js. Both lifecycles are tables of allowed transitions behind guards.
  The list parameters of the transitions are arrays.
\<close>

section \<open>Projects\<close>

definition discipline_set :: "string list" where
  "discipline_set =
    [''architecture'', ''structural'', ''foundation'', ''framing'', ''plumbing'', ''electrical'',
     ''mechanical_hvac'', ''interior_design'', ''landscape'', ''civil_site'',
     ''construction_coordination'', ''permitting_code_review'']"

definition lifecycle_states :: "string list" where
  "lifecycle_states =
    [''draft'', ''internal_review'', ''coordination_review'', ''returned_for_revision'',
     ''approved_for_permit'', ''approved_for_pricing'', ''approved_for_construction'',
     ''field_revision'', ''as_built'', ''superseded'', ''archived'']"

definition allowed_transitions :: "(string \<times> string list) list" where
  "allowed_transitions =
    [(''draft'', [''internal_review'']),
     (''internal_review'', [''coordination_review'', ''returned_for_revision'']),
     (''coordination_review'', [''returned_for_revision'', ''approved_for_permit'', ''approved_for_pricing'']),
     (''returned_for_revision'', [''internal_review'']),
     (''approved_for_permit'', [''approved_for_construction'', ''field_revision'']),
     (''approved_for_pricing'', [''approved_for_construction'']),
     (''approved_for_construction'', [''field_revision'', ''as_built'']),
     (''field_revision'', [''approved_for_construction'', ''as_built'']),
     (''as_built'', [''archived'']),
     (''superseded'', []),
     (''archived'', [])]"

definition createDisciplinePackage :: "jsval \<Rightarrow> jsval res" where
  "createDisciplinePackage input =
    guard [req (fld input ''id'') ''Discipline package id'',
           req (fld input ''tenantId'') ''Discipline package tenantId'',
           req (fld input ''projectId'') ''Discipline package projectId'',
           req (fld input ''discipline'') ''Discipline package discipline'',
           req (fld input ''leadUserId'') ''Discipline package leadUserId'',
           req_array (coalesce (fld input ''memberUserIds'') (JArr [])) ''Discipline package memberUserIds'',
           (one_of discipline_set (fld input ''discipline''),
            ''Unknown discipline: '' @ js_string (fld input ''discipline'')),
           (is_true (fld input ''staged''), ''Discipline packages must be staged synthetic records.'')]
      (Inr (JObj
        [(''id'', fld input ''id''),
         (''tenantId'', fld input ''tenantId''),
         (''projectId'', fld input ''projectId''),
         (''discipline'', fld input ''discipline''),
         (''leadUserId'', fld input ''leadUserId''),
         (''memberUserIds'', fld input ''memberUserIds''),
         (''scope'', coalesce (fld input ''scope'') (JStr [])),
         (''deliverables'', coalesce (fld input ''deliverables'') (JArr [])),
         (''dependencies'', coalesce (fld input ''dependencies'') (JArr [])),
         (''drawingIds'', coalesce (fld input ''drawingIds'') (JArr [])),
         (''modelIds'', coalesce (fld input ''modelIds'') (JArr [])),
         (''reviewGate'', coalesce (fld input ''reviewGate'') (JStr ''internal_review'')),
         (''completionStatus'', coalesce (fld input ''completionStatus'') (JStr ''not_started'')),
         (''staged'', JBool True)]))"

definition createReviewSession :: "jsval \<Rightarrow> jsval res" where
  "createReviewSession input =
    guard [req (fld input ''id'') ''Review session id'',
           req (fld input ''tenantId'') ''Review session tenantId'',
           req (fld input ''projectId'') ''Review session projectId'',
           req (fld input ''createdBy'') ''Review session createdBy'',
           req_array (coalesce (fld input ''artifactRefs'') (JArr [])) ''Review session artifactRefs'',
           (is_true (fld input ''staged''), ''Review sessions must be staged synthetic records.'')]
      (Inr (JObj
        [(''id'', fld input ''id''),
         (''tenantId'', fld input ''tenantId''),
         (''projectId'', fld input ''projectId''),
         (''createdBy'', fld input ''createdBy''),
         (''artifactRefs'', fld input ''artifactRefs''),
         (''status'', coalesce (fld input ''status'') (JStr ''open'')),
         (''commentIds'', coalesce (fld input ''commentIds'') (JArr [])),
         (''staged'', JBool True)]))"

definition createReviewComment :: "jsval \<Rightarrow> jsval res" where
  "createReviewComment input =
    guard [req (fld input ''id'') ''Review comment id'',
           req (fld input ''tenantId'') ''Review comment tenantId'',
           req (fld input ''reviewSessionId'') ''Review comment reviewSessionId'',
           req (fld input ''authorUserId'') ''Review comment authorUserId'',
           req (fld input ''body'') ''Review comment body'']
      (Inr (JObj
        [(''id'', fld input ''id''),
         (''tenantId'', fld input ''tenantId''),
         (''reviewSessionId'', fld input ''reviewSessionId''),
         (''authorUserId'', fld input ''authorUserId''),
         (''body'', fld input ''body''),
         (''markupRef'', coalesce (fld input ''markupRef'') JNull),
         (''dueDate'', coalesce (fld input ''dueDate'') JNull),
         (''staged'', JBool True)]))"

definition needs_clearance :: "string list" where
  "needs_clearance = [''approved_for_permit'', ''approved_for_construction'']"

definition transitionLifecycle ::
  "ctx \<Rightarrow> jsval \<Rightarrow> jsval \<Rightarrow> jsval \<Rightarrow> jsval \<Rightarrow> jsval list \<Rightarrow> jsval list \<Rightarrow> jsval \<Rightarrow> jsval res" where
  "transitionLifecycle cx session project fromState toState requiredArtifactRefs blockingIssueIds correlationId =
    and_then (get_fld project ''tenantId'') (\<lambda>tenantId.
    and_then (project_guards session tenantId (fld project ''id'')) (\<lambda>_.
    guard [(one_of lifecycle_states fromState \<and> one_of lifecycle_states toState,
            ''Unknown lifecycle state transition.''),
           (strict_eq (fld project ''status'') fromState,
            ''Project lifecycle transition rejected: stale fromState.'')]
    (and_then (table_includes allowed_transitions fromState toState) (\<lambda>found.
    guard [(found, ''Project lifecycle transition rejected: '' @ js_string fromState @ '' -> '' @ js_string toState),
           (\<not> (length blockingIssueIds > 0 \<and> one_of needs_clearance toState),
            ''Project lifecycle transition rejected: blocking issues remain.''),
           (\<not> (length requiredArtifactRefs = 0 \<and> one_of needs_clearance toState),
            ''Project lifecycle transition rejected: required artifacts missing.'')]
    (and_then (createAuditEvent cx (JObj
        [(''tenantId'', tenantId),
         (''actorType'', JStr ''user''),
         (''actorId'', fld session ''userId''),
         (''action'', JStr ''project.lifecycle.transitioned''),
         (''resourceType'', JStr ''project''),
         (''resourceId'', fld project ''id''),
         (''beforeStateRef'', fromState),
         (''afterStateRef'', toState),
         (''correlationId'', correlationId)])) (\<lambda>auditEvent.
     and_then (createOutboxEvent (later cx) (JObj
        [(''eventType'', JStr ''project.lifecycle.transitioned''),
         (''aggregateType'', JStr ''project''),
         (''aggregateId'', fld project ''id''),
         (''tenantId'', tenantId),
         (''payload'', JObj
           [(''fromState'', fromState), (''toState'', toState),
            (''requiredArtifactRefs'', JArr requiredArtifactRefs)])])) (\<lambda>outboxEvent.
     Inr (JObj
        [(''project'', spread project [(''status'', toState)]),
         (''auditEvent'', auditEvent),
         (''outboxEvent'', outboxEvent)]))))))))"

section \<open>Permits\<close>

definition permit_state_set :: "string list" where
  "permit_state_set =
    [''package_preparation'', ''internal_completeness_review'', ''ready_for_submission'',
     ''simulated_submitted'', ''reviewer_comments_received'', ''revision_required'',
     ''revision_in_progress'', ''simulated_resubmitted'', ''simulated_approved'', ''closed'']"

definition allowed_permit_transitions :: "(string \<times> string list) list" where
  "allowed_permit_transitions =
    [(''package_preparation'', [''internal_completeness_review'']),
     (''internal_completeness_review'', [''ready_for_submission'', ''revision_required'']),
     (''ready_for_submission'', [''simulated_submitted'']),
     (''simulated_submitted'', [''reviewer_comments_received'', ''simulated_approved'']),
     (''reviewer_comments_received'', [''revision_required'', ''simulated_approved'']),
     (''revision_required'', [''revision_in_progress'']),
     (''revision_in_progress'', [''simulated_resubmitted'']),
     (''simulated_resubmitted'', [''reviewer_comments_received'', ''simulated_approved'']),
     (''simulated_approved'', [''closed'']),
     (''closed'', [])]"

definition createPermitPackage :: "jsval \<Rightarrow> jsval res" where
  "createPermitPackage input =
    guard [req (fld input ''id'') ''Permit package id'',
           req (fld input ''tenantId'') ''Permit package tenantId'',
           req (fld input ''projectId'') ''Permit package projectId'',
           req (fld input ''jurisdictionProfile'') ''Permit package jurisdictionProfile'',
           req (fld input ''status'') ''Permit package status'',
           (one_of permit_state_set (fld input ''status''),
            ''Unknown permit status: '' @ js_string (fld input ''status''))]
      (Inr (JObj
        [(''id'', fld input ''id''),
         (''tenantId'', fld input ''tenantId''),
         (''projectId'', fld input ''projectId''),
         (''jurisdictionProfile'', fld input ''jurisdictionProfile''),
         (''status'', fld input ''status''),
         (''submissionPackageRefs'', coalesce (fld input ''submissionPackageRefs'') (JArr [])),
         (''requiredFormsChecklist'', coalesce (fld input ''requiredFormsChecklist'') (JArr [])),
         (''reviewComments'', coalesce (fld input ''reviewComments'') (JArr [])),
         (''responseMatrix'', coalesce (fld input ''responseMatrix'') (JArr [])),
         (''submissionCycles'', coalesce (fld input ''submissionCycles'') (JNum 0)),
         (''permitReadinessFindings'', coalesce (fld input ''permitReadinessFindings'') (JArr [])),
         (''staged'', JBool True)]))"

definition submission_states :: "string list" where
  "submission_states = [''simulated_submitted'', ''simulated_resubmitted'']"

definition transitionPermitPackage :: "ctx \<Rightarrow> jsval \<Rightarrow> jsval \<Rightarrow> jsval \<Rightarrow> jsval list \<Rightarrow> jsval res" where
  "transitionPermitPackage cx session permitPackage nextStatus reviewComments =
    and_then (get_fld permitPackage ''tenantId'') (\<lambda>tenantId.
    and_then (project_guards session tenantId (fld permitPackage ''projectId'')) (\<lambda>_.
    guard [(one_of permit_state_set nextStatus, ''Unknown permit status: '' @ js_string nextStatus)]
    (and_then (table_includes allowed_permit_transitions (fld permitPackage ''status'') nextStatus) (\<lambda>found.
    guard [(found, ''Permit lifecycle transition rejected: '' @ js_string (fld permitPackage ''status'')
                     @ '' -> '' @ js_string nextStatus)]
    (and_then (if nextStatus = JStr ''ready_for_submission''
               then includes_call (fld permitPackage ''requiredFormsChecklist'') (JBool False)
               else Inr False) (\<lambda>incomplete.
    guard [(\<not> incomplete, ''Permit lifecycle transition rejected: required forms incomplete.'')]
    (and_then (if nextStatus = JStr ''simulated_submitted''
               then get_fld (fld permitPackage ''submissionPackageRefs'') ''length''
               else Inr JUndef) (\<lambda>len.
    guard [(\<not> strict_eq len (JNum 0), ''Permit lifecycle transition rejected: submission package missing.''),
           (\<not> (nextStatus = JStr ''reviewer_comments_received'' \<and> length reviewComments = 0),
            ''Permit lifecycle transition rejected: review comments are required.'')]
    (and_then (createAuditEvent cx (JObj
        [(''tenantId'', tenantId),
         (''actorType'', JStr ''user''),
         (''actorId'', fld session ''userId''),
         (''action'', JStr ''permit.lifecycle.transitioned''),
         (''resourceType'', JStr ''permit_package''),
         (''resourceId'', fld permitPackage ''id''),
         (''beforeStateRef'', fld permitPackage ''status''),
         (''afterStateRef'', nextStatus)])) (\<lambda>auditEvent.
     and_then (createOutboxEvent (later cx) (JObj
        [(''eventType'', JStr ''permit.lifecycle.transitioned''),
         (''aggregateType'', JStr ''permit_package''),
         (''aggregateId'', fld permitPackage ''id''),
         (''tenantId'', tenantId),
         (''payload'', JObj [(''nextStatus'', nextStatus)])])) (\<lambda>outboxEvent.
     Inr (JObj
        [(''permitPackage'', spread permitPackage
            [(''status'', nextStatus),
             (''reviewComments'', if length reviewComments > 0 then JArr reviewComments
                                  else fld permitPackage ''reviewComments''),
             (''submissionCycles'', if one_of submission_states nextStatus
                                    then js_add1 (fld permitPackage ''submissionCycles'')
                                    else fld permitPackage ''submissionCycles'')]),
         (''auditEvent'', auditEvent),
         (''outboxEvent'', outboxEvent)]))))))))))))"

section \<open>The lifecycles as step relations\<close>

inductive lifecycle_step :: "string \<Rightarrow> string \<Rightarrow> bool" where
  "(a, bs) \<in> set allowed_transitions \<Longrightarrow> b \<in> set bs \<Longrightarrow> lifecycle_step a b"

inductive permit_step :: "string \<Rightarrow> string \<Rightarrow> bool" where
  "(a, bs) \<in> set allowed_permit_transitions \<Longrightarrow> b \<in> set bs \<Longrightarrow> permit_step a b"

inductive_cases lifecycle_stepE: "lifecycle_step a b"
inductive_cases permit_stepE: "permit_step a b"
inductive_simps lifecycle_step_iff: "lifecycle_step a b"
inductive_simps permit_step_iff: "permit_step a b"

lemma table_includes_iff:
  assumes "distinct (map fst tab)"
  shows "table_includes tab (JStr a) (JStr b) = Inr True \<longleftrightarrow> (\<exists>bs. (a, bs) \<in> set tab \<and> b \<in> set bs)"
proof -
  have "(a, bs) \<in> set tab \<longleftrightarrow> map_of tab a = Some bs" for bs
    using assms by simp
  then show ?thesis by (simp add: table_includes_def split: option.splits)
qed

text \<open>A fact about all entries of a table is one about all steps.\<close>

lemma all_steps:
  "list_all (\<lambda>(a, bs). list_all (P a) bs) tab \<Longrightarrow> (a, bs) \<in> set tab \<Longrightarrow> b \<in> set bs \<Longrightarrow> P a b"
  by (auto simp: list_all_iff)

lemma allowed_transitions_distinct: "distinct (map fst allowed_transitions)"
  and allowed_permit_transitions_distinct: "distinct (map fst allowed_permit_transitions)"
  by code_simp+

lemma lifecycle_step_table: "table_includes allowed_transitions (JStr a) (JStr b) = Inr True \<longleftrightarrow> lifecycle_step a b"
  by (simp add: table_includes_iff [OF allowed_transitions_distinct] lifecycle_step_iff)

lemma permit_step_table:
  "table_includes allowed_permit_transitions (JStr a) (JStr b) = Inr True \<longleftrightarrow> permit_step a b"
  by (simp add: table_includes_iff [OF allowed_permit_transitions_distinct] permit_step_iff)

lemma lifecycle_step_all: "list_all (\<lambda>(a, bs). list_all (P a) bs) allowed_transitions \<Longrightarrow> lifecycle_step a b \<Longrightarrow> P a b"
  by (auto elim!: lifecycle_stepE intro: all_steps)

lemma permit_step_all: "list_all (\<lambda>(a, bs). list_all (P a) bs) allowed_permit_transitions \<Longrightarrow> permit_step a b \<Longrightarrow> P a b"
  by (auto elim!: permit_stepE intro: all_steps)

lemma lifecycle_step_states: "lifecycle_step a b \<Longrightarrow> a \<in> set lifecycle_states \<and> b \<in> set lifecycle_states"
  by (rule lifecycle_step_all) code_simp

lemma permit_step_states: "permit_step a b \<Longrightarrow> a \<in> set permit_state_set \<and> b \<in> set permit_state_set"
  by (rule permit_step_all) code_simp

text \<open>When the two event constructors succeed.\<close>

lemma createAuditEvent_total:
  assumes "fld input ''signingKey'' = JUndef"
  shows "(\<exists>e. createAuditEvent c input = Inr e) \<longleftrightarrow>
    truthy (fld input ''tenantId'') \<and> truthy (fld input ''action'')
      \<and> truthy (fld input ''resourceType'') \<and> truthy (fld input ''resourceId'')"
  using assms by (auto simp: createAuditEvent_def guard_simps Let_def stableSerialize_def json_stringify_def)

lemma createOutboxEvent_total:
  "(\<exists>e. createOutboxEvent c input = Inr e) \<longleftrightarrow>
    truthy (fld input ''eventType'') \<and> truthy (fld input ''aggregateType'') \<and> truthy (fld input ''aggregateId'')"
  by (auto simp: createOutboxEvent_def guard_simps)

lemma transitionLifecycle_Inr:
  "transitionLifecycle cx session (JObj p) f t refs blk corr = Inr out \<longleftrightarrow>
    (\<exists>u ae oe. project_guards session (fld (JObj p) ''tenantId'') (fld (JObj p) ''id'') = Inr u
      \<and> one_of lifecycle_states f \<and> one_of lifecycle_states t \<and> strict_eq (fld (JObj p) ''status'') f
      \<and> table_includes allowed_transitions f t = Inr True
      \<and> (if one_of needs_clearance t then blk = [] \<and> refs \<noteq> [] else True)
      \<and> createAuditEvent cx (JObj
        [(''tenantId'', fld (JObj p) ''tenantId''), (''actorType'', JStr ''user''),
         (''actorId'', fld session ''userId''), (''action'', JStr ''project.lifecycle.transitioned''),
         (''resourceType'', JStr ''project''), (''resourceId'', fld (JObj p) ''id''),
         (''beforeStateRef'', f), (''afterStateRef'', t), (''correlationId'', corr)]) = Inr ae
      \<and> createOutboxEvent (later cx) (JObj
        [(''eventType'', JStr ''project.lifecycle.transitioned''), (''aggregateType'', JStr ''project''),
         (''aggregateId'', fld (JObj p) ''id''), (''tenantId'', fld (JObj p) ''tenantId''),
         (''payload'', JObj [(''fromState'', f), (''toState'', t), (''requiredArtifactRefs'', JArr refs)])]) = Inr oe
      \<and> out = JObj [(''project'', spread (JObj p) [(''status'', t)]), (''auditEvent'', ae), (''outboxEvent'', oe)])"
  unfolding transitionLifecycle_def
  by (auto simp: get_fld_def guard_simps)

text \<open>The projects a sequence of successful transitions goes through, the newest first.\<close>

inductive lifecycle_run :: "jsval list \<Rightarrow> bool" where
  start: "fld (JObj p) ''status'' = JStr ''draft'' \<Longrightarrow> lifecycle_run [JObj p]"
| move: "lifecycle_run (JObj p # ps) \<Longrightarrow>
     transitionLifecycle cx session (JObj p) f t refs blk corr = Inr out \<Longrightarrow>
     lifecycle_run (fld out ''project'' # JObj p # ps)"

text \<open>The same for permit packages, from their creation on.\<close>

inductive permit_run :: "jsval list \<Rightarrow> bool" where
  start: "createPermitPackage input = Inr p \<Longrightarrow> fld input ''status'' = JStr ''package_preparation'' \<Longrightarrow>
     nullish (fld input ''submissionCycles'') \<Longrightarrow> permit_run [p]"
| move: "permit_run (JObj p # ps) \<Longrightarrow>
     transitionPermitPackage cx session (JObj p) next rc = Inr out \<Longrightarrow>
     permit_run (fld out ''permitPackage'' # JObj p # ps)"

lemma fld_spread_other: "k \<notin> fst ` set us \<Longrightarrow> fld (spread (JObj fs) us) k = fld (JObj fs) k"
proof -
  assume "k \<notin> fst ` set us"
  then have "map_of (rev us) k = None" by (simp add: map_of_eq_None_iff)
  then show ?thesis by (simp add: fld_spread)
qed

lemma lifecycle_move:
  assumes "transitionLifecycle cx session (JObj p) f t refs blk corr = Inr out"
  obtains a b fs where "fld (JObj p) ''status'' = JStr a" "lifecycle_step a b" "fld out ''project'' = JObj fs"
    "fld (JObj fs) ''status'' = JStr b" "\<And>k. k \<noteq> ''status'' \<Longrightarrow> fld (JObj fs) k = fld (JObj p) k"
proof -
  from assms obtain a b where ab: "f = JStr a" "t = JStr b"
    by (auto simp: transitionLifecycle_Inr dest!: one_ofD)
  with assms have step: "lifecycle_step a b" and st: "fld (JObj p) ''status'' = JStr a"
    and out: "fld out ''project'' = spread (JObj p) [(''status'', JStr b)]"
    by (auto simp: transitionLifecycle_Inr lifecycle_step_table)
  obtain fs where fs: "spread (JObj p) [(''status'', JStr b)] = JObj fs" using spread_is_obj by blast
  show thesis
  proof (rule that [OF st step, of fs])
    show "fld (JObj fs) ''status'' = JStr b" unfolding fs [symmetric] by (simp add: fld_spread)
    show "fld (JObj fs) k = fld (JObj p) k" if "k \<noteq> ''status''" for k
      unfolding fs [symmetric] by (rule fld_spread_other) (use that in simp)
  qed (simp add: out fs)
qed

text \<open>Where a project can be, by what its history contains.\<close>

definition before_review :: "string list" where
  "before_review = [''draft'', ''internal_review'', ''returned_for_revision'', ''coordination_review'']"

definition lifecycle_inv :: "jsval list \<Rightarrow> bool" where
  "lifecycle_inv ps = (\<exists>s. fld (hd ps) ''status'' = JStr s \<and> s \<in> set lifecycle_states \<and> s \<noteq> ''superseded'' \<and>
     (s \<in> set before_review \<or> (\<exists>q \<in> set (tl ps). fld q ''status'' = JStr ''coordination_review'')))"

lemma step_out_of_review:
  assumes "lifecycle_step a b" "a \<in> set before_review"
  shows "b \<in> set before_review \<or> a = ''coordination_review''"
proof -
  have "a \<in> set before_review \<longrightarrow> b \<in> set before_review \<or> a = ''coordination_review''"
    by (rule lifecycle_step_all [OF _ assms(1)]) code_simp
  with assms(2) show ?thesis by blast
qed

lemma step_not_superseded: "lifecycle_step a b \<Longrightarrow> b \<noteq> ''superseded''"
  by (rule lifecycle_step_all) code_simp

lemma lifecycle_invI:
  assumes "fld p ''status'' = JStr s" "s \<in> set lifecycle_states" "s \<noteq> ''superseded''"
    and "s \<in> set before_review \<or> (\<exists>q \<in> set ps. fld q ''status'' = JStr ''coordination_review'')"
  shows "lifecycle_inv (p # ps)"
  using assms unfolding lifecycle_inv_def list.sel by blast

lemma lifecycle_invD:
  assumes "lifecycle_inv (p # ps)" "fld p ''status'' = JStr s"
  shows "s \<in> set lifecycle_states" "s \<noteq> ''superseded''"
    "s \<in> set before_review \<or> (\<exists>q \<in> set ps. fld q ''status'' = JStr ''coordination_review'')"
  using assms unfolding lifecycle_inv_def list.sel by (metis jsval.inject(4))+

lemma draft_states: "''draft'' \<in> set lifecycle_states" "''draft'' \<noteq> ''superseded''" "''draft'' \<in> set before_review"
  by code_simp+

lemma lifecycle_run_inv: "lifecycle_run ps \<Longrightarrow> lifecycle_inv ps"
proof (induction rule: lifecycle_run.induct)
  case (start p)
  show ?case by (rule lifecycle_invI [OF start draft_states(1,2) disjI1 [OF draft_states(3)]])
next
  case (move p ps cx session f t refs blk corr out)
  obtain a b fs where st: "fld (JObj p) ''status'' = JStr a" "lifecycle_step a b"
    and out: "fld out ''project'' = JObj fs" "fld (JObj fs) ''status'' = JStr b"
    and rest: "\<And>k. k \<noteq> ''status'' \<Longrightarrow> fld (JObj fs) k = fld (JObj p) k"
    by (rule lifecycle_move [OF move(2)]) (rule that)
  from lifecycle_invD(3) [OF move.IH st(1)] step_out_of_review [OF st(2)] st(1)
  have "b \<in> set before_review \<or> (\<exists>q \<in> set (JObj p # ps). fld q ''status'' = JStr ''coordination_review'')"
    unfolding list.set by blast
  then show ?case
    unfolding out(1) by (rule lifecycle_invI [OF out(2) conjunct2 [OF lifecycle_step_states [OF st(2)]]
        step_not_superseded [OF st(2)]])
qed

lemma lifecycle_run_identity:
  "lifecycle_run ps \<Longrightarrow> k \<noteq> ''status'' \<Longrightarrow> q \<in> set ps \<Longrightarrow> fld q k = fld (last ps) k"
proof (induction arbitrary: q rule: lifecycle_run.induct)
  case (move p ps cx session f t refs blk corr out)
  have new: "fld (fld out ''project'') k = fld (JObj p) k"
    by (rule lifecycle_move [OF move(2)]) (simp only: move.prems(1) simp_thms)
  have old: "fld q' k = fld (last (JObj p # ps)) k" if "q' \<in> set (JObj p # ps)" for q'
    using move.IH [OF move.prems(1) that] .
  have l: "last (fld out ''project'' # JObj p # ps) = last (JObj p # ps)" by simp
  from move.prems(2) consider "q = fld out ''project''" | "q \<in> set (JObj p # ps)" by auto
  then show ?case unfolding l using new old by cases (metis list.set_intros(1))+
qed auto

lemma lifecycle_transition_guards:
  "one_of lifecycle_states f \<and> one_of lifecycle_states t \<and> strict_eq st f
      \<and> table_includes allowed_transitions f t = Inr True
      \<and> (if one_of needs_clearance t then blk = [] \<and> refs \<noteq> [] else True) \<longleftrightarrow>
   (\<exists>a b. f = JStr a \<and> t = JStr b \<and> st = JStr a \<and> lifecycle_step a b
        \<and> (if b \<in> {''approved_for_permit'', ''approved_for_construction''} then refs \<noteq> [] \<and> blk = [] else True))"
  (is "?L \<longleftrightarrow> ?R")
proof
  assume L: ?L
  then obtain a b where "f = JStr a" "t = JStr b" by (auto dest!: one_ofD)
  with L show ?R by (auto simp: lifecycle_step_table needs_clearance_def split: if_splits)
next
  assume ?R
  then show ?L using lifecycle_step_states by (fastforce simp: lifecycle_step_table needs_clearance_def split: if_splits)
qed

text \<open>Rewriting a sequence of guards and results to its success conditions, step by step.\<close>

lemmas seq_Inr = sum.inject nullish_simps if_False and_then_simps and_then_Inr guard_Inr list.pred_inject fst_conv simp_thms

lemma permit_transitionE:
  assumes "transitionPermitPackage cx session (JObj p) next rc = Inr out"
  obtains u len where "project_guards session (fld (JObj p) ''tenantId'') (fld (JObj p) ''projectId'') = Inr u"
    "one_of permit_state_set next"
    "table_includes allowed_permit_transitions (fld (JObj p) ''status'') next = Inr True"
    "(if next = JStr ''ready_for_submission''
      then includes_call (fld (JObj p) ''requiredFormsChecklist'') (JBool False) else Inr False) = Inr False"
    "(if next = JStr ''simulated_submitted''
      then get_fld (fld (JObj p) ''submissionPackageRefs'') ''length'' else Inr JUndef) = Inr len"
    "\<not> strict_eq len (JNum 0)" "\<not> (next = JStr ''reviewer_comments_received'' \<and> length rc = 0)"
    "fld out ''permitPackage'' = spread (JObj p)
            [(''status'', next),
             (''reviewComments'', if length rc > 0 then JArr rc else fld (JObj p) ''reviewComments''),
             (''submissionCycles'', if one_of submission_states next
                                    then js_add1 (fld (JObj p) ''submissionCycles'')
                                    else fld (JObj p) ''submissionCycles'')]"
  using assms
  apply (simp only: transitionPermitPackage_def get_fld_def [of "JObj p"] seq_Inr)
  apply (elim exE conjE)
  apply hypsubst
  apply (rule that)
         apply (assumption | simp)+
  done

lemma table_includes_key:
  assumes "table_includes tab k v = Inr True"
  shows "table_includes tab (JStr (js_string k)) v = Inr True"
  using assms unfolding table_includes_def js_string.simps .

lemma permit_guards:
  assumes "transitionPermitPackage cx session (JObj p) next rc = Inr out"
  obtains b where "next = JStr b" "permit_step (js_string (fld (JObj p) ''status'')) b"
    "is_true (fld session ''staged'')" "strict_eq (fld session ''tenantId'') (fld (JObj p) ''tenantId'')"
    "includes_call (fld session ''allowedProjectIds'') (fld (JObj p) ''projectId'') = Inr True"
    "if b = ''ready_for_submission''
     then includes_call (fld (JObj p) ''requiredFormsChecklist'') (JBool False) = Inr False else True"
    "if b = ''simulated_submitted''
     then \<not> strict_eq (fld (fld (JObj p) ''submissionPackageRefs'') ''length'') (JNum 0) else True"
    "if b = ''reviewer_comments_received'' then rc \<noteq> [] else True"
proof (rule permit_transitionE [OF assms])
  fix u len
  assume g: "project_guards session (fld (JObj p) ''tenantId'') (fld (JObj p) ''projectId'') = Inr u"
    and nx: "one_of permit_state_set next"
    and tb: "table_includes allowed_permit_transitions (fld (JObj p) ''status'') next = Inr True"
    and rest: "(if next = JStr ''ready_for_submission''
      then includes_call (fld (JObj p) ''requiredFormsChecklist'') (JBool False) else Inr False) = Inr False"
    "(if next = JStr ''simulated_submitted''
      then get_fld (fld (JObj p) ''submissionPackageRefs'') ''length'' else Inr JUndef) = Inr len"
    "\<not> strict_eq len (JNum 0)" "\<not> (next = JStr ''reviewer_comments_received'' \<and> length rc = 0)"
  from nx obtain b where b: "next = JStr b" by (auto dest: one_ofD)
  show thesis
  proof (rule that [OF b])
    show "permit_step (js_string (fld (JObj p) ''status'')) b"
      using table_includes_key [OF tb] unfolding b permit_step_table .
    show "if b = ''simulated_submitted''
     then \<not> strict_eq (fld (fld (JObj p) ''submissionPackageRefs'') ''length'') (JNum 0) else True"
      using rest(2,3) unfolding b get_fld_def by (metis Inl_Inr_False Inr_inject)
  qed (use g rest(1,4) in \<open>simp_all only: b project_guards_ok jsval.inject length_0_conv split: if_splits\<close>, blast+)
qed

lemma permit_move:
  assumes "transitionPermitPackage cx session (JObj p) (JStr b) rc = Inr out"
  shows "\<exists>fs. fld out ''permitPackage'' = JObj fs \<and> fld (JObj fs) ''status'' = JStr b
    \<and> fld (JObj fs) ''submissionCycles'' =
        (if b \<in> set submission_states then js_add1 (fld (JObj p) ''submissionCycles'')
         else fld (JObj p) ''submissionCycles'')
    \<and> (\<forall>k. k \<in> {''status'', ''reviewComments'', ''submissionCycles''} \<or> fld (JObj fs) k = fld (JObj p) k)"
proof (rule permit_transitionE [OF assms], goal_cases)
  case (1 u len)
  obtain fs where fs: "fld out ''permitPackage'' = JObj fs"
    using 1(8) spread_is_obj by metis
  note sp = fs [symmetric, unfolded 1(8)]
  have "fld (JObj fs) ''status'' = JStr b" unfolding sp by (simp add: fld_spread)
  moreover have "fld (JObj fs) ''submissionCycles'' =
        (if b \<in> set submission_states then js_add1 (fld (JObj p) ''submissionCycles'')
         else fld (JObj p) ''submissionCycles'')"
    unfolding sp by (simp add: fld_spread)
  moreover have "k \<in> {''status'', ''reviewComments'', ''submissionCycles''} \<or> fld (JObj fs) k = fld (JObj p) k" for k
    unfolding sp by (auto simp: fld_spread)
  ultimately show ?case using fs by blast
qed

text \<open>Submissions in a history, and where a package can be before its first one.\<close>

definition submissions :: "jsval list \<Rightarrow> nat" where
  "submissions ps = length (filter (\<lambda>q. one_of submission_states (fld q ''status'')) ps)"

lemma submissions_Cons:
  "submissions (p # ps) = (if one_of submission_states (fld p ''status'') then Suc (submissions ps) else submissions ps)"
  by (simp add: submissions_def)

definition before_submission :: "string list" where
  "before_submission = [''package_preparation'', ''internal_completeness_review'', ''ready_for_submission'',
     ''revision_required'', ''revision_in_progress'']"

definition permit_inv :: "jsval list \<Rightarrow> bool" where
  "permit_inv ps = (\<exists>s. fld (hd ps) ''status'' = JStr s \<and> s \<in> set permit_state_set \<and>
     fld (hd ps) ''submissionCycles'' = JNum (of_nat (submissions ps)) \<and>
     (s \<in> set before_submission \<or> 0 < submissions ps))"

lemma step_to_submission:
  assumes "permit_step a b" "a \<in> set before_submission"
  shows "b \<in> set before_submission \<or> b \<in> set submission_states"
proof -
  have "a \<in> set before_submission \<longrightarrow> b \<in> set before_submission \<or> b \<in> set submission_states"
    by (rule permit_step_all [OF _ assms(1)]) code_simp
  with assms(2) show ?thesis by blast
qed

lemma final_not_before_submission:
  "s \<in> {''simulated_approved'', ''closed''} \<Longrightarrow> s \<notin> set before_submission"
  by (auto simp: before_submission_def)

lemma created_permit:
  assumes "createPermitPackage input = Inr p" "nullish (fld input ''submissionCycles'')"
  shows "fld p ''status'' = fld input ''status''" "fld p ''submissionCycles'' = JNum 0"
  using assms by (auto simp: createPermitPackage_def guard_simps)

lemma preparation_states:
  "''package_preparation'' \<in> set permit_state_set" "''package_preparation'' \<in> set before_submission"
  "\<not> one_of submission_states (JStr ''package_preparation'')"
  by code_simp+

lemma permit_run_inv: "permit_run ps \<Longrightarrow> permit_inv ps"
proof (induction rule: permit_run.induct)
  case (start input p)
  have "fld p ''status'' = JStr ''package_preparation''" "fld p ''submissionCycles'' = JNum 0"
    using created_permit [OF start(1,3)] start(2) by metis+
  then show ?case
    using preparation_states by (simp add: permit_inv_def submissions_def)
next
  case (move p ps cx session nxt rc out)
  obtain b where b: "nxt = JStr b" "permit_step (js_string (fld (JObj p) ''status'')) b"
    by (rule permit_guards [OF move(2)]) (rule that)
  obtain fs where fs: "fld out ''permitPackage'' = JObj fs" "fld (JObj fs) ''status'' = JStr b"
    "fld (JObj fs) ''submissionCycles'' = (if b \<in> set submission_states then js_add1 (fld (JObj p) ''submissionCycles'')
         else fld (JObj p) ''submissionCycles'')"
    using permit_move [OF move(2) [unfolded b(1)]] by blast
  obtain a where a: "fld (JObj p) ''status'' = JStr a"
    "fld (JObj p) ''submissionCycles'' = JNum (of_nat (submissions (JObj p # ps)))"
    "a \<in> set before_submission \<or> 0 < submissions (JObj p # ps)"
    using move.IH unfolding permit_inv_def list.sel by blast
  have st: "permit_step a b" using b(2) a(1) by simp
  have count: "submissions (JObj fs # JObj p # ps) =
      (if b \<in> set submission_states then Suc (submissions (JObj p # ps)) else submissions (JObj p # ps))"
    by (subst submissions_Cons) (simp only: fs(2) one_of_str)
  have "fld (JObj fs) ''submissionCycles'' = JNum (of_nat (submissions (JObj fs # JObj p # ps)))"
    using fs(3) a(2) unfolding count by (simp add: js_add1_def)
  moreover have "b \<in> set before_submission \<or> 0 < submissions (JObj fs # JObj p # ps)"
    using a(3) step_to_submission [OF st] unfolding count by auto
  ultimately show ?case
    using fs(1,2) permit_step_states [OF st] unfolding permit_inv_def by simp
qed

section \<open>Properties\<close>

text \<open>
  When a lifecycle transition succeeds: exactly if the session is staged, belongs to the
  project's tenant and may access the project, the project is in the claimed state, the table
  allows the step, and an approval for permit or construction has its artifacts and no blocking
  issue.
\<close>

theorem transitionLifecycle_iff:
  "isl (transitionLifecycle cx session (JObj p) f t refs blk corr) = False \<longleftrightarrow>
    is_true (fld session ''staged'') \<and> strict_eq (fld session ''tenantId'') (fld (JObj p) ''tenantId'')
    \<and> includes_call (fld session ''allowedProjectIds'') (fld (JObj p) ''id'') = Inr True
    \<and> truthy (fld (JObj p) ''tenantId'') \<and> truthy (fld (JObj p) ''id'')
    \<and> (\<exists>a b. f = JStr a \<and> t = JStr b \<and> fld (JObj p) ''status'' = JStr a \<and> lifecycle_step a b
        \<and> (if b \<in> {''approved_for_permit'', ''approved_for_construction''} then refs \<noteq> [] \<and> blk = [] else True))"
proof -
  let ?in = "JObj
        [(''tenantId'', fld (JObj p) ''tenantId''), (''actorType'', JStr ''user''),
         (''actorId'', fld session ''userId''), (''action'', JStr ''project.lifecycle.transitioned''),
         (''resourceType'', JStr ''project''), (''resourceId'', fld (JObj p) ''id''),
         (''beforeStateRef'', f), (''afterStateRef'', t), (''correlationId'', corr)]"
  let ?o = "JObj
        [(''eventType'', JStr ''project.lifecycle.transitioned''), (''aggregateType'', JStr ''project''),
         (''aggregateId'', fld (JObj p) ''id''), (''tenantId'', fld (JObj p) ''tenantId''),
         (''payload'', JObj [(''fromState'', f), (''toState'', t), (''requiredArtifactRefs'', JArr refs)])]"
  have ev: "(\<exists>ae. createAuditEvent cx ?in = Inr ae) \<longleftrightarrow> truthy (fld (JObj p) ''tenantId'') \<and> truthy (fld (JObj p) ''id'')"
    "(\<exists>oe. createOutboxEvent (later cx) ?o = Inr oe) \<longleftrightarrow> truthy (fld (JObj p) ''id'')"
    by (subst createAuditEvent_total createOutboxEvent_total; simp)+
  have ok: "isl r = False \<longleftrightarrow> (\<exists>out. r = Inr out)" for r :: "jsval res"
    by (cases r) simp_all
  show ?thesis
    unfolding ok transitionLifecycle_Inr project_guards_ok
    using ev lifecycle_transition_guards [of f t "fld (JObj p) ''status''" blk refs]
    by blast
qed

text \<open>
  C20. The review gate: along any sequence of successful transitions from a draft, a project that
  has got past the review states has been in coordination review before, it never becomes
  \<open>superseded\<close>, and no property but the status has changed.
\<close>

theorem lifecycle_review_gate:
  assumes "lifecycle_run (p # ps)"
  shows "\<exists>s. fld p ''status'' = JStr s \<and> s \<in> set lifecycle_states \<and> s \<noteq> ''superseded''
     \<and> (if s \<in> set before_review then True else \<exists>q \<in> set ps. fld q ''status'' = JStr ''coordination_review'')
     \<and> fld p ''tenantId'' = fld (last (p # ps)) ''tenantId'' \<and> fld p ''id'' = fld (last (p # ps)) ''id''"
proof -
  have k: "''tenantId'' \<noteq> ''status''" "''id'' \<noteq> ''status''" by simp_all
  have "fld p ''tenantId'' = fld (last (p # ps)) ''tenantId''" "fld p ''id'' = fld (last (p # ps)) ''id''"
    using lifecycle_run_identity [OF assms k(1)] lifecycle_run_identity [OF assms k(2)] list.set_intros(1) by metis+
  moreover from lifecycle_run_inv [OF assms]
  have "\<exists>s. fld p ''status'' = JStr s \<and> s \<in> set lifecycle_states \<and> s \<noteq> ''superseded''
     \<and> (if s \<in> set before_review then True else \<exists>q \<in> set ps. fld q ''status'' = JStr ''coordination_review'')"
    unfolding lifecycle_inv_def list.sel by metis
  ultimately show ?thesis by metis
qed

definition demo_session :: jsval where
  "demo_session = JObj [(''staged'', JBool True), (''tenantId'', JStr ''t''), (''userId'', JStr ''u''),
     (''allowedProjectIds'', JArr [JStr ''p''])]"

definition demo_project :: "string \<Rightarrow> jsval" where
  "demo_project s = JObj [(''id'', JStr ''p''), (''tenantId'', JStr ''t''), (''status'', JStr s)]"

definition demo_move :: "string \<Rightarrow> string \<Rightarrow> jsval res" where
  "demo_move a b = transitionLifecycle demo_ctx demo_session (demo_project a) (JStr a) (JStr b) [JStr ''plan''] [] JUndef"

lemma demo_move_run:
  assumes "lifecycle_run (demo_project a # ps)" "isl (demo_move a b) = False"
  shows "lifecycle_run (demo_project b # demo_project a # ps)"
proof -
  obtain out where out: "demo_move a b = Inr out" using assms(2) by (cases "demo_move a b") simp_all
  then have "fld out ''project'' = spread (demo_project a) [(''status'', JStr b)]"
    unfolding demo_move_def demo_project_def transitionLifecycle_Inr by auto
  then have "fld out ''project'' = demo_project b"
    by (simp add: demo_project_def spread_def)
  then show ?thesis
    using lifecycle_run.move [of _ ps] assms(1) out unfolding demo_move_def demo_project_def by metis
qed

lemma lifecycle_review_gate_witness:
  "\<exists>q \<in> set [demo_project ''coordination_review'', demo_project ''internal_review'', demo_project ''draft''].
     fld q ''status'' = JStr ''coordination_review''"
proof -
  have "lifecycle_run [demo_project ''draft'']"
    unfolding demo_project_def by (rule lifecycle_run.start) simp
  then have "lifecycle_run [demo_project ''internal_review'', demo_project ''draft'']"
    by (rule demo_move_run) code_simp
  then have "lifecycle_run [demo_project ''coordination_review'', demo_project ''internal_review'', demo_project ''draft'']"
    by (rule demo_move_run) code_simp
  then have "lifecycle_run [demo_project ''approved_for_permit'', demo_project ''coordination_review'',
      demo_project ''internal_review'', demo_project ''draft'']"
    by (rule demo_move_run) code_simp
  from lifecycle_review_gate [OF this] show ?thesis
    by (simp add: demo_project_def before_review_def)
qed

text \<open>
  What a permit transition does: when it succeeds, the session is a staged one of the package's
  tenant with access to its project, the table allows the step, the forms are complete before the
  package is ready, a submission has a package and received comments are given; the status is the
  new one, the submission counter counts the submission states, and nothing else but the comments
  changes.
\<close>

theorem permit_transition_effect:
  assumes "transitionPermitPackage cx session (JObj p) next rc = Inr out"
  shows "\<exists>b fs. next = JStr b \<and> permit_step (js_string (fld (JObj p) ''status'')) b
    \<and> is_true (fld session ''staged'') \<and> strict_eq (fld session ''tenantId'') (fld (JObj p) ''tenantId'')
    \<and> includes_call (fld session ''allowedProjectIds'') (fld (JObj p) ''projectId'') = Inr True
    \<and> (if b = ''ready_for_submission''
        then includes_call (fld (JObj p) ''requiredFormsChecklist'') (JBool False) = Inr False else True)
    \<and> (if b = ''simulated_submitted''
        then \<not> strict_eq (fld (fld (JObj p) ''submissionPackageRefs'') ''length'') (JNum 0) else True)
    \<and> (if b = ''reviewer_comments_received'' then rc \<noteq> [] else True)
    \<and> fld out ''permitPackage'' = JObj fs \<and> fld (JObj fs) ''status'' = JStr b
    \<and> fld (JObj fs) ''submissionCycles'' =
        (if b \<in> set submission_states then js_add1 (fld (JObj p) ''submissionCycles'')
         else fld (JObj p) ''submissionCycles'')
    \<and> (\<forall>k. k \<in> {''status'', ''reviewComments'', ''submissionCycles''} \<or> fld (JObj fs) k = fld (JObj p) k)"
proof (rule permit_guards [OF assms], goal_cases)
  case (1 b)
  with permit_move [OF assms [unfolded 1(1)]] show ?case by blast
qed

definition demo_permit :: "string \<Rightarrow> rat \<Rightarrow> jsval" where
  "demo_permit s n = JObj [(''id'', JStr ''k''), (''tenantId'', JStr ''t''), (''projectId'', JStr ''p''),
     (''jurisdictionProfile'', JStr ''j''), (''status'', JStr s),
     (''submissionPackageRefs'', JArr [JStr ''plan'']), (''requiredFormsChecklist'', JArr [JBool True]),
     (''reviewComments'', JArr []), (''responseMatrix'', JArr []), (''submissionCycles'', JNum n),
     (''permitReadinessFindings'', JArr []), (''staged'', JBool True)]"

lemma demo_permit_obj: "\<exists>p. demo_permit s n = JObj p"
  by (simp add: demo_permit_def)

lemma permit_transition_effect_witness:
  "\<exists>out. transitionPermitPackage demo_ctx demo_session (demo_permit ''ready_for_submission'' 0)
      (JStr ''simulated_submitted'') [] = Inr out
    \<and> fld (fld out ''permitPackage'') ''submissionCycles'' = JNum 1"
proof -
  let ?r = "transitionPermitPackage demo_ctx demo_session (demo_permit ''ready_for_submission'' 0)
      (JStr ''simulated_submitted'') []"
  have "isl ?r = False" by code_simp
  then obtain out where out: "?r = Inr out" by (cases ?r) simp_all
  obtain p where p: "demo_permit ''ready_for_submission'' 0 = JObj p" using demo_permit_obj by blast
  from permit_transition_effect [OF out [unfolded p]] obtain b fs where
    b: "JStr ''simulated_submitted'' = JStr b" "fld out ''permitPackage'' = JObj fs"
      "fld (JObj fs) ''submissionCycles'' =
        (if b \<in> set submission_states then js_add1 (fld (JObj p) ''submissionCycles'')
         else fld (JObj p) ''submissionCycles'')"
    by (elim exE conjE) (rule that)
  have "b \<in> set submission_states" using b(1) by (simp add: submission_states_def)
  moreover have "js_add1 (fld (JObj p) ''submissionCycles'') = JNum 1" unfolding p [symmetric] by code_simp
  ultimately have "fld (fld out ''permitPackage'') ''submissionCycles'' = JNum 1" unfolding b(2,3) by (simp only: if_True)
  with out show ?thesis by blast
qed

text \<open>
  Submission counting: a package created in preparation counts its submissions, so after any
  sequence of successful transitions the counter is the number of submission states in its history,
  and the package is only approved or closed after at least one submission.
\<close>

theorem permit_submission_count:
  assumes "permit_run (p # ps)"
  shows "\<exists>s. fld p ''status'' = JStr s \<and> s \<in> set permit_state_set
     \<and> fld p ''submissionCycles'' = JNum (of_nat (submissions (p # ps)))
     \<and> (if s \<in> {''simulated_approved'', ''closed''} then 0 < submissions (p # ps) else True)"
  using permit_run_inv [OF assms] final_not_before_submission unfolding permit_inv_def list.sel by metis

text \<open>A run: the package is created in preparation and taken to its approval.\<close>

lemma demo_permit_run:
  assumes "permit_run (demo_permit a n # ps)"
    and "(case transitionPermitPackage demo_ctx demo_session (demo_permit a n) (JStr b) [] of
            Inl e \<Rightarrow> JUndef | Inr out \<Rightarrow> fld out ''permitPackage'') = demo_permit b m"
  shows "permit_run (demo_permit b m # demo_permit a n # ps)"
proof (cases "transitionPermitPackage demo_ctx demo_session (demo_permit a n) (JStr b) []")
  case (Inl e)
  have "JUndef = demo_permit b m" using assms(2) unfolding Inl sum.case .
  then show ?thesis by (simp add: demo_permit_def)
next
  case (Inr out)
  obtain p where p: "demo_permit a n = JObj p" using demo_permit_obj by blast
  have eq: "fld out ''permitPackage'' = demo_permit b m" using assms(2) unfolding Inr sum.case .
  have "permit_run (fld out ''permitPackage'' # JObj p # ps)"
    by (rule permit_run.move [OF assms(1) [unfolded p] Inr [unfolded p]])
  then show ?thesis unfolding eq p .
qed

lemma permit_submission_count_witness:
  "\<exists>ps. permit_run (demo_permit ''simulated_approved'' 1 # ps)
     \<and> fld (demo_permit ''simulated_approved'' 1) ''submissionCycles''
         = JNum (of_nat (submissions (demo_permit ''simulated_approved'' 1 # ps)))"
proof -
  have "permit_run [demo_permit ''package_preparation'' 0]"
    by (rule permit_run.start [where input = "spread (demo_permit ''package_preparation'' 0) [(''submissionCycles'', JNull)]"])
      code_simp+
  then have "permit_run [demo_permit ''internal_completeness_review'' 0, demo_permit ''package_preparation'' 0]"
    by (rule demo_permit_run) code_simp
  then have "permit_run [demo_permit ''ready_for_submission'' 0, demo_permit ''internal_completeness_review'' 0,
      demo_permit ''package_preparation'' 0]"
    by (rule demo_permit_run) code_simp
  then have "permit_run [demo_permit ''simulated_submitted'' 1, demo_permit ''ready_for_submission'' 0,
      demo_permit ''internal_completeness_review'' 0, demo_permit ''package_preparation'' 0]"
    by (rule demo_permit_run) code_simp
  then have run: "permit_run [demo_permit ''simulated_approved'' 1, demo_permit ''simulated_submitted'' 1,
      demo_permit ''ready_for_submission'' 0, demo_permit ''internal_completeness_review'' 0,
      demo_permit ''package_preparation'' 0]"
    by (rule demo_permit_run) code_simp
  from permit_submission_count [OF run] run show ?thesis by blast
qed

end
