(* ===== verification/FieldReports.thy ===== *)
theory FieldReports
  imports JsValue
begin

text \<open>
  Field reports (packages/field-reporting/src/index.js): capture with normalised observations, the
  deterministic draft, the review and the client-facing projection. Reports are objects, as the
  code passes them around.
\<close>

definition report_type_set :: "string list" where
  "report_type_set = [''daily_log'', ''inspection'', ''safety'', ''progress'']"

definition observation_kinds :: "string list" where
  "observation_kinds = [''note'', ''photo'', ''checklist'', ''voice'']"

definition field_report_status_set :: "string list" where
  "field_report_status_set = [''captured'', ''draft_generated'', ''in_review'', ''approved'', ''changes_requested'']"

definition reviewable_next :: "string list" where
  "reviewable_next = [''in_review'', ''approved'', ''changes_requested'']"

text \<open>\<open>String(v ?? "")\<close>.\<close>

definition text_of :: "jsval \<Rightarrow> jsval" where
  "text_of v = JStr (js_string (coalesce v (JStr [])))"

definition normalizeObservation :: "jsval \<Rightarrow> nat \<Rightarrow> jsval res" where
  "normalizeObservation observation index =
    guard [(truthy observation \<and> one_of observation_kinds (fld observation ''kind''),
            ''Observation '' @ nat_string index @ '' has an unknown kind.'')]
      (Inr (if fld observation ''kind'' = JStr ''note''
        then JObj [(''kind'', JStr ''note''), (''text'', text_of (fld observation ''text''))]
        else if fld observation ''kind'' = JStr ''photo''
        then JObj [(''kind'', JStr ''photo''), (''caption'', text_of (fld observation ''caption'')),
                   (''placeholderRef'', coalesce (fld observation ''placeholderRef'') JNull)]
        else if fld observation ''kind'' = JStr ''checklist''
        then JObj [(''kind'', JStr ''checklist''), (''label'', text_of (fld observation ''label'')),
                   (''checked'', JBool (is_true (fld observation ''checked'')))]
        else JObj [(''kind'', JStr ''voice''),
                   (''transcriptPlaceholder'', text_of (fld observation ''transcriptPlaceholder''))]))"

definition createFieldReport :: "jsval \<Rightarrow> jsval res" where
  "createFieldReport input =
    guard [req (fld input ''id'') ''Field report id'',
           req (fld input ''tenantId'') ''Field report tenantId'',
           req (fld input ''projectId'') ''Field report projectId'',
           req (fld input ''siteName'') ''Site name'',
           req (fld input ''reportType'') ''Report type'',
           req (fld input ''author'') ''Author'',
           (one_of report_type_set (fld input ''reportType''),
            ''Unknown report type: '' @ js_string (fld input ''reportType'')),
           (is_true (fld input ''staged''), ''Field report must be staged.'')]
    (and_then (case fld input ''observations'' of
         JArr xs \<Rightarrow> map_res (\<lambda>(i, observation). normalizeObservation observation i) (enumerate 0 xs)
       | _ \<Rightarrow> Inr []) (\<lambda>observations.
     Inr (JObj
        [(''id'', fld input ''id''),
         (''tenantId'', fld input ''tenantId''),
         (''projectId'', fld input ''projectId''),
         (''siteName'', fld input ''siteName''),
         (''reportType'', fld input ''reportType''),
         (''author'', fld input ''author''),
         (''capturedAt'', coalesce (fld input ''capturedAt'') JNull),
         (''observations'', JArr observations),
         (''status'', JStr ''captured''),
         (''draft'', JNull),
         (''reviewedBy'', JNull),
         (''reviewNote'', JNull),
         (''clientVisible'', JBool False),
         (''staged'', JBool True)])))"

definition of_kind :: "string \<Rightarrow> jsval list \<Rightarrow> jsval list" where
  "of_kind k xs = filter (\<lambda>v. strict_eq (fld v ''kind'') (JStr k)) xs"

definition report_draft :: "jsval \<Rightarrow> jsval list \<Rightarrow> jsval" where
  "report_draft report observations =
    (let notes = filter truthy (map (\<lambda>v. fld v ''text'') (of_kind ''note'' observations));
         checklist = map (\<lambda>v. JStr (js_string (fld v ''label'') @ '': '' @
            (if truthy (fld v ''checked'') then ''complete'' else ''incomplete''))) (of_kind ''checklist'' observations);
         photos = filter truthy (map (\<lambda>v. fld v ''caption'') (of_kind ''photo'' observations));
         voice = filter truthy (map (\<lambda>v. fld v ''transcriptPlaceholder'') (of_kind ''voice'' observations));
         openItems = length (filter (\<lambda>v. \<not> is_true (fld v ''checked'')) (of_kind ''checklist'' observations));
         summary = JStr (js_string (fld report ''reportType'') @ '' report for '' @ js_string (fld report ''siteName'')
            @ '' by '' @ js_string (fld report ''author'') @ ''. '' @ nat_string (length observations)
            @ '' observation(s); '' @ nat_string openItems @ '' open checklist item(s). SIMULATED draft ''
            @ em_dash @ '' requires human review before release.'')
     in JObj
        [(''title'', JStr (js_string (fld report ''reportType'') @ '' '' @ em_dash @ '' '' @ js_string (fld report ''siteName''))),
         (''sections'', JArr
           [JObj [(''heading'', JStr ''Summary''), (''body'', summary)],
            JObj [(''heading'', JStr ''Notes''), (''items'', JArr notes)],
            JObj [(''heading'', JStr ''Checklist''), (''items'', JArr checklist)],
            JObj [(''heading'', JStr ''Photos''), (''items'', JArr photos)],
            JObj [(''heading'', JStr ''Voice Notes''), (''items'', JArr voice)]]),
         (''aiGenerated'', JBool True),
         (''simulated'', JBool True),
         (''summary'', summary)])"

abbreviation staged_report :: "jsval \<Rightarrow> bool \<times> string" where
  "staged_report report \<equiv> (truthy report \<and> is_true (fld report ''staged''), ''A staged field report is required.'')"

definition generateReportDraft :: "jsval \<Rightarrow> jsval res" where
  "generateReportDraft report =
    guard [staged_report report]
    (and_then (elements (fld report ''observations'')) (\<lambda>observations.
     if \<not> list_all (\<lambda>v. \<not> nullish v) observations then Inl type_error
     else Inr (spread report
       [(''draft'', report_draft report observations), (''status'', JStr ''draft_generated'')])))"

definition setReviewStatus :: "jsval \<Rightarrow> jsval \<Rightarrow> jsval \<Rightarrow> jsval \<Rightarrow> jsval res" where
  "setReviewStatus report nextStatus reviewedBy reviewNote =
    guard [staged_report report,
           (one_of reviewable_next nextStatus, ''Unknown review status: '' @ js_string nextStatus),
           (truthy (fld report ''draft''), ''A report draft must be generated before review.'')]
      (Inr (spread report
        [(''status'', nextStatus),
         (''reviewedBy'', default_arg reviewedBy JNull),
         (''reviewNote'', default_arg reviewNote JNull),
         (''clientVisible'', JBool (strict_eq nextStatus (JStr ''approved'')))]))"

definition toClientView :: "jsval \<Rightarrow> jsval res" where
  "toClientView report =
    and_then (get_fld report ''clientVisible'') (\<lambda>visible.
    Inr (if \<not> truthy visible \<or> \<not> strict_eq (fld report ''status'') (JStr ''approved'') then JNull
      else JObj
        [(''id'', fld report ''id''),
         (''siteName'', fld report ''siteName''),
         (''reportType'', fld report ''reportType''),
         (''title'', coalesce (fld (fld report ''draft'') ''title'') (fld report ''siteName'')),
         (''sections'', coalesce (fld (fld report ''draft'') ''sections'') (JArr [])),
         (''status'', JStr ''approved''),
         (''staged'', JBool True)]))"

section \<open>The life of a report\<close>

text \<open>The reports a sequence of operations produces, the newest first.\<close>

inductive report_run :: "jsval list \<Rightarrow> bool" where
  capture: "createFieldReport input = Inr r \<Longrightarrow> report_run [r]"
| draft: "report_run (r # rs) \<Longrightarrow> generateReportDraft r = Inr r' \<Longrightarrow> report_run (r' # r # rs)"
| review: "report_run (r # rs) \<Longrightarrow> setReviewStatus r nxt who remark = Inr r' \<Longrightarrow> report_run (r' # r # rs)"


inductive_cases report_runE: "report_run (r # rs)"

lemma setReviewStatus_Inr:
  "setReviewStatus report nextStatus who remark = Inr r \<longleftrightarrow>
     truthy report \<and> is_true (fld report ''staged'') \<and> one_of reviewable_next nextStatus
     \<and> truthy (fld report ''draft'') \<and>
     r = spread report
        [(''status'', nextStatus), (''reviewedBy'', default_arg who JNull), (''reviewNote'', default_arg remark JNull),
         (''clientVisible'', JBool (strict_eq nextStatus (JStr ''approved'')))]"
  by (auto simp: setReviewStatus_def guard_simps)

lemma generateReportDraft_status:
  assumes "generateReportDraft report = Inr r"
  shows "fld r ''status'' = JStr ''draft_generated''"
  using assms unfolding generateReportDraft_def
  by (auto simp: guard_simps spread_def split: if_splits)

lemma createFieldReport_status:
  assumes "createFieldReport input = Inr r"
  shows "fld r ''status'' = JStr ''captured''"
  using assms unfolding createFieldReport_def and_then_Inr guard_Inr by auto

text \<open>A report with status approved is the result of an approving review.\<close>

lemma approved_by_review:
  assumes "report_run (r # rs)" "fld r ''status'' = JStr ''approved''"
  obtains r0 rs0 who remark where "rs = r0 # rs0" "setReviewStatus r0 (JStr ''approved'') who remark = Inr r"
proof -
  from assms(1) consider (capture) input where "createFieldReport input = Inr r"
    | (draft) r0 where "generateReportDraft r0 = Inr r"
    | (review) r0 rs0 nxt who remark where "rs = r0 # rs0" "setReviewStatus r0 nxt who remark = Inr r"
    by (rule report_runE) blast+
  then show thesis
  proof cases
    case capture
    with createFieldReport_status assms(2) show ?thesis by fastforce
  next
    case draft
    with generateReportDraft_status assms(2) show ?thesis by fastforce
  next
    case review
    from review(2) have "fld r ''status'' = nxt"
      unfolding setReviewStatus_Inr by (auto simp: spread_def)
    then have "nxt = JStr ''approved''" using assms(2) by (simp only:)
    then show ?thesis using that [OF review(1)] review(2) by (simp only:)
  qed
qed

section \<open>Properties\<close>

text \<open>
  C21. The client gate: whatever sequence of captures, drafts and reviews led to a report, the client
  portal shows something of it only when the last operation was an approving review, and then it
  shows the title and sections of the very draft that was reviewed.
\<close>

theorem client_sees_reviewed_draft:
  assumes "report_run (r # rs)" "toClientView r = Inr view" "view \<noteq> JNull"
  shows "\<exists>r0 rs0 who remark. rs = r0 # rs0 \<and> setReviewStatus r0 (JStr ''approved'') who remark = Inr r
     \<and> truthy (fld r0 ''draft'')
     \<and> fld view ''title'' = coalesce (fld (fld r0 ''draft'') ''title'') (fld r0 ''siteName'')
     \<and> fld view ''sections'' = coalesce (fld (fld r0 ''draft'') ''sections'') (JArr [])"
proof -
  from assms(2,3) have st: "fld r ''status'' = JStr ''approved''"
    unfolding toClientView_def and_then_Inr by (auto split: if_splits)
  obtain r0 rs0 who remark where r0: "rs = r0 # rs0" "setReviewStatus r0 (JStr ''approved'') who remark = Inr r"
    by (rule approved_by_review [OF assms(1) st])
  from r0(2) have d: "truthy (fld r0 ''draft'')" "fld r ''draft'' = fld r0 ''draft''" "fld r ''siteName'' = fld r0 ''siteName''"
    unfolding setReviewStatus_Inr by (cases r0; auto simp: fld_spread)+
  have "fld view ''title'' = coalesce (fld (fld r ''draft'') ''title'') (fld r ''siteName'')"
    "fld view ''sections'' = coalesce (fld (fld r ''draft'') ''sections'') (JArr [])"
    using assms(2,3) unfolding toClientView_def and_then_Inr by (auto split: if_splits)
  with r0 d show ?thesis by auto
qed

definition demo_capture :: jsval where
  "demo_capture = JObj [(''id'', JStr ''r1''), (''tenantId'', JStr ''t''), (''projectId'', JStr ''p''),
     (''siteName'', JStr ''North''), (''reportType'', JStr ''daily_log''), (''author'', JStr ''Ana''),
     (''staged'', JBool True),
     (''observations'', JArr [JObj [(''kind'', JStr ''checklist''), (''label'', JStr ''rebar'')]])]"

definition demo_captured :: jsval where
  "demo_captured = ok_value (createFieldReport demo_capture)"

definition demo_drafted :: jsval where
  "demo_drafted = ok_value (generateReportDraft demo_captured)"

definition demo_approved :: jsval where
  "demo_approved = ok_value (setReviewStatus demo_drafted (JStr ''approved'') (JStr ''Bo'') JUndef)"

lemma client_sees_reviewed_draft_witness:
  "truthy (fld demo_drafted ''draft'') \<and>
     fld (ok_value (toClientView demo_approved)) ''sections'' = coalesce (fld (fld demo_drafted ''draft'') ''sections'') (JArr [])"
proof -
  have "report_run [demo_captured]"
    by (rule report_run.capture [of demo_capture]) code_simp
  then have "report_run [demo_drafted, demo_captured]"
    by (rule report_run.draft) code_simp
  then have run: "report_run [demo_approved, demo_drafted, demo_captured]"
    by (rule report_run.review [where nxt = "JStr ''approved''" and who = "JStr ''Bo''" and remark = JUndef]) code_simp
  have "toClientView demo_approved = Inr (ok_value (toClientView demo_approved))" by code_simp
  moreover have "ok_value (toClientView demo_approved) \<noteq> JNull" by code_simp
  ultimately obtain r0 rs0 where "[demo_drafted, demo_captured] = r0 # rs0" "truthy (fld r0 ''draft'')"
    "fld (ok_value (toClientView demo_approved)) ''sections'' = coalesce (fld (fld r0 ''draft'') ''sections'') (JArr [])"
    using client_sees_reviewed_draft [OF run] by metis
  then show ?thesis by (simp only: list.inject)
qed

end
