(* ===== verification/Policy.thy ===== *)
theory Policy
  imports JsValue
begin

text \<open>
  The role-based access matrix (packages/authorization/src/policy.js): \<open>ALLOW_MATRIX\<close> with its
  generated read and create rules, and \<open>canPerform\<close>, whose first matching rule decides.
\<close>

record rule =
  r_resource :: string
  r_action :: string
  r_org :: "string list"
  r_proj :: "string list option"
  r_vis :: "string list option"

record decision =
  allowed :: bool
  reason :: string

record access_request =
  q_resource :: string
  q_action :: string
  q_tenant :: jsval
  q_resource_tenant :: jsval
  q_org_role :: jsval
  q_proj_role :: jsval
  q_visibility :: jsval

definition org_role_aliases :: "(string \<times> string) list" where
  "org_role_aliases = [(''xygo_admin'', ''platform_admin''), (''client_owner'', ''company_admin'')]"

definition read_resources :: "string list" where
  "read_resources =
    [''coordination_issue'', ''rfi'', ''permit_package'', ''review_session'', ''ai_review_run'',
     ''ai_finding'', ''executive_dashboard'', ''audit_event'', ''transfer'', ''platform_blueprint'',
     ''field_report'', ''file_record'', ''email_delivery'', ''client_portal'']"

definition read_rule :: "string \<Rightarrow> rule" where
  "read_rule res = \<lparr>r_resource = res, r_action = ''read'',
     r_org = [''platform_admin'', ''company_admin'', ''executive'', ''supervisor'', ''read_only_auditor'']
       @ (if res = ''field_report'' then [''client_staff''] else [])
       @ (if res = ''file_record'' then [''client_staff'', ''client_viewer''] else [])
       @ (if res = ''client_portal'' then [''client_staff'', ''client_viewer''] else []),
     r_proj = Some [''project_executive'', ''project_manager'', ''design_manager'', ''viewer''],
     r_vis = None\<rparr>"

definition create_resources :: "string list" where
  "create_resources =
    [''coordination_issue'', ''rfi'', ''permit_package'', ''review_session'', ''ai_review_run'',
     ''ai_finding'', ''platform_blueprint'', ''field_report'', ''file_record'']"

definition create_rule :: "string \<Rightarrow> rule" where
  "create_rule res = \<lparr>r_resource = res, r_action = ''create'',
     r_org = [''platform_admin'', ''company_admin'']
       @ (if res \<in> {''field_report'', ''file_record''} then [''client_staff''] else []),
     r_proj = Some [''project_manager'', ''design_manager''],
     r_vis = None\<rparr>"

definition allow_matrix :: "rule list" where
  "allow_matrix =
    [\<lparr>r_resource = ''tenant'', r_action = ''read'',
      r_org = [''platform_admin'', ''company_admin'', ''executive'', ''read_only_auditor''],
      r_proj = None, r_vis = None\<rparr>,
     \<lparr>r_resource = ''department'', r_action = ''read'',
      r_org = [''platform_admin'', ''company_admin'', ''executive'', ''department_head'', ''supervisor''],
      r_proj = None, r_vis = None\<rparr>,
     \<lparr>r_resource = ''project'', r_action = ''read'',
      r_org = [''platform_admin'', ''company_admin'', ''executive'', ''supervisor'',
               ''read_only_auditor'', ''client_staff'', ''client_viewer''],
      r_proj = Some [''project_executive'', ''project_manager'', ''design_manager'', ''viewer''],
      r_vis = None\<rparr>,
     \<lparr>r_resource = ''project'', r_action = ''update'',
      r_org = [''platform_admin'', ''company_admin''],
      r_proj = Some [''project_manager'', ''design_manager''], r_vis = None\<rparr>,
     \<lparr>r_resource = ''channel'', r_action = ''read'',
      r_org = [''platform_admin'', ''company_admin'', ''supervisor'', ''employee''],
      r_proj = None,
      r_vis = Some [''participant_only'', ''team_only'', ''department_only'', ''project_only'',
                    ''company_public_summary'']\<rparr>,
     \<lparr>r_resource = ''announcement_channel'', r_action = ''publish'',
      r_org = [''platform_admin'', ''company_admin'', ''executive''],
      r_proj = None, r_vis = None\<rparr>]
    @ map read_rule read_resources
    @ map create_rule create_resources
    @ [\<lparr>r_resource = ''field_report'', r_action = ''update'',
        r_org = [''platform_admin'', ''company_admin'', ''client_staff''],
        r_proj = Some [''project_manager'', ''design_manager''], r_vis = None\<rparr>,
       \<lparr>r_resource = ''file_record'', r_action = ''update'',
        r_org = [''platform_admin'', ''company_admin'', ''client_staff''],
        r_proj = Some [''project_manager'', ''design_manager''], r_vis = None\<rparr>,
       \<lparr>r_resource = ''file_record'', r_action = ''delete'',
        r_org = [''platform_admin'', ''company_admin'', ''client_staff''],
        r_proj = Some [''project_manager'', ''design_manager''], r_vis = None\<rparr>,
       \<lparr>r_resource = ''project'', r_action = ''create'',
        r_org = [''platform_admin'', ''company_admin''],
        r_proj = None, r_vis = None\<rparr>,
       \<lparr>r_resource = ''ai_finding'', r_action = ''update'',
        r_org = [''platform_admin'', ''company_admin''],
        r_proj = Some [''project_manager'', ''design_manager''], r_vis = None\<rparr>]"

text \<open>
  \<open>ORGANIZATION_ROLE_ALIASES[role] ?? role\<close>. A role that names a property of the object prototype
  would be looked up as a function there, which no rule lists; the role itself is in no rule either.
\<close>

definition resolve_org_role :: "jsval \<Rightarrow> jsval" where
  "resolve_org_role role = (case map_of org_role_aliases (js_string role) of
      Some r \<Rightarrow> JStr r | None \<Rightarrow> role)"

definition deny :: "string \<Rightarrow> decision" where
  "deny why = \<lparr>allowed = False, reason = why\<rparr>"

definition grant :: decision where
  "grant = \<lparr>allowed = True, reason = ''allowed''\<rparr>"

definition canPerform :: "access_request \<Rightarrow> decision" where
  "canPerform input =
    (case find (\<lambda>c. r_resource c = q_resource input \<and> r_action c = q_action input) allow_matrix of
       None \<Rightarrow> deny ''default_deny_no_matching_rule''
     | Some rule \<Rightarrow>
         if \<not> strict_eq (q_tenant input) (q_resource_tenant input) then deny ''tenant_mismatch''
         else if (case r_vis rule of None \<Rightarrow> False | Some vs \<Rightarrow> \<not> one_of vs (q_visibility input))
           then deny ''visibility_class_denied''
         else
           (let organizationAllowed = one_of (r_org rule) (resolve_org_role (q_org_role input));
                projectAllowed = truthy (q_proj_role input)
                  \<and> (case r_proj rule of None \<Rightarrow> False | Some ps \<Rightarrow> one_of ps (q_proj_role input))
            in if \<not> organizationAllowed \<and> \<not> projectAllowed then deny ''role_denied''
               else grant))"

definition getPermissionMatrix :: "rule list" where
  "getPermissionMatrix = allow_matrix"

section \<open>Lemmas\<close>

lemma decision_simps [simp]:
  "allowed (deny w) = False" "reason (deny w) = w" "allowed grant = True" "reason grant = ''allowed''"
  by (simp_all add: deny_def grant_def)

lemmas matrix_defs = allow_matrix_def read_resources_def create_resources_def

text \<open>The rule that decides a request.\<close>

definition rule_for :: "string \<Rightarrow> string \<Rightarrow> rule option" where
  "rule_for res act = find (\<lambda>c. r_resource c = res \<and> r_action c = act) allow_matrix"

text \<open>
  No two rules have the same resource and action, so taking the first match loses nothing and the
  matrix is a partial function from resource and action to a rule.
\<close>

lemma matrix_keys_distinct: "distinct (map (\<lambda>r. (r_resource r, r_action r)) allow_matrix)"
  by (simp add: matrix_defs read_rule_def create_rule_def)

lemma find_unique_key:
  "distinct (map f xs) \<Longrightarrow> x \<in> set xs \<Longrightarrow> find (\<lambda>y. f y = f x) xs = Some x"
  by (induction xs) auto

lemma rule_for_member:
  assumes "r \<in> set allow_matrix"
  shows "rule_for (r_resource r) (r_action r) = Some r"
  using find_unique_key[OF matrix_keys_distinct assms] by (simp add: rule_for_def)

lemma canPerform_rule:
  "canPerform input = (case rule_for (q_resource input) (q_action input) of
     None \<Rightarrow> deny ''default_deny_no_matching_rule''
   | Some rule \<Rightarrow>
       if \<not> strict_eq (q_tenant input) (q_resource_tenant input) then deny ''tenant_mismatch''
       else if (case r_vis rule of None \<Rightarrow> False | Some vs \<Rightarrow> \<not> one_of vs (q_visibility input))
         then deny ''visibility_class_denied''
       else if one_of (r_org rule) (resolve_org_role (q_org_role input))
         \<or> truthy (q_proj_role input) \<and> (case r_proj rule of None \<Rightarrow> False | Some ps \<Rightarrow> one_of ps (q_proj_role input))
         then grant else deny ''role_denied'')"
  by (auto simp: canPerform_def rule_for_def Let_def split: option.splits)

text \<open>An allowed request has a rule, the same tenant on both sides and a listed role.\<close>

lemma canPerform_allowedD:
  assumes "allowed (canPerform input)"
  obtains r where "r \<in> set allow_matrix" "r_resource r = q_resource input" "r_action r = q_action input"
    "q_tenant input = q_resource_tenant input"
    "one_of (r_org r) (resolve_org_role (q_org_role input))
     \<or> (\<exists>ps. r_proj r = Some ps \<and> one_of ps (q_proj_role input))"
    "\<forall>vs. r_vis r = Some vs \<longrightarrow> one_of vs (q_visibility input)"
proof -
  obtain r where r: "rule_for (q_resource input) (q_action input) = Some r"
    using assms by (auto simp: canPerform_rule split: option.splits)
  then have m: "r \<in> set allow_matrix" "r_resource r = q_resource input" "r_action r = q_action input"
    by (auto simp: rule_for_def dest: find_SomeD)
  from assms r show thesis
    by (intro that[OF m]) (auto simp: canPerform_rule dest: strict_eq_eq split: if_splits option.splits)
qed

lemma matrix_roles_named:
  "list_all (\<lambda>r. case r_proj r of None \<Rightarrow> True | Some ps \<Rightarrow> [] \<notin> set ps) allow_matrix"
  by code_simp

lemma allowed_iff_rule:
  "allowed (canPerform input) \<longleftrightarrow>
    (\<exists>r \<in> set allow_matrix. r_resource r = q_resource input \<and> r_action r = q_action input
       \<and> strict_eq (q_tenant input) (q_resource_tenant input)
       \<and> (case r_vis r of None \<Rightarrow> True | Some vs \<Rightarrow> one_of vs (q_visibility input))
       \<and> (one_of (r_org r) (resolve_org_role (q_org_role input))
          \<or> (case r_proj r of None \<Rightarrow> False | Some ps \<Rightarrow> one_of ps (q_proj_role input))))"
  (is "?L \<longleftrightarrow> ?R")
proof
  assume ?L
  then obtain r where r: "rule_for (q_resource input) (q_action input) = Some r"
    by (auto simp: canPerform_rule split: option.splits)
  then have "r \<in> set allow_matrix" "r_resource r = q_resource input" "r_action r = q_action input"
    by (auto simp: rule_for_def dest: find_SomeD)
  with \<open>?L\<close> r show ?R
    by (intro bexI[of _ r]) (auto simp: canPerform_rule split: if_splits option.splits)
next
  assume ?R
  then obtain r where r: "r \<in> set allow_matrix" "r_resource r = q_resource input" "r_action r = q_action input"
    and rest: "strict_eq (q_tenant input) (q_resource_tenant input)"
      "case r_vis r of None \<Rightarrow> True | Some vs \<Rightarrow> one_of vs (q_visibility input)"
      "one_of (r_org r) (resolve_org_role (q_org_role input))
          \<or> (case r_proj r of None \<Rightarrow> False | Some ps \<Rightarrow> one_of ps (q_proj_role input))"
    by blast
  have "rule_for (q_resource input) (q_action input) = Some r"
    using rule_for_member [OF r(1)] r by simp
  moreover have "truthy (q_proj_role input)" if "r_proj r = Some ps" "one_of ps (q_proj_role input)" for ps
  proof -
    from r(1) that(1) have "[] \<notin> set ps"
      using matrix_roles_named by (fastforce simp: list_all_iff)
    with that(2) show ?thesis by (auto dest!: one_ofD)
  qed
  ultimately show ?L
    using rest by (auto simp: canPerform_rule split: option.splits)
qed

text \<open>The rules that name a role: their keys, and that none of them restricts the visibility.\<close>

definition granted_keys :: "string \<Rightarrow> (string \<times> string) list" where
  "granted_keys role = map (\<lambda>r. (r_resource r, r_action r)) (filter (\<lambda>r. role \<in> set (r_org r)) allow_matrix)"

lemma client_viewer_keys:
  "granted_keys ''client_viewer'' = [(''project'', ''read''), (''file_record'', ''read''), (''client_portal'', ''read'')]"
  by code_simp

lemma client_viewer_unrestricted:
  "list_all (\<lambda>r. ''client_viewer'' \<in> set (r_org r) \<longrightarrow> r_vis r = None) allow_matrix"
  by code_simp

lemma role_without_project:
  assumes "resolve_org_role (q_org_role input) = JStr role" "nullish (q_proj_role input)"
    and "list_all (\<lambda>r. role \<in> set (r_org r) \<longrightarrow> r_vis r = None) allow_matrix"
  shows "allowed (canPerform input) \<longleftrightarrow> strict_eq (q_tenant input) (q_resource_tenant input) \<and>
     (q_resource input, q_action input) \<in> set (granted_keys role)"
proof -
  have np: "\<not> one_of ps (q_proj_role input)" for ps
    using assms(2) by (auto dest: one_ofD)
  have org: "one_of xs (resolve_org_role (q_org_role input)) \<longleftrightarrow> role \<in> set xs" for xs
    by (simp add: assms(1))
  have vis: "r_vis r = None" if "r \<in> set allow_matrix" "role \<in> set (r_org r)" for r
    using assms(3) that by (auto simp: list_all_iff)
  have "(\<exists>r \<in> set allow_matrix. r_resource r = q_resource input \<and> r_action r = q_action input
       \<and> role \<in> set (r_org r)) \<longleftrightarrow> (q_resource input, q_action input) \<in> set (granted_keys role)"
    by (force simp: granted_keys_def)
  then show ?thesis
    unfolding allowed_iff_rule org using vis by (auto simp: np split: option.splits)
qed

section \<open>Properties\<close>

text \<open>
  C9. Who is allowed: a request is allowed exactly if the matrix has a rule for its resource and
  action, the actor and the resource belong to the same tenant, the visibility class is listed
  where the rule restricts it, and the resolved organization role or the project role is listed.
\<close>

theorem canPerform_iff:
  "allowed (canPerform input) \<longleftrightarrow>
    (\<exists>r \<in> set allow_matrix. r_resource r = q_resource input \<and> r_action r = q_action input
       \<and> strict_eq (q_tenant input) (q_resource_tenant input)
       \<and> (case r_vis r of None \<Rightarrow> True | Some vs \<Rightarrow> one_of vs (q_visibility input))
       \<and> (one_of (r_org r) (resolve_org_role (q_org_role input))
          \<or> (case r_proj r of None \<Rightarrow> False | Some ps \<Rightarrow> one_of ps (q_proj_role input))))"
  by (rule allowed_iff_rule)

text \<open>
  Least privilege of client viewers: with no project role, a client viewer is allowed nothing
  but reading projects, file records and the client portal of the own tenant.
\<close>

theorem client_viewer_read_only:
  assumes "q_org_role input = JStr ''client_viewer''" "nullish (q_proj_role input)"
  shows "allowed (canPerform input) \<longleftrightarrow>
     strict_eq (q_tenant input) (q_resource_tenant input) \<and> q_action input = ''read'' \<and>
     q_resource input \<in> {''project'', ''file_record'', ''client_portal''}"
proof -
  have "resolve_org_role (q_org_role input) = JStr ''client_viewer''"
    by (simp add: assms resolve_org_role_def org_role_aliases_def)
  then show ?thesis
    using role_without_project [OF _ assms(2) client_viewer_unrestricted]
    by (auto simp: client_viewer_keys)
qed

lemma client_viewer_read_only_witness:
  "allowed (canPerform \<lparr>q_resource = ''file_record'', q_action = ''read'', q_tenant = JStr ''t'',
     q_resource_tenant = JStr ''t'', q_org_role = JStr ''client_viewer'', q_proj_role = JUndef,
     q_visibility = JUndef\<rparr>)"
  by (subst client_viewer_read_only) simp_all

end
