(* ===== verification/Communication.thy ===== *)
theory Communication
  imports AuditTrail Contracts Policy
begin

text \<open>
  Channels, messages and notifications (packages/communication/src/index.js): the entity
  constructors, the mention scanner, channel access, sending, searching and read receipts.
\<close>

section \<open>Entities\<close>

definition channel_type_set :: "string list" where
  "channel_type_set =
    [''direct_message'', ''group_message'', ''team_channel'', ''department_channel'', ''cross_team_channel'',
     ''project_channel'', ''discipline_channel'', ''coordination_channel'', ''executive_channel'',
     ''finance_restricted_channel'', ''legal_restricted_channel'', ''announcement_channel'']"

definition visibility_class_set :: "string list" where
  "visibility_class_set =
    [''private'', ''participant_only'', ''team_only'', ''department_only'', ''project_only'',
     ''discipline_restricted'', ''restricted_control'', ''finance_restricted'', ''legal_restricted'',
     ''executive_oversight'', ''company_public_summary'']"

definition createChannel :: "jsval \<Rightarrow> jsval res" where
  "createChannel input =
    guard [req (fld input ''id'') ''Channel id'',
           req (fld input ''tenantId'') ''Channel tenantId'',
           req (fld input ''name'') ''Channel name'',
           req (fld input ''channelType'') ''Channel channelType'',
           req (fld input ''visibilityClass'') ''Channel visibilityClass'',
           (one_of channel_type_set (fld input ''channelType''),
            ''Unknown channel type: '' @ js_string (fld input ''channelType'')),
           (one_of visibility_class_set (fld input ''visibilityClass''),
            ''Unknown visibility class: '' @ js_string (fld input ''visibilityClass'')),
           (is_true (fld input ''staged''), ''Channels must be staged synthetic records.'')]
      (Inr (JObj
        [(''id'', fld input ''id''),
         (''tenantId'', fld input ''tenantId''),
         (''name'', fld input ''name''),
         (''channelType'', fld input ''channelType''),
         (''visibilityClass'', fld input ''visibilityClass''),
         (''projectId'', coalesce (fld input ''projectId'') JNull),
         (''teamId'', coalesce (fld input ''teamId'') JNull),
         (''departmentId'', coalesce (fld input ''departmentId'') JNull),
         (''createdBy'', coalesce (fld input ''createdBy'') (JStr ''system'')),
         (''staged'', JBool True)]))"

definition createChannelMembership :: "jsval \<Rightarrow> jsval res" where
  "createChannelMembership input =
    guard [req (fld input ''id'') ''Channel membership id'',
           req (fld input ''tenantId'') ''Channel membership tenantId'',
           req (fld input ''channelId'') ''Channel membership channelId'',
           req (fld input ''userId'') ''Channel membership userId'',
           (is_true (fld input ''staged''), ''Channel memberships must be staged synthetic records.'')]
      (Inr (JObj
        [(''id'', fld input ''id''),
         (''tenantId'', fld input ''tenantId''),
         (''channelId'', fld input ''channelId''),
         (''userId'', fld input ''userId''),
         (''membershipRole'', coalesce (fld input ''membershipRole'') (JStr ''member'')),
         (''staged'', JBool True)]))"

definition createNotificationPreference :: "jsval \<Rightarrow> jsval res" where
  "createNotificationPreference input =
    guard [req (fld input ''userId'') ''Notification preference userId'',
           req (fld input ''tenantId'') ''Notification preference tenantId'']
      (Inr (JObj
        [(''userId'', fld input ''userId''),
         (''tenantId'', fld input ''tenantId''),
         (''mutedChannelIds'', coalesce (fld input ''mutedChannelIds'') (JArr [])),
         (''announcementNotifications'', coalesce (fld input ''announcementNotifications'') (JBool True)),
         (''mentionNotifications'', coalesce (fld input ''mentionNotifications'') (JBool True)),
         (''staged'', JBool True)]))"

text \<open>The matches of \<open>/@([a-z0-9._-]+)/gi\<close>: an at sign and the longest run of name characters.\<close>

definition mention_char :: "char \<Rightarrow> bool" where
  "mention_char c = (lower_char c \<in> set ''abcdefghijklmnopqrstuvwxyz0123456789._-'')"

function mentions_from :: "string \<Rightarrow> string list" where
  "mentions_from [] = []"
| "mentions_from (c # s) =
     (if c = CHR ''@'' \<and> takeWhile mention_char s \<noteq> []
      then js_lower (takeWhile mention_char s) # mentions_from (dropWhile mention_char s)
      else mentions_from s)"
  by pat_completeness auto

termination
  by (relation "measure length") (auto simp: less_Suc_eq_le length_dropWhile_le)

definition parseMentions :: "jsval \<Rightarrow> jsval res" where
  "parseMentions body =
    guard [req body ''Message body'']
      (Inr (JArr (map JStr (mentions_from (js_string body)))))"

definition createAttachmentReference :: "jsval \<Rightarrow> jsval res" where
  "createAttachmentReference input =
    guard [req (fld input ''id'') ''Attachment id'',
           req (fld input ''tenantId'') ''Attachment tenantId'',
           req (fld input ''fileRecordId'') ''Attachment fileRecordId'']
      (Inr (JObj
        [(''id'', fld input ''id''),
         (''tenantId'', fld input ''tenantId''),
         (''fileRecordId'', fld input ''fileRecordId''),
         (''fileClass'', coalesce (fld input ''fileClass'') (JStr ''general_document'')),
         (''staged'', JBool True)]))"

definition createMessage :: "jsval \<Rightarrow> jsval res" where
  "createMessage input =
    guard [req (fld input ''id'') ''Message id'',
           req (fld input ''tenantId'') ''Message tenantId'',
           req (fld input ''channelId'') ''Message channelId'',
           req (fld input ''senderUserId'') ''Message senderUserId'',
           req (fld input ''body'') ''Message body'',
           req_array (coalesce (fld input ''attachments'') (JArr [])) ''Message attachments'']
    (and_then (parseMentions (fld input ''body'')) (\<lambda>mentions.
     Inr (JObj
        [(''id'', fld input ''id''),
         (''tenantId'', fld input ''tenantId''),
         (''channelId'', fld input ''channelId''),
         (''senderUserId'', fld input ''senderUserId''),
         (''body'', fld input ''body''),
         (''threadRootId'', coalesce (fld input ''threadRootId'') JNull),
         (''mentions'', mentions),
         (''attachments'', coalesce (fld input ''attachments'') (JArr [])),
         (''references'', coalesce (fld input ''references'') (JArr [])),
         (''revision'', coalesce (fld input ''revision'') (JNum 1)),
         (''deleted'', JBool False),
         (''staged'', JBool True)])))"

definition createMessageRevision :: "ctx \<Rightarrow> jsval \<Rightarrow> jsval \<Rightarrow> jsval res" where
  "createMessageRevision cx message updatedBody =
    guard [req updatedBody ''Updated message body'']
    (and_then (parseMentions updatedBody) (\<lambda>mentions.
     and_then (get_fld message ''revision'') (\<lambda>revision.
     Inr (spread message
        [(''body'', updatedBody),
         (''mentions'', mentions),
         (''revision'', js_add1 revision),
         (''editedAt'', JStr (ctx_now cx))]))))"

section \<open>Channel access\<close>

definition findChannelMembership :: "jsval \<Rightarrow> jsval \<Rightarrow> jsval \<Rightarrow> jsval option res" where
  "findChannelMembership channelMemberships channelId userId =
    js_find (\<lambda>membership. strict_eq (fld membership ''channelId'') channelId
               \<and> strict_eq (fld membership ''userId'') userId) channelMemberships"

definition baseCommunicationDecision :: "jsval \<Rightarrow> jsval \<Rightarrow> string \<Rightarrow> jsval \<Rightarrow> decision" where
  "baseCommunicationDecision session channel action projectRole =
    canPerform \<lparr>q_resource = (if fld channel ''channelType'' = JStr ''announcement_channel''
                              then ''announcement_channel'' else ''channel''),
      q_action = action, q_tenant = fld session ''tenantId'', q_resource_tenant = fld channel ''tenantId'',
      q_org_role = fld session ''organizationRole'', q_proj_role = projectRole,
      q_visibility = fld channel ''visibilityClass''\<rparr>"

definition canAccessChannel :: "jsval \<Rightarrow> jsval \<Rightarrow> jsval \<Rightarrow> decision res" where
  "canAccessChannel session channel memberships =
    and_then (get_fld channel ''tenantId'') (\<lambda>tenantId.
    and_then (assertSessionTenantAccess session tenantId) (\<lambda>_.
    and_then (findChannelMembership memberships (fld channel ''id'') (fld session ''userId'')) (\<lambda>membership.
    if fld channel ''visibilityClass'' = JStr ''private'' \<and> membership = None
    then Inr (deny ''private_membership_required'')
    else
    and_then (js_find (\<lambda>entry. strict_eq (fld entry ''projectId'') (fld channel ''projectId''))
                (fld session ''projectRoles'')) (\<lambda>entry.
    let projectRole = (case entry of None \<Rightarrow> JUndef | Some e \<Rightarrow> fld e ''role'');
        decision = baseCommunicationDecision session channel ''read'' projectRole
    in if \<not> allowed decision then Inr decision
    else
    and_then (if fld channel ''visibilityClass'' = JStr ''project_only'' \<and> truthy (fld channel ''projectId'')
              then includes_call (fld session ''allowedProjectIds'') (fld channel ''projectId'')
              else Inr True) (\<lambda>inScope.
    Inr (if \<not> inScope then deny ''project_scope_required''
         else if one_of [''finance_restricted'', ''legal_restricted'', ''restricted_control''] (fld channel ''visibilityClass'')
                 \<and> membership = None
         then deny ''restricted_membership_required''
         else grant))))))"

section \<open>Messages\<close>

definition makeId :: "string \<Rightarrow> string \<Rightarrow> jsval" where
  "makeId prefix v = JStr (prefix @ ''-'' @ v)"

text \<open>Whether a membership of the loop adds its user to the recipients.\<close>

definition notifies :: "jsval \<Rightarrow> jsval \<Rightarrow> jsval \<Rightarrow> jsval \<Rightarrow> jsval \<Rightarrow> bool res" where
  "notifies message channel notificationPreferences senderUserId membership =
    and_then (get_fld membership ''channelId'') (\<lambda>channelId.
    if \<not> strict_eq channelId (fld channel ''id'') \<or> strict_eq (fld membership ''userId'') senderUserId
    then Inr False
    else
    and_then (js_find (\<lambda>item. strict_eq (fld item ''userId'') (fld membership ''userId'')) notificationPreferences)
      (\<lambda>found.
    let preference = (case found of None \<Rightarrow> JNull | Some p \<Rightarrow> p) in
    and_then (if nullish (fld preference ''mutedChannelIds'') then Inr False
              else includes_call (fld preference ''mutedChannelIds'') (fld channel ''id'')) (\<lambda>channelMuted.
    and_then (lower_call (fld membership ''userId'')) (\<lambda>lowered.
    and_then (includes_call (fld message ''mentions'') (JStr lowered)) (\<lambda>mentioned.
    Inr (\<not> (channelMuted \<and> \<not> mentioned)
         \<and> \<not> (fld channel ''channelType'' = JStr ''announcement_channel''
               \<and> fld preference ''announcementNotifications'' = JBool False)))))))"

definition notification :: "jsval \<Rightarrow> jsval \<Rightarrow> jsval \<Rightarrow> jsval res" where
  "notification message channel userId =
    and_then (lower_call userId) (\<lambda>lowered.
    and_then (includes_call (fld message ''mentions'') (JStr lowered)) (\<lambda>mentioned.
    Inr (JObj
      [(''id'', makeId ''notification'' (js_string (fld message ''id'') @ ''-'' @ js_string userId)),
       (''tenantId'', fld channel ''tenantId''),
       (''userId'', userId),
       (''channelId'', fld channel ''id''),
       (''messageId'', fld message ''id''),
       (''type'', JStr (if mentioned then ''mention'' else ''channel_message'')),
       (''staged'', JBool True)])))"

definition buildNotificationEvents :: "jsval \<Rightarrow> jsval \<Rightarrow> jsval list \<Rightarrow> jsval \<Rightarrow> jsval \<Rightarrow> jsval list res" where
  "buildNotificationEvents message channel channelMemberships notificationPreferences senderUserId =
    and_then (filter_res (notifies message channel notificationPreferences senderUserId) channelMemberships)
      (\<lambda>chosen. map_res (notification message channel) (js_set (map (\<lambda>m. fld m ''userId'') chosen)))"

definition sendMessage :: "ctx \<Rightarrow> jsval \<Rightarrow> jsval \<Rightarrow> jsval list \<Rightarrow> jsval \<Rightarrow> jsval \<Rightarrow> jsval res" where
  "sendMessage cx session channel channelMemberships messageInput notificationPreferences =
    and_then (canAccessChannel session channel (JArr channelMemberships)) (\<lambda>channelDecision.
    guard [(allowed channelDecision, ''Message send denied: '' @ reason channelDecision)]
    (and_then (if truthy (fld channel ''projectId'') then assertProjectAccess session (fld channel ''projectId'')
               else Inr ()) (\<lambda>_.
     and_then (createMessage (spread messageInput
        [(''tenantId'', fld channel ''tenantId''),
         (''channelId'', fld channel ''id''),
         (''senderUserId'', fld session ''userId'')])) (\<lambda>message.
     and_then (createAuditEvent cx (JObj
        [(''tenantId'', fld channel ''tenantId''),
         (''actorType'', JStr ''user''),
         (''actorId'', fld session ''userId''),
         (''action'', JStr ''message.sent''),
         (''resourceType'', JStr ''message''),
         (''resourceId'', fld message ''id'')])) (\<lambda>auditEvent.
     and_then (createOutboxEvent (later cx) (JObj
        [(''eventType'', JStr ''communication.message.sent''),
         (''aggregateType'', JStr ''message''),
         (''aggregateId'', fld message ''id''),
         (''tenantId'', fld channel ''tenantId''),
         (''payload'', JObj [(''channelId'', fld channel ''id''), (''mentions'', fld message ''mentions'')])])) (\<lambda>outboxEvent.
     and_then (buildNotificationEvents message channel channelMemberships
                 (default_arg notificationPreferences (JArr [])) (fld session ''userId'')) (\<lambda>notifications.
     Inr (JObj
        [(''message'', message),
         (''auditEvent'', auditEvent),
         (''outboxEvent'', outboxEvent),
         (''notifications'', JArr notifications)]))))))))"

text \<open>\<open>channelMap\<close> is a \<open>Map\<close> from channel ids to channels.\<close>

definition search_hit ::
  "jsval \<Rightarrow> (jsval \<times> jsval) list \<Rightarrow> jsval \<Rightarrow> string \<Rightarrow> jsval \<Rightarrow> bool res" where
  "search_hit session channelMap channelMemberships normalizedQuery message =
    and_then (get_fld message ''channelId'') (\<lambda>channelId.
      case map_of channelMap channelId of
        None \<Rightarrow> Inr False
      | Some channel \<Rightarrow>
          if \<not> truthy channel then Inr False
          else and_then (canAccessChannel session channel channelMemberships) (\<lambda>access.
            if \<not> allowed access then Inr False
            else and_then (lower_call (fld message ''body'')) (\<lambda>body.
              Inr (contains body normalizedQuery))))"

definition searchMessages ::
  "jsval \<Rightarrow> (jsval \<times> jsval) list \<Rightarrow> jsval \<Rightarrow> jsval list \<Rightarrow> jsval \<Rightarrow> jsval list res" where
  "searchMessages session channelMap channelMemberships messages query =
    guard [req query ''Search query'']
    (and_then (lower_call query) (\<lambda>normalizedQuery.
     filter_res (search_hit session channelMap channelMemberships normalizedQuery) messages))"

definition markMessageRead :: "jsval \<Rightarrow> jsval \<Rightarrow> jsval \<Rightarrow> jsval \<Rightarrow> jsval res" where
  "markMessageRead session message channel channelMemberships =
    and_then (canAccessChannel session channel channelMemberships) (\<lambda>access.
    guard [(allowed access, ''Read state update denied: '' @ reason access)]
    (and_then (get_fld message ''id'') (\<lambda>messageId.
     Inr (JObj
        [(''id'', makeId ''read'' (js_string messageId @ ''-'' @ js_string (fld session ''userId''))),
         (''tenantId'', fld channel ''tenantId''),
         (''channelId'', fld channel ''id''),
         (''messageId'', messageId),
         (''userId'', fld session ''userId''),
         (''staged'', JBool True)]))))"

section \<open>Lemmas\<close>

lemma find_first_total: "list_all (\<lambda>x. \<not> nullish x) xs \<Longrightarrow> find_first P xs = Inr (find P xs)"
  by (induction xs) auto

lemma js_find_total: "list_all (\<lambda>x. \<not> nullish x) xs \<Longrightarrow> js_find P (JArr xs) = Inr (find P xs)"
  by (simp add: js_find_def elements_def find_first_total)

lemma and_then_cong: "r = r' \<Longrightarrow> (\<And>v. r' = Inr v \<Longrightarrow> f v = g v) \<Longrightarrow> and_then r f = and_then r' g"
  by (cases r') auto

text \<open>The rule behind every access decision, and the absence of one for announcements.\<close>

definition channel_classes :: "string list" where
  "channel_classes = [''participant_only'', ''team_only'', ''department_only'', ''project_only'', ''company_public_summary'']"

definition channel_roles :: "string list" where
  "channel_roles = [''platform_admin'', ''company_admin'', ''supervisor'', ''employee'']"

lemma channel_read_rule:
  "rule_for ''channel'' ''read'' = Some \<lparr>r_resource = ''channel'', r_action = ''read'',
     r_org = channel_roles, r_proj = None, r_vis = Some channel_classes\<rparr>"
  by code_simp

lemma announcement_read_rule: "rule_for ''announcement_channel'' ''read'' = None"
  by code_simp

lemma channel_decision:
  "allowed (baseCommunicationDecision session channel ''read'' pr) \<longleftrightarrow>
     fld channel ''channelType'' \<noteq> JStr ''announcement_channel''
     \<and> strict_eq (fld session ''tenantId'') (fld channel ''tenantId'')
     \<and> one_of channel_classes (fld channel ''visibilityClass'')
     \<and> one_of channel_roles (resolve_org_role (fld session ''organizationRole''))"
proof (cases "fld channel ''channelType'' = JStr ''announcement_channel''")
  case True
  then show ?thesis
    by (simp only: baseCommunicationDecision_def canPerform_rule access_request.simps if_True
        announcement_read_rule option.case decision_simps simp_thms)
next
  case False
  then show ?thesis
    by (simp add: baseCommunicationDecision_def canPerform_rule channel_read_rule)
qed

text \<open>The classes a rule lists are none of the restricted ones.\<close>

lemma channel_class_unrestricted:
  assumes "one_of channel_classes v"
  shows "v \<noteq> JStr ''private''" "\<not> one_of [''finance_restricted'', ''legal_restricted'', ''restricted_control''] v"
proof -
  have "list_all (\<lambda>c. c \<noteq> ''private'' \<and> c \<notin> set [''finance_restricted'', ''legal_restricted'', ''restricted_control'']) channel_classes"
    by code_simp
  with assms show "v \<noteq> JStr ''private''"
    "\<not> one_of [''finance_restricted'', ''legal_restricted'', ''restricted_control''] v"
    by (auto simp: list_all_iff simp del: set_simps dest!: one_ofD)
qed

text \<open>Access when no step can throw: the checks as one conditional.\<close>

lemma access_value:
  assumes ms: "list_all (\<lambda>m. \<not> nullish m) ms"
    and rs: "fld session ''projectRoles'' = JArr rs" "list_all (\<lambda>e. \<not> nullish e) rs"
    and ps: "fld session ''allowedProjectIds'' = JArr ps"
  obtains member pr where "canAccessChannel session (JObj c) (JArr ms) =
    and_then (assertSessionTenantAccess session (fld (JObj c) ''tenantId'')) (\<lambda>_.
      if fld (JObj c) ''visibilityClass'' = JStr ''private'' \<and> \<not> member
      then Inr (deny ''private_membership_required'')
      else if \<not> allowed (baseCommunicationDecision session (JObj c) ''read'' pr)
      then Inr (baseCommunicationDecision session (JObj c) ''read'' pr)
      else Inr (if (fld (JObj c) ''visibilityClass'' = JStr ''project_only'' \<and> truthy (fld (JObj c) ''projectId''))
           \<and> includes_call (JArr ps) (fld (JObj c) ''projectId'') = Inr False then deny ''project_scope_required''
         else if one_of [''finance_restricted'', ''legal_restricted'', ''restricted_control''] (fld (JObj c) ''visibilityClass'')
                 \<and> \<not> member
         then deny ''restricted_membership_required''
         else grant))"
proof -
  let ?m = "find (\<lambda>membership. strict_eq (fld membership ''channelId'') (fld (JObj c) ''id'')
               \<and> strict_eq (fld membership ''userId'') (fld session ''userId'')) ms"
  let ?e = "find (\<lambda>entry. strict_eq (fld entry ''projectId'') (fld (JObj c) ''projectId'')) rs"
  show thesis
  proof (rule that [of "?m \<noteq> None" "case ?e of None \<Rightarrow> JUndef | Some e \<Rightarrow> fld e ''role''"])
  qed (simp add: canAccessChannel_def get_fld_def findChannelMembership_def js_find_total ms rs ps Let_def
      cong: and_then_cong if_cong)
qed

lemma access_checks:
  "(\<exists>d. (\<exists>u :: unit. (s \<and> t) \<and> (if pr \<and> \<not> m then Inr (deny w1)
      else if \<not> allowed d0 then Inr d0
      else Inr (if q \<and> n then deny w2 else if x \<and> \<not> m then deny w3 else grant)) = (Inr d :: decision res)) \<and> allowed d)
   \<longleftrightarrow> s \<and> t \<and> \<not> (pr \<and> \<not> m) \<and> allowed d0 \<and> \<not> (q \<and> n) \<and> \<not> (x \<and> \<not> m)"
  by auto

lemma access_logic:
  "(d \<longleftrightarrow> a \<and> t \<and> v \<and> r) \<Longrightarrow> (v \<Longrightarrow> \<not> pr) \<Longrightarrow> (v \<Longrightarrow> \<not> x) \<Longrightarrow>
   (s \<and> t \<and> \<not> (pr \<and> \<not> m) \<and> d \<and> \<not> (q \<and> n) \<and> \<not> (x \<and> \<not> m)) =
   (s \<and> t \<and> a \<and> v \<and> r \<and> (if q then \<not> n else True))"
  by auto

lemma access_iff:
  assumes ms: "list_all (\<lambda>m. \<not> nullish m) ms"
    and rs: "fld session ''projectRoles'' = JArr rs" "list_all (\<lambda>e. \<not> nullish e) rs"
    and ps: "fld session ''allowedProjectIds'' = JArr ps"
  shows "(\<exists>d. canAccessChannel session (JObj c) (JArr ms) = Inr d \<and> allowed d) \<longleftrightarrow>
    is_true (fld session ''staged'') \<and> strict_eq (fld session ''tenantId'') (fld (JObj c) ''tenantId'')
    \<and> fld (JObj c) ''channelType'' \<noteq> JStr ''announcement_channel''
    \<and> one_of channel_classes (fld (JObj c) ''visibilityClass'')
    \<and> one_of channel_roles (resolve_org_role (fld session ''organizationRole''))
    \<and> (if fld (JObj c) ''visibilityClass'' = JStr ''project_only'' \<and> truthy (fld (JObj c) ''projectId'')
       then includes_call (JArr ps) (fld (JObj c) ''projectId'') = Inr True else True)"
proof -
  obtain member pr where val: "canAccessChannel session (JObj c) (JArr ms) =
    and_then (assertSessionTenantAccess session (fld (JObj c) ''tenantId'')) (\<lambda>_.
      if fld (JObj c) ''visibilityClass'' = JStr ''private'' \<and> \<not> member
      then Inr (deny ''private_membership_required'')
      else if \<not> allowed (baseCommunicationDecision session (JObj c) ''read'' pr)
      then Inr (baseCommunicationDecision session (JObj c) ''read'' pr)
      else Inr (if (fld (JObj c) ''visibilityClass'' = JStr ''project_only'' \<and> truthy (fld (JObj c) ''projectId''))
           \<and> includes_call (JArr ps) (fld (JObj c) ''projectId'') = Inr False then deny ''project_scope_required''
         else if one_of [''finance_restricted'', ''legal_restricted'', ''restricted_control''] (fld (JObj c) ''visibilityClass'')
                 \<and> \<not> member
         then deny ''restricted_membership_required''
         else grant))"
    by (rule access_value [OF assms])
  have inc: "includes_call (JArr ps) x = Inr True \<longleftrightarrow> includes_call (JArr ps) x \<noteq> Inr False" for x
    by simp
  show ?thesis
    unfolding val and_then_Inr assertSessionTenantAccess_ok inc access_checks
    by (rule access_logic [OF channel_decision channel_class_unrestricted(1) channel_class_unrestricted(2)])
qed

lemma created_message:
  assumes "createMessage input = Inr m"
  shows "fld m ''tenantId'' = fld input ''tenantId''" "fld m ''channelId'' = fld input ''channelId''"
    "fld m ''senderUserId'' = fld input ''senderUserId''" "nonblank (fld m ''body'')"
  using assms unfolding createMessage_def and_then_Inr guard_Inr by auto

lemma notifies_member:
  assumes "notifies message channel prefs sender membership = Inr True"
  shows "strict_eq (fld membership ''channelId'') (fld channel ''id'')"
    "\<not> strict_eq (fld membership ''userId'') sender"
  using assms unfolding notifies_def and_then_Inr get_fld_def
  by (metis (no_types, lifting) Inl_Inr_False Inr_inject)+

lemma notification_fields:
  assumes "notification message channel userId = Inr n"
  shows "fld n ''userId'' = userId" "fld n ''tenantId'' = fld channel ''tenantId''"
    "fld n ''messageId'' = fld message ''id''"
  using assms unfolding notification_def and_then_Inr by auto

lemma notified_members:
  assumes "buildNotificationEvents message channel ms prefs sender = Inr ns" "n \<in> set ns"
  shows "\<exists>m \<in> set ms. fld m ''userId'' = fld n ''userId'' \<and> strict_eq (fld m ''channelId'') (fld channel ''id'')
     \<and> strict_eq (fld m ''userId'') sender = False"
    and "fld n ''tenantId'' = fld channel ''tenantId''"
proof -
  obtain chosen where ch: "filter_res (notifies message channel prefs sender) ms = Inr chosen"
    and ns: "map_res (notification message channel) (js_set (map (\<lambda>m. fld m ''userId'') chosen)) = Inr ns"
    using assms(1) unfolding buildNotificationEvents_def and_then_Inr by blast
  from map_res_member [OF ns assms(2)] obtain u where u: "u \<in> set (js_set (map (\<lambda>m. fld m ''userId'') chosen))"
    "notification message channel u = Inr n" by (elim bexE)
  from u(1) obtain m where m: "m \<in> set chosen" "u = fld m ''userId''"
    unfolding js_set_members set_map by (elim imageE)
  note ms = filter_res_member [OF ch m(1), THEN conjunct1] filter_res_member [OF ch m(1), THEN conjunct2]
  show "\<exists>m \<in> set ms. fld m ''userId'' = fld n ''userId'' \<and> strict_eq (fld m ''channelId'') (fld channel ''id'')
     \<and> strict_eq (fld m ''userId'') sender = False"
  proof (intro bexI conjI)
    show "fld m ''userId'' = fld n ''userId''" unfolding notification_fields(1) [OF u(2)] m(2) ..
    show "strict_eq (fld m ''userId'') sender = False" using notifies_member(2) [OF ms(2)] by (simp only:)
  qed (rule notifies_member(1) [OF ms(2)], rule ms(1))
  show "fld n ''tenantId'' = fld channel ''tenantId''" by (rule notification_fields(2) [OF u(2)])
qed

lemma search_hit_iff:
  assumes "\<exists>b. search_hit session channelMap memberships q m = Inr b"
  shows "search_hit session channelMap memberships q m = Inr True \<longleftrightarrow>
    (\<exists>channel d body. map_of channelMap (fld m ''channelId'') = Some channel \<and> truthy channel
        \<and> canAccessChannel session channel memberships = Inr d \<and> allowed d
        \<and> fld m ''body'' = JStr body \<and> contains (js_lower body) q)"
proof -
  have nn: "\<not> nullish m" using assms unfolding search_hit_def get_fld_def by (cases "nullish m") simp_all
  show ?thesis
  proof (cases "map_of channelMap (fld m ''channelId'')")
    case None
    with nn show ?thesis by (simp add: search_hit_def get_fld_def)
  next
    case (Some channel)
    with nn show ?thesis
      by (cases "canAccessChannel session channel memberships"; cases "fld m ''body''")
        (simp_all add: search_hit_def get_fld_def lower_call_def)
  qed
qed

section \<open>Properties\<close>


definition demo_member_session :: jsval where
  "demo_member_session = JObj [(''staged'', JBool True), (''tenantId'', JStr ''t''), (''userId'', JStr ''ann''),
     (''organizationRole'', JStr ''employee''), (''projectRoles'', JArr []), (''allowedProjectIds'', JArr [JStr ''p''])]"

definition demo_channel :: "string \<Rightarrow> jsval" where
  "demo_channel vis = JObj [(''id'', JStr ''c''), (''tenantId'', JStr ''t''), (''channelType'', JStr ''team_channel''),
     (''visibilityClass'', JStr vis), (''projectId'', JStr ''p'')]"

definition demo_membership :: "string \<Rightarrow> jsval" where
  "demo_membership u = JObj [(''channelId'', JStr ''c''), (''userId'', JStr u)]"


text \<open>
  Sending binds the message to its channel and sender: whatever the input claims, the message has
  the tenant and id of the channel and the user of the session, the sender had access, and only
  members of that channel other than the sender are notified, within the channel's tenant.
\<close>

theorem sendMessage_binds:
  assumes "sendMessage cx session channel ms messageInput prefs = Inr out"
  shows "(\<exists>d. canAccessChannel session channel (JArr ms) = Inr d \<and> allowed d)
    \<and> fld (fld out ''message'') ''tenantId'' = fld channel ''tenantId''
    \<and> fld (fld out ''message'') ''channelId'' = fld channel ''id''
    \<and> fld (fld out ''message'') ''senderUserId'' = fld session ''userId''
    \<and> (\<exists>ns. fld out ''notifications'' = JArr ns \<and> (\<forall>n \<in> set ns. fld n ''tenantId'' = fld channel ''tenantId''
          \<and> (\<exists>m \<in> set ms. fld m ''userId'' = fld n ''userId'' \<and> strict_eq (fld m ''channelId'') (fld channel ''id'')
              \<and> strict_eq (fld m ''userId'') (fld session ''userId'') = False)))"
proof -
  obtain d message ns where d: "canAccessChannel session channel (JArr ms) = Inr d" "allowed d"
    and msg: "createMessage (spread messageInput
        [(''tenantId'', fld channel ''tenantId''), (''channelId'', fld channel ''id''),
         (''senderUserId'', fld session ''userId'')]) = Inr message"
    and nots: "buildNotificationEvents message channel ms (default_arg prefs (JArr [])) (fld session ''userId'') = Inr ns"
    and out: "fld out ''message'' = message" "fld out ''notifications'' = JArr ns"
    using assms unfolding sendMessage_def and_then_Inr guard_Inr list.pred_inject fst_conv
    by (elim exE conjE) (rule that, assumption+, auto)
  obtain fs where fs: "own_fields messageInput = fs" by blast
  have sp: "fld message ''tenantId'' = fld channel ''tenantId''" "fld message ''channelId'' = fld channel ''id''"
    "fld message ''senderUserId'' = fld session ''userId''"
    unfolding created_message [OF msg] by (simp_all add: spread_def)
  show ?thesis
    using d out sp notified_members [OF nots] by metis
qed

definition demo_post :: jsval where
  "demo_post = JObj [(''id'', JStr ''m''), (''body'', JStr ''hi @Bob''), (''senderUserId'', JStr ''mallory''),
     (''tenantId'', JStr ''other'')]"

definition demo_sent :: jsval where
  "demo_sent = ok_value (sendMessage demo_ctx demo_member_session (demo_channel ''team_only'')
     [demo_membership ''ann'', demo_membership ''bob''] demo_post JUndef)"

lemma sendMessage_binds_witness: "fld (fld demo_sent ''message'') ''senderUserId'' = JStr ''ann''"
proof -
  have "sendMessage demo_ctx demo_member_session (demo_channel ''team_only'')
     [demo_membership ''ann'', demo_membership ''bob''] demo_post JUndef = Inr demo_sent"
    by code_simp
  from sendMessage_binds [OF this]
  have "fld (fld demo_sent ''message'') ''senderUserId'' = fld demo_member_session ''userId''"
    by (elim conjE)
  also have "\<dots> = JStr ''ann''" by code_simp
  finally show ?thesis .
qed

text \<open>
  Searching leaks nothing: the results are exactly the given messages, in their order, whose
  channel is known and accessible to the session and whose body contains the query, both in lower
  case.
\<close>

theorem searchMessages_exact:
  assumes "searchMessages session channelMap memberships messages query = Inr found"
  shows "\<exists>q. query = JStr q \<and> found = filter (\<lambda>m.
     (\<exists>channel d body. map_of channelMap (fld m ''channelId'') = Some channel \<and> truthy channel
        \<and> canAccessChannel session channel memberships = Inr d \<and> allowed d
        \<and> fld m ''body'' = JStr body \<and> contains (js_lower body) (js_lower q))) messages"
proof -
  obtain q where q: "query = JStr q"
    using assms unfolding searchMessages_def guard_Inr list.pred_inject fst_conv by (auto dest: nonblank_str)
  have f: "filter_res (search_hit session channelMap memberships (js_lower q)) messages = Inr found"
    using assms unfolding searchMessages_def guard_Inr list.pred_inject fst_conv q lower_call_def by simp
  then have "filter (\<lambda>m. search_hit session channelMap memberships (js_lower q) m = Inr True) messages = filter (\<lambda>m.
     (\<exists>channel d body. map_of channelMap (fld m ''channelId'') = Some channel \<and> truthy channel
        \<and> canAccessChannel session channel memberships = Inr d \<and> allowed d
        \<and> fld m ''body'' = JStr body \<and> contains (js_lower body) (js_lower q))) messages"
    unfolding filter_res_Inr by (intro filter_cong search_hit_iff) blast+
  with f show ?thesis unfolding filter_res_Inr by (intro exI [of _ q] conjI q) (simp only:)
qed

lemma searchMessages_exact_witness:
  "\<exists>q. JStr ''HI'' = JStr q \<and> [fld demo_sent ''message''] = filter (\<lambda>m.
     (\<exists>channel d body. map_of [(JStr ''c'', demo_channel ''team_only''), (JStr ''d'', demo_channel ''private'')]
          (fld m ''channelId'') = Some channel \<and> truthy channel
        \<and> canAccessChannel demo_member_session channel (JArr []) = Inr d \<and> allowed d
        \<and> fld m ''body'' = JStr body \<and> contains (js_lower body) (js_lower q)))
     [spread (fld demo_sent ''message'') [(''channelId'', JStr ''d'')], fld demo_sent ''message'']"
  by (rule searchMessages_exact) code_simp

end
