(* ===== verification/Outbox.thy ===== *)
theory Outbox
  imports JsValue
begin

text \<open>
  The transactional outbox (apps/api/src/reliability/outbox.js): jobs, the checks shared by its
  backends, and the in-memory store. A job is a record, its timestamps are milliseconds since
  the epoch (the code writes them as ISO text and reads them back with \<open>Date.parse\<close>); the store
  keeps its two \<open>Map\<close>s as association lists in insertion order.
\<close>

section \<open>Jobs\<close>

datatype job_status = Pending | Processing | Failed | Processed | Dead

definition job_statuses :: "job_status list" where
  "job_statuses = [Pending, Processing, Failed, Processed, Dead]"

fun status_name :: "job_status \<Rightarrow> string" where
  "status_name Pending = ''pending''"
| "status_name Processing = ''processing''"
| "status_name Failed = ''failed''"
| "status_name Processed = ''processed''"
| "status_name Dead = ''dead''"

record job =
  j_id :: string
  j_tenant :: jsval
  j_event :: jsval
  j_key :: string
  j_status :: job_status
  j_attempts :: nat
  j_next :: int
  j_locked_at :: "int option"
  j_locked_by :: "string option"
  j_error :: "string option"
  j_replays :: nat
  j_replayed_at :: "int option"
  j_replay_reason :: "string option"
  j_created :: int
  j_updated :: int
  j_completed :: "int option"

text \<open>\<open>nowDate\<close>: a date exists for at most 8.64e15 milliseconds around the epoch.\<close>

definition valid_time :: "int \<Rightarrow> bool" where
  "valid_time t = (\<bar>t\<bar> \<le> 8640000000000000)"

abbreviation now_guard :: "int \<Rightarrow> bool \<times> string" where
  "now_guard t \<equiv> (valid_time t, ''Outbox time is invalid.'')"

definition range_error :: js_error where
  "range_error = JsError ''Invalid time value'' (Some ''RangeError'') None"

definition boundedError :: "js_error \<Rightarrow> string" where
  "boundedError e = take 4000 (err_message e)"

definition control_char :: "char \<Rightarrow> bool" where
  "control_char c = ((of_char c :: nat) < 32 \<or> c = CHR 0x7F)"

definition normalizedReplayReason :: "jsval \<Rightarrow> string res" where
  "normalizedReplayReason v =
    (let reason = js_trim (js_string v) in
     guard [req v ''Replay reason'',
            (\<not> (length reason > 500 \<or> list_ex control_char reason),
             ''Replay reason must be at most 500 printable characters.'')]
       (Inr reason))"

definition defaultIdempotencyKey :: "jsval \<Rightarrow> string" where
  "defaultIdempotencyKey event = join '':'' (elem_strings
     [fld event ''eventType'', coalesce (fld event ''eventVersion'') (JNum 1),
      fld event ''aggregateType'', fld event ''aggregateId''])"

definition sameLogicalEvent :: "job \<Rightarrow> jsval \<Rightarrow> bool" where
  "sameLogicalEvent existing candidate =
    (strict_eq (j_tenant existing) (coalesce (fld candidate ''tenantId'') JNull)
     \<and> strict_eq (fld (j_event existing) ''eventType'') (fld candidate ''eventType'')
     \<and> strict_eq (coalesce (fld (j_event existing) ''eventVersion'') (JNum 1))
                 (coalesce (fld candidate ''eventVersion'') (JNum 1))
     \<and> strict_eq (fld (j_event existing) ''aggregateType'') (fld candidate ''aggregateType'')
     \<and> strict_eq (fld (j_event existing) ''aggregateId'') (fld candidate ''aggregateId''))"

definition idempotencyConflict :: js_error where
  "idempotencyConflict = JsError ''Outbox idempotency key is already bound to a different logical event.''
     (Some ''outbox_idempotency_conflict'') None"

definition newJob :: "jsval \<Rightarrow> jsval \<Rightarrow> int \<Rightarrow> job res" where
  "newJob event idempotencyKey now =
    (let key = coalesce idempotencyKey (JStr (defaultIdempotencyKey event)) in
     guard [req (fld event ''id'') ''Outbox event id'',
            req (fld event ''eventType'') ''Outbox event type'',
            req (fld event ''aggregateType'') ''Outbox aggregate type'',
            req (fld event ''aggregateId'') ''Outbox aggregate id'',
            now_guard now,
            req key ''Outbox idempotency key'']
       (Inr \<lparr>j_id = js_trim (js_string (fld event ''id'')),
             j_tenant = coalesce (fld event ''tenantId'') JNull,
             j_event = event,
             j_key = js_trim (js_string key),
             j_status = Pending, j_attempts = 0, j_next = now,
             j_locked_at = None, j_locked_by = None, j_error = None,
             j_replays = 0, j_replayed_at = None, j_replay_reason = None,
             j_created = now, j_updated = now, j_completed = None\<rparr>))"

definition backoffMs :: "nat \<Rightarrow> int \<Rightarrow> int \<Rightarrow> int" where
  "backoffMs attempts baseBackoffMs maxBackoffMs =
     min maxBackoffMs (baseBackoffMs * 2 ^ (attempts - 1))"

text \<open>The updates of a job that claiming, completing, failing and replaying make.\<close>

definition claimed :: "string \<Rightarrow> int \<Rightarrow> job \<Rightarrow> job" where
  "claimed workerId now j = j\<lparr>j_status := Processing, j_attempts := j_attempts j + 1,
     j_locked_at := Some now, j_locked_by := Some workerId, j_updated := now\<rparr>"

definition completed :: "int \<Rightarrow> job \<Rightarrow> job" where
  "completed now j = j\<lparr>j_status := Processed, j_locked_at := None, j_locked_by := None,
     j_error := None, j_updated := now, j_completed := Some now\<rparr>"

definition next_attempt :: "int \<Rightarrow> int \<Rightarrow> int \<Rightarrow> int \<Rightarrow> job \<Rightarrow> int" where
  "next_attempt now maxAttempts baseBackoffMs maxBackoffMs j =
     (if int (j_attempts j) \<ge> maxAttempts then now
      else now + backoffMs (j_attempts j) baseBackoffMs maxBackoffMs)"

definition failed :: "js_error \<Rightarrow> int \<Rightarrow> int \<Rightarrow> int \<Rightarrow> int \<Rightarrow> job \<Rightarrow> job" where
  "failed e now maxAttempts baseBackoffMs maxBackoffMs j =
     j\<lparr>j_status := (if int (j_attempts j) \<ge> maxAttempts then Dead else Failed),
       j_next := next_attempt now maxAttempts baseBackoffMs maxBackoffMs j,
       j_locked_at := None, j_locked_by := None, j_error := Some (boundedError e), j_updated := now\<rparr>"

definition replayed :: "string \<Rightarrow> int \<Rightarrow> job \<Rightarrow> job" where
  "replayed reason now j = j\<lparr>j_status := Pending, j_attempts := 0, j_next := now,
     j_locked_at := None, j_locked_by := None, j_error := None, j_replays := j_replays j + 1,
     j_replayed_at := Some now, j_replay_reason := Some reason, j_updated := now, j_completed := None\<rparr>"

text \<open>Whether a job can be claimed, and whether a worker holds it.\<close>

definition is_ready :: "int \<Rightarrow> int \<Rightarrow> job \<Rightarrow> bool" where
  "is_ready now staleAfterMs j =
    ((j_status j = Pending \<or> j_status j = Failed) \<and> j_next j \<le> now
     \<or> j_status j = Processing \<and> (case j_locked_at j of None \<Rightarrow> False | Some t \<Rightarrow> t \<le> now - staleAfterMs))"

definition held_by :: "string \<Rightarrow> job \<Rightarrow> bool" where
  "held_by workerId j = (j_status j = Processing \<and> j_locked_by j = Some workerId)"

definition not_claimed :: js_error where
  "not_claimed = Err ''Outbox job is not claimed by this worker.''"

section \<open>The in-memory store\<close>

record outbox =
  items :: "(string \<times> job) list"
  idempotencyKeys :: "(string \<times> string) list"

definition createOutboxStore :: outbox where
  "createOutboxStore = \<lparr>items = [], idempotencyKeys = []\<rparr>"

definition enqueue :: "outbox \<Rightarrow> jsval \<Rightarrow> jsval \<Rightarrow> int \<Rightarrow> (outbox \<times> job) res" where
  "enqueue s event idempotencyKey now =
    and_then (newJob event idempotencyKey now) (\<lambda>candidate.
    case map_of (idempotencyKeys s) (j_key candidate) of
      Some existingId \<Rightarrow>
        (case map_of (items s) existingId of
           None \<Rightarrow> Inl idempotencyConflict
         | Some existing \<Rightarrow>
             if \<not> sameLogicalEvent existing event then Inl idempotencyConflict else Inr (s, existing))
    | None \<Rightarrow>
        guard [(map_of (items s) (j_id candidate) = None,
                ''Outbox event id already exists with a different idempotency key.'')]
          (Inr (s\<lparr>items := AList.update (j_id candidate) candidate (items s),
                  idempotencyKeys := AList.update (j_key candidate) (j_id candidate) (idempotencyKeys s)\<rparr>,
                candidate)))"

definition ready :: "outbox \<Rightarrow> int \<Rightarrow> int \<Rightarrow> (string \<times> job) list" where
  "ready s now staleAfterMs = filter (\<lambda>(i, j). is_ready now staleAfterMs j) (items s)"

text \<open>\<open>xs.slice(0, n)\<close>: a negative \<open>n\<close> counts from the end.\<close>

definition slice_to :: "int \<Rightarrow> 'a list \<Rightarrow> 'a list" where
  "slice_to n xs = take (nat (if n < 0 then int (length xs) + n else n)) xs"

definition claim :: "outbox \<Rightarrow> string \<Rightarrow> int \<Rightarrow> int \<Rightarrow> int \<Rightarrow> (outbox \<times> job list) res" where
  "claim s workerId now limit staleAfterMs =
    guard [now_guard now]
      (let picked = slice_to limit (ready s now staleAfterMs) in
       Inr (s\<lparr>items := map (\<lambda>(i, j). (i, if i \<in> set (map fst picked) then claimed workerId now j else j)) (items s)\<rparr>,
            map (\<lambda>(i, j). claimed workerId now j) picked))"

text \<open>The record a worker holds, for the operations that settle it.\<close>

definition held :: "outbox \<Rightarrow> string \<Rightarrow> string \<Rightarrow> job res" where
  "held s i workerId = (case map_of (items s) i of
     None \<Rightarrow> Inl not_claimed
   | Some j \<Rightarrow> if held_by workerId j then Inr j else Inl not_claimed)"

definition store_job :: "string \<Rightarrow> job \<Rightarrow> outbox \<Rightarrow> outbox \<times> job" where
  "store_job i j s = (s\<lparr>items := AList.update i j (items s)\<rparr>, j)"

definition complete :: "outbox \<Rightarrow> string \<Rightarrow> string \<Rightarrow> int \<Rightarrow> (outbox \<times> job) res" where
  "complete s i workerId now =
    and_then (held s i workerId) (\<lambda>j.
    guard [now_guard now] (Inr (store_job i (completed now j) s)))"

definition fail :: "outbox \<Rightarrow> string \<Rightarrow> string \<Rightarrow> js_error \<Rightarrow> int \<Rightarrow> int \<Rightarrow> int \<Rightarrow> int \<Rightarrow> (outbox \<times> job) res" where
  "fail s i workerId e now maxAttempts baseBackoffMs maxBackoffMs =
    and_then (held s i workerId) (\<lambda>j.
    guard [now_guard now]
      (if \<not> valid_time (next_attempt now maxAttempts baseBackoffMs maxBackoffMs j) then Inl range_error
       else Inr (store_job i (failed e now maxAttempts baseBackoffMs maxBackoffMs j) s)))"

definition get :: "outbox \<Rightarrow> string \<Rightarrow> job option" where
  "get s i = map_of (items s) i"

definition all_jobs :: "outbox \<Rightarrow> job list" where
  "all_jobs s = map snd (items s)"

definition list_jobs :: "outbox \<Rightarrow> jsval \<Rightarrow> job_status option \<Rightarrow> job list" where
  "list_jobs s tenantId status =
    filter (\<lambda>j. (\<not> truthy tenantId \<or> strict_eq (j_tenant j) tenantId)
      \<and> (case status of None \<Rightarrow> True | Some st \<Rightarrow> j_status j = st)) (all_jobs s)"

text \<open>\<open>patch\<close> assigns the given fields of a job; the assignment is a parameter.\<close>

definition patch :: "outbox \<Rightarrow> string \<Rightarrow> (job \<Rightarrow> job) \<Rightarrow> outbox" where
  "patch s i changes = (case map_of (items s) i of
     None \<Rightarrow> s | Some j \<Rightarrow> fst (store_job i (changes j) s))"

definition replay :: "outbox \<Rightarrow> string \<Rightarrow> jsval \<Rightarrow> jsval \<Rightarrow> int \<Rightarrow> (outbox \<times> job option) res" where
  "replay s i tenantId reason now =
    and_then (normalizedReplayReason reason) (\<lambda>replayReason.
    case map_of (items s) i of
      None \<Rightarrow> Inr (s, None)
    | Some j \<Rightarrow>
        if \<not> strict_eq (j_tenant j) tenantId then Inr (s, None)
        else guard [(j_status j = Dead, ''Only dead outbox jobs can be replayed.''), now_guard now]
          (let (s', j') = store_job i (replayed replayReason now j) s in Inr (s', Some j')))"

section \<open>Health\<close>

record health =
  h_ready :: bool
  h_counts :: "job_status \<Rightarrow> nat"
  h_stale :: nat
  h_backlog :: nat
  h_oldest_age :: int

record health_options =
  o_now :: int
  o_stale_after :: int
  o_max_dead :: int
  o_max_backlog :: int
  o_oldest_pending :: int
  o_require_healthy :: bool

definition count_status :: "job list \<Rightarrow> job_status \<Rightarrow> nat" where
  "count_status js st = length (filter (\<lambda>j. j_status j = st) js)"

text \<open>The loop over the records that tracks the oldest creation time of unsettled jobs.\<close>

fun oldest_created :: "int option \<Rightarrow> job list \<Rightarrow> int option" where
  "oldest_created oldest [] = oldest"
| "oldest_created oldest (j # js) =
     oldest_created (if j_status j \<in> {Pending, Failed, Processing}
       then (case oldest of None \<Rightarrow> Some (j_created j) | Some t \<Rightarrow> Some (min t (j_created j)))
       else oldest) js"

definition healthFromRecords :: "job list \<Rightarrow> health_options \<Rightarrow> health" where
  "healthFromRecords js opts =
    (let stale = length (filter (\<lambda>j. j_status j = Processing \<and>
            (case j_locked_at j of None \<Rightarrow> False | Some t \<Rightarrow> t \<le> o_now opts - o_stale_after opts)) js);
         backlog = count_status js Pending + count_status js Failed + count_status js Processing;
         age = (case oldest_created None js of None \<Rightarrow> 0 | Some t \<Rightarrow> max 0 (o_now opts - t))
     in \<lparr>h_ready = (stale = 0 \<and> int (count_status js Dead) \<le> o_max_dead opts
            \<and> int backlog \<le> o_max_backlog opts \<and> age \<le> o_oldest_pending opts),
         h_counts = count_status js, h_stale = stale, h_backlog = backlog, h_oldest_age = age\<rparr>)"

definition healthError :: "health \<Rightarrow> js_error" where
  "healthError h = JsError (''Outbox is unhealthy: '' @ nat_string (h_stale h) @ '' stale processing job(s), ''
     @ nat_string (h_counts h Dead) @ '' dead job(s).'') (Some ''outbox_unhealthy'') None"

definition checkReadiness :: "outbox \<Rightarrow> health_options \<Rightarrow> health res" where
  "checkReadiness s opts =
    (let h = healthFromRecords (all_jobs s) opts in
     if o_require_healthy opts \<and> \<not> h_ready h then Inl (healthError h) else Inr h)"

definition enqueueOutboxEvent :: "outbox \<Rightarrow> jsval \<Rightarrow> jsval \<Rightarrow> int \<Rightarrow> (outbox \<times> job) res" where
  "enqueueOutboxEvent s event idempotencyKey now =
     enqueue s event (coalesce idempotencyKey (JStr (defaultIdempotencyKey event))) now"

section \<open>Invariant\<close>

text \<open>
  A job is consistent when it is locked exactly while it is processing, has been attempted when it
  is, and has a completion time exactly when it is processed.
\<close>

definition job_ok :: "job \<Rightarrow> bool" where
  "job_ok j = ((j_locked_at j \<noteq> None) = (j_status j = Processing)
     \<and> (j_locked_by j \<noteq> None) = (j_status j = Processing)
     \<and> (if j_status j = Processing then 0 < j_attempts j else True)
     \<and> (j_completed j \<noteq> None) = (j_status j = Processed))"

text \<open>
  The store is consistent when ids are unique, every job is consistent and stored under its id, and
  the idempotency index is exactly the inverse of the jobs' keys.
\<close>

definition outbox_inv :: "outbox \<Rightarrow> bool" where
  "outbox_inv s = (distinct (map fst (items s)) \<and>
     (\<forall>i j. map_of (items s) i = Some j \<longrightarrow> j_id j = i \<and> job_ok j \<and> map_of (idempotencyKeys s) (j_key j) = Some i) \<and>
     (\<forall>k i. map_of (idempotencyKeys s) k = Some i \<longrightarrow> (\<exists>j. map_of (items s) i = Some j \<and> j_key j = k)))"

lemma outbox_invD:
  assumes "outbox_inv s"
  shows "distinct (map fst (items s))"
    and "map_of (items s) i = Some j \<Longrightarrow> j_id j = i \<and> job_ok j \<and> map_of (idempotencyKeys s) (j_key j) = Some i"
    and "map_of (idempotencyKeys s) k = Some i \<Longrightarrow> \<exists>j. map_of (items s) i = Some j \<and> j_key j = k"
  using assms by (auto simp: outbox_inv_def)

lemma created_inv: "outbox_inv createOutboxStore"
  by (simp add: outbox_inv_def createOutboxStore_def)

text \<open>What identifies a job never changes.\<close>

definition same_identity :: "job \<Rightarrow> job \<Rightarrow> bool" where
  "same_identity j j' = (j_id j' = j_id j \<and> j_key j' = j_key j \<and> j_event j' = j_event j
     \<and> j_tenant j' = j_tenant j \<and> j_created j' = j_created j)"

lemma same_identity_refl [simp]: "same_identity j j"
  by (simp add: same_identity_def)

lemma same_identity_trans: "same_identity a b \<Longrightarrow> same_identity b c \<Longrightarrow> same_identity a c"
  by (simp add: same_identity_def)

lemma updates_identity [simp]:
  "same_identity j (claimed w t j)" "same_identity j (completed t j)"
  "same_identity j (failed e t m b x j)" "same_identity j (replayed r t j)"
  by (simp_all add: same_identity_def claimed_def completed_def failed_def replayed_def)

lemma updates_ok [simp]:
  "job_ok j \<Longrightarrow> j_status j \<noteq> Processed \<Longrightarrow> job_ok (claimed w t j)"
  "job_ok (completed t j)"
  "job_ok j \<Longrightarrow> j_status j = Processing \<Longrightarrow> job_ok (failed e t m b x j)"
  "job_ok (replayed r t j)"
  by (auto simp: job_ok_def claimed_def completed_def failed_def replayed_def)

lemma ready_not_final: "is_ready now st j \<Longrightarrow> j_status j \<noteq> Processed \<and> j_status j \<noteq> Dead"
  by (auto simp: is_ready_def)

subsection \<open>One job at a time\<close>

text \<open>Replacing the job of an id, as completing, failing and replaying do.\<close>

lemma store_job_simps [simp]:
  "snd (store_job i j s) = j" "map_of (items (fst (store_job i j s))) i' = (if i = i' then Some j else map_of (items s) i')"
  "idempotencyKeys (fst (store_job i j s)) = idempotencyKeys s"
  by (simp_all add: store_job_def)

lemma store_job_inv:
  assumes "outbox_inv s" "map_of (items s) i = Some j0" "same_identity j0 j" "job_ok j"
  shows "outbox_inv (fst (store_job i j s))"
proof -
  let ?s = "fst (store_job i j s)"
  have id: "j_key j = j_key j0" "j_id j = j_id j0"
    using assms(3) by (simp_all add: same_identity_def)
  show ?thesis
    unfolding outbox_inv_def
  proof (intro conjI allI impI)
    show "distinct (map fst (items ?s))"
      using outbox_invD(1) [OF assms(1)] by (simp add: store_job_def)
  next
    fix i' j' assume "map_of (items ?s) i' = Some j'"
    then show "j_id j' = i'" "job_ok j'" "map_of (idempotencyKeys ?s) (j_key j') = Some i'"
      using assms(4) id outbox_invD(2) [OF assms(1,2)] outbox_invD(2) [OF assms(1)]
      by (simp_all split: if_splits)
  next
    fix k i' assume "map_of (idempotencyKeys ?s) k = Some i'"
    then have "map_of (idempotencyKeys s) k = Some i'" by simp
    from outbox_invD(3) [OF assms(1) this] show "\<exists>j'. map_of (items ?s) i' = Some j' \<and> j_key j' = k"
      using id assms(2) by auto
  qed
qed

subsection \<open>Claiming\<close>

lemma slice_to_subset: "set (slice_to n xs) \<subseteq> set xs"
  by (simp add: slice_to_def set_take_subset)

lemma slice_to_distinct: "distinct (map f xs) \<Longrightarrow> distinct (map f (slice_to n xs))"
  by (simp add: slice_to_def take_map [symmetric])

lemma claim_Inr:
  assumes "claim s w now limit st = Inr (s', js)"
  obtains picked where "picked = slice_to limit (ready s now st)" "valid_time now"
    "js = map (\<lambda>(i, j). claimed w now j) picked"
    "\<And>i. map_of (items s') i = map_option (\<lambda>j. if i \<in> set (map fst picked) then claimed w now j else j) (map_of (items s) i)"
    "map fst (items s') = map fst (items s)" "idempotencyKeys s' = idempotencyKeys s"
  using assms by (auto simp: claim_def guard_simps Let_def map_of_map_values intro!: that)

lemma picked_job:
  assumes "distinct (map fst (items s))" "(i, j) \<in> set (slice_to limit (ready s now st))"
  shows "map_of (items s) i = Some j" "is_ready now st j"
  using assms slice_to_subset [of limit "ready s now st"] by (auto simp: ready_def)

lemma claim_inv:
  assumes inv: "outbox_inv s" and cl: "claim s w now limit st = Inr (s', js)"
  shows "outbox_inv s'"
proof (rule claim_Inr [OF cl])
  fix picked
  assume p: "picked = slice_to limit (ready s now st)"
    and it: "\<And>i. map_of (items s') i = map_option (\<lambda>j. if i \<in> set (map fst picked) then claimed w now j else j) (map_of (items s) i)"
    and ids: "map fst (items s') = map fst (items s)" and keys: "idempotencyKeys s' = idempotencyKeys s"
  have upd: "job_ok (if i \<in> set (map fst picked) then claimed w now j else j)"
    "same_identity j (if i \<in> set (map fst picked) then claimed w now j else j)"
    if "map_of (items s) i = Some j" for i j
  proof -
    have "job_ok j" using outbox_invD(2) [OF inv that] by blast
    moreover have "is_ready now st j" if "i \<in> set (map fst picked)"
    proof -
      from that obtain j' where "(i, j') \<in> set picked" by auto
      with picked_job [OF outbox_invD(1) [OF inv]] p \<open>map_of (items s) i = Some j\<close> show ?thesis by fastforce
    qed
    ultimately show "job_ok (if i \<in> set (map fst picked) then claimed w now j else j)"
      using ready_not_final [of now st j] by auto
  qed simp
  show "outbox_inv s'"
    unfolding outbox_inv_def it keys ids
  proof (intro conjI allI impI)
    show "distinct (map fst (items s))" by (rule outbox_invD(1) [OF inv])
  next
    fix i j assume "map_option (\<lambda>j. if i \<in> set (map fst picked) then claimed w now j else j) (map_of (items s) i) = Some j"
    then obtain j0 where j0: "map_of (items s) i = Some j0"
      and j: "j = (if i \<in> set (map fst picked) then claimed w now j0 else j0)" by auto
    have id: "same_identity j0 j" "job_ok j" unfolding j by (rule upd [OF j0])+
    then have "j_id j = j_id j0" "j_key j = j_key j0" by (simp_all add: same_identity_def)
    then show "j_id j = i" "job_ok j" "map_of (idempotencyKeys s) (j_key j) = Some i"
      using id(2) outbox_invD(2) [OF inv j0] by simp_all
  next
    fix k i assume "map_of (idempotencyKeys s) k = Some i"
    then obtain j0 where "map_of (items s) i = Some j0" "j_key j0 = k" using outbox_invD(3) [OF inv] by blast
    with upd(2) show "\<exists>j. map_option (\<lambda>j. if i \<in> set (map fst picked) then claimed w now j else j) (map_of (items s) i) = Some j \<and> j_key j = k"
      by (fastforce simp: same_identity_def)
  qed
qed

text \<open>What a claim hands out: the ready jobs it picked, updated, and nothing else changes.\<close>

lemma claim_effect:
  assumes "distinct (map fst (items s))" "claim s w now limit st = Inr (s', js)"
  shows "j \<in> set js \<Longrightarrow> \<exists>i j0. map_of (items s) i = Some j0 \<and> is_ready now st j0 \<and> j = claimed w now j0
            \<and> map_of (items s') i = Some j"
    and "map_of (items s) i = Some j0 \<Longrightarrow>
            map_of (items s') i = Some j0 \<or> map_of (items s') i = Some (claimed w now j0) \<and> is_ready now st j0"
    and "map_of (items s) i = None \<Longrightarrow> map_of (items s') i = None"
proof -
  obtain picked where p: "picked = slice_to limit (ready s now st)" "js = map (\<lambda>(i, j). claimed w now j) picked"
    and it: "\<And>i. map_of (items s') i = map_option (\<lambda>j. if i \<in> set (map fst picked) then claimed w now j else j) (map_of (items s) i)"
    by (rule claim_Inr [OF assms(2)]) (rule that)
  note pj = picked_job [OF assms(1), of _ _ limit now st, folded p(1)]
  show "\<exists>i j0. map_of (items s) i = Some j0 \<and> is_ready now st j0 \<and> j = claimed w now j0 \<and> map_of (items s') i = Some j"
    if "j \<in> set js"
  proof -
    from that p(2) obtain i j0 where ij: "(i, j0) \<in> set picked" "j = claimed w now j0" by auto
    then have "i \<in> set (map fst picked)" by force
    with pj [OF ij(1)] ij(2) it [of i] show ?thesis by auto
  qed
  show "map_of (items s') i = Some j0 \<or> map_of (items s') i = Some (claimed w now j0) \<and> is_ready now st j0"
    if "map_of (items s) i = Some j0"
  proof (cases "i \<in> set (map fst picked)")
    case True
    then obtain j1 where "(i, j1) \<in> set picked" by auto
    from pj [OF this] that have "is_ready now st j0" by simp
    with True that it [of i] show ?thesis by simp
  next
    case False
    with that it [of i] show ?thesis by simp
  qed
  show "map_of (items s') i = None" if "map_of (items s) i = None"
    using that it [of i] by simp
qed

subsection \<open>Enqueueing\<close>

lemma newJob_Inr:
  assumes "newJob event key now = Inr j"
  shows "j_status j = Pending" "job_ok j" "j_event j = event" "j_tenant j = coalesce (fld event ''tenantId'') JNull"
    "\<exists>s. fld event ''eventType'' = JStr s" "\<exists>s. fld event ''aggregateType'' = JStr s" "\<exists>s. fld event ''aggregateId'' = JStr s"
  using assms nonblank_str by (auto simp: newJob_def guard_simps Let_def job_ok_def dest!: nonblank_str)

text \<open>Adding a new job with its index entry.\<close>

definition insert_job :: "job \<Rightarrow> outbox \<Rightarrow> outbox" where
  "insert_job j s = s\<lparr>items := AList.update (j_id j) j (items s),
     idempotencyKeys := AList.update (j_key j) (j_id j) (idempotencyKeys s)\<rparr>"

lemma insert_job_simps [simp]:
  "map_of (items (insert_job j s)) i = (if i = j_id j then Some j else map_of (items s) i)"
  "map_of (idempotencyKeys (insert_job j s)) k = (if k = j_key j then Some (j_id j) else map_of (idempotencyKeys s) k)"
  "distinct (map fst (items s)) \<Longrightarrow> distinct (map fst (items (insert_job j s)))"
  by (auto simp: insert_job_def)

lemma enqueue_Inr:
  assumes "enqueue s event key now = Inr (s', j)"
  obtains (old) c i where "newJob event key now = Inr c" "map_of (idempotencyKeys s) (j_key c) = Some i"
      "map_of (items s) i = Some j" "sameLogicalEvent j event" "s' = s"
  | (new) "newJob event key now = Inr j" "map_of (idempotencyKeys s) (j_key j) = None"
      "map_of (items s) (j_id j) = None" "s' = insert_job j s"
proof -
  obtain c where c: "newJob event key now = Inr c" using assms unfolding enqueue_def and_then_Inr by blast
  show thesis
  proof (cases "map_of (idempotencyKeys s) (j_key c)")
    case None
    then show ?thesis
      using assms c new by (auto simp: enqueue_def guard_simps insert_job_def)
  next
    case (Some i)
    then show ?thesis
      using assms c old [OF c Some] by (simp add: enqueue_def split: option.splits if_splits)
  qed
qed

lemma insert_job_inv:
  assumes inv: "outbox_inv s" and ok: "job_ok j"
    and new: "map_of (idempotencyKeys s) (j_key j) = None" "map_of (items s) (j_id j) = None"
  shows "outbox_inv (insert_job j s)"
  unfolding outbox_inv_def
proof (intro conjI allI impI)
  show "distinct (map fst (items (insert_job j s)))" using outbox_invD(1) [OF inv] by simp
next
  fix i j' assume "map_of (items (insert_job j s)) i = Some j'"
  then show "j_id j' = i" "job_ok j'" "map_of (idempotencyKeys (insert_job j s)) (j_key j') = Some i"
    using ok new(1) outbox_invD(2) [OF inv, of i j'] by (auto split: if_splits)
next
  fix k i assume "map_of (idempotencyKeys (insert_job j s)) k = Some i"
  then show "\<exists>j'. map_of (items (insert_job j s)) i = Some j' \<and> j_key j' = k"
    using new(2) outbox_invD(3) [OF inv, of k i] by (auto split: if_splits)
qed

lemma enqueue_inv:
  assumes inv: "outbox_inv s" and en: "enqueue s event key now = Inr (s', j)"
  shows "outbox_inv s'"
  using en
proof (cases rule: enqueue_Inr)
  case new
  then show ?thesis using insert_job_inv [OF inv newJob_Inr(2)] by simp
qed (use inv in simp)

subsection \<open>Settling and replaying\<close>

lemma held_Inr: "held s i w = Inr j \<longleftrightarrow> map_of (items s) i = Some j \<and> held_by w j"
  by (auto simp: held_def split: option.splits)

lemma complete_Inr:
  "complete s i w now = Inr (s', j') \<longleftrightarrow>
     (\<exists>j. map_of (items s) i = Some j \<and> held_by w j \<and> valid_time now \<and> j' = completed now j
        \<and> s' = fst (store_job i j' s))"
  by (auto simp: complete_def guard_simps held_Inr store_job_def)

lemma fail_Inr:
  "fail s i w e now m b x = Inr (s', j') \<longleftrightarrow>
     (\<exists>j. map_of (items s) i = Some j \<and> held_by w j \<and> valid_time now \<and> valid_time (next_attempt now m b x j)
        \<and> j' = failed e now m b x j \<and> s' = fst (store_job i j' s))"
  by (auto simp: fail_def guard_simps held_Inr store_job_def)

lemma replay_Inr:
  "replay s i tenant reason now = Inr (s', Some j') \<longleftrightarrow>
     (\<exists>j r. normalizedReplayReason reason = Inr r \<and> map_of (items s) i = Some j \<and> strict_eq (j_tenant j) tenant
        \<and> j_status j = Dead \<and> valid_time now \<and> j' = replayed r now j \<and> s' = fst (store_job i j' s))"
  by (auto simp: replay_def guard_simps store_job_def Let_def split: option.splits if_splits)

lemma replay_None: "replay s i tenant reason now = Inr (s', None) \<Longrightarrow> s' = s"
  by (auto simp: replay_def guard_simps store_job_def Let_def split: option.splits if_splits)

lemma complete_inv: "outbox_inv s \<Longrightarrow> complete s i w now = Inr (s', j) \<Longrightarrow> outbox_inv s'"
  by (auto simp: complete_Inr intro!: store_job_inv)

lemma fail_inv: "outbox_inv s \<Longrightarrow> fail s i w e now m b x = Inr (s', j) \<Longrightarrow> outbox_inv s'"
  using outbox_invD(2) by (fastforce simp: fail_Inr held_by_def intro!: store_job_inv)

lemma replay_inv: "outbox_inv s \<Longrightarrow> replay s i tenant reason now = Inr (s', r) \<Longrightarrow> outbox_inv s'"
proof (cases r)
  case (Some j)
  assume "outbox_inv s" "replay s i tenant reason now = Inr (s', r)"
  with Some show ?thesis by (auto simp: replay_Inr intro!: store_job_inv)
qed (use replay_None in blast)

section \<open>The store as a state machine\<close>

text \<open>One successful operation. (\<open>patch\<close> assigns arbitrary fields and is not a step.)\<close>

inductive outbox_step :: "outbox \<Rightarrow> outbox \<Rightarrow> bool" where
  step_enqueue: "enqueue s event key now = Inr (s', j) \<Longrightarrow> outbox_step s s'"
| step_claim: "claim s w now limit st = Inr (s', js) \<Longrightarrow> outbox_step s s'"
| step_complete: "complete s i w now = Inr (s', j) \<Longrightarrow> outbox_step s s'"
| step_fail: "fail s i w e now m b x = Inr (s', j) \<Longrightarrow> outbox_step s s'"
| step_replay: "replay s i tenant reason now = Inr (s', r) \<Longrightarrow> outbox_step s s'"

inductive_cases outbox_stepE: "outbox_step s s'"

definition outbox_steps :: "outbox \<Rightarrow> outbox \<Rightarrow> bool" where
  "outbox_steps = outbox_step\<^sup>*\<^sup>*"

lemma step_inv: "outbox_step s s' \<Longrightarrow> outbox_inv s \<Longrightarrow> outbox_inv s'"
proof (induction rule: outbox_step.induct)
  case step_enqueue
  then show ?case using enqueue_inv by blast
next
  case step_claim
  then show ?case using claim_inv by blast
next
  case step_complete
  then show ?case using complete_inv by blast
next
  case step_fail
  then show ?case using fail_inv by blast
next
  case step_replay
  then show ?case using replay_inv by blast
qed

lemma steps_inv: "outbox_steps s s' \<Longrightarrow> outbox_inv s \<Longrightarrow> outbox_inv s'"
  unfolding outbox_steps_def by (induction rule: rtranclp_induct) (auto intro: step_inv)

text \<open>How one operation changes one job.\<close>

inductive job_step :: "job \<Rightarrow> job \<Rightarrow> bool" where
  job_claim: "is_ready now st j \<Longrightarrow> job_step j (claimed w now j)"
| job_complete: "held_by w j \<Longrightarrow> job_step j (completed now j)"
| job_fail: "held_by w j \<Longrightarrow> job_step j (failed e now m b x j)"
| job_replay: "j_status j = Dead \<Longrightarrow> job_step j (replayed r now j)"

inductive_simps job_step_iff: "job_step j j'"

lemma job_step_identity: "job_step j j' \<Longrightarrow> same_identity j j'"
  by (induction rule: job_step.induct) simp_all

lemma job_step_status:
  "job_step j j' \<Longrightarrow> (j_status j, j_status j') \<in>
     {(Pending, Processing), (Failed, Processing), (Processing, Processing), (Processing, Processed),
      (Processing, Failed), (Processing, Dead), (Dead, Pending)}"
  by (induction rule: job_step.induct)
    (auto simp: is_ready_def held_by_def claimed_def completed_def failed_def replayed_def)

lemma step_job:
  assumes "outbox_step s s'" "outbox_inv s" "map_of (items s) i = Some j"
  shows "\<exists>j'. map_of (items s') i = Some j' \<and> (j' = j \<or> job_step j j')"
  using assms(1)
proof cases
  case (step_enqueue event key now j1)
  from step_enqueue show ?thesis
  proof (cases rule: enqueue_Inr)
    case new
    then have "i \<noteq> j_id j1" using assms(3) by auto
    with new assms(3) show ?thesis by simp
  qed (use assms(3) in simp)
next
  case (step_claim w now limit st js)
  from claim_effect(2) [OF outbox_invD(1) [OF assms(2)] step_claim assms(3)] show ?thesis
    by (auto intro: job_claim)
next
  case (step_complete i' w now j1)
  then show ?thesis using assms(3) job_complete by (fastforce simp: complete_Inr)
next
  case (step_fail i' w e now m b x j1)
  then show ?thesis using assms(3) job_fail by (fastforce simp: fail_Inr)
next
  case (step_replay i' tenant reason now r)
  show ?thesis
  proof (cases r)
    case None
    with step_replay have "s' = s" using replay_None by simp
    with assms(3) show ?thesis by simp
  next
    case (Some j1)
    with step_replay assms(3) show ?thesis using job_replay by (fastforce simp: replay_Inr)
  qed
qed

lemma steps_job:
  assumes "outbox_steps s s'" "outbox_inv s" "map_of (items s) i = Some j"
  shows "\<exists>j'. map_of (items s') i = Some j' \<and> job_step\<^sup>*\<^sup>* j j'"
  using assms(1) unfolding outbox_steps_def
proof (induction rule: rtranclp_induct)
  case (step s1 s2)
  then obtain j1 where j1: "map_of (items s1) i = Some j1" "job_step\<^sup>*\<^sup>* j j1" by blast
  have "outbox_inv s1" using step(1) assms(2) steps_inv unfolding outbox_steps_def by blast
  from step_job [OF step(2) this j1(1)] j1(2) show ?case by (auto intro: rtranclp.rtrancl_into_rtrancl)
qed (use assms(3) in blast)

lemma job_steps_identity: "job_step\<^sup>*\<^sup>* j j' \<Longrightarrow> same_identity j j'"
  by (induction rule: rtranclp_induct) (auto intro: same_identity_trans job_step_identity)

lemma job_steps_processed: "job_step\<^sup>*\<^sup>* j j' \<Longrightarrow> j_status j = Processed \<Longrightarrow> j' = j"
  by (induction rule: rtranclp_induct) (auto dest: job_step_status)

section \<open>Properties\<close>


definition demo_outbox_event :: "string \<Rightarrow> jsval" where
  "demo_outbox_event i = JObj [(''id'', JStr i), (''eventType'', JStr ''e''), (''aggregateType'', JStr ''a''),
     (''aggregateId'', JStr ''1''), (''tenantId'', JStr ''t'')]"

definition ok_state :: "('a \<times> 'b) res \<Rightarrow> 'a" where
  "ok_state r = (case r of Inr p \<Rightarrow> fst p | Inl e \<Rightarrow> undefined)"

definition ok_job :: "job res \<Rightarrow> job" where
  "ok_job r = (case r of Inr j \<Rightarrow> j | Inl e \<Rightarrow> undefined)"

definition demo_outbox :: outbox where
  "demo_outbox = ok_state (enqueue createOutboxStore (demo_outbox_event ''i1'') JUndef 1000)"

definition demo_claimed :: outbox where
  "demo_claimed = ok_state (claim demo_outbox ''w'' 2000 1 60000)"

definition demo_job :: job where
  "demo_job = hd (all_jobs demo_outbox)"

lemma demo_enqueue: "enqueue createOutboxStore (demo_outbox_event ''i1'') JUndef 1000 = Inr (demo_outbox, demo_job)"
  by code_simp

lemma demo_claim: "claim demo_outbox ''w'' 2000 1 60000 = Inr (demo_claimed, [claimed ''w'' 2000 demo_job])"
  by code_simp

lemma demo_outbox_steps: "outbox_steps createOutboxStore demo_claimed" "outbox_steps demo_outbox demo_claimed"
proof -
  have "outbox_step createOutboxStore demo_outbox" by (rule step_enqueue [OF demo_enqueue])
  moreover have c: "outbox_step demo_outbox demo_claimed" by (rule step_claim [OF demo_claim])
  ultimately show "outbox_steps createOutboxStore demo_claimed"
    unfolding outbox_steps_def by (meson converse_rtranclp_into_rtranclp rtranclp.rtrancl_refl)
  show "outbox_steps demo_outbox demo_claimed"
    unfolding outbox_steps_def using c by blast
qed

lemma demo_outbox_inv: "outbox_inv demo_outbox" "outbox_inv demo_claimed"
  using enqueue_inv [OF created_inv demo_enqueue] claim_inv [OF _ demo_claim] by blast+


text \<open>
  C4. Exactly one job per idempotency key: once an event has been enqueued, enqueueing the same
  logical event under the same key after any sequence of operations returns the job created first
  and leaves the store as it is.
\<close>

theorem enqueue_idempotent:
  assumes inv: "outbox_inv s" and first: "enqueue s event key now = Inr (s1, j)"
    and steps: "outbox_steps s1 s2"
    and again: "newJob event' key' now' = Inr c" "j_key c = j_key j" "sameLogicalEvent j event'"
  shows "\<exists>j'. enqueue s2 event' key' now' = Inr (s2, j') \<and> same_identity j j'"
proof -
  have "map_of (items s1) (j_id j) = Some j" "outbox_inv s1"
    using first
  proof (cases rule: enqueue_Inr)
    case (old c i)
    then show "map_of (items s1) (j_id j) = Some j" using outbox_invD(2) [OF inv old(3)] by simp
  next
    case new
    then show "map_of (items s1) (j_id j) = Some j" by simp
  qed (rule enqueue_inv [OF inv first])
  from steps_job [OF steps this(2,1)] obtain j' where j': "map_of (items s2) (j_id j) = Some j'" "same_identity j j'"
    using job_steps_identity by blast
  have "outbox_inv s2" by (rule steps_inv [OF steps \<open>outbox_inv s1\<close>])
  from outbox_invD(2) [OF this j'(1)] j'(2) again(2)
  have "map_of (idempotencyKeys s2) (j_key c) = Some (j_id j)" by (simp add: same_identity_def)
  moreover have "sameLogicalEvent j' event'"
    using again(3) j'(2) by (simp add: sameLogicalEvent_def same_identity_def)
  ultimately show ?thesis
    using again(1) j' by (simp add: enqueue_def)
qed

lemma enqueue_idempotent_witness:
  "\<exists>j'. enqueue demo_claimed (demo_outbox_event ''i2'') JUndef 9000 = Inr (demo_claimed, j') \<and> same_identity demo_job j'"
proof -
  obtain c where c: "newJob (demo_outbox_event ''i2'') JUndef 9000 = Inr c" "j_key c = j_key demo_job"
    by (rule that [of "ok_job (newJob (demo_outbox_event ''i2'') JUndef 9000)"]) code_simp+
  show ?thesis
    by (rule enqueue_idempotent [OF created_inv demo_enqueue demo_outbox_steps(2) c]) code_simp
qed





text \<open>
  C24. Retries back off within bounds: a failed job is dead exactly if its attempts are used up;
  otherwise its next attempt lies between the base and the maximal delay after the failure, and later
  attempts wait at least as long.
\<close>

theorem retry_schedule:
  assumes "fail s i w e now m b x = Inr (s', j')" "0 \<le> b" "b \<le> x"
  shows "\<exists>j. map_of (items s) i = Some j \<and> j_attempts j' = j_attempts j
    \<and> (if m \<le> int (j_attempts j) then j_status j' = Dead
       else j_status j' = Failed \<and> now + b \<le> j_next j' \<and> j_next j' \<le> now + x)
    \<and> backoffMs (j_attempts j) b x \<le> backoffMs (Suc (j_attempts j)) b x"
proof -
  have low: "b \<le> b * 2 ^ n" for n
    using assms(2) mult_left_mono [of 1 "2 ^ n" b] by simp
  have mono: "b * 2 ^ (n - 1) \<le> b * 2 ^ n" for n
    using assms(2) by (intro mult_left_mono power_increasing) auto
  show ?thesis
    using assms low mono by (auto simp: fail_Inr failed_def next_attempt_def backoffMs_def min_le_iff_disj)
qed

lemma retry_schedule_witness:
  "\<exists>j. map_of (items demo_claimed) ''i1'' = Some j
     \<and> j_attempts (failed (Err ''boom'') 2500 5 1000 900000 (claimed ''w'' 2000 demo_job)) = j_attempts j
    \<and> (if 5 \<le> int (j_attempts j)
       then j_status (failed (Err ''boom'') 2500 5 1000 900000 (claimed ''w'' 2000 demo_job)) = Dead
       else j_status (failed (Err ''boom'') 2500 5 1000 900000 (claimed ''w'' 2000 demo_job)) = Failed
         \<and> 2500 + 1000 \<le> j_next (failed (Err ''boom'') 2500 5 1000 900000 (claimed ''w'' 2000 demo_job))
         \<and> j_next (failed (Err ''boom'') 2500 5 1000 900000 (claimed ''w'' 2000 demo_job)) \<le> 2500 + 900000)
    \<and> backoffMs (j_attempts j) 1000 900000 \<le> backoffMs (Suc (j_attempts j)) 1000 900000"
proof (rule retry_schedule)
  show "fail demo_claimed ''i1'' ''w'' (Err ''boom'') 2500 5 1000 900000 =
      Inr (ok_state (fail demo_claimed ''i1'' ''w'' (Err ''boom'') 2500 5 1000 900000),
           failed (Err ''boom'') 2500 5 1000 900000 (claimed ''w'' 2000 demo_job))"
    by code_simp
qed simp_all

end
