(* ===== verification/OutboxSql.thy ===== *)
theory OutboxSql
  imports Outbox "HOL-Library.Product_Lexorder" "HOL-Library.List_Lexorder" "HOL-Library.Char_ord" "HOL-Library.Multiset"
begin

text \<open>
  The SQLite backend of the outbox (apps/api/src/reliability/outbox.js) on a table keyed by the job
  id, with the statements it executes as table updates, and its refinement of the in-memory
  store. The event of a row has gone through its JSON text. Timestamps compare as their ISO texts do
  for the years 0 to 9999.
\<close>

section \<open>The table\<close>

type_synonym jobs_table = "(string \<times> job) list"

text \<open>A row as \<open>sqliteRow\<close> reads it back: the payload column is JSON text.\<close>

definition sqliteRow :: "job \<Rightarrow> job" where
  "sqliteRow j = j\<lparr>j_event := json_clone (j_event j)\<rparr>"

definition select_by_key :: "jobs_table \<Rightarrow> string \<Rightarrow> job option" where
  "select_by_key t k = map_option snd (find (\<lambda>(i, j). j_key j = k) t)"

text \<open>\<open>INSERT OR IGNORE\<close>: nothing happens when the id or the idempotency key is taken.\<close>

definition insert_or_ignore :: "jobs_table \<Rightarrow> job \<Rightarrow> jobs_table" where
  "insert_or_ignore t j =
    (if map_of t (j_id j) \<noteq> None \<or> select_by_key t (j_key j) \<noteq> None then t
     else t @ [(j_id j, sqliteRow j)])"

text \<open>The row stays inserted even when the check that follows throws.\<close>

definition sql_enqueue :: "jobs_table \<Rightarrow> jsval \<Rightarrow> jsval \<Rightarrow> int \<Rightarrow> jobs_table \<times> job res" where
  "sql_enqueue t event idempotencyKey now =
    (case newJob event idempotencyKey now of
       Inl e \<Rightarrow> (t, Inl e)
     | Inr j \<Rightarrow>
         (let t' = insert_or_ignore t j in
          (t', case select_by_key t' (j_key j) of
             Some existing \<Rightarrow> if \<not> sameLogicalEvent existing event then Inl idempotencyConflict else Inr existing
           | None \<Rightarrow>
               if map_of t' (j_id j) \<noteq> None
               then Inl (Err ''Outbox event id already exists with a different idempotency key.'')
               else Inl (Err ''SQLite outbox enqueue did not persist a job.''))))"

text \<open>\<open>LIMIT n\<close>: a negative limit is no limit.\<close>

definition sql_limit :: "int \<Rightarrow> 'a list \<Rightarrow> 'a list" where
  "sql_limit n xs = (if n < 0 then xs else take (nat n) xs)"

definition sql_ready :: "jobs_table \<Rightarrow> int \<Rightarrow> int \<Rightarrow> int \<Rightarrow> jobs_table" where
  "sql_ready t now staleAfterMs limit =
    sql_limit limit (sort_key (\<lambda>(i, j). (j_next j, j_created j, i))
      (filter (\<lambda>(i, j). is_ready now staleAfterMs j) t))"

definition sql_claim :: "jobs_table \<Rightarrow> string \<Rightarrow> int \<Rightarrow> int \<Rightarrow> int \<Rightarrow> (jobs_table \<times> job list) res" where
  "sql_claim t workerId now limit staleAfterMs =
    guard [now_guard now, now_guard (now - staleAfterMs)]
      (let rows = sql_ready t now staleAfterMs limit in
       Inr (map (\<lambda>(i, j). (i, if i \<in> set (map fst rows) then claimed workerId now j else j)) t,
            map (\<lambda>(i, j). claimed workerId now j) rows))"

text \<open>\<open>UPDATE ... WHERE id = ? AND ...\<close>: the number of changed rows is one or none.\<close>

definition update_row :: "jobs_table \<Rightarrow> string \<Rightarrow> (job \<Rightarrow> bool) \<Rightarrow> (job \<Rightarrow> job) \<Rightarrow> (jobs_table \<times> job) option" where
  "update_row t i cond f = (case map_of t i of
     None \<Rightarrow> None
   | Some j \<Rightarrow> if cond j then Some (AList.update i (f j) t, f j) else None)"

definition sql_complete :: "jobs_table \<Rightarrow> string \<Rightarrow> string \<Rightarrow> int \<Rightarrow> (jobs_table \<times> job) res" where
  "sql_complete t i workerId now =
    guard [now_guard now]
      (case update_row t i (held_by workerId) (completed now) of None \<Rightarrow> Inl not_claimed | Some r \<Rightarrow> Inr r)"

definition sql_fail :: "jobs_table \<Rightarrow> string \<Rightarrow> string \<Rightarrow> js_error \<Rightarrow> int \<Rightarrow> int \<Rightarrow> int \<Rightarrow> int \<Rightarrow> (jobs_table \<times> job) res" where
  "sql_fail t i workerId e now maxAttempts baseBackoffMs maxBackoffMs =
    (case map_of t i of
       None \<Rightarrow> Inl not_claimed
     | Some j \<Rightarrow>
         if \<not> held_by workerId j then Inl not_claimed
         else guard [now_guard now]
           (if \<not> valid_time (next_attempt now maxAttempts baseBackoffMs maxBackoffMs j) then Inl range_error
            else (case update_row t i (held_by workerId) (failed e now maxAttempts baseBackoffMs maxBackoffMs) of
                    None \<Rightarrow> Inr (t, j) | Some r \<Rightarrow> Inr r)))"

definition sql_get :: "jobs_table \<Rightarrow> string \<Rightarrow> job option" where
  "sql_get t i = map_of t i"

definition sql_list :: "jobs_table \<Rightarrow> jsval \<Rightarrow> job_status option \<Rightarrow> job list res" where
  "sql_list t tenantId status =
    guard [(truthy tenantId, ''tenantId is required to list outbox jobs.'')]
      (Inr (map snd (sort_key (\<lambda>(i, j). (j_created j, i))
        (filter (\<lambda>(i, j). strict_eq (j_tenant j) tenantId
           \<and> (case status of None \<Rightarrow> True | Some st \<Rightarrow> j_status j = st)) t))))"

definition sql_replay :: "jobs_table \<Rightarrow> string \<Rightarrow> jsval \<Rightarrow> jsval \<Rightarrow> int \<Rightarrow> (jobs_table \<times> job option) res" where
  "sql_replay t i tenantId reason now =
    and_then (normalizedReplayReason reason) (\<lambda>replayReason.
    guard [now_guard now]
      (case update_row t i (\<lambda>j. strict_eq (j_tenant j) tenantId \<and> \<not> nullish tenantId \<and> j_status j = Dead)
              (replayed replayReason now) of
         None \<Rightarrow> Inr (t, None)
       | Some (t', j) \<Rightarrow> Inr (t', Some j)))"

definition sql_checkReadiness :: "jobs_table \<Rightarrow> health_options \<Rightarrow> health res" where
  "sql_checkReadiness t opts =
    (let h = healthFromRecords (map snd t) opts in
     if o_require_healthy opts \<and> \<not> h_ready h then Inl (healthError h) else Inr h)"

section \<open>Invariant and refinement\<close>

text \<open>The constraints of the schema: the primary key and the unique idempotency key.\<close>

definition table_inv :: "jobs_table \<Rightarrow> bool" where
  "table_inv t = (distinct (map fst t) \<and> distinct (map (\<lambda>(i, j). j_key j) t) \<and> list_all (\<lambda>(i, j). j_id j = i) t)"

text \<open>
  An event that survives its JSON text as far as the code compares it: an object with distinct keys
  whose tenant is a string or missing and whose version is a number or missing.
\<close>

definition wire_event :: "jsval \<Rightarrow> bool" where
  "wire_event e = (\<exists>fs. e = JObj fs \<and> distinct (map fst fs)
     \<and> (nullish (fld e ''tenantId'') \<or> (\<exists>s. fld e ''tenantId'' = JStr s))
     \<and> (nullish (fld e ''eventVersion'') \<or> (\<exists>n. fld e ''eventVersion'' = JNum n)))"

text \<open>
  A job the two backends agree on: its event survives, and it has the tenant and the names of its event.
\<close>

definition wire_job :: "job \<Rightarrow> bool" where
  "wire_job j = (wire_event (j_event j)
     \<and> (\<exists>s. fld (j_event j) ''eventType'' = JStr s) \<and> (\<exists>s. fld (j_event j) ''aggregateType'' = JStr s)
     \<and> (\<exists>s. fld (j_event j) ''aggregateId'' = JStr s))"

text \<open>A table implements a store when it has its jobs, with their events as read from JSON.\<close>

definition implements :: "jobs_table \<Rightarrow> outbox \<Rightarrow> bool" where
  "implements t s = (table_inv t \<and> outbox_inv s \<and> (\<forall>i. map_of t i = map_option sqliteRow (map_of (items s) i))
     \<and> (\<forall>i j. map_of (items s) i = Some j \<longrightarrow> wire_job j))"

lemma sqliteRow_simps [simp]:
  "j_id (sqliteRow j) = j_id j" "j_key (sqliteRow j) = j_key j" "j_tenant (sqliteRow j) = j_tenant j"
  "j_status (sqliteRow j) = j_status j" "j_attempts (sqliteRow j) = j_attempts j"
  "is_ready n st (sqliteRow j) = is_ready n st j" "held_by w (sqliteRow j) = held_by w j"
  "next_attempt n m b x (sqliteRow j) = next_attempt n m b x j"
  "claimed w n (sqliteRow j) = sqliteRow (claimed w n j)"
  "completed n (sqliteRow j) = sqliteRow (completed n j)"
  "failed e n m b x (sqliteRow j) = sqliteRow (failed e n m b x j)"
  "replayed r n (sqliteRow j) = sqliteRow (replayed r n j)"
  by (simp_all add: sqliteRow_def is_ready_def held_by_def next_attempt_def claimed_def completed_def
      failed_def replayed_def)

lemma map_update_present:
  "map_of t i = Some j0 \<Longrightarrow> map fst (AList.update i j t) = map fst t"
  by (induction t) auto

lemma update_same_key:
  "map_of t i = Some j0 \<Longrightarrow> f (i, j) = f (i, j0) \<Longrightarrow> map f (AList.update i j t) = map f t"
  by (induction t) auto

lemma list_all_update: "list_all P t \<Longrightarrow> P (i, j) \<Longrightarrow> list_all P (AList.update i j t)"
  by (induction t) auto

lemma table_update_inv:
  assumes "table_inv t" "map_of t i = Some j0" "j_id j = j_id j0" "j_key j = j_key j0"
  shows "table_inv (AList.update i j t)"
proof -
  have "j_id j = i" using assms(1-3) by (auto simp: table_inv_def list_all_iff dest!: map_of_SomeD)
  then show ?thesis
    using assms(1,4) map_update_present [OF assms(2)] update_same_key [OF assms(2), of "\<lambda>(i, j). j_key j" j]
    by (simp add: table_inv_def list_all_update)
qed

lemma table_map_inv:
  assumes "table_inv t" "\<And>i j. j_id (f i j) = j_id j" "\<And>i j. j_key (f i j) = j_key j"
  shows "table_inv (map (\<lambda>(i, j). (i, f i j)) t)"
proof -
  have "map (\<lambda>(i, j). j_key j) (map (\<lambda>(i, j). (i, f i j)) t) = map (\<lambda>(i, j). j_key j) t"
    using assms(3) by (induction t) auto
  moreover have "list_all (\<lambda>(i, j). j_id j = i) (map (\<lambda>(i, j). (i, f i j)) t)"
    using assms(1,2) by (auto simp: table_inv_def list_all_iff)
  moreover have "map fst (map (\<lambda>(i, j). (i, f i j)) t) = map fst t" by (rule map_fst_map_snd)
  ultimately show ?thesis using assms(1) unfolding table_inv_def by (simp only: simp_thms)
qed

text \<open>Replacing one job on both sides keeps the relation.\<close>

lemma implements_update:
  assumes "implements t s" "map_of (items s) i = Some j0" "same_identity j0 j" "job_ok j"
  shows "implements (AList.update i (sqliteRow j) t) (fst (store_job i j s))"
proof -
  have t: "map_of t i = Some (sqliteRow j0)" using assms(1,2) by (simp add: implements_def)
  have "j_id j = j_id j0" "j_key j = j_key j0" "j_event j = j_event j0"
    using assms(3) by (simp_all add: same_identity_def)
  moreover from this(3) have "wire_job j" using assms(1,2) by (auto simp: implements_def wire_job_def)
  ultimately show ?thesis
    using assms t table_update_inv [OF _ t, of "sqliteRow j"] store_job_inv [OF _ assms(2-4)]
    by (simp add: implements_def)
qed

lemma sql_complete_refines:
  assumes "implements t s" "complete s i w now = Inr (s', j)"
  shows "\<exists>t'. sql_complete t i w now = Inr (t', sqliteRow j) \<and> implements t' s'"
proof -
  obtain j0 where j0: "map_of (items s) i = Some j0" "held_by w j0" "valid_time now" "j = completed now j0"
    "s' = fst (store_job i j s)" using assms(2) by (auto simp: complete_Inr)
  have "map_of t i = Some (sqliteRow j0)" using assms(1) j0(1) by (simp add: implements_def)
  with j0 have "sql_complete t i w now = Inr (AList.update i (sqliteRow j) t, sqliteRow j)"
    by (simp add: sql_complete_def update_row_def)
  with implements_update [OF assms(1) j0(1), of j] j0(4,5) show ?thesis by simp
qed

lemma sql_fail_refines:
  assumes "implements t s" "fail s i w e now m b x = Inr (s', j)"
  shows "\<exists>t'. sql_fail t i w e now m b x = Inr (t', sqliteRow j) \<and> implements t' s'"
proof -
  obtain j0 where j0: "map_of (items s) i = Some j0" "held_by w j0" "valid_time now"
    "valid_time (next_attempt now m b x j0)" "j = failed e now m b x j0"
    "s' = fst (store_job i j s)" using assms(2) by (auto simp: fail_Inr)
  have "map_of t i = Some (sqliteRow j0)" using assms(1) j0(1) by (simp add: implements_def)
  with j0 have "sql_fail t i w e now m b x = Inr (AList.update i (sqliteRow j) t, sqliteRow j)"
    by (simp add: sql_fail_def update_row_def)
  moreover have "job_ok j" using assms(1) j0(1,2,5) outbox_invD(2) by (auto simp: implements_def held_by_def)
  ultimately show ?thesis using implements_update [OF assms(1) j0(1), of j] j0(5,6) by simp
qed

lemma sql_replay_refines:
  assumes "implements t s" "replay s i tenant reason now = Inr (s', Some j)" "\<not> nullish tenant"
  shows "\<exists>t'. sql_replay t i tenant reason now = Inr (t', Some (sqliteRow j)) \<and> implements t' s'"
proof -
  obtain j0 r where j0: "normalizedReplayReason reason = Inr r" "map_of (items s) i = Some j0"
    "strict_eq (j_tenant j0) tenant" "j_status j0 = Dead" "valid_time now" "j = replayed r now j0"
    "s' = fst (store_job i j s)" using assms(2) by (auto simp: replay_Inr)
  have "map_of t i = Some (sqliteRow j0)" using assms(1) j0(2) by (simp add: implements_def)
  with j0 assms(3) have "sql_replay t i tenant reason now = Inr (AList.update i (sqliteRow j) t, Some (sqliteRow j))"
    by (simp add: sql_replay_def update_row_def)
  with implements_update [OF assms(1) j0(2), of j] j0(6,7) show ?thesis by simp
qed

lemma find_unique: "distinct (map f xs) \<Longrightarrow> x \<in> set xs \<Longrightarrow> find (\<lambda>y. f y = f x) xs = Some x"
  by (induction xs) auto

lemma find_append: "find P (xs @ ys) = (case find P xs of None \<Rightarrow> find P ys | Some x \<Rightarrow> Some x)"
  by (induction xs) auto

lemma fld_json_clone:
  assumes "distinct (map fst fs)" "v = fld (JObj fs) k"
    "nullish v \<or> (\<exists>s. v = JStr s) \<or> (\<exists>n. v = JNum n)"
  shows "fld (json_clone (JObj fs)) k = v"
  using assms map_of_json_clone_fields [OF assms(1), of k]
  by (cases "map_of fs k") (auto simp: fld.simps(1) nullish_def json_absent_def split: jsval.splits)

lemma wire_clone:
  assumes "wire_job j"
  shows "fld (json_clone (j_event j)) ''eventType'' = fld (j_event j) ''eventType''"
    "fld (json_clone (j_event j)) ''aggregateType'' = fld (j_event j) ''aggregateType''"
    "fld (json_clone (j_event j)) ''aggregateId'' = fld (j_event j) ''aggregateId''"
    "fld (json_clone (j_event j)) ''eventVersion'' = fld (j_event j) ''eventVersion''"
proof -
  obtain fs where fs: "j_event j = JObj fs" "distinct (map fst fs)"
    using assms unfolding wire_job_def wire_event_def by blast
  show "fld (json_clone (j_event j)) ''eventType'' = fld (j_event j) ''eventType''"
    "fld (json_clone (j_event j)) ''aggregateType'' = fld (j_event j) ''aggregateType''"
    "fld (json_clone (j_event j)) ''aggregateId'' = fld (j_event j) ''aggregateId''"
    "fld (json_clone (j_event j)) ''eventVersion'' = fld (j_event j) ''eventVersion''"
    using assms unfolding wire_job_def wire_event_def
    by (simp only: fs(1), intro fld_json_clone [OF fs(2) refl], metis fs(1))+
qed

lemma sameLogicalEvent_row: "wire_job j \<Longrightarrow> sameLogicalEvent (sqliteRow j) e = sameLogicalEvent j e"
  unfolding sameLogicalEvent_def sqliteRow_def by (simp add: wire_clone)

lemma newJob_wire:
  assumes "newJob event key now = Inr j" "wire_event event"
  shows "wire_job j" "sameLogicalEvent j event"
proof -
  note n = newJob_Inr [OF assms(1)]
  show "wire_job j" using n(3,5-7) assms(2) unfolding wire_job_def by metis
  have "strict_eq (coalesce (fld event ''tenantId'') JNull) (coalesce (fld event ''tenantId'') JNull)"
    "strict_eq (coalesce (fld event ''eventVersion'') (JNum 1)) (coalesce (fld event ''eventVersion'') (JNum 1))"
    using assms(2) unfolding wire_event_def by (auto simp: coalesce_def)
  then show "sameLogicalEvent j event"
    using n(3-7) unfolding sameLogicalEvent_def by auto
qed

lemma select_by_key_iff:
  assumes "table_inv t"
  shows "select_by_key t k = Some r \<longleftrightarrow> (\<exists>i. map_of t i = Some r \<and> j_key r = k)"
proof
  assume "select_by_key t k = Some r"
  then obtain i where "find (\<lambda>(i, j). j_key j = k) t = Some (i, r)"
    by (auto simp: select_by_key_def)
  from find_SomeD [OF this] have "(i, r) \<in> set t" "j_key r = k" by auto
  with assms show "\<exists>i. map_of t i = Some r \<and> j_key r = k" by (auto simp: table_inv_def)
next
  assume "\<exists>i. map_of t i = Some r \<and> j_key r = k"
  then obtain i where i: "(i, r) \<in> set t" "j_key r = k" by (auto dest: map_of_SomeD)
  have "find (\<lambda>y. (\<lambda>(i, j). j_key j) y = (\<lambda>(i, j). j_key j) (i, r)) t = Some (i, r)"
    using assms i(1) by (intro find_unique) (simp_all add: table_inv_def)
  with i(2) show "select_by_key t k = Some r"
    by (simp add: select_by_key_def case_prod_beta')
qed

lemma implements_key:
  assumes "implements t s"
  shows "select_by_key t k = (case map_of (idempotencyKeys s) k of
     None \<Rightarrow> None | Some i \<Rightarrow> map_option sqliteRow (map_of (items s) i))"
proof -
  have inv: "outbox_inv s" and t: "table_inv t" and m: "\<And>i. map_of t i = map_option sqliteRow (map_of (items s) i)"
    using assms by (auto simp: implements_def)
  show ?thesis
  proof (cases "map_of (idempotencyKeys s) k")
    case None
    then have "select_by_key t k \<noteq> Some r" for r
      unfolding select_by_key_iff [OF t] m using outbox_invD(2) [OF inv] by (auto simp: map_option_case split: option.splits)
    with None show ?thesis by (cases "select_by_key t k") auto
  next
    case (Some i)
    then obtain j where j: "map_of (items s) i = Some j" "j_key j = k" using outbox_invD(3) [OF inv] by blast
    then have "select_by_key t k = Some (sqliteRow j)"
      unfolding select_by_key_iff [OF t] m by (intro exI [of _ i]) simp
    with Some j show ?thesis by simp
  qed
qed

lemma sql_enqueue_refines:
  assumes "implements t s" "enqueue s event key now = Inr (s', j)" "wire_event event"
  shows "\<exists>t'. sql_enqueue t event key now = (t', Inr (sqliteRow j)) \<and> implements t' s'"
  using assms(2)
proof (cases rule: enqueue_Inr)
  case (old c i)
  have "select_by_key t (j_key c) = Some (sqliteRow j)"
    using implements_key [OF assms(1), of "j_key c"] old(2,3) by simp
  moreover from this have "insert_or_ignore t c = t" by (simp add: insert_or_ignore_def)
  moreover have "wire_job j" using assms(1) old(3) unfolding implements_def by blast
  ultimately show ?thesis
    using old assms(1) by (simp add: sql_enqueue_def Let_def sameLogicalEvent_row)
next
  case new
  have t: "table_inv t" "outbox_inv s" "\<And>i. map_of t i = map_option sqliteRow (map_of (items s) i)"
    using assms(1) by (auto simp: implements_def)
  have free: "select_by_key t (j_key j) = None" "map_of t (j_id j) = None"
    using implements_key [OF assms(1), of "j_key j"] new(2,3) t(3) by simp_all
  let ?t = "t @ [(j_id j, sqliteRow j)]"
  note w = newJob_wire [OF new(1) assms(3)]
  have sel: "select_by_key ?t (j_key j) = Some (sqliteRow j)"
    using free(1) by (simp add: select_by_key_def find_append)
  have keys: "j_key j \<notin> set (map (\<lambda>(i, j). j_key j) t)"
    using free(1) by (fastforce simp: select_by_key_def find_None_iff)
  have "table_inv ?t"
    using t(1) free(2) keys by (auto simp: table_inv_def map_of_eq_None_iff)
  moreover have "outbox_inv (insert_job j s)"
    using insert_job_inv [OF t(2) newJob_Inr(2) [OF new(1)] new(2,3)] .
  moreover have "map_of ?t i = map_option sqliteRow (map_of (items (insert_job j s)) i)" for i
    using t(3) [of i] free(2) by (auto simp: map_add_def split: option.splits)
  moreover have "wire_job j'" if "map_of (items (insert_job j s)) i = Some j'" for i j'
    using that w(1) assms(1) by (auto simp: implements_def split: if_splits)
  ultimately have "implements ?t s'" by (simp add: implements_def new(4))
  moreover have "sql_enqueue t event key now = (?t, Inr (sqliteRow j))"
    using new(1) free sel w by (simp add: sql_enqueue_def insert_or_ignore_def Let_def sameLogicalEvent_row)
  ultimately show ?thesis by blast
qed

text \<open>Two duplicate-free lists with the same members are permutations of each other.\<close>

lemma distinct_same_mset: "distinct xs \<Longrightarrow> distinct ys \<Longrightarrow> set xs = set ys \<Longrightarrow> mset xs = mset ys"
  by (simp add: set_eq_iff_mset_eq_distinct)

lemma sql_claim_refines:
  assumes imp: "implements t s" and cl: "claim s w now limit st = Inr (s', js)"
    and all: "int (length (ready s now st)) \<le> limit" and time: "valid_time (now - st)"
  shows "\<exists>t' rows. sql_claim t w now limit st = Inr (t', rows) \<and> mset rows = mset (map sqliteRow js) \<and> implements t' s'"
proof -
  have inv: "outbox_inv s" and ti: "table_inv t" and m: "\<And>i. map_of t i = map_option sqliteRow (map_of (items s) i)"
    using imp by (auto simp: implements_def)
  let ?ready = "filter (\<lambda>(i, j). is_ready now st j) t"
  have dt: "distinct (map fst t)" and ds: "distinct (map fst (items s))"
    using ti outbox_invD(1) [OF inv] by (auto simp: table_inv_def)
  have mem: "(i, r) \<in> set t \<longleftrightarrow> (\<exists>j. (i, j) \<in> set (items s) \<and> r = sqliteRow j)" for i r
  proof -
    have "(i, r) \<in> set t \<longleftrightarrow> map_option sqliteRow (map_of (items s) i) = Some r"
      unfolding m [symmetric] using dt by simp
    also have "\<dots> \<longleftrightarrow> (\<exists>j. map_of (items s) i = Some j \<and> r = sqliteRow j)" by auto
    also have "\<dots> \<longleftrightarrow> (\<exists>j. (i, j) \<in> set (items s) \<and> r = sqliteRow j)" using ds by simp
    finally show ?thesis .
  qed
  have pairs: "mset ?ready = mset (map (\<lambda>(i, j). (i, sqliteRow j)) (ready s now st))"
  proof (rule distinct_same_mset)
    show "distinct ?ready" using dt by (simp add: distinct_map)
    have "distinct (map fst (ready s now st))" unfolding ready_def by (rule distinct_map_filter [OF ds])
    then have "distinct (map fst (map (\<lambda>(i, j). (i, sqliteRow j)) (ready s now st)))"
      by (simp add: case_prod_beta' comp_def)
    then show "distinct (map (\<lambda>(i, j). (i, sqliteRow j)) (ready s now st))"
      unfolding distinct_map by blast
    show "set ?ready = set (map (\<lambda>(i, j). (i, sqliteRow j)) (ready s now st))"
      using mem by (force simp: ready_def)
  qed
  have len: "length ?ready = length (ready s now st)"
    using mset_eq_length [OF pairs] by simp
  let ?rows = "sort_key (\<lambda>(i, j). (j_next j, j_created j, i)) ?ready"
  have rows: "sql_ready t now st limit = ?rows"
    using all len by (auto simp: sql_ready_def sql_limit_def)
  have picked: "slice_to limit (ready s now st) = ready s now st"
    using all by (auto simp: slice_to_def)
  have vt: "valid_time now" and js: "js = map (\<lambda>(i, j). claimed w now j) (ready s now st)"
    and it: "\<And>i. map_of (items s') i = map_option (\<lambda>j. if i \<in> set (map fst (ready s now st)) then claimed w now j else j) (map_of (items s) i)"
    by (rule claim_Inr [OF cl], simp add: picked)+
  let ?t = "map (\<lambda>(i, j). (i, if i \<in> set (map fst ?rows) then claimed w now j else j)) t"
  have sc: "sql_claim t w now limit st = Inr (?t, map (\<lambda>(i, j). claimed w now j) ?rows)"
    using vt time by (simp add: sql_claim_def rows Let_def)
  have "mset (map (\<lambda>(i, j). claimed w now j) ?rows) = image_mset (\<lambda>(i, j). claimed w now j) (mset ?ready)"
    by simp
  also have "\<dots> = mset (map sqliteRow js)"
    unfolding pairs js by (simp add: multiset.map_comp comp_def case_prod_beta')
  finally have res: "mset (map (\<lambda>(i, j). claimed w now j) ?rows) = mset (map sqliteRow js)" .
  have ids: "set (map fst ?rows) = set (map fst (ready s now st))"
  proof -
    have "set (map fst ?rows) = fst ` set ?ready" by simp
    also have "\<dots> = fst ` (\<lambda>(i, j). (i, sqliteRow j)) ` set (ready s now st)"
      unfolding mset_eq_setD [OF pairs] set_map ..
    also have "\<dots> = set (map fst (ready s now st))"
      unfolding image_image set_map by (rule image_cong) auto
    finally show ?thesis .
  qed
  have mt: "map_of ?t i = map_option sqliteRow (map_of (items s') i)" for i
    unfolding map_of_map_values it m ids by (cases "map_of (items s) i") auto
  have "table_inv ?t"
    by (rule table_map_inv [OF ti]) (simp_all add: claimed_def)
  moreover have "wire_job j" if "map_of (items s') i = Some j" for i j
    using that imp unfolding it implements_def by (auto simp: wire_job_def claimed_def split: if_splits)
  ultimately have "implements ?t s'"
    using claim_inv [OF inv cl] mt by (simp add: implements_def)
  with sc res show ?thesis by blast
qed

section \<open>Simulation\<close>

text \<open>The operations of a store that change its state, and their effect on both backends.\<close>

datatype outbox_op =
    OpEnqueue jsval jsval int
  | OpClaim string int int int
  | OpComplete string string int
  | OpFail string string js_error int int int int
  | OpReplay string jsval jsval int

fun run_memory :: "outbox_op \<Rightarrow> outbox \<Rightarrow> (outbox \<times> job list) res" where
  "run_memory (OpEnqueue event key now) s = and_then (enqueue s event key now) (\<lambda>(s', j). Inr (s', [j]))"
| "run_memory (OpClaim w now limit st) s = claim s w now limit st"
| "run_memory (OpComplete i w now) s = and_then (complete s i w now) (\<lambda>(s', j). Inr (s', [j]))"
| "run_memory (OpFail i w e now m b x) s = and_then (fail s i w e now m b x) (\<lambda>(s', j). Inr (s', [j]))"
| "run_memory (OpReplay i tenant reason now) s =
     and_then (replay s i tenant reason now) (\<lambda>(s', r). Inr (s', case r of None \<Rightarrow> [] | Some j \<Rightarrow> [j]))"

fun run_sqlite :: "outbox_op \<Rightarrow> jobs_table \<Rightarrow> (jobs_table \<times> job list) res" where
  "run_sqlite (OpEnqueue event key now) t =
     (let (t', r) = sql_enqueue t event key now in and_then r (\<lambda>j. Inr (t', [j])))"
| "run_sqlite (OpClaim w now limit st) t = sql_claim t w now limit st"
| "run_sqlite (OpComplete i w now) t = and_then (sql_complete t i w now) (\<lambda>(t', j). Inr (t', [j]))"
| "run_sqlite (OpFail i w e now m b x) t = and_then (sql_fail t i w e now m b x) (\<lambda>(t', j). Inr (t', [j]))"
| "run_sqlite (OpReplay i tenant reason now) t =
     and_then (sql_replay t i tenant reason now) (\<lambda>(t', r). Inr (t', case r of None \<Rightarrow> [] | Some j \<Rightarrow> [j]))"

text \<open>
  When the backends have to agree: the event survives its JSON text, the claim is not cut off by its
  limit (they order the ready jobs differently), and a replay names a tenant.
\<close>

fun op_fits :: "outbox_op \<Rightarrow> outbox \<Rightarrow> bool" where
  "op_fits (OpEnqueue event key now) s = wire_event event"
| "op_fits (OpClaim w now limit st) s = (int (length (ready s now st)) \<le> limit \<and> valid_time (now - st))"
| "op_fits (OpReplay i tenant reason now) s = (\<not> nullish tenant \<and> valid_time now)"
| "op_fits _ s = True"

lemma sql_replay_nothing:
  assumes "implements t s" "replay s i tenant reason now = Inr (s', None)" "valid_time now"
  shows "sql_replay t i tenant reason now = Inr (t, None)"
proof -
  obtain r where r: "normalizedReplayReason reason = Inr r"
    using assms(2) unfolding replay_def and_then_Inr by blast
  have m: "map_of t i = map_option sqliteRow (map_of (items s) i)" using assms(1) by (simp add: implements_def)
  show ?thesis
  proof (cases "map_of (items s) i")
    case None
    with r m assms(3) show ?thesis by (simp add: sql_replay_def update_row_def)
  next
    case (Some j)
    with r assms(2) have "\<not> strict_eq (j_tenant j) tenant"
      by (auto simp: replay_def guard_simps store_job_def Let_def split: if_splits)
    with Some r m assms(3) show ?thesis by (simp add: sql_replay_def update_row_def)
  qed
qed

lemma simulation_step:
  assumes "implements t s" "run_memory c s = Inr (s', js)" "op_fits c s"
  shows "\<exists>t' rows. run_sqlite c t = Inr (t', rows) \<and> mset rows = mset (map sqliteRow js) \<and> implements t' s'"
proof (cases c)
  case (OpEnqueue event key now)
  with assms obtain j where "enqueue s event key now = Inr (s', j)" "js = [j]" "wire_event event"
    by (auto simp: and_then_Inr)
  with sql_enqueue_refines [OF assms(1)] OpEnqueue show ?thesis by fastforce
next
  case (OpClaim w now limit st)
  with assms sql_claim_refines [OF assms(1)] show ?thesis by simp
next
  case (OpComplete i w now)
  with assms obtain j where "complete s i w now = Inr (s', j)" "js = [j]" by (auto simp: and_then_Inr)
  with sql_complete_refines [OF assms(1)] OpComplete show ?thesis by fastforce
next
  case (OpFail i w e now m b x)
  with assms obtain j where "fail s i w e now m b x = Inr (s', j)" "js = [j]" by (auto simp: and_then_Inr)
  with sql_fail_refines [OF assms(1)] OpFail show ?thesis by fastforce
next
  case (OpReplay i tenant reason now)
  with assms obtain r where r: "replay s i tenant reason now = Inr (s', r)"
    "js = (case r of None \<Rightarrow> [] | Some j \<Rightarrow> [j])" "\<not> nullish tenant" "valid_time now"
    by (auto simp: and_then_Inr)
  show ?thesis
  proof (cases r)
    case None
    with r have "s' = s" "sql_replay t i tenant reason now = Inr (t, None)"
      using replay_None sql_replay_nothing [OF assms(1)] by blast+
    with None r(2) assms(1) OpReplay show ?thesis by simp
  next
    case (Some j)
    with r sql_replay_refines [OF assms(1), of i tenant reason now s' j]
    obtain t' where "sql_replay t i tenant reason now = Inr (t', Some (sqliteRow j))" "implements t' s'" by blast
    with Some r(2) OpReplay show ?thesis by simp
  qed
qed

section \<open>Properties\<close>


lemma empty_implements: "implements [] createOutboxStore"
  using created_inv by (simp add: implements_def table_inv_def createOutboxStore_def)


text \<open>
  The backends differ on replaying a job that is not dead: for a job of the tenant the in-memory
  store throws, while the SQLite backend reports it as missing.
\<close>

theorem replay_divergence:
  assumes "implements t s" "map_of (items s) i = Some j" "strict_eq (j_tenant j) tenant" "j_status j \<noteq> Dead"
    and "normalizedReplayReason reason = Inr r" "valid_time now"
  shows "replay s i tenant reason now = Inl (Err ''Only dead outbox jobs can be replayed.'')
    \<and> sql_replay t i tenant reason now = Inr (t, None)"
proof -
  have "map_of t i = Some (sqliteRow j)" using assms(1,2) by (simp add: implements_def)
  with assms show ?thesis by (simp add: replay_def sql_replay_def update_row_def)
qed

lemma replay_divergence_witness:
  "replay demo_outbox ''i1'' (JStr ''t'') (JStr ''again'') 5000 = Inl (Err ''Only dead outbox jobs can be replayed.'')
    \<and> sql_replay (fst (sql_enqueue [] (demo_outbox_event ''i1'') JUndef 1000)) ''i1'' (JStr ''t'') (JStr ''again'') 5000
      = Inr (fst (sql_enqueue [] (demo_outbox_event ''i1'') JUndef 1000), None)"
proof (rule replay_divergence)
  have "wire_event (demo_outbox_event ''i1'')" by (simp add: demo_outbox_event_def wire_event_def)
  from sql_enqueue_refines [OF empty_implements demo_enqueue this]
  show "implements (fst (sql_enqueue [] (demo_outbox_event ''i1'') JUndef 1000)) demo_outbox" by auto
  show "map_of (items demo_outbox) ''i1'' = Some demo_job" by code_simp
  show "strict_eq (j_tenant demo_job) (JStr ''t'')" by code_simp
  show "j_status demo_job \<noteq> Dead" by code_simp
  show "normalizedReplayReason (JStr ''again'') = Inr ''again''" by code_simp
  show "valid_time 5000" by code_simp
qed

end
