(* ===== verification/OutboxWorker.thy ===== *)
theory OutboxWorker
  imports OutboxSql
begin

text \<open>
  One run of the outbox worker (\<open>processOutboxOnce\<close> of apps/api/src/reliability/outbox.js): a batch is
  claimed, every claimed job gets its own asynchronous task that calls the handler and then completes
  or fails the job, and the run ends when all tasks have ended or one of them throws. The tasks
  interleave; a schedule is the list of the tasks' numbers in the order in which they take a turn.
  A task's turn is one awaited call: the handler, \<open>store.complete\<close> or \<open>store.fail\<close>.

  The store is used through an interface, stated as a locale and interpreted on the in-memory store
  and on the SQLite table. The handler is a parameter: any function of the outside world and the
  event that may throw.
\<close>

section \<open>The run\<close>

record 's store_ops =
  op_claim :: "'s \<Rightarrow> string \<Rightarrow> int \<Rightarrow> int \<Rightarrow> int \<Rightarrow> ('s \<times> job list) res"
  op_complete :: "'s \<Rightarrow> string \<Rightarrow> string \<Rightarrow> int \<Rightarrow> ('s \<times> job) res"
  op_fail :: "'s \<Rightarrow> string \<Rightarrow> string \<Rightarrow> js_error \<Rightarrow> int \<Rightarrow> int \<Rightarrow> int \<Rightarrow> int \<Rightarrow> ('s \<times> job) res"

record tick_options =
  x_now :: int
  x_max_attempts :: int
  x_base :: int
  x_max :: int
  x_concurrency :: int
  x_stale :: int
  x_worker :: string

record tally =
  t_processed :: nat
  t_retried :: nat
  t_dead :: nat

text \<open>
  Where a task stands: before the handler, after it with the job still to be completed or failed,
  ended (with the error the job was failed with, if any), or ended by an error of its own.
\<close>

datatype task = Calling | Completing | Failing js_error | Settled "js_error option" | Rejected js_error

record ('w, 's) tick =
  k_world :: 'w
  k_store :: 's
  k_tasks :: "(job \<times> task) list"
  k_tally :: tally
  k_rejected :: "js_error option"

type_synonym 'w handler = "'w \<Rightarrow> jsval \<Rightarrow> 'w \<times> js_error option"

text \<open>\<open>{...job.event, idempotencyKey: job.idempotencyKey, attempt: job.attempts}\<close>.\<close>

definition handler_event :: "job \<Rightarrow> jsval" where
  "handler_event j = spread (j_event j)
     [(''idempotencyKey'', JStr (j_key j)), (''attempt'', JNum (of_nat (j_attempts j)))]"

text \<open>\<open>error?.retryable === false ? job.attempts : maxAttempts\<close>.\<close>

definition attempt_limit :: "tick_options \<Rightarrow> js_error \<Rightarrow> job \<Rightarrow> int" where
  "attempt_limit p e j = (if err_retryable e = Some False then int (j_attempts j) else x_max_attempts p)"

definition move_task :: "nat \<Rightarrow> job \<Rightarrow> task \<Rightarrow> ('w, 's) tick \<Rightarrow> ('w, 's) tick" where
  "move_task i j t st = st\<lparr>k_tasks := (k_tasks st)[i := (j, t)]\<rparr>"

definition turn :: "'s store_ops \<Rightarrow> 'w handler \<Rightarrow> tick_options \<Rightarrow> nat \<Rightarrow> ('w, 's) tick \<Rightarrow> ('w, 's) tick" where
  "turn ops handler p i st =
    (if length (k_tasks st) \<le> i then st
     else (case k_tasks st ! i of
       (j, Calling) \<Rightarrow>
         (let (w', r) = handler (k_world st) (handler_event j) in
          move_task i j (case r of None \<Rightarrow> Completing | Some e \<Rightarrow> Failing e) (st\<lparr>k_world := w'\<rparr>))
     | (j, Completing) \<Rightarrow>
         (case op_complete ops (k_store st) (j_id j) (x_worker p) (x_now p) of
            Inl e \<Rightarrow> move_task i j (Failing e) st
          | Inr (s', j') \<Rightarrow> move_task i j (Settled None)
              (st\<lparr>k_store := s', k_tally := (k_tally st)\<lparr>t_processed := t_processed (k_tally st) + 1\<rparr>\<rparr>))
     | (j, Failing e) \<Rightarrow>
         (case op_fail ops (k_store st) (j_id j) (x_worker p) e (x_now p) (attempt_limit p e j) (x_base p) (x_max p) of
            Inl e' \<Rightarrow> move_task i j (Rejected e')
              (st\<lparr>k_rejected := (case k_rejected st of None \<Rightarrow> Some e' | Some e0 \<Rightarrow> Some e0)\<rparr>)
          | Inr (s', j') \<Rightarrow> move_task i j (Settled (Some e))
              (st\<lparr>k_store := s', k_tally := (if j_status j' = Dead
                   then (k_tally st)\<lparr>t_dead := t_dead (k_tally st) + 1\<rparr>
                   else (k_tally st)\<lparr>t_retried := t_retried (k_tally st) + 1\<rparr>)\<rparr>))
     | _ \<Rightarrow> st))"

definition run_tasks :: "'s store_ops \<Rightarrow> 'w handler \<Rightarrow> tick_options \<Rightarrow> nat list \<Rightarrow> ('w, 's) tick \<Rightarrow> ('w, 's) tick" where
  "run_tasks ops handler p sched st = fold (turn ops handler p) sched st"

text \<open>
  What \<open>await Promise.all(...)\<close> gives after these turns: nothing yet while a task is under way, the
  first error, or the tally.
\<close>

definition tick_result :: "('w, 's) tick \<Rightarrow> tally res option" where
  "tick_result st = (case k_rejected st of
     Some e \<Rightarrow> Some (Inl e)
   | None \<Rightarrow> if list_all (\<lambda>(j, t). case t of Settled e \<Rightarrow> True | _ \<Rightarrow> False) (k_tasks st)
       then Some (Inr (k_tally st)) else None)"

definition processOutboxOnce ::
    "'s store_ops \<Rightarrow> 'w handler \<Rightarrow> tick_options \<Rightarrow> nat list \<Rightarrow> 'w \<Rightarrow> 's \<Rightarrow> ('w, 's) tick \<times> tally res option" where
  "processOutboxOnce ops handler p sched w s =
    (case op_claim ops s (x_worker p) (x_now p) (x_concurrency p) (x_stale p) of
       Inl e \<Rightarrow> (\<lparr>k_world = w, k_store = s, k_tasks = [],
                  k_tally = \<lparr>t_processed = 0, t_retried = 0, t_dead = 0\<rparr>, k_rejected = Some e\<rparr>, Some (Inl e))
     | Inr (s', jobs) \<Rightarrow>
         (let st = run_tasks ops handler p sched
                \<lparr>k_world = w, k_store = s', k_tasks = map (\<lambda>j. (j, Calling)) jobs,
                 k_tally = \<lparr>t_processed = 0, t_retried = 0, t_dead = 0\<rparr>, k_rejected = None\<rparr>
          in (st, tick_result st)))"

section \<open>The interface of a backend\<close>

text \<open>The job a task leaves behind.\<close>

definition settled :: "tick_options \<Rightarrow> js_error option \<Rightarrow> job \<Rightarrow> job" where
  "settled p r j = (case r of
     None \<Rightarrow> completed (x_now p) j
   | Some e \<Rightarrow> failed e (x_now p) (attempt_limit p e j) (x_base p) (x_max p) j)"

text \<open>The times a run computes are dates.\<close>

definition times_ok :: "tick_options \<Rightarrow> bool" where
  "times_ok p = (valid_time (x_now p) \<and> valid_time (x_now p + x_max p) \<and> 0 \<le> x_base p \<and> 0 \<le> x_max p)"

text \<open>Every task gets the two turns it needs.\<close>

definition fair :: "nat \<Rightarrow> nat list \<Rightarrow> bool" where
  "fair n sched = list_all (\<lambda>i. 2 \<le> count_list sched i) [0..<n]"

lemma next_attempt_valid: "times_ok p \<Longrightarrow> valid_time (next_attempt (x_now p) m (x_base p) (x_max p) j)"
proof -
  assume ok: "times_ok p"
  then have "0 \<le> backoffMs (j_attempts j) (x_base p) (x_max p)" "backoffMs (j_attempts j) (x_base p) (x_max p) \<le> x_max p"
    by (auto simp: times_ok_def backoffMs_def)
  with ok show ?thesis by (auto simp: times_ok_def valid_time_def next_attempt_def)
qed

lemma settled_status: "j_status (settled p r j) = (case r of None \<Rightarrow> Processed
    | Some e \<Rightarrow> if int (j_attempts j) \<ge> attempt_limit p e j then Dead else Failed)"
  by (auto simp: settled_def completed_def failed_def split: option.splits)

text \<open>
  What a task may rely on: a claim hands out distinct jobs that the worker then holds and leaves the
  others alone; a held job can be completed and failed, which changes that job only.
\<close>

locale outbox_backend =
  fixes ops :: "'s store_ops" and lookup :: "'s \<Rightarrow> string \<Rightarrow> job option" and invar :: "'s \<Rightarrow> bool"
  assumes claim_law: "\<lbrakk> invar s; op_claim ops s w now n stale = Inr (s', js) \<rbrakk> \<Longrightarrow>
      invar s' \<and> distinct (map j_id js) \<and> list_all (\<lambda>j. lookup s' (j_id j) = Some j \<and> held_by w j) js
      \<and> (\<forall>i. i \<notin> set (map j_id js) \<longrightarrow> lookup s' i = lookup s i)"
    and complete_law: "\<lbrakk> invar s; lookup s i = Some j; held_by w j; valid_time now \<rbrakk> \<Longrightarrow>
      \<exists>s'. op_complete ops s i w now = Inr (s', completed now j) \<and> invar s'
        \<and> lookup s' = (lookup s)(i \<mapsto> completed now j)"
    and fail_law: "\<lbrakk> invar s; lookup s i = Some j; held_by w j; valid_time now; valid_time (next_attempt now m b x j) \<rbrakk> \<Longrightarrow>
      \<exists>s'. op_fail ops s i w e now m b x = Inr (s', failed e now m b x j) \<and> invar s'
        \<and> lookup s' = (lookup s)(i \<mapsto> failed e now m b x j)"
begin

text \<open>A task under way still holds its job; an ended one has settled it.\<close>

definition task_ok :: "tick_options \<Rightarrow> 's \<Rightarrow> job \<times> task \<Rightarrow> bool" where
  "task_ok p s jt = (case jt of (j, t) \<Rightarrow> held_by (x_worker p) j \<and> (case t of
      Settled r \<Rightarrow> lookup s (j_id j) = Some (settled p r j)
    | Rejected e \<Rightarrow> False
    | _ \<Rightarrow> lookup s (j_id j) = Some j))"

definition ended_as :: "tick_options \<Rightarrow> job_status \<Rightarrow> job \<times> task \<Rightarrow> bool" where
  "ended_as p st jt = (case jt of (j, Settled r) \<Rightarrow> j_status (settled p r j) = st | _ \<Rightarrow> False)"

definition tick_inv :: "tick_options \<Rightarrow> 's \<Rightarrow> job list \<Rightarrow> ('w, 's) tick \<Rightarrow> bool" where
  "tick_inv p s0 js st = (invar (k_store st) \<and> k_rejected st = None \<and> map fst (k_tasks st) = js
     \<and> list_all (task_ok p (k_store st)) (k_tasks st)
     \<and> (\<forall>i. i \<notin> set (map j_id js) \<longrightarrow> lookup (k_store st) i = lookup s0 i)
     \<and> t_processed (k_tally st) = length (filter (ended_as p Processed) (k_tasks st))
     \<and> t_retried (k_tally st) = length (filter (ended_as p Failed) (k_tasks st))
     \<and> t_dead (k_tally st) = length (filter (ended_as p Dead) (k_tasks st)))"

text \<open>One more task has ended in a given way.\<close>

lemma filter_update_count:
  "i < length xs \<Longrightarrow> \<not> P (xs ! i) \<Longrightarrow> length (filter P (xs[i := y])) = length (filter P xs) + (if P y then 1 else 0)"
proof (induction xs arbitrary: i)
  case (Cons x xs)
  then show ?case by (cases i) auto
qed simp

text \<open>Settling the job of one task leaves the other tasks as they are.\<close>

lemma other_tasks_ok:
  assumes "list_all (task_ok p s) ts" "distinct (map j_id (map fst ts))" "i < length ts" "fst (ts ! i) = j"
    and "lookup s' = (lookup s)(j_id j \<mapsto> j')" "task_ok p s' (j, t)"
  shows "list_all (task_ok p s') (ts[i := (j, t)])"
  unfolding list_all_length
proof (intro allI impI)
  fix k assume "k < length (ts[i := (j, t)])"
  then have k: "k < length ts" by simp
  show "task_ok p s' (ts[i := (j, t)] ! k)"
  proof (cases "k = i")
    case True with k assms(6) show ?thesis by simp
  next
    case False
    have "map j_id (map fst ts) ! k \<noteq> map j_id (map fst ts) ! i"
      using assms(2,3) k False by (simp only: nth_eq_iff_index_eq length_map) simp
    then have "j_id (fst (ts ! k)) \<noteq> j_id j" using k assms(3,4) by simp
    moreover have "task_ok p s (ts ! k)" using assms(1) k by (simp add: list_all_length)
    ultimately show ?thesis using False assms(5)
      by (cases "ts ! k") (auto simp: task_ok_def split: task.splits)
  qed
qed

lemma update_fst: "i < length ts \<Longrightarrow> fst (ts ! i) = j \<Longrightarrow> map fst (ts[i := (j, t)]) = map fst ts"
  by (simp add: map_update list_update_same_conv)

text \<open>The end of a task: its job is settled in the store and counted.\<close>

lemma settle_inv:
  assumes inv: "tick_inv p s0 js st" and dist: "distinct (map j_id js)"
    and i: "i < length (k_tasks st)" "k_tasks st ! i = (j, t)" "\<And>q. \<not> ended_as p q (j, t)" "held_by (x_worker p) j"
    and s': "invar s'" "lookup s' = (lookup (k_store st))(j_id j \<mapsto> settled p r j)"
    and cs: "t_processed cs = t_processed (k_tally st) + (if j_status (settled p r j) = Processed then 1 else 0)"
      "t_retried cs = t_retried (k_tally st) + (if j_status (settled p r j) = Failed then 1 else 0)"
      "t_dead cs = t_dead (k_tally st) + (if j_status (settled p r j) = Dead then 1 else 0)"
  shows "tick_inv p s0 js (move_task i j (Settled r) (st\<lparr>k_store := s', k_tally := cs\<rparr>))"
proof -
  have fst_i: "fst (k_tasks st ! i) = j" using i by simp
  have ended: "ended_as p q (j, Settled r) = (j_status (settled p r j) = q)" for q by (simp add: ended_as_def)
  have cnt: "length (filter (ended_as p q) ((k_tasks st)[i := (j, Settled r)]))
      = length (filter (ended_as p q) (k_tasks st)) + (if j_status (settled p r j) = q then 1 else 0)" for q
    using filter_update_count [of i "k_tasks st" "ended_as p q" "(j, Settled r)"] i ended by simp
  have mem: "j_id j \<in> set (map j_id js)"
  proof -
    have "j \<in> set (map fst (k_tasks st))" using i fst_i by (metis length_map nth_map nth_mem)
    moreover have "map fst (k_tasks st) = js" using inv by (simp add: tick_inv_def)
    ultimately show ?thesis by (simp only: set_map) (rule imageI)
  qed
  have "list_all (task_ok p s') ((k_tasks st)[i := (j, Settled r)])"
    by (rule other_tasks_ok [OF _ _ i(1) fst_i s'(2)]) (use inv dist i(4) s'(2) in \<open>auto simp: tick_inv_def task_ok_def\<close>)
  then show ?thesis
    using inv s' mem by (auto simp: tick_inv_def move_task_def cnt cs update_fst [OF i(1) fst_i])
qed

text \<open>A turn that only moves its task on, with the job still held.\<close>

lemma move_inv:
  assumes inv: "tick_inv p s0 js st" and i: "i < length (k_tasks st)" "k_tasks st ! i = (j, t)"
    and t: "\<And>q. \<not> ended_as p q (j, t)" "\<And>q. \<not> ended_as p q (j, t')" "task_ok p (k_store st) (j, t')"
  shows "tick_inv p s0 js (move_task i j t' (st\<lparr>k_world := w\<rparr>))"
proof -
  have fst_i: "fst (k_tasks st ! i) = j" using i by simp
  have "list_all (task_ok p (k_store st)) ((k_tasks st)[i := (j, t')])"
    using inv t(3) i by (auto simp: tick_inv_def list_all_length nth_list_update)
  moreover have "length (filter (ended_as p q) ((k_tasks st)[i := (j, t')])) = length (filter (ended_as p q) (k_tasks st))" for q
    using filter_update_count [of i "k_tasks st" "ended_as p q" "(j, t')"] i t by simp
  ultimately show ?thesis
    using inv by (simp add: tick_inv_def move_task_def update_fst [OF i(1) fst_i])
qed

text \<open>How many turns a task still needs.\<close>

definition turns_left :: "task \<Rightarrow> nat" where
  "turns_left t = (case t of Calling \<Rightarrow> 2 | Completing \<Rightarrow> 1 | Failing e \<Rightarrow> 1 | _ \<Rightarrow> 0)"

lemma turn_step:
  assumes inv: "tick_inv p s0 js st" and dist: "distinct (map j_id js)" and ok: "times_ok p"
  shows "tick_inv p s0 js (turn ops handler p i st)
    \<and> map (\<lambda>(j, t). turns_left t) (k_tasks (turn ops handler p i st))
      = (map (\<lambda>(j, t). turns_left t) (k_tasks st))[i := turns_left (snd (k_tasks st ! i)) - 1]"
proof (cases "i < length (k_tasks st)")
  case False
  with inv show ?thesis by (simp add: turn_def list_update_beyond)
next
  case True
  obtain j t where jt: "k_tasks st ! i = (j, t)" by (cases "k_tasks st ! i")
  have tk: "task_ok p (k_store st) (j, t)" using inv True jt by (metis list_all_length tick_inv_def)
  then have held: "held_by (x_worker p) j" by (simp add: task_ok_def)
  have inv_store: "invar (k_store st)" using inv by (simp add: tick_inv_def)
  have now: "valid_time (x_now p)" using ok by (simp add: times_ok_def)
  have left: "map (\<lambda>(j, t). turns_left t) (k_tasks (move_task i j t' st'))
      = (map (\<lambda>(j, t). turns_left t) (k_tasks st'))[i := turns_left t']" for t' and st' :: "('w, 's) tick"
    by (simp add: move_task_def map_update)
  show ?thesis
  proof (cases t)
    case Calling
    obtain w' r where h: "handler (k_world st) (handler_event j) = (w', r)" by (cases "handler (k_world st) (handler_event j)")
    let ?t = "case r of None \<Rightarrow> Completing | Some e \<Rightarrow> Failing e"
    have "tick_inv p s0 js (move_task i j ?t (st\<lparr>k_world := w'\<rparr>))"
      by (rule move_inv [OF inv True jt]) (use Calling tk in \<open>auto simp: ended_as_def task_ok_def split: option.splits\<close>)
    moreover have "turns_left ?t = 1" by (simp add: turns_left_def split: option.splits)
    ultimately show ?thesis
      using True jt Calling h left [of ?t "st\<lparr>k_world := w'\<rparr>"] by (simp add: turn_def turns_left_def)
  next
    case Completing
    obtain s' where c: "op_complete ops (k_store st) (j_id j) (x_worker p) (x_now p) = Inr (s', completed (x_now p) j)"
        "invar s'" "lookup s' = (lookup (k_store st))(j_id j \<mapsto> settled p None j)"
      using complete_law [OF inv_store _ held now, of "j_id j"] tk Completing by (auto simp: task_ok_def settled_def)
    let ?cs = "(k_tally st)\<lparr>t_processed := t_processed (k_tally st) + 1\<rparr>"
    have "tick_inv p s0 js (move_task i j (Settled None) (st\<lparr>k_store := s', k_tally := ?cs\<rparr>))"
      by (rule settle_inv [OF inv dist True jt _ held c(2,3)]) (use Completing in \<open>simp_all add: ended_as_def settled_status\<close>)
    then show ?thesis
      using True jt Completing c(1) left [of "Settled None" "st\<lparr>k_store := s', k_tally := ?cs\<rparr>"]
      by (simp add: turn_def turns_left_def)
  next
    case (Failing e)
    let ?j' = "failed e (x_now p) (attempt_limit p e j) (x_base p) (x_max p) j"
    have set: "settled p (Some e) j = ?j'" by (simp add: settled_def)
    obtain s' where c: "op_fail ops (k_store st) (j_id j) (x_worker p) e (x_now p) (attempt_limit p e j) (x_base p) (x_max p) = Inr (s', ?j')"
        "invar s'" "lookup s' = (lookup (k_store st))(j_id j \<mapsto> settled p (Some e) j)"
      using fail_law [OF inv_store _ held now next_attempt_valid [OF ok], of "j_id j"] tk Failing
      by (auto simp: task_ok_def set)
    let ?cs = "if j_status ?j' = Dead then (k_tally st)\<lparr>t_dead := t_dead (k_tally st) + 1\<rparr>
        else (k_tally st)\<lparr>t_retried := t_retried (k_tally st) + 1\<rparr>"
    have "tick_inv p s0 js (move_task i j (Settled (Some e)) (st\<lparr>k_store := s', k_tally := ?cs\<rparr>))"
      by (rule settle_inv [OF inv dist True jt _ held c(2,3)])
        (use Failing in \<open>simp_all add: ended_as_def settled_status failed_def\<close>)
    then show ?thesis
      using True jt Failing c(1) left [of "Settled (Some e)" "st\<lparr>k_store := s', k_tally := ?cs\<rparr>"]
      by (simp add: turn_def turns_left_def)
  next
    case (Settled r)
    have "(map (\<lambda>(j, t). turns_left t) (k_tasks st))[i := 0] = map (\<lambda>(j, t). turns_left t) (k_tasks st)"
      using True jt Settled by (simp add: list_update_same_conv turns_left_def)
    with Settled True jt inv show ?thesis by (simp add: turn_def turns_left_def)
  next
    case (Rejected e)
    with tk show ?thesis by (simp add: task_ok_def)
  qed
qed

lemma run_tasks_left:
  assumes "tick_inv p s0 js st" "distinct (map j_id js)" "times_ok p"
  shows "tick_inv p s0 js (run_tasks ops handler p sched st)
    \<and> length (k_tasks (run_tasks ops handler p sched st)) = length (k_tasks st)
    \<and> (\<forall>i < length (k_tasks st). turns_left (snd (k_tasks (run_tasks ops handler p sched st) ! i))
         = turns_left (snd (k_tasks st ! i)) - count_list sched i)"
  using assms(1)
proof (induction sched arbitrary: st)
  case Nil
  then show ?case by (simp add: run_tasks_def)
next
  case (Cons k sched)
  let ?st = "turn ops handler p k st"
  note step = turn_step [OF Cons.prems assms(2,3), of handler k]
  then have len: "length (k_tasks ?st) = length (k_tasks st)" by (metis length_list_update length_map)
  have left: "turns_left (snd (k_tasks ?st ! i)) = turns_left (snd (k_tasks st ! i)) - (if i = k then 1 else 0)"
    if "i < length (k_tasks st)" for i
  proof -
    have "turns_left (snd (k_tasks ?st ! i)) = map (\<lambda>(j, t). turns_left t) (k_tasks ?st) ! i"
      using that len by (simp add: case_prod_beta)
    also have "\<dots> = turns_left (snd (k_tasks st ! i)) - (if i = k then 1 else 0)"
      using step that by (simp add: nth_list_update case_prod_beta)
    finally show ?thesis .
  qed
  from Cons.IH [OF conjunct1 [OF step]] show ?case
    using len left by (auto simp: run_tasks_def)
qed

text \<open>Every fair run settles every job it claimed and returns the tally.\<close>

lemma run_settles:
  assumes inv: "invar s" and ok: "times_ok p"
    and cl: "op_claim ops s (x_worker p) (x_now p) (x_concurrency p) (x_stale p) = Inr (s1, js)"
    and sched: "fair (length js) sched"
    and run: "processOutboxOnce ops handler p sched w s = (st, r)"
  shows "r = Some (Inr (k_tally st))" "invar (k_store st)" "map fst (k_tasks st) = js"
    "\<And>j. j \<in> set js \<Longrightarrow> \<exists>e. (j, Settled e) \<in> set (k_tasks st) \<and> lookup (k_store st) (j_id j) = Some (settled p e j)"
    "\<And>i. i \<notin> set (map j_id js) \<Longrightarrow> lookup (k_store st) i = lookup s i"
    "t_processed (k_tally st) + t_retried (k_tally st) + t_dead (k_tally st) = length js"
    "t_processed (k_tally st) = length (filter (\<lambda>j. map_option j_status (lookup (k_store st) (j_id j)) = Some Processed) js)"
    "t_dead (k_tally st) = length (filter (\<lambda>j. map_option j_status (lookup (k_store st) (j_id j)) = Some Dead) js)"
proof -
  let ?st0 = "\<lparr>k_world = w, k_store = s1, k_tasks = map (\<lambda>j. (j, Calling)) js,
      k_tally = \<lparr>t_processed = 0, t_retried = 0, t_dead = 0\<rparr>, k_rejected = None\<rparr>"
  note cll = claim_law [OF inv cl]
  have noend: "filter (ended_as p q) (map (\<lambda>j. (j, Calling)) js) = []" for q
    by (simp add: filter_empty_conv ended_as_def)
  have start: "tick_inv p s1 js ?st0"
    using cll by (simp add: tick_inv_def noend list_all_iff task_ok_def comp_def)
  have st: "st = run_tasks ops handler p sched ?st0" "r = tick_result st"
    using run cl by (auto simp: processOutboxOnce_def Let_def)
  note res = run_tasks_left [OF start conjunct1 [OF conjunct2 [OF cll]] ok, of handler sched, folded st(1)]
  have tinv: "tick_inv p s1 js st" and len: "length (k_tasks st) = length js" using res by simp_all
  have settled_all: "\<exists>e. snd (k_tasks st ! i) = Settled e" if "i < length js" for i
  proof -
    have "2 \<le> count_list sched i" using sched that by (simp add: fair_def list_all_iff)
    then have "turns_left (snd (k_tasks st ! i)) = 0" using res that by (simp add: turns_left_def)
    moreover have "task_ok p (k_store st) (k_tasks st ! i)" using tinv that len by (simp add: tick_inv_def list_all_length)
    ultimately show ?thesis
      by (cases "k_tasks st ! i"; cases "snd (k_tasks st ! i)") (simp_all add: turns_left_def task_ok_def)
  qed
  then have sall: "list_all (\<lambda>(j, t). case t of Settled e \<Rightarrow> True | _ \<Rightarrow> False) (k_tasks st)"
    using len by (fastforce simp: list_all_length case_prod_beta)
  show "r = Some (Inr (k_tally st))" using tinv sall by (simp add: st(2) tick_result_def tick_inv_def)
  show "invar (k_store st)" and tasks: "map fst (k_tasks st) = js" using tinv by (simp_all add: tick_inv_def)
  show "lookup (k_store st) i = lookup s i" if "i \<notin> set (map j_id js)" for i
    using tinv cll that by (simp add: tick_inv_def)
  have ok_tasks: "list_all (task_ok p (k_store st)) (k_tasks st)" using tinv by (simp add: tick_inv_def)
  show "\<exists>e. (j, Settled e) \<in> set (k_tasks st) \<and> lookup (k_store st) (j_id j) = Some (settled p e j)"
    if "j \<in> set js" for j
  proof -
    from that tasks obtain t where jt: "(j, t) \<in> set (k_tasks st)" by force
    with sall obtain e where "t = Settled e" by (fastforce simp: list_all_iff split: task.splits)
    with jt ok_tasks show ?thesis by (fastforce simp: list_all_iff task_ok_def)
  qed
  have stat: "ended_as p q jt = (map_option j_status (lookup (k_store st) (j_id (fst jt))) = Some q)"
    if "jt \<in> set (k_tasks st)" for jt q
  proof -
    obtain j t where jt: "jt = (j, t)" by (cases jt)
    have "case t of Settled e \<Rightarrow> True | _ \<Rightarrow> False" "task_ok p (k_store st) (j, t)"
      using that sall ok_tasks unfolding list_all_iff jt by auto
    then show ?thesis by (cases t) (simp_all add: jt ended_as_def task_ok_def)
  qed
  have cnt: "length (filter (ended_as p q) (k_tasks st))
      = length (filter (\<lambda>j. map_option j_status (lookup (k_store st) (j_id j)) = Some q) js)" for q
  proof -
    have "filter (ended_as p q) (k_tasks st)
        = filter (\<lambda>jt. map_option j_status (lookup (k_store st) (j_id (fst jt))) = Some q) (k_tasks st)"
      by (rule filter_cong [OF refl stat])
    then show ?thesis unfolding tasks [symmetric] by (simp add: filter_map comp_def)
  qed
  show "t_processed (k_tally st) = length (filter (\<lambda>j. map_option j_status (lookup (k_store st) (j_id j)) = Some Processed) js)"
    "t_dead (k_tally st) = length (filter (\<lambda>j. map_option j_status (lookup (k_store st) (j_id j)) = Some Dead) js)"
    using tinv cnt by (simp_all add: tick_inv_def)
  have "length (filter (ended_as p Processed) ts) + length (filter (ended_as p Failed) ts) + length (filter (ended_as p Dead) ts)
      = length ts" if "list_all (\<lambda>(j, t). case t of Settled e \<Rightarrow> True | _ \<Rightarrow> False) ts" for ts
    using that
  proof (induction ts)
    case (Cons jt ts)
    obtain j t where jt: "jt = (j, t)" by (cases jt)
    from Cons.prems jt obtain e where t: "t = Settled e" by (cases t) auto
    have "j_status (settled p e j) \<in> {Processed, Failed, Dead}" by (simp add: settled_status split: option.splits)
    with Cons show ?case by (auto simp: jt t ended_as_def)
  qed simp
  from this [OF sall] show "t_processed (k_tally st) + t_retried (k_tally st) + t_dead (k_tally st) = length js"
    using tinv len by (simp add: tick_inv_def)
qed

end

section \<open>The two backends\<close>

definition memory_ops :: "outbox store_ops" where
  "memory_ops = \<lparr>op_claim = claim, op_complete = complete, op_fail = fail\<rparr>"

definition sqlite_ops :: "jobs_table store_ops" where
  "sqlite_ops = \<lparr>op_claim = sql_claim, op_complete = sql_complete, op_fail = sql_fail\<rparr>"

lemma claimed_held [simp]: "held_by w (claimed w now j)" "j_id (claimed w now j) = j_id j"
  by (simp_all add: held_by_def claimed_def)

lemma memory_claim_law:
  assumes inv: "outbox_inv s" and cl: "claim s w now n stale = Inr (s', js)"
  shows "outbox_inv s' \<and> distinct (map j_id js) \<and> list_all (\<lambda>j. map_of (items s') (j_id j) = Some j \<and> held_by w j) js
      \<and> (\<forall>i. i \<notin> set (map j_id js) \<longrightarrow> map_of (items s') i = map_of (items s) i)"
proof -
  obtain picked where p: "picked = slice_to n (ready s now stale)" "js = map (\<lambda>(i, j). claimed w now j) picked"
    and it: "\<And>i. map_of (items s') i = map_option (\<lambda>j. if i \<in> set (map fst picked) then claimed w now j else j) (map_of (items s) i)"
    by (rule claim_Inr [OF cl]) (rule that)
  note d = outbox_invD(1) [OF inv]
  note pj = picked_job [OF d, of _ _ n now stale, folded p(1)]
  have "map j_id js = map fst picked"
    unfolding p(2) using pj(1) outbox_invD(2) [OF inv] by (fastforce simp: case_prod_beta)
  moreover have "distinct (map fst picked)"
    unfolding p(1) ready_def by (rule slice_to_distinct, rule distinct_map_filter [OF d])
  moreover have "map_of (items s') (j_id j) = Some j \<and> held_by w j" if "j \<in> set js" for j
  proof -
    from that p(2) obtain i j0 where ij: "(i, j0) \<in> set picked" "j = claimed w now j0" by auto
    then have "i \<in> set (map fst picked)" by force
    with pj(1) [OF ij(1)] ij(2) it [of i] outbox_invD(2) [OF inv pj(1) [OF ij(1)]] show ?thesis by simp
  qed
  moreover have "map_of (items s') i = map_of (items s) i" if "i \<notin> set (map fst picked)" for i
    using it [of i] that by (simp add: option.map_ident)
  ultimately show ?thesis using claim_inv [OF inv cl] by (simp add: list_all_iff)
qed

interpretation memory: outbox_backend memory_ops "\<lambda>s. map_of (items s)" outbox_inv
proof unfold_locales
  fix s s' :: outbox and w now n stale js
  assume "outbox_inv s" "op_claim memory_ops s w now n stale = Inr (s', js)"
  then show "outbox_inv s' \<and> distinct (map j_id js) \<and> list_all (\<lambda>j. map_of (items s') (j_id j) = Some j \<and> held_by w j) js
      \<and> (\<forall>i. i \<notin> set (map j_id js) \<longrightarrow> map_of (items s') i = map_of (items s) i)"
    using memory_claim_law by (simp add: memory_ops_def)
next
  fix s :: outbox and i j w now
  assume a: "outbox_inv s" "map_of (items s) i = Some j" "held_by w j" "valid_time now"
  then have "complete s i w now = Inr (fst (store_job i (completed now j) s), completed now j)" by (auto simp: complete_Inr)
  with complete_inv [OF a(1) this] show "\<exists>s'. op_complete memory_ops s i w now = Inr (s', completed now j) \<and> outbox_inv s'
        \<and> map_of (items s') = (map_of (items s))(i \<mapsto> completed now j)"
    by (auto simp: memory_ops_def)
next
  fix s :: outbox and i j w now m b x e
  assume a: "outbox_inv s" "map_of (items s) i = Some j" "held_by w j" "valid_time now" "valid_time (next_attempt now m b x j)"
  then have "fail s i w e now m b x = Inr (fst (store_job i (failed e now m b x j) s), failed e now m b x j)" by (auto simp: fail_Inr)
  with fail_inv [OF a(1) this] show "\<exists>s'. op_fail memory_ops s i w e now m b x = Inr (s', failed e now m b x j) \<and> outbox_inv s'
        \<and> map_of (items s') = (map_of (items s))(i \<mapsto> failed e now m b x j)"
    by (auto simp: memory_ops_def)
qed

text \<open>The table: claimed rows are found by id, and an update keeps ids and keys.\<close>

lemma sql_limit_subset: "set (sql_limit n xs) \<subseteq> set xs"
  by (auto simp: sql_limit_def dest: in_set_takeD)

lemma sqlite_claim_law:
  assumes inv: "table_inv t" and cl: "sql_claim t w now n stale = Inr (t', js)"
  shows "table_inv t' \<and> distinct (map j_id js) \<and> list_all (\<lambda>j. map_of t' (j_id j) = Some j \<and> held_by w j) js
      \<and> (\<forall>i. i \<notin> set (map j_id js) \<longrightarrow> map_of t' i = map_of t i)"
proof -
  let ?rows = "sql_ready t now stale n"
  have t': "t' = map (\<lambda>(i, j). (i, if i \<in> set (map fst ?rows) then claimed w now j else j)) t"
    and js: "js = map (\<lambda>(i, j). claimed w now j) ?rows"
    using cl by (auto simp: sql_claim_def guard_simps Let_def)
  have d: "distinct (map fst t)" and ids: "\<And>i j. (i, j) \<in> set t \<Longrightarrow> j_id j = i"
    using inv by (auto simp: table_inv_def list_all_iff)
  have sub: "set ?rows \<subseteq> set t"
    using sql_limit_subset by (fastforce simp: sql_ready_def)
  have keys: "map j_id js = map fst ?rows"
    unfolding js using ids sub by (auto simp: case_prod_beta)
  have "distinct (map fst (sort_key (\<lambda>(i, j). (j_next j, j_created j, i)) (filter (\<lambda>(i, j). is_ready now stale j) t)))"
    using d by (simp add: distinct_map_filter distinct_map inj_on_def)
  then have dk: "distinct (map fst ?rows)"
    by (simp add: sql_ready_def sql_limit_def take_map [symmetric])
  have it: "map_of t' i = map_option (\<lambda>j. if i \<in> set (map fst ?rows) then claimed w now j else j) (map_of t i)" for i
    unfolding t' by (rule map_of_map_values)
  have "map_of t' (j_id j) = Some j \<and> held_by w j" if "j \<in> set js" for j
  proof -
    from that js obtain i j0 where ij: "(i, j0) \<in> set ?rows" "j = claimed w now j0" by auto
    then have "map_of t i = Some j0" "j_id j0 = i" "i \<in> set (map fst ?rows)" using sub d ids by (force simp: map_of_eq_Some_iff)+
    with ij(2) it [of i] show ?thesis by simp
  qed
  moreover have "map_of t' i = map_of t i" if "i \<notin> set (map fst ?rows)" for i
    using it [of i] that by (simp add: option.map_ident)
  moreover have "table_inv t'"
    unfolding t' by (rule table_map_inv [OF inv]) (simp_all add: claimed_def)
  ultimately show ?thesis using dk keys by (simp add: list_all_iff)
qed

lemma settled_same_row:
  "j_id (completed now j) = j_id j" "j_key (completed now j) = j_key j"
  "j_id (failed e now m b x j) = j_id j" "j_key (failed e now m b x j) = j_key j"
  by (simp_all add: completed_def failed_def)

interpretation sqlite: outbox_backend sqlite_ops map_of table_inv
proof unfold_locales
  fix s s' :: jobs_table and w now n stale js
  assume "table_inv s" "op_claim sqlite_ops s w now n stale = Inr (s', js)"
  then show "table_inv s' \<and> distinct (map j_id js) \<and> list_all (\<lambda>j. map_of s' (j_id j) = Some j \<and> held_by w j) js
      \<and> (\<forall>i. i \<notin> set (map j_id js) \<longrightarrow> map_of s' i = map_of s i)"
    using sqlite_claim_law by (simp add: sqlite_ops_def)
next
  fix s :: jobs_table and i j w now
  assume a: "table_inv s" "map_of s i = Some j" "held_by w j" "valid_time now"
  then have "sql_complete s i w now = Inr (AList.update i (completed now j) s, completed now j)"
    by (simp add: sql_complete_def update_row_def)
  with table_update_inv [OF a(1,2) settled_same_row(1,2)]
  show "\<exists>s'. op_complete sqlite_ops s i w now = Inr (s', completed now j) \<and> table_inv s'
        \<and> map_of s' = (map_of s)(i \<mapsto> completed now j)"
    by (auto simp: sqlite_ops_def)
next
  fix s :: jobs_table and i j w now m b x e
  assume a: "table_inv s" "map_of s i = Some j" "held_by w j" "valid_time now" "valid_time (next_attempt now m b x j)"
  then have "sql_fail s i w e now m b x = Inr (AList.update i (failed e now m b x j) s, failed e now m b x j)"
    by (simp add: sql_fail_def update_row_def)
  with table_update_inv [OF a(1,2) settled_same_row(3,4)]
  show "\<exists>s'. op_fail sqlite_ops s i w e now m b x = Inr (s', failed e now m b x j) \<and> table_inv s'
        \<and> map_of s' = (map_of s)(i \<mapsto> failed e now m b x j)"
    by (auto simp: sqlite_ops_def)
qed

section \<open>Properties\<close>

text \<open>
  C13. Every worker run settles its whole batch, whatever the handler does and however the tasks
  interleave: once every task had two turns, the run has returned its tally without an error, the
  store is consistent, each claimed job has become exactly the completed or the failed version of
  itself, no other job changed, the tally adds up to the number of claimed jobs, and it counts the
  processed and the dead ones among them.
\<close>

theorem worker_run_settles:
  assumes "outbox_inv s" "times_ok p" "claim s (x_worker p) (x_now p) (x_concurrency p) (x_stale p) = Inr (s1, js)"
    and "fair (length js) sched" "processOutboxOnce memory_ops handler p sched w s = (st, r)"
  shows "r = Some (Inr (k_tally st)) \<and> outbox_inv (k_store st)
    \<and> list_all (\<lambda>j. \<exists>e. map_of (items (k_store st)) (j_id j) = Some (settled p e j)) js
    \<and> list_all (\<lambda>i. map_of (items (k_store st)) i = map_of (items s) i)
        (filter (\<lambda>i. i \<notin> set (map j_id js)) (map fst (items s)))
    \<and> t_processed (k_tally st) + t_retried (k_tally st) + t_dead (k_tally st) = length js
    \<and> t_processed (k_tally st) = length (filter (\<lambda>j. map_option j_status (map_of (items (k_store st)) (j_id j)) = Some Processed) js)
    \<and> t_dead (k_tally st) = length (filter (\<lambda>j. map_option j_status (map_of (items (k_store st)) (j_id j)) = Some Dead) js)"
proof -
  have cl: "op_claim memory_ops s (x_worker p) (x_now p) (x_concurrency p) (x_stale p) = Inr (s1, js)"
    using assms(3) by (simp add: memory_ops_def)
  note run = memory.run_settles [OF assms(1,2) cl assms(4,5)]
  show ?thesis using run(1,2,6,7,8) run(4,5) by (auto simp: list_all_iff)
qed

definition demo_tick :: tick_options where
  "demo_tick = \<lparr>x_now = 2000, x_max_attempts = 5, x_base = 1000, x_max = 900000, x_concurrency = 1,
     x_stale = 60000, x_worker = ''w''\<rparr>"

definition failing_handler :: "nat handler" where
  "failing_handler w e = (w + 1, Some (JsError ''no such record'' None (Some False)))"

lemma worker_run_settles_witness:
  "(case processOutboxOnce memory_ops failing_handler demo_tick [0, 0] 0 demo_outbox of (st, r) \<Rightarrow>
      outbox_inv (k_store st) \<and> r = Some (Inr \<lparr>t_processed = 0, t_retried = 0, t_dead = 1\<rparr>))"
proof -
  obtain st r where run: "processOutboxOnce memory_ops failing_handler demo_tick [0, 0] 0 demo_outbox = (st, r)"
    by (cases "processOutboxOnce memory_ops failing_handler demo_tick [0, 0] 0 demo_outbox")
  have "claim demo_outbox (x_worker demo_tick) (x_now demo_tick) (x_concurrency demo_tick) (x_stale demo_tick)
      = Inr (demo_claimed, [claimed ''w'' 2000 demo_job])"
    by code_simp
  from worker_run_settles [OF demo_outbox_inv(1) _ this _ run]
  have "outbox_inv (k_store st)"
    by (simp add: times_ok_def demo_tick_def valid_time_def fair_def)
  moreover have "snd (processOutboxOnce memory_ops failing_handler demo_tick [0, 0] 0 demo_outbox)
      = Some (Inr \<lparr>t_processed = 0, t_retried = 0, t_dead = 1\<rparr>)"
    by code_simp
  ultimately show ?thesis using run by simp
qed

text \<open>
  A worker on the SQLite table settles its batch in the same way: the run returns its tally, the
  table stays consistent, and each claimed row has become its completed or failed version.
\<close>

theorem worker_run_settles_sqlite:
  assumes "table_inv t" "times_ok p" "sql_claim t (x_worker p) (x_now p) (x_concurrency p) (x_stale p) = Inr (t1, js)"
    and "fair (length js) sched" "processOutboxOnce sqlite_ops handler p sched w t = (st, r)"
  shows "r = Some (Inr (k_tally st)) \<and> table_inv (k_store st)
    \<and> list_all (\<lambda>j. \<exists>e. map_of (k_store st) (j_id j) = Some (settled p e j)) js
    \<and> t_processed (k_tally st) + t_retried (k_tally st) + t_dead (k_tally st) = length js"
proof -
  have cl: "op_claim sqlite_ops t (x_worker p) (x_now p) (x_concurrency p) (x_stale p) = Inr (t1, js)"
    using assms(3) by (simp add: sqlite_ops_def)
  note run = sqlite.run_settles [OF assms(1,2) cl assms(4,5)]
  show ?thesis using run(1,2,6) run(4) by (auto simp: list_all_iff)
qed

definition demo_table :: jobs_table where
  "demo_table = fst (sql_enqueue [] (demo_outbox_event ''i1'') JUndef 1000)"

lemma worker_run_settles_sqlite_witness:
  "(case processOutboxOnce sqlite_ops failing_handler demo_tick [0, 0] 0 demo_table of (st, r) \<Rightarrow>
      table_inv (k_store st) \<and> r = Some (Inr \<lparr>t_processed = 0, t_retried = 0, t_dead = 1\<rparr>))"
proof -
  obtain st r where run: "processOutboxOnce sqlite_ops failing_handler demo_tick [0, 0] 0 demo_table = (st, r)"
    by (cases "processOutboxOnce sqlite_ops failing_handler demo_tick [0, 0] 0 demo_table")
  have inv: "table_inv demo_table" by code_simp
  have "sql_claim demo_table (x_worker demo_tick) (x_now demo_tick) (x_concurrency demo_tick) (x_stale demo_tick)
      = Inr (map (\<lambda>(i, j). (i, claimed ''w'' 2000 j)) demo_table, [claimed ''w'' 2000 (sqliteRow demo_job)])"
    by code_simp
  from worker_run_settles_sqlite [OF inv _ this _ run]
  have "table_inv (k_store st)"
    by (simp add: times_ok_def demo_tick_def valid_time_def fair_def)
  moreover have "snd (processOutboxOnce sqlite_ops failing_handler demo_tick [0, 0] 0 demo_table)
      = Some (Inr \<lparr>t_processed = 0, t_retried = 0, t_dead = 1\<rparr>)"
    by code_simp
  ultimately show ?thesis using run by simp
qed

end
