(* ===== verification/DateTime.thy ===== *)
theory DateTime
  imports Json
begin

text \<open>
  Dates as the code uses them: a date is a number of milliseconds since 1970-01-01T00:00:00Z,
  \<open>toISOString\<close> writes it and \<open>Date.parse\<close> reads the ISO form with a \<open>Z\<close> back. What
  \<open>Date.parse\<close> makes of other texts depends on the platform and is a parameter, \<open>legacy\<close>. The
  calendar is the proleptic Gregorian one, with the days of a month as V8 checks them (1 to 31).
  Years outside 0 to 9999 have a sign and six digits.
\<close>

section \<open>Fixed-width decimals\<close>

fun pad :: "nat \<Rightarrow> int \<Rightarrow> string" where
  "pad 0 n = []"
| "pad (Suc w) n = pad w (n div 10) @ [char_of (48 + n mod 10)]"

text \<open>The value of a row of digits.\<close>

definition decimal_value :: "string \<Rightarrow> int" where
  "decimal_value s = foldl (\<lambda>a c. 10 * a + (of_char c - 48)) 0 s"

section \<open>The calendar\<close>

definition leap :: "int \<Rightarrow> bool" where
  "leap y = (y mod 4 = 0 \<and> (y mod 100 \<noteq> 0 \<or> y mod 400 = 0))"

definition year_length :: "int \<Rightarrow> int" where
  "year_length y = (if leap y then 366 else 365)"

text \<open>Days from 0001-01-01 to the first day of a year.\<close>

definition days_before_year :: "int \<Rightarrow> int" where
  "days_before_year y = 365 * (y - 1) + (y - 1) div 4 - (y - 1) div 100 + (y - 1) div 400"

definition days_before_month :: "bool \<Rightarrow> int \<Rightarrow> int" where
  "days_before_month lp m =
     (if m \<le> 1 then 0 else if m = 2 then 31 else
      (if lp then 1 else 0) + (if m = 3 then 59 else if m = 4 then 90 else if m = 5 then 120
        else if m = 6 then 151 else if m = 7 then 181 else if m = 8 then 212 else if m = 9 then 243
        else if m = 10 then 273 else if m = 11 then 304 else 334))"

text \<open>The day number of 1970-01-01, and the year and day of the year of a day number.\<close>

definition epoch_day :: int where
  "epoch_day = 719162"

definition year_of_day :: "int \<Rightarrow> int \<times> int" where
  "year_of_day n =
    (let n400 = n div 146097; r400 = n mod 146097;
         n100 = min 3 (r400 div 36524); r100 = r400 - n100 * 36524;
         n4 = r100 div 1461; r4 = r100 mod 1461;
         n1 = min 3 (r4 div 365)
     in (400 * n400 + 100 * n100 + 4 * n4 + n1 + 1, r4 - n1 * 365))"

definition month_of_day :: "bool \<Rightarrow> int \<Rightarrow> int" where
  "month_of_day lp d = (let k = (if lp then 1 else 0) in
     if d < 31 then 1 else if d < 59 + k then 2 else if d < 90 + k then 3 else if d < 120 + k then 4
     else if d < 151 + k then 5 else if d < 181 + k then 6 else if d < 212 + k then 7
     else if d < 243 + k then 8 else if d < 273 + k then 9 else if d < 304 + k then 10
     else if d < 334 + k then 11 else 12)"

text \<open>The fields of a date: year, month, day, hour, minute, second, millisecond.\<close>

record date_fields =
  d_year :: int
  d_month :: int
  d_day :: int
  d_hour :: int
  d_minute :: int
  d_second :: int
  d_milli :: int

definition fields_of :: "int \<Rightarrow> date_fields" where
  "fields_of t =
    (let day = t div 86400000; ms = t mod 86400000; yd = year_of_day (day + epoch_day);
         m = month_of_day (leap (fst yd)) (snd yd)
     in \<lparr>d_year = fst yd, d_month = m, d_day = snd yd - days_before_month (leap (fst yd)) m + 1,
         d_hour = ms div 3600000, d_minute = ms div 60000 mod 60, d_second = ms div 1000 mod 60,
         d_milli = ms mod 1000\<rparr>)"

definition time_of :: "date_fields \<Rightarrow> int" where
  "time_of f = (days_before_year (d_year f) + days_before_month (leap (d_year f)) (d_month f) + d_day f - 1 - epoch_day) * 86400000
     + d_hour f * 3600000 + d_minute f * 60000 + d_second f * 1000 + d_milli f"

section \<open>The text form\<close>

definition year_string :: "int \<Rightarrow> string" where
  "year_string y = (if 0 \<le> y \<and> y \<le> 9999 then pad 4 y
     else (if y < 0 then ''-'' else ''+'') @ pad 6 \<bar>y\<bar>)"

definition iso_string :: "int \<Rightarrow> string" where
  "iso_string t = (let f = fields_of t in
     year_string (d_year f) @ ''-'' @ pad 2 (d_month f) @ ''-'' @ pad 2 (d_day f) @ ''T''
       @ pad 2 (d_hour f) @ '':'' @ pad 2 (d_minute f) @ '':'' @ pad 2 (d_second f) @ ''.''
       @ pad 3 (d_milli f) @ ''Z'')"

text \<open>\<open>shape pattern s\<close>: the text has a digit where the pattern has \<open>0\<close>, and the pattern's character elsewhere.\<close>

definition shape :: "string \<Rightarrow> string \<Rightarrow> bool" where
  "shape pat s = list_all2 (\<lambda>p c. if p = CHR ''0'' then is_digit c else c = p) pat s"

definition rest_pattern :: string where
  "rest_pattern = ''-00-00T00:00:00.000Z''"

definition in_range :: "date_fields \<Rightarrow> bool" where
  "in_range f = (1 \<le> d_month f \<and> d_month f \<le> 12 \<and> 1 \<le> d_day f \<and> d_day f \<le> 31 \<and> d_hour f \<le> 23
     \<and> d_minute f \<le> 59 \<and> d_second f \<le> 59)"

definition rest_fields :: "int \<Rightarrow> string \<Rightarrow> date_fields" where
  "rest_fields y s = \<lparr>d_year = y, d_month = decimal_value (take 2 (drop 1 s)), d_day = decimal_value (take 2 (drop 4 s)),
     d_hour = decimal_value (take 2 (drop 7 s)), d_minute = decimal_value (take 2 (drop 10 s)),
     d_second = decimal_value (take 2 (drop 13 s)), d_milli = decimal_value (take 3 (drop 16 s))\<rparr>"

definition parse_rest :: "int \<Rightarrow> string \<Rightarrow> int option" where
  "parse_rest y s =
    (if shape rest_pattern s \<and> in_range (rest_fields y s) then Some (time_of (rest_fields y s)) else None)"

definition parse_iso :: "string \<Rightarrow> int option" where
  "parse_iso s =
    (if shape ''0000'' (take 4 s) then parse_rest (decimal_value (take 4 s)) (drop 4 s)
     else if shape ''+000000'' (take 7 s) then parse_rest (decimal_value (take 6 (drop 1 s))) (drop 7 s)
     else if shape ''-000000'' (take 7 s) then parse_rest (- decimal_value (take 6 (drop 1 s))) (drop 7 s)
     else None)"

section \<open>Reading back what was written\<close>

lemma digit_int: "0 \<le> i \<Longrightarrow> i < 10 \<Longrightarrow> (of_char (char_of (48 + i :: int) :: char) :: int) = 48 + i"
  by (simp add: of_char_of)

lemma is_digit_int: "is_digit (char_of (48 + n mod 10 :: int))"
proof -
  have "int (of_char (char_of (48 + n mod 10) :: char)) = 48 + n mod 10"
    unfolding of_nat_of_char by (rule digit_int [OF pos_mod_sign pos_mod_bound]) simp_all
  moreover have "0 \<le> n mod 10" "n mod 10 < 10" by (rule pos_mod_sign pos_mod_bound, simp)+
  ultimately show ?thesis unfolding is_digit_code by linarith
qed

lemma length_pad [simp]: "length (pad w n) = w"
  by (induction w arbitrary: n) simp_all

lemma pad_digits: "list_all is_digit (pad w n)"
  by (induction w arbitrary: n) (simp_all add: is_digit_int)

lemma decimal_value_snoc: "decimal_value (s @ [c]) = 10 * decimal_value s + (of_char c - 48)"
  by (simp add: decimal_value_def)

lemma decimal_value_pad: "decimal_value (pad w n) = n mod 10 ^ w"
proof (induction w arbitrary: n)
  case (Suc w)
  have "10 * (n div 10 mod 10 ^ w) + n mod 10 = n mod 10 ^ Suc w"
    using zmod_zmult2_eq [of "10 ^ w" n 10] by simp
  with Suc show ?case by (simp add: decimal_value_snoc digit_int)
qed (simp add: decimal_value_def)

lemma decimal_value_small [simp]: "0 \<le> i \<Longrightarrow> i < 10 ^ w \<Longrightarrow> decimal_value (pad w i) = i"
  by (simp add: decimal_value_pad)

lemma shape_append: "length p = length s \<Longrightarrow> shape (p @ q) (s @ t) = (shape p s \<and> shape q t)"
  by (simp add: shape_def list_all2_append)

lemma shape_pad [simp]: "shape (replicate w CHR ''0'') (pad w n)"
  using pad_digits [of w n] by (simp add: shape_def list_all2_conv_all_nth list_all_length)

lemma year_of_day_fields:
  assumes "year_of_day n = (y, d)"
  shows "days_before_year y + d = n" "0 \<le> d" "d < year_length y"
proof -
  define a where "a = n div 146097"
  define r where "r = n mod 146097"
  define b where "b = min 3 (r div 36524)"
  define u where "u = r - b * 36524"
  define c where "c = u div 1461"
  define v where "v = u mod 1461"
  define e where "e = min 3 (v div 365)"
  have "year_of_day n = (400 * a + 100 * b + 4 * c + e + 1, v - e * 365)"
    unfolding year_of_day_def Let_def a_def b_def c_def e_def r_def u_def v_def by (rule refl)
  with assms have y: "y = 400 * a + 100 * b + 4 * c + e + 1" and d: "d = v - e * 365"
    by (simp_all only: prod.inject)
  have r: "0 \<le> r" "r < 146097" "n = 146097 * a + r" by (auto simp: r_def a_def)
  have b: "0 \<le> b" "b \<le> 3" "0 \<le> u" "u < 36525" "b < 3 \<Longrightarrow> u < 36524"
  proof -
    define k where "k = r div 36524"
    have "r = 36524 * k + r mod 36524" "0 \<le> r mod 36524" "r mod 36524 < 36524" by (simp_all add: k_def)
    moreover have "b = k \<and> k \<le> 3 \<or> b = 3 \<and> 3 < k" by (auto simp: b_def k_def min_def)
    ultimately show "0 \<le> b" "b \<le> 3" "0 \<le> u" "u < 36525" "b < 3 \<Longrightarrow> u < 36524"
      using r unfolding u_def by linarith+
  qed
  have u: "u = 1461 * c + v" "0 \<le> v" "v < 1461" "0 \<le> c" using b(3) by (simp_all add: c_def v_def pos_imp_zdiv_nonneg_iff)
  then have c: "0 \<le> c" "c \<le> 24" "0 \<le> v" "v < 1461" "u = 1461 * c + v" "b < 3 \<Longrightarrow> c = 24 \<Longrightarrow> v < 1460"
    using b by linarith+
  have e: "0 \<le> e" "e \<le> 3" "0 \<le> d" "d < 366" "e < 3 \<Longrightarrow> d < 365"
  proof -
    define k where "k = v div 365"
    have "v = 365 * k + v mod 365" "0 \<le> v mod 365" "v mod 365 < 365" by (simp_all add: k_def)
    moreover have "e = k \<and> k \<le> 3 \<or> e = 3 \<and> 3 < k" by (auto simp: e_def k_def min_def)
    ultimately show "0 \<le> e" "e \<le> 3" "0 \<le> d" "d < 366" "e < 3 \<Longrightarrow> d < 365"
      using c unfolding d by linarith+
  qed
  have q: "(y - 1) div 4 = 100 * a + 25 * b + c" "(y - 1) div 100 = 4 * a + b" "(y - 1) div 400 = a"
  proof -
    have div: "q = z div k" if "z = k * q + m" "0 \<le> m" "m < k" for z k q m :: int
      using that by simp
    show "(y - 1) div 4 = 100 * a + 25 * b + c"
      by (rule div [symmetric, where m = e]) (use e in \<open>simp_all add: y\<close>)
    show "(y - 1) div 100 = 4 * a + b"
      by (rule div [symmetric, where m = "4 * c + e"]) (use c e in \<open>simp_all add: y\<close>)
    show "(y - 1) div 400 = a"
      by (rule div [symmetric, where m = "100 * b + 4 * c + e"]) (use b c e in \<open>simp_all add: y\<close>)
  qed
  show "days_before_year y + d = n"
    unfolding days_before_year_def q using r(3) c(5) by (simp add: y d u_def)
  show "0 \<le> d" by (rule e)
  show "d < year_length y"
  proof (cases "d < 365")
    case False
    then have "e = 3" "d = 365" using e by linarith+
    then have v: "v = 1460" by (simp add: d)
    have m4: "y mod 4 = 0"
      by (rule int_mod_pos_eq [where q = "100 * a + 25 * b + c + 1"]) (use \<open>e = 3\<close> in \<open>simp_all add: y\<close>)
    have "leap y"
    proof (cases "c = 24")
      case True
      with c(6) v have "\<not> b < 3" by linarith
      with b(2) have "b = 3" by linarith
      have "y mod 400 = 0"
        by (rule int_mod_pos_eq [where q = "a + 1"]) (use \<open>e = 3\<close> \<open>b = 3\<close> True in \<open>simp_all add: y\<close>)
      with m4 show ?thesis by (simp add: leap_def)
    next
      case False
      have "y mod 100 = 4 * c + 4"
        by (rule int_mod_pos_eq [where q = "4 * a + b"]) (use \<open>e = 3\<close> False c(1,2) in \<open>simp_all add: y\<close>)
      with m4 c(1) show ?thesis by (simp add: leap_def)
    qed
    with e show ?thesis by (simp add: year_length_def)
  qed (simp add: year_length_def)
qed


lemma month_of_day_range:
  assumes "0 \<le> d" "d < 365 + (if lp then 1 else 0)"
  shows "1 \<le> month_of_day lp d" "month_of_day lp d \<le> 12"
    "1 \<le> d - days_before_month lp (month_of_day lp d) + 1" "d - days_before_month lp (month_of_day lp d) + 1 \<le> 31"
proof -
  define k where "k = (if lp then 1 else 0 :: int)"
  have k: "0 \<le> k" "k \<le> 1" by (simp_all add: k_def)
  define Q where "Q m = (1 \<le> m \<and> m \<le> 12 \<and> 1 \<le> d - days_before_month lp m + 1 \<and> d - days_before_month lp m + 1 \<le> 31)" for m
  have pick: "Q (if c then x else y)" if "c \<Longrightarrow> Q x" "\<not> c \<Longrightarrow> Q y" for c x y using that by simp
  have d: "0 \<le> d" "d < 365 + k" using assms by (simp_all add: k_def)
  have "Q (month_of_day lp d)"
    unfolding month_of_day_def Let_def k_def [symmetric]
    by (intro pick) (use d k in \<open>simp_all add: Q_def days_before_month_def k_def [symmetric]\<close>)
  then have "1 \<le> month_of_day lp d \<and> month_of_day lp d \<le> 12 \<and> 1 \<le> d - days_before_month lp (month_of_day lp d) + 1
      \<and> d - days_before_month lp (month_of_day lp d) + 1 \<le> 31" by (simp only: Q_def)
  then show "1 \<le> month_of_day lp d" "month_of_day lp d \<le> 12"
    "1 \<le> d - days_before_month lp (month_of_day lp d) + 1" "d - days_before_month lp (month_of_day lp d) + 1 \<le> 31"
    by blast+
qed

text \<open>Minutes and hours are counted from the seconds.\<close>

lemma clock_divs: "ms div 60000 = ms div 1000 div 60" "ms div 3600000 = ms div 1000 div 60 div 60" for ms :: int
proof -
  have m: "(60000 :: int) = 1000 * 60" "(3600000 :: int) = 1000 * 60 * 60" by simp_all
  show "ms div 60000 = ms div 1000 div 60" unfolding m(1) by (rule zdiv_zmult2_eq) simp
  show "ms div 3600000 = ms div 1000 div 60 div 60"
    unfolding m(2) by (subst zdiv_zmult2_eq, simp, subst zdiv_zmult2_eq, simp, rule refl)
qed

text \<open>Every date is given by its fields, and the fields are in their ranges.\<close>

lemma fields_of_time: "time_of (fields_of t) = t"
proof -
  obtain y d where yd: "year_of_day (t div 86400000 + epoch_day) = (y, d)"
    by (cases "year_of_day (t div 86400000 + epoch_day)")
  have ms: "ms div 3600000 * 3600000 + ms div 60000 mod 60 * 60000 + ms div 1000 mod 60 * 1000 + ms mod 1000 = ms" for ms :: int
  proof -
    show ?thesis unfolding clock_divs
      using div_mult_mod_eq [of ms 1000] div_mult_mod_eq [of "ms div 1000" 60] div_mult_mod_eq [of "ms div 1000 div 60" 60]
      by linarith
  qed
  have day: "days_before_year y + d - epoch_day = t div 86400000" using year_of_day_fields(1) [OF yd] by simp
  have "time_of (fields_of t) = (days_before_year y + d - epoch_day) * 86400000 + t mod 86400000"
    using ms [of "t mod 86400000"] by (simp add: time_of_def fields_of_def Let_def yd)
  also have "\<dots> = t" unfolding day by simp
  finally show ?thesis .
qed

lemma fields_of_range:
  "1 \<le> d_month (fields_of t)" "d_month (fields_of t) \<le> 12" "1 \<le> d_day (fields_of t)" "d_day (fields_of t) \<le> 31"
  "0 \<le> d_hour (fields_of t)" "d_hour (fields_of t) \<le> 23" "0 \<le> d_minute (fields_of t)" "d_minute (fields_of t) \<le> 59"
  "0 \<le> d_second (fields_of t)" "d_second (fields_of t) \<le> 59" "0 \<le> d_milli (fields_of t)" "d_milli (fields_of t) \<le> 999"
proof -
  obtain y d where yd: "year_of_day (t div 86400000 + epoch_day) = (y, d)"
    by (cases "year_of_day (t div 86400000 + epoch_day)")
  note d = year_of_day_fields(2,3) [OF yd]
  have "d < 365 + (if leap y then 1 else 0)" using d(2) by (simp add: year_length_def split: if_splits)
  note m = month_of_day_range [OF d(1) this]
  show "1 \<le> d_month (fields_of t)" "d_month (fields_of t) \<le> 12" "1 \<le> d_day (fields_of t)" "d_day (fields_of t) \<le> 31"
    using m by (simp_all add: fields_of_def Let_def yd)
  have "0 \<le> t mod 86400000" "t mod 86400000 < 86400000" by simp_all
  then show "0 \<le> d_hour (fields_of t)" "d_hour (fields_of t) \<le> 23" "0 \<le> d_minute (fields_of t)" "d_minute (fields_of t) \<le> 59"
    "0 \<le> d_second (fields_of t)" "d_second (fields_of t) \<le> 59" "0 \<le> d_milli (fields_of t)" "d_milli (fields_of t) \<le> 999"
    by (simp_all add: fields_of_def Let_def)
qed

text \<open>A date of the platform has a year of at most six digits.\<close>

lemma year_bound:
  assumes "\<bar>t\<bar> \<le> 8640000000000000"
  shows "\<bar>d_year (fields_of t)\<bar> < 1000000"
proof -
  obtain y d where yd: "year_of_day (t div 86400000 + epoch_day) = (y, d)"
    by (cases "year_of_day (t div 86400000 + epoch_day)")
  let ?n = "t div 86400000 + epoch_day" and ?z = "y - 1"
  have parts: "k * (z div k) \<le> z \<and> z < k * (z div k) + k" if "0 < k" for z k :: int
    using that by (smt (verit) mult_div_mod_eq pos_mod_bound pos_mod_sign)
  have "\<bar>?n\<bar> \<le> 101000000"
    using parts [of 86400000 t] assms unfolding abs_le_iff epoch_day_def by linarith
  moreover have "365 * ?z + ?z div 4 - ?z div 100 + ?z div 400 + d = ?n" "0 \<le> d" "d \<le> 366"
    using year_of_day_fields [OF yd] by (auto simp: days_before_year_def year_length_def split: if_splits)
  ultimately have "\<bar>y\<bar> < 1000000"
    using parts [of 4 ?z] parts [of 100 ?z] parts [of 400 ?z] by (simp add: abs_le_iff abs_less_iff)
  then show ?thesis by (simp add: fields_of_def Let_def yd)
qed

definition rest_string :: "date_fields \<Rightarrow> string" where
  "rest_string f = ''-'' @ pad 2 (d_month f) @ ''-'' @ pad 2 (d_day f) @ ''T''
       @ pad 2 (d_hour f) @ '':'' @ pad 2 (d_minute f) @ '':'' @ pad 2 (d_second f) @ ''.''
       @ pad 3 (d_milli f) @ ''Z''"

lemma iso_string_parts: "iso_string t = year_string (d_year (fields_of t)) @ rest_string (fields_of t)"
  by (simp add: iso_string_def rest_string_def Let_def)

lemma two_digits: "\<exists>a b. pad 2 n = [a, b] \<and> is_digit a \<and> is_digit b"
  using pad_digits [of 2 n] length_pad [of 2 n] by (cases "pad 2 n" rule: remdups_adj.cases) auto

lemma three_digits: "\<exists>a b c. pad 3 n = [a, b, c] \<and> is_digit a \<and> is_digit b \<and> is_digit c"
proof -
  have "length (pad 3 n) = 3" by simp
  then obtain a b c where "pad 3 n = [a, b, c]" by (auto simp: numeral_3_eq_3 length_Suc_conv)
  with pad_digits [of 3 n] show ?thesis by simp
qed

lemma parse_rest_string: "parse_rest (d_year (fields_of t)) (rest_string (fields_of t)) = Some t"
proof -
  let ?f = "fields_of t"
  note r = fields_of_range [of t]
  obtain m1 m2 d1 d2 h1 h2 n1 n2 s1 s2 l1 l2 l3 where
    p: "pad 2 (d_month ?f) = [m1, m2]" "pad 2 (d_day ?f) = [d1, d2]" "pad 2 (d_hour ?f) = [h1, h2]"
      "pad 2 (d_minute ?f) = [n1, n2]" "pad 2 (d_second ?f) = [s1, s2]" "pad 3 (d_milli ?f) = [l1, l2, l3]"
    and g: "list_all is_digit [m1, m2, d1, d2, h1, h2, n1, n2, s1, s2, l1, l2, l3]"
    using two_digits [of "d_month ?f"] two_digits [of "d_day ?f"] two_digits [of "d_hour ?f"]
      two_digits [of "d_minute ?f"] two_digits [of "d_second ?f"] three_digits [of "d_milli ?f"]
    by (elim exE conjE) simp
  have v: "decimal_value [m1, m2] = d_month ?f" "decimal_value [d1, d2] = d_day ?f" "decimal_value [h1, h2] = d_hour ?f"
      "decimal_value [n1, n2] = d_minute ?f" "decimal_value [s1, s2] = d_second ?f" "decimal_value [l1, l2, l3] = d_milli ?f"
    unfolding p [symmetric] using r by simp_all
  have rs: "rest_string ?f = [CHR ''-'', m1, m2, CHR ''-'', d1, d2, CHR ''T'', h1, h2, CHR '':'', n1, n2, CHR '':'', s1, s2, CHR ''.'', l1, l2, l3, CHR ''Z'']"
    by (simp add: rest_string_def p)
  have sh: "shape rest_pattern (rest_string ?f)" using g by (simp add: rs rest_pattern_def shape_def)
  have "rest_fields (d_year ?f) (rest_string ?f) = ?f"
    by (simp add: rest_fields_def rs v)
  moreover have "in_range ?f" using r by (simp add: in_range_def)
  ultimately show ?thesis using sh fields_of_time by (simp add: parse_rest_def)
qed

lemma shape_year: "shape ''0000'' (pad 4 n)" "shape ''000000'' (pad 6 n)"
proof -
  have "replicate 4 CHR ''0'' = ''0000''" "replicate 6 CHR ''0'' = ''000000''" by code_simp+
  then show "shape ''0000'' (pad 4 n)" "shape ''000000'' (pad 6 n)"
    using shape_pad [of 4 n] shape_pad [of 6 n] by simp_all
qed

lemma iso_roundtrip:
  assumes "\<bar>t\<bar> \<le> 8640000000000000"
  shows "parse_iso (iso_string t) = Some t"
proof -
  let ?y = "d_year (fields_of t)" and ?r = "rest_string (fields_of t)"
  note y = year_bound [OF assms]
  note pr = parse_rest_string [of t]
  have signed: "shape ''0000'' (c # s) = False" if "\<not> is_digit c" for c s
    using that by (simp add: shape_def)
  show ?thesis
  proof (cases "0 \<le> ?y \<and> ?y \<le> 9999")
    case True
    then show ?thesis
      using pr shape_year(1) by (simp add: parse_iso_def iso_string_parts year_string_def)
  next
    case False
    have plus: "shape ''+000000'' (take 7 (CHR ''+'' # pad 6 n @ ?r))" for n
      using shape_year(2) [of n] by (simp add: shape_def)
    have minus: "shape ''-000000'' (take 7 (CHR ''-'' # pad 6 n @ ?r))" "\<not> shape ''+000000'' (take 7 (CHR ''-'' # pad 6 n @ ?r))" for n
      using shape_year(2) [of n] by (simp_all add: shape_def)
    show ?thesis
    proof (cases "?y < 0")
      case True
      have "decimal_value (pad 6 (- ?y)) = - ?y" using True y by simp
      then show ?thesis
        using True False pr minus by (simp add: parse_iso_def iso_string_parts year_string_def signed is_digit_def)
    next
      case False
      then have "9999 < ?y" using \<open>\<not> (0 \<le> ?y \<and> ?y \<le> 9999)\<close> by simp
      then show ?thesis
        using y pr plus by (simp add: parse_iso_def iso_string_parts year_string_def signed is_digit_def)
    qed
  qed
qed


section \<open>The order of the texts\<close>

text \<open>Years follow one another without a gap.\<close>

lemma next_year: "days_before_year (y + 1) = days_before_year y + year_length y"
proof -
  have q: "y div k = (y - 1) div k + (if y mod k = 0 then 1 else 0)" if "1 < k" for k :: int
  proof (cases "y mod k = 0")
    case True
    then have y: "y = k * (y div k)" using mult_div_mod_eq [of k y] by linarith
    have "(y - 1) div k = y div k - 1"
    proof (rule int_div_pos_eq [where r = "k - 1"])
      show "y - 1 = k * (y div k - 1) + (k - 1)" using y unfolding right_diff_distrib by linarith
      show "0 \<le> k - 1" "k - 1 < k" using that by simp_all
    qed
    then show ?thesis using True by simp
  next
    case False
    have "(y - 1) div k = y div k"
    proof (rule int_div_pos_eq [where r = "y mod k - 1"])
      show "y - 1 = k * (y div k) + (y mod k - 1)" using mult_div_mod_eq [of k y] by linarith
      show "0 \<le> y mod k - 1" using False that pos_mod_sign [of k y] by linarith
      show "y mod k - 1 < k" using that pos_mod_bound [of k y] by linarith
    qed
    with False show ?thesis by simp
  qed
  have m: "y mod 4 = 0" if "y mod 100 = 0" using that by presburger
  have m': "y mod 100 = 0" if "y mod 400 = 0" using that by presburger
  define a b c where "a = (y mod 4 = 0)" and "b = (y mod 100 = 0)" and "c = (y mod 400 = 0)"
  have "days_before_year (y + 1) = days_before_year y + 365 + (if a then 1 else 0) - (if b then 1 else 0) + (if c then 1 else 0)"
  proof -
    have sum: "365 * y + x4 - x100 + x400 = 365 * (y - 1) + z4 - z100 + z400 + 365 + i4 - i100 + i400"
      if "x4 = z4 + i4" "x100 = z100 + i100" "x400 = z400 + i400" for x4 x100 x400 z4 z100 z400 i4 i100 i400 :: int
      using that by simp
    show ?thesis
      unfolding days_before_year_def add_diff_cancel_right' a_def b_def c_def by (rule sum) (rule q, simp)+
  qed
  moreover have "b \<longrightarrow> a" "c \<longrightarrow> b" using m m' by (simp_all add: a_def b_def c_def)
  moreover have "year_length y = 365 + (if a \<and> (\<not> b \<or> c) then 1 else 0)"
    by (simp add: year_length_def leap_def a_def b_def c_def)
  ultimately show ?thesis by (cases a; cases b; cases c) simp_all
qed

lemma later_year: "y < y' \<Longrightarrow> days_before_year y + year_length y \<le> days_before_year y'"
proof (induction y' rule: int_gr_induct [of y, consumes 1])
  case base
  show ?case by (simp add: next_year)
next
  case (step i)
  then show ?case by (simp add: next_year year_length_def split: if_splits)
qed

lemma month_of_day_mono:
  assumes "d \<le> d'"
  shows "month_of_day lp d \<le> month_of_day lp d'"
proof -
  have chain: "(if d < b then m else x) \<le> (if d' < b then m else y)" if "x \<le> y" "m \<le> x" for b m x y :: int
    using that assms by simp
  have low: "m \<le> (if d < b then n else x)" if "m \<le> n" "m \<le> x" for b m n x :: int
    using that by simp
  show ?thesis unfolding month_of_day_def Let_def
    by (rule chain | rule low | simp)+
qed

definition field_list :: "date_fields \<Rightarrow> int list" where
  "field_list f = [d_year f, d_month f, d_day f, d_hour f, d_minute f, d_second f, d_milli f]"

definition day_fields :: "int \<Rightarrow> int list" where
  "day_fields n = (let yd = year_of_day (n + epoch_day); m = month_of_day (leap (fst yd)) (snd yd)
     in [fst yd, m, snd yd - days_before_month (leap (fst yd)) m + 1])"

definition clock_fields :: "int \<Rightarrow> int list" where
  "clock_fields ms = [ms div 3600000, ms div 60000 mod 60, ms div 1000 mod 60, ms mod 1000]"

lemma field_list_parts: "field_list (fields_of t) = day_fields (t div 86400000) @ clock_fields (t mod 86400000)"
  unfolding field_list_def fields_of_def day_fields_def clock_fields_def Let_def date_fields.simps append.simps by (rule refl)

lemma lex_append:
  "length a = length b \<Longrightarrow> (a @ x < b @ y) = (a < b \<or> a = b \<and> x < (y :: 'a :: linorder list))"
  by (induction a b rule: list_induct2) auto

text \<open>The fields of dates are ordered as the dates are.\<close>

lemma clock_order:
  assumes "(a :: int) < b" "0 \<le> a"
  shows "clock_fields a < clock_fields b"
proof -
  have step: "x div k < y div k \<or> x div k = y div k \<and> x mod k < y mod k" if "x < y" "0 < k" for x y k :: int
  proof (cases "x div k = y div k")
    case True
    have "x = k * (y div k) + x mod k" "y = k * (y div k) + y mod k"
      using True mult_div_mod_eq [of k x] mult_div_mod_eq [of k y] by simp_all
    with that(1) True show ?thesis by linarith
  next
    case False
    with that zdiv_mono1 [of x y k] show ?thesis by linarith
  qed
  define a1 b1 where "a1 = a div 1000" and "b1 = b div 1000"
  define a2 b2 where "a2 = a1 div 60" and "b2 = b1 div 60"
  define a3 b3 where "a3 = a2 div 60" and "b3 = b2 div 60"
  have "a1 < b1 \<or> a1 = b1 \<and> a mod 1000 < b mod 1000" using step [of a b 1000] assms(1) by (simp add: a1_def b1_def)
  moreover have "a2 < b2 \<or> a2 = b2 \<and> a1 mod 60 < b1 mod 60" if "a1 < b1" using step [OF that, of 60] by (simp add: a2_def b2_def)
  moreover have "a3 < b3 \<or> a3 = b3 \<and> a2 mod 60 < b2 mod 60" if "a2 < b2" using step [OF that, of 60] by (simp add: a3_def b3_def)
  moreover have "a2 = b2" if "a1 = b1" using that by (simp add: a2_def b2_def)
  moreover have "a3 = b3" if "a2 = b2" using that by (simp add: a3_def b3_def)
  ultimately have "[a3, a2 mod 60, a1 mod 60, a mod 1000] < [b3, b2 mod 60, b1 mod 60, b mod 1000]"
    unfolding Cons_less_Cons by blast
  then show ?thesis unfolding clock_fields_def clock_divs a3_def b3_def a2_def b2_def a1_def b1_def .
qed

lemma field_order:
  assumes "t < t'"
  shows "field_list (fields_of t) < field_list (fields_of t')"
proof -
  let ?n = "t div 86400000" and ?n' = "t' div 86400000"
  obtain y d where yd: "year_of_day (?n + epoch_day) = (y, d)" by (cases "year_of_day (?n + epoch_day)")
  obtain y' d' where yd': "year_of_day (?n' + epoch_day) = (y', d')" by (cases "year_of_day (?n' + epoch_day)")
  note f = year_of_day_fields [OF yd] year_of_day_fields [OF yd']
  have le: "?n \<le> ?n'" using assms by (simp add: zdiv_mono1)
  show ?thesis
  proof (cases "?n = ?n'")
    case True
    have "t mod 86400000 < t' mod 86400000"
      using assms True div_mult_mod_eq [of t 86400000] div_mult_mod_eq [of t' 86400000] by linarith
    from clock_order [OF this] show ?thesis
      unfolding field_list_parts True lex_append [OF refl] by simp
  next
    case False
    have "y \<le> y'" using later_year [of y' y] f le by linarith
    moreover have "d < d'" if "y = y'" using that f le False by simp
    moreover have "month_of_day (leap y) d < month_of_day (leap y) d' \<or>
        month_of_day (leap y) d = month_of_day (leap y) d' \<and> d - days_before_month (leap y) (month_of_day (leap y) d)
          < d' - days_before_month (leap y) (month_of_day (leap y) d')" if "d < d'"
      using that month_of_day_mono [of d d' "leap y"] by auto
    ultimately have "y < y' \<or> y = y' \<and> (month_of_day (leap y) d < month_of_day (leap y') d' \<or>
        month_of_day (leap y) d = month_of_day (leap y') d' \<and> d - days_before_month (leap y) (month_of_day (leap y) d) + 1
          < d' - days_before_month (leap y') (month_of_day (leap y') d') + 1)"
      unfolding add_less_cancel_right using le_less by (metis (no_types))
    then have "day_fields ?n < day_fields ?n'"
      unfolding day_fields_def Let_def yd yd' fst_conv snd_conv Cons_less_Cons by blast
    moreover have "length (day_fields ?n) = length (day_fields ?n')" by (simp add: day_fields_def Let_def)
    ultimately show ?thesis unfolding field_list_parts by (simp only: lex_append) simp
  qed
qed

lemma pad_eq:
  assumes "0 \<le> a" "0 \<le> b" "a < 10 ^ w" "b < 10 ^ w"
  shows "pad w a = pad w b \<longleftrightarrow> a = b"
  using assms by (metis decimal_value_small)

lemma pad_order: "0 \<le> m \<Longrightarrow> 0 \<le> n \<Longrightarrow> m < 10 ^ w \<Longrightarrow> n < 10 ^ w \<Longrightarrow> pad w m < pad w n \<longleftrightarrow> m < n"
proof (induction w arbitrary: m n)
  case (Suc w)
  have d: "char_of (48 + a) < (char_of (48 + b) :: char) \<longleftrightarrow> a < b" if "0 \<le> a" "a < 10" "0 \<le> b" "b < 10" for a b :: int
  proof -
    have "char_of (48 + a) < (char_of (48 + b) :: char) \<longleftrightarrow> int (of_char (char_of (48 + a) :: char)) < int (of_char (char_of (48 + b) :: char))"
      by (simp only: less_char_def of_nat_less_iff)
    then show ?thesis unfolding of_nat_of_char digit_int [OF that(1,2)] digit_int [OF that(3,4)] by simp
  qed
  have bounds: "m div 10 < 10 ^ w" "n div 10 < 10 ^ w" "0 \<le> m div 10" "0 \<le> n div 10"
    using Suc.prems by (simp_all add: pos_imp_zdiv_nonneg_iff div_less_iff_less_mult)
  have "pad (Suc w) m < pad (Suc w) n \<longleftrightarrow> m div 10 < n div 10 \<or> m div 10 = n div 10 \<and> m mod 10 < n mod 10"
    using Suc.IH [OF bounds(3,4,1,2)] pad_eq [OF bounds(3,4,1,2)] by (simp add: lex_append d)
  also have "\<dots> \<longleftrightarrow> m < n"
    using mult_div_mod_eq [of 10 m] mult_div_mod_eq [of 10 n] pos_mod_bound [of 10 m] pos_mod_bound [of 10 n]
      pos_mod_sign [of 10 m] pos_mod_sign [of 10 n] by linarith
  finally show ?case .
qed simp

lemmas pad_int_order = pad_order pad_eq

lemma iso_order:
  assumes "t < t'" "0 \<le> d_year (fields_of t)" "d_year (fields_of t') \<le> 9999"
  shows "iso_string t < iso_string t'"
proof -
  let ?f = "fields_of t" and ?g = "fields_of t'"
  note o = field_order [OF assms(1)]
  then have y: "d_year ?f \<le> d_year ?g" by (auto simp: field_list_def)
  have two: "pad 2 a < pad 2 b \<longleftrightarrow> a < b" "pad 2 a = pad 2 b \<longleftrightarrow> a = b"
    if "0 \<le> a" "a \<le> 59" "0 \<le> b" "b \<le> 59" for a b
    using pad_int_order [of a b 2] that by simp_all
  have four: "pad 4 (d_year ?f) < pad 4 (d_year ?g) \<longleftrightarrow> d_year ?f < d_year ?g"
      "pad 4 (d_year ?f) = pad 4 (d_year ?g) \<longleftrightarrow> d_year ?f = d_year ?g"
    using pad_int_order [of "d_year ?f" "d_year ?g" 4] assms y by simp_all
  have three: "pad 3 (d_milli ?f) < pad 3 (d_milli ?g) \<longleftrightarrow> d_milli ?f < d_milli ?g"
    using pad_int_order(1) [of "d_milli ?f" "d_milli ?g" 3] fields_of_range [of t] fields_of_range [of t'] by simp
  have years: "year_string (d_year ?f) = pad 4 (d_year ?f)" "year_string (d_year ?g) = pad 4 (d_year ?g)"
    using assms y by (simp_all add: year_string_def)
  show ?thesis
    using o fields_of_range [of t] fields_of_range [of t']
    by (auto simp: iso_string_parts rest_string_def years lex_append four two three field_list_def)
qed


text \<open>The years 0 to 9999 in milliseconds.\<close>

definition four_digit_year :: "int \<Rightarrow> bool" where
  "four_digit_year t = (-62167219200000 \<le> t \<and> t < 253402300800000)"

lemma four_digit_year_fields:
  assumes "four_digit_year t"
  shows "0 \<le> d_year (fields_of t)" "d_year (fields_of t) \<le> 9999"
proof -
  obtain y d where yd: "year_of_day (t div 86400000 + epoch_day) = (y, d)"
    by (cases "year_of_day (t div 86400000 + epoch_day)")
  note f = year_of_day_fields [OF yd]
  have "- 719528 \<le> t div 86400000" "t div 86400000 \<le> 2932896"
    using assms zdiv_mono1 [of "-62167219200000" t 86400000] zdiv_mono1 [of t 253402300799999 86400000]
    by (simp_all add: four_digit_year_def)
  then have n: "-366 \<le> days_before_year y + d" "days_before_year y + d \<le> 3652058" using f(1) by (simp_all add: epoch_day_def)
  have "days_before_year 0 = -366" "days_before_year 10000 = 3652059" by (simp_all add: days_before_year_def)
  then have "\<not> y < 0" "\<not> 10000 \<le> y"
    using n f(2,3) later_year [of y 0] later_year [of 10000 y] by (auto simp: le_less year_length_def split: if_splits)
  then show "0 \<le> d_year (fields_of t)" "d_year (fields_of t) \<le> 9999" by (simp_all add: fields_of_def Let_def yd)
qed

text \<open>\<open>Date.parse\<close> with the platform's reading of other texts.\<close>

definition date_value :: "(string \<Rightarrow> int option) \<Rightarrow> string \<Rightarrow> int option" where
  "date_value legacy s = (case parse_iso s of Some t \<Rightarrow> Some t | None \<Rightarrow> legacy s)"

lemma iso_le_iff:
  assumes "four_digit_year t" "four_digit_year u"
  shows "iso_string t \<le> iso_string u \<longleftrightarrow> t \<le> u"
  using iso_order [of t u] iso_order [of u t] four_digit_year_fields [OF assms(1)] four_digit_year_fields [OF assms(2)]
  by (metis linorder_not_le order_less_imp_le linorder_cases order_refl)

end
