(* ===== verification/OutboxTime.thy ===== *)
theory OutboxTime
  imports OutboxSql DateTime
begin

text \<open>
  Times in the outbox (apps/api/src/reliability/outbox.js): the code keeps a job's times as ISO text,
  reads them back with \<open>epoch\<close>, and the SQLite statements compare and sort the text columns. The other
  theories of the outbox compute with milliseconds; the properties here justify it.
\<close>

definition nowIso :: "int \<Rightarrow> string res" where
  "nowIso t = guard [now_guard t] (Inr (iso_string t))"

definition epoch :: "(string \<Rightarrow> int option) \<Rightarrow> string \<Rightarrow> int option" where
  "epoch legacy s = date_value legacy s"

text \<open>The WHERE clause of the claim, on the text columns.\<close>

definition where_ready :: "string \<Rightarrow> string \<Rightarrow> job \<Rightarrow> bool" where
  "where_ready claimedAt staleBefore j =
    ((j_status j = Pending \<or> j_status j = Failed) \<and> iso_string (j_next j) \<le> claimedAt
     \<or> j_status j = Processing \<and> (case map_option iso_string (j_locked_at j) of None \<Rightarrow> False | Some l \<Rightarrow> l \<le> staleBefore))"

definition sql_ready_text :: "jobs_table \<Rightarrow> string \<Rightarrow> string \<Rightarrow> int \<Rightarrow> jobs_table" where
  "sql_ready_text t claimedAt staleBefore limit =
    sql_limit limit (sort_key (\<lambda>(i, j). (iso_string (j_next j), iso_string (j_created j), i))
      (filter (\<lambda>(i, j). where_ready claimedAt staleBefore j) t))"

definition four_digit_job :: "job \<Rightarrow> bool" where
  "four_digit_job j = (four_digit_year (j_next j) \<and> four_digit_year (j_created j)
     \<and> (case j_locked_at j of None \<Rightarrow> True | Some t \<Rightarrow> four_digit_year t))"

text \<open>Sorting depends on the order of the keys only.\<close>

lemma insort_key_cong:
  "(\<And>y. y \<in> set ys \<Longrightarrow> (f x \<le> f y) = (g x \<le> g y)) \<Longrightarrow> insort_key f x ys = insort_key g x ys"
  by (induction ys) auto

lemma sort_key_cong:
  "(\<And>x y. x \<in> set xs \<Longrightarrow> y \<in> set xs \<Longrightarrow> (f x \<le> f y) = (g x \<le> g y)) \<Longrightarrow> sort_key f xs = sort_key g xs"
proof (induction xs)
  case (Cons x xs)
  have "insort_key f x (sort_key f xs) = insort_key g x (sort_key f xs)"
    by (rule insort_key_cong) (simp add: Cons.prems)
  with Cons show ?case by simp
qed simp

lemma pair_order: "((a :: 'a :: linorder, b :: 'b :: linorder) \<le> (c, d)) = (a < c \<or> a = c \<and> b \<le> d)"
  by (simp add: less_eq_prod_def) (metis le_less)

lemma iso_order_eq:
  assumes "four_digit_year t" "four_digit_year u"
  shows "iso_string t < iso_string u \<longleftrightarrow> t < u" "iso_string t = iso_string u \<longleftrightarrow> t = u"
  using iso_le_iff [OF assms] iso_le_iff [OF assms(2,1)] by (auto simp: less_le_not_le intro: antisym)

lemma text_ready:
  assumes "four_digit_job j" "four_digit_year now" "four_digit_year (now - stale)"
  shows "where_ready (iso_string now) (iso_string (now - stale)) j = is_ready now stale j"
  using assms by (auto simp: where_ready_def is_ready_def four_digit_job_def iso_le_iff split: option.splits)

lemma text_selection:
  assumes "list_all (\<lambda>(i, j). four_digit_job j) t" "four_digit_year now" "four_digit_year (now - stale)"
  shows "sql_ready_text t (iso_string now) (iso_string (now - stale)) limit = sql_ready t now stale limit"
proof -
  have "filter (\<lambda>(i, j). where_ready (iso_string now) (iso_string (now - stale)) j) t = filter (\<lambda>(i, j). is_ready now stale j) t"
    using assms text_ready by (intro filter_cong) (auto simp: list_all_iff)
  moreover have "sort_key (\<lambda>(i, j). (iso_string (j_next j), iso_string (j_created j), i)) ts
      = sort_key (\<lambda>(i, j). (j_next j, j_created j, i)) ts" if "set ts \<subseteq> set t" for ts
  proof (rule sort_key_cong)
    fix x y assume "x \<in> set ts" "y \<in> set ts"
    then have "four_digit_job (snd x)" "four_digit_job (snd y)" using that assms(1) by (fastforce simp: list_all_iff)+
    then show "((case x of (i, j) \<Rightarrow> (iso_string (j_next j), iso_string (j_created j), i))
        \<le> (case y of (i, j) \<Rightarrow> (iso_string (j_next j), iso_string (j_created j), i)))
      = ((case x of (i, j) \<Rightarrow> (j_next j, j_created j, i)) \<le> (case y of (i, j) \<Rightarrow> (j_next j, j_created j, i)))"
      by (cases x; cases y) (simp only: prod.case snd_conv four_digit_job_def pair_order iso_order_eq)
  qed
  ultimately show ?thesis by (simp add: sql_ready_text_def sql_ready_def)
qed

section \<open>Properties\<close>

text \<open>
  A stored time reads back as the time it was written from: \<open>epoch(nowIso(t))\<close> is \<open>t\<close> for every
  date the platform can represent, before and after 1970 and with years of more than four digits.
\<close>

theorem epoch_reads_nowIso:
  assumes "nowIso t = Inr s"
  shows "epoch legacy s = Some t"
  using assms iso_roundtrip [of t] by (auto simp: nowIso_def guard_simps valid_time_def epoch_def date_value_def)

lemma epoch_reads_nowIso_witness:
  "epoch (\<lambda>_. None) ''2026-02-28T23:59:59.999Z'' = Some 1772323199999"
  by (rule epoch_reads_nowIso) code_simp

text \<open>
  C40. Comparing text is comparing times: while all times fall in the years 0 to 9999, the SQLite claim,
  which compares and sorts ISO text, selects the same rows in the same order as comparing milliseconds.
\<close>

theorem text_claim_selects:
  assumes "list_all (\<lambda>(i, j). four_digit_job j) t" "four_digit_year now" "four_digit_year (now - stale)"
    and "nowIso now = Inr claimedAt" "nowIso (now - stale) = Inr staleBefore"
  shows "sql_ready_text t claimedAt staleBefore limit = sql_ready t now stale limit"
  using text_selection [OF assms(1-3)] assms(4,5) by (auto simp: nowIso_def guard_simps)

lemma text_claim_selects_witness:
  "sql_ready_text [(''i1'', demo_job)] ''1970-01-01T00:00:02.000Z'' ''1969-12-31T23:59:02.000Z'' 1
     = sql_ready [(''i1'', demo_job)] 2000 60000 1"
proof (rule text_claim_selects)
  show "list_all (\<lambda>(i, j). four_digit_job j) [(''i1'', demo_job)]" by code_simp
  show "nowIso 2000 = Inr ''1970-01-01T00:00:02.000Z''" "nowIso (2000 - 60000) = Inr ''1969-12-31T23:59:02.000Z''"
    by code_simp+
qed (simp_all add: four_digit_year_def)

end
