(* ===== verification/JsNumber.thy ===== *)
theory JsNumber
  imports DateTime
begin

text \<open>
  Conversions to numbers and dates: \<open>Number(v)\<close>, \<open>Math.max\<close>, the order of numbers and \<open>new Date(v)\<close>.
  Numbers are exact rationals; a text whose value rounds to an infinite double is an infinity.
\<close>

section \<open>Reading numbers\<close>

definition double_limit :: rat where
  "double_limit = 2 ^ 1024 - 2 ^ 970"

definition finite_double :: "rat \<Rightarrow> jsval" where
  "finite_double r = (if \<bar>r\<bar> \<ge> double_limit then JInf (r < 0) else JNum r)"

lemma finite_double_code [code]:
  "finite_double r = (if \<bar>r\<bar> < 1000000000000000000000 then JNum r else if \<bar>r\<bar> < double_limit then JNum r else JInf (r < 0))"
proof -
  have "(1000000000000000000000 :: rat) \<le> 2 ^ 970" "(2 ^ 970 :: rat) * 2 \<le> 2 ^ 1024" by simp_all
  then have "(1000000000000000000000 :: rat) \<le> double_limit" unfolding double_limit_def by linarith
  then show ?thesis by (auto simp: finite_double_def)
qed

text \<open>The value of a decimal literal: digits, a fraction, an exponent.\<close>

definition scale10 :: "rat \<Rightarrow> int \<Rightarrow> rat" where
  "scale10 r e = (if 0 \<le> e then r * 10 ^ nat e else r / 10 ^ nat (- e))"

definition read_exponent :: "string \<Rightarrow> int option" where
  "read_exponent s = (case s of
     [] \<Rightarrow> Some 0
   | c # t \<Rightarrow>
      (let neg = (t \<noteq> [] \<and> hd t = CHR ''-''); ds = (if t \<noteq> [] \<and> hd t \<in> set ''+-'' then tl t else t)
       in if c \<in> set ''eE'' \<and> ds \<noteq> [] \<and> list_all is_digit ds
          then Some ((if neg then -1 else 1) * decimal_value ds) else None))"

definition read_decimal :: "string \<Rightarrow> jsval" where
  "read_decimal s =
    (let ip = takeWhile is_digit s; r = dropWhile is_digit s;
         fp = (if r \<noteq> [] \<and> hd r = CHR ''.'' then takeWhile is_digit (tl r) else []);
         r' = (if r \<noteq> [] \<and> hd r = CHR ''.'' then dropWhile is_digit (tl r) else r)
     in if ip = [] \<and> fp = [] then JNaN
        else (case read_exponent r' of
                None \<Rightarrow> JNaN
              | Some e \<Rightarrow> finite_double (scale10 (of_int (decimal_value (ip @ fp))) (e - int (length fp)))))"

definition js_negate :: "jsval \<Rightarrow> jsval" where
  "js_negate v = (case v of JNum n \<Rightarrow> JNum (- n) | JInf neg \<Rightarrow> JInf (\<not> neg) | _ \<Rightarrow> v)"

text \<open>Digits of the other radixes.\<close>

definition digit_of :: "char \<Rightarrow> nat" where
  "digit_of c = (let n = (of_char c :: nat) in
     if 48 \<le> n \<and> n \<le> 57 then n - 48 else if 97 \<le> n \<and> n \<le> 102 then n - 87 else if 65 \<le> n \<and> n \<le> 70 then n - 55 else 16)"

definition read_radix :: "nat \<Rightarrow> string \<Rightarrow> jsval" where
  "read_radix b s = (if s \<noteq> [] \<and> list_all (\<lambda>c. digit_of c < b) s
     then finite_double (of_int (foldl (\<lambda>a c. int b * a + int (digit_of c)) 0 s)) else JNaN)"

definition number_of_string :: "string \<Rightarrow> jsval" where
  "number_of_string s =
    (let t = js_trim s in
     if t = [] then JNum 0
     else if take 2 t \<in> {''0x'', ''0X''} then read_radix 16 (drop 2 t)
     else if take 2 t \<in> {''0o'', ''0O''} then read_radix 8 (drop 2 t)
     else if take 2 t \<in> {''0b'', ''0B''} then read_radix 2 (drop 2 t)
     else (let neg = (hd t = CHR ''-''); u = (if hd t \<in> set ''+-'' then tl t else t);
               v = (if u = ''Infinity'' then JInf False else read_decimal u)
           in if neg then js_negate v else v))"

definition js_number :: "jsval \<Rightarrow> jsval" where
  "js_number v = (case v of
     JUndef \<Rightarrow> JNaN | JNull \<Rightarrow> JNum 0 | JBool b \<Rightarrow> JNum (if b then 1 else 0)
   | JStr s \<Rightarrow> number_of_string s | JArr xs \<Rightarrow> number_of_string (js_string v)
   | JObj fs \<Rightarrow> JNaN | JFun f \<Rightarrow> JNaN | _ \<Rightarrow> v)"

text \<open>\<open>a < b\<close> on numbers; false when one is NaN.\<close>

definition num_less :: "jsval \<Rightarrow> jsval \<Rightarrow> bool" where
  "num_less a b = (case (a, b) of
     (JNum m, JNum n) \<Rightarrow> m < n | (JInf neg, JNum n) \<Rightarrow> neg | (JNum m, JInf neg) \<Rightarrow> \<not> neg
   | (JInf x, JInf y) \<Rightarrow> x \<and> \<not> y | _ \<Rightarrow> False)"

definition js_max :: "jsval \<Rightarrow> jsval \<Rightarrow> jsval" where
  "js_max a b = (let x = js_number a; y = js_number b in
     if x = JNaN \<or> y = JNaN then JNaN else if num_less x y then y else x)"

definition is_finite_number :: "jsval \<Rightarrow> bool" where
  "is_finite_number v = (case v of JNum n \<Rightarrow> True | _ \<Rightarrow> False)"

text \<open>\<open>Number.isSafeInteger\<close> and \<open>Number.isInteger\<close>.\<close>

definition is_integer :: "jsval \<Rightarrow> bool" where
  "is_integer v = (case v of JNum n \<Rightarrow> of_int \<lfloor>n\<rfloor> = n | _ \<Rightarrow> False)"

definition is_safe_integer :: "jsval \<Rightarrow> bool" where
  "is_safe_integer v = (is_integer v \<and> (case v of JNum n \<Rightarrow> \<bar>n\<bar> \<le> 9007199254740991 | _ \<Rightarrow> False))"

section \<open>Dates\<close>

text \<open>The time value of \<open>new Date(v)\<close>, none for an invalid date.\<close>

definition time_clip :: "int \<Rightarrow> int option" where
  "time_clip t = (if \<bar>t\<bar> \<le> 8640000000000000 then Some t else None)"

definition truncate :: "rat \<Rightarrow> int" where
  "truncate r = (if 0 \<le> r then \<lfloor>r\<rfloor> else \<lceil>r\<rceil>)"

definition js_date :: "(string \<Rightarrow> int option) \<Rightarrow> jsval \<Rightarrow> int option" where
  "js_date legacy v = (case v of
     JStr s \<Rightarrow> Option.bind (date_value legacy s) time_clip
   | JArr xs \<Rightarrow> Option.bind (date_value legacy (js_string v)) time_clip
   | JObj fs \<Rightarrow> Option.bind (date_value legacy (js_string v)) time_clip
   | JFun f \<Rightarrow> Option.bind (date_value legacy (js_string v)) time_clip
   | _ \<Rightarrow> (case js_number v of JNum n \<Rightarrow> time_clip (truncate n) | _ \<Rightarrow> None))"

lemma js_date_iso [simp]: "\<bar>t\<bar> \<le> 8640000000000000 \<Longrightarrow> js_date legacy (JStr (iso_string t)) = Some t"
  by (simp add: js_date_def date_value_def iso_roundtrip time_clip_def)

lemma js_date_range: "js_date legacy v = Some t \<Longrightarrow> \<bar>t\<bar> \<le> 8640000000000000"
  by (auto simp: js_date_def time_clip_def split: jsval.splits if_splits Option.bind_splits)

text \<open>A decimal literal of digits reads as its value.\<close>

lemma digit_facts:
  assumes "is_digit c"
  shows "\<not> js_ws c" "c \<noteq> CHR ''-''" "c \<noteq> CHR ''+''" "c \<noteq> CHR ''x''" "c \<noteq> CHR ''X''" "c \<noteq> CHR ''o''" "c \<noteq> CHR ''O''"
    "c \<noteq> CHR ''b''" "c \<noteq> CHR ''B''" "c \<noteq> CHR ''I''"
  using assms by (auto simp: is_digit_code js_ws_def)

lemma decimal_value_nonneg: "list_all is_digit s \<Longrightarrow> 0 \<le> decimal_value s"
proof -
  have "0 \<le> foldl (\<lambda>a c. 10 * a + (of_char c - 48)) a s" if "list_all is_digit s" "(0 :: int) \<le> a" for a s
    using that
  proof (induction s arbitrary: a)
    case (Cons c s)
    have "(of_char c :: int) = int (of_char c)" by (metis of_nat_of_char)
    with Cons.prems have "0 \<le> 10 * a + (of_char c - 48 :: int)" by (simp add: is_digit_code)
    with Cons show ?case by simp
  qed simp
  then show "list_all is_digit s \<Longrightarrow> 0 \<le> decimal_value s" by (simp add: decimal_value_def)
qed

lemma read_digits:
  assumes "s \<noteq> []" "list_all is_digit s"
  shows "read_decimal s = finite_double (of_int (decimal_value s))"
proof -
  have tw: "takeWhile is_digit s = s" "dropWhile is_digit s = []"
    using assms(2) by (simp_all add: takeWhile_eq_all_conv dropWhile_eq_Nil_conv list_all_iff)
  show ?thesis
    using assms(1) by (simp add: tw read_decimal_def read_exponent_def scale10_def Let_def)
qed

lemma trim_digits: "list_all is_digit s \<Longrightarrow> js_trim s = s"
proof -
  assume "list_all is_digit s"
  then have "\<forall>c \<in> set s. \<not> js_ws c" by (auto simp: list_all_iff digit_facts)
  then have "dropWhile js_ws s = s" "dropWhile js_ws (rev s) = rev s"
    by (auto simp: dropWhile_eq_self_iff hd_rev)
  then show ?thesis by (simp add: js_trim_def)
qed

lemma number_of_digits:
  assumes "s \<noteq> []" "list_all is_digit s"
  shows "number_of_string s = finite_double (of_int (decimal_value s))"
proof -
  obtain c cs where s: "s = c # cs" using assms(1) by (cases s) auto
  then show ?thesis
    using read_digits [OF assms] trim_digits [OF assms(2)] assms(2) digit_facts by (cases cs) (auto simp: number_of_string_def Let_def)
qed

text \<open>Text lookups in a frozen table literal: \<open>table[key]\<close>, with the inherited properties.\<close>

definition table_get :: "(string \<times> string) list \<Rightarrow> jsval \<Rightarrow> jsval" where
  "table_get table key = (case map_of table (js_string key) of
     Some v \<Rightarrow> JStr v
   | None \<Rightarrow> if js_string key = ''__proto__'' then JObj []
             else if js_string key \<in> set proto_keys then JFun (js_string key) else JUndef)"

lemma ok_value_Inr: "isl r = False \<Longrightarrow> r = Inr (ok_value r)"
  by (cases r) (simp_all add: ok_value_def)

end
