(* ===== verification/EmailMessages.thy ===== *)
theory EmailMessages
  imports JsNumber AuditTrail
begin

text \<open>
  Email messages (packages/email-delivery/src/index.js): the checks of text inputs, addresses and
  links, the three message templates with HTML escaping, the construction of a delivery, and the
  constructors of its outbox and audit events. The URL parser and the platform's reading of dates
  come with the environment.
\<close>

section \<open>Environment\<close>

record url =
  u_protocol :: string
  u_username :: string
  u_password :: string
  u_hash :: string
  u_href :: string

record mail_env =
  m_ctx :: ctx
  m_now :: int
  m_legacy :: "string \<Rightarrow> int option"
  m_url :: "string \<Rightarrow> url option"

abbreviation now_text :: "mail_env \<Rightarrow> jsval" where
  "now_text env \<equiv> JStr (iso_string (m_now env))"

section \<open>Constants\<close>

definition email_delivery_kinds :: "string list" where
  "email_delivery_kinds = [''activation'', ''report_ready'', ''portal_update'']"

definition email_delivery_statuses :: "string list" where
  "email_delivery_statuses = [''queued'', ''sending'', ''accepted'', ''delivered'', ''delayed'', ''failed'',
     ''bounced'', ''complained'', ''suppressed'']"

definition terminal_statuses :: "string list" where
  "terminal_statuses = [''delivered'', ''bounced'', ''complained'', ''suppressed'']"

definition webhook_status :: "(string \<times> string) list" where
  "webhook_status =
    [(''email.sent'', ''accepted''),
     (''email.delivered'', ''delivered''),
     (''email.delivery_delayed'', ''delayed''),
     (''email.failed'', ''failed''),
     (''email.bounced'', ''bounced''),
     (''email.complained'', ''complained''),
     (''email.suppressed'', ''suppressed''),
     (''email.unsubscribed'', ''suppressed'')]"

definition suppression_reasons :: "(string \<times> string) list" where
  "suppression_reasons =
    [(''email.bounced'', ''bounce''),
     (''email.complained'', ''complaint''),
     (''email.suppressed'', ''provider_suppression''),
     (''email.unsubscribed'', ''unsubscribe'')]"

section \<open>Text inputs\<close>

definition bad_control :: "char \<Rightarrow> bool" where
  "bad_control c = (let n = (of_char c :: nat) in n \<le> 8 \<or> n = 11 \<or> n = 12 \<or> 14 \<le> n \<and> n \<le> 31 \<or> n = 127)"

definition requiredString :: "jsval \<Rightarrow> string \<Rightarrow> nat \<Rightarrow> string res" where
  "requiredString value label maximum =
    (let normalized = js_trim (js_string value) in
     guard [(nonblank value, label @ '' is required.''),
            (\<not> (maximum < length normalized \<or> list_ex bad_control normalized), label @ '' is invalid or too long.'')]
       (Inr normalized))"

definition singleLineString :: "jsval \<Rightarrow> string \<Rightarrow> nat \<Rightarrow> string res" where
  "singleLineString value label maximum =
    and_then (requiredString value label maximum) (\<lambda>normalized.
    guard [(\<not> list_ex (\<lambda>c. c = CHR 0x0D \<or> c = CHR 0x0A) normalized, label @ '' must be a single line.'')]
      (Inr normalized))"

text \<open>\<open>/^[^\s@<>]+@[^\s@<>]+\.[^\s@<>]+$/\<close>: a local part, one at sign, and a domain with an inner dot.\<close>

definition address_char :: "char \<Rightarrow> bool" where
  "address_char c = (\<not> js_ws c \<and> c \<notin> set ''@<>'')"

definition address_shape :: "string \<Rightarrow> bool" where
  "address_shape s = (case split (CHR ''@'') s of
     [l, d] \<Rightarrow> l \<noteq> [] \<and> list_all address_char l \<and> list_all address_char d
       \<and> list_ex (\<lambda>i. d ! i = CHR ''.'') [1..<length d - 1]
   | _ \<Rightarrow> False)"

definition emailAddress :: "jsval \<Rightarrow> string \<Rightarrow> string res" where
  "emailAddress value label =
    and_then (requiredString value label 320) (\<lambda>s.
    guard [(address_shape (js_lower s), label @ '' is invalid.'')] (Inr (js_lower s)))"

definition normalizeEmailRecipient :: "jsval \<Rightarrow> string res" where
  "normalizeEmailRecipient value = emailAddress value ''Suppression recipient''"

definition httpUrl :: "mail_env \<Rightarrow> jsval \<Rightarrow> string \<Rightarrow> string res" where
  "httpUrl env value label =
    (case requiredString value label 2048 of
       Inl e \<Rightarrow> Inl (Err (label @ '' must be an absolute HTTP or HTTPS URL.''))
     | Inr s \<Rightarrow>
        (case m_url env s of
           None \<Rightarrow> Inl (Err (label @ '' must be an absolute HTTP or HTTPS URL.''))
         | Some u \<Rightarrow>
             guard [(u_protocol u \<in> {''http:'', ''https:''} \<and> u_username u = [] \<and> u_password u = [] \<and> u_hash u = [],
                     label @ '' must be an HTTP or HTTPS URL without credentials or a fragment.'')]
               (Inr (u_href u))))"

section \<open>Templates\<close>

definition escape_char :: "char \<Rightarrow> string" where
  "escape_char c = (if c = CHR ''&'' then ''&amp;'' else if c = CHR ''<'' then ''&lt;'' else if c = CHR ''>'' then ''&gt;''
     else if c = CHR 0x22 then ''&quot;'' else if c = CHR 0x27 then ''&#39;'' else [c])"

definition escapeHtml :: "string \<Rightarrow> string" where
  "escapeHtml s = concat (map escape_char s)"

record message =
  msg_subject :: string
  msg_text :: string
  msg_html :: string
  msg_url :: string

definition message_val :: "message \<Rightarrow> jsval" where
  "message_val m = JObj [(''subject'', JStr (msg_subject m)), (''text'', JStr (msg_text m)),
     (''html'', JStr (msg_html m)), (''actionUrl'', JStr (msg_url m))]"

text \<open>Subject, heading and summary of each kind.\<close>

definition template_parts :: "string \<Rightarrow> jsval \<Rightarrow> (string \<times> string \<times> string) res" where
  "template_parts kind input =
    (if kind = ''activation'' then
       and_then (singleLineString (fld input ''workspaceName'') ''Workspace name'' 200) (\<lambda>workspaceName.
       Inr (workspaceName @ '' access is ready'', ''Welcome to '' @ workspaceName,
            ''Your managed sign-in has been connected. Use the secure link below to open your workspace.''))
     else if kind = ''report_ready'' then
       and_then (singleLineString (fld input ''reportTitle'') ''Report title'' 200) (\<lambda>reportTitle.
       Inr (''Report ready: '' @ reportTitle, reportTitle,
            ''An approved report is available in your client portal.''))
     else
       and_then (singleLineString (fld input ''projectName'') ''Project name'' 200) (\<lambda>projectName.
       and_then (requiredString (fld input ''updateSummary'') ''Update summary'' 1000) (\<lambda>summary.
       Inr (''Project update: '' @ projectName, projectName, summary))))"

definition message_text :: "string \<Rightarrow> string \<Rightarrow> string \<Rightarrow> string" where
  "message_text recipientName summary actionUrl =
    ''Hello '' @ recipientName @ '','' @ [CHR 0x0A, CHR 0x0A] @ summary @ [CHR 0x0A, CHR 0x0A] @ ''Open Xygo: '' @ actionUrl
      @ [CHR 0x0A, CHR 0x0A] @ ''This is an automated operational message.''"

definition message_html :: "string \<Rightarrow> string \<Rightarrow> string \<Rightarrow> string \<Rightarrow> string" where
  "message_html recipientName heading summary actionUrl =
    ''<p>Hello '' @ escapeHtml recipientName @ '',</p>'' @ ''<h1>'' @ escapeHtml heading @ ''</h1>''
      @ ''<p>'' @ escapeHtml summary @ ''</p>''
      @ ''<p><a href='' @ [CHR 0x22] @ escapeHtml actionUrl @ [CHR 0x22] @ ''>Open Xygo</a></p>''
      @ ''<p>This is an automated operational message.</p>''"

text \<open>The input has its default \<open>{}\<close> when undefined; null has no properties to read.\<close>

definition renderEmailTemplate :: "mail_env \<Rightarrow> string \<Rightarrow> jsval \<Rightarrow> message res" where
  "renderEmailTemplate env kind input0 =
    (let input = default_arg input0 (JObj []) in
     guard [(kind \<in> set email_delivery_kinds, ''Unknown email delivery kind: '' @ kind)]
       (and_then (get_fld input ''recipientName'') (\<lambda>name.
        and_then (requiredString (coalesce name (JStr ''there'')) ''Recipient name'' 200) (\<lambda>recipientName.
        and_then (httpUrl env (fld input ''actionUrl'') ''Email actionUrl'') (\<lambda>actionUrl.
        and_then (template_parts kind input) (\<lambda>(subject, heading, summary).
        Inr \<lparr>msg_subject = subject, msg_text = message_text recipientName summary actionUrl,
             msg_html = message_html recipientName heading summary actionUrl, msg_url = actionUrl\<rparr>))))))"

section \<open>Deliveries\<close>

text \<open>\<open>v ? requiredString(v, ...) : null\<close>.\<close>

definition optionalString :: "jsval \<Rightarrow> string \<Rightarrow> nat \<Rightarrow> jsval res" where
  "optionalString v label maximum =
    (if truthy v then and_then (requiredString v label maximum) (\<lambda>s. Inr (JStr s)) else Inr JNull)"

definition createEmailDelivery :: "mail_env \<Rightarrow> jsval \<Rightarrow> jsval \<Rightarrow> jsval res" where
  "createEmailDelivery env input ident =
    and_then (requiredString (fld input ''tenantId'') ''Email delivery tenantId'' 200) (\<lambda>tenantId.
    and_then (requiredString (fld input ''kind'') ''Email delivery kind'' 100) (\<lambda>kind.
    guard [(kind \<in> set email_delivery_kinds, ''Unknown email delivery kind: '' @ kind)]
   (and_then (emailAddress (fld input ''recipientEmail'') ''Recipient email'') (\<lambda>recipientEmail.
    and_then (renderEmailTemplate env kind (fld input ''templateData'')) (\<lambda>message.
    and_then (requiredString (default_arg ident (JStr (ctx_uuid (m_ctx env) 0))) ''Email delivery id'' 200) (\<lambda>deliveryId.
    and_then (singleLineString
       (coalesce (fld input ''idempotencyKey'') (JStr (tenantId @ '':email:'' @ kind @ '':'' @ deliveryId)))
       ''Email delivery idempotency key'' 256) (\<lambda>idempotencyKey.
    and_then (optionalString (fld input ''recipientUserId'') ''Recipient user id'' 200) (\<lambda>recipientUserId.
    and_then (optionalString (fld input ''resourceType'') ''Resource type'' 100) (\<lambda>resourceType.
    and_then (optionalString (fld input ''resourceId'') ''Resource id'' 200) (\<lambda>resourceId.
    Inr (JObj
      [(''id'', JStr deliveryId),
       (''tenantId'', JStr tenantId),
       (''recipientUserId'', recipientUserId),
       (''recipientEmail'', JStr recipientEmail),
       (''kind'', JStr kind),
       (''resourceType'', resourceType),
       (''resourceId'', resourceId),
       (''idempotencyKey'', JStr idempotencyKey),
       (''status'', JStr ''queued''),
       (''attempts'', JNum 0),
       (''provider'', JNull),
       (''providerMessageId'', JNull),
       (''providerStatusAt'', JNull),
       (''lastError'', JNull),
       (''message'', message_val message),
       (''createdAt'', now_text env),
       (''updatedAt'', now_text env),
       (''acceptedAt'', JNull),
       (''deliveredAt'', JNull),
       (''staged'', JBool True)])))))))))))"

definition assertEmailDelivery :: "jsval \<Rightarrow> jsval res" where
  "assertEmailDelivery delivery =
    and_then (requiredString (fld delivery ''id'') ''Email delivery id'' 200) (\<lambda>_.
    and_then (requiredString (fld delivery ''tenantId'') ''Email delivery tenantId'' 200) (\<lambda>_.
    and_then (emailAddress (fld delivery ''recipientEmail'') ''Recipient email'') (\<lambda>_.
    guard [(one_of email_delivery_kinds (fld delivery ''kind''), ''Email delivery kind is invalid.''),
           (one_of email_delivery_statuses (fld delivery ''status''), ''Email delivery status is invalid.'')]
   (and_then (requiredString (fld delivery ''idempotencyKey'') ''Email delivery idempotency key'' 256) (\<lambda>_.
    Inr delivery)))))"

definition createEmailDeliveryOutboxEvent :: "mail_env \<Rightarrow> jsval \<Rightarrow> jsval res" where
  "createEmailDeliveryOutboxEvent env delivery =
    and_then (assertEmailDelivery delivery) (\<lambda>_.
    createOutboxEvent (m_ctx env) (JObj
      [(''id'', JStr (js_string (fld delivery ''id'') @ ''-outbox'')),
       (''eventType'', JStr ''email.delivery.requested''),
       (''aggregateType'', JStr ''email_delivery''),
       (''aggregateId'', fld delivery ''id''),
       (''tenantId'', fld delivery ''tenantId''),
       (''occurredAt'', fld delivery ''createdAt''),
       (''payload'', JObj [(''deliveryId'', fld delivery ''id''), (''kind'', fld delivery ''kind'')])]))"

text \<open>The options of an audit event; the suffix defaults to the action.\<close>

record audit_options =
  a_action :: jsval
  a_actorId :: jsval
  a_previousHash :: jsval
  a_signingKey :: jsval
  a_timestamp :: jsval
  a_suffix :: string

definition createEmailDeliveryAuditEvent :: "mail_env \<Rightarrow> jsval \<Rightarrow> audit_options \<Rightarrow> jsval res" where
  "createEmailDeliveryAuditEvent env delivery opts =
    and_then (assertEmailDelivery delivery) (\<lambda>_.
    createAuditEvent (m_ctx env) (JObj
      [(''eventId'', JStr (js_string (fld delivery ''id'') @ ''-'' @ a_suffix opts @ ''-audit'')),
       (''tenantId'', fld delivery ''tenantId''),
       (''actorType'', JStr ''system''),
       (''actorId'', a_actorId opts),
       (''action'', a_action opts),
       (''resourceType'', JStr ''email_delivery''),
       (''resourceId'', fld delivery ''id''),
       (''afterStateRef'', fld delivery ''status''),
       (''correlationId'', fld delivery ''id''),
       (''requestId'', fld delivery ''id''),
       (''timestamp'', a_timestamp opts),
       (''previousHash'', a_previousHash opts),
       (''signingKey'', a_signingKey opts)]))"

text \<open>Two deliveries carry the same intent when they agree on everything that would be sent.\<close>

definition same_message :: "jsval \<Rightarrow> jsval \<Rightarrow> bool" where
  "same_message l r = (truthy l \<and> truthy r \<and> strict_eq (fld l ''subject'') (fld r ''subject'')
     \<and> strict_eq (fld l ''text'') (fld r ''text'') \<and> strict_eq (fld l ''html'') (fld r ''html'')
     \<and> strict_eq (fld l ''actionUrl'') (fld r ''actionUrl''))"

definition emailDeliveryIntentMatches :: "jsval \<Rightarrow> jsval \<Rightarrow> bool" where
  "emailDeliveryIntentMatches left right =
    (truthy left \<and> truthy right \<and> strict_eq (fld left ''id'') (fld right ''id'')
     \<and> strict_eq (fld left ''tenantId'') (fld right ''tenantId'')
     \<and> strict_eq (coalesce (fld left ''recipientUserId'') JNull) (coalesce (fld right ''recipientUserId'') JNull)
     \<and> strict_eq (fld left ''recipientEmail'') (fld right ''recipientEmail'')
     \<and> strict_eq (fld left ''kind'') (fld right ''kind'')
     \<and> strict_eq (coalesce (fld left ''resourceType'') JNull) (coalesce (fld right ''resourceType'') JNull)
     \<and> strict_eq (coalesce (fld left ''resourceId'') JNull) (coalesce (fld right ''resourceId'') JNull)
     \<and> strict_eq (fld left ''idempotencyKey'') (fld right ''idempotencyKey'')
     \<and> same_message (fld left ''message'') (fld right ''message''))"

end
