(* ===== verification/EmailDelivery.thy ===== *)
theory EmailDelivery
  imports EmailMessages
begin

text \<open>
  The life of an email delivery (packages/email-delivery/src/index.js): the transitions the worker
  makes, the status reports of the provider's webhook, the suppression list, the local sink and the
  provider client, the check of webhook signatures, and the health summaries. The webhook library and
  the network are parameters.
\<close>

section \<open>Suppressions\<close>

text \<open>The webhook's time as a date: the text, then its time value.\<close>

definition webhook_time :: "mail_env \<Rightarrow> jsval \<Rightarrow> int res" where
  "webhook_time env event =
    and_then (requiredString (fld event ''created_at'') ''Webhook created_at'' 100) (\<lambda>s.
    case js_date (m_legacy env) (JStr s) of
      None \<Rightarrow> Inl (Err ''Webhook created_at is invalid.'')
    | Some t \<Rightarrow> Inr t)"

definition createEmailSuppressionFromWebhook :: "mail_env \<Rightarrow> jsval \<Rightarrow> jsval \<Rightarrow> jsval \<Rightarrow> jsval \<Rightarrow> jsval res" where
  "createEmailSuppressionFromWebhook env delivery event webhookId provider0 =
    (let provider = default_arg provider0 (JStr ''resend'');
         reason = table_get suppression_reasons (fld event ''type'') in
     and_then (assertEmailDelivery delivery) (\<lambda>_.
     if \<not> truthy reason then Inr JNull
     else guard [(strict_eq (fld (fld event ''data'') ''email_id'') (fld delivery ''providerMessageId''),
                  ''Email suppression webhook provider message does not match delivery.'')]
      (and_then (webhook_time env event) (\<lambda>occurredAt.
       and_then (normalizeEmailRecipient (fld delivery ''recipientEmail'')) (\<lambda>normalizedRecipient.
       and_then (requiredString provider ''Email suppression provider'' 100) (\<lambda>prov.
       and_then (requiredString webhookId ''Email suppression provider event id'' 200) (\<lambda>eventId.
       Inr (JObj
        [(''id'', JStr (''email-suppression-'' @ ctx_sha256 (m_ctx env)
             (js_string (fld delivery ''tenantId'') @ [CHR 0x00] @ normalizedRecipient))),
         (''tenantId'', fld delivery ''tenantId''),
         (''normalizedRecipient'', JStr normalizedRecipient),
         (''recipientUserId'', coalesce (fld delivery ''recipientUserId'') JNull),
         (''reason'', reason),
         (''source'', JStr ''provider_webhook''),
         (''provider'', JStr prov),
         (''providerEventId'', JStr eventId),
         (''providerMessageId'', fld delivery ''providerMessageId''),
         (''deliveryId'', fld delivery ''id''),
         (''resourceType'', coalesce (fld delivery ''resourceType'') JNull),
         (''resourceId'', coalesce (fld delivery ''resourceId'') JNull),
         (''createdAt'', JStr (iso_string occurredAt)),
         (''updatedAt'', JStr (iso_string occurredAt)),
         (''staged'', JBool True)]))))))))"

text \<open>\<open>a < b\<close> on dates: false when one is invalid.\<close>

definition date_less :: "int option \<Rightarrow> int option \<Rightarrow> bool" where
  "date_less a b = (case (a, b) of (Some s, Some t) \<Rightarrow> s < t | _ \<Rightarrow> False)"

definition mergeEmailSuppression :: "mail_env \<Rightarrow> jsval \<Rightarrow> jsval \<Rightarrow> jsval res" where
  "mergeEmailSuppression env existing incoming =
    (if \<not> truthy existing then Inr incoming
     else guard [(strict_eq (fld existing ''tenantId'') (fld incoming ''tenantId'')
                   \<and> strict_eq (fld existing ''normalizedRecipient'') (fld incoming ''normalizedRecipient''),
                  ''Email suppression identity cannot be changed.'')]
      (Inr (if date_less (js_date (m_legacy env) (fld incoming ''updatedAt'')) (js_date (m_legacy env) (fld existing ''updatedAt''))
            then existing
            else spread existing (own_fields incoming @
              [(''id'', fld existing ''id''), (''createdAt'', fld existing ''createdAt'')]))))"

section \<open>Transitions made by the worker\<close>

definition is_terminal :: "jsval \<Rightarrow> bool" where
  "is_terminal delivery = one_of terminal_statuses (fld delivery ''status'')"

text \<open>\<open>Math.max(delivery.attempts ?? 0, Number(attempt) || 1)\<close>.\<close>

definition next_attempts :: "jsval \<Rightarrow> jsval \<Rightarrow> jsval" where
  "next_attempts delivery attempt =
    (let n = js_number attempt in js_max (coalesce (fld delivery ''attempts'') (JNum 0)) (if truthy n then n else JNum 1))"

definition markEmailDeliverySending :: "mail_env \<Rightarrow> jsval \<Rightarrow> jsval \<Rightarrow> jsval res" where
  "markEmailDeliverySending env delivery attempt =
    and_then (assertEmailDelivery delivery) (\<lambda>_.
    Inr (if is_terminal delivery then delivery else spread delivery
      [(''status'', JStr ''sending''),
       (''attempts'', next_attempts delivery attempt),
       (''lastError'', JNull),
       (''updatedAt'', now_text env)]))"

definition markEmailDeliveryAccepted :: "mail_env \<Rightarrow> jsval \<Rightarrow> jsval \<Rightarrow> jsval \<Rightarrow> jsval res" where
  "markEmailDeliveryAccepted env delivery provider providerMessageId =
    and_then (assertEmailDelivery delivery) (\<lambda>_.
    if is_terminal delivery then Inr delivery
    else and_then (requiredString provider ''Email provider'' 100) (\<lambda>prov.
         and_then (requiredString providerMessageId ''Provider message id'' 200) (\<lambda>messageId.
         Inr (spread delivery
           [(''status'', JStr ''accepted''),
            (''provider'', JStr prov),
            (''providerMessageId'', JStr messageId),
            (''providerStatusAt'', now_text env),
            (''lastError'', JNull),
            (''acceptedAt'', coalesce (fld delivery ''acceptedAt'') (now_text env)),
            (''updatedAt'', now_text env)]))))"

definition bounded_error_text :: "js_error \<Rightarrow> string" where
  "bounded_error_text e = take 2000 (map (\<lambda>c. if (of_char c :: nat) \<le> 31 \<or> c = CHR 0x7F then CHR '' '' else c) (err_message e))"

definition markEmailDeliveryFailed :: "mail_env \<Rightarrow> jsval \<Rightarrow> js_error \<Rightarrow> jsval \<Rightarrow> jsval res" where
  "markEmailDeliveryFailed env delivery e attempt =
    and_then (assertEmailDelivery delivery) (\<lambda>_.
    Inr (if is_terminal delivery then delivery else spread delivery
      [(''status'', JStr ''failed''),
       (''attempts'', next_attempts delivery attempt),
       (''lastError'', JStr (bounded_error_text e)),
       (''updatedAt'', now_text env)]))"

definition markEmailDeliverySuppressed :: "mail_env \<Rightarrow> jsval \<Rightarrow> jsval \<Rightarrow> jsval \<Rightarrow> jsval res" where
  "markEmailDeliverySuppressed env delivery suppression attempt =
    and_then (assertEmailDelivery delivery) (\<lambda>_.
    if is_terminal delivery then Inr delivery
    else if \<not> strict_eq (fld suppression ''tenantId'') (fld delivery ''tenantId'')
    then Inl (Err ''Email suppression does not match delivery recipient and tenant.'')
    else and_then (normalizeEmailRecipient (fld suppression ''normalizedRecipient'')) (\<lambda>recipient.
      guard [(strict_eq (JStr recipient) (fld delivery ''recipientEmail''),
              ''Email suppression does not match delivery recipient and tenant.'')]
       (and_then (requiredString (fld suppression ''reason'') ''Email suppression reason'' 100) (\<lambda>reason.
        Inr (spread delivery
         [(''status'', JStr ''suppressed''),
          (''attempts'', next_attempts delivery attempt),
          (''providerStatusAt'', now_text env),
          (''lastError'', JStr (''recipient suppressed: '' @ reason)),
          (''updatedAt'', now_text env)])))))"

section \<open>Reports of the provider\<close>

definition emailWebhookStatus :: "jsval \<Rightarrow> jsval" where
  "emailWebhookStatus eventType = coalesce (table_get webhook_status eventType) JNull"

definition applyEmailWebhookStatus :: "mail_env \<Rightarrow> jsval \<Rightarrow> jsval \<Rightarrow> jsval res" where
  "applyEmailWebhookStatus env delivery event =
    (let status = table_get webhook_status (fld event ''type'') in
     and_then (assertEmailDelivery delivery) (\<lambda>_.
     if \<not> truthy status then Inr delivery
     else guard [(strict_eq (fld (fld event ''data'') ''email_id'') (fld delivery ''providerMessageId''),
                  ''Email webhook provider message does not match delivery.'')]
      (and_then (webhook_time env event) (\<lambda>occurredAt.
       if truthy (fld delivery ''providerStatusAt'')
          \<and> date_less (Some occurredAt) (js_date (m_legacy env) (fld delivery ''providerStatusAt''))
       then Inr delivery
       else let timestamp = JStr (iso_string occurredAt) in
         Inr (spread delivery
          [(''status'', status),
           (''providerStatusAt'', timestamp),
           (''deliveredAt'', if strict_eq status (JStr ''delivered'') then timestamp else fld delivery ''deliveredAt''),
           (''lastError'', if one_of [''failed'', ''bounced'', ''complained'', ''suppressed''] status
              then JStr (take 2000 (js_string (coalesce (fld (fld (fld event ''data'') ''bounce'') ''message'') (fld event ''type''))))
              else fld delivery ''lastError''),
           (''updatedAt'', timestamp)])))))"

section \<open>The local sink\<close>

record sink_item =
  si_messageId :: string
  si_key :: string
  si_delivery :: jsval
  si_acceptedAt :: string

text \<open>The memory of a sink and, with a path, the file it writes after each send.\<close>

record sink =
  sk_memory :: "sink_item list"
  sk_path :: bool
  sk_file :: "sink_item list option"

definition createLocalEmailSink :: "bool \<Rightarrow> sink_item list option \<Rightarrow> sink" where
  "createLocalEmailSink hasPath file =
    \<lparr>sk_memory = (if hasPath then (case file of None \<Rightarrow> [] | Some xs \<Rightarrow> xs) else []), sk_path = hasPath, sk_file = file\<rparr>"

definition writeSink :: "sink \<Rightarrow> sink" where
  "writeSink s = (if sk_path s then s\<lparr>sk_file := Some (sk_memory s)\<rparr> else s)"

definition sink_conflict :: js_error where
  "sink_conflict = JsError ''Email sink idempotency key is bound to a different delivery.''
     (Some ''email_idempotency_conflict'') (Some False)"

definition send_result :: "string \<Rightarrow> bool \<Rightarrow> jsval" where
  "send_result i dup = JObj [(''id'', JStr i), (''duplicate'', JBool dup)]"

text \<open>\<open>{ idempotencyKey = delivery.idempotencyKey }\<close>: read from the delivery only when not given.\<close>

definition send_key :: "jsval \<Rightarrow> jsval \<Rightarrow> jsval res" where
  "send_key key0 delivery = (if key0 = JUndef then get_fld delivery ''idempotencyKey'' else Inr key0)"

definition sink_send :: "mail_env \<Rightarrow> sink \<Rightarrow> jsval \<Rightarrow> jsval \<Rightarrow> (sink \<times> jsval) res" where
  "sink_send env s delivery key0 =
    and_then (send_key key0 delivery) (\<lambda>idempotencyKey.
    and_then (assertEmailDelivery delivery) (\<lambda>_.
    case idempotencyKey of
      JStr key \<Rightarrow>
       (case find (\<lambda>item. si_key item = key) (sk_memory s) of
          Some existing \<Rightarrow>
            if \<not> emailDeliveryIntentMatches (si_delivery existing) delivery then Inl sink_conflict
            else Inr (s, send_result (si_messageId existing) True)
        | None \<Rightarrow>
            let messageId = ''sink-'' @ take 24 (ctx_sha256 (m_ctx env) key) in
            Inr (writeSink (s\<lparr>sk_memory := sk_memory s @
                   [\<lparr>si_messageId = messageId, si_key = key, si_delivery = delivery, si_acceptedAt = iso_string (m_now env)\<rparr>]\<rparr>),
                 send_result messageId False))
    | _ \<Rightarrow> Inl type_error))"

definition sink_checkReadiness :: "sink \<Rightarrow> jsval" where
  "sink_checkReadiness s = JObj [(''ready'', JBool True), (''provider'', JStr ''sink''),
     (''stored'', JNum (of_nat (length (sk_memory s))))]"

section \<open>The provider client\<close>

text \<open>The configuration of a provider, and the answer of the network: status and JSON body, if readable.\<close>

record resend_config =
  rc_apiUrl :: string
  rc_apiKey :: string
  rc_webhookSecret :: string
  rc_from :: string
  rc_replyTo :: "string option"
  rc_timeout :: int

record http_response =
  hr_status :: int
  hr_body :: "jsval option"

definition resend_headers :: "resend_config \<Rightarrow> jsval \<Rightarrow> jsval" where
  "resend_headers cfg idempotencyKey = JObj
    [(''authorization'', JStr (''Bearer '' @ rc_apiKey cfg)), (''content-type'', JStr ''application/json''),
     (''idempotency-key'', idempotencyKey)]"

definition resend_body :: "mail_env \<Rightarrow> resend_config \<Rightarrow> jsval \<Rightarrow> jsval" where
  "resend_body env cfg delivery = JObj
    ([(''from'', JStr (rc_from cfg)), (''to'', JArr [fld delivery ''recipientEmail'']),
      (''subject'', fld (fld delivery ''message'') ''subject''), (''text'', fld (fld delivery ''message'') ''text''),
      (''html'', fld (fld delivery ''message'') ''html'')]
     @ (case rc_replyTo cfg of None \<Rightarrow> [] | Some r \<Rightarrow> [(''reply_to'', JStr r)])
     @ [(''tags'', JArr [JObj [(''name'', JStr ''tenant''),
            (''value'', JStr (take 24 (ctx_sha256 (m_ctx env) (js_string (fld delivery ''tenantId'')))))],
          JObj [(''name'', JStr ''kind''), (''value'', fld delivery ''kind'')]])])"

definition resend_failure :: "http_response \<Rightarrow> jsval \<Rightarrow> js_error" where
  "resend_failure r payload =
    (let status = int_string (hr_status r) in
     JsError (''Resend delivery failed with HTTP '' @ status @ '': '' @ js_string (coalesce (fld payload ''message'') (JStr ''provider error'')))
       (Some (js_string (coalesce (fld payload ''name'') (JStr (''email_provider_http_'' @ status)))))
       (Some (if hr_status r = 409 then strict_eq (fld payload ''name'') (JStr ''concurrent_idempotent_requests'')
              else hr_status r = 429 \<or> 500 \<le> hr_status r)))"

definition resend_send :: "mail_env \<Rightarrow> resend_config \<Rightarrow> (jsval \<Rightarrow> jsval \<Rightarrow> http_response res) \<Rightarrow> jsval \<Rightarrow> jsval \<Rightarrow> jsval res" where
  "resend_send env cfg fetch delivery key0 =
    and_then (send_key key0 delivery) (\<lambda>idempotencyKey.
    and_then (assertEmailDelivery delivery) (\<lambda>_.
    and_then (get_fld (fld delivery ''message'') ''subject'') (\<lambda>_.
    and_then (fetch (resend_headers cfg idempotencyKey) (resend_body env cfg delivery)) (\<lambda>response.
    let payload = (case hr_body response of None \<Rightarrow> JObj [] | Some v \<Rightarrow> v) in
    if \<not> (200 \<le> hr_status response \<and> hr_status response \<le> 299) \<or> \<not> truthy (fld payload ''id'')
    then Inl (resend_failure response payload)
    else Inr (JObj [(''id'', fld payload ''id''), (''duplicate'', JBool False)])))))"

section \<open>Configuration\<close>

text \<open>The environment's strings; a missing variable is undefined.\<close>

definition integerSetting :: "jsval \<Rightarrow> int \<Rightarrow> int \<Rightarrow> int \<Rightarrow> int res" where
  "integerSetting value defaultValue minimum maximum =
    (let raw = (if nullish value \<or> value = JStr [] then int_string defaultValue else js_string value);
         parsed = number_of_string raw in
     guard [(raw \<noteq> [] \<and> list_all is_digit raw \<and> is_safe_integer parsed
               \<and> \<not> num_less parsed (JNum (of_int minimum)) \<and> \<not> num_less (JNum (of_int maximum)) parsed,
             ''Email request timeout must be an integer between '' @ int_string minimum @ '' and '' @ int_string maximum @ ''.'')]
       (Inr (decimal_value raw)))"

datatype email_config = SinkConfig string | ResendConfig resend_config

definition emailConfigurationFromEnvironment :: "mail_env \<Rightarrow> (string \<Rightarrow> string) \<Rightarrow> jsval \<Rightarrow> email_config res" where
  "emailConfigurationFromEnvironment env resolve vars =
    (let transport = js_lower (js_trim (js_string (coalesce (fld vars ''XYGO_EMAIL_TRANSPORT'') (JStr ''sink'')))) in
     if transport = ''sink''
     then (case coalesce (fld vars ''XYGO_EMAIL_SINK_PATH'') (JStr ''infrastructure/staged-data/email-sink.json'') of
             JStr p \<Rightarrow> Inr (SinkConfig (resolve p)) | _ \<Rightarrow> Inl type_error)
     else guard [(transport = ''resend'', ''XYGO_EMAIL_TRANSPORT must be sink or resend.''),
                 (js_lower (js_string (coalesce (fld vars ''STAGED_MODE'') (JStr ''true''))) = ''false'',
                  ''Resend email transport requires STAGED_MODE=false; staged/local mode must use the sink.'')]
      (and_then (httpUrl env (fld vars ''XYGO_EMAIL_RESEND_API_URL'') ''XYGO_EMAIL_RESEND_API_URL'') (\<lambda>apiUrl.
       and_then (requiredString (fld vars ''XYGO_EMAIL_RESEND_API_KEY'') ''XYGO_EMAIL_RESEND_API_KEY'' 500) (\<lambda>apiKey.
       and_then (requiredString (fld vars ''XYGO_EMAIL_WEBHOOK_SECRET'') ''XYGO_EMAIL_WEBHOOK_SECRET'' 500) (\<lambda>secret.
       and_then (requiredString (fld vars ''XYGO_EMAIL_FROM'') ''XYGO_EMAIL_FROM'' 320) (\<lambda>sender.
       and_then (if truthy (fld vars ''XYGO_EMAIL_REPLY_TO'')
                 then and_then (emailAddress (fld vars ''XYGO_EMAIL_REPLY_TO'') ''XYGO_EMAIL_REPLY_TO'') (\<lambda>r. Inr (Some r))
                 else Inr None) (\<lambda>replyTo.
       and_then (integerSetting (fld vars ''XYGO_EMAIL_REQUEST_TIMEOUT_MS'') 10000 1000 30000) (\<lambda>timeout.
       Inr (ResendConfig \<lparr>rc_apiUrl = apiUrl, rc_apiKey = apiKey, rc_webhookSecret = secret, rc_from = sender,
          rc_replyTo = replyTo, rc_timeout = timeout\<rparr>)))))))))"

section \<open>Webhook signatures\<close>

text \<open>The verification of the signature library: secret, payload, and the three headers.\<close>

type_synonym signature_check = "string \<Rightarrow> string \<Rightarrow> string \<times> string \<times> string \<Rightarrow> jsval res"

text \<open>Whether a number of seconds lies more than five minutes from now, or is no finite number.\<close>

definition outside_window :: "int \<Rightarrow> jsval \<Rightarrow> bool" where
  "outside_window now seconds = (case seconds of JNum n \<Rightarrow> 300000 < \<bar>of_int now - n * 1000\<bar> | _ \<Rightarrow> True)"

definition verifyResendWebhook :: "mail_env \<Rightarrow> signature_check \<Rightarrow> jsval \<Rightarrow> jsval \<Rightarrow> jsval \<Rightarrow> (string \<times> jsval) res" where
  "verifyResendWebhook env check rawBody headers webhookSecret =
    (case rawBody of
       JStr payload \<Rightarrow>
         guard [(payload \<noteq> [] \<and> int (length payload) \<le> 262144,
                 ''Email webhook body must be a non-empty string no larger than 262144 characters.'')]
          (and_then (requiredString (fld headers ''svix-id'') ''svix-id'' 200) (\<lambda>i.
           and_then (requiredString (fld headers ''svix-timestamp'') ''svix-timestamp'' 100) (\<lambda>timestamp.
           and_then (requiredString (fld headers ''svix-signature'') ''svix-signature'' 1000) (\<lambda>signature.
           guard [(\<not> outside_window (m_now env) (number_of_string timestamp),
                   ''Email webhook timestamp is outside the allowed replay window.'')]
            (and_then (requiredString webhookSecret ''Email webhook secret'' 500) (\<lambda>secret.
             and_then (check secret payload (i, timestamp, signature)) (\<lambda>event.
             Inr (i, event))))))))
     | _ \<Rightarrow> Inl (Err ''Email webhook body must be a non-empty string no larger than 262144 characters.''))"

section \<open>Health\<close>

record email_health =
  eh_ready :: bool
  eh_counts :: "string \<Rightarrow> nat"
  eh_failures :: nat
  eh_stale :: nat
  eh_backlog :: nat

record email_health_options =
  eo_now :: int
  eo_stale_after :: int
  eo_max_failed :: int
  eo_require_healthy :: bool

definition email_stale :: "mail_env \<Rightarrow> email_health_options \<Rightarrow> jsval \<Rightarrow> bool" where
  "email_stale env opts delivery =
    (one_of [''queued'', ''sending'', ''delayed'', ''failed''] (fld delivery ''status'')
     \<and> (case js_date (m_legacy env) (fld delivery ''updatedAt'') of
          None \<Rightarrow> True | Some t \<Rightarrow> t \<le> eo_now opts - eo_stale_after opts))"

definition count_deliveries :: "jsval list \<Rightarrow> string \<Rightarrow> nat" where
  "count_deliveries ds st = length (filter (\<lambda>d. fld d ''status'' = JStr st) ds)"

definition summarizeEmailDeliveryHealth :: "mail_env \<Rightarrow> jsval list \<Rightarrow> email_health_options \<Rightarrow> email_health res" where
  "summarizeEmailDeliveryHealth env deliveries opts =
    and_then (map_res assertEmailDelivery deliveries) (\<lambda>_.
    let counts = count_deliveries deliveries;
        stale = length (filter (email_stale env opts) deliveries);
        failures = counts ''failed'' + counts ''bounced'' + counts ''complained'';
        health = \<lparr>eh_ready = (stale = 0 \<and> int failures \<le> eo_max_failed opts), eh_counts = counts,
          eh_failures = failures, eh_stale = stale,
          eh_backlog = counts ''queued'' + counts ''sending'' + counts ''delayed'' + counts ''failed''\<rparr>
    in if eo_require_healthy opts \<and> \<not> eh_ready health
       then Inl (JsError ''Email delivery health exceeded configured thresholds.'' (Some ''email_delivery_unhealthy'') None)
       else Inr health)"

text \<open>Heartbeats, latest first; the order of heartbeats with an unreadable time is left as it is.\<close>

definition seen_after :: "mail_env \<Rightarrow> jsval \<Rightarrow> jsval \<Rightarrow> bool" where
  "seen_after env a b = date_less (js_date (m_legacy env) (fld b ''lastSeenAt'')) (js_date (m_legacy env) (fld a ''lastSeenAt''))"

fun insert_heartbeat :: "mail_env \<Rightarrow> jsval \<Rightarrow> jsval list \<Rightarrow> jsval list" where
  "insert_heartbeat env h [] = [h]"
| "insert_heartbeat env h (x # xs) = (if seen_after env x h then x # insert_heartbeat env h xs else h # x # xs)"

definition latest_first :: "mail_env \<Rightarrow> jsval list \<Rightarrow> jsval list" where
  "latest_first env hs = foldr (insert_heartbeat env) hs []"

definition heartbeat_age :: "mail_env \<Rightarrow> int \<Rightarrow> jsval \<Rightarrow> int option" where
  "heartbeat_age env now h = map_option (\<lambda>t. max 0 (now - t)) (js_date (m_legacy env) (fld h ''lastSeenAt''))"

definition heartbeat_fresh :: "mail_env \<Rightarrow> int \<Rightarrow> int \<Rightarrow> jsval \<Rightarrow> bool" where
  "heartbeat_fresh env now staleAfterMs h =
    (strict_eq (fld h ''status'') (JStr ''ready'')
     \<and> (case heartbeat_age env now h of None \<Rightarrow> False | Some a \<Rightarrow> a \<le> staleAfterMs))"

record worker_health =
  wh_ready :: bool
  wh_instance :: jsval
  wh_status :: jsval
  wh_lastSeenAt :: jsval
  wh_age :: "int option"

definition summarizeWorkerHeartbeat :: "mail_env \<Rightarrow> jsval list \<Rightarrow> int \<Rightarrow> int \<Rightarrow> bool \<Rightarrow> worker_health res" where
  "summarizeWorkerHeartbeat env heartbeats now staleAfterMs requireHealthy =
    (let ordered = latest_first env (filter (\<lambda>h. strict_eq (fld h ''serviceName'') (JStr ''worker'')) heartbeats);
         active = (case find (heartbeat_fresh env now staleAfterMs) ordered of
                     Some h \<Rightarrow> h | None \<Rightarrow> (case ordered of [] \<Rightarrow> JNull | h # hs \<Rightarrow> h));
         health = \<lparr>wh_ready = (truthy active \<and> heartbeat_fresh env now staleAfterMs active),
           wh_instance = coalesce (fld active ''instanceId'') JNull,
           wh_status = coalesce (fld active ''status'') (JStr ''missing''),
           wh_lastSeenAt = coalesce (fld active ''lastSeenAt'') JNull,
           wh_age = (if truthy active then heartbeat_age env now active else None)\<rparr>
     in if requireHealthy \<and> \<not> wh_ready health
        then Inl (JsError ''Worker heartbeat is missing, stale, or unhealthy.'' (Some ''worker_heartbeat_unhealthy'') None)
        else Inr health)"

end
