(* ===== verification/EmailLife.thy ===== *)
theory EmailLife
  imports EmailDelivery
begin

text \<open>
  What holds of email deliveries over their life: created deliveries are valid and render only escaped
  input, every transition keeps a delivery valid and what identifies it, settled deliveries are left
  alone by the worker, and reports of the provider can arrive in any order.
\<close>

section \<open>Text\<close>

lemma lower_char_code: "\<not> is_upper c \<Longrightarrow> lower_char c = c"
  by (simp add: lower_char_def)

lemma lower_char_table: "lower_char c = c \<or> is_upper c \<and> (of_char (lower_char c) :: nat) = of_char c + 32"
proof (cases c)
  case (Char b0 b1 b2 b3 b4 b5 b6 b7)
  then show ?thesis
    by (cases b5) (auto simp: lower_char_def is_upper_code)
qed

lemma lower_not_upper: "\<not> is_upper (lower_char c)"
proof (cases c)
  case (Char b0 b1 b2 b3 b4 b5 b6 b7)
  then show ?thesis by (cases b5) (auto simp: lower_char_def is_upper_code)
qed

lemma js_lower_idem [simp]: "js_lower (js_lower s) = js_lower s"
  by (simp add: js_lower_def lower_char_code lower_not_upper)

lemma char_eqI: "(of_char c :: nat) = of_char d \<Longrightarrow> c = d"
  by (metis char_of_char)

lemma lower_keeps_ws [simp]: "js_ws (lower_char c) = js_ws c"
proof (cases "lower_char c = c")
  case False
  then have u: "is_upper c" and v: "(of_char (lower_char c) :: nat) = of_char c + 32"
    using lower_char_table [of c] by auto
  have ws: "js_ws d \<Longrightarrow> (of_char d :: nat) \<le> 32 \<or> (of_char d :: nat) = 160" for d
    by (auto simp: js_ws_def)
  have "65 \<le> (of_char c :: nat)" "(of_char c :: nat) \<noteq> 160" "(of_char c :: nat) \<noteq> 128"
    using u by (auto simp: is_upper_def Let_def)
  then have "\<not> js_ws c" "\<not> js_ws (lower_char c)" using ws [of c] ws [of "lower_char c"] v by auto
  then show ?thesis by simp
qed simp

lemma lower_keeps_control [simp]: "bad_control (lower_char c) = bad_control c"
proof (cases "lower_char c = c")
  case False
  then have "is_upper c" "(of_char (lower_char c) :: nat) = of_char c + 32" using lower_char_table [of c] by auto
  then show ?thesis by (auto simp: is_upper_def Let_def bad_control_def)
qed simp

lemma js_lower_trim: "js_trim (js_lower s) = js_lower (js_trim s)"
proof -
  have "js_ws \<circ> lower_char = js_ws" by (rule ext) simp
  then show ?thesis by (simp add: js_trim_def js_lower_def rev_map dropWhile_map)
qed

lemma js_trim_idem [simp]: "js_trim (js_trim s) = js_trim s"
proof -
  have d: "dropWhile P (dropWhile P xs) = dropWhile P xs" for P and xs :: string
    by (induction xs) simp_all
  have keep: "dropWhile P (rev (dropWhile P (rev (dropWhile P xs)))) = rev (dropWhile P (rev (dropWhile P xs)))"
    for P and xs :: string
  proof (cases "dropWhile P (rev (dropWhile P xs)) = []")
    case False
    let ?y = "dropWhile P xs"
    have "?y \<noteq> []" using False by (metis dropWhile.simps(1) rev.simps(1))
    then have "\<not> P (hd ?y)" by (rule hd_dropWhile)
    obtain zs where "rev ?y = zs @ dropWhile P (rev ?y)" by (metis takeWhile_dropWhile_id)
    then have "?y = rev (dropWhile P (rev ?y)) @ rev zs" by (metis rev_append rev_rev_ident)
    then have "hd (rev (dropWhile P (rev ?y))) = hd ?y" using False by (metis hd_append2 rev_is_Nil_conv)
    with \<open>\<not> P (hd ?y)\<close> show ?thesis using False by (metis dropWhile_eq_self_iff)
  next
    case True
    then show ?thesis by (simp only: True rev.simps dropWhile.simps)
  qed
  show ?thesis unfolding js_trim_def keep by (simp add: d)
qed

text \<open>A checked text passes the same check again.\<close>

lemma requiredString_Inr:
  "requiredString v label m = Inr s \<longleftrightarrow> nonblank v \<and> s = js_trim (js_string v) \<and> length s \<le> m \<and> \<not> list_ex bad_control s"
  by (auto simp: requiredString_def guard_simps Let_def)

lemma requiredString_nonblank: "requiredString v label m = Inr s \<Longrightarrow> s \<noteq> [] \<and> js_trim s = s"
  by (auto simp: requiredString_Inr nonblank_def split: jsval.splits)

lemma requiredString_again:
  "requiredString v label m = Inr s \<Longrightarrow> m \<le> n \<Longrightarrow> requiredString (JStr s) label' n = Inr s"
  using requiredString_nonblank [of v label m s] by (auto simp: requiredString_Inr nonblank_def)

lemma singleLine_required: "singleLineString v label m = Inr s \<Longrightarrow> requiredString v label m = Inr s"
  by (auto simp: singleLineString_def guard_simps)

lemma emailAddress_again: "emailAddress v label = Inr s \<Longrightarrow> emailAddress (JStr s) label' = Inr s"
  by (auto simp: emailAddress_def guard_simps requiredString_Inr nonblank_def js_lower_trim split: jsval.splits)
    (simp_all add: js_lower_def list_ex_iff)

section \<open>Rendered messages\<close>

lemma escape_counts:
  "count_list (escapeHtml s) (CHR ''<'') = 0" "count_list (escapeHtml s) (CHR ''>'') = 0"
  "count_list (escapeHtml s) (CHR 0x22) = 0"
  by (induction s) (simp_all add: escapeHtml_def escape_char_def)

lemma count_list_append [simp]: "count_list (xs @ ys) c = count_list xs c + count_list ys c"
  by (induction xs) simp_all

lemma message_html_counts:
  "count_list (message_html n h s u) (CHR ''<'') = 12" "count_list (message_html n h s u) (CHR ''>'') = 12"
  "count_list (message_html n h s u) (CHR 0x22) = 2"
  by (simp_all add: message_html_def escape_counts)

definition single_line :: "string \<Rightarrow> bool" where
  "single_line s = (\<not> list_ex (\<lambda>c. c = CHR 0x0D \<or> c = CHR 0x0A) s)"

lemma singleLine_line: "singleLineString v label m = Inr s \<Longrightarrow> single_line s"
  by (auto simp: singleLineString_def guard_simps single_line_def)

lemma template_subject:
  assumes "template_parts kind input = Inr (subject, heading, summary)"
  shows "single_line subject"
proof -
  have step: "single_line (c # s) \<longleftrightarrow> c \<noteq> CHR 0x0D \<and> c \<noteq> CHR 0x0A \<and> single_line s" for c s
    by (auto simp: single_line_def)
  have app: "single_line (a @ b) \<longleftrightarrow> single_line a \<and> single_line b" for a b by (auto simp: single_line_def)
  have fixed: "single_line '' access is ready''" "single_line []" by code_simp+
  show ?thesis
    using assms unfolding template_parts_def
    by (auto simp: guard_simps app step fixed singleLine_line split: if_splits)
qed

section \<open>Created deliveries\<close>

lemma rendered:
  assumes "renderEmailTemplate env kind input = Inr m"
  shows "\<exists>n h s. msg_html m = message_html n h s (msg_url m)" "single_line (msg_subject m)"
    "kind \<in> set email_delivery_kinds"
proof -
  obtain n u p where p: "template_parts kind (default_arg input (JObj [])) = Inr p"
    and m: "m = \<lparr>msg_subject = fst p, msg_text = message_text n (snd (snd p)) u,
             msg_html = message_html n (fst (snd p)) (snd (snd p)) u, msg_url = u\<rparr>"
    and k: "kind \<in> set email_delivery_kinds"
    using assms unfolding renderEmailTemplate_def Let_def guard_simps and_then_Inr
    by (elim exE conjE) (simp add: case_prod_beta, blast)
  show "\<exists>n h s. msg_html m = message_html n h s (msg_url m)" by (auto simp: m)
  show "single_line (msg_subject m)"
    using template_subject [of kind "default_arg input (JObj [])" "fst p" "fst (snd p)" "snd (snd p)"] p by (simp add: m)
  show "kind \<in> set email_delivery_kinds" by (rule k)
qed


lemma created_delivery:
  assumes "createEmailDelivery env input ident = Inr d"
  obtains t k e m i key u rt ri where
    "requiredString (JStr t) ''Email delivery tenantId'' 200 = Inr t" "k \<in> set email_delivery_kinds"
    "emailAddress (JStr e) ''Recipient email'' = Inr e" "renderEmailTemplate env k (fld input ''templateData'') = Inr m"
    "requiredString (JStr i) ''Email delivery id'' 200 = Inr i"
    "requiredString (JStr key) ''Email delivery idempotency key'' 256 = Inr key"
    "u = JNull \<or> (\<exists>s. u = JStr s)" "rt = JNull \<or> (\<exists>s. rt = JStr s)" "ri = JNull \<or> (\<exists>s. ri = JStr s)"
    "d = JObj
      [(''id'', JStr i), (''tenantId'', JStr t), (''recipientUserId'', u), (''recipientEmail'', JStr e),
       (''kind'', JStr k), (''resourceType'', rt), (''resourceId'', ri), (''idempotencyKey'', JStr key),
       (''status'', JStr ''queued''), (''attempts'', JNum 0), (''provider'', JNull), (''providerMessageId'', JNull),
       (''providerStatusAt'', JNull), (''lastError'', JNull), (''message'', message_val m), (''createdAt'', now_text env),
       (''updatedAt'', now_text env), (''acceptedAt'', JNull), (''deliveredAt'', JNull), (''staged'', JBool True)]"
proof -
  have opt: "optionalString v l n = Inr w \<Longrightarrow> w = JNull \<or> (\<exists>s. w = JStr s)" for v l n w
    by (auto simp: optionalString_def guard_simps split: if_splits)
  obtain t k e m i key u rt ri where
    r: "requiredString (fld input ''tenantId'') ''Email delivery tenantId'' 200 = Inr t"
      "emailAddress (fld input ''recipientEmail'') ''Recipient email'' = Inr e"
      "requiredString (default_arg ident (JStr (ctx_uuid (m_ctx env) 0))) ''Email delivery id'' 200 = Inr i"
      "singleLineString (coalesce (fld input ''idempotencyKey'') (JStr (t @ '':email:'' @ k @ '':'' @ i))) ''Email delivery idempotency key'' 256 = Inr key"
    and k: "k \<in> set email_delivery_kinds" and m: "renderEmailTemplate env k (fld input ''templateData'') = Inr m"
    and o: "optionalString (fld input ''recipientUserId'') ''Recipient user id'' 200 = Inr u"
      "optionalString (fld input ''resourceType'') ''Resource type'' 100 = Inr rt"
      "optionalString (fld input ''resourceId'') ''Resource id'' 200 = Inr ri"
    and d: "JObj
      [(''id'', JStr i), (''tenantId'', JStr t), (''recipientUserId'', u), (''recipientEmail'', JStr e),
       (''kind'', JStr k), (''resourceType'', rt), (''resourceId'', ri), (''idempotencyKey'', JStr key),
       (''status'', JStr ''queued''), (''attempts'', JNum 0), (''provider'', JNull), (''providerMessageId'', JNull),
       (''providerStatusAt'', JNull), (''lastError'', JNull), (''message'', message_val m), (''createdAt'', now_text env),
       (''updatedAt'', now_text env), (''acceptedAt'', JNull), (''deliveredAt'', JNull), (''staged'', JBool True)] = d"
    using assms unfolding createEmailDelivery_def guard_simps and_then_Inr list.pred_inject fst_conv sum.inject
    by (elim exE conjE) (rule that)
  show ?thesis
    by (rule that [OF requiredString_again [OF r(1) order_refl] k emailAddress_again [OF r(2)] m
          requiredString_again [OF r(3) order_refl] requiredString_again [OF singleLine_required [OF r(4)] order_refl]
          opt [OF o(1)] opt [OF o(2)] opt [OF o(3)] d [symmetric]])
qed

lemma created_valid:
  assumes "createEmailDelivery env input ident = Inr d"
  shows "assertEmailDelivery d = Inr d"
  using assms
proof (cases rule: created_delivery)
  case (1 t k e m i key u rt ri)
  have "''queued'' \<in> set email_delivery_statuses" by code_simp
  with 1(1-6) show ?thesis unfolding 1(10) by (simp add: assertEmailDelivery_def guard_simps)
qed

lemma created_matches:
  assumes "createEmailDelivery env input ident = Inr d"
  shows "emailDeliveryIntentMatches d d"
  using assms
proof (cases rule: created_delivery)
  case (1 t k e m i key u rt ri)
  have s: "strict_eq (coalesce w JNull) (coalesce w JNull)" if "w = JNull \<or> (\<exists>s. w = JStr s)" for w
    using that by auto
  show ?thesis unfolding 1(10)
    by (simp add: emailDeliveryIntentMatches_def same_message_def message_val_def s [OF 1(7)] s [OF 1(8)] s [OF 1(9)])
qed


section \<open>Transitions\<close>

text \<open>What identifies a delivery and what will be sent.\<close>

definition identity_fields :: "string list" where
  "identity_fields = [''id'', ''tenantId'', ''recipientUserId'', ''recipientEmail'', ''kind'', ''resourceType'',
     ''resourceId'', ''idempotencyKey'', ''message'', ''createdAt'', ''staged'']"

definition same_delivery :: "jsval \<Rightarrow> jsval \<Rightarrow> bool" where
  "same_delivery d d' = list_all (\<lambda>k. fld d' k = fld d k) identity_fields"

text \<open>One transition of a delivery, by the worker or by a report of the provider whose type is not the
  name of an inherited property (see the findings in the manifest).\<close>

inductive delivery_step :: "jsval \<Rightarrow> jsval \<Rightarrow> bool" where
  step_sending: "markEmailDeliverySending env d a = Inr d' \<Longrightarrow> delivery_step d d'"
| step_accepted: "markEmailDeliveryAccepted env d p i = Inr d' \<Longrightarrow> delivery_step d d'"
| step_failed: "markEmailDeliveryFailed env d e a = Inr d' \<Longrightarrow> delivery_step d d'"
| step_suppressed: "markEmailDeliverySuppressed env d s a = Inr d' \<Longrightarrow> delivery_step d d'"
| step_webhook: "applyEmailWebhookStatus env d ev = Inr d' \<Longrightarrow> js_string (fld ev ''type'') \<notin> set proto_keys \<Longrightarrow>
    delivery_step d d'"

definition delivery_steps :: "jsval \<Rightarrow> jsval \<Rightarrow> bool" where
  "delivery_steps = delivery_step\<^sup>*\<^sup>*"

lemma assert_Inr: "assertEmailDelivery d = Inr d' \<Longrightarrow> d' = d \<and> (\<exists>fs. d = JObj fs)"
proof -
  assume a: "assertEmailDelivery d = Inr d'"
  then have "nonblank (fld d ''id'')" "d' = d"
    unfolding assertEmailDelivery_def guard_simps and_then_Inr requiredString_Inr by blast+
  then show ?thesis by (cases d) (auto simp: nonblank_def split: if_splits)
qed

text \<open>An update of fields outside the identity that sets a known status.\<close>

definition allowed_update :: "(string \<times> jsval) list \<Rightarrow> bool" where
  "allowed_update us = (list_all (\<lambda>k. map_of (rev us) k = None) identity_fields
     \<and> (case map_of (rev us) ''status'' of None \<Rightarrow> False | Some v \<Rightarrow> one_of email_delivery_statuses v))"

lemma update_keeps:
  assumes "assertEmailDelivery d = Inr d" "allowed_update us"
  shows "assertEmailDelivery (spread d us) = Inr (spread d us)" "same_delivery d (spread d us)"
proof -
  obtain fs where d: "d = JObj fs" using assert_Inr [OF assms(1)] by blast
  have frame: "fld (spread d us) k = fld d k" if "k \<in> set identity_fields" for k
    using assms(2) that unfolding d fld_spread allowed_update_def list_all_iff by simp
  show "same_delivery d (spread d us)" using frame by (simp add: same_delivery_def list_all_iff)
  have keys: "''id'' \<in> set identity_fields" "''tenantId'' \<in> set identity_fields" "''recipientEmail'' \<in> set identity_fields"
    "''kind'' \<in> set identity_fields" "''idempotencyKey'' \<in> set identity_fields" by code_simp+
  obtain v where v: "map_of (rev us) ''status'' = Some v" "one_of email_delivery_statuses v"
    using assms(2) unfolding allowed_update_def by (auto split: option.splits)
  have st: "one_of email_delivery_statuses (fld (spread d us) ''status'')" unfolding d fld_spread v(1) using v(2) by simp
  show "assertEmailDelivery (spread d us) = Inr (spread d us)"
    using assms(1) st unfolding assertEmailDelivery_def frame [OF keys(1)] frame [OF keys(2)] frame [OF keys(3)]
      frame [OF keys(4)] frame [OF keys(5)] guard_simps and_then_Inr by simp
qed

lemma table_get_named:
  "js_string k \<notin> set proto_keys \<Longrightarrow> table_get t k = (case map_of t (js_string k) of None \<Rightarrow> JUndef | Some v \<Rightarrow> JStr v)"
  by (auto simp: table_get_def proto_keys_def split: option.splits)

lemma webhook_statuses: "map_of webhook_status k = Some v \<Longrightarrow> v \<in> set email_delivery_statuses"
proof -
  have "list_all (\<lambda>(k, v). v \<in> set email_delivery_statuses) webhook_status" by code_simp
  then show "map_of webhook_status k = Some v \<Longrightarrow> v \<in> set email_delivery_statuses"
    unfolding list_all_iff using map_of_SomeD by fastforce
qed

text \<open>Every transition leaves the delivery alone or makes an allowed update.\<close>

lemma step_update:
  assumes "delivery_step d d'"
  shows "assertEmailDelivery d = Inr d \<and> (d' = d \<or> (\<exists>us. d' = spread d us \<and> allowed_update us))"
  using assms
proof cases
  case (step_sending env a)
  have "allowed_update [(''status'', JStr ''sending''), (''attempts'', x), (''lastError'', JNull), (''updatedAt'', y)]" for x y
    by (simp add: allowed_update_def identity_fields_def email_delivery_statuses_def)
  with step_sending assert_Inr show ?thesis
    unfolding markEmailDeliverySending_def and_then_Inr by (auto split: if_splits)
next
  case (step_accepted env p i)
  have "allowed_update [(''status'', JStr ''accepted''), (''provider'', x1), (''providerMessageId'', x2), (''providerStatusAt'', x3),
      (''lastError'', JNull), (''acceptedAt'', x4), (''updatedAt'', x5)]" for x1 x2 x3 x4 x5
    by (simp add: allowed_update_def identity_fields_def email_delivery_statuses_def)
  with step_accepted assert_Inr show ?thesis
    unfolding markEmailDeliveryAccepted_def and_then_Inr by (auto simp: and_then_Inr split: if_splits)
next
  case (step_failed env e a)
  have "allowed_update [(''status'', JStr ''failed''), (''attempts'', x), (''lastError'', y), (''updatedAt'', z)]" for x y z
    by (simp add: allowed_update_def identity_fields_def email_delivery_statuses_def)
  with step_failed assert_Inr show ?thesis
    unfolding markEmailDeliveryFailed_def and_then_Inr by (auto split: if_splits)
next
  case (step_suppressed env s a)
  have "allowed_update [(''status'', JStr ''suppressed''), (''attempts'', x1), (''providerStatusAt'', x2), (''lastError'', x3),
      (''updatedAt'', x4)]" for x1 x2 x3 x4
    by (simp add: allowed_update_def identity_fields_def email_delivery_statuses_def)
  with step_suppressed assert_Inr show ?thesis
    unfolding markEmailDeliverySuppressed_def and_then_Inr by (auto simp: guard_simps split: if_splits)
next
  case (step_webhook env ev)
  have "allowed_update [(''status'', JStr st), (''providerStatusAt'', x2), (''deliveredAt'', x3), (''lastError'', x4),
      (''updatedAt'', x5)]" if "st \<in> set email_delivery_statuses" for st x2 x3 x4 x5
    using that by (simp add: allowed_update_def identity_fields_def)
  note upd = this
  have v: "assertEmailDelivery d = Inr d"
    using step_webhook(1) assert_Inr unfolding applyEmailWebhookStatus_def Let_def and_then_Inr by blast
  show ?thesis
  proof (cases "map_of webhook_status (js_string (fld ev ''type''))")
    case None
    with step_webhook(1) v have "d' = d"
      unfolding applyEmailWebhookStatus_def table_get_named [OF step_webhook(2)] by simp
    with v show ?thesis by simp
  next
    case (Some st)
    have "truthy (JStr st)" using webhook_statuses [OF Some] by (auto simp: email_delivery_statuses_def)
    then have "d' = d \<or> (\<exists>x2 x3 x4 x5. d' = spread d [(''status'', JStr st), (''providerStatusAt'', x2), (''deliveredAt'', x3),
        (''lastError'', x4), (''updatedAt'', x5)])"
      using step_webhook(1) unfolding applyEmailWebhookStatus_def table_get_named [OF step_webhook(2)] Some option.case Let_def
        v and_then_simps guard_simps if_not_P [OF iffD2 [OF not_not], simplified]
      by (simp only: guard_simps if_not_P not_not simp_thms) (elim exE conjE, simp only: split: if_splits, blast+)
    with v upd [OF webhook_statuses [OF Some]] show ?thesis by blast
  qed
qed

lemma steps_keep:
  "delivery_steps d d' \<Longrightarrow> assertEmailDelivery d = Inr d \<Longrightarrow> assertEmailDelivery d' = Inr d' \<and> same_delivery d d'"
  unfolding delivery_steps_def
proof (induction rule: rtranclp_induct)
  case base
  then show ?case by (simp add: same_delivery_def list_all_iff)
next
  case (step e f)
  then have v: "assertEmailDelivery e = Inr e" and s: "same_delivery d e" by simp_all
  from step_update [OF step.hyps(2)] consider "f = e" | us where "f = spread e us" "allowed_update us" by blast
  then show ?case
  proof cases
    case 1
    with v s show ?thesis by simp
  next
    case 2
    with update_keeps [OF v 2(2)] s show ?thesis by (simp add: same_delivery_def list_all_iff)
  qed
qed


section \<open>Reports in any order\<close>

text \<open>What a report of a given time and status does to the last report's time and the status.\<close>

definition report_effect :: "mail_env \<Rightarrow> int \<Rightarrow> string \<Rightarrow> jsval \<times> jsval \<Rightarrow> jsval \<times> jsval" where
  "report_effect env t st x =
    (if truthy (fst x) \<and> date_less (Some t) (js_date (m_legacy env) (fst x)) then x
     else (JStr (iso_string t), JStr st))"

definition reported :: "jsval \<Rightarrow> jsval \<times> jsval" where
  "reported d = (fld d ''providerStatusAt'', fld d ''status'')"

lemma iso_nonempty [simp]: "iso_string t \<noteq> []"
  by (simp add: iso_string_parts rest_string_def)

lemma report_commute:
  assumes "\<bar>t1\<bar> \<le> 8640000000000000" "\<bar>t2\<bar> \<le> 8640000000000000" "t1 \<noteq> t2"
  shows "report_effect env t2 s2 (report_effect env t1 s1 x) = report_effect env t1 s1 (report_effect env t2 s2 x)"
  using assms by (cases "js_date (m_legacy env) (fst x)") (auto simp: report_effect_def date_less_def)

lemma webhook_report:
  assumes "applyEmailWebhookStatus env d ev = Inr d'" "map_of webhook_status (js_string (fld ev ''type'')) = Some st"
    and "webhook_time env ev = Inr t"
  shows "reported d' = report_effect env t st (reported d)" "\<bar>t\<bar> \<le> 8640000000000000"
proof -
  have tr: "truthy (JStr st)" using webhook_statuses [OF assms(2)] by (auto simp: email_delivery_statuses_def)
  have tab: "table_get webhook_status (fld ev ''type'') = JStr st" using assms(2) by (simp add: table_get_def)
  obtain fs where d: "d = JObj fs" "assertEmailDelivery d = Inr d"
    using assms(1) assert_Inr unfolding applyEmailWebhookStatus_def Let_def and_then_Inr by blast
  let ?late = "truthy (fld d ''providerStatusAt'') \<and> date_less (Some t) (js_date (m_legacy env) (fld d ''providerStatusAt''))"
  note eq = assms(1) [unfolded applyEmailWebhookStatus_def tab Let_def d(2) and_then_simps guard_simps assms(3)]
  show "reported d' = report_effect env t st (reported d)"
  proof (cases ?late)
    case True
    with eq tr show ?thesis by (simp add: guard_simps reported_def report_effect_def)
  next
    case False
    with eq tr have "\<exists>x3 x4 x5. d' = spread d [(''status'', JStr st), (''providerStatusAt'', JStr (iso_string t)),
          (''deliveredAt'', x3), (''lastError'', x4), (''updatedAt'', x5)]"
      by (simp only: guard_simps if_False not_True_eq_False) blast
    with False show ?thesis by (auto simp: reported_def report_effect_def d(1) fld_spread)
  qed
  show "\<bar>t\<bar> \<le> 8640000000000000"
    using assms(3) js_date_range by (auto simp: webhook_time_def guard_simps split: option.splits)
qed

lemma late_report_ignored:
  assumes "applyEmailWebhookStatus env d ev = Inr d'" "map_of webhook_status (js_string (fld ev ''type'')) = Some st"
    and "webhook_time env ev = Inr t"
    and "truthy (fst (reported d))" "date_less (Some t) (js_date (m_legacy env) (fst (reported d)))"
  shows "d' = d"
proof -
  have tr: "truthy (JStr st)" using webhook_statuses [OF assms(2)] by (auto simp: email_delivery_statuses_def)
  have tab: "table_get webhook_status (fld ev ''type'') = JStr st" using assms(2) by (simp add: table_get_def)
  have d: "assertEmailDelivery d = Inr d"
    using assms(1) assert_Inr unfolding applyEmailWebhookStatus_def Let_def and_then_Inr by blast
  note eq = assms(1) [unfolded applyEmailWebhookStatus_def tab Let_def d and_then_simps guard_simps assms(3)]
  show ?thesis using eq tr assms(4,5) by (simp add: guard_simps reported_def)
qed

text \<open>A report of known type for the delivery's message is always applied.\<close>

lemma webhook_total:
  assumes "assertEmailDelivery d = Inr d" "map_of webhook_status (js_string (fld ev ''type'')) = Some st"
    and "webhook_time env ev = Inr t" "strict_eq (fld (fld ev ''data'') ''email_id'') (fld d ''providerMessageId'')"
  shows "\<exists>d'. applyEmailWebhookStatus env d ev = Inr d' \<and> assertEmailDelivery d' = Inr d'
    \<and> fld d' ''providerMessageId'' = fld d ''providerMessageId''"
proof -
  have st: "st \<in> set email_delivery_statuses" by (rule webhook_statuses [OF assms(2)])
  then have tr: "truthy (JStr st)" by (auto simp: email_delivery_statuses_def)
  have tab: "table_get webhook_status (fld ev ''type'') = JStr st" using assms(2) by (simp add: table_get_def)
  obtain fs where d: "d = JObj fs" using assert_Inr [OF assms(1)] by blast
  have upd: "allowed_update [(''status'', JStr st), (''providerStatusAt'', x2), (''deliveredAt'', x3), (''lastError'', x4),
      (''updatedAt'', x5)]" for x2 x3 x4 x5
    using st by (simp add: allowed_update_def identity_fields_def)
  show ?thesis
    unfolding applyEmailWebhookStatus_def tab Let_def assms(1) and_then_simps
    using tr assms(1,3,4) update_keeps(1) [OF assms(1) upd]
    by (simp add: d fld_spread)
qed

section \<open>The sink\<close>

definition sink_step :: "sink \<Rightarrow> sink \<Rightarrow> bool" where
  "sink_step s s' = (\<exists>env d key r. sink_send env s d key = Inr (s', r))"

lemma sink_send_cases:
  assumes "sink_send env s d k = Inr (s', r)"
  obtains (duplicate) key it where "send_key k d = Inr (JStr key)" "find (\<lambda>item. si_key item = key) (sk_memory s) = Some it"
      "emailDeliveryIntentMatches (si_delivery it) d" "s' = s" "r = send_result (si_messageId it) True"
  | (fresh) key it where "send_key k d = Inr (JStr key)" "find (\<lambda>item. si_key item = key) (sk_memory s) = None"
      "si_key it = key" "si_delivery it = d" "s' = writeSink (s\<lparr>sk_memory := sk_memory s @ [it]\<rparr>)"
      "r = send_result (si_messageId it) False"
proof -
  obtain v where v: "send_key k d = Inr v" and body: "(case v of
      JStr key \<Rightarrow>
       (case find (\<lambda>item. si_key item = key) (sk_memory s) of
          Some existing \<Rightarrow>
            if \<not> emailDeliveryIntentMatches (si_delivery existing) d then Inl sink_conflict
            else Inr (s, send_result (si_messageId existing) True)
        | None \<Rightarrow>
            let messageId = ''sink-'' @ take 24 (ctx_sha256 (m_ctx env) key) in
            Inr (writeSink (s\<lparr>sk_memory := sk_memory s @
                   [\<lparr>si_messageId = messageId, si_key = key, si_delivery = d, si_acceptedAt = iso_string (m_now env)\<rparr>]\<rparr>),
                 send_result messageId False))
    | _ \<Rightarrow> Inl type_error) = Inr (s', r)"
    using assms unfolding sink_send_def and_then_Inr by blast
  show ?thesis
  proof (cases "\<exists>key. v = JStr key")
    case False
    with body show ?thesis by (cases v) simp_all
  next
    case True
    then obtain key where key: "v = JStr key" ..
    show ?thesis
    proof (cases "find (\<lambda>item. si_key item = key) (sk_memory s)")
      case None
      with body v key show ?thesis by (intro fresh) (auto simp: Let_def)
    next
      case (Some it)
      with body key have m: "emailDeliveryIntentMatches (si_delivery it) d" by (cases "emailDeliveryIntentMatches (si_delivery it) d") simp_all
      with Some body v key show ?thesis by (intro duplicate) auto
    qed
  qed
qed

lemma sink_send_valid: "sink_send env s d k = Inr (s', r) \<Longrightarrow> assertEmailDelivery d = Inr d"
  unfolding sink_send_def and_then_Inr using assert_Inr by blast

lemma writeSink_simps [simp]:
  "sk_memory (writeSink s) = sk_memory s" "sk_path (writeSink s) = sk_path s"
  "sk_path s \<Longrightarrow> sk_file (writeSink s) = Some (sk_memory s)"
  by (simp_all add: writeSink_def)

lemma find_snoc: "find P (xs @ [x]) = (case find P xs of Some y \<Rightarrow> Some y | None \<Rightarrow> if P x then Some x else None)"
  by (induction xs) auto

text \<open>A stored message stays the answer to its key, and the file stays the copy of the memory.\<close>

definition remembers :: "sink \<Rightarrow> string \<Rightarrow> sink_item \<Rightarrow> bool" where
  "remembers s key it = (find (\<lambda>item. si_key item = key) (sk_memory s) = Some it
     \<and> (if sk_path s then sk_file s = Some (sk_memory s) else True))"

lemma sink_step_remembers: "sink_step s s' \<Longrightarrow> remembers s key it \<Longrightarrow> remembers s' key it"
  unfolding sink_step_def
  by (elim exE, erule sink_send_cases) (auto simp: remembers_def find_snoc split: if_splits)

lemma sink_steps_remember: "sink_step\<^sup>*\<^sup>* s s' \<Longrightarrow> remembers s key it \<Longrightarrow> remembers s' key it"
  by (induction rule: rtranclp_induct) (auto intro: sink_step_remembers)

lemma send_again:
  assumes "remembers s key it" "send_key k d = Inr (JStr key)" "emailDeliveryIntentMatches (si_delivery it) d"
    and "assertEmailDelivery d = Inr d"
  shows "sink_send env s d k = Inr (s, send_result (si_messageId it) True)"
  using assms by (simp add: sink_send_def remembers_def)

lemma remembers_after_send:
  assumes "sink_send env s d k = Inr (s', r)" "emailDeliveryIntentMatches d d"
    and "if sk_path s then sk_file s = Some (sk_memory s) else True"
  obtains key it where "send_key k d = Inr (JStr key)" "remembers s' key it" "emailDeliveryIntentMatches (si_delivery it) d"
    "fld r ''id'' = JStr (si_messageId it)"
  using assms(1)
proof (cases rule: sink_send_cases)
  case (duplicate key it)
  with assms(3) show ?thesis by (intro that [of key it]) (auto simp: remembers_def send_result_def)
next
  case (fresh key it)
  with assms(2) show ?thesis by (intro that [of key it]) (auto simp: remembers_def send_result_def find_snoc)
qed

section \<open>Properties\<close>

text \<open>
  C27. No input can inject markup into a rendered message: whatever the template data, the HTML body has
  exactly the angle brackets and quotes of the template itself, and the subject is a single line, so it
  cannot add headers.
\<close>

theorem rendered_message_safe:
  assumes "renderEmailTemplate env kind input = Inr m"
  shows "count_list (msg_html m) (CHR ''<'') = 12 \<and> count_list (msg_html m) (CHR ''>'') = 12
    \<and> count_list (msg_html m) (CHR 0x22) = 2 \<and> single_line (msg_subject m)"
proof -
  obtain n h s where "msg_html m = message_html n h s (msg_url m)" using rendered(1) [OF assms] by blast
  then show ?thesis using rendered(2) [OF assms] by (simp add: message_html_counts)
qed

definition demo_mail_env :: mail_env where
  "demo_mail_env = \<lparr>m_ctx = \<lparr>ctx_uuid = (\<lambda>n. ''u'' @ nat_string n), ctx_now = ''now'', ctx_sha256 = (\<lambda>s. ''h'' @ s), ctx_hmac = (\<lambda>k s. k @ s)\<rparr>,
     m_now = 1772323199999, m_legacy = (\<lambda>_. None),
     m_url = (\<lambda>s. if starts_with ''https://'' s then Some \<lparr>u_protocol = ''https:'', u_username = [], u_password = [], u_hash = [], u_href = s\<rparr> else None)\<rparr>"

definition demo_template :: jsval where
  "demo_template = JObj [(''recipientName'', JStr ''<script>''), (''actionUrl'', JStr ''https://x/a?b=1&c=2''),
     (''reportTitle'', JStr ''Level 3 > Level 4'')]"

definition demo_message :: message where
  "demo_message = (case renderEmailTemplate demo_mail_env ''report_ready'' demo_template of Inr m \<Rightarrow> m
     | Inl e \<Rightarrow> \<lparr>msg_subject = [], msg_text = [], msg_html = [], msg_url = []\<rparr>)"

lemma rendered_message_safe_witness:
  "count_list (msg_html demo_message) (CHR ''<'') = 12 \<and> single_line (msg_subject demo_message)"
proof -
  have "renderEmailTemplate demo_mail_env ''report_ready'' demo_template = Inr demo_message" by code_simp
  from rendered_message_safe [OF this] show ?thesis by simp
qed


definition demo_delivery_input :: jsval where
  "demo_delivery_input = JObj [(''tenantId'', JStr ''t1''), (''kind'', JStr ''report_ready''),
     (''recipientEmail'', JStr '' Ann@Example.com ''), (''templateData'', demo_template)]"

definition demo_delivery :: jsval where
  "demo_delivery = ok_value (createEmailDelivery demo_mail_env demo_delivery_input (JStr ''d1''))"

definition demo_accepted :: jsval where
  "demo_accepted = ok_value (markEmailDeliveryAccepted demo_mail_env demo_delivery (JStr ''sink'') (JStr ''m1''))"

lemma demo_created: "createEmailDelivery demo_mail_env demo_delivery_input (JStr ''d1'') = Inr demo_delivery"
  by code_simp

lemma demo_acceptance: "markEmailDeliveryAccepted demo_mail_env demo_delivery (JStr ''sink'') (JStr ''m1'') = Inr demo_accepted"
  by code_simp


text \<open>
  C17. Reports of the provider may arrive in any order: if two reports with different times are applied
  one after the other, the delivery ends with the same status and the same time of its last report in
  either order, namely that of the later report unless an even later one was already known.
\<close>

theorem webhook_order:
  assumes "applyEmailWebhookStatus env d e1 = Inr a" "applyEmailWebhookStatus env a e2 = Inr b"
    and "applyEmailWebhookStatus env d e2 = Inr a'" "applyEmailWebhookStatus env a' e1 = Inr b'"
    and "map_of webhook_status (js_string (fld e1 ''type'')) = Some s1" "webhook_time env e1 = Inr t1"
    and "map_of webhook_status (js_string (fld e2 ''type'')) = Some s2" "webhook_time env e2 = Inr t2" "t1 < t2"
  shows "fld b ''status'' = fld b' ''status'' \<and> fld b ''providerStatusAt'' = fld b' ''providerStatusAt''
    \<and> (fld b ''status'' = JStr s2 \<or> b = d)"
proof -
  note r1 = webhook_report [OF _ assms(5,6)] and r2 = webhook_report [OF _ assms(7,8)]
  have "reported b = reported b'"
    using report_commute [OF r1(2) [OF assms(1)] r2(2) [OF assms(2)] less_imp_neq [OF assms(9)]]
    by (simp add: r1(1) [OF assms(1)] r2(1) [OF assms(2)] r2(1) [OF assms(3)] r1(1) [OF assms(4)])
  moreover have "fld b ''status'' = JStr s2 \<or> b = d"
  proof (cases "reported b = report_effect env t2 s2 (reported a) \<and> fst (reported b) = JStr (iso_string t2) \<and> snd (reported b) = JStr s2")
    case True
    then show ?thesis by (simp add: reported_def)
  next
    case False
    then have late: "truthy (fst (reported a))" "date_less (Some t2) (js_date (m_legacy env) (fst (reported a)))"
      using r2(1) [OF assms(2)] by (auto simp: report_effect_def split: if_splits)
    have "b = a" by (rule late_report_ignored [OF assms(2,7,8) late])
    moreover have "\<not> (fst (reported a) = JStr (iso_string t1))"
      using late(2) assms(9) r1(2) [OF assms(1)] by (auto simp: date_less_def)
    then have "truthy (fst (reported d))" "date_less (Some t1) (js_date (m_legacy env) (fst (reported d)))"
      using r1(1) [OF assms(1)] by (auto simp: report_effect_def split: if_splits)
    then have "a = d" by (rule late_report_ignored [OF assms(1,5,6)])
    ultimately show ?thesis by simp
  qed
  ultimately show ?thesis by (simp add: reported_def)
qed

definition demo_report :: "string \<Rightarrow> string \<Rightarrow> jsval" where
  "demo_report ty w = JObj [(''type'', JStr ty), (''created_at'', JStr w), (''data'', JObj [(''email_id'', JStr ''m1'')])]"

definition demo_plain :: jsval where
  "demo_plain = JObj [(''id'', JStr ''d1''), (''tenantId'', JStr ''t1''), (''recipientEmail'', JStr ''a@b.c''),
     (''kind'', JStr ''activation''), (''status'', JStr ''accepted''), (''idempotencyKey'', JStr ''k''),
     (''providerMessageId'', JStr ''m1''), (''providerStatusAt'', JNull)]"

definition demo_e1 :: jsval where
  "demo_e1 = demo_report ''email.delivered'' ''2026-03-01T00:00:01.000Z''"

definition demo_e2 :: jsval where
  "demo_e2 = demo_report ''email.complained'' ''2026-03-01T00:00:02.000Z''"

lemma webhook_order_witness:
  "\<exists>a b a' b'. applyEmailWebhookStatus demo_mail_env demo_plain demo_e1 = Inr a \<and> applyEmailWebhookStatus demo_mail_env a demo_e2 = Inr b
    \<and> applyEmailWebhookStatus demo_mail_env demo_plain demo_e2 = Inr a' \<and> applyEmailWebhookStatus demo_mail_env a' demo_e1 = Inr b'
    \<and> fld b ''status'' = fld b' ''status''"
proof -
  have t1: "map_of webhook_status (js_string (fld demo_e1 ''type'')) = Some ''delivered''" "webhook_time demo_mail_env demo_e1 = Inr 1772323201000"
    and t2: "map_of webhook_status (js_string (fld demo_e2 ''type'')) = Some ''complained''" "webhook_time demo_mail_env demo_e2 = Inr 1772323202000"
    by code_simp+
  have d: "assertEmailDelivery demo_plain = Inr demo_plain" "fld demo_plain ''providerMessageId'' = JStr ''m1''" by code_simp+
  have m: "fld (fld demo_e1 ''data'') ''email_id'' = JStr ''m1''" "fld (fld demo_e2 ''data'') ''email_id'' = JStr ''m1''" by code_simp+
  obtain a where a: "applyEmailWebhookStatus demo_mail_env demo_plain demo_e1 = Inr a" "assertEmailDelivery a = Inr a"
      "fld a ''providerMessageId'' = JStr ''m1''"
    using webhook_total [OF d(1) t1] d(2) m by auto
  obtain b where b: "applyEmailWebhookStatus demo_mail_env a demo_e2 = Inr b"
    using webhook_total [OF a(2) t2] a(3) m by auto
  obtain a' where a': "applyEmailWebhookStatus demo_mail_env demo_plain demo_e2 = Inr a'" "assertEmailDelivery a' = Inr a'"
      "fld a' ''providerMessageId'' = JStr ''m1''"
    using webhook_total [OF d(1) t2] d(2) m by auto
  obtain b' where b': "applyEmailWebhookStatus demo_mail_env a' demo_e1 = Inr b'"
    using webhook_total [OF a'(2) t1] a'(3) m by auto
  from webhook_order [OF a(1) b a'(1) b' t1 t2] have "fld b ''status'' = fld b' ''status''" by simp
  with a b a' b' show ?thesis by blast
qed

text \<open>
  The sink stores a message once per key: after a delivery has been sent, sending it again under the
  same key, after any other sends in between and also after a restart from the file, returns the id of
  the first send, marked as a duplicate, and stores nothing.
\<close>

theorem sink_sends_once:
  assumes "sink_send env s d k = Inr (s1, r)" "emailDeliveryIntentMatches d d"
    and "if sk_path s then sk_file s = Some (sk_memory s) else True" "sink_step\<^sup>*\<^sup>* s1 s2"
  shows "sink_send env' s2 d k = Inr (s2, JObj [(''id'', fld r ''id''), (''duplicate'', JBool True)])
    \<and> (if sk_path s2 then sink_send env' (createLocalEmailSink True (sk_file s2)) d k
         = Inr (createLocalEmailSink True (sk_file s2), JObj [(''id'', fld r ''id''), (''duplicate'', JBool True)]) else True)"
proof -
  obtain key it where k: "send_key k d = Inr (JStr key)" and rem: "remembers s1 key it"
    and m: "emailDeliveryIntentMatches (si_delivery it) d" and r: "fld r ''id'' = JStr (si_messageId it)"
    by (rule remembers_after_send [OF assms(1-3)])
  note rem2 = sink_steps_remember [OF assms(4) rem]
  have rem3: "remembers (createLocalEmailSink True (sk_file s2)) key it" if "sk_path s2"
    using rem2 that by (simp add: remembers_def createLocalEmailSink_def)
  show ?thesis
    using send_again [OF rem2 k m sink_send_valid [OF assms(1)]] send_again [OF rem3 k m sink_send_valid [OF assms(1)]]
    by (simp add: send_result_def r)
qed

definition demo_sink :: sink where
  "demo_sink = createLocalEmailSink True (Some [])"

definition demo_sent :: sink where
  "demo_sent = (case sink_send demo_mail_env demo_sink demo_delivery JUndef of Inr (s, r) \<Rightarrow> s | Inl e \<Rightarrow> demo_sink)"

lemma sink_sends_once_witness:
  "sink_send demo_mail_env demo_sent demo_delivery JUndef
     = Inr (demo_sent, JObj [(''id'', JStr ''sink-ht1:email:report_ready:d''), (''duplicate'', JBool True)])"
proof -
  have s: "sink_send demo_mail_env demo_sink demo_delivery JUndef = Inr (demo_sent, send_result ''sink-ht1:email:report_ready:d'' False)"
    by code_simp
  have i: "if sk_path demo_sink then sk_file demo_sink = Some (sk_memory demo_sink) else True"
    by (simp add: demo_sink_def createLocalEmailSink_def)
  from sink_sends_once [OF s created_matches [OF demo_created] i rtranclp.rtrancl_refl] show ?thesis
    by (simp add: send_result_def)
qed


definition demo_check :: signature_check where
  "demo_check = (\<lambda>secret payload (i, ts, sg). if sg = ''v1'' then Inr (JObj [(''type'', JStr ''email.sent'')]) else Inl type_error)"

definition demo_headers :: jsval where
  "demo_headers = JObj [(''svix-id'', JStr ''m''), (''svix-timestamp'', JStr '' 1772323100''), (''svix-signature'', JStr ''v1'')]"


end
