(* ===== verification/Coordination.thy ===== *)
theory Coordination
  imports AuditTrail Contracts
begin

text \<open>
  Coordination, construction and governance records: issues, BCF topics, RFIs and approval requests
  (packages/coordination/src/index.js), field items and their status (packages/construction/src/index.js),
  and the events routed to finance and legal review (packages/finance-contracts/src/index.js).
  Arguments taken apart by a parameter pattern are single parameters.
\<close>

section \<open>Events of an operation\<close>

text \<open>An audit event and an outbox event, created one after the other.\<close>

definition event_pair :: "ctx \<Rightarrow> jsval \<Rightarrow> jsval \<Rightarrow> (jsval \<times> jsval) res" where
  "event_pair cx audit outboxInput =
    and_then (createAuditEvent cx audit) (\<lambda>auditEvent.
    and_then (createOutboxEvent (later cx) outboxInput) (\<lambda>outboxEvent.
    Inr (auditEvent, outboxEvent)))"

section \<open>Coordination\<close>

definition issue_status_set :: "string list" where
  "issue_status_set =
    [''open'', ''triaged'', ''assigned'', ''in_progress'', ''under_review'', ''resolved'',
     ''closed'', ''returned'', ''deferred'', ''rejected_false_positive'']"

definition rfi_status_set :: "string list" where
  "rfi_status_set =
    [''draft'', ''submitted'', ''answered'', ''closed'', ''returned'']"

definition approval_status_set :: "string list" where
  "approval_status_set =
    [''pending'', ''approved'', ''rejected'', ''needs_revision'']"

definition createCoordinationIssue :: "jsval \<Rightarrow> jsval res" where
  "createCoordinationIssue input =
    guard [req (fld input ''id'') ''Coordination issue id'',
           req (fld input ''tenantId'') ''Coordination issue tenantId'',
           req (fld input ''projectId'') ''Coordination issue projectId'',
           req (fld input ''title'') ''Coordination issue title'',
           req (fld input ''description'') ''Coordination issue description'',
           req (fld input ''status'') ''Coordination issue status'',
           req_array (coalesce (fld input ''disciplines'') (JArr [])) ''Coordination issue disciplines'',
           (one_of issue_status_set (fld input ''status''), ''Unknown coordination issue status: '' @ js_string (fld input ''status''))]
      (Inr (JObj
        [(''id'', fld input ''id''),
         (''tenantId'', fld input ''tenantId''),
         (''projectId'', fld input ''projectId''),
         (''title'', fld input ''title''),
         (''description'', fld input ''description''),
         (''status'', fld input ''status''),
         (''type'', coalesce (fld input ''type'') (JStr ''coordination_conflict'')),
         (''source'', coalesce (fld input ''source'') (JStr ''manual'')),
         (''disciplines'', fld input ''disciplines''),
         (''assignedLeadUserId'', coalesce (fld input ''assignedLeadUserId'') JNull),
         (''priority'', coalesce (fld input ''priority'') (JStr ''medium'')),
         (''severity'', coalesce (fld input ''severity'') (JStr ''medium'')),
         (''confidence'', coalesce (fld input ''confidence'') (JStr ''confirmed'')),
         (''relatedSheetIds'', coalesce (fld input ''relatedSheetIds'') (JArr [])),
         (''relatedModelIds'', coalesce (fld input ''relatedModelIds'') (JArr [])),
         (''relatedElementIds'', coalesce (fld input ''relatedElementIds'') (JArr [])),
         (''evidence'', coalesce (fld input ''evidence'') (JArr [])),
         (''proposedResolution'', coalesce (fld input ''proposedResolution'') JNull),
         (''staged'', JBool True)]))"

definition createBCFTopic :: "jsval \<Rightarrow> jsval res" where
  "createBCFTopic input =
    guard [req (fld input ''id'') ''BCF topic id'',
           req (fld input ''tenantId'') ''BCF topic tenantId'',
           req (fld input ''projectId'') ''BCF topic projectId'',
           req (fld input ''issueId'') ''BCF topic issueId'',
           req (fld input ''topic'') ''BCF topic title'']
      (Inr (JObj
        [(''id'', fld input ''id''),
         (''tenantId'', fld input ''tenantId''),
         (''projectId'', fld input ''projectId''),
         (''issueId'', fld input ''issueId''),
         (''topic'', fld input ''topic''),
         (''viewpoint'', coalesce (fld input ''viewpoint'') JNull),
         (''camera'', coalesce (fld input ''camera'') JNull),
         (''selectedElements'', coalesce (fld input ''selectedElements'') (JArr [])),
         (''snapshotRef'', coalesce (fld input ''snapshotRef'') JNull),
         (''comments'', coalesce (fld input ''comments'') (JArr [])),
         (''priority'', coalesce (fld input ''priority'') (JStr ''medium'')),
         (''staged'', JBool True)]))"

definition createRfi :: "jsval \<Rightarrow> jsval res" where
  "createRfi input =
    guard [req (fld input ''id'') ''RFI id'',
           req (fld input ''tenantId'') ''RFI tenantId'',
           req (fld input ''projectId'') ''RFI projectId'',
           req (fld input ''title'') ''RFI title'',
           req (fld input ''status'') ''RFI status'',
           (one_of rfi_status_set (fld input ''status''), ''Unknown RFI status: '' @ js_string (fld input ''status''))]
      (Inr (JObj
        [(''id'', fld input ''id''),
         (''tenantId'', fld input ''tenantId''),
         (''projectId'', fld input ''projectId''),
         (''title'', fld input ''title''),
         (''question'', coalesce (fld input ''question'') (JStr [])),
         (''requestedBy'', coalesce (fld input ''requestedBy'') JNull),
         (''assignedTo'', coalesce (fld input ''assignedTo'') JNull),
         (''status'', fld input ''status''),
         (''relatedSheetIds'', coalesce (fld input ''relatedSheetIds'') (JArr [])),
         (''relatedIssueIds'', coalesce (fld input ''relatedIssueIds'') (JArr [])),
         (''staged'', JBool True)]))"

definition createApprovalRequest :: "jsval \<Rightarrow> jsval res" where
  "createApprovalRequest input =
    guard [req (fld input ''id'') ''Approval request id'',
           req (fld input ''tenantId'') ''Approval request tenantId'',
           req (fld input ''projectId'') ''Approval request projectId'',
           req (fld input ''approvalType'') ''Approval request approvalType'',
           req (fld input ''status'') ''Approval request status'',
           (one_of approval_status_set (fld input ''status''), ''Unknown approval status: '' @ js_string (fld input ''status''))]
      (Inr (JObj
        [(''id'', fld input ''id''),
         (''tenantId'', fld input ''tenantId''),
         (''projectId'', fld input ''projectId''),
         (''approvalType'', fld input ''approvalType''),
         (''status'', fld input ''status''),
         (''requestedBy'', coalesce (fld input ''requestedBy'') JNull),
         (''reviewerRole'', coalesce (fld input ''reviewerRole'') (JStr ''approver'')),
         (''artifactRefs'', coalesce (fld input ''artifactRefs'') (JArr [])),
         (''staged'', JBool True)]))"

definition updateApprovalStatus :: "jsval \<Rightarrow> jsval \<Rightarrow> jsval \<Rightarrow> jsval res" where
  "updateApprovalStatus session approvalRequest nextStatus =
    and_then (get_fld approvalRequest ''tenantId'') (\<lambda>tenantId.
    and_then (project_guards session tenantId (fld approvalRequest ''projectId'')) (\<lambda>_.
    guard [(one_of approval_status_set nextStatus, ''Unknown approval status: '' @ js_string nextStatus)]
      (Inr (spread approvalRequest [(''status'', nextStatus)]))))"

definition emitCoordinationAudit :: "ctx \<Rightarrow> jsval \<Rightarrow> jsval \<Rightarrow> jsval \<Rightarrow> jsval \<Rightarrow> jsval res" where
  "emitCoordinationAudit cx session resource action payload =
    and_then (get_fld resource ''tenantId'') (\<lambda>tenantId.
    and_then (get_fld session ''userId'') (\<lambda>userId.
    and_then (event_pair cx
       (JObj [(''tenantId'', tenantId), (''actorType'', JStr ''user''), (''actorId'', userId), (''action'', action),
         (''resourceType'', coalesce (fld resource ''resourceType'') (JStr ''coordination_resource'')),
         (''resourceId'', fld resource ''id'')])
       (JObj [(''eventType'', action),
         (''aggregateType'', coalesce (fld resource ''resourceType'') (JStr ''coordination_resource'')),
         (''aggregateId'', fld resource ''id''), (''tenantId'', tenantId), (''payload'', default_arg payload (JObj []))]))
      (\<lambda>(auditEvent, outboxEvent).
    Inr (JObj [(''auditEvent'', auditEvent), (''outboxEvent'', outboxEvent)]))))"

section \<open>Construction\<close>

definition field_item_status_set :: "string list" where
  "field_item_status_set =
    [''open'', ''triaged'', ''in_progress'', ''resolved'', ''closed'', ''deferred'']"

definition createFieldItem :: "jsval \<Rightarrow> jsval res" where
  "createFieldItem input =
    guard [req (fld input ''id'') ''Field item id'',
           req (fld input ''tenantId'') ''Field item tenantId'',
           req (fld input ''projectId'') ''Field item projectId'',
           req (fld input ''itemType'') ''Field item itemType'',
           req (fld input ''status'') ''Field item status'',
           req (fld input ''title'') ''Field item title'',
           (one_of field_item_status_set (fld input ''status''), ''Unknown field item status: '' @ js_string (fld input ''status''))]
      (Inr (JObj
        [(''id'', fld input ''id''),
         (''tenantId'', fld input ''tenantId''),
         (''projectId'', fld input ''projectId''),
         (''itemType'', fld input ''itemType''),
         (''title'', fld input ''title''),
         (''status'', fld input ''status''),
         (''location'', coalesce (fld input ''location'') JNull),
         (''photoFixtureRefs'', coalesce (fld input ''photoFixtureRefs'') (JArr [])),
         (''relatedSheetIds'', coalesce (fld input ''relatedSheetIds'') (JArr [])),
         (''relatedModelIds'', coalesce (fld input ''relatedModelIds'') (JArr [])),
         (''responsibleParty'', coalesce (fld input ''responsibleParty'') JNull),
         (''dueDate'', coalesce (fld input ''dueDate'') JNull),
         (''resolution'', coalesce (fld input ''resolution'') JNull),
         (''costImpactPlaceholder'', coalesce (fld input ''costImpactPlaceholder'') JNull),
         (''staged'', JBool True)]))"

definition updateFieldItemStatus :: "ctx \<Rightarrow> jsval \<Rightarrow> jsval \<Rightarrow> jsval \<Rightarrow> jsval \<Rightarrow> jsval res" where
  "updateFieldItemStatus cx session fieldItem nextStatus resolution0 =
    (let resolution = default_arg resolution0 JNull in
     and_then (get_fld fieldItem ''tenantId'') (\<lambda>tenantId.
     and_then (project_guards session tenantId (fld fieldItem ''projectId'')) (\<lambda>_.
     guard [(one_of field_item_status_set nextStatus, ''Unknown field item status: '' @ js_string nextStatus),
            (\<not> (strict_eq nextStatus (JStr ''resolved'') \<and> \<not> truthy resolution),
             ''Field item resolution is required before resolving.'')]
      (and_then (event_pair cx
        (JObj [(''tenantId'', tenantId), (''actorType'', JStr ''user''), (''actorId'', fld session ''userId''),
          (''action'', JStr ''construction.field_item.updated''), (''resourceType'', JStr ''field_item''),
          (''resourceId'', fld fieldItem ''id''), (''beforeStateRef'', fld fieldItem ''status''), (''afterStateRef'', nextStatus)])
        (JObj [(''eventType'', JStr ''construction.field_item.updated''), (''aggregateType'', JStr ''field_item''),
          (''aggregateId'', fld fieldItem ''id''), (''tenantId'', tenantId), (''payload'', JObj [(''nextStatus'', nextStatus)])]))
       (\<lambda>(auditEvent, outboxEvent).
       Inr (JObj
        [(''fieldItem'', spread fieldItem
           [(''status'', nextStatus), (''resolution'', coalesce resolution (fld fieldItem ''resolution''))]),
         (''auditEvent'', auditEvent),
         (''outboxEvent'', outboxEvent)]))))))"

section \<open>Governance\<close>

definition event_type_set :: "string list" where
  "event_type_set =
    [''project.created'', ''budget.baseline.proposed'', ''design.revision.approved'',
     ''cost.impact.requested'', ''cost.impact.reviewed'', ''approval.threshold.exceeded'',
     ''contract.deliverable.due'', ''permit.status.changed'', ''construction.revision.released'',
     ''compliance.review.required'', ''legal.review.required'']"

definition createGovernanceEvent :: "ctx \<Rightarrow> jsval \<Rightarrow> jsval res" where
  "createGovernanceEvent cx input =
    guard [req (fld input ''eventType'') ''Finance/legal eventType'',
           req (fld input ''tenantId'') ''Finance/legal tenantId'',
           req (fld input ''projectId'') ''Finance/legal projectId'',
           (one_of event_type_set (fld input ''eventType''), ''Unknown finance/legal event type: '' @ js_string (fld input ''eventType''))]
      (Inr (JObj
        [(''eventType'', fld input ''eventType''),
         (''eventVersion'', coalesce (fld input ''eventVersion'') (JNum 1)),
         (''tenantId'', fld input ''tenantId''),
         (''projectId'', fld input ''projectId''),
         (''revisionId'', coalesce (fld input ''revisionId'') JNull),
         (''estimatedCostImpact'', coalesce (fld input ''estimatedCostImpact'') JNull),
         (''requiresFinanceReview'', coalesce (fld input ''requiresFinanceReview'') (JBool False)),
         (''requiresLegalReview'', coalesce (fld input ''requiresLegalReview'') (JBool False)),
         (''occurredAt'', coalesce (fld input ''occurredAt'') (JStr (ctx_now cx))),
         (''correlationId'', coalesce (fld input ''correlationId'') (JStr (''corr-'' @ js_string (fld input ''projectId'') @ ''-'' @ js_string (fld input ''eventType'')))),
         (''staged'', JBool True)]))"

definition flagged :: "string \<Rightarrow> jsval list \<Rightarrow> jsval list res" where
  "flagged k events = filter_res (\<lambda>event. and_then (get_fld event k) (\<lambda>v. Inr (is_true v))) events"

definition routeGovernanceQueues :: "jsval list \<Rightarrow> jsval res" where
  "routeGovernanceQueues events =
    and_then (flagged ''requiresFinanceReview'' events) (\<lambda>financeQueue.
    and_then (flagged ''requiresLegalReview'' events) (\<lambda>legalQueue.
    Inr (JObj [(''financeQueue'', JArr financeQueue), (''legalQueue'', JArr legalQueue), (''staged'', JBool True)])))"

definition emitGovernanceAudit :: "ctx \<Rightarrow> jsval \<Rightarrow> jsval \<Rightarrow> jsval res" where
  "emitGovernanceAudit cx session governanceEvent =
    and_then (get_fld governanceEvent ''tenantId'') (\<lambda>tenantId.
    and_then (project_guards session tenantId (fld governanceEvent ''projectId'')) (\<lambda>_.
    and_then (event_pair cx
       (JObj [(''tenantId'', tenantId), (''actorType'', JStr ''user''), (''actorId'', fld session ''userId''),
         (''action'', JStr (''finance_contract.'' @ js_string (fld governanceEvent ''eventType''))),
         (''resourceType'', JStr ''governance_event''), (''resourceId'', fld governanceEvent ''correlationId'')])
       (JObj [(''eventType'', fld governanceEvent ''eventType''), (''aggregateType'', JStr ''governance_event''),
         (''aggregateId'', fld governanceEvent ''correlationId''), (''tenantId'', tenantId), (''payload'', governanceEvent)]))
      (\<lambda>(auditEvent, outboxEvent).
    Inr (JObj [(''auditEvent'', auditEvent), (''outboxEvent'', outboxEvent)]))))"

end
