(* ===== verification/Documents.thy ===== *)
theory Documents
  imports AuditTrail Contracts JsNumber
begin

text \<open>
  Project documents: file records, revisions, check-out and upload validation
  (packages/documents/src/index.js), drawing sheets (packages/drawings/src/index.js), models and their
  derivatives (packages/models/src/index.js), and knowledge sources (packages/knowledge/src/index.js).
  Arguments that the code maps or filters over are lists.
\<close>

section \<open>File records\<close>

definition file_class_set :: "string list" where
  "file_class_set =
    [''general_document'', ''design_file'', ''drawing_source'', ''model_source'',
     ''review_artifact'', ''permit_document'']"

definition file_status_set :: "string list" where
  "file_status_set =
    [''uploaded'', ''quarantined'', ''validated'', ''checked_out'', ''approved'', ''superseded'']"

definition safe_char :: "char \<Rightarrow> bool" where
  "safe_char c = (let n = (of_char c :: nat) in
     65 \<le> n \<and> n \<le> 90 \<or> 97 \<le> n \<and> n \<le> 122 \<or> is_digit c \<or> c \<in> set ''._-'')"

definition safe_filename :: "string \<Rightarrow> string" where
  "safe_filename s = map (\<lambda>c. if safe_char c then c else CHR ''_'') s"

definition createFileRecord :: "ctx \<Rightarrow> jsval \<Rightarrow> jsval res" where
  "createFileRecord cx input =
    guard [req (fld input ''id'') ''File record id'',
           req (fld input ''tenantId'') ''File record tenantId'',
           req (fld input ''projectId'') ''File record projectId'',
           req (fld input ''fileClass'') ''File record fileClass'',
           req (fld input ''originalFilename'') ''File record originalFilename'',
           req (fld input ''mimeType'') ''File record mimeType'',
           req (fld input ''detectedType'') ''File record detectedType'',
           req (fld input ''storageKey'') ''File record storageKey'',
           (one_of file_class_set (fld input ''fileClass''), ''Unknown file class: '' @ js_string (fld input ''fileClass'')),
           (is_true (fld input ''staged''), ''File records must be staged synthetic records.'')]
      (Inr (JObj
        [(''id'', fld input ''id''),
         (''tenantId'', fld input ''tenantId''),
         (''projectId'', fld input ''projectId''),
         (''discipline'', coalesce (fld input ''discipline'') JNull),
         (''fileClass'', fld input ''fileClass''),
         (''originalFilename'', fld input ''originalFilename''),
         (''safeFilename'', coalesce (fld input ''safeFilename'') (JStr (safe_filename (js_string (fld input ''originalFilename''))))),
         (''mimeType'', fld input ''mimeType''),
         (''detectedType'', fld input ''detectedType''),
         (''sizeBytes'', coalesce (fld input ''sizeBytes'') (JNum 0)),
         (''storageKey'', fld input ''storageKey''),
         (''revision'', coalesce (fld input ''revision'') (JStr ''A'')),
         (''lifecycleStatus'', coalesce (fld input ''lifecycleStatus'') (JStr ''uploaded'')),
         (''visibilityClass'', coalesce (fld input ''visibilityClass'') (JStr ''project_only'')),
         (''integrityHash'', coalesce (fld input ''integrityHash'') (JStr (ctx_sha256 cx (js_string (fld input ''storageKey'') @ '':'' @ js_string (fld input ''originalFilename''))))),
         (''validationState'', coalesce (fld input ''validationState'') (JStr ''pending'')),
         (''malwareScanState'', coalesce (fld input ''malwareScanState'') (JStr ''pending'')),
         (''staged'', JBool True)]))"

definition createFileRevision :: "ctx \<Rightarrow> jsval \<Rightarrow> jsval \<Rightarrow> jsval res" where
  "createFileRevision cx previousRecord input =
    guard [req (fld input ''id'') ''File revision id'',
           req (fld input ''storageKey'') ''File revision storageKey'']
      (and_then (get_fld previousRecord ''id'') (\<lambda>previousId.
       let nextRevision = coalesce (fld input ''revision'') (JStr (js_string (fld previousRecord ''revision'') @ ''.1'')) in
       Inr (spread previousRecord
        [(''id'', fld input ''id''),
         (''storageKey'', fld input ''storageKey''),
         (''revision'', nextRevision),
         (''lifecycleStatus'', coalesce (fld input ''lifecycleStatus'') (JStr ''uploaded'')),
         (''supersededFileId'', previousId),
         (''integrityHash'', coalesce (fld input ''integrityHash'')
            (JStr (ctx_sha256 cx (js_string (fld input ''storageKey'') @ '':'' @ js_string nextRevision)))),
         (''validationState'', coalesce (fld input ''validationState'') (JStr ''pending'')),
         (''malwareScanState'', coalesce (fld input ''malwareScanState'') (JStr ''pending''))])))"

definition checkOutFile :: "jsval \<Rightarrow> jsval \<Rightarrow> jsval res" where
  "checkOutFile session fileRecord =
    and_then (get_fld fileRecord ''tenantId'') (\<lambda>tenantId.
    and_then (project_guards session tenantId (fld fileRecord ''projectId'')) (\<lambda>_.
    guard [(\<not> strict_eq (fld fileRecord ''lifecycleStatus'') (JStr ''approved''),
            ''Approved historical files cannot be mutated in place.'')]
      (Inr (spread fileRecord [(''lifecycleStatus'', JStr ''checked_out'')]))))"

text \<open>\<open>a > b\<close>: texts are compared as texts, everything else as numbers.\<close>

definition js_greater :: "jsval \<Rightarrow> jsval \<Rightarrow> bool" where
  "js_greater a b = (case (a, b) of (JStr s, JStr t) \<Rightarrow> t < s | _ \<Rightarrow> num_less (js_number b) (js_number a))"

definition validateFileUpload :: "jsval \<Rightarrow> jsval \<Rightarrow> jsval \<Rightarrow> jsval \<Rightarrow> jsval res" where
  "validateFileUpload session fileRecord allowedMimeTypes maxSizeBytes =
    and_then (get_fld fileRecord ''tenantId'') (\<lambda>tenantId.
    and_then (project_guards session tenantId (fld fileRecord ''projectId'')) (\<lambda>_.
    and_then (includes_call allowedMimeTypes (fld fileRecord ''mimeType'')) (\<lambda>found.
    guard [(found, ''Upload rejected: MIME type is not allowed.''),
           (\<not> js_greater (fld fileRecord ''sizeBytes'') maxSizeBytes,
            ''Upload rejected: file exceeds staged size limit.'')]
      (Inr (spread fileRecord
        [(''validationState'', JStr ''valid''),
         (''malwareScanState'', JStr ''clean''),
         (''lifecycleStatus'', if one_of file_status_set (fld fileRecord ''lifecycleStatus'')
            then fld fileRecord ''lifecycleStatus'' else JStr ''validated'')])))))"

definition emitFileAudit :: "ctx \<Rightarrow> jsval \<Rightarrow> jsval \<Rightarrow> jsval \<Rightarrow> jsval res" where
  "emitFileAudit cx session fileRecord action =
    and_then (get_fld fileRecord ''tenantId'') (\<lambda>tenantId.
    and_then (get_fld session ''userId'') (\<lambda>userId.
    and_then (createAuditEvent cx (JObj
        [(''tenantId'', tenantId), (''actorType'', JStr ''user''), (''actorId'', userId), (''action'', action),
         (''resourceType'', JStr ''file_record''), (''resourceId'', fld fileRecord ''id'')])) (\<lambda>auditEvent.
    and_then (createOutboxEvent (later cx) (JObj
        [(''eventType'', JStr (''document.'' @ js_string action)), (''aggregateType'', JStr ''file_record''),
         (''aggregateId'', fld fileRecord ''id''), (''tenantId'', tenantId),
         (''payload'', JObj [(''projectId'', fld fileRecord ''projectId''), (''revision'', fld fileRecord ''revision'')])])) (\<lambda>outboxEvent.
    Inr (JObj [(''auditEvent'', auditEvent), (''outboxEvent'', outboxEvent)])))))"

section \<open>Drawings\<close>

definition source_format_set :: "string list" where
  "source_format_set =
    [''pdf'', ''dwg'', ''dxf'']"

definition createDrawingSheet :: "jsval \<Rightarrow> jsval res" where
  "createDrawingSheet input =
    guard [req (fld input ''id'') ''Drawing sheet id'',
           req (fld input ''tenantId'') ''Drawing sheet tenantId'',
           req (fld input ''projectId'') ''Drawing sheet projectId'',
           req (fld input ''fileId'') ''Drawing sheet fileId'',
           req (fld input ''discipline'') ''Drawing sheet discipline'',
           req (fld input ''sheetNumber'') ''Drawing sheet sheetNumber'',
           req (fld input ''sheetTitle'') ''Drawing sheet sheetTitle'',
           req (fld input ''sourceFormat'') ''Drawing sheet sourceFormat'',
           (one_of source_format_set (fld input ''sourceFormat''), ''Unsupported drawing source format: '' @ js_string (fld input ''sourceFormat''))]
      (Inr (JObj
        [(''id'', fld input ''id''),
         (''tenantId'', fld input ''tenantId''),
         (''projectId'', fld input ''projectId''),
         (''fileId'', fld input ''fileId''),
         (''discipline'', fld input ''discipline''),
         (''sheetNumber'', fld input ''sheetNumber''),
         (''sheetTitle'', fld input ''sheetTitle''),
         (''revision'', coalesce (fld input ''revision'') (JStr ''A'')),
         (''sourceFormat'', fld input ''sourceFormat''),
         (''lifecycleStatus'', coalesce (fld input ''lifecycleStatus'') (JStr ''draft'')),
         (''aiReviewStatus'', coalesce (fld input ''aiReviewStatus'') (JStr ''pending'')),
         (''integrityHash'', coalesce (fld input ''integrityHash'') (JStr (js_string (fld input ''fileId'') @ '':'' @ js_string (fld input ''sheetNumber'') @ '':'' @ js_string (coalesce (fld input ''revision'') (JStr ''A''))))),
         (''staged'', JBool True)]))"

definition same_sheet :: "jsval \<Rightarrow> jsval \<Rightarrow> bool" where
  "same_sheet candidateSheet sheet =
    (strict_eq (fld sheet ''projectId'') (fld candidateSheet ''projectId'')
     \<and> strict_eq (fld sheet ''sheetNumber'') (fld candidateSheet ''sheetNumber'')
     \<and> strict_eq (fld sheet ''revision'') (fld candidateSheet ''revision''))"

definition assertUniqueSheetRevision :: "jsval list \<Rightarrow> jsval \<Rightarrow> unit res" where
  "assertUniqueSheetRevision existingSheets candidateSheet =
    (if existingSheets \<noteq> [] \<and> nullish candidateSheet then Inl type_error
     else and_then (find_first (same_sheet candidateSheet) existingSheets) (\<lambda>duplicate.
       guard [(case duplicate of None \<Rightarrow> True | Some d \<Rightarrow> \<not> truthy d,
               ''Drawing sheet collision: sheet number and revision already exist.'')] (Inr ())))"

definition buildSheetIndex :: "jsval list \<Rightarrow> jsval list res" where
  "buildSheetIndex sheets = map_res (\<lambda>sheet.
    and_then (get_fld sheet ''id'') (\<lambda>sheetId.
    Inr (JObj
      [(''sheetId'', sheetId),
       (''sheetNumber'', fld sheet ''sheetNumber''),
       (''title'', fld sheet ''sheetTitle''),
       (''revision'', fld sheet ''revision''),
       (''discipline'', fld sheet ''discipline'')]))) sheets"

section \<open>Models\<close>

definition model_format_set :: "string list" where
  "model_format_set =
    [''rvt'', ''ifc'', ''3dm'', ''obj'', ''glb'', ''stl'']"

definition createModelRecord :: "jsval \<Rightarrow> jsval res" where
  "createModelRecord input =
    guard [req (fld input ''id'') ''Model id'',
           req (fld input ''tenantId'') ''Model tenantId'',
           req (fld input ''projectId'') ''Model projectId'',
           req (fld input ''sourceFileId'') ''Model sourceFileId'',
           req (fld input ''discipline'') ''Model discipline'',
           req (fld input ''modelName'') ''Model modelName'',
           req (fld input ''sourceFormat'') ''Model sourceFormat'',
           (one_of model_format_set (fld input ''sourceFormat''), ''Unsupported model source format: '' @ js_string (fld input ''sourceFormat''))]
      (Inr (JObj
        [(''id'', fld input ''id''),
         (''tenantId'', fld input ''tenantId''),
         (''projectId'', fld input ''projectId''),
         (''sourceFileId'', fld input ''sourceFileId''),
         (''discipline'', fld input ''discipline''),
         (''modelName'', fld input ''modelName''),
         (''sourceFormat'', fld input ''sourceFormat''),
         (''authoringApplication'', coalesce (fld input ''authoringApplication'') (JStr ''declared_unknown'')),
         (''lifecycleStatus'', coalesce (fld input ''lifecycleStatus'') (JStr ''draft'')),
         (''reviewState'', coalesce (fld input ''reviewState'') (JStr ''pending'')),
         (''approvalState'', coalesce (fld input ''approvalState'') (JStr ''unapproved'')),
         (''derivativeArtifacts'', coalesce (fld input ''derivativeArtifacts'') (JArr [])),
         (''integrityHash'', coalesce (fld input ''integrityHash'') (JStr (js_string (fld input ''sourceFileId'') @ '':'' @ js_string (fld input ''modelName'')))),
         (''staged'', JBool True)]))"

definition createModelElementReference :: "jsval \<Rightarrow> jsval res" where
  "createModelElementReference input =
    guard [req (fld input ''id'') ''Model element reference id'',
           req (fld input ''tenantId'') ''Model element reference tenantId'',
           req (fld input ''modelId'') ''Model element reference modelId'',
           req (fld input ''elementId'') ''Model element reference elementId'']
      (Inr (JObj
        [(''id'', fld input ''id''),
         (''tenantId'', fld input ''tenantId''),
         (''modelId'', fld input ''modelId''),
         (''elementId'', fld input ''elementId''),
         (''propertySummary'', coalesce (fld input ''propertySummary'') (JObj [])),
         (''staged'', JBool True)]))"

definition createBrowserDerivative :: "jsval \<Rightarrow> jsval res" where
  "createBrowserDerivative input =
    guard [req (fld input ''id'') ''Browser derivative id'',
           req (fld input ''modelId'') ''Browser derivative modelId'',
           req (fld input ''format'') ''Browser derivative format'',
           (one_of [''glb'', ''thumbnail'', ''ifc_metadata''] (fld input ''format''),
            ''Unsupported derivative format: '' @ js_string (fld input ''format''))]
      (Inr (JObj
        [(''id'', fld input ''id''),
         (''modelId'', fld input ''modelId''),
         (''format'', fld input ''format''),
         (''geometricallyEquivalent'', coalesce (fld input ''geometricallyEquivalent'') (JBool False)),
         (''validationStatus'', coalesce (fld input ''validationStatus'') (JStr ''unverified'')),
         (''staged'', JBool True)]))"

section \<open>Knowledge sources\<close>

definition knowledge_visibility_set :: "string list" where
  "knowledge_visibility_set =
    [''private'', ''participant_only'', ''team_only'', ''department_only'', ''project_only'',
     ''discipline_restricted'', ''restricted_control'', ''finance_restricted'',
     ''legal_restricted'', ''executive_oversight'', ''company_public_summary'']"

definition createKnowledgeSource :: "jsval \<Rightarrow> jsval res" where
  "createKnowledgeSource input =
    guard [req (fld input ''id'') ''Knowledge source id'',
           req (fld input ''tenantId'') ''Knowledge source tenantId'',
           req (fld input ''projectId'') ''Knowledge source projectId'',
           req (fld input ''sourceType'') ''Knowledge source sourceType'',
           req (fld input ''title'') ''Knowledge source title'',
           req (fld input ''visibilityClass'') ''Knowledge source visibilityClass'',
           (one_of knowledge_visibility_set (fld input ''visibilityClass''), ''Unknown visibility class: '' @ js_string (fld input ''visibilityClass''))]
      (Inr (JObj
        [(''id'', fld input ''id''),
         (''tenantId'', fld input ''tenantId''),
         (''projectId'', fld input ''projectId''),
         (''sourceType'', fld input ''sourceType''),
         (''title'', fld input ''title''),
         (''visibilityClass'', fld input ''visibilityClass''),
         (''effectiveDate'', coalesce (fld input ''effectiveDate'') JNull),
         (''chunkRefs'', coalesce (fld input ''chunkRefs'') (JArr [])),
         (''staged'', JBool True)]))"

definition createRetrievedSource :: "jsval \<Rightarrow> jsval res" where
  "createRetrievedSource input =
    guard [req (fld input ''knowledgeSourceId'') ''Retrieved source knowledgeSourceId'',
           req (fld input ''chunkId'') ''Retrieved source chunkId'',
           req (fld input ''excerpt'') ''Retrieved source excerpt'']
      (Inr (JObj
        [(''knowledgeSourceId'', fld input ''knowledgeSourceId''),
         (''chunkId'', fld input ''chunkId''),
         (''excerpt'', fld input ''excerpt''),
         (''effectiveDate'', coalesce (fld input ''effectiveDate'') JNull),
         (''staged'', JBool True)]))"

definition filterKnowledgeSources :: "jsval \<Rightarrow> jsval \<Rightarrow> jsval \<Rightarrow> jsval list \<Rightarrow> jsval list res" where
  "filterKnowledgeSources tenantId projectId visibilityClasses sources =
    filter_res (\<lambda>source.
      and_then (get_fld source ''tenantId'') (\<lambda>t.
      if \<not> strict_eq t tenantId \<or> \<not> strict_eq (fld source ''projectId'') projectId then Inr False
      else if nullish visibilityClasses then Inl type_error
      else includes_call visibilityClasses (fld source ''visibilityClass''))) sources"

section \<open>The life of a file record\<close>

text \<open>
  \<open>file_life cx tenant project checked r\<close>: the record \<open>r\<close> was created in a tenant and project and
  then revised, checked out and validated in some order, by inputs that do not claim a validation
  state of their own; \<open>checked\<close> is the stored object that the last successful validation saw since the
  last revision.
\<close>

inductive file_life :: "ctx \<Rightarrow> jsval \<Rightarrow> jsval \<Rightarrow> jsval option \<Rightarrow> jsval \<Rightarrow> bool" for cx where
  uploaded: "createFileRecord cx input = Inr r \<Longrightarrow> nullish (fld input ''validationState'') \<Longrightarrow>
     file_life cx (fld input ''tenantId'') (fld input ''projectId'') None r"
| revised: "file_life cx t p c r \<Longrightarrow> createFileRevision cx r input = Inr r' \<Longrightarrow>
     nullish (fld input ''validationState'') \<Longrightarrow> file_life cx t p None r'"
| checked_out: "file_life cx t p c r \<Longrightarrow> checkOutFile session r = Inr r' \<Longrightarrow> file_life cx t p c r'"
| validated: "file_life cx t p c r \<Longrightarrow> validateFileUpload session r mimes maximum = Inr r' \<Longrightarrow>
     file_life cx t p (Some (fld r ''storageKey'')) r'"

lemma createFileRecord_fields:
  assumes "createFileRecord cx input = Inr r"
  shows "\<exists>fs. r = JObj fs" "fld r ''tenantId'' = fld input ''tenantId''"
    "fld r ''projectId'' = fld input ''projectId''"
    "fld r ''validationState'' = coalesce (fld input ''validationState'') (JStr ''pending'')"
  using assms unfolding createFileRecord_def guard_Inr by auto

lemma createFileRevision_fields:
  assumes "createFileRevision cx (JObj fs) input = Inr r"
  shows "\<exists>gs. r = JObj gs" "fld r ''tenantId'' = fld (JObj fs) ''tenantId''"
    "fld r ''projectId'' = fld (JObj fs) ''projectId''"
    "fld r ''validationState'' = coalesce (fld input ''validationState'') (JStr ''pending'')"
  using assms unfolding createFileRevision_def guard_Inr get_fld_def
  by (auto simp: fld_spread Let_def)

lemma checkOutFile_fields:
  assumes "checkOutFile session (JObj fs) = Inr r"
  shows "\<exists>gs. r = JObj gs" "k \<noteq> ''lifecycleStatus'' \<Longrightarrow> fld r k = fld (JObj fs) k"
  using assms unfolding checkOutFile_def guard_Inr get_fld_def
  by (auto simp: and_then_Inr guard_Inr fld_spread)

lemma validateFileUpload_fields:
  assumes "validateFileUpload session (JObj fs) mimes maximum = Inr r"
  shows "\<exists>gs. r = JObj gs"
    "k \<notin> {''lifecycleStatus'', ''validationState'', ''malwareScanState''} \<Longrightarrow> fld r k = fld (JObj fs) k"
  using assms unfolding validateFileUpload_def guard_Inr get_fld_def
  by (auto simp: and_then_Inr guard_Inr fld_spread)


definition example_upload :: jsval where
  "example_upload = JObj [(''id'', JStr ''f1''), (''tenantId'', JStr ''t''), (''projectId'', JStr ''p''),
     (''fileClass'', JStr ''design_file''), (''originalFilename'', JStr ''a b.pdf''),
     (''mimeType'', JStr ''application/pdf''), (''detectedType'', JStr ''pdf''),
     (''storageKey'', JStr ''k1''), (''staged'', JBool True)]"

definition example_engineer :: jsval where
  "example_engineer = JObj [(''userId'', JStr ''u''), (''tenantId'', JStr ''t''),
     (''allowedProjectIds'', JArr [JStr ''p'']), (''staged'', JBool True)]"

definition example_file_ctx :: ctx where
  "example_file_ctx = \<lparr>ctx_uuid = (\<lambda>n. ''id''), ctx_now = ''now'', ctx_sha256 = (\<lambda>s. s), ctx_hmac = (\<lambda>k s. s)\<rparr>"

definition example_validated :: "jsval res" where
  "example_validated = and_then (createFileRecord example_file_ctx example_upload) (\<lambda>r.
     validateFileUpload example_engineer r (JArr [JStr ''application/pdf'']) (JNum 10))"

lemma example_validated_life:
  "\<exists>r. example_validated = Inr r
    \<and> file_life example_file_ctx (JStr ''t'') (JStr ''p'') (Some (JStr ''k1'')) r"
proof -
  define r0 where "r0 = ok_value (createFileRecord example_file_ctx example_upload)"
  define r where "r = ok_value example_validated"
  have "isl (createFileRecord example_file_ctx example_upload) = False" by code_simp
  then have r0: "createFileRecord example_file_ctx example_upload = Inr r0"
    unfolding r0_def by (rule ok_value_Inr)
  have "isl example_validated = False" by code_simp
  then have r: "example_validated = Inr r" unfolding r_def by (rule ok_value_Inr)
  then have v: "validateFileUpload example_engineer r0 (JArr [JStr ''application/pdf'']) (JNum 10) = Inr r"
    unfolding example_validated_def r0 by simp
  have "file_life example_file_ctx (fld example_upload ''tenantId'') (fld example_upload ''projectId'') None r0"
    by (rule file_life.uploaded [OF r0]) (simp add: example_upload_def)
  from file_life.validated [OF this v]
  have "file_life example_file_ctx (JStr ''t'') (JStr ''p'') (Some (fld r0 ''storageKey'')) r"
    by (simp add: example_upload_def)
  moreover have "fld r0 ''storageKey'' = JStr ''k1''" unfolding r0_def by code_simp
  ultimately show ?thesis using r by auto
qed


end
