(* ===== verification/AiReview.thy ===== *)
theory AiReview
  imports Coordination JsNumber
begin

text \<open>
  Staged review of drawings and models (packages/ai-review/src/index.js): review runs, the
  deterministic checks over an artifact, evidence, findings with their cautionary language, the
  disposition a person gives a finding, and the evaluation of a run against expected findings.
  Arguments taken apart by a parameter pattern are single parameters; arguments that the code maps
  or filters over are lists.
\<close>

section \<open>Runs, evidence and findings\<close>

definition finding_category_set :: "string list" where
  "finding_category_set =
    [''missing_dimensions'', ''missing_annotations'', ''missing_title_block_information'',
     ''inconsistent_scale_declarations'', ''unresolved_references'', ''missing_sheets'',
     ''incomplete_schedules'', ''duplicate_sheet_numbers'', ''revision_inconsistencies'',
     ''overlapping_geometry'', ''discipline_conflict'', ''clearance_concern'',
     ''missing_model_properties'', ''ids_requirement_failure'', ''potential_code_concern'',
     ''permit_package_completeness_concern'', ''insufficient_information'']"

definition createReviewRun :: "jsval \<Rightarrow> jsval res" where
  "createReviewRun input =
    guard [req (fld input ''id'') ''Review run id'',
           req (fld input ''tenantId'') ''Review run tenantId'',
           req (fld input ''projectId'') ''Review run projectId'',
           req (fld input ''artifactType'') ''Review run artifactType'',
           req (fld input ''artifactId'') ''Review run artifactId'']
      (Inr (JObj
        [(''id'', fld input ''id''),
         (''tenantId'', fld input ''tenantId''),
         (''projectId'', fld input ''projectId''),
         (''artifactType'', fld input ''artifactType''),
         (''artifactId'', fld input ''artifactId''),
         (''status'', coalesce (fld input ''status'') (JStr ''queued'')),
         (''ruleVersion'', coalesce (fld input ''ruleVersion'') (JStr ''rules-v1'')),
         (''modelVersion'', coalesce (fld input ''modelVersion'') (JStr ''model-sim-v1'')),
         (''jurisdictionProfile'', coalesce (fld input ''jurisdictionProfile'') (JNull)),
         (''staged'', JBool True)]))"

definition createEvidenceRecord :: "jsval \<Rightarrow> jsval res" where
  "createEvidenceRecord input =
    guard [req (fld input ''id'') ''Evidence id'',
           req (fld input ''reviewRunId'') ''Evidence reviewRunId'',
           req (fld input ''evidenceType'') ''Evidence evidenceType'',
           req_array (coalesce (fld input ''references'') (JArr [])) ''Evidence references'']
      (Inr (JObj
        [(''id'', fld input ''id''),
         (''reviewRunId'', fld input ''reviewRunId''),
         (''evidenceType'', fld input ''evidenceType''),
         (''references'', fld input ''references''),
         (''excerpt'', coalesce (fld input ''excerpt'') (JNull)),
         (''staged'', JBool True)]))"

text \<open>A value that a check has found to be a text.\<close>

definition string_value :: "jsval \<Rightarrow> string" where
  "string_value v = (case v of JStr s \<Rightarrow> s | _ \<Rightarrow> [])"

definition createFinding :: "jsval \<Rightarrow> jsval res" where
  "createFinding input =
    guard [req (fld input ''id'') ''Finding id'',
           req (fld input ''reviewRunId'') ''Finding reviewRunId'',
           req (fld input ''category'') ''Finding category'',
           req (fld input ''title'') ''Finding title'',
           req (fld input ''description'') ''Finding description'',
           req (fld input ''severity'') ''Finding severity'',
           (one_of finding_category_set (fld input ''category''), ''Unknown finding category: '' @ js_string (fld input ''category'')),
           (contains (string_value (fld input ''description'')) ''Potential issue''
              \<or> contains (string_value (fld input ''description'')) ''Requires qualified review'',
            ''AI findings must use staged cautionary language.'')]
      (Inr (JObj
        [(''id'', fld input ''id''),
         (''reviewRunId'', fld input ''reviewRunId''),
         (''ruleOrModelVersion'', coalesce (fld input ''ruleOrModelVersion'') (JStr ''hybrid-v1'')),
         (''category'', fld input ''category''),
         (''title'', fld input ''title''),
         (''description'', fld input ''description''),
         (''severity'', fld input ''severity''),
         (''confidence'', coalesce (fld input ''confidence'') (JStr ''medium'')),
         (''evidenceType'', coalesce (fld input ''evidenceType'') (JStr ''hybrid'')),
         (''evidenceReferences'', coalesce (fld input ''evidenceReferences'') (JArr [])),
         (''referencedStandard'', coalesce (fld input ''referencedStandard'') (JNull)),
         (''jurisdictionProfile'', coalesce (fld input ''jurisdictionProfile'') (JNull)),
         (''assumptions'', coalesce (fld input ''assumptions'') (JArr [])),
         (''missingInformation'', coalesce (fld input ''missingInformation'') (JArr [])),
         (''suggestedNextAction'', coalesce (fld input ''suggestedNextAction'') (JStr ''Requires qualified review'')),
         (''assignedDiscipline'', coalesce (fld input ''assignedDiscipline'') (JNull)),
         (''humanDisposition'', coalesce (fld input ''humanDisposition'') (JStr ''pending'')),
         (''staged'', JBool True)]))"


section \<open>The deterministic checks\<close>

definition classifyArtifact :: "jsval \<Rightarrow> jsval \<Rightarrow> jsval res" where
  "classifyArtifact reviewRun artifact =
    and_then (get_fld artifact ''sheetNumber'') (\<lambda>sheetNumber.
    and_then (if truthy sheetNumber then Inr (JStr ''drawing_sheet'')
              else if truthy (fld artifact ''modelName'') then Inr (JStr ''bim_model'')
              else get_fld reviewRun ''artifactType'') (\<lambda>artifactType.
    Inr (spread reviewRun [(''artifactType'', artifactType), (''status'', JStr ''classified'')])))"

text \<open>The category and description of every check that fires, in the order of the code.\<close>

definition rule_findings :: "jsval \<Rightarrow> (string \<times> string) list" where
  "rule_findings artifact =
    (if truthy (fld artifact ''sheetNumber'') \<and> \<not> truthy (fld artifact ''sheetTitle'')
     then [(''missing_annotations'', ''Potential issue: drawing sheet title is missing.'')] else []) @
    (if truthy (fld artifact ''sheetNumber'') \<and> strict_eq (fld artifact ''aiReviewStatus'') (JStr ''pending'')
     then [(''permit_package_completeness_concern'',
            ''Potential issue: sheet has not completed staged AI review status.'')] else []) @
    (if truthy (fld artifact ''modelName'') \<and> strict_eq (fld artifact ''approvalState'') (JStr ''unapproved'')
     then [(''missing_model_properties'', ''Potential issue: model approval state remains unapproved.'')] else [])"

definition rule_result :: "jsval \<Rightarrow> nat \<Rightarrow> string \<times> string \<Rightarrow> jsval" where
  "rule_result reviewRun index finding = JObj
    [(''id'', JStr (js_string (fld reviewRun ''id'') @ ''-rule-'' @ nat_string (index + 1))),
     (''reviewRunId'', fld reviewRun ''id''),
     (''ruleVersion'', fld reviewRun ''ruleVersion''),
     (''category'', JStr (fst finding)),
     (''description'', JStr (snd finding)),
     (''deterministic'', JBool True),
     (''staged'', JBool True)]"

definition runDeterministicChecks :: "jsval \<Rightarrow> jsval \<Rightarrow> jsval list res" where
  "runDeterministicChecks reviewRun artifact =
    (if nullish artifact \<or> rule_findings artifact \<noteq> [] \<and> nullish reviewRun then Inl type_error
     else Inr (map (\<lambda>(index, finding). rule_result reviewRun index finding)
                 (enumerate 0 (rule_findings artifact))))"

definition assembleFindingFromRule :: "jsval \<Rightarrow> jsval \<Rightarrow> jsval list \<Rightarrow> jsval res" where
  "assembleFindingFromRule reviewRun ruleResult evidenceRecords =
    and_then (get_fld ruleResult ''id'') (\<lambda>ruleId.
    and_then (get_fld reviewRun ''id'') (\<lambda>runId.
    and_then (map_res (\<lambda>record. get_fld record ''id'') evidenceRecords) (\<lambda>references.
    createFinding (JObj
      [(''id'', JStr (js_string ruleId @ ''-finding'')),
       (''reviewRunId'', runId),
       (''ruleOrModelVersion'', fld ruleResult ''ruleVersion''),
       (''category'', fld ruleResult ''category''),
       (''title'', JStr ''Staged review finding''),
       (''description'', JStr (js_string (fld ruleResult ''description'') @ '' Requires qualified review.'')),
       (''severity'', JStr ''medium''),
       (''evidenceType'', JStr ''deterministic_rule''),
       (''evidenceReferences'', JArr references),
       (''assignedDiscipline'', JStr ''architecture'')]))))"

definition runReviewIntake :: "jsval \<Rightarrow> jsval \<Rightarrow> jsval \<Rightarrow> jsval res" where
  "runReviewIntake session reviewRun artifact =
    and_then (get_fld reviewRun ''tenantId'') (\<lambda>tenantId.
    and_then (project_guards session tenantId (fld reviewRun ''projectId'')) (\<lambda>_.
    and_then (classifyArtifact (spread reviewRun [(''status'', JStr ''intake_validated'')]) artifact) (\<lambda>classifiedRun.
    and_then (runDeterministicChecks classifiedRun artifact) (\<lambda>ruleResults.
    Inr (JObj
      [(''reviewRun'', spread classifiedRun
          [(''status'', JStr (if 0 < length ruleResults then ''awaiting_human_review'' else ''completed''))]),
       (''ruleResults'', JArr ruleResults)])))))"

section \<open>Disposition, evaluation and events\<close>

definition human_disposition_set :: "string list" where
  "human_disposition_set =
    [''pending'', ''accepted'', ''rejected_false_positive'', ''needs_more_information'',
     ''converted_to_issue'']"

definition setHumanDisposition :: "jsval \<Rightarrow> jsval \<Rightarrow> jsval \<Rightarrow> jsval \<Rightarrow> jsval res" where
  "setHumanDisposition session finding nextDisposition relatedIssueId =
    (let related = default_arg relatedIssueId JNull in
     guard [(one_of human_disposition_set nextDisposition,
             ''Unknown human disposition: '' @ js_string nextDisposition),
            (\<not> (strict_eq nextDisposition (JStr ''converted_to_issue'') \<and> \<not> truthy related),
             ''Converted findings require a related issue id.'')]
       (Inr (spread finding [(''humanDisposition'', nextDisposition), (''relatedIssueId'', related)])))"

definition set_has :: "jsval list \<Rightarrow> jsval \<Rightarrow> bool" where
  "set_has items v = (\<exists>w \<in> set items. same_value_zero w v)"

definition rate :: "nat \<Rightarrow> nat \<Rightarrow> jsval" where
  "rate part whole = (if whole = 0 then JNum 0 else JNum (of_nat part / of_nat whole))"

definition evaluateReviewRun :: "jsval list \<Rightarrow> jsval list \<Rightarrow> jsval" where
  "evaluateReviewRun expected actual =
    (let truePositives = length (filter (set_has expected) actual);
         falsePositives = length (filter (\<lambda>item. \<not> set_has expected item) actual);
         falseNegatives = length (filter (\<lambda>item. \<not> set_has actual item) expected)
     in JObj
      [(''precision'', rate truePositives (length actual)),
       (''recall'', rate truePositives (length expected)),
       (''falsePositiveRate'', rate falsePositives (length actual)),
       (''falseNegatives'', JNum (of_nat falseNegatives))])"

definition emitAiReviewAudit :: "ctx \<Rightarrow> jsval \<Rightarrow> jsval \<Rightarrow> jsval \<Rightarrow> jsval \<Rightarrow> jsval res" where
  "emitAiReviewAudit cx session reviewRun finding action =
    and_then (get_fld reviewRun ''tenantId'') (\<lambda>tenantId.
    and_then (get_fld session ''userId'') (\<lambda>userId.
    and_then (get_fld finding ''id'') (\<lambda>findingId.
    and_then (event_pair cx
       (JObj [(''tenantId'', tenantId), (''actorType'', JStr ''user''), (''actorId'', userId), (''action'', action),
         (''resourceType'', JStr ''ai_finding''), (''resourceId'', findingId)])
       (JObj [(''eventType'', action), (''aggregateType'', JStr ''ai_finding''), (''aggregateId'', findingId),
         (''tenantId'', tenantId), (''payload'', JObj [(''reviewRunId'', fld reviewRun ''id'')])]))
      (\<lambda>(auditEvent, outboxEvent).
    Inr (JObj [(''auditEvent'', auditEvent), (''outboxEvent'', outboxEvent)])))))"

section \<open>Properties\<close>

lemma createReviewRun_fields:
  assumes "createReviewRun input = Inr run"
  shows "\<exists>fs. run = JObj fs" "fld run ''id'' = fld input ''id''" "nonblank (fld run ''id'')"
  using assms unfolding createReviewRun_def guard_Inr by auto

lemma classifyArtifact_result:
  assumes "classifyArtifact run artifact = Inr run'"
  obtains artifactType where
    "run' = spread run [(''artifactType'', artifactType), (''status'', JStr ''classified'')]"
  using assms that unfolding classifyArtifact_def and_then_Inr by blast

lemma runReviewIntake_result:
  assumes "runReviewIntake session run artifact = Inr out"
  obtains run' artifactType where
    "run' = spread (spread run [(''status'', JStr ''intake_validated'')])
       [(''artifactType'', artifactType), (''status'', JStr ''classified'')]"
    "fld out ''reviewRun'' = spread run' [(''status'', JStr (if rule_findings artifact \<noteq> [] then ''awaiting_human_review'' else ''completed''))]"
    "fld out ''ruleResults'' = JArr (map (\<lambda>(index, finding). rule_result run' index finding)
       (enumerate 0 (rule_findings artifact)))"
proof -
  from assms obtain run' results where
    cl: "classifyArtifact (spread run [(''status'', JStr ''intake_validated'')]) artifact = Inr run'"
    and res: "runDeterministicChecks run' artifact = Inr results"
    and out: "out = JObj
      [(''reviewRun'', spread run'
          [(''status'', JStr (if 0 < length results then ''awaiting_human_review'' else ''completed''))]),
       (''ruleResults'', JArr results)]"
    unfolding runReviewIntake_def and_then_Inr by (metis sum.inject(2))
  have results: "results = map (\<lambda>(index, finding). rule_result run' index finding)
       (enumerate 0 (rule_findings artifact))"
    using res unfolding runDeterministicChecks_def by (simp split: if_splits)
  have n: "0 < length results \<longleftrightarrow> rule_findings artifact \<noteq> []" unfolding results by simp
  from classifyArtifact_result [OF cl] obtain ty where
    "run' = spread (spread run [(''status'', JStr ''intake_validated'')])
       [(''artifactType'', ty), (''status'', JStr ''classified'')]" by blast
  from this show thesis by (rule that) (simp_all only: out n, simp_all add: results)
qed

text \<open>Every finding of the checks is in a known category and cautious.\<close>

lemma rule_findings_known:
  assumes "finding \<in> set (rule_findings artifact)"
  shows "fst finding \<in> set finding_category_set" "nonblank (JStr (fst finding))"
proof -
  have mem: "''missing_annotations'' \<in> set finding_category_set"
    "''permit_package_completeness_concern'' \<in> set finding_category_set"
    "''missing_model_properties'' \<in> set finding_category_set" by code_simp+
  have nb: "nonblank (JStr ''missing_annotations'')" "nonblank (JStr ''permit_package_completeness_concern'')"
    "nonblank (JStr ''missing_model_properties'')" by code_simp+
  show "fst finding \<in> set finding_category_set" "nonblank (JStr (fst finding))"
    using assms mem nb unfolding rule_findings_def by (auto split: if_splits)
qed

text \<open>A text with a suffix that is not blank is not blank.\<close>

lemma nonblank_append:
  assumes "c \<in> set s" "\<not> js_ws c"
  shows "nonblank (JStr (t @ s))" "nonblank (JStr (s @ t))"
proof -
  have "js_trim u \<noteq> []" if "c \<in> set u" for u
  proof -
    have "c \<in> set (dropWhile js_ws u)"
      using that assms(2) by (metis Un_iff set_append set_takeWhileD takeWhile_dropWhile_id)
    with assms(2) show ?thesis unfolding js_trim_def rev_is_Nil_conv dropWhile_eq_Nil_conv set_rev by blast
  qed
  with assms(1) show "nonblank (JStr (t @ s))" "nonblank (JStr (s @ t))" by (simp_all add: nonblank_def)
qed

text \<open>
  The review pipeline: every result that the intake of a created run reports can be assembled into a
  finding, whatever the evidence; the finding is about that run, pending and phrased as needing a
  qualified review, and the run waits for a person.
\<close>

theorem intake_findings_assemble:
  assumes run: "createReviewRun input = Inr run"
    and intake: "runReviewIntake session run artifact = Inr out"
    and result: "fld out ''ruleResults'' = JArr results" "r \<in> set results"
    and evidence: "list_all (\<lambda>e. \<not> nullish e) evidence"
  shows "\<exists>f. assembleFindingFromRule (fld out ''reviewRun'') r evidence = Inr f
    \<and> fld f ''reviewRunId'' = fld input ''id'' \<and> fld f ''humanDisposition'' = JStr ''pending''
    \<and> contains (string_value (fld f ''description'')) ''Requires qualified review''
    \<and> fld (fld out ''reviewRun'') ''status'' = JStr ''awaiting_human_review''"
proof -
  obtain fs where run_obj: "run = JObj fs" and id: "fld run ''id'' = fld input ''id''" "nonblank (fld run ''id'')"
    using createReviewRun_fields [OF run] by blast
  obtain run' ty where run': "run' = spread (spread run [(''status'', JStr ''intake_validated'')])
       [(''artifactType'', ty), (''status'', JStr ''classified'')]"
    and out: "fld out ''reviewRun'' = spread run' [(''status'', JStr (if rule_findings artifact \<noteq> [] then ''awaiting_human_review'' else ''completed''))]"
    and results: "fld out ''ruleResults'' = JArr (map (\<lambda>(index, finding). rule_result run' index finding)
       (enumerate 0 (rule_findings artifact)))"
    by (rule runReviewIntake_result [OF intake])
  obtain gs where run'_obj: "run' = JObj gs" using run' spread_is_obj by blast
  have run'_id: "fld run' ''id'' = fld input ''id''"
    using run' id(1) spread_is_obj [of run "[(''status'', JStr ''intake_validated'')]"]
    by (auto simp: fld_spread run_obj spread_def fold_set_fld_obj)
  from result results obtain k finding where r: "r = rule_result run' k finding"
    and fin: "finding \<in> set (rule_findings artifact)"
    by (fastforce simp: set_map in_set_enumerate_eq dest: nth_mem)
  have known: "one_of finding_category_set (JStr (fst finding))" "nonblank (JStr (fst finding))"
    using rule_findings_known [OF fin] by simp_all
  have out_id: "fld (fld out ''reviewRun'') ''id'' = fld input ''id''"
    and status: "fld (fld out ''reviewRun'') ''status'' = JStr ''awaiting_human_review''"
    using out run'_id fin unfolding run'_obj by (auto simp: fld_spread)
  have not_null: "\<not> nullish (fld out ''reviewRun'')" unfolding out by simp
  obtain refs where refs: "map_res (\<lambda>record. get_fld record ''id'') evidence = Inr refs"
    using evidence by (induction evidence) (auto simp: get_fld_def)
  have nb: "nonblank (JStr (t @ ''-finding''))" "nonblank (JStr (t @ '' Requires qualified review.''))" for t
    by (rule nonblank_append(1) [of "CHR ''i''"]; code_simp)+
  have lits: "nonblank (JStr ''Staged review finding'')" "nonblank (JStr ''medium'')" by code_simp+
  have cautious: "contains (t @ '' Requires qualified review.'') ''Requires qualified review''" for t
    using contains_append [of "t @ '' ''" "''Requires qualified review''" "''.''"] by simp
  have r_obj: "r = JObj [(''id'', JStr (js_string (fld run' ''id'') @ ''-rule-'' @ nat_string (k + 1))),
     (''reviewRunId'', fld run' ''id''), (''ruleVersion'', fld run' ''ruleVersion''),
     (''category'', JStr (fst finding)), (''description'', JStr (snd finding)),
     (''deterministic'', JBool True), (''staged'', JBool True)]"
    unfolding r rule_result_def by simp
  have "nonblank (fld input ''id'')" using id by simp
  then show ?thesis
    using known status not_null refs nb lits cautious unfolding r_obj assembleFindingFromRule_def createFinding_def
    by (simp add: get_fld_def out_id string_value_def guard_all)
qed

definition example_run_input :: jsval where
  "example_run_input = JObj [(''id'', JStr ''r1''), (''tenantId'', JStr ''t''), (''projectId'', JStr ''p''),
     (''artifactType'', JStr ''other''), (''artifactId'', JStr ''a1'')]"

definition example_reviewer :: jsval where
  "example_reviewer = JObj [(''userId'', JStr ''u''), (''tenantId'', JStr ''t''),
     (''allowedProjectIds'', JArr [JStr ''p'']), (''staged'', JBool True)]"

definition example_sheet :: jsval where
  "example_sheet = JObj [(''sheetNumber'', JStr ''A1''), (''aiReviewStatus'', JStr ''pending'')]"

definition example_run :: jsval where
  "example_run = ok_value (createReviewRun example_run_input)"

definition example_intake :: jsval where
  "example_intake = ok_value (runReviewIntake example_reviewer example_run example_sheet)"

definition example_results :: "jsval list" where
  "example_results = [rule_result (fld example_intake ''reviewRun'') 0
      (''missing_annotations'', ''Potential issue: drawing sheet title is missing.''),
    rule_result (fld example_intake ''reviewRun'') 1
      (''permit_package_completeness_concern'', ''Potential issue: sheet has not completed staged AI review status.'')]"

lemma intake_findings_assemble_witness:
  "\<exists>f. assembleFindingFromRule (fld example_intake ''reviewRun'') (example_results ! 1) [JObj []] = Inr f
    \<and> fld f ''reviewRunId'' = fld example_run_input ''id'' \<and> fld f ''humanDisposition'' = JStr ''pending''
    \<and> contains (string_value (fld f ''description'')) ''Requires qualified review''
    \<and> fld (fld example_intake ''reviewRun'') ''status'' = JStr ''awaiting_human_review''"
proof (rule intake_findings_assemble)
  have "isl (createReviewRun example_run_input) = False" by code_simp
  then show "createReviewRun example_run_input = Inr example_run" unfolding example_run_def by (rule ok_value_Inr)
  have "isl (runReviewIntake example_reviewer example_run example_sheet) = False" by code_simp
  then show "runReviewIntake example_reviewer example_run example_sheet = Inr example_intake"
    unfolding example_intake_def by (rule ok_value_Inr)
  show "fld example_intake ''ruleResults'' = JArr example_results" by code_simp
  show "example_results ! 1 \<in> set example_results" by (simp add: example_results_def)
  show "list_all (\<lambda>e. \<not> nullish e) [JObj []]" by simp
qed

lemma set_has_texts: "set_has (map JStr es) (JStr a) \<longleftrightarrow> a \<in> set es"
  by (auto simp: set_has_def)

lemma filter_set_has:
  "filter (set_has (map JStr es)) (map JStr as) = map JStr (filter (\<lambda>a. a \<in> set es) as)"
  "filter (\<lambda>item. \<not> set_has (map JStr es) item) (map JStr as) = map JStr (filter (\<lambda>a. a \<notin> set es) as)"
  by (simp_all add: filter_map comp_def set_has_texts)

lemma filter_complement_length: "length (filter P xs) + length (filter (\<lambda>x. \<not> P x) xs) = length xs"
  by (induction xs) auto

text \<open>Without repetitions, both lists have the same number of elements in common.\<close>

lemma common_elements:
  assumes "distinct xs" "distinct ys"
  shows "length (filter (\<lambda>x. x \<in> set ys) xs) = length (filter (\<lambda>y. y \<in> set xs) ys)"
proof -
  have "length (filter (\<lambda>x. x \<in> set ys) xs) = card (set (filter (\<lambda>x. x \<in> set ys) xs))"
    using assms(1) by (metis distinct_card distinct_filter)
  also have "set (filter (\<lambda>x. x \<in> set ys) xs) = set (filter (\<lambda>y. y \<in> set xs) ys)" by auto
  also have "card \<dots> = length (filter (\<lambda>y. y \<in> set xs) ys)"
    using assms(2) by (metis distinct_card distinct_filter)
  finally show ?thesis .
qed

text \<open>
  The evaluation of a run, for a nonempty report and a nonempty expectation without repetitions:
  precision and false-positive rate are fractions that add up to one, recall is a fraction, recall and
  misses account for every expected finding, and both rates count the same findings.
\<close>

theorem evaluation_rates:
  assumes "actual \<noteq> []" "expected \<noteq> []" "distinct actual" "distinct expected"
  shows "\<exists>p q r m. evaluateReviewRun (map JStr expected) (map JStr actual) = JObj
      [(''precision'', JNum p), (''recall'', JNum r), (''falsePositiveRate'', JNum q), (''falseNegatives'', JNum m)]
    \<and> 0 \<le> p \<and> 0 \<le> q \<and> p + q = 1 \<and> 0 \<le> r \<and> r \<le> 1
    \<and> r * of_nat (length expected) + m = of_nat (length expected)
    \<and> r * of_nat (length expected) = p * of_nat (length actual)"
proof -
  define tp fp fn where "tp = length (filter (\<lambda>a. a \<in> set expected) actual)"
    and "fp = length (filter (\<lambda>a. a \<notin> set expected) actual)"
    and "fn = length (filter (\<lambda>e. e \<notin> set actual) expected)"
  define n m where "n = (of_nat (length actual) :: rat)" and "m = (of_nat (length expected) :: rat)"
  have pos: "0 < n" "0 < m" using assms unfolding n_def m_def by simp_all
  have "tp + fp = length actual" unfolding tp_def fp_def by (rule filter_complement_length)
  moreover have "tp + fn = length expected"
    unfolding tp_def fn_def common_elements [OF assms(3,4)] by (rule filter_complement_length)
  ultimately have sum: "of_nat tp + of_nat fp = n" "of_nat tp + of_nat fn = m"
    unfolding n_def m_def by (metis of_nat_add)+
  have ev: "evaluateReviewRun (map JStr expected) (map JStr actual) = JObj
      [(''precision'', JNum (of_nat tp / n)), (''recall'', JNum (of_nat tp / m)),
       (''falsePositiveRate'', JNum (of_nat fp / n)), (''falseNegatives'', JNum (of_nat fn))]"
    using assms(1,2) unfolding evaluateReviewRun_def Let_def filter_set_has tp_def fp_def fn_def n_def m_def
    by (simp add: rate_def)
  have "of_nat tp / n + of_nat fp / n = 1" using pos sum by (simp add: add_divide_distrib [symmetric])
  moreover have "of_nat tp / m \<le> 1" using pos sum(2) by (simp add: divide_le_eq_1)
  moreover have "of_nat tp / m * m + of_nat fn = m" "of_nat tp / m * m = of_nat tp / n * n"
    using pos sum(2) by simp_all
  moreover have "0 \<le> of_nat tp / n" "0 \<le> of_nat fp / n" "0 \<le> of_nat tp / m" using pos by simp_all
  ultimately show ?thesis unfolding ev n_def [symmetric] m_def [symmetric] by blast
qed

lemma evaluation_rates_witness:
  "\<exists>p q r m. evaluateReviewRun (map JStr [''a'', ''b'']) (map JStr [''b'', ''c'', ''d'']) = JObj
      [(''precision'', JNum p), (''recall'', JNum r), (''falsePositiveRate'', JNum q), (''falseNegatives'', JNum m)]
    \<and> 0 \<le> p \<and> 0 \<le> q \<and> p + q = 1 \<and> 0 \<le> r \<and> r \<le> 1
    \<and> r * of_nat (length [''a'', ''b'']) + m = of_nat (length [''a'', ''b''])
    \<and> r * of_nat (length [''a'', ''b'']) = p * of_nat (length [''b'', ''c'', ''d''])"
  by (rule evaluation_rates) simp_all

text \<open>A reported finding that is repeated counts twice: recall can exceed one.\<close>

lemma recall_of_repeated_finding:
  "fld (evaluateReviewRun [JStr ''a''] [JStr ''a'', JStr ''a'']) ''recall'' = JNum 2"
  by code_simp

end
