(* ===== verification/Integrations.thy ===== *)
theory Integrations
  imports Coordination JsNumber
begin

text \<open>
  Staged hand-over to other platforms (packages/integrations/src/index.js): transfer packages, the
  mock adapters with their operations, one per provider, and the simulated pipeline. An adapter is
  its provider's name: it keeps no other state.
\<close>

section \<open>Adapters\<close>

definition provider_set :: "string list" where
  "provider_set = [''autodesk_aps'', ''procore'', ''trimble_connect'', ''microsoft_graph'']"

definition makeAdapter :: "string \<Rightarrow> string res" where
  "makeAdapter provider = guard [(provider \<in> set provider_set, ''Unknown provider: '' @ provider)] (Inr provider)"

definition validateConfiguration :: "string \<Rightarrow> jsval \<Rightarrow> jsval res" where
  "validateConfiguration provider config =
    and_then (get_fld (default_arg config (JObj [])) ''staged'') (\<lambda>staged.
    guard [(is_true staged, provider @ '' adapter requires staged=true.'')]
      (and_then (assertStagedOutboundOperation (JObj
          [(''config'', JObj []),
           (''target'', coalesce (fld config ''documentationHost'') (JStr ''https://example.invalid/docs'')),
           (''method'', JStr ''GET'')])) (\<lambda>_.
       Inr (JObj [(''valid'', JBool True), (''provider'', JStr provider), (''mode'', JStr ''mock_only'')]))))"

definition validatePackage :: "string \<Rightarrow> jsval \<Rightarrow> jsval res" where
  "validatePackage provider transferPackage =
    guard [req (fld transferPackage ''id'') ''Transfer package id'',
           req (fld transferPackage ''tenantId'') ''Transfer package tenantId'',
           req (fld transferPackage ''projectId'') ''Transfer package projectId'',
           req_array (coalesce (fld transferPackage ''sheetManifest'') (JArr [])) ''Transfer package sheetManifest'',
           req_array (coalesce (fld transferPackage ''modelManifest'') (JArr [])) ''Transfer package modelManifest'']
      (and_then (get_fld (fld transferPackage ''sheetManifest'') ''length'') (\<lambda>sheets.
       and_then (get_fld (fld transferPackage ''modelManifest'') ''length'') (\<lambda>models.
       Inr (JObj [(''valid'', JBool True), (''provider'', JStr provider),
         (''manifestCounts'', JObj [(''sheets'', sheets), (''models'', models)])]))))"

definition simulateAuthentication :: "string \<Rightarrow> jsval \<Rightarrow> jsval res" where
  "simulateAuthentication provider config =
    and_then (validateConfiguration provider (default_arg config (JObj []))) (\<lambda>_.
    Inr (JObj [(''provider'', JStr provider), (''authenticated'', JBool True), (''staged'', JBool True),
      (''tokenType'', JStr ''simulated_bearer''), (''expiresInSeconds'', JNum 3600)]))"

definition simulateTransfer :: "string \<Rightarrow> jsval \<Rightarrow> jsval \<Rightarrow> jsval res" where
  "simulateTransfer provider transferPackage config =
    and_then (validateConfiguration provider (default_arg config (JObj []))) (\<lambda>_.
    and_then (validatePackage provider transferPackage) (\<lambda>_.
    Inr (JObj [(''provider'', JStr provider),
      (''transferId'', JStr (''transfer-'' @ provider @ ''-'' @ js_string (fld transferPackage ''id''))),
      (''status'', JStr ''simulated_queued''), (''staged'', JBool True)])))"

definition simulation_state :: "string \<Rightarrow> jsval \<Rightarrow> string \<Rightarrow> jsval res" where
  "simulation_state provider transferId status =
    guard [req transferId ''Transfer id'']
      (Inr (JObj [(''provider'', JStr provider), (''transferId'', transferId), (''status'', JStr status), (''staged'', JBool True)]))"

definition getSimulatedStatus :: "string \<Rightarrow> jsval \<Rightarrow> jsval res" where
  "getSimulatedStatus provider transferId = simulation_state provider transferId ''simulated_completed''"

definition cancelSimulation :: "string \<Rightarrow> jsval \<Rightarrow> jsval res" where
  "cancelSimulation provider transferId = simulation_state provider transferId ''simulated_cancelled''"

definition generateTransferReport :: "string \<Rightarrow> jsval \<Rightarrow> jsval res" where
  "generateTransferReport provider transferPackage =
    and_then (validatePackage provider transferPackage) (\<lambda>_.
    Inr (JObj [(''provider'', JStr provider), (''transferPackageId'', fld transferPackage ''id''),
      (''reportStatus'', JStr ''generated''), (''staged'', JBool True)]))"

text \<open>The three write operations of every adapter.\<close>

definition live_write :: "string \<Rightarrow> jsval res" where
  "live_write provider = Inl (Err (provider @ '' live write operations remain disabled in staged mode.''))"

definition getProviderAdapters :: "(string \<times> string) list res" where
  "getProviderAdapters = map_res (\<lambda>p. and_then (makeAdapter p) (\<lambda>a. Inr (p, a)))
     [''autodesk_aps'', ''procore'', ''trimble_connect'', ''microsoft_graph'']"

section \<open>Packages and the pipeline\<close>

definition createTransferPackage :: "ctx \<Rightarrow> jsval \<Rightarrow> jsval res" where
  "createTransferPackage cx input =
    guard [req (fld input ''id'') ''Transfer package id'',
           req (fld input ''tenantId'') ''Transfer package tenantId'',
           req (fld input ''projectId'') ''Transfer package projectId'',
           req (fld input ''destinationProvider'') ''Transfer package destinationProvider'',
           req_array (coalesce (fld input ''sheetManifest'') (JArr [])) ''Transfer package sheetManifest'',
           req_array (coalesce (fld input ''modelManifest'') (JArr [])) ''Transfer package modelManifest'',
           (one_of provider_set (fld input ''destinationProvider''), ''Unknown provider: '' @ js_string (fld input ''destinationProvider''))]
      (Inr (JObj
        [(''id'', fld input ''id''),
         (''tenantId'', fld input ''tenantId''),
         (''projectId'', fld input ''projectId''),
         (''destinationProvider'', fld input ''destinationProvider''),
         (''latestApprovedRevisionRefs'', coalesce (fld input ''latestApprovedRevisionRefs'') (JArr [])),
         (''sheetManifest'', fld input ''sheetManifest''),
         (''modelManifest'', fld input ''modelManifest''),
         (''fileHashes'', coalesce (fld input ''fileHashes'') (JArr [])),
         (''metadataManifest'', coalesce (fld input ''metadataManifest'') (JObj [])),
         (''markupHistory'', coalesce (fld input ''markupHistory'') (JArr [])),
         (''coordinationIssueLog'', coalesce (fld input ''coordinationIssueLog'') (JArr [])),
         (''approvalStatus'', coalesce (fld input ''approvalStatus'') (JStr ''pending'')),
         (''requestedByIdentity'', coalesce (fld input ''requestedByIdentity'') (JStr ''synthetic-user'')),
         (''requiredApprovals'', coalesce (fld input ''requiredApprovals'') (JArr [])),
         (''stagedTransferTimestamp'', coalesce (fld input ''stagedTransferTimestamp'') (JStr (ctx_now cx))),
         (''mockProviderResponse'', coalesce (fld input ''mockProviderResponse'') (JNull)),
         (''idempotencyKey'', coalesce (fld input ''idempotencyKey'') (JStr (''idem-'' @ js_string (fld input ''id'')))),
         (''staged'', JBool True)]))"

text \<open>
  A key that is no provider is looked up to undefined, or to an inherited property; neither has the
  operations of an adapter.
\<close>

definition simulateTransferPipeline :: "jsval \<Rightarrow> jsval \<Rightarrow> jsval \<Rightarrow> jsval res" where
  "simulateTransferPipeline session transferPackage config =
    and_then (get_fld transferPackage ''tenantId'') (\<lambda>tenantId.
    and_then (project_guards session tenantId (fld transferPackage ''projectId'')) (\<lambda>_.
    and_then getProviderAdapters (\<lambda>adapters.
    and_then (case map_of adapters (js_string (fld transferPackage ''destinationProvider'')) of
                None \<Rightarrow> Inl type_error | Some a \<Rightarrow> Inr a) (\<lambda>adapter.
    and_then (simulateAuthentication adapter (default_arg config (JObj []))) (\<lambda>authResult.
    and_then (simulateTransfer adapter transferPackage (default_arg config (JObj []))) (\<lambda>transferResult.
    and_then (getSimulatedStatus adapter (fld transferResult ''transferId'')) (\<lambda>statusResult.
    and_then (generateTransferReport adapter transferPackage) (\<lambda>report.
    Inr (JObj [(''authResult'', authResult), (''transferResult'', transferResult),
      (''statusResult'', statusResult), (''report'', report)])))))))))"

definition emitTransferAudit :: "ctx \<Rightarrow> jsval \<Rightarrow> jsval \<Rightarrow> jsval \<Rightarrow> jsval res" where
  "emitTransferAudit cx session transferPackage action =
    and_then (get_fld transferPackage ''tenantId'') (\<lambda>tenantId.
    and_then (get_fld session ''userId'') (\<lambda>userId.
    and_then (event_pair cx
       (JObj [(''tenantId'', tenantId), (''actorType'', JStr ''user''), (''actorId'', userId), (''action'', action),
         (''resourceType'', JStr ''transfer_package''), (''resourceId'', fld transferPackage ''id'')])
       (JObj [(''eventType'', action), (''aggregateType'', JStr ''transfer_package''),
         (''aggregateId'', fld transferPackage ''id''), (''tenantId'', tenantId),
         (''payload'', JObj [(''destinationProvider'', fld transferPackage ''destinationProvider'')])]))
      (\<lambda>(auditEvent, outboxEvent).
    Inr (JObj [(''auditEvent'', auditEvent), (''outboxEvent'', outboxEvent)]))))"

section \<open>Properties\<close>

text \<open>A target that names no blocked host.\<close>

definition harmless_target :: "jsval \<Rightarrow> bool" where
  "harmless_target t = list_all (\<lambda>f. \<not> contains (js_lower (string_or_empty t)) (js_lower f)) blocked_hostname_fragments"

lemma assertNoProductionTarget_Inr: "assertNoProductionTarget t = Inr u \<longleftrightarrow> harmless_target t"
  by (simp add: assertNoProductionTarget_def guard_map_Inr harmless_target_def)

lemma validateConfiguration_Inr:
  "(\<exists>v. validateConfiguration provider (JObj fs) = Inr v) \<longleftrightarrow> fld (JObj fs) ''staged'' = JBool True
    \<and> harmless_target (coalesce (fld (JObj fs) ''documentationHost'') (JStr ''https://example.invalid/docs''))"
  by (simp add: validateConfiguration_def default_arg_def get_fld_def guard_simps assertStagedOutboundOperation_def
      assertNoProductionTarget_Inr assertStagedMode_def getStagedMode_def is_obj_def)

lemma getProviderAdapters_all: "getProviderAdapters = Inr (map (\<lambda>p. (p, p)) provider_set)"
  by code_simp

lemma provider_lookup: "p \<in> set provider_set \<Longrightarrow> map_of (map (\<lambda>p. (p, p)) provider_set) p = Some p"
  by (simp add: map_of_map_restrict)

lemma nonblank_transfer_id: "nonblank (JStr (''transfer-'' @ t))"
proof -
  have "\<not> js_ws CHR ''t''" by code_simp
  then show ?thesis
    by (simp add: nonblank_def js_trim_def)
qed

text \<open>
  The pipeline over a created package succeeds exactly if the session may act on the package's tenant
  and project, the configuration is staged and names no blocked host, and both manifests were given.
\<close>

theorem transfer_pipeline_iff:
  assumes package: "createTransferPackage cx input = Inr pkg" and config: "config = JObj fs"
  shows "(\<exists>out. simulateTransferPipeline session pkg config = Inr out) \<longleftrightarrow>
      project_guards session (fld input ''tenantId'') (fld input ''projectId'') = Inr ()
      \<and> fld config ''staged'' = JBool True
      \<and> harmless_target (coalesce (fld config ''documentationHost'') (JStr ''https://example.invalid/docs''))
      \<and> is_array (fld input ''sheetManifest'') \<and> is_array (fld input ''modelManifest'')"
proof -
  have g: "nonblank (fld input ''id'')" "nonblank (fld input ''tenantId'')" "nonblank (fld input ''projectId'')"
    "is_array (coalesce (fld input ''sheetManifest'') (JArr []))" "is_array (coalesce (fld input ''modelManifest'') (JArr []))"
    "one_of provider_set (fld input ''destinationProvider'')"
    and f: "\<not> nullish pkg" "fld pkg ''id'' = fld input ''id''" "fld pkg ''tenantId'' = fld input ''tenantId''"
    "fld pkg ''projectId'' = fld input ''projectId''" "fld pkg ''sheetManifest'' = fld input ''sheetManifest''"
    "fld pkg ''modelManifest'' = fld input ''modelManifest''"
    "fld pkg ''destinationProvider'' = fld input ''destinationProvider''"
    using package unfolding createTransferPackage_def guard_Inr by auto
  obtain p where p: "fld input ''destinationProvider'' = JStr p" "p \<in> set provider_set"
    using g(6) one_ofD by blast
  have manifest: "is_array v \<longleftrightarrow> \<not> nullish v" if "is_array (coalesce v (JArr []))" for v
    using that by (cases v) (auto simp: is_array_def)
  have valid: "(\<exists>v. validatePackage p pkg = Inr v) \<longleftrightarrow>
      is_array (fld input ''sheetManifest'') \<and> is_array (fld input ''modelManifest'')"
    using g f manifest [OF g(4)] manifest [OF g(5)]
    by (simp add: validatePackage_def guard_simps get_fld_def)
  have "(\<exists>out. simulateTransferPipeline session pkg config = Inr out) \<longleftrightarrow>
      project_guards session (fld input ''tenantId'') (fld input ''projectId'') = Inr ()
      \<and> (\<exists>v. validateConfiguration p (JObj fs) = Inr v) \<and> (\<exists>v. validatePackage p pkg = Inr v)"
    using p f
    by (auto simp: simulateTransferPipeline_def get_fld_def getProviderAdapters_all provider_lookup and_then_Inr
        simulateAuthentication_def simulateTransfer_def getSimulatedStatus_def simulation_state_def guard_Inr
        generateTransferReport_def config default_arg_def nonblank_transfer_id [simplified])
  then show ?thesis unfolding validateConfiguration_Inr valid config by simp
qed

definition example_transfer :: jsval where
  "example_transfer = JObj [(''id'', JStr ''x''), (''tenantId'', JStr ''t''), (''projectId'', JStr ''p''),
     (''destinationProvider'', JStr ''procore''), (''sheetManifest'', JArr [])]"

definition example_package :: jsval where
  "example_package = ok_value (createTransferPackage
     \<lparr>ctx_uuid = (\<lambda>n. ''id''), ctx_now = ''now'', ctx_sha256 = (\<lambda>s. s), ctx_hmac = (\<lambda>k s. s)\<rparr> example_transfer)"

text \<open>A package without a manifest is created, but no pipeline accepts it.\<close>

lemma transfer_pipeline_iff_witness:
  "\<not> (\<exists>out. simulateTransferPipeline
      (JObj [(''tenantId'', JStr ''t''), (''allowedProjectIds'', JArr [JStr ''p'']), (''staged'', JBool True)])
      example_package (JObj [(''staged'', JBool True)]) = Inr out)"
proof -
  have "isl (createTransferPackage \<lparr>ctx_uuid = (\<lambda>n. ''id''), ctx_now = ''now'', ctx_sha256 = (\<lambda>s. s), ctx_hmac = (\<lambda>k s. s)\<rparr>
      example_transfer) = False" by code_simp
  then have "createTransferPackage \<lparr>ctx_uuid = (\<lambda>n. ''id''), ctx_now = ''now'', ctx_sha256 = (\<lambda>s. s), ctx_hmac = (\<lambda>k s. s)\<rparr>
      example_transfer = Inr example_package" unfolding example_package_def by (rule ok_value_Inr)
  from transfer_pipeline_iff [OF this refl] show ?thesis
    by (simp add: example_transfer_def is_array_def)
qed

end
