(* ===== verification/Blueprint.thy ===== *)
theory Blueprint
  imports Contracts
begin

text \<open>
  Platform blueprints (packages/platform-blueprint/src/index.js): the intake of a business, the
  module library, the rules that recommend modules, and the generated plan with its numbered build
  steps. \<open>recommendModules\<close> is applied to intakes, whose lists are arrays.
\<close>

section \<open>The module library\<close>

record library_module =
  module_key :: string
  module_label :: string
  module_category :: string
  module_replaces :: string

definition mk_module :: "string \<Rightarrow> string \<Rightarrow> string \<Rightarrow> string \<Rightarrow> library_module" where
  "mk_module k n c r = \<lparr>module_key = k, module_label = n, module_category = c, module_replaces = r\<rparr>"

definition industry_set :: "string list" where
  "industry_set = [''construction'', ''field_services'', ''inspections'', ''engineering'', ''home_services'', ''other'']"

definition module_library :: "library_module list" where
  "module_library =
    [mk_module ''client_portal'' ''Client Portal'' ''customer_experience'' ''email/phone status updates'',
     mk_module ''scheduling'' ''Scheduling & Booking'' ''operations'' ''manual calendar coordination'',
     mk_module ''crm_intake'' ''CRM / Lead Intake'' ''sales'' ''spreadsheet lead tracking'',
     mk_module ''field_reporting'' ''Field Reporting'' ''operations'' ''paper/photo field notes'',
     mk_module ''document_analysis'' ''Document Analysis'' ''knowledge'' ''manual document review'',
     mk_module ''compliance_review'' ''Compliance / Insurance Review'' ''risk'' ''manual compliance checks'',
     mk_module ''permitting'' ''Permitting'' ''operations'' ''manual permit package prep'',
     mk_module ''accounting_job_costing'' ''Accounting / Job Costing Dashboard'' ''finance'' ''spreadsheet job costing'',
     mk_module ''ai_receptionist'' ''AI Receptionist'' ''ai_agent'' ''missed calls and manual intake'',
     mk_module ''ai_project_coordinator'' ''AI Project Coordinator'' ''ai_agent'' ''manual status chasing'',
     mk_module ''reporting_dashboard'' ''Reporting Dashboard'' ''analytics'' ''manual report compilation'']"

definition module_rules :: "(string \<times> string list) list" where
  "module_rules =
    [(''field_reporting'', [''field report'', ''field data'', ''photo'', ''job site'', ''inspection report'', ''daily log'']),
     (''client_portal'', [''client portal'', ''customer portal'', ''client visibility'', ''status update'', ''share reports'']),
     (''scheduling'', [''schedule'', ''booking'', ''dispatch'', ''appointment'', ''calendar'']),
     (''crm_intake'', [''lead'', ''intake'', ''crm'', ''estimate request'', ''new inquiry'']),
     (''document_analysis'', [''document'', ''spec'', ''drawing'', ''contract'', ''submittal'', ''pdf'']),
     (''compliance_review'', [''compliance'', ''insurance'', ''coi'', ''safety'', ''osha'', ''certification'']),
     (''permitting'', [''permit'', ''jurisdiction'', ''ahj'', ''code review'']),
     (''accounting_job_costing'', [''job cost'', ''invoic'', ''accounting'', ''budget'', ''margin'', ''billing'']),
     (''ai_receptionist'', [''receptionist'', ''answer calls'', ''phone intake'', ''after hours'']),
     (''ai_project_coordinator'', [''coordinat'', ''status chasing'', ''follow up'', ''project manager assist'']),
     (''reporting_dashboard'', [''report'', ''dashboard'', ''kpi'', ''metrics'', ''analytics''])]"

definition industry_default_modules :: "(string \<times> string list) list" where
  "industry_default_modules =
    [(''construction'', [''field_reporting'', ''client_portal'', ''document_analysis'', ''reporting_dashboard'']),
     (''field_services'', [''scheduling'', ''field_reporting'', ''client_portal'', ''crm_intake'']),
     (''inspections'', [''field_reporting'', ''document_analysis'', ''compliance_review'', ''client_portal'']),
     (''engineering'', [''document_analysis'', ''reporting_dashboard'', ''client_portal'']),
     (''home_services'', [''scheduling'', ''crm_intake'', ''client_portal'', ''ai_receptionist'']),
     (''other'', [''client_portal'', ''reporting_dashboard''])]"

definition build_order :: "string list" where
  "build_order = [''crm_intake'', ''scheduling'', ''field_reporting'', ''document_analysis'', ''permitting'', ''compliance_review'', ''accounting_job_costing'', ''ai_receptionist'', ''ai_project_coordinator'', ''reporting_dashboard'', ''client_portal'']"

section \<open>Intake\<close>

definition toArray :: "jsval \<Rightarrow> jsval" where
  "toArray v = (if is_array v then v else JArr [])"

definition createBlueprintIntake :: "jsval \<Rightarrow> jsval res" where
  "createBlueprintIntake input =
    guard [req (fld input ''id'') ''Blueprint id'',
           req (fld input ''tenantId'') ''Blueprint tenantId'',
           req (fld input ''businessName'') ''Business name'',
           req (fld input ''industry'') ''Industry'',
           (one_of industry_set (fld input ''industry''), ''Unknown industry: '' @ js_string (fld input ''industry'')),
           (is_true (fld input ''staged''), ''Blueprint intake must be staged.'')]
      (Inr (JObj
        [(''id'', fld input ''id''),
         (''tenantId'', fld input ''tenantId''),
         (''businessName'', fld input ''businessName''),
         (''industry'', fld input ''industry''),
         (''serviceLine'', coalesce (fld input ''serviceLine'') JNull),
         (''roles'', toArray (fld input ''roles'')),
         (''workflows'', toArray (fld input ''workflows'')),
         (''painPoints'', toArray (fld input ''painPoints'')),
         (''portalRequirements'', toArray (fld input ''portalRequirements'')),
         (''dashboardRequirements'', toArray (fld input ''dashboardRequirements'')),
         (''aiAgentRequirements'', toArray (fld input ''aiAgentRequirements'')),
         (''documentReportingNeeds'', toArray (fld input ''documentReportingNeeds'')),
         (''integrationNeeds'', toArray (fld input ''integrationNeeds'')),
         (''selectedModules'', toArray (fld input ''selectedModules'')),
         (''staged'', JBool True)]))"

section \<open>Recommendations\<close>

definition intake_list :: "jsval \<Rightarrow> string \<Rightarrow> jsval list" where
  "intake_list intake k = (case fld intake k of JArr xs \<Rightarrow> xs | _ \<Rightarrow> [])"

definition haystack :: "jsval \<Rightarrow> string" where
  "haystack intake = js_lower (join [CHR '' '', CHR 0x0A, CHR '' ''] (elem_strings
     ([coalesce (fld intake ''serviceLine'') (JStr [])]
      @ intake_list intake ''workflows'' @ intake_list intake ''painPoints''
      @ intake_list intake ''portalRequirements'' @ intake_list intake ''dashboardRequirements''
      @ intake_list intake ''aiAgentRequirements'' @ intake_list intake ''documentReportingNeeds''
      @ intake_list intake ''integrationNeeds'')))"

text \<open>The recommendations so far: module keys with their rationale, the first rationale is kept.\<close>

type_synonym recommendations = "(string \<times> string) list"

definition add_module :: "string \<Rightarrow> string \<Rightarrow> recommendations \<Rightarrow> recommendations" where
  "add_module key rationale recs =
    (if key \<notin> module_key ` set module_library \<or> map_of recs key \<noteq> None then recs
     else recs @ [(key, rationale)])"

definition add_selected :: "jsval \<Rightarrow> recommendations \<Rightarrow> recommendations" where
  "add_selected key recs = (case key of JStr k \<Rightarrow> add_module k ''explicitly selected'' recs | _ \<Rightarrow> recs)"

definition add_triggered :: "string \<Rightarrow> string \<times> string list \<Rightarrow> recommendations \<Rightarrow> recommendations" where
  "add_triggered text rule recs = (case find (contains text) (snd rule) of
     None \<Rightarrow> recs
   | Some trigger \<Rightarrow> add_module (fst rule) (''matched requirement: \"'' @ trigger @ ''\"'') recs)"

definition baseline :: "jsval \<Rightarrow> string list res" where
  "baseline industry = (case map_of industry_default_modules (js_string industry) of
     Some keys \<Rightarrow> Inr keys
   | None \<Rightarrow> if js_string industry \<in> set proto_keys then Inl type_error else Inr [])"

definition collect_modules :: "jsval \<Rightarrow> string list \<Rightarrow> recommendations" where
  "collect_modules intake keys =
    fold (\<lambda>key. add_module key (js_string (fld intake ''industry'') @ '' baseline'')) keys
      (fold (add_triggered (haystack intake)) module_rules
        (fold add_selected (intake_list intake ''selectedModules'') []))"

definition recommendModules :: "jsval \<Rightarrow> (library_module \<times> string) list res" where
  "recommendModules intake =
    and_then (baseline (fld intake ''industry'')) (\<lambda>keys.
    let recommendations = collect_modules intake keys in
    Inr (map (\<lambda>m. (m, the (map_of recommendations (module_key m))))
          (filter (\<lambda>m. map_of recommendations (module_key m) \<noteq> None) module_library)))"

definition module_value :: "library_module \<times> string \<Rightarrow> jsval" where
  "module_value mr = JObj
    [(''key'', JStr (module_key (fst mr))), (''name'', JStr (module_label (fst mr))),
     (''category'', JStr (module_category (fst mr))), (''replaces'', JStr (module_replaces (fst mr))),
     (''rationale'', JStr (snd mr))]"

section \<open>The plan\<close>

definition module_by_key :: "string \<Rightarrow> library_module" where
  "module_by_key key = (case find (\<lambda>m. module_key m = key) module_library of
     Some m \<Rightarrow> m | None \<Rightarrow> mk_module [] [] [] [])"

definition build_step :: "nat \<times> string \<Rightarrow> jsval" where
  "build_step s = JObj
    [(''order'', JNum (of_nat (fst s + 1))), (''module'', JStr (snd s)),
     (''action'', JStr (''Provision staged '' @ module_label (module_by_key (snd s)))),
     (''replaces'', JStr (module_replaces (module_by_key (snd s))))]"

definition category_keys :: "string \<Rightarrow> (library_module \<times> string) list \<Rightarrow> jsval" where
  "category_keys c mods = JArr (map (\<lambda>m. JStr (module_key (fst m))) (filter (\<lambda>m. module_category (fst m) = c) mods))"

definition blueprint_summary :: "jsval \<Rightarrow> (library_module \<times> string) list \<Rightarrow> jsval list \<Rightarrow> string" where
  "blueprint_summary intake mods steps =
    ''Staged platform blueprint for '' @ js_string (fld intake ''businessName'') @ '' ('' @ js_string (fld intake ''industry'') @ ''): '' @
    nat_string (length mods) @ '' recommended module(s) '' @ em_dash @ '' '' @ join '', '' (map (\<lambda>m. module_label (fst m)) mods) @ ''. '' @
    nat_string (length steps) @ '' build step(s) planned. SIMULATED '' @ em_dash @ '' no live deployment.''"

definition generatePlatformBlueprint :: "jsval \<Rightarrow> jsval res" where
  "generatePlatformBlueprint intakeInput =
    and_then (createBlueprintIntake intakeInput) (\<lambda>intake.
    and_then (recommendModules intake) (\<lambda>mods.
    let moduleKeys = map (\<lambda>m. module_key (fst m)) mods;
        nextBuildSteps = map build_step (enumerate 0 (filter (\<lambda>key. key \<in> set moduleKeys) build_order))
    in Inr (JObj
      [(''id'', fld intake ''id''),
       (''blueprintId'', fld intake ''id''),
       (''tenantId'', fld intake ''tenantId''),
       (''businessName'', fld intake ''businessName''),
       (''industry'', fld intake ''industry''),
       (''intake'', intake),
       (''recommendedModules'', JArr (map module_value mods)),
       (''portalSpec'', JObj [(''modules'', category_keys ''customer_experience'' mods),
          (''requirements'', fld intake ''portalRequirements''), (''branded'', JBool True)]),
       (''dashboardSpec'', JObj [(''widgets'', fld intake ''dashboardRequirements''),
          (''includesReportingDashboard'', JBool (''reporting_dashboard'' \<in> set moduleKeys))]),
       (''aiAgentSpec'', JObj [(''agents'', category_keys ''ai_agent'' mods),
          (''requirements'', fld intake ''aiAgentRequirements'')]),
       (''reportingSpec'', JObj [(''needs'', fld intake ''documentReportingNeeds''),
          (''includesDocumentAnalysis'', JBool (''document_analysis'' \<in> set moduleKeys))]),
       (''integrationSpec'', JObj [(''requested'', fld intake ''integrationNeeds''), (''status'', JStr ''staged_mock_only'')]),
       (''nextBuildSteps'', JArr nextBuildSteps),
       (''summary'', JStr (blueprint_summary intake mods nextBuildSteps)),
       (''staged'', JBool True)])))"

section \<open>Properties\<close>

text \<open>The keys of the library.\<close>

definition module_keys :: "string list" where
  "module_keys = map module_key module_library"

definition triggered :: "string \<Rightarrow> string \<Rightarrow> bool" where
  "triggered text key = list_ex (\<lambda>rule. fst rule = key \<and> list_ex (contains text) (snd rule)) module_rules"

lemma dom_add_module: "fst ` set (add_module k r recs) = fst ` set recs \<union> ({k} \<inter> set module_keys)"
  by (auto simp: add_module_def module_keys_def map_of_eq_None_iff)

lemma dom_add_selected:
  "fst ` set (add_selected v recs) = fst ` set recs \<union> {k. v = JStr k \<and> k \<in> set module_keys}"
  by (cases v) (auto simp: add_selected_def dom_add_module)

lemma dom_add_triggered:
  "fst ` set (add_triggered text rule recs) =
     fst ` set recs \<union> {k. k = fst rule \<and> list_ex (contains text) (snd rule) \<and> k \<in> set module_keys}"
proof (cases "find (contains text) (snd rule)")
  case None
  then have "\<not> list_ex (contains text) (snd rule)" by (auto simp: find_None_iff list_ex_iff)
  with None show ?thesis by (simp add: add_triggered_def)
next
  case (Some t)
  then have "list_ex (contains text) (snd rule)" by (auto simp: find_Some_iff list_ex_iff)
  with Some show ?thesis by (auto simp: add_triggered_def dom_add_module)
qed

text \<open>What a fold of additions collects is the union of what its steps add.\<close>

lemma dom_fold:
  assumes "\<And>x recs. fst ` set (f x recs) = fst ` set recs \<union> A x"
  shows "fst ` set (fold f xs recs) = fst ` set recs \<union> (\<Union>x \<in> set xs. A x)"
  using assms by (induction xs arbitrary: recs) auto

lemma dom_collect_modules:
  "fst ` set (collect_modules intake keys) = set module_keys \<inter>
     {k. JStr k \<in> set (intake_list intake ''selectedModules'') \<or> triggered (haystack intake) k \<or> k \<in> set keys}"
  unfolding collect_modules_def
  by (subst dom_fold [OF dom_add_module], subst dom_fold [OF dom_add_triggered],
      subst dom_fold [OF dom_add_selected]) (auto simp: triggered_def list_ex_iff)

lemma distinct_module_keys: "distinct module_keys"
  by code_simp

lemma build_order_keys: "set build_order = set module_keys" "distinct build_order"
  by code_simp+

lemma industry_baseline:
  assumes "one_of industry_set v"
  obtains keys where "baseline v = Inr keys" "2 \<le> length keys" "distinct keys" "set keys \<subseteq> set module_keys"
proof -
  have all: "list_all (\<lambda>i. \<not> isl (baseline (JStr i)) \<and> 2 \<le> length (projr (baseline (JStr i)))
      \<and> distinct (projr (baseline (JStr i))) \<and> list_all (\<lambda>k. k \<in> set module_keys) (projr (baseline (JStr i)))) industry_set"
    by code_simp
  from assms obtain i where "v = JStr i" "i \<in> set industry_set" using one_ofD by blast
  with all have "\<not> isl (baseline v)" "2 \<le> length (projr (baseline v))" "distinct (projr (baseline v))"
    "set (projr (baseline v)) \<subseteq> set module_keys"
    by (auto simp: list_all_iff)
  then show thesis using that by (metis sum.collapse(2))
qed

lemma recommendModules_keys:
  assumes "recommendModules intake = Inr mods" "baseline (fld intake ''industry'') = Inr keys"
  shows "map (\<lambda>m. module_key (fst m)) mods = filter (\<lambda>k. JStr k \<in> set (intake_list intake ''selectedModules'')
     \<or> triggered (haystack intake) k \<or> k \<in> set keys) module_keys"
proof -
  have "map (\<lambda>m. module_key (fst m)) mods
      = map module_key (filter (\<lambda>m. map_of (collect_modules intake keys) (module_key m) \<noteq> None) module_library)"
    using assms by (auto simp: recommendModules_def Let_def comp_def)
  also have "\<dots> = filter (\<lambda>k. k \<in> fst ` set (collect_modules intake keys)) module_keys"
    by (simp add: module_keys_def filter_map comp_def map_of_eq_None_iff)
  also have "\<dots> = filter (\<lambda>k. JStr k \<in> set (intake_list intake ''selectedModules'')
     \<or> triggered (haystack intake) k \<or> k \<in> set keys) module_keys"
    unfolding dom_collect_modules by (rule filter_cong) auto
  finally show ?thesis .
qed

lemma createBlueprintIntake_industry:
  "createBlueprintIntake input = Inr intake \<Longrightarrow> one_of industry_set (fld intake ''industry'')"
  unfolding createBlueprintIntake_def guard_Inr by auto

lemma generated_parts:
  assumes "generatePlatformBlueprint input = Inr bp"
  obtains intake mods where "createBlueprintIntake input = Inr intake" "recommendModules intake = Inr mods"
    "fld bp ''intake'' = intake" "fld bp ''recommendedModules'' = JArr (map module_value mods)"
    "fld bp ''nextBuildSteps'' = JArr (map build_step (enumerate 0
       (filter (\<lambda>key. key \<in> set (map (\<lambda>m. module_key (fst m)) mods)) build_order)))"
proof -
  from assms obtain intake mods where parts: "createBlueprintIntake input = Inr intake" "recommendModules intake = Inr mods"
    unfolding generatePlatformBlueprint_def and_then_Inr by blast
  have bp: "bp = projr (generatePlatformBlueprint input)" unfolding assms by simp
  show thesis
    by (rule that [OF parts]; simp add: bp generatePlatformBlueprint_def parts Let_def)
qed

lemma generate_total:
  assumes "createBlueprintIntake input = Inr intake"
  shows "\<exists>bp. generatePlatformBlueprint input = Inr bp"
proof -
  obtain keys where "baseline (fld intake ''industry'') = Inr keys"
    using industry_baseline [OF createBlueprintIntake_industry [OF assms]] by blast
  with assms show ?thesis by (simp add: generatePlatformBlueprint_def recommendModules_def Let_def)
qed

lemma enumerate_snd_filter: "map (\<lambda>s. h (snd s)) (enumerate n xs) = map h xs"
  by (induction xs arbitrary: n) auto

lemma enumerate_fst: "map (\<lambda>s. h (fst s)) (enumerate n xs) = map h [n ..< n + length xs]"
  by (simp add: map_fst_enumerate [symmetric] comp_def del: map_fst_enumerate)

text \<open>
  C39. A generated blueprint recommends, in library order, exactly the modules that were selected, that a
  keyword of the intake triggers or that the industry starts with, at least two; its build steps are
  numbered from one and provision every recommended module exactly once.
\<close>

theorem blueprint_plan:
  assumes "generatePlatformBlueprint input = Inr bp"
  shows "\<exists>mods steps keys. fld bp ''recommendedModules'' = JArr mods \<and> fld bp ''nextBuildSteps'' = JArr steps
    \<and> baseline (fld input ''industry'') = Inr keys
    \<and> map (\<lambda>m. fld m ''key'') mods = map JStr (filter (\<lambda>k. JStr k \<in> set (intake_list (fld bp ''intake'') ''selectedModules'')
          \<or> triggered (haystack (fld bp ''intake'')) k \<or> k \<in> set keys) module_keys)
    \<and> 2 \<le> length mods
    \<and> map (\<lambda>s. fld s ''order'') steps = map (\<lambda>i. JNum (of_nat (i + 1))) [0 ..< length mods]
    \<and> distinct (map (\<lambda>s. fld s ''module'') steps)
    \<and> (\<lambda>s. fld s ''module'') ` set steps = (\<lambda>m. fld m ''key'') ` set mods"
proof -
  obtain intake mods where intake: "createBlueprintIntake input = Inr intake" and mods: "recommendModules intake = Inr mods"
    and bp: "fld bp ''intake'' = intake" "fld bp ''recommendedModules'' = JArr (map module_value mods)"
    "fld bp ''nextBuildSteps'' = JArr (map build_step (enumerate 0
       (filter (\<lambda>key. key \<in> set (map (\<lambda>m. module_key (fst m)) mods)) build_order)))"
    using generated_parts [OF assms] by blast
  have ind: "fld intake ''industry'' = fld input ''industry''"
    using intake unfolding createBlueprintIntake_def guard_Inr by auto
  obtain keys where keys: "baseline (fld intake ''industry'') = Inr keys" "2 \<le> length keys" "distinct keys"
    "set keys \<subseteq> set module_keys"
    using industry_baseline [OF createBlueprintIntake_industry [OF intake]] by blast
  define ks where "ks = map (\<lambda>m. module_key (fst m)) mods"
  note ks = recommendModules_keys [OF mods keys(1), folded ks_def]
  define order where "order = filter (\<lambda>key. key \<in> set ks) build_order"
  have ks_sub: "set ks \<subseteq> set module_keys" "distinct ks" "set keys \<subseteq> set ks"
    using keys(4) distinct_module_keys unfolding ks by auto
  have "card (set keys) \<le> card (set ks)" using ks_sub(3) by (intro card_mono) auto
  then have two: "2 \<le> length mods"
    using keys(2) by (simp only: distinct_card [OF keys(3)] distinct_card [OF ks_sub(2)]) (simp add: ks_def)
  have ord: "set order = set ks" "distinct order"
    using ks_sub(1) build_order_keys unfolding order_def by auto
  then have len: "length order = length mods"
    using ks_sub(2) by (metis distinct_card ks_def length_map)
  have steps: "fld bp ''nextBuildSteps'' = JArr (map build_step (enumerate 0 order))"
    using bp(3) unfolding order_def ks_def by simp
  have k: "map (\<lambda>m. fld m ''key'') (map module_value mods) = map JStr ks"
    by (simp add: ks_def module_value_def comp_def)
  have o1: "map (\<lambda>s. fld s ''order'') (map build_step (enumerate 0 order)) = map (\<lambda>i. JNum (of_nat (i + 1))) [0 ..< length mods]"
    using enumerate_fst [of "\<lambda>i. JNum (of_nat (i + 1))" 0 order] len by (simp add: build_step_def comp_def)
  have o2: "map (\<lambda>s. fld s ''module'') (map build_step (enumerate 0 order)) = map JStr order"
    using enumerate_snd_filter [of JStr 0 order] by (simp add: build_step_def comp_def)
  have o3: "(\<lambda>s. fld s ''module'') ` set (map build_step (enumerate 0 order)) = (\<lambda>m. fld m ''key'') ` set (map module_value mods)"
    using arg_cong [OF o2, of set] arg_cong [OF k, of set] ord(1) by (metis image_set)
  have d: "distinct (map JStr order)" using ord(2) by (simp add: distinct_map inj_on_def)
  have l: "2 \<le> length (map module_value mods)" "length (map module_value mods) = length mods" using two by simp_all
  show ?thesis
  proof (intro exI conjI)
    show "fld bp ''recommendedModules'' = JArr (map module_value mods)" by (rule bp)
    show "fld bp ''nextBuildSteps'' = JArr (map build_step (enumerate 0 order))" by (rule steps)
    show "baseline (fld input ''industry'') = Inr keys" using keys(1) unfolding ind .
    show "distinct (map (\<lambda>s. fld s ''module'') (map build_step (enumerate 0 order)))" unfolding o2 by (rule d)
  qed (use k ks l o1 o3 bp(1) in simp_all)
qed

definition example_intake_input :: jsval where
  "example_intake_input = JObj [(''id'', JStr ''b''), (''tenantId'', JStr ''t''), (''businessName'', JStr ''Acme''),
     (''industry'', JStr ''other''), (''painPoints'', JArr [JStr ''late Invoices'']), (''staged'', JBool True)]"

definition example_blueprint :: jsval where
  "example_blueprint = (case generatePlatformBlueprint example_intake_input of Inr bp \<Rightarrow> bp | Inl e \<Rightarrow> JUndef)"

lemma blueprint_plan_witness:
  "\<exists>mods steps keys. fld example_blueprint ''recommendedModules'' = JArr mods
    \<and> fld example_blueprint ''nextBuildSteps'' = JArr steps
    \<and> baseline (fld example_intake_input ''industry'') = Inr keys
    \<and> map (\<lambda>m. fld m ''key'') mods = map JStr (filter (\<lambda>k. JStr k \<in> set (intake_list (fld example_blueprint ''intake'') ''selectedModules'')
          \<or> triggered (haystack (fld example_blueprint ''intake'')) k \<or> k \<in> set keys) module_keys)
    \<and> 2 \<le> length mods
    \<and> map (\<lambda>s. fld s ''order'') steps = map (\<lambda>i. JNum (of_nat (i + 1))) [0 ..< length mods]
    \<and> distinct (map (\<lambda>s. fld s ''module'') steps)
    \<and> (\<lambda>s. fld s ''module'') ` set steps = (\<lambda>m. fld m ''key'') ` set mods"
proof (rule blueprint_plan)
  have "\<not> isl (createBlueprintIntake example_intake_input)" by code_simp
  then obtain bp where "generatePlatformBlueprint example_intake_input = Inr bp"
    using generate_total by (metis sum.collapse(2))
  then show "generatePlatformBlueprint example_intake_input = Inr example_blueprint"
    unfolding example_blueprint_def by simp
qed

end
