(* ===== verification/Portal.thy ===== *)
theory Portal
  imports AuditTrail Contracts JsNumber
begin

text \<open>
  Read-only projections: the dashboards and queues (packages/dashboards/src/index.js), the client
  portal view with its download paths (packages/client-portal/src/index.js), and the health
  summaries (packages/observability/src/index.js). The order of \<open>localeCompare\<close> is a parameter. A
  code unit below 256 takes at most two bytes in UTF-8.
\<close>

section \<open>Percent encoding\<close>

definition unreserved :: "char \<Rightarrow> bool" where
  "unreserved c = (let n = (of_char c :: nat) in
     48 \<le> n \<and> n \<le> 57 \<or> 65 \<le> n \<and> n \<le> 90 \<or> 97 \<le> n \<and> n \<le> 122 \<or> c \<in> set ''-_.!~*()'' \<or> n = 39)"

definition hex_digit :: "nat \<Rightarrow> char" where
  "hex_digit n = char_of (if n < 10 then 48 + n else 55 + n)"

definition percent :: "nat \<Rightarrow> string" where
  "percent n = [CHR ''%'', hex_digit (n div 16), hex_digit (n mod 16)]"

definition utf8_bytes :: "nat \<Rightarrow> nat list" where
  "utf8_bytes n = (if n < 128 then [n] else [192 + n div 64, 128 + n mod 64])"

definition encode_char :: "char \<Rightarrow> string" where
  "encode_char c = (if unreserved c then [c] else concat (map percent (utf8_bytes (of_char c))))"

definition encodeURIComponent :: "string \<Rightarrow> string" where
  "encodeURIComponent s = concat (map encode_char s)"

text \<open>\<open>decodeURIComponent\<close>, for the texts of this development: first the bytes, then the characters.\<close>

definition hex_value :: "char \<Rightarrow> nat option" where
  "hex_value c = (if digit_of c < 16 then Some (digit_of c) else None)"

fun percent_tokens :: "string \<Rightarrow> (bool \<times> nat) list option" where
  "percent_tokens [] = Some []"
| "percent_tokens (c # s) =
    (if c \<noteq> CHR ''%'' then map_option ((#) (False, of_char c)) (percent_tokens s)
     else (case s of
        a # b # s' \<Rightarrow> (case (hex_value a, hex_value b) of
           (Some x, Some y) \<Rightarrow> map_option ((#) (True, 16 * x + y)) (percent_tokens s')
         | _ \<Rightarrow> None)
      | _ \<Rightarrow> None))"

fun token_chars :: "(bool \<times> nat) list \<Rightarrow> string option" where
  "token_chars [] = Some []"
| "token_chars ((encoded, n) # ts) =
    (if \<not> encoded \<or> n < 128 then map_option ((#) (char_of n)) (token_chars ts)
     else if n \<noteq> 194 \<and> n \<noteq> 195 then None
     else (case ts of
        (True, m) # ts' \<Rightarrow> (if 128 \<le> m \<and> m < 192
           then map_option ((#) (char_of ((n - 192) * 64 + (m - 128)))) (token_chars ts') else None)
      | _ \<Rightarrow> None))"

definition decodeURIComponent :: "string \<Rightarrow> string option" where
  "decodeURIComponent s = Option.bind (percent_tokens s) token_chars"

lemma hex_value_digit [simp]: "n < 16 \<Longrightarrow> hex_value (hex_digit n) = Some n"
  by (auto simp: hex_value_def hex_digit_def digit_of_def Let_def)

lemma percent_tokens_percent [simp]:
  "n < 256 \<Longrightarrow> percent_tokens (percent n @ s) = map_option ((#) (True, n)) (percent_tokens s)"
  by (simp add: percent_def less_mult_imp_div_less)

definition char_tokens :: "char \<Rightarrow> (bool \<times> nat) list" where
  "char_tokens c = (if unreserved c then [(False, of_char c)] else map (Pair True) (utf8_bytes (of_char c)))"

lemma not_unreserved_percent: "unreserved c \<Longrightarrow> c \<noteq> CHR ''%''"
  by (auto simp: unreserved_def)

lemma utf8_bytes_range: "b \<in> set (utf8_bytes (of_char c)) \<Longrightarrow> b < 256"
proof -
  define n where "n = (of_char c :: nat)"
  have "n < 256" unfolding n_def by (metis of_char_mod_256 mod_less_divisor zero_less_numeral)
  then have "n div 64 < 64" by linarith
  then show "b \<in> set (utf8_bytes (of_char c)) \<Longrightarrow> b < 256"
    unfolding n_def [symmetric] by (auto simp: utf8_bytes_def split: if_splits)
qed

lemma percent_tokens_bytes:
  "list_all (\<lambda>b. b < 256) bs \<Longrightarrow>
     percent_tokens (concat (map percent bs) @ s) = map_option ((@) (map (Pair True) bs)) (percent_tokens s)"
  by (cases "percent_tokens s"; induction bs) simp_all

lemma percent_tokens_char:
  "percent_tokens (encode_char c @ s) = map_option ((@) (char_tokens c)) (percent_tokens s)"
proof (cases "unreserved c")
  case False
  have "list_all (\<lambda>b. b < 256) (utf8_bytes (of_char c))" using utf8_bytes_range by (auto simp: list_all_iff)
  with False show ?thesis by (simp add: encode_char_def char_tokens_def percent_tokens_bytes)
qed (cases "percent_tokens s"; simp add: encode_char_def char_tokens_def not_unreserved_percent)

lemma token_chars_char: "token_chars (char_tokens c @ ts) = map_option ((#) c) (token_chars ts)"
proof -
  define n where "n = (of_char c :: nat)"
  have n: "n < 256" "char_of n = c" unfolding n_def by simp_all
  show ?thesis
  proof (cases "n < 128")
    case True
    with n show ?thesis by (simp add: char_tokens_def utf8_bytes_def n_def [symmetric])
  next
    case False
    then have r: "\<not> unreserved c" by (auto simp: unreserved_def Let_def n_def)
    define q where "q = n div 64"
    have q: "q = 2 \<or> q = 3" using n(1) False unfolding q_def by linarith
    have m: "n = q * 64 + n mod 64" "n mod 64 < 64" unfolding q_def by simp_all
    from q m False n(2) r show ?thesis
      by (auto simp: char_tokens_def utf8_bytes_def n_def [symmetric] q_def [symmetric])
  qed
qed

lemma decode_encode: "decodeURIComponent (encodeURIComponent s) = Some s"
proof -
  have "percent_tokens (encodeURIComponent s) = Some (concat (map char_tokens s))"
    by (induction s) (simp_all add: encodeURIComponent_def percent_tokens_char)
  moreover have "token_chars (concat (map char_tokens s)) = Some s"
    by (induction s) (simp_all add: token_chars_char)
  ultimately show ?thesis by (simp add: decodeURIComponent_def)
qed

text \<open>An encoded text has no slash.\<close>

lemma hex_digit_not_slash: "n < 16 \<Longrightarrow> hex_digit n \<noteq> CHR ''/''"
proof
  assume n: "n < 16" and "hex_digit n = CHR ''/''"
  then have "(of_char (hex_digit n) :: nat) = 47" by simp
  with n show False by (simp add: hex_digit_def split: if_splits)
qed

lemma encode_no_slash: "CHR ''/'' \<notin> set (encodeURIComponent s)"
proof -
  have "CHR ''/'' \<notin> set (percent n)" if "n < 256" for n
    using that hex_digit_not_slash [of "n div 16"] hex_digit_not_slash [of "n mod 16"]
    by (auto simp: percent_def less_mult_imp_div_less)
  with utf8_bytes_range have "CHR ''/'' \<notin> set (encode_char c)" for c
    by (auto simp: encode_char_def unreserved_def Let_def)
  then show ?thesis by (auto simp: encodeURIComponent_def)
qed

section \<open>Dashboards\<close>

text \<open>\<open>v?.filter(p).length ?? 0\<close>; the callback reads a property of the element.\<close>

definition count_where :: "jsval \<Rightarrow> (jsval \<Rightarrow> bool res) \<Rightarrow> jsval res" where
  "count_where v p =
    (if nullish v then Inr (JNum 0)
     else and_then (elements v) (\<lambda>xs. and_then (filter_res p xs) (\<lambda>ys. Inr (JNum (of_nat (length ys))))))"

definition keep_where :: "jsval \<Rightarrow> (jsval \<Rightarrow> bool res) \<Rightarrow> jsval res" where
  "keep_where v p =
    (if nullish v then Inr (JArr [])
     else and_then (elements v) (\<lambda>xs. and_then (filter_res p xs) (\<lambda>ys. Inr (JArr ys))))"

definition field_is :: "string \<Rightarrow> string \<Rightarrow> jsval \<Rightarrow> bool res" where
  "field_is k s v = and_then (get_fld v k) (\<lambda>w. Inr (strict_eq w (JStr s)))"

definition field_not :: "string \<Rightarrow> string \<Rightarrow> jsval \<Rightarrow> bool res" where
  "field_not k s v = and_then (get_fld v k) (\<lambda>w. Inr (\<not> strict_eq w (JStr s)))"

definition field_in :: "string \<Rightarrow> string list \<Rightarrow> jsval \<Rightarrow> bool res" where
  "field_in k xs v = and_then (get_fld v k) (\<lambda>w. Inr (one_of xs w))"

definition length_or_zero :: "jsval \<Rightarrow> jsval" where
  "length_or_zero v = coalesce (fld v ''length'') (JNum 0)"

text \<open>
  The counting object is a plain object: a key of its own is read from it, any other through the
  properties every object inherits, and assigning to \<open>__proto__\<close> adds no key.
\<close>

definition inherited :: "string \<Rightarrow> jsval" where
  "inherited k = (if k = ''__proto__'' then JObj []
     else if k \<in> set proto_keys then JFun (if k = ''constructor'' then ''Object'' else k) else JUndef)"

definition read_property :: "(string \<times> jsval) list \<Rightarrow> string \<Rightarrow> jsval" where
  "read_property fs k = (case map_of fs k of Some v \<Rightarrow> v | None \<Rightarrow> inherited k)"

definition count_group :: "(string \<times> jsval) list \<Rightarrow> string \<Rightarrow> (string \<times> jsval) list" where
  "count_group fs k =
    (if k = ''__proto__'' then fs
     else AList.update k (js_add1 (coalesce (read_property fs k) (JNum 0))) fs)"

fun group_from :: "string \<Rightarrow> (string \<times> jsval) list \<Rightarrow> jsval list \<Rightarrow> (string \<times> jsval) list res" where
  "group_from key fs [] = Inr fs"
| "group_from key fs (item # items) =
    and_then (get_fld item key) (\<lambda>v.
    group_from key (count_group fs (js_string (coalesce v (JStr ''unknown'')))) items)"

definition groupCount :: "jsval \<Rightarrow> string \<Rightarrow> jsval res" where
  "groupCount items key = and_then (elements items) (\<lambda>xs. and_then (group_from key [] xs) (\<lambda>fs. Inr (JObj fs)))"

definition buildProjectManagerDashboard :: "jsval \<Rightarrow> jsval res" where
  "buildProjectManagerDashboard input =
    and_then (get_fld input ''projectId'') (\<lambda>projectId.
    and_then (count_where (fld input ''rfis'') (field_not ''status'' ''closed'')) (\<lambda>openRfis.
    and_then (count_where (fld input ''issues'') (\<lambda>issue.
       and_then (field_in ''status'' [''closed'', ''resolved''] issue) (\<lambda>b. Inr (\<not> b)))) (\<lambda>openIssues.
    and_then (count_where (fld input ''approvals'') (field_is ''status'' ''pending'')) (\<lambda>pendingApprovals.
    Inr (JObj
      [(''projectId'', projectId),
       (''milestoneCount'', length_or_zero (fld input ''milestones'')),
       (''openRfiCount'', openRfis),
       (''openIssueCount'', openIssues),
       (''pendingApprovalCount'', pendingApprovals),
       (''permitStatus'', coalesce (fld (fld input ''permitPackage'') ''status'') (JStr ''not_started'')),
       (''staged'', JBool True)])))))"

definition concerns_discipline :: "jsval \<Rightarrow> jsval \<Rightarrow> bool res" where
  "concerns_discipline discipline issue =
    and_then (get_fld issue ''disciplines'') (\<lambda>ds. if nullish ds then Inr False else includes_call ds discipline)"

definition buildDisciplineLeadDashboard :: "jsval \<Rightarrow> jsval res" where
  "buildDisciplineLeadDashboard input =
    and_then (get_fld input ''discipline'') (\<lambda>discipline.
    and_then (count_where (fld input ''drawings'') (field_is ''lifecycleStatus'' ''returned_for_revision'')) (\<lambda>returned.
    and_then (count_where (fld input ''findings'') (field_is ''humanDisposition'' ''pending'')) (\<lambda>pendingFindings.
    and_then (count_where (fld input ''issues'') (concerns_discipline discipline)) (\<lambda>conflicts.
    Inr (JObj
      [(''discipline'', discipline),
       (''assignedReviewCount'', length_or_zero (fld input ''reviewSessions'')),
       (''returnedRevisionCount'', returned),
       (''aiFindingCount'', pendingFindings),
       (''conflictCount'', conflicts),
       (''staged'', JBool True)])))))"

definition field_true :: "string \<Rightarrow> jsval \<Rightarrow> bool res" where
  "field_true k v = and_then (get_fld v k) (\<lambda>w. Inr (is_true w))"

definition buildExecutivePortfolioView :: "jsval \<Rightarrow> jsval res" where
  "buildExecutivePortfolioView input =
    and_then (get_fld input ''tenantId'') (\<lambda>tenantId.
    and_then (groupCount (coalesce (fld input ''projects'') (JArr [])) ''status'') (\<lambda>statuses.
    and_then (count_where (fld input ''issues'') (field_is ''severity'' ''high'')) (\<lambda>highIssues.
    and_then (count_where (fld input ''financeEvents'') (field_true ''requiresFinanceReview'')) (\<lambda>financeReviews.
    and_then (count_where (fld input ''financeEvents'') (field_true ''requiresLegalReview'')) (\<lambda>legalReviews.
    and_then (count_where (fld input ''permitPackages'')
       (field_in ''status'' [''reviewer_comments_received'', ''revision_required''])) (\<lambda>permitDelays.
    Inr (JObj
      [(''tenantId'', tenantId),
       (''totalProjects'', length_or_zero (fld input ''projects'')),
       (''projectStatuses'', statuses),
       (''highSeverityIssueCount'', highIssues),
       (''pendingFinanceReviewCount'', financeReviews),
       (''pendingLegalReviewCount'', legalReviews),
       (''permitDelays'', permitDelays),
       (''staged'', JBool True)])))))))"

definition buildReviewQueues :: "jsval \<Rightarrow> jsval res" where
  "buildReviewQueues input =
    and_then (get_fld input ''findings'') (\<lambda>findings.
    and_then (keep_where findings (field_is ''humanDisposition'' ''pending'')) (\<lambda>aiQueue.
    and_then (keep_where (fld input ''approvals'') (field_is ''status'' ''pending'')) (\<lambda>approvalQueue.
    and_then (keep_where (fld input ''permitPackages'') (field_not ''status'' ''closed'')) (\<lambda>permitQueue.
    Inr (JObj
      [(''aiReviewQueue'', aiQueue), (''approvalQueue'', approvalQueue), (''permitQueue'', permitQueue),
       (''staged'', JBool True)])))))"

definition transfer_row :: "jsval \<Rightarrow> jsval res" where
  "transfer_row transferPackage =
    and_then (get_fld transferPackage ''id'') (\<lambda>i.
    Inr (JObj [(''id'', i), (''destinationProvider'', fld transferPackage ''destinationProvider''),
      (''approvalStatus'', coalesce (fld transferPackage ''approvalStatus'') (JStr ''pending''))]))"

definition buildTransferQueue :: "jsval \<Rightarrow> jsval res" where
  "buildTransferQueue input =
    and_then (get_fld input ''transferPackages'') (\<lambda>packages.
    and_then (if nullish packages then Inr [] else and_then (elements packages) (map_res transfer_row)) (\<lambda>rows.
    Inr (JObj [(''stagedTransfers'', JArr rows), (''staged'', JBool True)])))"

section \<open>Client portal\<close>

definition paymentPlaceholder :: jsval where
  "paymentPlaceholder = JObj
    [(''status'', JStr ''staged_no_billing''),
     (''balanceDue'', JNull),
     (''currency'', JNull),
     (''note'', JStr ''Payments are staged and simulated. No live billing is connected.''),
     (''staged'', JBool True)]"

definition download_path :: "jsval \<Rightarrow> jsval \<Rightarrow> string" where
  "download_path tenantId fileId =
    ''/v1/tenants/'' @ encodeURIComponent (js_string tenantId) @ ''/files/'' @ encodeURIComponent (js_string fileId) @ ''/download''"

definition portal_file :: "jsval \<Rightarrow> jsval \<Rightarrow> jsval res" where
  "portal_file tenantId file =
    and_then (get_fld file ''id'') (\<lambda>fileId.
    Inr (JObj
      [(''id'', fileId),
       (''name'', coalesce (coalesce (fld file ''originalFilename'') (fld file ''name'')) fileId),
       (''fileClass'', coalesce (fld file ''fileClass'') (JStr ''document'')),
       (''mimeType'', coalesce (fld file ''mimeType'') JNull),
       (''sizeBytes'', coalesce (fld file ''sizeBytes'') JNull),
       (''downloadPath'', JStr (download_path tenantId fileId))]))"

text \<open>The stable order of \<open>sort\<close> under a comparison of texts, \<open>collate a b\<close> for \<open>a\<close> not after \<open>b\<close>.\<close>

definition update_time :: "jsval \<Rightarrow> string" where
  "update_time update = js_string (coalesce (fld update ''at'') (JStr []))"

fun insert_by_time :: "(string \<Rightarrow> string \<Rightarrow> bool) \<Rightarrow> jsval \<Rightarrow> jsval list \<Rightarrow> jsval list" where
  "insert_by_time collate u [] = [u]"
| "insert_by_time collate u (v # vs) =
    (if collate (update_time u) (update_time v) then u # v # vs else v # insert_by_time collate u vs)"

definition sort_by_time :: "(string \<Rightarrow> string \<Rightarrow> bool) \<Rightarrow> jsval list \<Rightarrow> jsval list" where
  "sort_by_time collate us = foldr (insert_by_time collate) us []"

definition portal_update :: "jsval \<Rightarrow> jsval res" where
  "portal_update update =
    and_then (get_fld update ''id'') (\<lambda>i.
    Inr (JObj [(''id'', i), (''at'', coalesce (fld update ''at'') JNull), (''message'', fld update ''message'')]))"

definition buildClientPortalView ::
    "(string \<Rightarrow> string \<Rightarrow> bool) \<Rightarrow> jsval \<Rightarrow> jsval \<Rightarrow> jsval \<Rightarrow> jsval \<Rightarrow> jsval res" where
  "buildClientPortalView collate project approvedReports files updates =
    guard [(truthy project, ''Client portal requires a project.'')]
    (and_then (elements (default_arg files (JArr []))) (\<lambda>fileList.
     and_then (map_res (portal_file (fld project ''tenantId'')) fileList) (\<lambda>fileRows.
     and_then (elements (default_arg updates (JArr []))) (\<lambda>updateList.
     and_then (map_res portal_update (sort_by_time collate updateList)) (\<lambda>updateRows.
     Inr (JObj
      [(''tenantId'', fld project ''tenantId''),
       (''projectId'', fld project ''id''),
       (''projectName'', fld project ''name''),
       (''projectStatus'', coalesce (fld project ''status'') (JStr ''unknown'')),
       (''reports'', default_arg approvedReports (JArr [])),
       (''files'', JArr fileRows),
       (''updates'', JArr updateRows),
       (''payment'', paymentPlaceholder),
       (''staged'', JBool True)]))))))"

section \<open>Observability\<close>

definition createLoadScenario :: "jsval \<Rightarrow> jsval res" where
  "createLoadScenario input =
    and_then (get_fld input ''name'') (\<lambda>scenarioName.
    Inr (JObj
      [(''name'', scenarioName),
       (''tenantCount'', fld input ''tenantCount''),
       (''userCount'', fld input ''userCount''),
       (''projectCount'', fld input ''projectCount''),
       (''messageCount'', fld input ''messageCount''),
       (''concurrentReviewSessions'', fld input ''concurrentReviewSessions''),
       (''staged'', JBool True)]))"

text \<open>The items of a queue are an array, when there are any.\<close>

definition queue_length :: "jsval \<Rightarrow> rat" where
  "queue_length queue = (case fld queue ''items'' of JArr xs \<Rightarrow> of_nat (length xs) | _ \<Rightarrow> 0)"

definition summarizeQueueHealth :: "jsval list \<Rightarrow> jsval res" where
  "summarizeQueueHealth queues =
    and_then (map_res (\<lambda>queue. and_then (get_fld queue ''items'') (\<lambda>_. Inr (queue_length queue))) queues) (\<lambda>sizes.
    Inr (JObj [(''queueCount'', JNum (of_nat (length queues))), (''backlogSize'', JNum (sum_list sizes)),
      (''staged'', JBool True)]))"

definition verifyAuditHealth :: "ctx \<Rightarrow> jsval list \<Rightarrow> jsval res" where
  "verifyAuditHealth cx events =
    and_then (verifyAuditChain cx JNull events) (\<lambda>result.
    Inr (JObj
      ([(''valid'', JBool (valid result))] @
       (case v_reason result of None \<Rightarrow> [] | Some r \<Rightarrow> [(''reason'', JStr r), (''eventId'', v_eventId result)]) @
       [(''checkedEventCount'', JNum (of_nat (length events))), (''staged'', JBool True)])))"

section \<open>Properties\<close>

text \<open>How many items a group has.\<close>

definition group_of :: "string \<Rightarrow> jsval \<Rightarrow> string" where
  "group_of key item = js_string (coalesce (fld item key) (JStr ''unknown''))"

definition group_size :: "string \<Rightarrow> jsval list \<Rightarrow> string \<Rightarrow> nat" where
  "group_size key items g = length (filter (\<lambda>item. group_of key item = g) items)"

lemma count_group_own:
  assumes "k \<notin> set proto_keys"
  shows "fld (JObj (count_group fs k)) g = (if g = k then js_add1 (coalesce (fld (JObj fs) k) (JNum 0)) else fld (JObj fs) g)"
proof -
  have "k \<noteq> ''__proto__''" using assms by (auto simp: proto_keys_def)
  with assms show ?thesis
    by (simp add: count_group_def read_property_def inherited_def fld.simps(1) split: option.split)
qed

lemma group_from_counts:
  assumes "list_all (\<lambda>item. \<not> nullish item \<and> group_of key item \<notin> set proto_keys) items"
    and "\<forall>g. fld (JObj fs) g = (if c g = 0 then JUndef else JNum (of_nat (c g)))"
  shows "\<exists>fs'. group_from key fs items = Inr fs'
    \<and> (\<forall>g. fld (JObj fs') g = (if c g + group_size key items g = 0 then JUndef else JNum (of_nat (c g + group_size key items g))))"
  using assms
proof (induction items arbitrary: fs c)
  case (Cons item items)
  let ?k = "group_of key item"
  have step: "group_from key fs (item # items) = group_from key (count_group fs ?k) items"
    using Cons.prems(1) by (simp add: get_fld_def group_of_def)
  have k: "?k \<notin> set proto_keys" using Cons.prems(1) by simp
  define c' where "c' = c(?k := c ?k + 1)"
  have counts: "\<forall>g. fld (JObj (count_group fs ?k)) g = (if c' g = 0 then JUndef else JNum (of_nat (c' g)))"
    unfolding count_group_own [OF k] c'_def using Cons.prems(2) by (simp add: js_add1_def)
  have sizes: "c' g + group_size key items g = c g + group_size key (item # items) g" for g
    by (simp add: group_size_def c'_def)
  have rest: "list_all (\<lambda>item. \<not> nullish item \<and> group_of key item \<notin> set proto_keys) items"
    using Cons.prems(1) by simp
  show ?case unfolding step by (rule Cons.IH [OF rest counts, unfolded sizes])
qed (simp add: group_size_def)

text \<open>
  Counting by status: when no group is named like a property that every object inherits, each group
  present has the number of its items and no other group appears.
\<close>

theorem groupCount_exact:
  assumes "list_all (\<lambda>item. \<not> nullish item \<and> group_of key item \<notin> set proto_keys) items"
  shows "\<exists>fs. groupCount (JArr items) key = Inr (JObj fs)
    \<and> (\<forall>g. fld (JObj fs) g = (if group_size key items g = 0 then JUndef else JNum (of_nat (group_size key items g))))"
  using group_from_counts [OF assms, of "[]" "\<lambda>g. 0"] by (auto simp: groupCount_def elements_def)

lemma groupCount_exact_witness:
  "\<exists>fs. groupCount (JArr [JObj [(''status'', JStr ''draft'')], JObj []]) ''status'' = Inr (JObj fs)
    \<and> (\<forall>g. fld (JObj fs) g = (if group_size ''status'' [JObj [(''status'', JStr ''draft'')], JObj []] g = 0 then JUndef
         else JNum (of_nat (group_size ''status'' [JObj [(''status'', JStr ''draft'')], JObj []] g))))"
  by (rule groupCount_exact) code_simp

text \<open>A status that is such a name is not counted but appended to the text of the inherited function.\<close>

lemma groupCount_inherited:
  "groupCount (JArr [JObj [(''status'', JStr ''valueOf'')]]) ''status''
    = Inr (JObj [(''valueOf'', JStr ''function valueOf() { [native code] }1'')])"
  by code_simp

lemma split_no_sep: "c \<notin> set s \<Longrightarrow> split c s = [s]"
  by (induction s) auto

lemma split_append: "c \<notin> set s \<Longrightarrow> split c (s @ c # t) = s # split c t"
  by (induction s) auto

text \<open>
  A download path of the portal has exactly the segments of its route, and decoding the two variable
  ones gives the tenant and the file back: no identifier can leave its segment.
\<close>

theorem download_path_segments:
  "\<exists>t f. split CHR ''/'' (download_path tenantId fileId)
       = [[], ''v1'', ''tenants'', t, ''files'', f, ''download'']
     \<and> decodeURIComponent t = Some (js_string tenantId) \<and> decodeURIComponent f = Some (js_string fileId)"
proof (intro exI conjI)
  let ?t = "encodeURIComponent (js_string tenantId)" and ?f = "encodeURIComponent (js_string fileId)"
  show "split CHR ''/'' (download_path tenantId fileId) = [[], ''v1'', ''tenants'', ?t, ''files'', ?f, ''download'']"
    by (simp add: download_path_def split_append [OF encode_no_slash])
  show "decodeURIComponent ?t = Some (js_string tenantId)" "decodeURIComponent ?f = Some (js_string fileId)"
    by (rule decode_encode)+
qed

end
