(* ===== verification/Effects.thy ===== *)
theory Effects
  imports Prelude
begin

text \<open>
  Stateful operations that may throw: what an operation did to the state before it threw stays done.
  An operation maps a state to the state it leaves and its result; this theory has its sequencing,
  its \<open>try\<close>, and the reasoning about what an operation may change.
\<close>

section \<open>Operations\<close>

type_synonym ('s, 'a) act = "'s \<Rightarrow> 's \<times> 'a res"

definition give :: "'a \<Rightarrow> ('s, 'a) act" where
  "give v s = (s, Inr v)"

definition from_res :: "'a res \<Rightarrow> ('s, 'a) act" where
  "from_res r s = (s, r)"

definition reading :: "('s \<Rightarrow> 'a) \<Rightarrow> ('s, 'a) act" where
  "reading f s = (s, Inr (f s))"

definition writing :: "('s \<Rightarrow> 's) \<Rightarrow> ('s, unit) act" where
  "writing f s = (f s, Inr ())"

definition seq :: "('s, 'a) act \<Rightarrow> ('a \<Rightarrow> ('s, 'b) act) \<Rightarrow> ('s, 'b) act" where
  "seq m f s = (case m s of (s', Inl e) \<Rightarrow> (s', Inl e) | (s', Inr v) \<Rightarrow> f v s')"

definition attempt :: "('s, 'a) act \<Rightarrow> (js_error \<Rightarrow> ('s, 'a) act) \<Rightarrow> ('s, 'a) act" where
  "attempt m h s = (case m s of (s', Inl e) \<Rightarrow> h e s' | (s', Inr v) \<Rightarrow> (s', Inr v))"

text \<open>A loop over a list, ended by the first error.\<close>

fun for_each :: "('a \<Rightarrow> ('s, unit) act) \<Rightarrow> 'a list \<Rightarrow> ('s, unit) act" where
  "for_each f [] = give ()"
| "for_each f (x # xs) = seq (f x) (\<lambda>_. for_each f xs)"

text \<open>An operation on a part of the state.\<close>

definition on_part :: "('s \<Rightarrow> 'p) \<Rightarrow> ('p \<Rightarrow> 's \<Rightarrow> 's) \<Rightarrow> ('p, 'a) act \<Rightarrow> ('s, 'a) act" where
  "on_part part put m s = (case m (part s) of (p, r) \<Rightarrow> (put p s, r))"

text \<open>An operation that changes the state only when it succeeds.\<close>

definition transition :: "('s \<Rightarrow> ('s \<times> 'a) res) \<Rightarrow> ('s, 'a) act" where
  "transition f s = (case f s of Inl e \<Rightarrow> (s, Inl e) | Inr (s', v) \<Rightarrow> (s', Inr v))"

named_theorems act_simps \<open>running an operation\<close>

lemma act_basics [simp, act_simps]:
  "give v s = (s, Inr v)" "from_res r s = (s, r)" "reading f s = (s, Inr (f s))" "writing g s = (g s, Inr ())"
  by (simp_all add: give_def from_res_def reading_def writing_def)

lemma seq_run [act_simps]:
  "m s = (s', Inr v) \<Longrightarrow> seq m f s = f v s'" "m s = (s', Inl e) \<Longrightarrow> seq m f s = (s', Inl e)"
  by (simp_all add: seq_def)

lemma attempt_run [act_simps]:
  "m s = (s', Inr v) \<Longrightarrow> attempt m h s = (s', Inr v)" "m s = (s', Inl e) \<Longrightarrow> attempt m h s = h e s'"
  by (simp_all add: attempt_def)

lemma seq_give [simp]: "seq (give v) f = f v"
  by (simp add: seq_def fun_eq_iff)

lemma seq_reading [simp]: "seq (reading g) f s = f (g s) s"
  by (simp add: seq_def)

lemma seq_writing [simp]: "seq (writing k) f s = f () (k s)"
  by (simp add: seq_def)

lemma seq_from_res [simp]: "seq (from_res r) f s = (case r of Inl e \<Rightarrow> (s, Inl e) | Inr v \<Rightarrow> f v s)"
  by (simp add: seq_def)

lemma seq_transition [simp]:
  "seq (transition g) f s = (case g s of Inl e \<Rightarrow> (s, Inl e) | Inr (s', v) \<Rightarrow> f v s')"
  by (simp add: seq_def transition_def split: sum.splits prod.splits)

section \<open>What an operation may change\<close>

text \<open>
  A change relation is reflexive and transitive; an operation that is built from steps inside such a
  relation stays inside it, whether it returns or throws.
\<close>

locale change =
  fixes R :: "'s \<Rightarrow> 's \<Rightarrow> bool"
  assumes stay: "R s s"
    and compose: "R s s' \<Longrightarrow> R s' s'' \<Longrightarrow> R s s''"
begin

definition stays_in :: "('s, 'a) act \<Rightarrow> bool" where
  "stays_in m = (\<forall>s. R s (fst (m s)))"

lemma stays_inI: "(\<And>s. R s (fst (m s))) \<Longrightarrow> stays_in m"
  by (simp add: stays_in_def)

lemma stays_inD: "stays_in m \<Longrightarrow> m s = (s', r) \<Longrightarrow> R s s'"
  by (metis fst_conv stays_in_def)

lemma stays_in_give: "stays_in (give v)" "stays_in (from_res r)" "stays_in (reading f)"
  by (simp_all add: stays_in_def stay)

lemma stays_in_writing: "(\<And>s. R s (f s)) \<Longrightarrow> stays_in (writing f)"
  by (simp add: stays_in_def)

lemma stays_in_seq:
  assumes "stays_in m" "\<And>v. stays_in (f v)"
  shows "stays_in (seq m f)"
proof (rule stays_inI)
  fix s
  obtain s' r where m: "m s = (s', r)" by (cases "m s")
  show "R s (fst (seq m f s))"
    using stays_inD [OF assms(1) m] assms(2) m compose
    by (cases r) (auto simp: seq_def stays_in_def)
qed

lemma stays_in_attempt:
  assumes "stays_in m" "\<And>e. stays_in (h e)"
  shows "stays_in (attempt m h)"
proof (rule stays_inI)
  fix s
  obtain s' r where m: "m s = (s', r)" by (cases "m s")
  show "R s (fst (attempt m h s))"
    using stays_inD [OF assms(1) m] assms(2) m compose
    by (cases r) (auto simp: attempt_def stays_in_def)
qed

lemma stays_in_if: "stays_in m \<Longrightarrow> stays_in n \<Longrightarrow> stays_in (if b then m else n)"
  by simp

lemma stays_in_let: "(\<And>x. stays_in (f x)) \<Longrightarrow> stays_in (let x = v in f x)"
  by simp

lemma stays_in_for_each: "(\<And>x. x \<in> set xs \<Longrightarrow> stays_in (f x)) \<Longrightarrow> stays_in (for_each f xs)"
  by (induction xs) (auto intro: stays_in_give stays_in_seq)

lemma stays_in_transition: "(\<And>s s' v. f s = Inr (s', v) \<Longrightarrow> R s s') \<Longrightarrow> stays_in (transition f)"
  by (auto simp: stays_in_def transition_def stay split: sum.splits prod.splits)

lemmas stays_in_intros = stays_in_give stays_in_seq stays_in_attempt stays_in_if stays_in_let

end

text \<open>An invariant as a change relation.\<close>

lemma change_invariant: "change (\<lambda>s s'. P s \<longrightarrow> P s')"
  by unfold_locales auto

text \<open>Keeping the value of an observation.\<close>

lemma change_observation: "change (\<lambda>s s'. obs s' = obs s)"
  by unfold_locales auto

end
