(* ===== verification/Repository.thy ===== *)
theory Repository
  imports Effects EmailDelivery AiReview Blueprint Coordination FieldReports Lifecycle
begin

text \<open>
  The in-memory repository (apps/api/src/repositories/memory.js). Each \<open>Map\<close> is an association list in
  insertion order from identifiers to records; the seed data is a parameter. Stored records are
  copies (\<open>JSON.parse(JSON.stringify(v))\<close>).
\<close>

section \<open>State\<close>

type_synonym store = "(jsval \<times> jsval) list"

text \<open>Keys that are objects are compared by identity, and no lookup has the stored object at hand.\<close>

definition store_get :: "store \<Rightarrow> jsval \<Rightarrow> jsval option" where
  "store_get s k = (if is_array k \<or> is_obj k then None else map_of s k)"

definition store_set :: "jsval \<Rightarrow> jsval \<Rightarrow> store \<Rightarrow> store" where
  "store_set k v s = (if is_array k \<or> is_obj k then s @ [(k, v)] else AList.update k v s)"

definition store_has :: "store \<Rightarrow> jsval \<Rightarrow> bool" where
  "store_has s k = (store_get s k \<noteq> None)"

definition values_of :: "store \<Rightarrow> jsval list" where
  "values_of s = map snd s"

record repo =
  projectStore :: store
  issueStore :: store
  rfiStore :: store
  permitStore :: store
  reviewSessionStore :: store
  aiReviewRunStore :: store
  aiFindingStore :: store
  platformBlueprintStore :: store
  fieldReportStore :: store
  fileRecordStore :: store
  emailDeliveryStore :: store
  emailSuppressionStore :: store
  emailWebhookEventStore :: store
  serviceHeartbeatStore :: store
  auditEventStore :: "jsval list"

definition seed_store :: "jsval list \<Rightarrow> store" where
  "seed_store vs = fold (\<lambda>v. store_set (fld v ''id'') (json_clone v)) vs []"

text \<open>The seed is an object with a list per collection.\<close>

definition seed_list :: "jsval \<Rightarrow> string \<Rightarrow> jsval list" where
  "seed_list seed k = (case fld seed k of JArr xs \<Rightarrow> xs | _ \<Rightarrow> [])"

definition pair_key :: "jsval \<Rightarrow> jsval \<Rightarrow> jsval" where
  "pair_key a b = JStr (js_string a @ '':'' @ js_string b)"

definition createMemoryRepository :: "jsval \<Rightarrow> repo" where
  "createMemoryRepository seedState = \<lparr>
     projectStore = seed_store (seed_list seedState ''projects''),
     issueStore = seed_store (seed_list seedState ''issues''),
     rfiStore = seed_store (seed_list seedState ''rfis''),
     permitStore = seed_store (seed_list seedState ''permitPackages''),
     reviewSessionStore = seed_store (seed_list seedState ''reviewSessions''),
     aiReviewRunStore = seed_store (seed_list seedState ''aiReviewRuns''),
     aiFindingStore = seed_store (seed_list seedState ''aiFindings''),
     platformBlueprintStore = seed_store (seed_list seedState ''platformBlueprints''),
     fieldReportStore = seed_store (seed_list seedState ''fieldReports''),
     fileRecordStore = seed_store (seed_list seedState ''fileRecords''),
     emailDeliveryStore = seed_store (seed_list seedState ''emailDeliveries''),
     emailSuppressionStore = fold (\<lambda>v. store_set (pair_key (fld v ''tenantId'') (fld v ''normalizedRecipient'')) (json_clone v))
       (seed_list seedState ''emailSuppressions'') [],
     emailWebhookEventStore = seed_store (seed_list seedState ''emailWebhookEvents''),
     serviceHeartbeatStore = fold (\<lambda>v. store_set (pair_key (fld v ''serviceName'') (fld v ''instanceId'')) (json_clone v))
       (seed_list seedState ''serviceHeartbeats'') [],
     auditEventStore = map json_clone (seed_list seedState ''auditEvents'')\<rparr>"

section \<open>Collections\<close>

definition of_tenant :: "jsval \<Rightarrow> jsval list \<Rightarrow> jsval list" where
  "of_tenant tenantId vs = filter (\<lambda>v. strict_eq (fld v ''tenantId'') tenantId) vs"

definition by_id :: "store \<Rightarrow> jsval \<Rightarrow> jsval" where
  "by_id s i = (case store_get s i of Some v \<Rightarrow> v | None \<Rightarrow> JNull)"

text \<open>Creating a record: the factory checks the input, an identifier is used once.\<close>

definition create_in ::
    "(jsval \<Rightarrow> jsval res) \<Rightarrow> string \<Rightarrow> (repo \<Rightarrow> store) \<Rightarrow> (store \<Rightarrow> repo \<Rightarrow> repo) \<Rightarrow> jsval \<Rightarrow> repo \<Rightarrow> (repo \<times> jsval) res" where
  "create_in factory taken part put input r =
    and_then (factory (spread input [(''staged'', JBool True)])) (\<lambda>v.
    guard [(\<not> store_has (part r) (fld v ''id''), taken)]
      (Inr (put (store_set (fld v ''id'') (json_clone v) (part r)) r, json_clone v)))"

definition listProjectsByTenant :: "repo \<Rightarrow> jsval \<Rightarrow> jsval list" where
  "listProjectsByTenant r tenantId = of_tenant tenantId (values_of (projectStore r))"

definition getProjectById :: "repo \<Rightarrow> jsval \<Rightarrow> jsval" where
  "getProjectById r i = by_id (projectStore r) i"

definition repo_createProject :: "jsval \<Rightarrow> repo \<Rightarrow> (repo \<times> jsval) res" where
  "repo_createProject = create_in createProject ''Project id already exists.''
     projectStore (\<lambda>s r. r\<lparr>projectStore := s\<rparr>)"

definition listIssuesByTenant :: "repo \<Rightarrow> jsval \<Rightarrow> jsval list" where
  "listIssuesByTenant r tenantId = of_tenant tenantId (values_of (issueStore r))"

definition listIssuesByProject :: "repo \<Rightarrow> jsval \<Rightarrow> jsval list" where
  "listIssuesByProject r projectId = filter (\<lambda>v. strict_eq (fld v ''projectId'') projectId) (values_of (issueStore r))"

definition repo_createIssue :: "jsval \<Rightarrow> repo \<Rightarrow> (repo \<times> jsval) res" where
  "repo_createIssue = create_in createCoordinationIssue ''Coordination issue id already exists.''
     issueStore (\<lambda>s r. r\<lparr>issueStore := s\<rparr>)"

definition listRfisByTenant :: "repo \<Rightarrow> jsval \<Rightarrow> jsval list" where
  "listRfisByTenant r tenantId = of_tenant tenantId (values_of (rfiStore r))"

definition repo_createRfi :: "jsval \<Rightarrow> repo \<Rightarrow> (repo \<times> jsval) res" where
  "repo_createRfi = create_in createRfi ''RFI id already exists.'' rfiStore (\<lambda>s r. r\<lparr>rfiStore := s\<rparr>)"

definition listPermitPackagesByTenant :: "repo \<Rightarrow> jsval \<Rightarrow> jsval list" where
  "listPermitPackagesByTenant r tenantId = of_tenant tenantId (values_of (permitStore r))"

definition repo_createPermitPackage :: "jsval \<Rightarrow> repo \<Rightarrow> (repo \<times> jsval) res" where
  "repo_createPermitPackage = create_in createPermitPackage ''Permit package id already exists.''
     permitStore (\<lambda>s r. r\<lparr>permitStore := s\<rparr>)"

definition listReviewSessionsByTenant :: "repo \<Rightarrow> jsval \<Rightarrow> jsval list" where
  "listReviewSessionsByTenant r tenantId = of_tenant tenantId (values_of (reviewSessionStore r))"

definition repo_createReviewSession :: "jsval \<Rightarrow> repo \<Rightarrow> (repo \<times> jsval) res" where
  "repo_createReviewSession = create_in createReviewSession ''Review session id already exists.''
     reviewSessionStore (\<lambda>s r. r\<lparr>reviewSessionStore := s\<rparr>)"

definition listAiReviewRunsByTenant :: "repo \<Rightarrow> jsval \<Rightarrow> jsval list" where
  "listAiReviewRunsByTenant r tenantId = of_tenant tenantId (values_of (aiReviewRunStore r))"

definition getAiReviewRunById :: "repo \<Rightarrow> jsval \<Rightarrow> jsval" where
  "getAiReviewRunById r i = by_id (aiReviewRunStore r) i"

definition repo_createAiReviewRun :: "jsval \<Rightarrow> repo \<Rightarrow> (repo \<times> jsval) res" where
  "repo_createAiReviewRun = create_in createReviewRun ''AI review run id already exists.''
     aiReviewRunStore (\<lambda>s r. r\<lparr>aiReviewRunStore := s\<rparr>)"

text \<open>A finding belongs to the tenant of its review run.\<close>

definition finding_tenant :: "repo \<Rightarrow> jsval \<Rightarrow> jsval" where
  "finding_tenant r finding =
    (case store_get (aiReviewRunStore r) (fld finding ''reviewRunId'') of
       Some run \<Rightarrow> fld run ''tenantId'' | None \<Rightarrow> JUndef)"

definition listAiFindingsByTenant :: "repo \<Rightarrow> jsval \<Rightarrow> jsval list" where
  "listAiFindingsByTenant r tenantId =
     filter (\<lambda>finding. strict_eq (finding_tenant r finding) tenantId) (values_of (aiFindingStore r))"

definition getAiFindingById :: "repo \<Rightarrow> jsval \<Rightarrow> jsval" where
  "getAiFindingById r i = by_id (aiFindingStore r) i"

definition repo_createAiFinding :: "jsval \<Rightarrow> repo \<Rightarrow> (repo \<times> jsval) res" where
  "repo_createAiFinding = create_in createFinding ''AI finding id already exists.''
     aiFindingStore (\<lambda>s r. r\<lparr>aiFindingStore := s\<rparr>)"

definition setAiFindingDisposition :: "jsval \<Rightarrow> jsval \<Rightarrow> jsval \<Rightarrow> repo \<Rightarrow> (repo \<times> jsval) res" where
  "setAiFindingDisposition findingId nextDisposition relatedIssueId r =
    (case store_get (aiFindingStore r) findingId of
       None \<Rightarrow> Inl (Err ''AI finding not found.'')
     | Some finding \<Rightarrow>
         and_then (setHumanDisposition JNull finding nextDisposition (default_arg relatedIssueId JNull)) (\<lambda>updated.
         Inr (r\<lparr>aiFindingStore := store_set findingId (json_clone updated) (aiFindingStore r)\<rparr>, json_clone updated)))"

definition listPlatformBlueprintsByTenant :: "repo \<Rightarrow> jsval \<Rightarrow> jsval list" where
  "listPlatformBlueprintsByTenant r tenantId = of_tenant tenantId (values_of (platformBlueprintStore r))"

definition getPlatformBlueprintById :: "repo \<Rightarrow> jsval \<Rightarrow> jsval" where
  "getPlatformBlueprintById r i = by_id (platformBlueprintStore r) i"

definition repo_createPlatformBlueprint :: "jsval \<Rightarrow> repo \<Rightarrow> (repo \<times> jsval) res" where
  "repo_createPlatformBlueprint = create_in generatePlatformBlueprint ''Platform blueprint id already exists.''
     platformBlueprintStore (\<lambda>s r. r\<lparr>platformBlueprintStore := s\<rparr>)"

definition listFieldReportsByTenant :: "repo \<Rightarrow> jsval \<Rightarrow> jsval list" where
  "listFieldReportsByTenant r tenantId = of_tenant tenantId (values_of (fieldReportStore r))"

definition getFieldReportById :: "repo \<Rightarrow> jsval \<Rightarrow> jsval" where
  "getFieldReportById r i = by_id (fieldReportStore r) i"

definition repo_createFieldReport :: "jsval \<Rightarrow> repo \<Rightarrow> (repo \<times> jsval) res" where
  "repo_createFieldReport = create_in createFieldReport ''Field report id already exists.''
     fieldReportStore (\<lambda>s r. r\<lparr>fieldReportStore := s\<rparr>)"

definition saveFieldReport :: "jsval \<Rightarrow> repo \<Rightarrow> (repo \<times> jsval) res" where
  "saveFieldReport report r =
    and_then (get_fld report ''id'') (\<lambda>i.
    Inr (r\<lparr>fieldReportStore := store_set i (json_clone report) (fieldReportStore r)\<rparr>, json_clone report))"

section \<open>Files and audit events\<close>

definition listFileRecordsByTenant :: "repo \<Rightarrow> jsval \<Rightarrow> jsval list" where
  "listFileRecordsByTenant r tenantId = map json_clone (of_tenant tenantId (values_of (fileRecordStore r)))"

definition getFileRecordById :: "repo \<Rightarrow> jsval \<Rightarrow> jsval" where
  "getFileRecordById r i = (case store_get (fileRecordStore r) i of Some v \<Rightarrow> json_clone v | None \<Rightarrow> JNull)"

definition repo_createFileRecord :: "jsval \<Rightarrow> repo \<Rightarrow> (repo \<times> jsval) res" where
  "repo_createFileRecord fileRecord r =
    guard [(\<not> store_has (fileRecordStore r) (fld fileRecord ''id''), ''File id already exists.'')]
      (Inr (r\<lparr>fileRecordStore := store_set (fld fileRecord ''id'') (json_clone fileRecord) (fileRecordStore r)\<rparr>,
            json_clone fileRecord))"

definition put_existing ::
    "string \<Rightarrow> (repo \<Rightarrow> store) \<Rightarrow> (store \<Rightarrow> repo \<Rightarrow> repo) \<Rightarrow> jsval \<Rightarrow> repo \<Rightarrow> (repo \<times> jsval) res" where
  "put_existing missing part put v r =
    guard [(store_has (part r) (fld v ''id''), missing)]
      (Inr (put (store_set (fld v ''id'') (json_clone v) (part r)) r, json_clone v))"

definition saveFileRecord :: "jsval \<Rightarrow> repo \<Rightarrow> (repo \<times> jsval) res" where
  "saveFileRecord = put_existing ''File record not found.'' fileRecordStore (\<lambda>s r. r\<lparr>fileRecordStore := s\<rparr>)"

definition listAuditEventsByTenant :: "repo \<Rightarrow> jsval \<Rightarrow> jsval list" where
  "listAuditEventsByTenant r tenantId = map json_clone (of_tenant tenantId (auditEventStore r))"

definition appendAuditEvent :: "jsval \<Rightarrow> repo \<Rightarrow> repo \<times> jsval" where
  "appendAuditEvent event r = (r\<lparr>auditEventStore := auditEventStore r @ [json_clone event]\<rparr>, json_clone event)"

definition finalizeFileRecord :: "jsval \<Rightarrow> jsval \<Rightarrow> repo \<Rightarrow> (repo \<times> jsval) res" where
  "finalizeFileRecord fileRecord auditEvent r =
    and_then (saveFileRecord fileRecord r) (\<lambda>(r', saved). Inr (fst (appendAuditEvent auditEvent r'), saved))"

section \<open>Email\<close>

text \<open>The first stored delivery with a value in a field.\<close>

definition delivery_with :: "repo \<Rightarrow> string \<Rightarrow> jsval \<Rightarrow> jsval option" where
  "delivery_with r k v = find (\<lambda>d. strict_eq (fld d k) v) (values_of (emailDeliveryStore r))"

definition intent_conflict :: js_error where
  "intent_conflict = JsError ''Email delivery idempotency key is bound to a different logical delivery.''
     (Some ''email_idempotency_conflict'') None"

definition repo_createEmailDelivery :: "jsval \<Rightarrow> repo \<Rightarrow> (repo \<times> bool \<times> jsval) res" where
  "repo_createEmailDelivery delivery r =
    (case delivery_with r ''idempotencyKey'' (fld delivery ''idempotencyKey'') of
       Some existing \<Rightarrow>
         if \<not> emailDeliveryIntentMatches existing delivery then Inl intent_conflict
         else Inr (r, False, json_clone existing)
     | None \<Rightarrow>
         guard [(\<not> store_has (emailDeliveryStore r) (fld delivery ''id''), ''Email delivery id already exists.'')]
           (Inr (r\<lparr>emailDeliveryStore := store_set (fld delivery ''id'') (json_clone delivery) (emailDeliveryStore r)\<rparr>,
                 True, json_clone delivery)))"

definition getEmailDeliveryById :: "repo \<Rightarrow> jsval \<Rightarrow> jsval" where
  "getEmailDeliveryById r i = (case store_get (emailDeliveryStore r) i of Some v \<Rightarrow> json_clone v | None \<Rightarrow> JNull)"

definition listEmailDeliveriesByTenant :: "repo \<Rightarrow> jsval \<Rightarrow> jsval list" where
  "listEmailDeliveriesByTenant r tenantId = map json_clone (of_tenant tenantId (values_of (emailDeliveryStore r)))"

definition getEmailSuppression :: "repo \<Rightarrow> jsval \<Rightarrow> jsval \<Rightarrow> jsval res" where
  "getEmailSuppression r tenantId recipientEmail =
    and_then (normalizeEmailRecipient recipientEmail) (\<lambda>recipient.
    Inr (json_clone (by_id (emailSuppressionStore r) (pair_key tenantId (JStr recipient)))))"

definition listEmailSuppressionsByTenant :: "repo \<Rightarrow> jsval \<Rightarrow> jsval list" where
  "listEmailSuppressionsByTenant r tenantId = map json_clone (of_tenant tenantId (values_of (emailSuppressionStore r)))"

definition saveEmailDelivery :: "jsval \<Rightarrow> repo \<Rightarrow> (repo \<times> jsval) res" where
  "saveEmailDelivery = put_existing ''Email delivery not found.'' emailDeliveryStore (\<lambda>s r. r\<lparr>emailDeliveryStore := s\<rparr>)"

text \<open>The hash of the tenant's last event, and appending evidence unless its event is there already.\<close>

definition previous_hash :: "repo \<Rightarrow> jsval \<Rightarrow> jsval" where
  "previous_hash r tenantId = (case of_tenant tenantId (auditEventStore r) of
     [] \<Rightarrow> JNull | es \<Rightarrow> coalesce (fld (last es) ''eventHash'') JNull)"

definition add_evidence :: "jsval \<Rightarrow> repo \<Rightarrow> repo" where
  "add_evidence evidence r =
    (if truthy evidence \<and> \<not> list_ex (\<lambda>e. strict_eq (fld e ''eventId'') (fld evidence ''eventId'')) (auditEventStore r)
     then fst (appendAuditEvent evidence r) else r)"

text \<open>The evidence comes from a factory that gets the previous hash, and may throw.\<close>

definition finalizeEmailDelivery :: "jsval \<Rightarrow> (jsval \<Rightarrow> jsval res) \<Rightarrow> (repo, jsval) act" where
  "finalizeEmailDelivery delivery auditEventFactory =
    seq (transition (saveEmailDelivery delivery)) (\<lambda>saved.
    seq (reading (\<lambda>r. previous_hash r (fld delivery ''tenantId''))) (\<lambda>previous.
    seq (from_res (auditEventFactory previous)) (\<lambda>evidence.
    seq (writing (add_evidence evidence)) (\<lambda>_.
    give saved))))"

record webhook_result =
  wr_duplicate :: bool
  wr_delivery :: jsval

definition suppression_step :: "mail_env \<Rightarrow> jsval \<Rightarrow> (repo, unit) act" where
  "suppression_step env incoming =
    (if \<not> truthy incoming then give ()
     else let key = pair_key (fld incoming ''tenantId'') (fld incoming ''normalizedRecipient'') in
       seq (reading (\<lambda>r. case store_get (emailSuppressionStore r) key of Some v \<Rightarrow> v | None \<Rightarrow> JUndef)) (\<lambda>existing.
       seq (from_res (mergeEmailSuppression env existing incoming)) (\<lambda>merged.
       writing (\<lambda>r. r\<lparr>emailSuppressionStore := store_set key merged (emailSuppressionStore r)\<rparr>))))"

definition record_webhook :: "string \<Rightarrow> jsval \<Rightarrow> jsval \<Rightarrow> repo \<Rightarrow> repo" where
  "record_webhook webhookId updated event r =
    r\<lparr>emailWebhookEventStore := store_set (JStr webhookId)
       (JObj [(''id'', JStr webhookId), (''tenantId'', fld updated ''tenantId''), (''event'', json_clone event)])
       (emailWebhookEventStore r)\<rparr>"

definition applyEmailWebhook ::
    "mail_env \<Rightarrow> string \<Rightarrow> jsval \<Rightarrow> (jsval \<Rightarrow> jsval \<Rightarrow> jsval res) \<Rightarrow> (repo, webhook_result) act" where
  "applyEmailWebhook env webhookId event auditEventFactory =
    seq (reading (\<lambda>r. store_has (emailWebhookEventStore r) (JStr webhookId))) (\<lambda>seen.
    if seen then give \<lparr>wr_duplicate = True, wr_delivery = JNull\<rparr>
    else seq (reading (\<lambda>r. delivery_with r ''providerMessageId'' (fld (fld event ''data'') ''email_id''))) (\<lambda>found.
    case found of
      None \<Rightarrow> give \<lparr>wr_duplicate = False, wr_delivery = JNull\<rparr>
    | Some delivery \<Rightarrow>
        seq (from_res (applyEmailWebhookStatus env delivery event)) (\<lambda>updated.
        seq (writing (\<lambda>r. r\<lparr>emailDeliveryStore := store_set (fld updated ''id'') (json_clone updated) (emailDeliveryStore r)\<rparr>)) (\<lambda>_.
        seq (from_res (createEmailSuppressionFromWebhook env updated event (JStr webhookId) JUndef)) (\<lambda>incoming.
        seq (suppression_step env incoming) (\<lambda>_.
        seq (writing (record_webhook webhookId updated event)) (\<lambda>_.
        seq (reading (\<lambda>r. previous_hash r (fld updated ''tenantId''))) (\<lambda>previous.
        seq (from_res (auditEventFactory updated previous)) (\<lambda>evidence.
        seq (writing (add_evidence evidence)) (\<lambda>_.
        give \<lparr>wr_duplicate = False, wr_delivery = json_clone updated\<rparr>))))))))))"

definition recordServiceHeartbeat :: "jsval \<Rightarrow> repo \<Rightarrow> repo \<times> jsval" where
  "recordServiceHeartbeat heartbeat r =
    (r\<lparr>serviceHeartbeatStore := store_set (pair_key (fld heartbeat ''serviceName'') (fld heartbeat ''instanceId''))
        (json_clone heartbeat) (serviceHeartbeatStore r)\<rparr>, json_clone heartbeat)"

definition checkEmailDeliveryReadiness :: "mail_env \<Rightarrow> repo \<Rightarrow> email_health_options \<Rightarrow> email_health res" where
  "checkEmailDeliveryReadiness env r opts = summarizeEmailDeliveryHealth env (values_of (emailDeliveryStore r)) opts"

definition checkWorkerReadiness :: "mail_env \<Rightarrow> repo \<Rightarrow> int \<Rightarrow> int \<Rightarrow> bool \<Rightarrow> worker_health res" where
  "checkWorkerReadiness env r now staleAfterMs requireHealthy =
     summarizeWorkerHeartbeat env (values_of (serviceHeartbeatStore r)) now staleAfterMs requireHealthy"

end
