(* ===== verification/FileStorage.thy ===== *)
theory FileStorage
  imports EmailDelivery Portal Effects Outbox
begin

text \<open>
  File storage (packages/file-storage/src/index.js): the configuration from environment variables,
  pending file records and their storage keys, the local store on disk with its write-then-rename
  protocol, and the object-store client. The URL parser, the object store and the presigner are
  parameters. The disk is a map from paths to contents; a write names how many of its steps the
  operating system lets succeed.
\<close>

section \<open>Settings\<close>

definition default_allowed_mime_types :: "string list" where
  "default_allowed_mime_types = [''application/pdf'', ''image/jpeg'', ''image/png'', ''image/webp'', ''text/plain'']"

definition stored_file_class_set :: "string list" where
  "stored_file_class_set = [''document'', ''evidence'', ''report_attachment'', ''report_photo'']"

definition stored_file_status_set :: "string list" where
  "stored_file_status_set = [''pending_upload'', ''ready'', ''deleting'', ''deleted'']"

definition trimmedString :: "jsval \<Rightarrow> string \<Rightarrow> string res" where
  "trimmedString value label = guard [(nonblank value, label @ '' is required.'')] (Inr (js_trim (js_string value)))"

text \<open>The text of a setting, or of its default when it is missing or empty.\<close>

definition raw_setting :: "jsval \<Rightarrow> string \<Rightarrow> string" where
  "raw_setting value d = (if nullish value \<or> value = JStr [] then d else js_string value)"

definition storage_integerSetting :: "jsval \<Rightarrow> string \<Rightarrow> int \<Rightarrow> int \<Rightarrow> int \<Rightarrow> int res" where
  "storage_integerSetting value label defaultValue minimum maximum =
    (let raw = raw_setting value (int_string defaultValue); parsed = number_of_string raw in
     guard [(raw \<noteq> [] \<and> list_all is_digit raw \<and> is_safe_integer parsed
               \<and> \<not> num_less parsed (JNum (of_int minimum)) \<and> \<not> num_less (JNum (of_int maximum)) parsed,
             label @ '' must be an integer between '' @ int_string minimum @ '' and '' @ int_string maximum @ ''.'')]
       (Inr (decimal_value raw)))"

definition booleanSetting :: "jsval \<Rightarrow> string \<Rightarrow> bool \<Rightarrow> bool res" where
  "booleanSetting value label defaultValue =
    (let raw = raw_setting value (if defaultValue then ''true'' else ''false'') in
     guard [(raw = ''true'' \<or> raw = ''false'', label @ '' must be true or false.'')] (Inr (raw = ''true'')))"

definition line_char :: "char \<Rightarrow> bool" where
  "line_char c = (c \<noteq> CHR 0x0A \<and> c \<noteq> CHR 0x0D)"

definition placeholder_words :: "string list" where
  "placeholder_words = [''change-me'', ''changeme'', ''replace-me'', ''replaceme'', ''example'', ''placeholder'', ''sample'', ''todo'', ''tbd'']"

definition isPlaceholder :: "string \<Rightarrow> bool" where
  "isPlaceholder v =
    ((starts_with ''<'' v \<and> ends_with ''>'' v \<and> 2 \<le> length v \<and> list_all line_char v)
     \<or> list_ex (\<lambda>w. starts_with w (js_lower v)
          \<and> (let rest = drop (length w) v in rest = [] \<or> hd rest \<in> set ''-_: '')) placeholder_words)"

text \<open>\<open>s.split(";", 1)[0]\<close>.\<close>

definition before_semicolon :: "string \<Rightarrow> string" where
  "before_semicolon s = takeWhile (\<lambda>c. c \<noteq> CHR '';'') s"

definition normalizedMimeType :: "jsval \<Rightarrow> string res" where
  "normalizedMimeType value = and_then (trimmedString value ''MIME type'') (\<lambda>s. Inr (js_trim (before_semicolon (js_lower s))))"

definition lower_alnum :: "char \<Rightarrow> bool" where
  "lower_alnum c = (let n = (of_char c :: nat) in 97 \<le> n \<and> n \<le> 122 \<or> is_digit c)"

definition mime_char :: "char \<Rightarrow> bool" where
  "mime_char c = (lower_alnum c \<or> c \<in> set ''!#$&^_.+-'')"

definition mime_shape :: "string \<Rightarrow> bool" where
  "mime_shape s = (case split CHR ''/'' s of
     [a, b] \<Rightarrow> a \<noteq> [] \<and> b \<noteq> [] \<and> list_all mime_char a \<and> list_all mime_char b | _ \<Rightarrow> False)"

definition allowedMimeTypes :: "jsval \<Rightarrow> string list res" where
  "allowedMimeTypes value =
    (let mimes = (if truthy value
       then filter (\<lambda>s. s \<noteq> []) (map (\<lambda>item. js_lower (js_trim item)) (split CHR '','' (js_string value)))
       else default_allowed_mime_types) in
     guard [(mimes \<noteq> [] \<and> list_all (\<lambda>item. CHR ''*'' \<notin> set item \<and> mime_shape item) mimes,
             ''XYGO_STORAGE_ALLOWED_MIME_TYPES must contain explicit comma-separated MIME types without wildcards.'')]
       (Inr (rev (remdups (rev mimes)))))"

record full_url = url +
  u_hostname :: string
  u_search :: string

record storage_config =
  sc_driver :: string
  sc_maxFileBytes :: int
  sc_signedUrlTtlSec :: int
  sc_retentionDays :: int
  sc_allowedMimeTypes :: "string list"
  sc_rootDirectory :: string
  sc_bucket :: string
  sc_region :: string
  sc_endpoint :: string
  sc_accessKeyId :: string
  sc_secretAccessKey :: string
  sc_forcePathStyle :: bool
  sc_publicAccess :: string
  sc_encryption :: string

definition bucket_char :: "char \<Rightarrow> bool" where
  "bucket_char c = (lower_alnum c \<or> c = CHR ''.'' \<or> c = CHR ''-'')"

definition bucket_shape :: "string \<Rightarrow> bool" where
  "bucket_shape s = (3 \<le> length s \<and> length s \<le> 63 \<and> lower_alnum (hd s) \<and> lower_alnum (last s)
     \<and> list_all bucket_char s \<and> \<not> contains s ''..'')"

definition region_shape :: "string \<Rightarrow> bool" where
  "region_shape s = (s \<noteq> [] \<and> length s \<le> 63 \<and> lower_alnum (hd s) \<and> list_all (\<lambda>c. lower_alnum c \<or> c = CHR ''-'') s)"

definition reserved_host :: "string \<Rightarrow> bool" where
  "reserved_host hostname =
    (hostname \<in> set [''localhost'', ''0.0.0.0'', ''example.com'', ''example.net'', ''example.org'']
     \<or> starts_with ''127.'' hostname
     \<or> list_ex (\<lambda>suffix. ends_with suffix hostname) [''.local'', ''.localhost'', ''.invalid'', ''.test'', ''.example'',
          ''.example.com'', ''.example.net'', ''.example.org''])"

definition weak_credential :: "nat \<Rightarrow> string \<Rightarrow> bool" where
  "weak_credential minimum v = (v = [] \<or> length v < minimum \<or> isPlaceholder v)"

definition assertS3Configuration :: "(string \<Rightarrow> full_url option) \<Rightarrow> storage_config \<Rightarrow> unit res" where
  "assertS3Configuration parse config =
    guard [(bucket_shape (sc_bucket config), ''XYGO_STORAGE_BUCKET must be a valid private S3 bucket name.''),
           (region_shape (sc_region config), ''XYGO_STORAGE_REGION must be a valid region identifier.'')]
    (case parse (sc_endpoint config) of
       None \<Rightarrow> Inl (Err ''XYGO_STORAGE_ENDPOINT must be an absolute HTTPS URL.'')
     | Some endpoint \<Rightarrow>
        guard [(u_protocol endpoint = ''https:'' \<and> u_username endpoint = [] \<and> u_password endpoint = []
                  \<and> u_search endpoint = [] \<and> u_hash endpoint = [],
                ''XYGO_STORAGE_ENDPOINT must be an HTTPS URL without credentials, query, or fragment.''),
               (\<not> reserved_host (js_lower (u_hostname endpoint)),
                ''XYGO_STORAGE_ENDPOINT must not use a local, test, invalid, or reserved hostname.''),
               (sc_publicAccess config = ''blocked'', ''XYGO_STORAGE_PUBLIC_ACCESS must be blocked.''),
               (sc_encryption config = ''AES256'', ''XYGO_STORAGE_SERVER_SIDE_ENCRYPTION must be AES256.''),
               (\<not> weak_credential 8 (sc_accessKeyId config),
                ''XYGO_STORAGE_ACCESS_KEY_ID must be a non-placeholder private credential of at least 8 characters.''),
               (\<not> weak_credential 16 (sc_secretAccessKey config),
                ''XYGO_STORAGE_SECRET_ACCESS_KEY must be a non-placeholder private credential of at least 16 characters.'')]
          (Inr ()))"

definition storageConfigurationFromEnvironment ::
    "(string \<Rightarrow> string) \<Rightarrow> (string \<Rightarrow> full_url option) \<Rightarrow> jsval \<Rightarrow> storage_config res" where
  "storageConfigurationFromEnvironment resolve parse env =
    (let driver = js_lower (js_trim (js_string (coalesce (fld env ''XYGO_STORAGE_DRIVER'') (JStr ''local'')))) in
     and_then (storage_integerSetting (fld env ''XYGO_STORAGE_MAX_FILE_BYTES'') ''XYGO_STORAGE_MAX_FILE_BYTES'' 26214400 1024 262144000) (\<lambda>maxFileBytes.
     and_then (storage_integerSetting (fld env ''XYGO_STORAGE_SIGNED_URL_TTL_SEC'') ''XYGO_STORAGE_SIGNED_URL_TTL_SEC'' 300 60 900) (\<lambda>ttl.
     and_then (storage_integerSetting (fld env ''XYGO_STORAGE_RETENTION_DAYS'') ''XYGO_STORAGE_RETENTION_DAYS'' 365 1 3650) (\<lambda>retention.
     and_then (allowedMimeTypes (fld env ''XYGO_STORAGE_ALLOWED_MIME_TYPES'')) (\<lambda>mimes.
     let common = \<lparr>sc_driver = driver, sc_maxFileBytes = maxFileBytes, sc_signedUrlTtlSec = ttl, sc_retentionDays = retention,
           sc_allowedMimeTypes = mimes, sc_rootDirectory = [], sc_bucket = [], sc_region = [], sc_endpoint = [], sc_accessKeyId = [],
           sc_secretAccessKey = [], sc_forcePathStyle = False, sc_publicAccess = [], sc_encryption = []\<rparr> in
     if driver = ''local''
     then Inr (common\<lparr>sc_rootDirectory := resolve (js_string (coalesce (fld env ''XYGO_STORAGE_LOCAL_ROOT'') (JStr ''infrastructure/staged-data/uploads'')))\<rparr>)
     else guard [(driver = ''s3'', ''XYGO_STORAGE_DRIVER must be local or s3.'')]
     (and_then (trimmedString (fld env ''XYGO_STORAGE_BUCKET'') ''XYGO_STORAGE_BUCKET'') (\<lambda>bucket.
      and_then (trimmedString (fld env ''XYGO_STORAGE_REGION'') ''XYGO_STORAGE_REGION'') (\<lambda>region.
      and_then (trimmedString (fld env ''XYGO_STORAGE_ENDPOINT'') ''XYGO_STORAGE_ENDPOINT'') (\<lambda>endpoint.
      and_then (trimmedString (fld env ''XYGO_STORAGE_ACCESS_KEY_ID'') ''XYGO_STORAGE_ACCESS_KEY_ID'') (\<lambda>accessKeyId.
      and_then (trimmedString (fld env ''XYGO_STORAGE_SECRET_ACCESS_KEY'') ''XYGO_STORAGE_SECRET_ACCESS_KEY'') (\<lambda>secret.
      and_then (booleanSetting (fld env ''XYGO_STORAGE_FORCE_PATH_STYLE'') ''XYGO_STORAGE_FORCE_PATH_STYLE'' False) (\<lambda>pathStyle.
      and_then (trimmedString (fld env ''XYGO_STORAGE_PUBLIC_ACCESS'') ''XYGO_STORAGE_PUBLIC_ACCESS'') (\<lambda>access.
      and_then (trimmedString (fld env ''XYGO_STORAGE_SERVER_SIDE_ENCRYPTION'') ''XYGO_STORAGE_SERVER_SIDE_ENCRYPTION'') (\<lambda>encryption.
      let config = common\<lparr>sc_bucket := bucket, sc_region := region, sc_endpoint := endpoint, sc_accessKeyId := accessKeyId,
            sc_secretAccessKey := secret, sc_forcePathStyle := pathStyle, sc_publicAccess := access, sc_encryption := encryption\<rparr> in
      and_then (assertS3Configuration parse config) (\<lambda>_. Inr config)))))))))))))))"

section \<open>File records\<close>

text \<open>\<open>path.basename\<close>: trailing slashes are ignored, then the part after the last slash.\<close>

definition basename :: "string \<Rightarrow> string" where
  "basename s = last (split CHR ''/'' (rev (dropWhile (\<lambda>c. c = CHR ''/'') (rev s))))"

definition safeFilename :: "jsval \<Rightarrow> string res" where
  "safeFilename value =
    and_then (trimmedString value ''Original filename'') (\<lambda>s.
    let filename = basename s in
    guard [(\<not> (255 < length filename \<or> list_ex control_char filename \<or> filename = ''.'' \<or> filename = ''..''),
            ''Original filename is invalid or too long.'')] (Inr filename))"

definition prefix_char :: "char \<Rightarrow> bool" where
  "prefix_char c = (lower_alnum c \<or> c = CHR ''_'' \<or> c = CHR ''-'')"

text \<open>\<open>replace(/[^a-z0-9_-]+/g, "-")\<close>: a run of other characters becomes one dash.\<close>

function dash_runs :: "string \<Rightarrow> string" where
  "dash_runs [] = []"
| "dash_runs (c # s) =
    (if prefix_char c then c # dash_runs s
     else CHR ''-'' # dash_runs (dropWhile (\<lambda>d. \<not> prefix_char d) s))"
  by pat_completeness auto
termination by (relation "measure length") (auto simp: le_imp_less_Suc length_dropWhile_le)

definition strip_dashes :: "string \<Rightarrow> string" where
  "strip_dashes s = rev (dropWhile (\<lambda>c. c = CHR ''-'') (rev (dropWhile (\<lambda>c. c = CHR ''-'') s)))"

definition tenantPrefix :: "(string \<Rightarrow> string) \<Rightarrow> string \<Rightarrow> string" where
  "tenantPrefix sha256 tenantId =
    (let readable = take 48 (strip_dashes (dash_runs (js_lower tenantId)))
     in (if readable = [] then ''tenant'' else readable) @ ''-'' @ take 12 (sha256 tenantId))"

record file_input =
  fi_mimeType :: string
  fi_sizeBytes :: int
  fi_originalFilename :: string

text \<open>A number that has been checked to be an integer.\<close>

definition int_value :: "jsval \<Rightarrow> int" where
  "int_value v = (case v of JNum n \<Rightarrow> \<lfloor>n\<rfloor> | _ \<Rightarrow> 0)"

definition validateFileInput :: "jsval \<Rightarrow> storage_config \<Rightarrow> file_input res" where
  "validateFileInput input configuration =
    and_then (normalizedMimeType (fld input ''mimeType'')) (\<lambda>mimeType.
    let sizeBytes = js_number (fld input ''sizeBytes'') in
    guard [(mimeType \<in> set (sc_allowedMimeTypes configuration), ''MIME type '' @ mimeType @ '' is not allowed.''),
           (is_safe_integer sizeBytes \<and> 0 < int_value sizeBytes \<and> int_value sizeBytes \<le> sc_maxFileBytes configuration,
            ''File size must be between 1 and '' @ int_string (sc_maxFileBytes configuration) @ '' bytes.''),
           (one_of stored_file_class_set (fld input ''fileClass''), ''File class is not allowed.''),
           (\<not> (strict_eq (fld input ''fileClass'') (JStr ''report_photo'') \<and> \<not> starts_with ''image/'' mimeType),
            ''Report photos must use an allowed image MIME type.'')]
      (and_then (safeFilename (fld input ''originalFilename'')) (\<lambda>originalFilename.
       Inr \<lparr>fi_mimeType = mimeType, fi_sizeBytes = int_value sizeBytes, fi_originalFilename = originalFilename\<rparr>)))"

definition storage_key :: "(string \<Rightarrow> string) \<Rightarrow> string \<Rightarrow> string \<Rightarrow> string" where
  "storage_key sha256 tenantId fileId = ''tenants/'' @ tenantPrefix sha256 tenantId @ ''/files/'' @ fileId"

definition createPendingFileRecord :: "mail_env \<Rightarrow> jsval \<Rightarrow> storage_config \<Rightarrow> jsval res" where
  "createPendingFileRecord env input configuration =
    and_then (trimmedString (fld input ''tenantId'') ''File tenantId'') (\<lambda>tenantId.
    and_then (trimmedString (fld input ''projectId'') ''File projectId'') (\<lambda>projectId.
    and_then (trimmedString (fld input ''createdBy'') ''File createdBy'') (\<lambda>createdBy.
    and_then (validateFileInput input configuration) (\<lambda>normalized.
    let fileId = ctx_uuid (m_ctx env) 0; createdAt = iso_string (m_now env);
        retention = m_now env + sc_retentionDays configuration * 86400000 in
    if \<not> valid_time retention then Inl range_error
    else Inr (JObj
      [(''id'', JStr fileId),
       (''tenantId'', JStr tenantId),
       (''projectId'', JStr projectId),
       (''fieldReportId'', coalesce (fld input ''fieldReportId'') JNull),
       (''fileClass'', fld input ''fileClass''),
       (''originalFilename'', JStr (fi_originalFilename normalized)),
       (''mimeType'', JStr (fi_mimeType normalized)),
       (''sizeBytes'', JNum (of_int (fi_sizeBytes normalized))),
       (''storageKey'', JStr (storage_key (ctx_sha256 (m_ctx env)) tenantId fileId)),
       (''status'', JStr ''pending_upload''),
       (''checksumSha256'', JNull),
       (''clientVisible'', JBool (is_true (fld input ''clientVisible''))),
       (''createdBy'', JStr createdBy),
       (''createdAt'', JStr createdAt),
       (''updatedAt'', JStr createdAt),
       (''retentionUntil'', JStr (iso_string retention)),
       (''deletedAt'', JNull)])))))"

definition assertFileRecord :: "jsval \<Rightarrow> jsval res" where
  "assertFileRecord record =
    guard [req (fld record ''id'') ''File id'',
           req (fld record ''tenantId'') ''File tenantId'',
           req (fld record ''storageKey'') ''File storage key'',
           (one_of stored_file_status_set (fld record ''status''), ''File status is invalid.'')]
      (Inr record)"

definition publicFileMetadata :: "jsval \<Rightarrow> jsval res" where
  "publicFileMetadata record =
    and_then (assertFileRecord record) (\<lambda>_. Inr (JObj (AList.delete ''storageKey'' (own_fields record))))"

section \<open>The local store\<close>

text \<open>
  The disk: contents and metadata by path. Only complete files are visible under their final names, and
  no path is both: the name of a metadata file has a dot, a key has none.
\<close>

record disk =
  d_objects :: "(string \<times> string) list"
  d_metadata :: "(string \<times> jsval) list"

definition key_shape :: "string \<Rightarrow> bool" where
  "key_shape key = (case split CHR ''/'' key of
     [a, t, k, i] \<Rightarrow> a = ''tenants'' \<and> t \<noteq> [] \<and> list_all prefix_char t
       \<and> k \<noteq> [] \<and> list_all (\<lambda>c. 97 \<le> (of_char c :: nat) \<and> (of_char c :: nat) \<le> 122) k
       \<and> i \<noteq> [] \<and> list_all (\<lambda>c. is_digit c \<or> c \<in> set ''abcdef-'') i
   | _ \<Rightarrow> False)"

text \<open>
  The paths of an object. A key of this shape has no dot, so resolving it below the root only joins
  the two, and the check against leaving the root cannot fail.
\<close>

definition localObjectPaths :: "string \<Rightarrow> jsval \<Rightarrow> (string \<times> string) res" where
  "localObjectPaths rootDirectory key =
    (let k = js_string key; objectPath = rootDirectory @ ''/'' @ k in
     guard [(key_shape k, ''Storage key is invalid.'')] (Inr (objectPath, objectPath @ ''.metadata.json'')))"

definition proxy_target :: "string \<Rightarrow> jsval" where
  "proxy_target verb = JObj [(''mode'', JStr ''authenticated_proxy''), (''method'', JStr verb), (''expiresIn'', JNull),
     (''url'', JNull), (''headers'', JObj [])]"

definition hex_sha256 :: "mail_env \<Rightarrow> string \<Rightarrow> string" where
  "hex_sha256 env body = ctx_sha256 (m_ctx env) body"

definition put_metadata :: "mail_env \<Rightarrow> jsval \<Rightarrow> string \<Rightarrow> jsval" where
  "put_metadata env record buffer = JObj
    [(''tenantId'', fld record ''tenantId''), (''contentType'', fld record ''mimeType''),
     (''sizeBytes'', JNum (of_nat (length buffer))), (''checksumSha256'', JStr (hex_sha256 env buffer))]"

text \<open>
  Writing takes five steps: the directory, the two temporary files, and the two renames. Only the
  renames are visible under the final names; a failure removes the temporary files and is rethrown.
\<close>

definition put_steps :: "nat \<Rightarrow> string \<Rightarrow> string \<Rightarrow> string \<Rightarrow> jsval \<Rightarrow> disk \<Rightarrow> disk" where
  "put_steps n objectPath metadataPath buffer meta d =
    (let d1 = (if n \<ge> 4 then d\<lparr>d_objects := AList.update objectPath buffer (d_objects d)\<rparr> else d)
     in if n \<ge> 5 then d1\<lparr>d_metadata := AList.update metadataPath meta (d_metadata d1)\<rparr> else d1)"

definition io_error :: js_error where
  "io_error = JsError ''EIO'' (Some ''EIO'') None"

definition put_check :: "string \<Rightarrow> jsval \<Rightarrow> string \<Rightarrow> jsval \<Rightarrow> (string \<times> string) res" where
  "put_check rootDir record buffer contentType =
    and_then (get_fld record ''sizeBytes'') (\<lambda>declared.
    guard [(strict_eq (JNum (of_nat (length buffer))) declared,
            ''Uploaded content length does not match the declared file size.'')]
      (and_then (normalizedMimeType contentType) (\<lambda>t.
       guard [(strict_eq (JStr t) (fld record ''mimeType''),
               ''Uploaded content type does not match the declared MIME type.'')]
         (localObjectPaths rootDir (fld record ''storageKey'')))))"

definition local_putObject :: "mail_env \<Rightarrow> nat \<Rightarrow> string \<Rightarrow> jsval \<Rightarrow> string \<Rightarrow> jsval \<Rightarrow> (disk, jsval) act" where
  "local_putObject env n rootDir record buffer contentType =
    seq (from_res (put_check rootDir record buffer contentType)) (\<lambda>paths.
    let meta = put_metadata env record buffer in
    seq (writing (put_steps n (fst paths) (snd paths) buffer (json_clone meta))) (\<lambda>_.
    from_res (if n \<ge> 5 then Inr meta else Inl io_error)))"

definition local_headObject :: "string \<Rightarrow> jsval \<Rightarrow> disk \<Rightarrow> jsval res" where
  "local_headObject rootDir record d =
    and_then (get_fld record ''storageKey'') (\<lambda>key.
    and_then (localObjectPaths rootDir key) (\<lambda>(objectPath, metadataPath).
    Inr (case map_of (d_metadata d) metadataPath of
       None \<Rightarrow> JNull
     | Some metadata \<Rightarrow>
         if \<not> truthy metadata then JNull
         else (case map_of (d_objects d) objectPath of
            None \<Rightarrow> JNull
          | Some body \<Rightarrow> spread metadata [(''sizeBytes'', JNum (of_nat (length body)))]))))"

definition local_getObject :: "string \<Rightarrow> jsval \<Rightarrow> disk \<Rightarrow> jsval res" where
  "local_getObject rootDir record d =
    and_then (local_headObject rootDir record d) (\<lambda>head.
    if \<not> truthy head then Inr JNull
    else and_then (localObjectPaths rootDir (fld record ''storageKey'')) (\<lambda>(objectPath, metadataPath).
    case map_of (d_objects d) objectPath of
      None \<Rightarrow> Inl io_error
    | Some body \<Rightarrow> Inr (spread head [(''body'', JStr body)])))"

definition local_deleteObject :: "string \<Rightarrow> jsval \<Rightarrow> disk \<Rightarrow> (disk \<times> unit) res" where
  "local_deleteObject rootDir record d =
    and_then (get_fld record ''storageKey'') (\<lambda>key.
    and_then (localObjectPaths rootDir key) (\<lambda>(objectPath, metadataPath).
    Inr (d\<lparr>d_objects := AList.delete objectPath (d_objects d), d_metadata := AList.delete metadataPath (d_metadata d)\<rparr>, ())))"

section \<open>The object store\<close>

text \<open>A reply of the object store: an answer, a missing object, or another failure.\<close>

datatype s3_reply = S3Ok jsval | S3Missing | S3Error js_error

definition s3_objectInput :: "storage_config \<Rightarrow> jsval \<Rightarrow> (string \<times> jsval) list" where
  "s3_objectInput cfg record = [(''Bucket'', JStr (sc_bucket cfg)), (''Key'', fld record ''storageKey'')]"

definition presigned :: "storage_config \<Rightarrow> (jsval \<Rightarrow> int \<Rightarrow> string) \<Rightarrow> string \<Rightarrow> jsval \<Rightarrow> jsval \<Rightarrow> jsval" where
  "presigned cfg presign verb command headers = JObj
    [(''mode'', JStr ''presigned_url''), (''method'', JStr verb), (''url'', JStr (presign command (sc_signedUrlTtlSec cfg))),
     (''expiresIn'', JNum (of_int (sc_signedUrlTtlSec cfg))), (''headers'', headers)]"

definition s3_createUploadTarget :: "storage_config \<Rightarrow> (jsval \<Rightarrow> int \<Rightarrow> string) \<Rightarrow> jsval \<Rightarrow> jsval" where
  "s3_createUploadTarget cfg presign record =
    presigned cfg presign ''PUT''
      (JObj (s3_objectInput cfg record @
        [(''ContentType'', fld record ''mimeType''), (''ContentLength'', fld record ''sizeBytes''), (''IfNoneMatch'', JStr ''*''),
         (''ServerSideEncryption'', JStr (sc_encryption cfg)),
         (''Metadata'', JObj [(''xygo-tenant-id'', fld record ''tenantId'')])]))
      (JObj [(''content-type'', fld record ''mimeType''), (''if-none-match'', JStr ''*''),
         (''x-amz-server-side-encryption'', JStr (sc_encryption cfg)),
         (''x-amz-meta-xygo-tenant-id'', fld record ''tenantId'')])"

definition s3_createDownloadTarget :: "storage_config \<Rightarrow> (jsval \<Rightarrow> int \<Rightarrow> string) \<Rightarrow> jsval \<Rightarrow> jsval" where
  "s3_createDownloadTarget cfg presign record =
    presigned cfg presign ''GET''
      (JObj (s3_objectInput cfg record @
        [(''ResponseContentDisposition'', JStr (''attachment; filename*=UTF-8'' @ [CHR 0x27, CHR 0x27] @
           encodeURIComponent (js_string (fld record ''originalFilename''))))]))
      (JObj [])"

definition s3_headObject :: "storage_config \<Rightarrow> (jsval \<Rightarrow> s3_reply) \<Rightarrow> (string \<Rightarrow> string) \<Rightarrow> jsval \<Rightarrow> jsval res" where
  "s3_headObject cfg send base64_hex record =
    (case send (JObj (s3_objectInput cfg record)) of
       S3Missing \<Rightarrow> Inr JNull
     | S3Error e \<Rightarrow> Inl e
     | S3Ok response \<Rightarrow>
         and_then (normalizedMimeType (coalesce (fld response ''ContentType'') (JStr ''application/octet-stream''))) (\<lambda>contentType.
         Inr (JObj
          [(''tenantId'', coalesce (fld (fld response ''Metadata'') ''xygo-tenant-id'') JNull),
           (''contentType'', JStr contentType),
           (''sizeBytes'', js_number (fld response ''ContentLength'')),
           (''checksumSha256'', if truthy (fld response ''ChecksumSHA256'')
              then JStr (base64_hex (js_string (fld response ''ChecksumSHA256''))) else JNull)])))"

definition s3_direct_upload :: "jsval res" where
  "s3_direct_upload = Inl (Err ''Direct API uploads are disabled for S3 storage; use the presigned upload target.'')"

definition s3_direct_download :: "jsval res" where
  "s3_direct_download = Inl (Err ''Direct API downloads are disabled for S3 storage; use the presigned download target.'')"

definition s3_deleteObject :: "storage_config \<Rightarrow> (jsval \<Rightarrow> s3_reply) \<Rightarrow> jsval \<Rightarrow> unit res" where
  "s3_deleteObject cfg send record = (case send (JObj (s3_objectInput cfg record)) of
     S3Ok r \<Rightarrow> Inr () | S3Missing \<Rightarrow> Inl (JsError ''NotFound'' (Some ''NotFound'') None) | S3Error e \<Rightarrow> Inl e)"

section \<open>Properties\<close>

lemma dash_runs_chars: "list_all prefix_char (dash_runs s)"
  by (induction s rule: dash_runs.induct) (auto simp: prefix_char_def)

lemma strip_dashes_subset: "set (strip_dashes s) \<subseteq> set s"
  by (auto simp: strip_dashes_def dest!: set_dropWhileD)

lemma tenantPrefix_chars:
  assumes "list_all prefix_char (take 12 (sha256 t))"
  shows "list_all prefix_char (tenantPrefix sha256 t)" "tenantPrefix sha256 t \<noteq> []"
proof -
  have "list_all prefix_char (take 48 (strip_dashes (dash_runs (js_lower t))))"
    using dash_runs_chars [of "js_lower t"] strip_dashes_subset [of "dash_runs (js_lower t)"]
    by (auto simp: list_all_iff dest: in_set_takeD)
  moreover have "list_all prefix_char ''tenant''" by code_simp
  moreover have "prefix_char CHR ''-''" by code_simp
  ultimately show "list_all prefix_char (tenantPrefix sha256 t)"
    using assms by (simp add: tenantPrefix_def Let_def)
  show "tenantPrefix sha256 t \<noteq> []" by (simp add: tenantPrefix_def Let_def)
qed

lemma prefix_char_no_slash: "list_all prefix_char s \<Longrightarrow> CHR ''/'' \<notin> set s"
proof -
  have "\<not> prefix_char CHR ''/''" by code_simp
  then show "list_all prefix_char s \<Longrightarrow> CHR ''/'' \<notin> set s" by (auto simp: list_all_iff)
qed

text \<open>A text of hexadecimal digits and dashes, as the platform's identifiers and digests are.\<close>

definition hex_text :: "string \<Rightarrow> bool" where
  "hex_text s = (s \<noteq> [] \<and> list_all (\<lambda>c. is_digit c \<or> c \<in> set ''abcdef-'') s)"

lemma hex_text_prefix_chars: "hex_text s \<Longrightarrow> list_all prefix_char s"
proof -
  have "list_all prefix_char ''abcdef-''" by code_simp
  then show "hex_text s \<Longrightarrow> list_all prefix_char s"
    by (auto simp: hex_text_def list_all_iff prefix_char_def lower_alnum_def Let_def)
qed

lemma storage_key_split:
  assumes "hex_text i" "hex_text (sha256 t)"
  shows "split CHR ''/'' (storage_key sha256 t i) = [''tenants'', tenantPrefix sha256 t, ''files'', i]"
proof -
  have "list_all prefix_char (take 12 (sha256 t))"
    using hex_text_prefix_chars [OF assms(2)] by (auto simp: list_all_iff dest: in_set_takeD)
  then have "CHR ''/'' \<notin> set (tenantPrefix sha256 t)"
    using tenantPrefix_chars prefix_char_no_slash by blast
  moreover have "CHR ''/'' \<notin> set i" using hex_text_prefix_chars [OF assms(1)] by (rule prefix_char_no_slash)
  ultimately show ?thesis
    by (simp add: storage_key_def split_append split_no_sep)
qed

lemma createPendingFileRecord_fields:
  assumes "createPendingFileRecord env input cfg = Inr r"
  obtains t where "trimmedString (fld input ''tenantId'') ''File tenantId'' = Inr t"
    "fld r ''tenantId'' = JStr t" "fld r ''status'' = JStr ''pending_upload''"
    "fld r ''storageKey'' = JStr (storage_key (ctx_sha256 (m_ctx env)) t (ctx_uuid (m_ctx env) 0))"
  using assms unfolding createPendingFileRecord_def and_then_Inr Let_def
  by (auto split: if_splits)

text \<open>
  The storage key of a new file stays below the directory of its tenant in the local store: the key
  is accepted, its path is the root followed by \<open>tenants\<close>, the tenant's prefix, \<open>files\<close> and the file's
  identifier, whatever characters the tenant's name has (identifiers and digests are hexadecimal).
\<close>

theorem pending_key_contained:
  assumes "createPendingFileRecord env input cfg = Inr r"
    and "hex_text (ctx_uuid (m_ctx env) 0)" "\<And>s. hex_text (ctx_sha256 (m_ctx env) s)"
  shows "\<exists>t prefix. fld r ''tenantId'' = JStr t \<and> prefix = tenantPrefix (ctx_sha256 (m_ctx env)) t
    \<and> CHR ''.'' \<notin> set prefix \<and> CHR ''/'' \<notin> set prefix
    \<and> localObjectPaths rootDir (fld r ''storageKey'')
      = Inr (rootDir @ ''/tenants/'' @ prefix @ ''/files/'' @ ctx_uuid (m_ctx env) 0,
             rootDir @ ''/tenants/'' @ prefix @ ''/files/'' @ ctx_uuid (m_ctx env) 0 @ ''.metadata.json'')"
proof -
  let ?sha = "ctx_sha256 (m_ctx env)" and ?i = "ctx_uuid (m_ctx env) 0"
  obtain t where t: "fld r ''tenantId'' = JStr t" "fld r ''storageKey'' = JStr (storage_key ?sha t ?i)"
    by (rule createPendingFileRecord_fields [OF assms(1)])
  have "list_all prefix_char (take 12 (?sha t))"
    using hex_text_prefix_chars [OF assms(3)] by (auto simp: list_all_iff dest: in_set_takeD)
  note p = tenantPrefix_chars [of ?sha t, OF this]
  have "\<not> prefix_char CHR ''.''" by code_simp
  with p(1) have dot: "CHR ''.'' \<notin> set (tenantPrefix ?sha t)" by (auto simp: list_all_iff)
  have letters: "list_all (\<lambda>c. 97 \<le> (of_char c :: nat) \<and> (of_char c :: nat) \<le> 122) ''files''" by simp
  have "key_shape (storage_key ?sha t ?i)"
    using p letters assms(2) unfolding key_shape_def storage_key_split [of ?i ?sha t, OF assms(2) assms(3)] hex_text_def by simp
  then show ?thesis
    using t dot prefix_char_no_slash [OF p(1)]
    by (intro exI [of _ t] exI conjI) (simp_all add: localObjectPaths_def storage_key_def)
qed

lemma put_result:
  assumes "local_putObject env n rootDir record buffer contentType d = (d', Inr meta)"
  obtains k where "js_string (fld record ''storageKey'') = k" "key_shape k" "5 \<le> n"
    "fld record ''sizeBytes'' = JNum (of_nat (length buffer))" "meta = put_metadata env record buffer"
    "d' = \<lparr>d_objects = AList.update (rootDir @ ''/'' @ k) buffer (d_objects d),
           d_metadata = AList.update (rootDir @ ''/'' @ k @ ''.metadata.json'') (json_clone meta) (d_metadata d)\<rparr>"
proof -
  obtain p where p: "put_check rootDir record buffer contentType = Inr p"
    using assms unfolding local_putObject_def
    by (cases "put_check rootDir record buffer contentType") simp_all
  have size: "fld record ''sizeBytes'' = JNum (of_nat (length buffer))"
    and lp: "localObjectPaths rootDir (fld record ''storageKey'') = Inr p"
    using p unfolding put_check_def and_then_Inr guard_Inr get_fld_def by (auto split: if_splits)
  let ?k = "js_string (fld record ''storageKey'')"
  have shape: "key_shape ?k" and pp: "p = (rootDir @ ''/'' @ ?k, rootDir @ ''/'' @ ?k @ ''.metadata.json'')"
    using lp by (simp_all add: localObjectPaths_def guard_Inr Let_def)
  have run: "(d', Inr meta) = (put_steps n (fst p) (snd p) buffer (json_clone (put_metadata env record buffer)) d,
      if n \<ge> 5 then Inr (put_metadata env record buffer) else Inl io_error)"
    using assms unfolding local_putObject_def by (simp add: p Let_def)
  then have n: "5 \<le> n" by (auto split: if_splits)
  show thesis
    by (rule that [OF refl shape n size]) (use run n pp in \<open>simp_all add: put_steps_def Let_def\<close>)
qed

text \<open>
  C38. What the local store returns: after a successful upload, reading the record gives the uploaded body
  under the record's tenant and type with its size and digest, and every other key reads as before.
\<close>

theorem local_put_get:
  assumes "local_putObject env n rootDir record buffer contentType d = (d', Inr meta)"
    and "fld record ''tenantId'' = JStr t" "fld record ''mimeType'' = JStr m"
  shows "(\<exists>obj. local_getObject rootDir record d' = Inr obj \<and> fld obj ''body'' = JStr buffer
        \<and> fld obj ''tenantId'' = JStr t \<and> fld obj ''contentType'' = JStr m
        \<and> fld obj ''sizeBytes'' = fld record ''sizeBytes''
        \<and> fld obj ''checksumSha256'' = JStr (ctx_sha256 (m_ctx env) buffer))
    \<and> (js_string (fld other ''storageKey'') \<noteq> js_string (fld record ''storageKey'') \<longrightarrow>
        local_getObject rootDir other d' = local_getObject rootDir other d)"
proof -
  obtain k where k: "js_string (fld record ''storageKey'') = k" "key_shape k"
    and size: "fld record ''sizeBytes'' = JNum (of_nat (length buffer))" and meta: "meta = put_metadata env record buffer"
    and d': "d' = \<lparr>d_objects = AList.update (rootDir @ ''/'' @ k) buffer (d_objects d),
           d_metadata = AList.update (rootDir @ ''/'' @ k @ ''.metadata.json'') (json_clone meta) (d_metadata d)\<rparr>"
    by (rule put_result [OF assms(1)])
  have nn: "\<not> nullish record" using assms(2) by (cases "record") auto
  have lp: "localObjectPaths rootDir (fld record ''storageKey'') = Inr (rootDir @ ''/'' @ k, rootDir @ ''/'' @ k @ ''.metadata.json'')"
    using k by (simp add: localObjectPaths_def)
  have obj: "local_getObject rootDir record d' = Inr (spread (spread (json_clone meta) [(''sizeBytes'', JNum (of_nat (length buffer)))])
      [(''body'', JStr buffer)])"
    using nn by (simp add: local_getObject_def local_headObject_def get_fld_def lp d' meta put_metadata_def assms(2,3)
        spread_def fold_set_fld_obj)
  let ?obj = "spread (spread (json_clone meta) [(''sizeBytes'', JNum (of_nat (length buffer)))]) [(''body'', JStr buffer)]"
  have fields: "fld ?obj ''body'' = JStr buffer" "fld ?obj ''tenantId'' = JStr t" "fld ?obj ''contentType'' = JStr m"
    "fld ?obj ''sizeBytes'' = fld record ''sizeBytes''" "fld ?obj ''checksumSha256'' = JStr (ctx_sha256 (m_ctx env) buffer)"
    by (simp_all add: size meta put_metadata_def assms(2,3) spread_def fold_set_fld_obj hex_sha256_def)
  have "local_getObject rootDir other d' = local_getObject rootDir other d"
    if "js_string (fld other ''storageKey'') \<noteq> js_string (fld record ''storageKey'')"
  proof (cases "localObjectPaths rootDir (fld other ''storageKey'')")
    case (Inr p)
    then have "p = (rootDir @ ''/'' @ js_string (fld other ''storageKey''), rootDir @ ''/'' @ js_string (fld other ''storageKey'') @ ''.metadata.json'')"
      by (simp add: localObjectPaths_def guard_Inr Let_def)
    with that k(1) Inr show ?thesis
      by (simp add: local_getObject_def local_headObject_def get_fld_def d' cong: option.case_cong if_cong)
  qed (simp add: local_getObject_def local_headObject_def get_fld_def)
  with obj fields show ?thesis by blast
qed

definition example_stored :: jsval where
  "example_stored = JObj [(''tenantId'', JStr ''t''), (''mimeType'', JStr ''text/plain''), (''sizeBytes'', JNum 2),
     (''storageKey'', JStr ''tenants/t-0/files/a1'')]"

definition example_storage_env :: mail_env where
  "example_storage_env = \<lparr>m_ctx = \<lparr>ctx_uuid = (\<lambda>n. ''ab-12''), ctx_now = ''now'', ctx_sha256 = (\<lambda>s. ''0f''), ctx_hmac = (\<lambda>k s. s)\<rparr>,
     m_now = 0, m_legacy = (\<lambda>s. None), m_url = (\<lambda>s. None)\<rparr>"

definition example_put :: "disk \<times> jsval res" where
  "example_put = local_putObject example_storage_env 5 ''/data'' example_stored ''hi'' (JStr ''Text/Plain; charset=utf-8'')
     \<lparr>d_objects = [], d_metadata = []\<rparr>"

lemma example_put_done:
  "local_putObject example_storage_env 5 ''/data'' example_stored ''hi'' (JStr ''Text/Plain; charset=utf-8'')
     \<lparr>d_objects = [], d_metadata = []\<rparr> = (fst example_put, Inr (ok_value (snd example_put)))"
proof -
  have "isl (snd example_put) = False" by code_simp
  then show ?thesis
    using ok_value_Inr [of "snd example_put"] unfolding example_put_def by (metis prod.collapse)
qed

lemma local_put_get_witness:
  "(\<exists>obj. local_getObject ''/data'' example_stored (fst example_put) = Inr obj \<and> fld obj ''body'' = JStr ''hi''
        \<and> fld obj ''sizeBytes'' = fld example_stored ''sizeBytes'')
    \<and> local_getObject ''/data'' (JObj []) (fst example_put) = local_getObject ''/data'' (JObj []) \<lparr>d_objects = [], d_metadata = []\<rparr>"
proof -
  have "js_string (fld (JObj []) ''storageKey'') \<noteq> js_string (fld example_stored ''storageKey'')"
    "fld example_stored ''tenantId'' = JStr ''t''" "fld example_stored ''mimeType'' = JStr ''text/plain''"
    by (simp_all add: example_stored_def)
  then show ?thesis
    using local_put_get [OF example_put_done, of "''t''" "''text/plain''" "JObj []"] by blast
qed

definition example_file_input :: jsval where
  "example_file_input = JObj [(''tenantId'', JStr '' ../A/B ''), (''projectId'', JStr ''p''), (''createdBy'', JStr ''u''),
     (''mimeType'', JStr ''text/plain''), (''sizeBytes'', JNum 2), (''fileClass'', JStr ''document''),
     (''originalFilename'', JStr ''/x/a.txt'')]"

definition example_storage_config :: storage_config where
  "example_storage_config = \<lparr>sc_driver = ''local'', sc_maxFileBytes = 1024, sc_signedUrlTtlSec = 300, sc_retentionDays = 1,
     sc_allowedMimeTypes = [''text/plain''], sc_rootDirectory = ''/data'', sc_bucket = [], sc_region = [], sc_endpoint = [],
     sc_accessKeyId = [], sc_secretAccessKey = [], sc_forcePathStyle = False, sc_publicAccess = [], sc_encryption = []\<rparr>"

definition example_pending :: jsval where
  "example_pending = ok_value (createPendingFileRecord example_storage_env example_file_input example_storage_config)"

lemma pending_key_contained_witness:
  "\<exists>t prefix. fld example_pending ''tenantId'' = JStr t \<and> prefix = tenantPrefix (ctx_sha256 (m_ctx example_storage_env)) t
    \<and> CHR ''.'' \<notin> set prefix \<and> CHR ''/'' \<notin> set prefix
    \<and> localObjectPaths ''/data'' (fld example_pending ''storageKey'')
      = Inr (''/data'' @ ''/tenants/'' @ prefix @ ''/files/'' @ ctx_uuid (m_ctx example_storage_env) 0,
             ''/data'' @ ''/tenants/'' @ prefix @ ''/files/'' @ ctx_uuid (m_ctx example_storage_env) 0 @ ''.metadata.json'')"
proof (rule pending_key_contained)
  have "isl (createPendingFileRecord example_storage_env example_file_input example_storage_config) = False" by code_simp
  then show "createPendingFileRecord example_storage_env example_file_input example_storage_config = Inr example_pending"
    unfolding example_pending_def by (rule ok_value_Inr)
qed (code_simp, simp add: example_storage_env_def hex_text_def is_digit_def)

text \<open>When the second rename fails, the new content is served with the digest of the old.\<close>

lemma put_failed_rename:
  assumes "put_check rootDir record buffer contentType = Inr (p, q)" "map_of (d_metadata d) q = Some old"
  shows "\<exists>d'. local_putObject env 4 rootDir record buffer contentType d = (d', Inl io_error)
    \<and> map_of (d_objects d') p = Some buffer \<and> map_of (d_metadata d') q = Some old"
  using assms by (simp add: local_putObject_def put_steps_def Let_def)

text \<open>The filename of a path without a name is empty, and is accepted.\<close>

lemma empty_filename: "safeFilename (JStr ''/'') = Inr []"
  by code_simp

end
