(* ===== verification/Auth.thy ===== *)
theory Auth
  imports FileStorage
begin

text \<open>
  Authentication of the API (apps/api/src/auth, apps/api/src/staged-auth.js): verification of signed
  tokens, the cached key set, the principal of a request, and the configuration gate at start-up.
  Decoding a token segment (base64url and JSON), importing a key, checking a signature, fetching the
  key set, parsing URLs and the canonical repository are parameters. Header values are texts.
\<close>

section \<open>Tokens\<close>

definition AuthError :: "string \<Rightarrow> string \<Rightarrow> js_error" where
  "AuthError code message = JsError message (Some code) None"

text \<open>\<open>if (!ok) throw new AuthError(code, message)\<close>.\<close>

definition demand :: "bool \<Rightarrow> string \<Rightarrow> string \<Rightarrow> 'a res \<Rightarrow> 'a res" where
  "demand ok code message k = (if ok then k else Inl (AuthError code message))"

lemma demand_Inr [guard_simps]: "demand ok code message k = Inr v \<longleftrightarrow> ok \<and> k = Inr v"
  by (simp add: demand_def)

definition alg_to_hash :: "(string \<times> string) list" where
  "alg_to_hash = [(''RS256'', ''RSA-SHA256''), (''RS384'', ''RSA-SHA384''), (''RS512'', ''RSA-SHA512'')]"

record token_env =
  te_decode :: "string \<Rightarrow> jsval option"
  te_import :: "jsval \<Rightarrow> bool"
  te_verify :: "jsval \<Rightarrow> string \<Rightarrow> jsval \<Rightarrow> string \<Rightarrow> bool option"

definition decodeSegment :: "token_env \<Rightarrow> string \<Rightarrow> string \<Rightarrow> jsval res" where
  "decodeSegment env segment label =
    (case te_decode env segment of
       None \<Rightarrow> Inl (AuthError ''malformed_token'' (''Could not decode JWT '' @ label @ ''.''))
     | Some decoded \<Rightarrow>
         demand (is_obj decoded) ''malformed_token'' (''JWT '' @ label @ '' must be a JSON object.'') (Inr decoded))"

definition audience_has :: "jsval \<Rightarrow> jsval \<Rightarrow> bool" where
  "audience_has aud audience = (case aud of
     JArr xs \<Rightarrow> (\<exists>x \<in> set xs. same_value_zero x audience)
   | _ \<Rightarrow> truthy aud \<and> same_value_zero aud audience)"

record token_options =
  to_keys :: jsval
  to_issuer :: jsval
  to_audience :: jsval
  to_algorithms :: jsval
  to_now :: jsval
  to_tolerance :: jsval

definition nonempty_text :: "jsval \<Rightarrow> bool" where
  "nonempty_text v = (\<exists>s. v = JStr s \<and> s \<noteq> [])"

lemma nonempty_text_code [code]: "nonempty_text v = (case v of JStr s \<Rightarrow> s \<noteq> [] | _ \<Rightarrow> False)"
  by (cases v) (auto simp: nonempty_text_def)

definition array_items :: "jsval \<Rightarrow> jsval list" where
  "array_items v = (case v of JArr xs \<Rightarrow> xs | _ \<Rightarrow> [])"

definition number_value :: "jsval \<Rightarrow> rat" where
  "number_value v = (case v of JNum n \<Rightarrow> n | _ \<Rightarrow> 0)"

definition matching_keys :: "jsval \<Rightarrow> jsval \<Rightarrow> jsval list" where
  "matching_keys keys kid = filter (\<lambda>key. (is_obj key \<or> is_array key) \<and> strict_eq (fld key ''kid'') kid) (array_items keys)"

text \<open>The settings, the key, the signature and the claims are checked in the order of the code.\<close>

definition check_settings :: "token_options \<Rightarrow> 'a res \<Rightarrow> 'a res" where
  "check_settings opts k =
    demand (nonempty_text (to_issuer opts) \<and> nonempty_text (to_audience opts)) ''verification_config''
      ''JWT verification requires an issuer and audience.''
   (demand (is_array (to_keys opts)) ''verification_config'' ''JWT verification requires a JWKS key array.''
   (demand (is_array (to_algorithms opts) \<and> array_items (to_algorithms opts) \<noteq> []) ''verification_config''
      ''JWT verification requires at least one allowed algorithm.''
   (demand (is_finite_number (to_now opts) \<and> is_finite_number (to_tolerance opts) \<and> 0 \<le> number_value (to_tolerance opts))
      ''verification_config'' ''JWT verification time settings are invalid.'' k)))"

definition check_key :: "token_options \<Rightarrow> jsval \<Rightarrow> jsval res" where
  "check_key opts header =
    demand (truthy (table_get alg_to_hash (fld header ''alg''))) ''unsupported_alg''
      (''Unsupported or missing JWT alg: '' @ js_string (fld header ''alg'') @ ''.'')
   (demand (\<exists>a \<in> set (array_items (to_algorithms opts)). same_value_zero a (fld header ''alg'')) ''disallowed_alg''
      (''JWT alg is not allowed for this issuer: '' @ js_string (fld header ''alg'') @ ''.'')
   (demand (nonblank (fld header ''kid'')) ''missing_key_id'' ''JWT header is missing a key id (kid).''
   (let matching = matching_keys (to_keys opts) (fld header ''kid'') in
    demand (matching \<noteq> []) ''unknown_key'' (''No JWKS key matches kid: '' @ js_string (fld header ''kid'') @ ''.'')
   (demand (length matching = 1) ''ambiguous_key'' (''Multiple JWKS keys match kid: '' @ js_string (fld header ''kid'') @ ''.'')
   (let jwk = hd matching in
    demand (\<not> (\<not> strict_eq (fld jwk ''kty'') (JStr ''RSA'') \<or> (truthy (fld jwk ''use'') \<and> \<not> strict_eq (fld jwk ''use'') (JStr ''sig''))))
      ''invalid_key'' ''JWKS key is not an RSA signing key.''
   (demand (\<not> (truthy (fld jwk ''alg'') \<and> \<not> strict_eq (fld jwk ''alg'') (fld header ''alg''))) ''key_alg_mismatch''
      ''JWT algorithm does not match the JWKS key algorithm.''
   (demand (\<not> (is_array (fld jwk ''key_ops'') \<and> \<not> (\<exists>x \<in> set (array_items (fld jwk ''key_ops'')). same_value_zero x (JStr ''verify''))))
      ''invalid_key'' ''JWKS key is not authorized for signature verification.'' (Inr jwk))))))))"

definition check_signature :: "token_env \<Rightarrow> jsval \<Rightarrow> jsval \<Rightarrow> string \<Rightarrow> string \<Rightarrow> 'a res \<Rightarrow> 'a res" where
  "check_signature env jwk hashAlg signingInput signature k =
    demand (te_import env jwk) ''invalid_key'' ''JWKS key could not be imported.''
    (case te_verify env hashAlg signingInput jwk signature of
       None \<Rightarrow> Inl (AuthError ''invalid_key'' ''JWKS key could not verify this signature.'')
     | Some ok \<Rightarrow> demand ok ''bad_signature'' ''JWT signature verification failed.'' k)"

definition check_claims :: "token_options \<Rightarrow> jsval \<Rightarrow> jsval res" where
  "check_claims opts payload =
    demand (strict_eq (fld payload ''iss'') (to_issuer opts)) ''issuer_mismatch''
      (''Unexpected token issuer: '' @ js_string (fld payload ''iss'') @ ''.'')
   (demand (audience_has (fld payload ''aud'') (to_audience opts)) ''audience_mismatch'' ''Token audience does not include this service.''
   (let nowSec = of_int \<lfloor>number_value (to_now opts) / 1000\<rfloor>; tolerance = number_value (to_tolerance opts) in
    demand (is_finite_number (fld payload ''exp'')) ''invalid_expiration'' ''Token requires a numeric expiration claim (exp).''
   (demand (\<not> number_value (fld payload ''exp'') + tolerance \<le> nowSec) ''token_expired'' ''Token has expired.''
   (if fld payload ''nbf'' = JUndef then Inr payload
    else demand (is_finite_number (fld payload ''nbf'')) ''invalid_not_before'' ''Token not-before claim (nbf) must be numeric.''
     (demand (\<not> nowSec + tolerance < number_value (fld payload ''nbf'')) ''token_not_yet_valid'' ''Token is not yet valid.''
      (Inr payload))))))"

definition verifyJwt :: "token_env \<Rightarrow> jsval \<Rightarrow> token_options \<Rightarrow> jsval res" where
  "verifyJwt env token opts =
    (case token of
       JStr t \<Rightarrow>
        (case split CHR ''.'' t of
           [headerB64, payloadB64, signatureB64] \<Rightarrow>
             check_settings opts
              (and_then (decodeSegment env headerB64 ''header'') (\<lambda>header.
               and_then (decodeSegment env payloadB64 ''payload'') (\<lambda>payload.
               and_then (check_key opts header) (\<lambda>jwk.
               check_signature env jwk (table_get alg_to_hash (fld header ''alg'')) (headerB64 @ ''.'' @ payloadB64) signatureB64
                 (check_claims opts payload)))))
         | _ \<Rightarrow> Inl (AuthError ''malformed_token'' ''Expected a compact JWS with three segments.''))
     | _ \<Rightarrow> Inl (AuthError ''malformed_token'' ''Expected a compact JWS with three segments.''))"

section \<open>Key sets\<close>

text \<open>The reply to fetching the key set: unreachable, a status that is not OK, no JSON, or a body.\<close>

datatype jwks_reply = JwksUnreachable string | JwksStatus int | JwksNoJson | JwksBody jsval

record jwks_cache =
  jc_keys :: "jsval option"
  jc_fetchedAt :: int

definition createRemoteJwks :: "jsval \<Rightarrow> jwks_cache res" where
  "createRemoteJwks jwksUri =
    demand (truthy jwksUri) ''config_error'' ''createRemoteJwks requires a jwksUri.'' (Inr \<lparr>jc_keys = None, jc_fetchedAt = 0\<rparr>)"

definition refresh :: "jwks_reply \<Rightarrow> int \<Rightarrow> jwks_cache \<Rightarrow> (jwks_cache \<times> jsval) res" where
  "refresh reply now cache =
    (case reply of
       JwksUnreachable m \<Rightarrow> Inl (AuthError ''jwks_unavailable'' (''Could not reach JWKS endpoint: '' @ m))
     | JwksStatus n \<Rightarrow> Inl (AuthError ''jwks_unavailable'' (''JWKS endpoint returned '' @ int_string n @ ''.''))
     | JwksNoJson \<Rightarrow> Inl (AuthError ''jwks_invalid'' ''JWKS endpoint did not return valid JSON.'')
     | JwksBody body \<Rightarrow>
         (let keys = (if is_array (fld body ''keys'') then fld body ''keys'' else JArr []) in
          demand (array_items keys \<noteq> []) ''jwks_empty'' ''JWKS endpoint returned no keys.''
            (Inr (\<lparr>jc_keys = Some keys, jc_fetchedAt = now\<rparr>, keys))))"

definition getKeys :: "jwks_reply \<Rightarrow> int \<Rightarrow> bool \<Rightarrow> int \<Rightarrow> jwks_cache \<Rightarrow> (jwks_cache \<times> jsval) res" where
  "getKeys reply now forceRefresh cacheTtlMs cache =
    (case jc_keys cache of
       Some keys \<Rightarrow> if \<not> forceRefresh \<and> now - jc_fetchedAt cache < cacheTtlMs then Inr (cache, keys) else refresh reply now cache
     | None \<Rightarrow> refresh reply now cache)"

section \<open>Principals\<close>

text \<open>Query parameters: the first value of a name, if any; no parameters at all is \<open>None\<close>.\<close>

type_synonym query = "string \<Rightarrow> string option"

definition query_get :: "query \<Rightarrow> string \<Rightarrow> jsval" where
  "query_get q k = (case q k of None \<Rightarrow> JNull | Some v \<Rightarrow> JStr v)"

definition staged_tenant :: "jsval \<Rightarrow> query option \<Rightarrow> jsval" where
  "staged_tenant headers searchParams =
    coalesce (fld headers ''x-staged-tenant-id'') (coalesce (fld headers ''X-Staged-Tenant-Id'')
      (coalesce (case searchParams of None \<Rightarrow> JNull | Some q \<Rightarrow> query_get q ''stagedTenantId'') JNull))"

definition staged_user :: "jsval \<Rightarrow> jsval" where
  "staged_user headers = coalesce (fld headers ''x-staged-user-id'') (coalesce (fld headers ''X-Staged-User-Id'') (JStr ''synthetic-user''))"

definition extractStagedAuth :: "jsval \<Rightarrow> query option \<Rightarrow> jsval" where
  "extractStagedAuth headers searchParams =
    JObj [(''tenantId'', staged_tenant headers searchParams), (''userId'', staged_user headers)]"

definition canAccessTenant :: "jsval \<Rightarrow> query option \<Rightarrow> jsval \<Rightarrow> bool" where
  "canAccessTenant headers searchParams tenantId = strict_eq (fld (extractStagedAuth headers searchParams) ''tenantId'') tenantId"

definition resolveStagedPrincipal :: "jsval \<Rightarrow> query option \<Rightarrow> jsval" where
  "resolveStagedPrincipal headers searchParams = JObj
    [(''userId'', staged_user headers),
     (''tenantId'', staged_tenant headers searchParams),
     (''organizationRole'', JStr ''company_admin''),
     (''projectRole'', JNull),
     (''authenticated'', JBool False),
     (''staged'', JBool True)]"

definition paid_client_roles :: "string list" where
  "paid_client_roles = [''xygo_admin'', ''client_owner'', ''client_staff'', ''client_viewer'']"

text \<open>\<open>/^Bearer\s+/i\<close>: the scheme in any case and at least one white space.\<close>

definition extractBearer :: "jsval \<Rightarrow> string option" where
  "extractBearer headers =
    (case coalesce (fld headers ''authorization'') (coalesce (fld headers ''Authorization'') JNull) of
       JStr h \<Rightarrow>
         (if starts_with ''bearer'' (js_lower h) \<and> (let rest = drop 6 h in rest \<noteq> [] \<and> js_ws (hd rest))
          then Some (js_trim (drop 6 h)) else None)
     | _ \<Rightarrow> None)"

section \<open>Configuration\<close>

definition supported_oidc_algorithms :: "string list" where
  "supported_oidc_algorithms = [''RS256'', ''RS384'', ''RS512'']"

definition supported_oidc_providers :: "string list" where
  "supported_oidc_providers = [''auth0'', ''clerk'', ''cognito'', ''entra'', ''okta'', ''other-managed-oidc'']"

record oidc_settings =
  oi_provider :: jsval
  oi_issuer :: jsval
  oi_audience :: jsval
  oi_jwksUri :: jsval
  oi_jwksUriExplicit :: bool
  oi_algorithms :: jsval
  oi_tolerance :: jsval

record auth_config =
  ac_mode :: string
  ac_stagedModeEnabled :: bool
  ac_productionMode :: bool
  ac_oidc :: "oidc_settings option"

definition normalizedString :: "jsval \<Rightarrow> jsval" where
  "normalizedString value = (if nonblank value then JStr (js_trim (js_string value)) else JNull)"

definition parseStagedMode :: "jsval \<Rightarrow> bool res" where
  "parseStagedMode value =
    (case value of
       JUndef \<Rightarrow> Inr True
     | JBool b \<Rightarrow> Inr b
     | _ \<Rightarrow> (let normalized = js_lower (js_trim (js_string value)) in
         if normalized = ''true'' \<or> normalized = ''1'' then Inr True
         else if normalized = ''false'' \<or> normalized = ''0'' then Inr False
         else Inl (AuthError ''config_error'' ''STAGED_MODE must be true or false.'')))"

definition assertHttpsUrl :: "(string \<Rightarrow> full_url option) \<Rightarrow> string \<Rightarrow> string \<Rightarrow> bool \<Rightarrow> unit res \<Rightarrow> unit res" where
  "assertHttpsUrl parse value label allowQuery k =
    (case parse value of
       None \<Rightarrow> Inl (AuthError ''config_error'' (label @ '' must be an absolute HTTPS URL in production.''))
     | Some url \<Rightarrow>
        demand (u_protocol url = ''https:'') ''unsafe_config'' (label @ '' must use HTTPS in production.'')
       (demand (\<not> (u_hostname url = [] \<or> u_username url \<noteq> [] \<or> u_password url \<noteq> [] \<or> u_hash url \<noteq> []
                    \<or> (\<not> allowQuery \<and> u_search url \<noteq> []))) ''unsafe_config''
          (label @ '' must not contain credentials, a fragment, or unsupported URL components.'') k))"

text \<open>\<open>issuer.replace(/\/$/, "")\<close>.\<close>

definition drop_last_slash :: "string \<Rightarrow> string" where
  "drop_last_slash s = (if s \<noteq> [] \<and> last s = CHR ''/'' then butlast s else s)"

definition load_oidc :: "jsval \<Rightarrow> oidc_settings" where
  "load_oidc env =
    (let issuer = normalizedString (fld env ''XYGO_OIDC_ISSUER'');
         configured = normalizedString (fld env ''XYGO_OIDC_JWKS_URI'') in
     \<lparr>oi_provider = normalizedString (fld env ''XYGO_OIDC_PROVIDER''),
      oi_issuer = issuer,
      oi_audience = normalizedString (fld env ''XYGO_OIDC_AUDIENCE''),
      oi_jwksUri = coalesce configured (if truthy issuer
          then JStr (drop_last_slash (js_string issuer) @ ''/.well-known/jwks.json'') else JNull),
      oi_jwksUriExplicit = truthy configured,
      oi_algorithms = JArr (map JStr (filter (\<lambda>s. s \<noteq> []) (map js_trim (split CHR '',''
          (js_string (coalesce (normalizedString (fld env ''XYGO_OIDC_ALLOWED_ALGORITHMS'')) (JStr ''RS256'')))))) ),
      oi_tolerance = js_number (coalesce (fld env ''XYGO_OIDC_CLOCK_TOLERANCE_SEC'') (JNum 60))\<rparr>)"

definition loadAuthConfig :: "jsval \<Rightarrow> auth_config res" where
  "loadAuthConfig env =
    (let mode = coalesce (fld env ''XYGO_AUTH_MODE'') (JStr ''staged'') in
     guard [(strict_eq mode (JStr ''staged'') \<or> strict_eq mode (JStr ''oidc''),
             ''Unknown XYGO_AUTH_MODE: '' @ js_string mode @ '' (expected '' @ quote ''staged'' @ '' or '' @ quote ''oidc'' @ '').'')]
     (and_then (parseStagedMode (fld env ''STAGED_MODE'')) (\<lambda>staged.
      Inr \<lparr>ac_mode = js_string mode, ac_stagedModeEnabled = staged,
           ac_productionMode = (js_lower (js_trim (js_string (coalesce (fld env ''NODE_ENV'') (JStr [])))) = ''production'' \<or> \<not> staged),
           ac_oidc = (if strict_eq mode (JStr ''oidc'') then Some (load_oidc env) else None)\<rparr>)))"

definition check_production :: "(string \<Rightarrow> full_url option) \<Rightarrow> oidc_settings \<Rightarrow> unit res \<Rightarrow> unit res" where
  "check_production parse oidc k =
    demand (truthy (oi_provider oidc) \<and> one_of supported_oidc_providers (oi_provider oidc)) ''config_error''
      (''Production OIDC requires XYGO_OIDC_PROVIDER to be one of: '' @ join '', '' supported_oidc_providers @ ''.'')
   (demand (oi_jwksUriExplicit oidc) ''config_error''
      ''Production OIDC requires an explicit XYGO_OIDC_JWKS_URI; an inferred provider endpoint is not accepted.''
   (assertHttpsUrl parse (js_string (oi_issuer oidc)) ''XYGO_OIDC_ISSUER'' False
   (assertHttpsUrl parse (js_string (oi_jwksUri oidc)) ''XYGO_OIDC_JWKS_URI'' True k)))"

definition check_oidc :: "(string \<Rightarrow> full_url option) \<Rightarrow> bool \<Rightarrow> oidc_settings \<Rightarrow> jsval \<Rightarrow> unit res" where
  "check_oidc parse production oidc repositoryMode =
    demand (truthy (oi_issuer oidc) \<and> truthy (oi_audience oidc)) ''config_error''
      ''XYGO_AUTH_MODE=oidc requires XYGO_OIDC_ISSUER and XYGO_OIDC_AUDIENCE.''
   (demand (truthy (oi_jwksUri oidc)) ''config_error'' ''OIDC mode requires a resolvable JWKS URI.''
   (demand (is_array (oi_algorithms oidc) \<and> array_items (oi_algorithms oidc) \<noteq> []
            \<and> list_all (one_of supported_oidc_algorithms) (array_items (oi_algorithms oidc))) ''config_error''
      ''XYGO_OIDC_ALLOWED_ALGORITHMS must contain one or more supported RSA algorithms.''
   (demand (is_finite_number (oi_tolerance oidc) \<and> 0 \<le> number_value (oi_tolerance oidc) \<and> number_value (oi_tolerance oidc) \<le> 300)
      ''config_error'' ''XYGO_OIDC_CLOCK_TOLERANCE_SEC must be between 0 and 300.''
   ((if production then check_production parse oidc else id)
   (demand (strict_eq repositoryMode (JStr ''postgres'')) ''unsafe_config''
      ''XYGO_AUTH_MODE=oidc requires XYGO_API_REPOSITORY_MODE=postgres for canonical tenant and role resolution.''
   (Inr ()))))))"

definition assertAuthConfig :: "(string \<Rightarrow> full_url option) \<Rightarrow> auth_config \<Rightarrow> jsval \<Rightarrow> unit res" where
  "assertAuthConfig parse config repositoryMode =
    demand (\<not> (ac_productionMode config \<and> ac_mode config \<noteq> ''oidc'')) ''unsafe_config''
      ''Production mode requires XYGO_AUTH_MODE=oidc; staged identity cannot be enabled.''
   (if ac_mode config = ''oidc''
    then (case ac_oidc config of
        None \<Rightarrow> Inl (AuthError ''config_error'' ''XYGO_AUTH_MODE=oidc requires XYGO_OIDC_ISSUER and XYGO_OIDC_AUDIENCE.'')
      | Some oidc \<Rightarrow> check_oidc parse (ac_productionMode config) oidc repositoryMode)
    else demand (ac_stagedModeEnabled config) ''unsafe_config''
      ''STAGED_MODE=false requires XYGO_AUTH_MODE=oidc: self-asserted tenant identity cannot run in production mode.'' (Inr ()))"

section \<open>Resolving a principal\<close>

text \<open>What the canonical repository answers for an issuer and a subject; none when it cannot resolve identities.\<close>

type_synonym directory = "(jsval \<Rightarrow> string \<Rightarrow> jsval res) option"

definition check_authorization :: "jsval \<Rightarrow> jsval res" where
  "check_authorization authorization =
    demand (\<not> strict_eq (fld authorization ''status'') (JStr ''ambiguous'')) ''identity_ambiguous''
      ''OIDC identity resolved to multiple authorization records.''
   (demand (strict_eq (fld authorization ''status'') (JStr ''active'')) ''identity_not_provisioned''
      ''OIDC identity is not active in the canonical repository.''
   (demand (nonempty_text (fld authorization ''userId'') \<and> nonempty_text (fld authorization ''tenantId'')
            \<and> one_of paid_client_roles (fld authorization ''organizationRole'')) ''identity_invalid''
      ''OIDC identity has an invalid canonical authorization assignment.''
   (Inr (JObj
     [(''userId'', fld authorization ''userId''),
      (''tenantId'', fld authorization ''tenantId''),
      (''organizationRole'', fld authorization ''organizationRole''),
      (''projectRole'', coalesce (fld authorization ''projectRole'') JNull),
      (''authenticated'', JBool True),
      (''staged'', JBool False)]))))"

definition token_subject :: "jsval \<Rightarrow> string" where
  "token_subject claims = (case fld claims ''sub'' of JStr s \<Rightarrow> js_trim s | _ \<Rightarrow> [])"

definition resolveOidcPrincipal ::
    "token_env \<Rightarrow> jsval \<Rightarrow> jsval res \<Rightarrow> auth_config \<Rightarrow> directory \<Rightarrow> jsval \<Rightarrow> jsval res" where
  "resolveOidcPrincipal env headers keys config repository now =
    (case extractBearer headers of
       None \<Rightarrow> Inl (AuthError ''missing_token'' ''Authorization bearer token is required.'')
     | Some token \<Rightarrow>
        demand (token \<noteq> []) ''missing_token'' ''Authorization bearer token is required.''
        (and_then keys (\<lambda>ks.
         case ac_oidc config of
           None \<Rightarrow> Inl type_error
         | Some oidc \<Rightarrow>
         and_then (verifyJwt env (JStr token) \<lparr>to_keys = ks, to_issuer = oi_issuer oidc, to_audience = oi_audience oidc,
             to_algorithms = oi_algorithms oidc, to_now = now, to_tolerance = oi_tolerance oidc\<rparr>) (\<lambda>claims.
         let subject = token_subject claims in
         demand (subject \<noteq> []) ''missing_subject'' ''Token is missing the OIDC subject claim (sub).''
         (case repository of
            None \<Rightarrow> Inl (AuthError ''config_error'' ''OIDC mode requires canonical PostgreSQL identity resolution.'')
          | Some resolve \<Rightarrow> and_then (resolve (oi_issuer oidc) subject) check_authorization)))))"

definition resolvePrincipal ::
    "token_env \<Rightarrow> jsval \<Rightarrow> query option \<Rightarrow> auth_config \<Rightarrow> jsval res \<Rightarrow> directory \<Rightarrow> bool \<Rightarrow> jsval \<Rightarrow> jsval res" where
  "resolvePrincipal env headers searchParams config keys repository allowQueryAuth now =
    (if ac_mode config = ''oidc''
     then resolveOidcPrincipal env headers keys config repository now
     else Inr (resolveStagedPrincipal headers (if allowQueryAuth then searchParams else None)))"

section \<open>What an accepted token proves\<close>

lemma check_settings_Inr [guard_simps]:
  "check_settings opts k = Inr v \<longleftrightarrow>
    nonempty_text (to_issuer opts) \<and> nonempty_text (to_audience opts) \<and> is_array (to_keys opts)
    \<and> is_array (to_algorithms opts) \<and> array_items (to_algorithms opts) \<noteq> []
    \<and> is_finite_number (to_now opts) \<and> is_finite_number (to_tolerance opts) \<and> 0 \<le> number_value (to_tolerance opts) \<and> k = Inr v"
  by (auto simp: check_settings_def guard_simps)

lemma check_key_Inr:
  "check_key opts header = Inr jwk \<Longrightarrow>
    matching_keys (to_keys opts) (fld header ''kid'') = [jwk] \<and> nonblank (fld header ''kid'')
    \<and> fld header ''alg'' \<in> set (array_items (to_algorithms opts)) \<and> truthy (table_get alg_to_hash (fld header ''alg''))
    \<and> fld jwk ''kty'' = JStr ''RSA'' \<and> (truthy (fld jwk ''alg'') \<longrightarrow> fld jwk ''alg'' = fld header ''alg'')"
  unfolding check_key_def Let_def demand_Inr
  by (auto simp: length_Suc_conv dest: same_value_zero_eq strict_eq_eq)

lemma check_signature_Inr [guard_simps]:
  "check_signature env jwk hashAlg input signature k = Inr v \<longleftrightarrow>
    te_import env jwk \<and> te_verify env hashAlg input jwk signature = Some True \<and> k = Inr v"
  by (auto simp: check_signature_def guard_simps split: option.splits)

text \<open>The claims were issued for this service and are used between their limits.\<close>

definition in_time :: "token_options \<Rightarrow> jsval \<Rightarrow> bool" where
  "in_time opts claims =
    (let nowSec = of_int \<lfloor>number_value (to_now opts) / 1000\<rfloor>; tolerance = number_value (to_tolerance opts) in
     is_finite_number (fld claims ''exp'') \<and> nowSec < number_value (fld claims ''exp'') + tolerance
     \<and> (fld claims ''nbf'' = JUndef \<or> is_finite_number (fld claims ''nbf'') \<and> number_value (fld claims ''nbf'') \<le> nowSec + tolerance))"

lemma check_claims_Inr:
  "check_claims opts payload = Inr claims \<Longrightarrow>
    claims = payload \<and> fld claims ''iss'' = to_issuer opts \<and> audience_has (fld claims ''aud'') (to_audience opts) \<and> in_time opts claims"
  unfolding check_claims_def Let_def demand_Inr in_time_def
  by (auto simp: demand_Inr dest: strict_eq_eq split: if_splits)

lemma decodeSegment_Inr: "decodeSegment env s label = Inr v \<Longrightarrow> te_decode env s = Some v \<and> is_obj v"
  by (auto simp: decodeSegment_def guard_simps split: option.splits)

text \<open>
  C10. A token that is accepted has three segments; exactly one key of the key set has the header's
  key id, and it is an RSA key that fits the header's algorithm, which is one of the allowed ones; the
  signature of the first two segments checks under that key; and the claims name the configured issuer
  and audience and are used before they expire and not before they start, up to the tolerance.
\<close>

theorem accepted_token:
  assumes "verifyJwt env token opts = Inr claims"
  shows "\<exists>h p s header jwk. token = JStr (h @ ''.'' @ p @ ''.'' @ s)
    \<and> te_decode env h = Some header \<and> te_decode env p = Some claims
    \<and> matching_keys (to_keys opts) (fld header ''kid'') = [jwk] \<and> fld jwk ''kty'' = JStr ''RSA''
    \<and> (truthy (fld jwk ''alg'') \<longrightarrow> fld jwk ''alg'' = fld header ''alg'')
    \<and> fld header ''alg'' \<in> set (array_items (to_algorithms opts))
    \<and> te_verify env (table_get alg_to_hash (fld header ''alg'')) (h @ ''.'' @ p) jwk s = Some True
    \<and> fld claims ''iss'' = to_issuer opts \<and> audience_has (fld claims ''aud'') (to_audience opts) \<and> in_time opts claims"
proof -
  obtain t h p s where tok: "token = JStr t" "split CHR ''.'' t = [h, p, s]"
    using assms by (auto simp: verifyJwt_def split: jsval.splits list.splits)
  obtain header payload jwk where
    "te_decode env h = Some header" "te_decode env p = Some payload" and key: "check_key opts header = Inr jwk"
    and "te_verify env (table_get alg_to_hash (fld header ''alg'')) (h @ ''.'' @ p) jwk s = Some True"
    and "check_claims opts payload = Inr claims"
    using assms tok by (auto simp: verifyJwt_def guard_simps dest!: decodeSegment_Inr)
  moreover have "t = h @ ''.'' @ p @ ''.'' @ s"
    using join_split [of "CHR ''.''" t] tok(2) by simp
  ultimately show ?thesis
    using tok(1) check_key_Inr [OF key] check_claims_Inr by blast
qed

definition example_token_env :: token_env where
  "example_token_env =
    \<lparr>te_decode = (\<lambda>s. if s = ''h'' then Some (JObj [(''alg'', JStr ''RS256''), (''kid'', JStr ''k1'')])
        else if s = ''p'' then Some (JObj [(''iss'', JStr ''https://idp.example.org''), (''aud'', JArr [JStr ''xygo'']),
               (''exp'', JNum 2000), (''sub'', JStr ''subject-1'')])
        else None),
     te_import = (\<lambda>jwk. True),
     te_verify = (\<lambda>alg input jwk s. Some (alg = JStr ''RSA-SHA256'' \<and> input = ''h.p'' \<and> s = ''s''))\<rparr>"

definition example_keys :: jsval where
  "example_keys = JArr [JObj [(''kid'', JStr ''k0''), (''kty'', JStr ''RSA'')],
     JObj [(''kid'', JStr ''k1''), (''kty'', JStr ''RSA''), (''use'', JStr ''sig''), (''alg'', JStr ''RS256'')]]"

definition example_token_options :: token_options where
  "example_token_options = \<lparr>to_keys = example_keys, to_issuer = JStr ''https://idp.example.org'', to_audience = JStr ''xygo'',
     to_algorithms = JArr [JStr ''RS256''], to_now = JNum 1500000, to_tolerance = JNum 60\<rparr>"

lemma example_token_accepted: "isl (verifyJwt example_token_env (JStr ''h.p.s'') example_token_options) = False"
  by code_simp

theorem accepted_token_witness:
  "\<exists>claims. verifyJwt example_token_env (JStr ''h.p.s'') example_token_options = Inr claims
    \<and> fld claims ''iss'' = JStr ''https://idp.example.org'' \<and> in_time example_token_options claims"
  using accepted_token [OF ok_value_Inr [OF example_token_accepted]] ok_value_Inr [OF example_token_accepted]
  by (force simp: example_token_options_def)

section \<open>Where identities come from\<close>

lemma check_authorization_Inr:
  "check_authorization a = Inr p \<Longrightarrow>
    fld a ''status'' = JStr ''active'' \<and> one_of paid_client_roles (fld a ''organizationRole'')
    \<and> fld p ''tenantId'' = fld a ''tenantId'' \<and> fld p ''userId'' = fld a ''userId''
    \<and> fld p ''organizationRole'' = fld a ''organizationRole''
    \<and> fld p ''authenticated'' = JBool True \<and> fld p ''staged'' = JBool False"
  unfolding check_authorization_def demand_Inr by (auto dest: strict_eq_eq)

lemma oidc_principal:
  assumes "resolveOidcPrincipal env headers keys config repository now = Inr p"
  shows "\<exists>oidc resolve ks token claims a. ac_oidc config = Some oidc \<and> repository = Some resolve \<and> keys = Inr ks
    \<and> extractBearer headers = Some token
    \<and> verifyJwt env (JStr token) \<lparr>to_keys = ks, to_issuer = oi_issuer oidc, to_audience = oi_audience oidc,
         to_algorithms = oi_algorithms oidc, to_now = now, to_tolerance = oi_tolerance oidc\<rparr> = Inr claims
    \<and> token_subject claims \<noteq> [] \<and> resolve (oi_issuer oidc) (token_subject claims) = Inr a \<and> check_authorization a = Inr p"
  using assms
  by (auto simp: resolveOidcPrincipal_def guard_simps Let_def split: option.splits jsval.splits)

lemma assertHttpsUrl_Inr [guard_simps]:
  "assertHttpsUrl parse value label q k = Inr v \<longleftrightarrow>
    (\<exists>url. parse value = Some url \<and> u_protocol url = ''https:'' \<and> u_hostname url \<noteq> [] \<and> u_username url = []
      \<and> u_password url = [] \<and> u_hash url = [] \<and> (q \<or> u_search url = [])) \<and> k = Inr v"
  by (auto simp: assertHttpsUrl_def demand_def split: option.splits)

lemma assert_production:
  assumes "assertAuthConfig parse config mode = Inr ()" and "ac_productionMode config"
  shows "ac_mode config = ''oidc'' \<and> mode = JStr ''postgres''
    \<and> (\<exists>oidc. ac_oidc config = Some oidc \<and> oi_jwksUriExplicit oidc
         \<and> number_value (oi_tolerance oidc) \<le> 300 \<and> list_all (one_of supported_oidc_algorithms) (array_items (oi_algorithms oidc))
         \<and> (\<exists>url. parse (js_string (oi_jwksUri oidc)) = Some url \<and> u_protocol url = ''https:''))"
  using assms
  by (auto simp: assertAuthConfig_def check_oidc_def check_production_def demand_Inr guard_simps dest: strict_eq_eq split: option.splits if_splits)

definition production_environment :: "jsval \<Rightarrow> bool" where
  "production_environment vars =
    (fld vars ''NODE_ENV'' = JStr ''production'' \<or> fld vars ''STAGED_MODE'' \<in> {JBool False, JStr ''false'', JStr ''0''})"

lemma production_spelled:
  "js_lower (js_trim ''production'') = ''production''" "js_lower (js_trim ''false'') = ''false''" "js_lower (js_trim ''0'') = ''0''"
  by code_simp+

lemma load_production:
  assumes "loadAuthConfig vars = Inr config" and "production_environment vars"
  shows "ac_productionMode config"
  using assms
  by (auto simp: loadAuthConfig_def production_environment_def parseStagedMode_def guard_simps Let_def production_spelled)

text \<open>
  An API that started in a production environment (NODE_ENV is production or STAGED_MODE is off) runs on the
  Postgres repository and hands out only authenticated identities: every principal it resolves is the active record that
  the canonical repository holds for the subject of an accepted token, with the tenant, the user and the (known) role of
  that record and nothing from the token or the headers; otherwise there is no principal.
\<close>

theorem production_identity:
  assumes "loadAuthConfig vars = Inr config" and "production_environment vars"
    and "assertAuthConfig parse config mode = Inr ()"
    and "resolvePrincipal env headers query config keys repository allow now = Inr p"
  shows "mode = JStr ''postgres'' \<and> fld p ''authenticated'' = JBool True \<and> fld p ''staged'' = JBool False
    \<and> one_of paid_client_roles (fld p ''organizationRole'')
    \<and> (\<exists>resolve oidc token opts claims a. repository = Some resolve \<and> ac_oidc config = Some oidc
        \<and> extractBearer headers = Some token \<and> verifyJwt env (JStr token) opts = Inr claims
        \<and> to_issuer opts = oi_issuer oidc \<and> to_audience opts = oi_audience oidc
        \<and> token_subject claims \<noteq> [] \<and> resolve (oi_issuer oidc) (token_subject claims) = Inr a
        \<and> fld a ''status'' = JStr ''active'' \<and> fld p ''tenantId'' = fld a ''tenantId''
        \<and> fld p ''userId'' = fld a ''userId'' \<and> fld p ''organizationRole'' = fld a ''organizationRole'')"
proof -
  have prod: "ac_mode config = ''oidc'' \<and> mode = JStr ''postgres''"
    using assert_production [OF assms(3) load_production [OF assms(1,2)]] by blast
  then have "resolveOidcPrincipal env headers keys config repository now = Inr p"
    using assms(4) by (simp add: resolvePrincipal_def)
  from oidc_principal [OF this] obtain oidc resolve ks token claims a where
    *: "ac_oidc config = Some oidc" "repository = Some resolve" "extractBearer headers = Some token"
      "verifyJwt env (JStr token) \<lparr>to_keys = ks, to_issuer = oi_issuer oidc, to_audience = oi_audience oidc,
         to_algorithms = oi_algorithms oidc, to_now = now, to_tolerance = oi_tolerance oidc\<rparr> = Inr claims"
      "token_subject claims \<noteq> []" "resolve (oi_issuer oidc) (token_subject claims) = Inr a" "check_authorization a = Inr p"
    by blast
  then show ?thesis
    using prod check_authorization_Inr [OF *(7)] by (auto intro!: exI [of _ "\<lparr>to_keys = ks, to_issuer = oi_issuer oidc,
      to_audience = oi_audience oidc, to_algorithms = oi_algorithms oidc, to_now = now, to_tolerance = oi_tolerance oidc\<rparr>"])
qed

definition example_vars :: jsval where
  "example_vars = JObj [(''NODE_ENV'', JStr ''production''), (''XYGO_AUTH_MODE'', JStr ''oidc''), (''XYGO_OIDC_PROVIDER'', JStr ''okta''),
     (''XYGO_OIDC_ISSUER'', JStr ''https://idp.example.org''), (''XYGO_OIDC_AUDIENCE'', JStr ''xygo''),
     (''XYGO_OIDC_JWKS_URI'', JStr ''https://idp.example.org/keys'')]"

definition example_parse :: "string \<Rightarrow> full_url option" where
  "example_parse s = Some \<lparr>u_protocol = ''https:'', u_username = [], u_password = [], u_hash = [], u_href = s,
     u_hostname = ''idp.example.org'', u_search = []\<rparr>"

definition example_directory :: "jsval \<Rightarrow> string \<Rightarrow> jsval res" where
  "example_directory issuer subject = Inr (if subject = ''subject-1'' then JObj [(''status'', JStr ''active''), (''userId'', JStr ''u1''),
     (''tenantId'', JStr ''t1''), (''organizationRole'', JStr ''client_staff'')] else JNull)"

definition example_auth_config :: auth_config where
  "example_auth_config = (case loadAuthConfig example_vars of Inr c \<Rightarrow> c | Inl e \<Rightarrow> \<lparr>ac_mode = [], ac_stagedModeEnabled = False,
     ac_productionMode = False, ac_oidc = None\<rparr>)"

lemma example_loaded: "isl (loadAuthConfig example_vars) = False" "production_environment example_vars"
    "assertAuthConfig example_parse example_auth_config (JStr ''postgres'') = Inr ()"
  by code_simp+

lemma example_loaded_config: "loadAuthConfig example_vars = Inr example_auth_config"
  using example_loaded(1) by (cases "loadAuthConfig example_vars") (simp_all add: example_auth_config_def)

definition example_principal :: "jsval res" where
  "example_principal = resolvePrincipal example_token_env (JObj [(''authorization'', JStr ''Bearer h.p.s''), (''x-staged-tenant-id'', JStr ''other'')])
     None example_auth_config (Inr example_keys) (Some example_directory) False (JNum 1500000)"

lemma example_resolved: "isl example_principal = False"
  by code_simp

lemma example_principal_tenant: "fld (ok_value example_principal) ''tenantId'' = JStr ''t1''"
  by code_simp

theorem production_identity_witness:
  "fld (ok_value example_principal) ''authenticated'' = JBool True \<and> fld (ok_value example_principal) ''tenantId'' = JStr ''t1''"
  using production_identity [OF example_loaded_config example_loaded(2,3)
      ok_value_Inr [OF example_resolved, unfolded example_principal_def]] example_principal_tenant
  by (simp add: example_principal_def)

end
