(* ===== verification/Fixtures.thy ===== *)
theory Fixtures
  imports Repository
begin

text \<open>
  The synthetic data (packages/test-fixtures/src/synthetic-tenants.js) and the seed of the in-memory
  repository (apps/api/src/repositories/seed.js).
\<close>

section \<open>Synthetic data\<close>

definition syntheticTenants :: "jsval list" where
  "syntheticTenants =
    [JObj
       [(''id'', JStr ''tenant-residential-sim''),
        (''name'', JStr ''Residential Simulation Group''),
        (''staged'', JBool True),
        (''businessUnits'', JArr [JStr ''bu-residential-design'']),
        (''departments'', JArr [JStr ''dept-residential-architecture'', JStr ''dept-residential-coordination'']),
        (''teams'', JArr [JStr ''team-residential-core'', JStr ''team-residential-field'']),
        (''users'', JArr [JStr ''user-residential-admin'', JStr ''user-residential-pm'']),
        (''projects'', JArr [JStr ''project-residential-a''])],
     JObj
       [(''id'', JStr ''tenant-commercial-sim''),
        (''name'', JStr ''Commercial Simulation Group''),
        (''staged'', JBool True),
        (''businessUnits'', JArr [JStr ''bu-commercial-ops'']),
        (''departments'', JArr [JStr ''dept-commercial-architecture'', JStr ''dept-commercial-engineering'']),
        (''teams'', JArr [JStr ''team-commercial-design'', JStr ''team-commercial-vdc'']),
        (''users'', JArr [JStr ''user-commercial-admin'', JStr ''user-commercial-vdc'']),
        (''projects'', JArr [JStr ''project-commercial-b''])]]"

definition syntheticUsers :: "jsval list" where
  "syntheticUsers =
    [JObj
       [(''id'', JStr ''user-residential-admin''),
        (''tenantId'', JStr ''tenant-residential-sim''),
        (''email'', JStr ''res-admin@synthetic.invalid''),
        (''displayName'', JStr ''Residential Admin''),
        (''organizationRole'', JStr ''company_admin''),
        (''staged'', JBool True)],
     JObj
       [(''id'', JStr ''user-residential-pm''),
        (''tenantId'', JStr ''tenant-residential-sim''),
        (''email'', JStr ''res-pm@synthetic.invalid''),
        (''displayName'', JStr ''Residential Project Manager''),
        (''organizationRole'', JStr ''supervisor''),
        (''staged'', JBool True)],
     JObj
       [(''id'', JStr ''user-commercial-admin''),
        (''tenantId'', JStr ''tenant-commercial-sim''),
        (''email'', JStr ''com-admin@synthetic.invalid''),
        (''displayName'', JStr ''Commercial Admin''),
        (''organizationRole'', JStr ''company_admin''),
        (''staged'', JBool True)],
     JObj
       [(''id'', JStr ''user-commercial-vdc''),
        (''tenantId'', JStr ''tenant-commercial-sim''),
        (''email'', JStr ''com-vdc@synthetic.invalid''),
        (''displayName'', JStr ''Commercial VDC Lead''),
        (''organizationRole'', JStr ''employee''),
        (''staged'', JBool True)]]"

definition syntheticDepartments :: "jsval list" where
  "syntheticDepartments =
    [JObj
       [(''id'', JStr ''dept-residential-architecture''),
        (''tenantId'', JStr ''tenant-residential-sim''),
        (''businessUnitId'', JStr ''bu-residential-design''),
        (''name'', JStr ''Residential Architecture''),
        (''staged'', JBool True)],
     JObj
       [(''id'', JStr ''dept-commercial-engineering''),
        (''tenantId'', JStr ''tenant-commercial-sim''),
        (''businessUnitId'', JStr ''bu-commercial-ops''),
        (''name'', JStr ''Commercial Engineering''),
        (''staged'', JBool True)]]"

definition syntheticProjects :: "jsval list" where
  "syntheticProjects =
    [JObj
       [(''id'', JStr ''project-residential-a''),
        (''tenantId'', JStr ''tenant-residential-sim''),
        (''name'', JStr ''Two-Story Synthetic Residence''),
        (''type'', JStr ''residential''),
        (''status'', JStr ''draft''),
        (''staged'', JBool True)],
     JObj
       [(''id'', JStr ''project-commercial-b''),
        (''tenantId'', JStr ''tenant-commercial-sim''),
        (''name'', JStr ''Small Synthetic Commercial Building''),
        (''type'', JStr ''commercial''),
        (''status'', JStr ''draft''),
        (''staged'', JBool True)]]"

definition syntheticDisciplinePackages :: "jsval list" where
  "syntheticDisciplinePackages =
    [JObj
       [(''id'', JStr ''package-residential-arch''),
        (''tenantId'', JStr ''tenant-residential-sim''),
        (''projectId'', JStr ''project-residential-a''),
        (''discipline'', JStr ''architecture''),
        (''leadUserId'', JStr ''user-residential-admin''),
        (''memberUserIds'', JArr [JStr ''user-residential-pm'']),
        (''staged'', JBool True)],
     JObj
       [(''id'', JStr ''package-commercial-arch''),
        (''tenantId'', JStr ''tenant-commercial-sim''),
        (''projectId'', JStr ''project-commercial-b''),
        (''discipline'', JStr ''architecture''),
        (''leadUserId'', JStr ''user-commercial-admin''),
        (''memberUserIds'', JArr [JStr ''user-commercial-vdc'']),
        (''staged'', JBool True)]]"

definition syntheticFileRecords :: "jsval list" where
  "syntheticFileRecords =
    [JObj
       [(''id'', JStr ''file-residential-sheetset-a''),
        (''tenantId'', JStr ''tenant-residential-sim''),
        (''projectId'', JStr ''project-residential-a''),
        (''fileClass'', JStr ''drawing_source''),
        (''originalFilename'', JStr ''synthetic-residential-sheetset-a.pdf''),
        (''mimeType'', JStr ''application/pdf''),
        (''detectedType'', JStr ''pdf''),
        (''storageKey'', JStr ''staged/residential/sheetset-a.pdf''),
        (''sizeBytes'', JNum 2048),
        (''staged'', JBool True)],
     JObj
       [(''id'', JStr ''file-commercial-model-a''),
        (''tenantId'', JStr ''tenant-commercial-sim''),
        (''projectId'', JStr ''project-commercial-b''),
        (''fileClass'', JStr ''model_source''),
        (''originalFilename'', JStr ''synthetic-commercial-model-a.ifc''),
        (''mimeType'', JStr ''application/octet-stream''),
        (''detectedType'', JStr ''ifc''),
        (''storageKey'', JStr ''staged/commercial/model-a.ifc''),
        (''sizeBytes'', JNum 4096),
        (''staged'', JBool True)],
     JObj
       [(''id'', JStr ''file-commercial-sheetset-a''),
        (''tenantId'', JStr ''tenant-commercial-sim''),
        (''projectId'', JStr ''project-commercial-b''),
        (''fileClass'', JStr ''drawing_source''),
        (''originalFilename'', JStr ''synthetic-commercial-sheetset-a.pdf''),
        (''mimeType'', JStr ''application/pdf''),
        (''detectedType'', JStr ''pdf''),
        (''storageKey'', JStr ''staged/commercial/sheetset-a.pdf''),
        (''sizeBytes'', JNum 3072),
        (''staged'', JBool True)]]"

definition syntheticDrawingSheets :: "jsval list" where
  "syntheticDrawingSheets =
    [JObj
       [(''id'', JStr ''sheet-residential-a101''),
        (''tenantId'', JStr ''tenant-residential-sim''),
        (''projectId'', JStr ''project-residential-a''),
        (''fileId'', JStr ''file-residential-sheetset-a''),
        (''discipline'', JStr ''architecture''),
        (''sheetNumber'', JStr ''A101''),
        (''sheetTitle'', JStr ''First Floor Plan''),
        (''sourceFormat'', JStr ''pdf''),
        (''staged'', JBool True)],
     JObj
       [(''id'', JStr ''sheet-commercial-a201''),
        (''tenantId'', JStr ''tenant-commercial-sim''),
        (''projectId'', JStr ''project-commercial-b''),
        (''fileId'', JStr ''file-commercial-sheetset-a''),
        (''discipline'', JStr ''architecture''),
        (''sheetNumber'', JStr ''A201''),
        (''sheetTitle'', JStr ''Level 2 Core & Shell Plan''),
        (''sourceFormat'', JStr ''pdf''),
        (''staged'', JBool True)],
     JObj
       [(''id'', JStr ''sheet-commercial-s301''),
        (''tenantId'', JStr ''tenant-commercial-sim''),
        (''projectId'', JStr ''project-commercial-b''),
        (''fileId'', JStr ''file-commercial-sheetset-a''),
        (''discipline'', JStr ''structural''),
        (''sheetNumber'', JStr ''S301''),
        (''sheetTitle'', JStr ''Level 2 Framing Plan''),
        (''sourceFormat'', JStr ''pdf''),
        (''staged'', JBool True)]]"

definition syntheticModels :: "jsval list" where
  "syntheticModels =
    [JObj
       [(''id'', JStr ''model-commercial-a''),
        (''tenantId'', JStr ''tenant-commercial-sim''),
        (''projectId'', JStr ''project-commercial-b''),
        (''sourceFileId'', JStr ''file-commercial-model-a''),
        (''discipline'', JStr ''architecture''),
        (''modelName'', JStr ''Commercial Coordination Model''),
        (''sourceFormat'', JStr ''ifc''),
        (''staged'', JBool True)]]"

definition syntheticReviewSessions :: "jsval list" where
  "syntheticReviewSessions =
    [JObj
       [(''id'', JStr ''review-commercial-a''),
        (''tenantId'', JStr ''tenant-commercial-sim''),
        (''projectId'', JStr ''project-commercial-b''),
        (''createdBy'', JStr ''user-commercial-admin''),
        (''artifactRefs'', JArr [JStr ''drawing:sheet-commercial-a201'', JStr ''model:model-commercial-a'']),
        (''staged'', JBool True)]]"

definition syntheticCoordinationIssues :: "jsval list" where
  "syntheticCoordinationIssues =
    [JObj
       [(''id'', JStr ''issue-commercial-a''),
        (''tenantId'', JStr ''tenant-commercial-sim''),
        (''projectId'', JStr ''project-commercial-b''),
        (''title'', JStr ''Plumbing clashes with structural beam''),
        (''description'', JStr ''Synthetic clash for staged coordination flow''),
        (''status'', JStr ''open''),
        (''disciplines'', JArr [JStr ''plumbing'', JStr ''structural'']),
        (''relatedModelIds'', JArr [JStr ''model-commercial-a'']),
        (''staged'', JBool True)]]"

definition syntheticRfis :: "jsval list" where
  "syntheticRfis =
    [JObj
       [(''id'', JStr ''rfi-commercial-a''),
        (''tenantId'', JStr ''tenant-commercial-sim''),
        (''projectId'', JStr ''project-commercial-b''),
        (''title'', JStr ''Clarify structural opening offset''),
        (''question'', JStr ''Please confirm the synthetic offset shown near gridline B.''),
        (''status'', JStr ''submitted''),
        (''relatedIssueIds'', JArr [JStr ''issue-commercial-a'']),
        (''staged'', JBool True)]]"

definition syntheticPermitPackages :: "jsval list" where
  "syntheticPermitPackages =
    [JObj
       [(''id'', JStr ''permit-commercial-a''),
        (''tenantId'', JStr ''tenant-commercial-sim''),
        (''projectId'', JStr ''project-commercial-b''),
        (''jurisdictionProfile'', JStr ''synthetic-jurisdiction-commercial''),
        (''status'', JStr ''package_preparation''),
        (''requiredFormsChecklist'', JArr [JBool True, JBool True]),
        (''submissionPackageRefs'', JArr [JStr ''drawing:sheet-residential-a101'']),
        (''staged'', JBool True)],
     JObj
       [(''id'', JStr ''permit-residential-a''),
        (''tenantId'', JStr ''tenant-residential-sim''),
        (''projectId'', JStr ''project-residential-a''),
        (''jurisdictionProfile'', JStr ''synthetic-jurisdiction-residential''),
        (''status'', JStr ''internal_completeness_review''),
        (''requiredFormsChecklist'', JArr [JBool True]),
        (''submissionPackageRefs'', JArr [JStr ''drawing:sheet-residential-a101'']),
        (''staged'', JBool True)]]"

definition syntheticFieldItems :: "jsval list" where
  "syntheticFieldItems =
    [JObj
       [(''id'', JStr ''field-commercial-a''),
        (''tenantId'', JStr ''tenant-commercial-sim''),
        (''projectId'', JStr ''project-commercial-b''),
        (''itemType'', JStr ''site_issue''),
        (''status'', JStr ''open''),
        (''title'', JStr ''Synthetic field coordination issue''),
        (''relatedModelIds'', JArr [JStr ''model-commercial-a'']),
        (''staged'', JBool True)]]"

definition syntheticKnowledgeSources :: "jsval list" where
  "syntheticKnowledgeSources =
    [JObj
       [(''id'', JStr ''knowledge-commercial-spec-a''),
        (''tenantId'', JStr ''tenant-commercial-sim''),
        (''projectId'', JStr ''project-commercial-b''),
        (''sourceType'', JStr ''project_spec''),
        (''title'', JStr ''Synthetic Commercial Spec A''),
        (''visibilityClass'', JStr ''project_only''),
        (''chunkRefs'', JArr [JStr ''chunk-commercial-spec-a-1'']),
        (''staged'', JBool True)]]"

definition syntheticAiReviewRuns :: "jsval list" where
  "syntheticAiReviewRuns =
    [JObj
       [(''id'', JStr ''review-run-commercial-a''),
        (''tenantId'', JStr ''tenant-commercial-sim''),
        (''projectId'', JStr ''project-commercial-b''),
        (''artifactType'', JStr ''drawing_sheet''),
        (''artifactId'', JStr ''sheet-commercial-a201''),
        (''status'', JStr ''queued''),
        (''ruleVersion'', JStr ''rules-v1''),
        (''modelVersion'', JStr ''model-sim-v1''),
        (''staged'', JBool True)]]"

definition syntheticAiFindings :: "jsval list" where
  "syntheticAiFindings =
    [JObj
       [(''id'', JStr ''finding-commercial-a''),
        (''reviewRunId'', JStr ''review-run-commercial-a''),
        (''ruleOrModelVersion'', JStr ''rules-v1''),
        (''category'', JStr ''permit_package_completeness_concern''),
        (''title'', JStr ''Synthetic permit completeness concern''),
        (''description'', JStr ''Potential issue: staged permit package appears incomplete. Requires qualified review.''),
        (''severity'', JStr ''medium''),
        (''confidence'', JStr ''medium''),
        (''evidenceType'', JStr ''deterministic_rule''),
        (''evidenceReferences'', JArr [JStr ''review-run-commercial-a-rule-1'']),
        (''assignedDiscipline'', JStr ''architecture''),
        (''humanDisposition'', JStr ''pending''),
        (''staged'', JBool True)]]"

definition syntheticTransferPackages :: "jsval list" where
  "syntheticTransferPackages =
    [JObj
       [(''id'', JStr ''transfer-commercial-trimble-a''),
        (''tenantId'', JStr ''tenant-commercial-sim''),
        (''projectId'', JStr ''project-commercial-b''),
        (''destinationProvider'', JStr ''trimble_connect''),
        (''sheetManifest'', JArr [JStr ''sheet:sheet-residential-a101'']),
        (''modelManifest'', JArr [JStr ''model:model-commercial-a'']),
        (''latestApprovedRevisionRefs'', JArr [JStr ''file:file-commercial-model-a'']),
        (''requiredApprovals'', JArr [JStr ''approval:discipline_release'']),
        (''staged'', JBool True)]]"

definition syntheticGovernanceEvents :: "jsval list" where
  "syntheticGovernanceEvents =
    [JObj
       [(''eventType'', JStr ''design.revision.approved''),
        (''tenantId'', JStr ''tenant-commercial-sim''),
        (''projectId'', JStr ''project-commercial-b''),
        (''revisionId'', JStr ''rev-commercial-a''),
        (''requiresFinanceReview'', JBool True),
        (''requiresLegalReview'', JBool False),
        (''staged'', JBool True)],
     JObj
       [(''eventType'', JStr ''legal.review.required''),
        (''tenantId'', JStr ''tenant-commercial-sim''),
        (''projectId'', JStr ''project-commercial-b''),
        (''revisionId'', JStr ''rev-commercial-a''),
        (''requiresFinanceReview'', JBool False),
        (''requiresLegalReview'', JBool True),
        (''staged'', JBool True)]]"

definition syntheticChannels :: "jsval list" where
  "syntheticChannels =
    [JObj
       [(''id'', JStr ''channel-residential-announcements''),
        (''tenantId'', JStr ''tenant-residential-sim''),
        (''name'', JStr ''Residential Announcements''),
        (''channelType'', JStr ''announcement_channel''),
        (''visibilityClass'', JStr ''company_public_summary''),
        (''staged'', JBool True)],
     JObj
       [(''id'', JStr ''channel-commercial-project-a''),
        (''tenantId'', JStr ''tenant-commercial-sim''),
        (''name'', JStr ''Commercial Project Coordination''),
        (''channelType'', JStr ''project_channel''),
        (''visibilityClass'', JStr ''project_only''),
        (''projectId'', JStr ''project-commercial-b''),
        (''staged'', JBool True)]]"

definition syntheticChannelMemberships :: "jsval list" where
  "syntheticChannelMemberships =
    [JObj
       [(''id'', JStr ''channel-membership-res-admin''),
        (''tenantId'', JStr ''tenant-residential-sim''),
        (''channelId'', JStr ''channel-residential-announcements''),
        (''userId'', JStr ''user-residential-admin''),
        (''membershipRole'', JStr ''owner''),
        (''staged'', JBool True)],
     JObj
       [(''id'', JStr ''channel-membership-com-admin''),
        (''tenantId'', JStr ''tenant-commercial-sim''),
        (''channelId'', JStr ''channel-commercial-project-a''),
        (''userId'', JStr ''user-commercial-admin''),
        (''membershipRole'', JStr ''owner''),
        (''staged'', JBool True)],
     JObj
       [(''id'', JStr ''channel-membership-com-vdc''),
        (''tenantId'', JStr ''tenant-commercial-sim''),
        (''channelId'', JStr ''channel-commercial-project-a''),
        (''userId'', JStr ''user-commercial-vdc''),
        (''membershipRole'', JStr ''member''),
        (''staged'', JBool True)]]"

definition syntheticMessages :: "jsval list" where
  "syntheticMessages =
    [JObj
       [(''id'', JStr ''message-commercial-a''),
        (''tenantId'', JStr ''tenant-commercial-sim''),
        (''channelId'', JStr ''channel-commercial-project-a''),
        (''senderUserId'', JStr ''user-commercial-admin''),
        (''body'', JStr ''Please review clash package @user-commercial-vdc''),
        (''mentions'', JArr [JStr ''user-commercial-vdc'']),
        (''attachments'', JArr []),
        (''references'', JArr [JStr ''project:project-commercial-b'']),
        (''revision'', JNum 1),
        (''deleted'', JBool False),
        (''staged'', JBool True)]]"

definition syntheticBlueprintIntake :: jsval where
  "syntheticBlueprintIntake =
    JObj
      [(''id'', JStr ''blueprint-commercial-a''),
       (''tenantId'', JStr ''tenant-commercial-sim''),
       (''businessName'', JStr ''Northside Commercial Builders''),
       (''industry'', JStr ''construction''),
       (''serviceLine'', JStr ''Commercial general contracting''),
       (''roles'', JArr [JStr ''owner'', JStr ''project manager'', JStr ''field lead'', JStr ''office admin'']),
       (''workflows'', JArr [JStr ''daily field reports'', JStr ''permit package prep'', JStr ''client status updates'']),
       (''painPoints'', JArr
          [JStr ''manual field report writing'',
           JStr ''clients call for status'',
           JStr ''spreadsheet job costing'']),
       (''portalRequirements'', JArr [JStr ''client status portal'', JStr ''share approved reports'']),
       (''dashboardRequirements'', JArr [JStr ''job costing kpi'', JStr ''open issues'']),
       (''aiAgentRequirements'', JArr [JStr ''AI project coordinator for status chasing'']),
       (''documentReportingNeeds'', JArr [JStr ''formatted PDF field reports'', JStr ''permit submittal docs'']),
       (''integrationNeeds'', JArr [JStr ''QuickBooks'', JStr ''Procore'']),
       (''staged'', JBool True)]"

definition syntheticPlatformBlueprints :: "jsval list" where
  "syntheticPlatformBlueprints = [ok_value (generatePlatformBlueprint syntheticBlueprintIntake)]"

definition draftedReportInput :: jsval where
  "draftedReportInput =
    JObj
      [(''id'', JStr ''field-report-commercial-a''),
       (''tenantId'', JStr ''tenant-commercial-sim''),
       (''projectId'', JStr ''project-commercial-b''),
       (''siteName'', JStr ''Level 2 Core & Shell''),
       (''reportType'', JStr ''daily_log''),
       (''author'', JStr ''user-commercial-vdc''),
       (''capturedAt'', JStr ''2026-07-16T15:00:00.000Z''),
       (''staged'', JBool True),
       (''observations'', JArr
          [JObj
             [(''kind'', JStr ''note''),
              (''text'', JStr ''Level 2 slab pour completed on gridlines A-C.'')],
           JObj
             [(''kind'', JStr ''checklist''),
              (''label'', JStr ''Formwork inspected''),
              (''checked'', JBool True)],
           JObj
             [(''kind'', JStr ''checklist''),
              (''label'', JStr ''Safety rails installed''),
              (''checked'', JBool False)],
           JObj
             [(''kind'', JStr ''photo''),
              (''caption'', JStr ''East elevation progress''),
              (''placeholderRef'', JStr ''staged/commercial/field-photo-1'')],
           JObj
             [(''kind'', JStr ''voice''),
              (''transcriptPlaceholder'', JStr ''Concrete delivery delayed ~40 minutes.'')]])]"

definition commercialFieldReportDraft :: jsval where
  "commercialFieldReportDraft = ok_value (and_then (createFieldReport draftedReportInput) generateReportDraft)"

definition approvedReportInput :: jsval where
  "approvedReportInput =
    JObj
      [(''id'', JStr ''field-report-commercial-b''),
       (''tenantId'', JStr ''tenant-commercial-sim''),
       (''projectId'', JStr ''project-commercial-b''),
       (''siteName'', JStr ''South Stair Core''),
       (''reportType'', JStr ''inspection''),
       (''author'', JStr ''user-commercial-admin''),
       (''capturedAt'', JStr ''2026-07-15T18:30:00.000Z''),
       (''staged'', JBool True),
       (''observations'', JArr
          [JObj [(''kind'', JStr ''note''), (''text'', JStr ''Fire-rated assembly inspection passed.'')],
           JObj
             [(''kind'', JStr ''checklist''),
              (''label'', JStr ''Penetrations sealed''),
              (''checked'', JBool True)]])]"

definition syntheticFieldReports :: "jsval list" where
  "syntheticFieldReports = [commercialFieldReportDraft,
     ok_value (and_then (and_then (createFieldReport approvedReportInput) generateReportDraft) (\<lambda>report.
       setReviewStatus report (JStr ''approved'') (JStr ''user-commercial-admin'') (JStr ''Approved for client release.'')))]"

definition syntheticPortalUpdates :: "jsval list" where
  "syntheticPortalUpdates =
    [JObj
       [(''id'', JStr ''update-commercial-1''),
        (''tenantId'', JStr ''tenant-commercial-sim''),
        (''projectId'', JStr ''project-commercial-b''),
        (''at'', JStr ''2026-07-10T14:00:00.000Z''),
        (''message'', JStr ''Project kicked off. Staged workspace provisioned.'')],
     JObj
       [(''id'', JStr ''update-commercial-2''),
        (''tenantId'', JStr ''tenant-commercial-sim''),
        (''projectId'', JStr ''project-commercial-b''),
        (''at'', JStr ''2026-07-16T16:00:00.000Z''),
        (''message'', JStr ''Level 2 core & shell progress captured; report pending client release.'')],
     JObj
       [(''id'', JStr ''update-residential-1''),
        (''tenantId'', JStr ''tenant-residential-sim''),
        (''projectId'', JStr ''project-residential-a''),
        (''at'', JStr ''2026-07-12T09:00:00.000Z''),
        (''message'', JStr ''Residential design review scheduled.'')]]"

section \<open>The seed\<close>

definition cloned :: "jsval list \<Rightarrow> jsval" where
  "cloned vs = JArr (map json_clone vs)"

definition createSeedState :: jsval where
  "createSeedState = JObj
    [(''projects'', cloned syntheticProjects),
     (''issues'', cloned syntheticCoordinationIssues),
     (''rfis'', cloned syntheticRfis),
     (''permitPackages'', cloned syntheticPermitPackages),
     (''reviewSessions'', cloned syntheticReviewSessions),
     (''aiReviewRuns'', cloned syntheticAiReviewRuns),
     (''aiFindings'', cloned syntheticAiFindings),
     (''platformBlueprints'', cloned syntheticPlatformBlueprints),
     (''fieldReports'', cloned syntheticFieldReports),
     (''fileRecords'', JArr []),
     (''emailDeliveries'', JArr []),
     (''emailSuppressions'', JArr []),
     (''emailWebhookEvents'', JArr []),
     (''serviceHeartbeats'', JArr []),
     (''auditEvents'', JArr [])]"

lemma report_fixtures_accepted:
  "isl (and_then (createFieldReport draftedReportInput) generateReportDraft) = False"
  "isl (and_then (createFieldReport approvedReportInput) generateReportDraft) = False"
  by code_simp+

end
