(* ===== verification/ApiSupport.thy ===== *)
theory ApiSupport
  imports Fixtures FileStorage Auth Outbox Policy Portal
begin

text \<open>
  The parts the request handlers of the API share (apps/api/src/handlers.js, apps/api/src/reliability/idempotency.js,
  apps/api/src/http/headers.js): requests and responses, the state behind a request, reading bodies and
  paths, pages of a list, the authorization gate, audit events and outbox jobs, and the store of
  responses by idempotency key.

  The state is the in-memory repository, the in-memory outbox, the idempotency store and the disk of the
  local file store. A request runs on its own and sees one time; its fresh identifiers are those of the
  context, shifted by \<open>later\<close> when a second event is made. The JSON parser, the URL parser, the order of
  \<open>localeCompare\<close>, and the users and portal settings that only the Postgres repository has are parameters.
\<close>

section \<open>Requests and responses\<close>

datatype req_body = NoBody | TextBody string | BinaryBody string | ValueBody jsval

record request =
  rq_method :: string
  rq_path :: string
  rq_headers :: jsval
  rq_body :: req_body
  rq_principal :: jsval
  rq_oidc :: bool

record response =
  rs_status :: nat
  rs_headers :: "(string \<times> string) list"
  rs_body :: jsval

definition security_headers :: "(string \<times> string) list" where
  "security_headers =
    [(''x-content-type-options'', ''nosniff''),
     (''x-frame-options'', ''DENY''),
     (''referrer-policy'', ''no-referrer''),
     (''content-security-policy'', ''default-src '' @ [CHR 0x27] @ ''none'' @ [CHR 0x27] @ ''; frame-ancestors '' @ [CHR 0x27] @ ''none'' @ [CHR 0x27]),
     (''strict-transport-security'', ''max-age=63072000; includeSubDomains''),
     (''cache-control'', ''no-store'')]"

definition cors_headers :: "(string \<times> string) list" where
  "cors_headers =
    [(''access-control-allow-origin'', ''*''),
     (''access-control-allow-headers'', ''authorization,content-type,x-staged-tenant-id,x-staged-user-id''),
     (''access-control-allow-methods'', ''GET,POST,OPTIONS'')]"

definition staged_header :: "(string \<times> string) list" where
  "staged_header = [(''x-xygo-staged-mode'', ''true'')]"

text \<open>Later entries replace earlier ones of the same name.\<close>

definition baseResponseHeaders :: "(string \<times> string) list \<Rightarrow> (string \<times> string) list" where
  "baseResponseHeaders extra = fold (\<lambda>(k, v). AList.update k v) (security_headers @ cors_headers @ staged_header @ extra) []"

definition json :: "nat \<Rightarrow> jsval \<Rightarrow> response" where
  "json status body = \<lparr>rs_status = status, rs_headers = baseResponseHeaders [(''content-type'', ''application/json'')], rs_body = body\<rparr>"

definition binary :: "nat \<Rightarrow> string \<Rightarrow> (string \<times> string) list \<Rightarrow> response" where
  "binary status body headers = \<lparr>rs_status = status, rs_headers = baseResponseHeaders headers, rs_body = JStr body\<rparr>"

definition refusal :: "nat \<Rightarrow> string \<Rightarrow> string \<Rightarrow> response" where
  "refusal status code message = json status (JObj [(''error'', JStr code), (''message'', JStr message), (''staged'', JBool True)])"

definition badRequest :: "string \<Rightarrow> response" where
  "badRequest message = refusal 400 ''bad_request'' message"

definition notFound :: "string \<Rightarrow> response" where
  "notFound message = refusal 404 ''not_found'' message"

definition forbidden :: "string \<Rightarrow> response" where
  "forbidden message = refusal 403 ''forbidden'' message"

definition unavailable :: "string \<Rightarrow> string \<Rightarrow> response" where
  "unavailable code message = refusal 503 code message"

definition item_response :: "nat \<Rightarrow> (string \<times> jsval) list \<Rightarrow> response" where
  "item_response status fs = json status (JObj (fs @ [(''staged'', JBool True)]))"

section \<open>State and environment\<close>

type_synonym idempotency = "(string \<times> response \<times> int) list"

record api =
  api_repo :: repo
  api_outbox :: outbox
  api_idempotency :: idempotency
  api_disk :: disk

text \<open>The storage adapter in use: the local store, or the object store with its remote operations.\<close>

datatype storage =
    LocalStorage storage_config nat
  | ObjectStorage storage_config "jsval \<Rightarrow> int \<Rightarrow> string" "jsval \<Rightarrow> s3_reply" "string \<Rightarrow> string"

record api_env =
  ae_mail :: mail_env
  ae_json :: "string \<Rightarrow> jsval option"
  ae_url :: "string \<Rightarrow> (string \<times> query) option"
  ae_collate :: "string \<Rightarrow> string \<Rightarrow> bool"
  ae_signingKey :: jsval
  ae_webAppUrl :: string
  ae_storage :: "storage res"
  ae_directory :: "(jsval list \<times> jsval list) option"
  ae_portalConfiguration :: "string \<Rightarrow> jsval"
  ae_portalData :: "string \<Rightarrow> jsval"

abbreviation on_repo :: "(repo, 'a) act \<Rightarrow> (api, 'a) act" where
  "on_repo m \<equiv> on_part api_repo (\<lambda>r s. s\<lparr>api_repo := r\<rparr>) m"

abbreviation on_outbox :: "(outbox, 'a) act \<Rightarrow> (api, 'a) act" where
  "on_outbox m \<equiv> on_part api_outbox (\<lambda>q s. s\<lparr>api_outbox := q\<rparr>) m"

abbreviation on_disk :: "(disk, 'a) act \<Rightarrow> (api, 'a) act" where
  "on_disk m \<equiv> on_part api_disk (\<lambda>d s. s\<lparr>api_disk := d\<rparr>) m"

section \<open>Bodies and paths\<close>

definition syntax_error :: js_error where
  "syntax_error = JsError ''SyntaxError'' (Some ''SyntaxError'') None"

text \<open>A binary body is an object with none of the properties that the handlers read.\<close>

definition parseBody :: "api_env \<Rightarrow> req_body \<Rightarrow> jsval res" where
  "parseBody env body =
    (case body of
       NoBody \<Rightarrow> Inr JNull
     | TextBody t \<Rightarrow> if t = [] then Inr JNull else (case ae_json env t of None \<Rightarrow> Inl syntax_error | Some v \<Rightarrow> Inr v)
     | BinaryBody b \<Rightarrow> Inr (JObj [])
     | ValueBody v \<Rightarrow> if truthy v then Inr v else Inr JNull)"

definition strip_slashes :: "string \<Rightarrow> string" where
  "strip_slashes s = rev (dropWhile (\<lambda>c. c = CHR ''/'') (rev (dropWhile (\<lambda>c. c = CHR ''/'') s)))"

definition splitPath :: "string \<Rightarrow> string list" where
  "splitPath pathname = filter (\<lambda>s. s \<noteq> []) (split CHR ''/'' (strip_slashes pathname))"

definition ensureObjectBody :: "jsval \<Rightarrow> string option" where
  "ensureObjectBody parsed = (if parsed \<noteq> JNull \<and> \<not> is_obj parsed then Some ''Request body must be a JSON object.'' else None)"

section \<open>Pages\<close>

definition page_limit :: "query \<Rightarrow> int" where
  "page_limit query = (case js_number (query_get query ''limit'') of
     JNum rawLimit \<Rightarrow> if 0 < rawLimit then min \<lfloor>rawLimit\<rfloor> 500 else 50 | _ \<Rightarrow> 50)"

definition page_offset :: "query \<Rightarrow> int" where
  "page_offset query = (case js_number (query_get query ''offset'') of
     JNum rawOffset \<Rightarrow> if 0 < rawOffset then \<lfloor>rawOffset\<rfloor> else 0 | _ \<Rightarrow> 0)"

text \<open>\<open>xs.slice(a, b)\<close> for bounds that are not negative.\<close>

definition slice_list :: "int \<Rightarrow> int \<Rightarrow> 'a list \<Rightarrow> 'a list" where
  "slice_list a b xs = take (nat (b - a)) (drop (nat a) xs)"

definition with_status :: "query \<Rightarrow> jsval list \<Rightarrow> jsval list" where
  "with_status query all =
    (let status = query_get query ''status'' in
     if truthy status
     then filter (\<lambda>item. strict_eq (fld item ''status'') status \<or> strict_eq (fld item ''humanDisposition'') status) all
     else all)"

record page =
  pg_items :: "jsval list"
  pg_total :: nat
  pg_limit :: int
  pg_offset :: int
  pg_next :: "int option"

definition paginate :: "jsval list \<Rightarrow> query \<Rightarrow> page" where
  "paginate all query =
    (let filtered = with_status query all; limit = page_limit query; offset = page_offset query in
     \<lparr>pg_items = slice_list offset (offset + limit) filtered,
      pg_total = length filtered,
      pg_limit = limit,
      pg_offset = offset,
      pg_next = (if offset + limit < int (length filtered) then Some (offset + limit) else None)\<rparr>)"

definition int_val :: "int \<Rightarrow> jsval" where
  "int_val i = JNum (of_int i)"

definition page_fields :: "page \<Rightarrow> (string \<times> jsval) list" where
  "page_fields p =
    [(''items'', JArr (pg_items p)),
     (''pagination'', JObj
       [(''total'', JNum (of_nat (pg_total p))),
        (''limit'', int_val (pg_limit p)),
        (''offset'', int_val (pg_offset p)),
        (''nextOffset'', case pg_next p of None \<Rightarrow> JNull | Some i \<Rightarrow> int_val i)])]"

definition page_response :: "jsval list \<Rightarrow> query \<Rightarrow> response" where
  "page_response all query = item_response 200 (page_fields (paginate all query))"

section \<open>The blueprint workspace\<close>

text \<open>The first of the items with each identifier.\<close>

fun unique_from :: "jsval list \<Rightarrow> jsval list \<Rightarrow> jsval list" where
  "unique_from seen [] = []"
| "unique_from seen (item # rest) =
    (if \<not> truthy (fld item ''id'') \<or> (\<exists>k \<in> set seen. same_value_zero k (fld item ''id''))
     then unique_from seen rest
     else item # unique_from (seen @ [fld item ''id'']) rest)"

definition uniqueById :: "jsval list \<Rightarrow> jsval list" where
  "uniqueById vs = unique_from [] vs"

text \<open>\<open>for (const ref of value ?? [])\<close>, for references that name a drawing.\<close>

definition drawing_refs :: "jsval \<Rightarrow> jsval list res" where
  "drawing_refs value =
    (if nullish value then Inr []
     else case value of
       JArr refs \<Rightarrow> Inr (map (\<lambda>ref. JStr (drop 8 (js_string ref))) (filter (\<lambda>ref. case ref of JStr r \<Rightarrow> starts_with ''drawing:'' r | _ \<Rightarrow> False) refs))
     | JStr s \<Rightarrow> Inr []
     | _ \<Rightarrow> Inl type_error)"

record workspace =
  ws_tenantId :: string
  ws_projects :: "jsval list"
  ws_reviewSessions :: "jsval list"
  ws_aiReviewRuns :: "jsval list"
  ws_aiFindings :: "jsval list"
  ws_issues :: "jsval list"
  ws_permits :: "jsval list"

definition sheet_ids :: "workspace \<Rightarrow> jsval list res" where
  "sheet_ids w =
    and_then (map_res (\<lambda>s. drawing_refs (fld s ''artifactRefs'')) (ws_reviewSessions w)) (\<lambda>fromSessions.
    and_then (map_res (\<lambda>p. drawing_refs (fld p ''submissionPackageRefs'')) (ws_permits w)) (\<lambda>fromPermits.
    Inr (map (\<lambda>sheet. fld sheet ''id'') (of_tenant (JStr (ws_tenantId w)) syntheticDrawingSheets)
      @ map (\<lambda>r. fld r ''artifactId'') (filter (\<lambda>r. strict_eq (fld r ''artifactType'') (JStr ''drawing_sheet'') \<and> truthy (fld r ''artifactId''))
           (ws_aiReviewRuns w))
      @ concat fromSessions @ concat fromPermits)))"

definition workspace_package :: "workspace \<Rightarrow> jsval list \<Rightarrow> jsval \<Rightarrow> jsval" where
  "workspace_package w sheets file =
    (let packageSheets = filter (\<lambda>sheet. strict_eq (fld sheet ''fileId'') (fld file ''id'')) sheets;
         linkedReviewRuns = filter (\<lambda>run. \<exists>sheet \<in> set packageSheets. strict_eq (fld sheet ''id'') (fld run ''artifactId'')) (ws_aiReviewRuns w);
         linkedFindings = filter (\<lambda>finding. \<exists>run \<in> set linkedReviewRuns. strict_eq (fld run ''id'') (fld finding ''reviewRunId'')) (ws_aiFindings w)
     in JObj
      [(''id'', fld file ''id''),
       (''tenantId'', JStr (ws_tenantId w)),
       (''projectId'', coalesce (case packageSheets of [] \<Rightarrow> JUndef | sheet # _ \<Rightarrow> fld sheet ''projectId'')
          (coalesce (case ws_projects w of [] \<Rightarrow> JUndef | project # _ \<Rightarrow> fld project ''id'') JNull)),
       (''name'', fld file ''originalFilename''),
       (''fileClass'', fld file ''fileClass''),
       (''sourceFormat'', coalesce (fld file ''detectedType'') (coalesce (fld file ''mimeType'') (JStr ''pdf''))),
       (''status'', JStr (if \<exists>finding \<in> set linkedFindings. strict_eq (fld finding ''humanDisposition'') (JStr ''pending'')
          then ''awaiting_review'' else ''staged_ready'')),
       (''completeness'', int_val (max 72 (96 - int (length linkedFindings) * 4))),
       (''sheetCount'', JNum (of_nat (length packageSheets))),
       (''reviewRunIds'', JArr (map (\<lambda>run. fld run ''id'') linkedReviewRuns)),
       (''staged'', JBool True)])"

definition workspace_sheets :: "workspace \<Rightarrow> jsval list \<Rightarrow> jsval list" where
  "workspace_sheets w ids = uniqueById (filter (\<lambda>sheet.
     (\<exists>i \<in> set ids. same_value_zero i (fld sheet ''id'')) \<and> strict_eq (fld sheet ''tenantId'') (JStr (ws_tenantId w))) syntheticDrawingSheets)"

definition workspace_files :: "workspace \<Rightarrow> jsval list \<Rightarrow> jsval list" where
  "workspace_files w sheets = uniqueById (filter (\<lambda>file.
     (\<exists>sheet \<in> set sheets. same_value_zero (fld sheet ''fileId'') (fld file ''id'')) \<and> strict_eq (fld file ''tenantId'') (JStr (ws_tenantId w)))
     syntheticFileRecords)"

definition createBlueprintWorkspacePayload :: "workspace \<Rightarrow> jsval res" where
  "createBlueprintWorkspacePayload w =
    and_then (sheet_ids w) (\<lambda>ids.
    let sheets = workspace_sheets w ids; files = workspace_files w sheets in
    Inr (JObj
      [(''tenantId'', JStr (ws_tenantId w)),
       (''projects'', JArr (ws_projects w)),
       (''packages'', JArr (map (workspace_package w sheets) files)),
       (''sheets'', JArr (map (\<lambda>sheet. spread sheet [(''packageId'', fld sheet ''fileId'')]) sheets)),
       (''reviewSessions'', JArr (ws_reviewSessions w)),
       (''reviewRuns'', JArr (ws_aiReviewRuns w)),
       (''findings'', JArr (ws_aiFindings w)),
       (''issues'', JArr (ws_issues w)),
       (''permits'', JArr (ws_permits w)),
       (''staged'', JBool True)]))"

section \<open>The authorization gate\<close>

definition gate_request :: "jsval \<Rightarrow> string \<Rightarrow> string \<Rightarrow> string \<Rightarrow> access_request" where
  "gate_request who tenantId resource action =
    \<lparr>q_resource = resource, q_action = action, q_tenant = fld who ''tenantId'', q_resource_tenant = JStr tenantId,
     q_org_role = fld who ''organizationRole'', q_proj_role = fld who ''projectRole'', q_visibility = JUndef\<rparr>"

definition authorize :: "jsval \<Rightarrow> string \<Rightarrow> string \<Rightarrow> string \<Rightarrow> response option" where
  "authorize who tenantId resource action =
    (if \<not> truthy (fld who ''tenantId'') \<or> \<not> strict_eq (fld who ''tenantId'') (JStr tenantId)
     then Some (forbidden ''Tenant access denied.'')
     else (let decision = canPerform (gate_request who tenantId resource action) in
       if \<not> allowed decision then Some (forbidden (''Authorization denied: '' @ reason decision @ ''.'')) else None))"

text \<open>\<open>const denied = authorize(...); if (denied) return denied;\<close>\<close>

definition gated :: "jsval \<Rightarrow> string \<Rightarrow> string \<Rightarrow> string \<Rightarrow> (api, response) act \<Rightarrow> (api, response) act" where
  "gated who tenantId resource action k =
    (case authorize who tenantId resource action of Some denied \<Rightarrow> give denied | None \<Rightarrow> k)"

section \<open>Audit events and outbox jobs\<close>

record audit_entry =
  an_tenantId :: string
  an_actorId :: jsval
  an_action :: string
  an_resourceType :: string
  an_resourceId :: jsval
  an_before :: jsval
  an_after :: jsval

definition tenant_last_hash :: "repo \<Rightarrow> string \<Rightarrow> jsval" where
  "tenant_last_hash r tenantId =
    (case listAuditEventsByTenant r (JStr tenantId) of [] \<Rightarrow> JNull | es \<Rightarrow> fld (last es) ''eventHash'')"

definition audit_input :: "audit_entry \<Rightarrow> jsval \<Rightarrow> jsval \<Rightarrow> jsval" where
  "audit_input entry previousHash signingKey = JObj
    [(''tenantId'', JStr (an_tenantId entry)),
     (''actorType'', JStr ''user''),
     (''actorId'', coalesce (an_actorId entry) (JStr ''synthetic-user'')),
     (''action'', JStr (an_action entry)),
     (''resourceType'', JStr (an_resourceType entry)),
     (''resourceId'', an_resourceId entry),
     (''beforeStateRef'', default_arg (an_before entry) JNull),
     (''afterStateRef'', default_arg (an_after entry) JNull),
     (''previousHash'', previousHash),
     (''signingKey'', signingKey)]"

definition buildTenantAuditEvent :: "ctx \<Rightarrow> jsval \<Rightarrow> audit_entry \<Rightarrow> repo \<Rightarrow> jsval res" where
  "buildTenantAuditEvent c signingKey entry r = createAuditEvent c (audit_input entry (tenant_last_hash r (an_tenantId entry)) signingKey)"

definition appendTenantAuditEvent :: "ctx \<Rightarrow> jsval \<Rightarrow> audit_entry \<Rightarrow> (api, unit) act" where
  "appendTenantAuditEvent c signingKey entry =
    on_repo (transition (\<lambda>r. and_then (buildTenantAuditEvent c signingKey entry r) (\<lambda>event. Inr (fst (appendAuditEvent event r), ()))))"

definition tenant_event :: "ctx \<Rightarrow> string \<Rightarrow> string \<Rightarrow> string \<Rightarrow> jsval \<Rightarrow> jsval res" where
  "tenant_event c tenantId action resourceType resourceId = createOutboxEvent c (JObj
    [(''eventType'', JStr action), (''aggregateType'', JStr resourceType), (''aggregateId'', resourceId), (''tenantId'', JStr tenantId)])"

definition put_in_outbox :: "api_env \<Rightarrow> jsval \<Rightarrow> jsval \<Rightarrow> (api, unit) act" where
  "put_in_outbox env event key =
    on_outbox (transition (\<lambda>q. and_then (enqueueOutboxEvent q event key (m_now (ae_mail env))) (\<lambda>(q', job). Inr (q', ()))))"

text \<open>\<open>[tenantId, action, resourceId, scope].filter(Boolean).join(":")\<close>.\<close>

definition scoped_key :: "string \<Rightarrow> string \<Rightarrow> jsval \<Rightarrow> jsval \<Rightarrow> jsval" where
  "scoped_key tenantId action resourceId scope =
     JStr (join '':'' (map js_string (filter truthy [JStr tenantId, JStr action, resourceId, scope])))"

definition enqueueTenantOutbox :: "api_env \<Rightarrow> ctx \<Rightarrow> string \<Rightarrow> string \<Rightarrow> string \<Rightarrow> jsval \<Rightarrow> jsval \<Rightarrow> (api, unit) act" where
  "enqueueTenantOutbox env c tenantId action resourceType resourceId scope =
    seq (from_res (tenant_event c tenantId action resourceType resourceId)) (\<lambda>event.
    put_in_outbox env event (scoped_key tenantId action resourceId scope))"

section \<open>Responses by idempotency key\<close>

definition idempotency_get :: "string \<Rightarrow> int \<Rightarrow> idempotency \<Rightarrow> idempotency \<times> response option" where
  "idempotency_get key now entries =
    (case map_of entries key of
       None \<Rightarrow> (entries, None)
     | Some (response, expiresAt) \<Rightarrow> if expiresAt \<le> now then (AList.delete key entries, None) else (entries, Some response))"

definition idempotency_set :: "int \<Rightarrow> string \<Rightarrow> response \<Rightarrow> int \<Rightarrow> idempotency \<Rightarrow> idempotency" where
  "idempotency_set ttlMs key response now entries = AList.update key (response, now + ttlMs) entries"

definition idempotencyKeyFor :: "string \<Rightarrow> string \<Rightarrow> string \<Rightarrow> string" where
  "idempotencyKeyFor tenantId path clientKey = tenantId @ '':'' @ path @ '':'' @ clientKey"

definition day_ms :: int where
  "day_ms = 24 * 60 * 60 * 1000"

definition successful :: "response \<Rightarrow> bool" where
  "successful r = (200 \<le> rs_status r \<and> rs_status r < 300)"

definition withIdempotency :: "int \<Rightarrow> jsval \<Rightarrow> string \<Rightarrow> string \<Rightarrow> (api, response) act \<Rightarrow> (api, response) act" where
  "withIdempotency now clientKey tenantId path compute =
    (if \<not> truthy clientKey then compute
     else let key = idempotencyKeyFor tenantId path (js_string clientKey) in
       seq (on_part api_idempotency (\<lambda>i s. s\<lparr>api_idempotency := i\<rparr>)
             (\<lambda>i. case idempotency_get key now i of (i', cached) \<Rightarrow> (i', Inr cached))) (\<lambda>cached.
       case cached of
         Some response \<Rightarrow> give response
       | None \<Rightarrow>
           seq compute (\<lambda>result.
           seq (if successful result
                then writing (\<lambda>s. s\<lparr>api_idempotency := idempotency_set day_ms key result now (api_idempotency s)\<rparr>)
                else give ()) (\<lambda>_.
           give result))))"

end
