(* ===== verification/ApiCollections.thy ===== *)
theory ApiCollections
  imports ApiSupport
begin

text \<open>
  The collections of the API (apps/api/src/handlers.js): the table of resources with their checks, and the creation of
  a record, which stores it, appends an audit event and puts a job into the outbox, in this order and
  without undoing an earlier step when a later one throws.
\<close>

section \<open>The table of resources\<close>

record collection =
  c_segment :: string
  c_list :: "repo \<Rightarrow> jsval \<Rightarrow> jsval list"
  c_validate :: "jsval \<Rightarrow> string option"
  c_guard :: "jsval \<Rightarrow> string \<Rightarrow> repo \<Rightarrow> string option"
  c_build :: "jsval \<Rightarrow> string \<Rightarrow> jsval"
  c_create :: "jsval \<Rightarrow> repo \<Rightarrow> (repo \<times> jsval) res"
  c_action :: string
  c_resourceType :: string
  c_after :: string

text \<open>The guards: no other tenant is named, and the parent exists in the tenant.\<close>

definition other_tenant :: "string \<Rightarrow> jsval \<Rightarrow> string \<Rightarrow> repo \<Rightarrow> string option" where
  "other_tenant message parsed tenantId r =
    (if truthy (fld parsed ''tenantId'') \<and> \<not> strict_eq (fld parsed ''tenantId'') (JStr tenantId) then Some message else None)"

definition in_tenant :: "jsval \<Rightarrow> string \<Rightarrow> bool" where
  "in_tenant record tenantId = (truthy record \<and> strict_eq (fld record ''tenantId'') (JStr tenantId))"

definition no_project :: "string \<Rightarrow> jsval \<Rightarrow> string \<Rightarrow> repo \<Rightarrow> string option" where
  "no_project message parsed tenantId r =
    (if \<not> in_tenant (getProjectById r (fld parsed ''projectId'')) tenantId then Some message else None)"

definition no_review_run :: "string \<Rightarrow> jsval \<Rightarrow> string \<Rightarrow> repo \<Rightarrow> string option" where
  "no_review_run message parsed tenantId r =
    (if \<not> in_tenant (getAiReviewRunById r (fld parsed ''reviewRunId'')) tenantId then Some message else None)"

definition projects_resource :: collection where
  "projects_resource =
    \<lparr>c_segment = ''projects'',
     c_list = listProjectsByTenant,
     c_validate = (\<lambda>parsed. if \<not> truthy (fld parsed ''id'') \<or> \<not> truthy (fld parsed ''name'')
       then Some ''Project id and name are required.'' else None),
     c_guard = other_tenant ''Cross-tenant project creation denied.'',
     c_build = (\<lambda>parsed tenantId. JObj
       [(''id'', fld parsed ''id''),
        (''tenantId'', JStr tenantId),
        (''name'', fld parsed ''name''),
        (''projectType'', coalesce (fld parsed ''projectType'') (JStr ''commercial'')),
        (''status'', coalesce (fld parsed ''status'') (JStr ''draft''))]),
     c_create = repo_createProject,
     c_action = ''api.project.created'',
     c_resourceType = ''project'',
     c_after = ''status''\<rparr>"

definition issues_resource :: collection where
  "issues_resource =
    \<lparr>c_segment = ''issues'',
     c_list = listIssuesByTenant,
     c_validate = (\<lambda>parsed. if \<not> truthy (fld parsed ''id'') \<or> \<not> truthy (fld parsed ''projectId'') \<or> \<not> truthy (fld parsed ''title'') \<or> \<not> truthy (fld parsed ''description'')
       then Some ''Issue id, projectId, title, and description are required.'' else None),
     c_guard = no_project ''Issue creation requires an in-tenant project.'',
     c_build = (\<lambda>parsed tenantId. JObj
       [(''id'', fld parsed ''id''),
        (''tenantId'', JStr tenantId),
        (''projectId'', fld parsed ''projectId''),
        (''title'', fld parsed ''title''),
        (''description'', fld parsed ''description''),
        (''status'', coalesce (fld parsed ''status'') (JStr ''open'')),
        (''disciplines'', coalesce (fld parsed ''disciplines'') (JArr [JStr ''architecture''])),
        (''severity'', coalesce (fld parsed ''severity'') (JStr ''medium'')),
        (''priority'', coalesce (fld parsed ''priority'') (JStr ''medium''))]),
     c_create = repo_createIssue,
     c_action = ''api.issue.created'',
     c_resourceType = ''coordination_issue'',
     c_after = ''status''\<rparr>"

definition rfis_resource :: collection where
  "rfis_resource =
    \<lparr>c_segment = ''rfis'',
     c_list = listRfisByTenant,
     c_validate = (\<lambda>parsed. if \<not> truthy (fld parsed ''id'') \<or> \<not> truthy (fld parsed ''projectId'') \<or> \<not> truthy (fld parsed ''title'')
       then Some ''RFI id, projectId, and title are required.'' else None),
     c_guard = no_project ''RFI creation requires an in-tenant project.'',
     c_build = (\<lambda>parsed tenantId. JObj
       [(''id'', fld parsed ''id''),
        (''tenantId'', JStr tenantId),
        (''projectId'', fld parsed ''projectId''),
        (''title'', fld parsed ''title''),
        (''question'', coalesce (fld parsed ''question'') (JStr [])),
        (''status'', coalesce (fld parsed ''status'') (JStr ''draft'')),
        (''relatedIssueIds'', coalesce (fld parsed ''relatedIssueIds'') (JArr [])),
        (''relatedSheetIds'', coalesce (fld parsed ''relatedSheetIds'') (JArr []))]),
     c_create = repo_createRfi,
     c_action = ''api.rfi.created'',
     c_resourceType = ''rfi'',
     c_after = ''status''\<rparr>"

definition permits_resource :: collection where
  "permits_resource =
    \<lparr>c_segment = ''permits'',
     c_list = listPermitPackagesByTenant,
     c_validate = (\<lambda>parsed. if \<not> truthy (fld parsed ''id'') \<or> \<not> truthy (fld parsed ''projectId'') \<or> \<not> truthy (fld parsed ''jurisdictionProfile'')
       then Some ''Permit package id, projectId, and jurisdictionProfile are required.'' else None),
     c_guard = no_project ''Permit package creation requires an in-tenant project.'',
     c_build = (\<lambda>parsed tenantId. JObj
       [(''id'', fld parsed ''id''),
        (''tenantId'', JStr tenantId),
        (''projectId'', fld parsed ''projectId''),
        (''jurisdictionProfile'', fld parsed ''jurisdictionProfile''),
        (''status'', coalesce (fld parsed ''status'') (JStr ''package_preparation'')),
        (''submissionPackageRefs'', coalesce (fld parsed ''submissionPackageRefs'') (JArr [])),
        (''requiredFormsChecklist'', coalesce (fld parsed ''requiredFormsChecklist'') (JArr [])),
        (''reviewComments'', coalesce (fld parsed ''reviewComments'') (JArr [])),
        (''responseMatrix'', coalesce (fld parsed ''responseMatrix'') (JArr [])),
        (''permitReadinessFindings'', coalesce (fld parsed ''permitReadinessFindings'') (JArr []))]),
     c_create = repo_createPermitPackage,
     c_action = ''api.permit_package.created'',
     c_resourceType = ''permit_package'',
     c_after = ''status''\<rparr>"

definition review_sessions_resource :: collection where
  "review_sessions_resource =
    \<lparr>c_segment = ''review-sessions'',
     c_list = listReviewSessionsByTenant,
     c_validate = (\<lambda>parsed. if \<not> truthy (fld parsed ''id'') \<or> \<not> truthy (fld parsed ''projectId'') \<or> \<not> truthy (fld parsed ''createdBy'') \<or> \<not> is_array (fld parsed ''artifactRefs'')
       then Some ''Review session id, projectId, createdBy, and artifactRefs are required.'' else None),
     c_guard = no_project ''Review session creation requires an in-tenant project.'',
     c_build = (\<lambda>parsed tenantId. JObj
       [(''id'', fld parsed ''id''),
        (''tenantId'', JStr tenantId),
        (''projectId'', fld parsed ''projectId''),
        (''createdBy'', fld parsed ''createdBy''),
        (''artifactRefs'', fld parsed ''artifactRefs''),
        (''status'', coalesce (fld parsed ''status'') (JStr ''open'')),
        (''commentIds'', coalesce (fld parsed ''commentIds'') (JArr []))]),
     c_create = repo_createReviewSession,
     c_action = ''api.review_session.created'',
     c_resourceType = ''review_session'',
     c_after = ''status''\<rparr>"

definition ai_review_runs_resource :: collection where
  "ai_review_runs_resource =
    \<lparr>c_segment = ''ai-review-runs'',
     c_list = listAiReviewRunsByTenant,
     c_validate = (\<lambda>parsed. if \<not> truthy (fld parsed ''id'') \<or> \<not> truthy (fld parsed ''projectId'') \<or> \<not> truthy (fld parsed ''artifactType'') \<or> \<not> truthy (fld parsed ''artifactId'')
       then Some ''AI review run id, projectId, artifactType, and artifactId are required.'' else None),
     c_guard = no_project ''AI review run creation requires an in-tenant project.'',
     c_build = (\<lambda>parsed tenantId. JObj
       [(''id'', fld parsed ''id''),
        (''tenantId'', JStr tenantId),
        (''projectId'', fld parsed ''projectId''),
        (''artifactType'', fld parsed ''artifactType''),
        (''artifactId'', fld parsed ''artifactId''),
        (''status'', coalesce (fld parsed ''status'') (JStr ''queued'')),
        (''ruleVersion'', coalesce (fld parsed ''ruleVersion'') (JStr ''rules-v1'')),
        (''modelVersion'', coalesce (fld parsed ''modelVersion'') (JStr ''model-sim-v1'')),
        (''jurisdictionProfile'', coalesce (fld parsed ''jurisdictionProfile'') JNull)]),
     c_create = repo_createAiReviewRun,
     c_action = ''api.ai_review_run.created'',
     c_resourceType = ''ai_review_run'',
     c_after = ''status''\<rparr>"

definition ai_findings_resource :: collection where
  "ai_findings_resource =
    \<lparr>c_segment = ''ai-findings'',
     c_list = listAiFindingsByTenant,
     c_validate = (\<lambda>parsed. if \<not> truthy (fld parsed ''id'') \<or> \<not> truthy (fld parsed ''reviewRunId'') \<or> \<not> truthy (fld parsed ''category'') \<or> \<not> truthy (fld parsed ''title'') \<or> \<not> truthy (fld parsed ''description'')
       then Some ''AI finding id, reviewRunId, category, title, and description are required.'' else None),
     c_guard = no_review_run ''AI finding creation requires an in-tenant review run.'',
     c_build = (\<lambda>parsed tenantId. JObj
       [(''id'', fld parsed ''id''),
        (''reviewRunId'', fld parsed ''reviewRunId''),
        (''category'', fld parsed ''category''),
        (''title'', fld parsed ''title''),
        (''description'', fld parsed ''description''),
        (''severity'', coalesce (fld parsed ''severity'') (JStr ''medium'')),
        (''confidence'', coalesce (fld parsed ''confidence'') (JStr ''medium'')),
        (''evidenceType'', coalesce (fld parsed ''evidenceType'') (JStr ''hybrid'')),
        (''evidenceReferences'', coalesce (fld parsed ''evidenceReferences'') (JArr [])),
        (''referencedStandard'', coalesce (fld parsed ''referencedStandard'') JNull),
        (''jurisdictionProfile'', coalesce (fld parsed ''jurisdictionProfile'') JNull),
        (''assumptions'', coalesce (fld parsed ''assumptions'') (JArr [])),
        (''missingInformation'', coalesce (fld parsed ''missingInformation'') (JArr [])),
        (''suggestedNextAction'', coalesce (fld parsed ''suggestedNextAction'') (JStr ''Requires qualified review'')),
        (''assignedDiscipline'', coalesce (fld parsed ''assignedDiscipline'') JNull),
        (''humanDisposition'', coalesce (fld parsed ''humanDisposition'') (JStr ''pending''))]),
     c_create = repo_createAiFinding,
     c_action = ''api.ai_finding.created'',
     c_resourceType = ''ai_finding'',
     c_after = ''humanDisposition''\<rparr>"

definition platform_blueprints_resource :: collection where
  "platform_blueprints_resource =
    \<lparr>c_segment = ''platform-blueprints'',
     c_list = listPlatformBlueprintsByTenant,
     c_validate = (\<lambda>parsed. if \<not> truthy (fld parsed ''id'') \<or> \<not> truthy (fld parsed ''businessName'') \<or> \<not> truthy (fld parsed ''industry'')
       then Some ''Platform blueprint id, businessName, and industry are required.'' else None),
     c_guard = other_tenant ''Cross-tenant blueprint creation denied.'',
     c_build = (\<lambda>parsed tenantId. JObj
       [(''id'', fld parsed ''id''),
        (''tenantId'', JStr tenantId),
        (''businessName'', fld parsed ''businessName''),
        (''industry'', fld parsed ''industry''),
        (''serviceLine'', coalesce (fld parsed ''serviceLine'') JNull),
        (''roles'', coalesce (fld parsed ''roles'') (JArr [])),
        (''workflows'', coalesce (fld parsed ''workflows'') (JArr [])),
        (''painPoints'', coalesce (fld parsed ''painPoints'') (JArr [])),
        (''portalRequirements'', coalesce (fld parsed ''portalRequirements'') (JArr [])),
        (''dashboardRequirements'', coalesce (fld parsed ''dashboardRequirements'') (JArr [])),
        (''aiAgentRequirements'', coalesce (fld parsed ''aiAgentRequirements'') (JArr [])),
        (''documentReportingNeeds'', coalesce (fld parsed ''documentReportingNeeds'') (JArr [])),
        (''integrationNeeds'', coalesce (fld parsed ''integrationNeeds'') (JArr [])),
        (''selectedModules'', coalesce (fld parsed ''selectedModules'') (JArr []))]),
     c_create = repo_createPlatformBlueprint,
     c_action = ''api.platform_blueprint.created'',
     c_resourceType = ''platform_blueprint'',
     c_after = ''industry''\<rparr>"

definition field_reports_resource :: collection where
  "field_reports_resource =
    \<lparr>c_segment = ''field-reports'',
     c_list = listFieldReportsByTenant,
     c_validate = (\<lambda>parsed. if \<not> truthy (fld parsed ''id'') \<or> \<not> truthy (fld parsed ''projectId'') \<or> \<not> truthy (fld parsed ''siteName'') \<or> \<not> truthy (fld parsed ''reportType'') \<or> \<not> truthy (fld parsed ''author'')
       then Some ''Field report id, projectId, siteName, reportType, and author are required.'' else None),
     c_guard = (\<lambda>parsed tenantId r. case other_tenant ''Cross-tenant field report creation denied.'' parsed tenantId r of
       Some e \<Rightarrow> Some e | None \<Rightarrow> no_project ''Field report creation requires an in-tenant project.'' parsed tenantId r),
     c_build = (\<lambda>parsed tenantId. JObj
       [(''id'', fld parsed ''id''),
        (''tenantId'', JStr tenantId),
        (''projectId'', fld parsed ''projectId''),
        (''siteName'', fld parsed ''siteName''),
        (''reportType'', fld parsed ''reportType''),
        (''author'', fld parsed ''author''),
        (''capturedAt'', coalesce (fld parsed ''capturedAt'') JNull),
        (''observations'', coalesce (fld parsed ''observations'') (JArr []))]),
     c_create = repo_createFieldReport,
     c_action = ''api.field_report.created'',
     c_resourceType = ''field_report'',
     c_after = ''status''\<rparr>"

definition collectionResources :: "collection list" where
  "collectionResources = [projects_resource,
     issues_resource,
     rfis_resource,
     permits_resource,
     review_sessions_resource,
     ai_review_runs_resource,
     ai_findings_resource,
     platform_blueprints_resource,
     field_reports_resource]"

definition resource_for :: "string \<Rightarrow> collection option" where
  "resource_for segment = find (\<lambda>c. c_segment c = segment) collectionResources"

section \<open>Creating a record\<close>

definition creation_entry :: "collection \<Rightarrow> string \<Rightarrow> jsval \<Rightarrow> jsval \<Rightarrow> audit_entry" where
  "creation_entry c tenantId actorId created =
    \<lparr>an_tenantId = tenantId, an_actorId = actorId, an_action = c_action c, an_resourceType = c_resourceType c,
     an_resourceId = fld created ''id'', an_before = JNull, an_after = fld created (c_after c)\<rparr>"

definition creation_key :: "collection \<Rightarrow> string \<Rightarrow> jsval \<Rightarrow> jsval" where
  "creation_key c tenantId created = JStr (tenantId @ '':'' @ c_action c @ '':'' @ js_string (fld created ''id''))"

definition persist :: "api_env \<Rightarrow> collection \<Rightarrow> string \<Rightarrow> jsval \<Rightarrow> jsval \<Rightarrow> (api, jsval) act" where
  "persist env c tenantId actorId input =
    seq (on_repo (transition (c_create c input))) (\<lambda>created.
    seq (appendTenantAuditEvent (m_ctx (ae_mail env)) (ae_signingKey env) (creation_entry c tenantId actorId created)) (\<lambda>_.
    seq (from_res (tenant_event (later (m_ctx (ae_mail env))) tenantId (c_action c) (c_resourceType c) (fld created ''id''))) (\<lambda>event.
    seq (put_in_outbox env event (creation_key c tenantId created)) (\<lambda>_.
    give created))))"

definition handleCollectionCreate :: "api_env \<Rightarrow> collection \<Rightarrow> req_body \<Rightarrow> string \<Rightarrow> jsval \<Rightarrow> (api, response) act" where
  "handleCollectionCreate env c body tenantId actorId =
    seq (from_res (parseBody env body)) (\<lambda>parsed.
    case ensureObjectBody parsed of Some e \<Rightarrow> give (badRequest e) | None \<Rightarrow>
    (case c_validate c parsed of Some e \<Rightarrow> give (badRequest e) | None \<Rightarrow>
     seq (reading (\<lambda>s. c_guard c parsed tenantId (api_repo s))) (\<lambda>guardError.
     case guardError of Some e \<Rightarrow> give (forbidden e) | None \<Rightarrow>
      attempt
       (seq (persist env c tenantId actorId (c_build c parsed tenantId)) (\<lambda>created.
        give (item_response 201 [(''item'', created)])))
       (\<lambda>e. give (badRequest (err_message e))))))"

end
