(* ===== verification/ApiRoutes.thy ===== *)
theory ApiRoutes
  imports ApiCollections Integrations
begin

text \<open>
  The routes of the API (apps/api/src/handlers.js): files, collections, reports, findings, dashboards, the audit trail
  and the client portal, and the entry point that turns an exception into a response. A route is an
  operation on the state of a request; a thrown error keeps what was done before it.
\<close>

section \<open>Storage\<close>

definition storage_configuration :: "storage \<Rightarrow> storage_config" where
  "storage_configuration st = (case st of LocalStorage cfg n \<Rightarrow> cfg | ObjectStorage cfg presign send hex \<Rightarrow> cfg)"

definition is_local :: "storage \<Rightarrow> bool" where
  "is_local st = (case st of LocalStorage cfg n \<Rightarrow> True | ObjectStorage cfg presign send hex \<Rightarrow> False)"

definition storage_uploadTarget :: "storage \<Rightarrow> jsval \<Rightarrow> jsval" where
  "storage_uploadTarget st file = (case st of
     LocalStorage cfg n \<Rightarrow> proxy_target ''PUT'' | ObjectStorage cfg presign send hex \<Rightarrow> s3_createUploadTarget cfg presign file)"

definition storage_downloadTarget :: "storage \<Rightarrow> jsval \<Rightarrow> jsval" where
  "storage_downloadTarget st file = (case st of
     LocalStorage cfg n \<Rightarrow> proxy_target ''GET'' | ObjectStorage cfg presign send hex \<Rightarrow> s3_createDownloadTarget cfg presign file)"

definition storage_headObject :: "storage \<Rightarrow> jsval \<Rightarrow> (api, jsval) act" where
  "storage_headObject st file = (case st of
     LocalStorage cfg n \<Rightarrow> on_disk (\<lambda>d. (d, local_headObject (sc_rootDirectory cfg) file d))
   | ObjectStorage cfg presign send hex \<Rightarrow> from_res (s3_headObject cfg send hex file))"

definition storage_putObject :: "api_env \<Rightarrow> storage \<Rightarrow> jsval \<Rightarrow> string \<Rightarrow> jsval \<Rightarrow> (api, jsval) act" where
  "storage_putObject env st file body contentType = (case st of
     LocalStorage cfg n \<Rightarrow> on_disk (local_putObject (ae_mail env) n (sc_rootDirectory cfg) file body contentType)
   | ObjectStorage cfg presign send hex \<Rightarrow> from_res s3_direct_upload)"

definition storage_getObject :: "storage \<Rightarrow> jsval \<Rightarrow> (api, jsval) act" where
  "storage_getObject st file = (case st of
     LocalStorage cfg n \<Rightarrow> on_disk (\<lambda>d. (d, local_getObject (sc_rootDirectory cfg) file d))
   | ObjectStorage cfg presign send hex \<Rightarrow> from_res s3_direct_download)"

definition storage_deleteObject :: "storage \<Rightarrow> jsval \<Rightarrow> (api, unit) act" where
  "storage_deleteObject st file = (case st of
     LocalStorage cfg n \<Rightarrow> on_disk (transition (local_deleteObject (sc_rootDirectory cfg) file))
   | ObjectStorage cfg presign send hex \<Rightarrow> from_res (s3_deleteObject cfg send file))"

text \<open>The path under which the API itself serves the content of a file.\<close>

definition content_path :: "string \<Rightarrow> jsval \<Rightarrow> jsval" where
  "content_path tenantId fileId =
     JStr (''/v1/tenants/'' @ encodeURIComponent tenantId @ ''/files/'' @ encodeURIComponent (js_string fileId) @ ''/content'')"

definition with_proxy_url :: "string \<Rightarrow> jsval \<Rightarrow> jsval \<Rightarrow> jsval" where
  "with_proxy_url tenantId file target =
    (if strict_eq (fld target ''mode'') (JStr ''authenticated_proxy'')
     then set_fld ''url'' (content_path tenantId (fld file ''id'')) target else target)"

section \<open>Files\<close>

definition status_is :: "string \<Rightarrow> jsval \<Rightarrow> bool" where
  "status_is s v = strict_eq (fld v ''status'') (JStr s)"

definition client_viewer :: "jsval \<Rightarrow> bool" where
  "client_viewer who = strict_eq (fld who ''organizationRole'') (JStr ''client_viewer'')"

definition client_file :: "jsval \<Rightarrow> bool" where
  "client_file file = (status_is ''ready'' file \<and> is_true (fld file ''clientVisible''))"

definition file_missing :: response where
  "file_missing = notFound ''File not found.''"

definition canReadFile :: "jsval \<Rightarrow> string \<Rightarrow> jsval \<Rightarrow> response option" where
  "canReadFile who tenantId file =
    (if \<not> in_tenant file tenantId \<or> status_is ''deleted'' file then Some file_missing
     else case authorize who tenantId ''file_record'' ''read'' of
       Some denied \<Rightarrow> Some denied
     | None \<Rightarrow> if client_viewer who \<and> \<not> client_file file then Some file_missing else None)"

definition public_item :: "jsval \<Rightarrow> (string \<times> jsval) list \<Rightarrow> nat \<Rightarrow> (api, response) act" where
  "public_item file extra status =
    seq (from_res (publicFileMetadata file)) (\<lambda>safe. give (item_response status ((''item'', safe) # extra)))"

definition fileOutboxEvent :: "ctx \<Rightarrow> string \<Rightarrow> string \<Rightarrow> jsval \<Rightarrow> jsval res" where
  "fileOutboxEvent c tenantId action fileId = tenant_event c tenantId action ''file_record'' fileId"

definition file_key :: "string \<Rightarrow> string \<Rightarrow> jsval \<Rightarrow> jsval" where
  "file_key tenantId action fileId = JStr (tenantId @ '':'' @ action @ '':'' @ js_string fileId)"

definition enqueueFileOutbox :: "api_env \<Rightarrow> ctx \<Rightarrow> string \<Rightarrow> string \<Rightarrow> jsval \<Rightarrow> (api, unit) act" where
  "enqueueFileOutbox env c tenantId action fileId =
    seq (from_res (fileOutboxEvent c tenantId action fileId)) (\<lambda>event. put_in_outbox env event (file_key tenantId action fileId))"

text \<open>Storing a changed record with its evidence, and then its job.\<close>

definition finalize_file :: "api_env \<Rightarrow> string \<Rightarrow> jsval \<Rightarrow> string \<Rightarrow> jsval \<Rightarrow> jsval \<Rightarrow> jsval \<Rightarrow> (api, response) act" where
  "finalize_file env tenantId who action file old after =
    (let c = m_ctx (ae_mail env) in
     seq (reading api_repo) (\<lambda>r.
     seq (from_res (buildTenantAuditEvent c (ae_signingKey env)
        \<lparr>an_tenantId = tenantId, an_actorId = fld who ''userId'', an_action = action, an_resourceType = ''file_record'',
         an_resourceId = fld file ''id'', an_before = old, an_after = after\<rparr> r)) (\<lambda>event.
     seq (from_res (fileOutboxEvent (later c) tenantId action (fld file ''id''))) (\<lambda>outboxEvent.
     seq (on_repo (transition (finalizeFileRecord file event))) (\<lambda>_.
     seq (put_in_outbox env outboxEvent (file_key tenantId action (fld file ''id''))) (\<lambda>_.
     public_item file [] 200))))))"

definition completeFileUpload :: "api_env \<Rightarrow> string \<Rightarrow> jsval \<Rightarrow> jsval \<Rightarrow> (api, response) act" where
  "completeFileUpload env tenantId who file =
    seq (from_res (ae_storage env)) (\<lambda>st.
    seq (storage_headObject st file) (\<lambda>ob.
    if \<not> truthy ob then give (badRequest ''Uploaded object was not found.'')
    else if \<not> strict_eq (fld ob ''tenantId'') (fld file ''tenantId'') then give (forbidden ''Stored object tenant metadata does not match.'')
    else if \<not> strict_eq (fld ob ''contentType'') (fld file ''mimeType'') then give (badRequest ''Stored object MIME type does not match the upload intent.'')
    else if \<not> strict_eq (fld ob ''sizeBytes'') (fld file ''sizeBytes'') then give (badRequest ''Stored object size does not match the upload intent.'')
    else
      let completed = spread file [(''status'', JStr ''ready''), (''checksumSha256'', coalesce (fld ob ''checksumSha256'') JNull),
             (''updatedAt'', now_text (ae_mail env))];
          checksum = fld completed ''checksumSha256'' in
      finalize_file env tenantId who ''api.file.upload_completed'' completed (fld file ''status'')
        (if truthy checksum then JStr (''sha256:'' @ js_string checksum) else JStr ''ready'')))"

definition file_list :: "jsval \<Rightarrow> string \<Rightarrow> (api, response) act" where
  "file_list who tenantId = gated who tenantId ''file_record'' ''read''
    (seq (reading (\<lambda>s. filter (\<lambda>f. \<not> status_is ''deleted'' f) (listFileRecordsByTenant (api_repo s) (JStr tenantId)))) (\<lambda>files.
     seq (from_res (map_res publicFileMetadata (if client_viewer who then filter client_file files else files))) (\<lambda>safe.
     give (item_response 200 [(''items'', JArr safe)]))))"

definition publishing_roles :: "string list" where
  "publishing_roles = [''xygo_admin'', ''client_owner'', ''platform_admin'', ''company_admin'']"

definition upload_intent :: "api_env \<Rightarrow> jsval \<Rightarrow> string \<Rightarrow> jsval \<Rightarrow> (api, response) act" where
  "upload_intent env who tenantId parsed =
    attempt
     (seq (from_res (ae_storage env)) (\<lambda>st.
      seq (from_res (createPendingFileRecord (ae_mail env)
         (spread parsed [(''tenantId'', JStr tenantId), (''createdBy'', fld who ''userId'')]) (storage_configuration st))) (\<lambda>file.
      let upload = with_proxy_url tenantId file (storage_uploadTarget st file) in
      seq (on_repo (transition (repo_createFileRecord file))) (\<lambda>_.
      public_item file [(''upload'', upload)] 201))))
     (\<lambda>e. give (badRequest (err_message e)))"

text \<open>The report a file names: nothing, a report of the tenant and the project, or a refusal.\<close>

definition named_report :: "jsval \<Rightarrow> string \<Rightarrow> jsval \<Rightarrow> repo \<Rightarrow> jsval option" where
  "named_report parsed tenantId project r =
    (if \<not> truthy (fld parsed ''fieldReportId'') then Some JNull
     else let report = getFieldReportById r (fld parsed ''fieldReportId'') in
       if \<not> in_tenant report tenantId \<or> \<not> strict_eq (fld report ''projectId'') (fld project ''id'') then None else Some report)"

definition may_publish :: "jsval \<Rightarrow> jsval \<Rightarrow> bool" where
  "may_publish who report =
    (one_of publishing_roles (fld who ''organizationRole'') \<or> status_is ''approved'' report \<and> is_true (fld report ''clientVisible''))"

definition file_intent :: "api_env \<Rightarrow> request \<Rightarrow> jsval \<Rightarrow> string \<Rightarrow> (api, response) act" where
  "file_intent env rq who tenantId = gated who tenantId ''file_record'' ''create''
    (seq (from_res (parseBody env (rq_body rq))) (\<lambda>parsed.
     case ensureObjectBody parsed of Some e \<Rightarrow> give (badRequest e) | None \<Rightarrow>
     seq (reading (\<lambda>s. getProjectById (api_repo s) (fld parsed ''projectId''))) (\<lambda>project.
     if \<not> in_tenant project tenantId then give (forbidden ''File project must exist in-tenant.'')
     else seq (reading (\<lambda>s. named_report parsed tenantId project (api_repo s))) (\<lambda>found.
     case found of None \<Rightarrow> give (forbidden ''File report must exist in the same tenant and project.'') | Some report \<Rightarrow>
     if one_of [''report_photo'', ''report_attachment''] (fld parsed ''fileClass'') \<and> \<not> truthy report
     then give (badRequest ''Report files require fieldReportId.'')
     else if is_true (fld parsed ''clientVisible'') \<and> \<not> may_publish who report
     then give (forbidden ''Only an owner/admin or an approved report may publish a file to the client portal.'')
     else upload_intent env who tenantId parsed))))"

text \<open>\<open>try { m } catch { return r; } k\<close>.\<close>

definition or_answer :: "(api, unit) act \<Rightarrow> response \<Rightarrow> (api, response) act \<Rightarrow> (api, response) act" where
  "or_answer m r k =
    seq (attempt (seq m (\<lambda>_. give True)) (\<lambda>e. give False)) (\<lambda>ok. if ok then k else give r)"

definition file_complete :: "api_env \<Rightarrow> jsval \<Rightarrow> string \<Rightarrow> jsval \<Rightarrow> (api, response) act" where
  "file_complete env who tenantId file = gated who tenantId ''file_record'' ''update''
    (if \<not> in_tenant file tenantId then give file_missing
     else if status_is ''ready'' file
     then or_answer (enqueueFileOutbox env (m_ctx (ae_mail env)) tenantId ''api.file.upload_completed'' (fld file ''id''))
       (unavailable ''outbox_unavailable'' ''File is ready but its durable outbox event is still pending; retry completion.'')
       (public_item file [] 200)
     else if \<not> status_is ''pending_upload'' file then give (badRequest ''File is not awaiting upload completion.'')
     else attempt (completeFileUpload env tenantId who file)
       (\<lambda>e. give (unavailable ''file_storage_unavailable'' ''File storage could not verify the uploaded object.'')))"

definition header_type :: "jsval \<Rightarrow> string" where
  "header_type headers = js_trim (before_semicolon (js_lower (js_string
     (coalesce (fld headers ''content-type'') (coalesce (fld headers ''Content-Type'') (JStr []))))))"

definition file_upload :: "api_env \<Rightarrow> request \<Rightarrow> jsval \<Rightarrow> string \<Rightarrow> jsval \<Rightarrow> (api, response) act" where
  "file_upload env rq who tenantId file = gated who tenantId ''file_record'' ''update''
    (if \<not> in_tenant file tenantId then give file_missing
     else if \<not> status_is ''pending_upload'' file then give (badRequest ''File is not awaiting content.'')
     else seq (from_res (ae_storage env)) (\<lambda>st.
     if \<not> is_local st then give (badRequest ''Direct API uploads are disabled for object storage.'')
     else case rq_body rq of
       BinaryBody body \<Rightarrow>
         (if \<not> strict_eq (JNum (of_nat (length body))) (fld file ''sizeBytes'')
          then give (badRequest ''Uploaded content length does not match the declared file size.'')
          else let contentType = header_type (rq_headers rq) in
          if \<not> strict_eq (JStr contentType) (fld file ''mimeType'')
          then give (badRequest ''Uploaded content type does not match the declared MIME type.'')
          else attempt
            (seq (storage_putObject env st file body (JStr contentType)) (\<lambda>_. completeFileUpload env tenantId who file))
            (\<lambda>e. give (unavailable ''file_storage_unavailable'' ''File storage could not persist or verify the uploaded object.'')))
     | _ \<Rightarrow> give (badRequest ''File content must be sent as a binary request body.'')))"

definition file_download :: "api_env \<Rightarrow> jsval \<Rightarrow> string \<Rightarrow> jsval \<Rightarrow> (api, response) act" where
  "file_download env who tenantId file =
    (case canReadFile who tenantId file of Some denied \<Rightarrow> give denied | None \<Rightarrow>
     if \<not> status_is ''ready'' file then give (notFound ''File is not available.'')
     else seq (from_res (ae_storage env)) (\<lambda>st.
       public_item file [(''download'', with_proxy_url tenantId file (storage_downloadTarget st file))] 200))"

definition content_headers :: "jsval \<Rightarrow> nat \<Rightarrow> (string \<times> string) list" where
  "content_headers file n =
    [(''content-type'', js_string (fld file ''mimeType'')),
     (''content-length'', nat_string n),
     (''content-disposition'', ''attachment; filename*=UTF-8'' @ [CHR 0x27, CHR 0x27] @ encodeURIComponent (js_string (fld file ''originalFilename''))),
     (''cache-control'', ''private, no-store'')]"

definition file_content :: "api_env \<Rightarrow> jsval \<Rightarrow> string \<Rightarrow> jsval \<Rightarrow> (api, response) act" where
  "file_content env who tenantId file =
    (case canReadFile who tenantId file of Some denied \<Rightarrow> give denied | None \<Rightarrow>
     if \<not> status_is ''ready'' file then give (notFound ''File is not available.'')
     else seq (from_res (ae_storage env)) (\<lambda>st.
       if \<not> is_local st then give (notFound ''Direct file content is not served for object storage.'')
       else seq (storage_getObject st file) (\<lambda>ob.
         if \<not> in_tenant ob tenantId then give (notFound ''File content not found.'')
         else let body = js_string (fld ob ''body'') in give (binary 200 body (content_headers file (length body))))))"

text \<open>Removing the object under the status \<open>deleting\<close>; on an error the record is put back.\<close>

definition remove_object :: "api_env \<Rightarrow> jsval \<Rightarrow> jsval \<Rightarrow> (api, bool) act" where
  "remove_object env file deleting =
    attempt
     (seq (if status_is ''deleting'' file then give file else on_repo (transition (saveFileRecord deleting))) (\<lambda>_.
      seq (from_res (ae_storage env)) (\<lambda>st.
      seq (storage_deleteObject st deleting) (\<lambda>_. give True))))
     (\<lambda>e. seq (if status_is ''deleting'' file then give file else on_repo (transition (saveFileRecord file))) (\<lambda>_. give False))"

definition file_delete :: "api_env \<Rightarrow> jsval \<Rightarrow> string \<Rightarrow> jsval \<Rightarrow> (api, response) act" where
  "file_delete env who tenantId file = gated who tenantId ''file_record'' ''delete''
    (if \<not> in_tenant file tenantId then give file_missing
     else if status_is ''deleted'' file
     then or_answer (enqueueFileOutbox env (m_ctx (ae_mail env)) tenantId ''api.file.deleted'' (fld file ''id''))
       (unavailable ''outbox_unavailable'' ''File is deleted but its durable outbox event is still pending; retry deletion.'')
       (public_item file [] 200)
     else let deleting = spread file [(''status'', JStr ''deleting''), (''updatedAt'', now_text (ae_mail env))] in
     seq (remove_object env file deleting) (\<lambda>removed.
     if \<not> removed then give (unavailable ''file_storage_unavailable'' ''File storage could not delete the object.'')
     else let deleted = spread deleting [(''status'', JStr ''deleted''), (''deletedAt'', now_text (ae_mail env)), (''updatedAt'', now_text (ae_mail env))] in
       attempt (finalize_file env tenantId who ''api.file.deleted'' deleted (fld file ''status'') (JStr ''deleted''))
         (\<lambda>e. give (unavailable ''file_delete_finalization_pending''
            ''Object deletion succeeded; retry DELETE to finalize metadata and audit evidence.''))))"

definition on_file :: "string \<Rightarrow> (jsval \<Rightarrow> (api, response) act) \<Rightarrow> (api, response) act" where
  "on_file fileId k = seq (reading (\<lambda>s. getFileRecordById (api_repo s) (JStr fileId))) k"

definition no_route :: response where
  "no_route = notFound ''Not found.''"

definition route_files :: "api_env \<Rightarrow> request \<Rightarrow> jsval \<Rightarrow> string \<Rightarrow> string list \<Rightarrow> (api, response) act" where
  "route_files env rq who tenantId segments =
    (case segments of
       [] \<Rightarrow> if rq_method rq = ''GET'' then file_list who tenantId else give no_route
     | [a] \<Rightarrow>
         if rq_method rq = ''POST'' \<and> a = ''upload-intents'' then file_intent env rq who tenantId
         else if rq_method rq = ''DELETE'' then on_file a (file_delete env who tenantId)
         else give no_route
     | [a, b] \<Rightarrow>
         if rq_method rq = ''POST'' \<and> b = ''complete'' then on_file a (file_complete env who tenantId)
         else if rq_method rq = ''PUT'' \<and> b = ''content'' then on_file a (file_upload env rq who tenantId)
         else if rq_method rq = ''GET'' \<and> b = ''download'' then on_file a (file_download env who tenantId)
         else if rq_method rq = ''GET'' \<and> b = ''content'' then on_file a (file_content env who tenantId)
         else give no_route
     | _ \<Rightarrow> give no_route)"

end
