(* ===== verification/ApiHandlers.thy ===== *)
theory ApiHandlers
  imports ApiRoutes
begin

text \<open>
  The remaining routes of the API (apps/api/src/handlers.js) and its entry point: collections, field reports with their
  notifications, findings, dashboards, the audit trail, transfers and the client portal.
\<close>

section \<open>Field reports\<close>

text \<open>A change of a record on a route: the audit entry of the signed-in user.\<close>

definition route_entry :: "string \<Rightarrow> jsval \<Rightarrow> string \<Rightarrow> string \<Rightarrow> jsval \<Rightarrow> jsval \<Rightarrow> jsval \<Rightarrow> audit_entry" where
  "route_entry tenantId who action resourceType resourceId old after =
    \<lparr>an_tenantId = tenantId, an_actorId = fld who ''userId'', an_action = action, an_resourceType = resourceType,
     an_resourceId = resourceId, an_before = old, an_after = after\<rparr>"

definition on_report :: "string \<Rightarrow> string \<Rightarrow> (jsval \<Rightarrow> (api, response) act) \<Rightarrow> (api, response) act" where
  "on_report reportId tenantId k =
    seq (reading (\<lambda>s. getFieldReportById (api_repo s) (JStr reportId))) (\<lambda>report.
    if \<not> in_tenant report tenantId then give (notFound ''Field report not found.'') else k report)"

definition persist_report ::
    "api_env \<Rightarrow> string \<Rightarrow> jsval \<Rightarrow> string \<Rightarrow> jsval \<Rightarrow> jsval res \<Rightarrow> bool \<Rightarrow> (api, jsval) act" where
  "persist_report env tenantId who action report changed scoped =
    seq (from_res changed) (\<lambda>new.
    seq (on_repo (transition (saveFieldReport new))) (\<lambda>saved.
    seq (appendTenantAuditEvent (m_ctx (ae_mail env)) (ae_signingKey env)
       (route_entry tenantId who action ''field_report'' (fld saved ''id'') (fld report ''status'') (fld saved ''status''))) (\<lambda>_.
    seq (enqueueTenantOutbox env (later (m_ctx (ae_mail env))) tenantId action ''field_report'' (fld saved ''id'')
       (if scoped then fld saved ''status'' else JNull)) (\<lambda>_.
    give saved))))"

definition report_draft_route :: "api_env \<Rightarrow> jsval \<Rightarrow> string \<Rightarrow> string \<Rightarrow> (api, response) act" where
  "report_draft_route env who tenantId reportId = gated who tenantId ''field_report'' ''update''
    (on_report reportId tenantId (\<lambda>report.
     attempt
      (seq (persist_report env tenantId who ''api.field_report.draft_generated'' report (generateReportDraft report) False) (\<lambda>drafted.
       give (item_response 200 [(''item'', drafted)])))
      (\<lambda>e. give (badRequest (err_message e)))))"

text \<open>The active client users of the tenant, by the last role assigned to each.\<close>

definition role_of :: "jsval list \<Rightarrow> jsval \<Rightarrow> jsval" where
  "role_of assignments userId =
    (case find (\<lambda>a. same_value_zero (fld a ''userId'') userId) (rev assignments) of Some a \<Rightarrow> fld a ''role'' | None \<Rightarrow> JUndef)"

definition report_recipients :: "jsval list \<Rightarrow> jsval list \<Rightarrow> jsval list" where
  "report_recipients users assignments =
    filter (\<lambda>user. status_is ''active'' user \<and> one_of [''client_owner'', ''client_viewer''] (role_of assignments (fld user ''id''))) users"

definition report_link :: "api_env \<Rightarrow> jsval \<Rightarrow> string" where
  "report_link env report =
    drop_last_slash (ae_webAppUrl env) @ ''/client-portal.html?projectId='' @ encodeURIComponent (js_string (fld report ''projectId''))"

definition report_delivery :: "api_env \<Rightarrow> string \<Rightarrow> jsval \<Rightarrow> jsval \<Rightarrow> jsval res" where
  "report_delivery env tenantId report user =
    (let reportId = js_string (fld report ''id''); userId = js_string (fld user ''id'') in
     createEmailDelivery (ae_mail env) (JObj
      [(''tenantId'', JStr tenantId),
       (''recipientUserId'', fld user ''id''),
       (''recipientEmail'', fld user ''email''),
       (''kind'', JStr ''report_ready''),
       (''resourceType'', JStr ''field_report''),
       (''resourceId'', fld report ''id''),
       (''idempotencyKey'', JStr (tenantId @ '':email:report_ready:'' @ reportId @ '':'' @ userId)),
       (''templateData'', JObj
         [(''recipientName'', coalesce (fld user ''displayName'') (fld user ''email'')),
          (''reportTitle'', coalesce (fld (fld report ''draft'') ''title'') (JStr (js_string (fld report ''siteName'') @ '' field report''))),
          (''actionUrl'', JStr (report_link env report))])])
      (JStr (reportId @ ''-'' @ userId @ ''-report-ready'')))"

definition notify_user :: "api_env \<Rightarrow> string \<Rightarrow> jsval \<Rightarrow> jsval \<Rightarrow> nat \<times> jsval \<Rightarrow> (api, unit) act" where
  "notify_user env tenantId who report = (\<lambda>(n, user).
    let c = (later ^^ (2 + 2 * n)) (m_ctx (ae_mail env)); mail = (ae_mail env)\<lparr>m_ctx := later c\<rparr> in
    seq (from_res (report_delivery env tenantId report user)) (\<lambda>delivery.
    seq (on_repo (transition (\<lambda>r. and_then (repo_createEmailDelivery delivery r) (\<lambda>(r', created, stored). Inr (r', created))))) (\<lambda>created.
    if \<not> created then give ()
    else seq (appendTenantAuditEvent c (ae_signingKey env)
        (route_entry tenantId who ''email.delivery.queued'' ''email_delivery'' (fld delivery ''id'') JNull (fld delivery ''status''))) (\<lambda>_.
      seq (from_res (createEmailDeliveryOutboxEvent mail delivery)) (\<lambda>event.
      put_in_outbox env event (fld delivery ''idempotencyKey''))))))"

definition notify_clients :: "api_env \<Rightarrow> string \<Rightarrow> jsval \<Rightarrow> jsval \<Rightarrow> (api, unit) act" where
  "notify_clients env tenantId who report =
    (case ae_directory env of
       None \<Rightarrow> give ()
     | Some (users, assignments) \<Rightarrow>
         if status_is ''approved'' report
         then for_each (notify_user env tenantId who report) (List.enumerate 0 (report_recipients users assignments))
         else give ())"

text \<open>A body that must be an object with a field.\<close>

definition with_body :: "api_env \<Rightarrow> request \<Rightarrow> string \<Rightarrow> (jsval \<Rightarrow> (api, response) act) \<Rightarrow> (api, response) act" where
  "with_body env rq needed k =
    seq (from_res (parseBody env (rq_body rq))) (\<lambda>parsed.
    case ensureObjectBody parsed of Some e \<Rightarrow> give (badRequest e) | None \<Rightarrow>
    if \<not> truthy (fld parsed needed) then give (badRequest (needed @ '' is required.'')) else k parsed)"

definition report_review_route :: "api_env \<Rightarrow> request \<Rightarrow> jsval \<Rightarrow> string \<Rightarrow> string \<Rightarrow> (api, response) act" where
  "report_review_route env rq who tenantId reportId = gated who tenantId ''field_report'' ''update''
    (on_report reportId tenantId (\<lambda>report.
     with_body env rq ''nextStatus'' (\<lambda>parsed.
     attempt
      (seq (persist_report env tenantId who ''api.field_report.reviewed'' report
          (setReviewStatus report (fld parsed ''nextStatus'') (coalesce (fld parsed ''reviewedBy'') (fld who ''userId''))
             (coalesce (fld parsed ''reviewNote'') JNull)) True) (\<lambda>reviewed.
       seq (notify_clients env tenantId who reviewed) (\<lambda>_.
       give (item_response 200 [(''item'', reviewed)]))))
      (\<lambda>e. give (badRequest (err_message e))))))"

section \<open>Findings\<close>

definition finding_update :: "api_env \<Rightarrow> jsval \<Rightarrow> string \<Rightarrow> string \<Rightarrow> jsval \<Rightarrow> jsval \<Rightarrow> (api, response) act" where
  "finding_update env who tenantId findingId finding parsed =
    attempt
     (seq (on_repo (transition (setAiFindingDisposition (JStr findingId) (fld parsed ''nextDisposition'')
          (coalesce (fld parsed ''relatedIssueId'') JNull)))) (\<lambda>updated.
      seq (appendTenantAuditEvent (m_ctx (ae_mail env)) (ae_signingKey env)
         (route_entry tenantId who ''api.ai_finding.disposition_updated'' ''ai_finding'' (fld updated ''id'')
            (fld finding ''humanDisposition'') (fld updated ''humanDisposition''))) (\<lambda>_.
      give (item_response 200 [(''item'', updated)]))))
     (\<lambda>e. give (badRequest (err_message e)))"

definition finding_route :: "api_env \<Rightarrow> request \<Rightarrow> jsval \<Rightarrow> string \<Rightarrow> string \<Rightarrow> (api, response) act" where
  "finding_route env rq who tenantId findingId = gated who tenantId ''ai_finding'' ''update''
    (seq (reading (\<lambda>s. getAiFindingById (api_repo s) (JStr findingId))) (\<lambda>finding.
     if \<not> truthy finding then give (notFound ''AI finding not found.'')
     else seq (reading (\<lambda>s. getAiReviewRunById (api_repo s) (fld finding ''reviewRunId''))) (\<lambda>reviewRun.
     if \<not> in_tenant reviewRun tenantId then give (forbidden ''AI finding disposition requires in-tenant access.'')
     else with_body env rq ''nextDisposition'' (\<lambda>parsed.
     seq (reading (\<lambda>s. listIssuesByTenant (api_repo s) (JStr tenantId))) (\<lambda>tenantIssues.
     if truthy (fld parsed ''relatedIssueId'') \<and> \<not> (\<exists>issue \<in> set tenantIssues. strict_eq (fld issue ''id'') (fld parsed ''relatedIssueId''))
     then give (forbidden ''Related issue must exist in-tenant.'')
     else finding_update env who tenantId findingId finding parsed)))))"

section \<open>Reading routes\<close>

definition item_by_id :: "(repo \<Rightarrow> jsval \<Rightarrow> jsval) \<Rightarrow> string \<Rightarrow> string \<Rightarrow> string \<Rightarrow> (api, response) act" where
  "item_by_id getter missing tenantId ident =
    seq (reading (\<lambda>s. getter (api_repo s) (JStr ident))) (\<lambda>item.
    if \<not> in_tenant item tenantId then give (notFound missing) else give (item_response 200 [(''item'', item)]))"

definition executive_route :: "jsval \<Rightarrow> string \<Rightarrow> (api, response) act" where
  "executive_route who tenantId = gated who tenantId ''executive_dashboard'' ''read''
    (seq (reading api_repo) (\<lambda>r.
     seq (from_res (buildExecutivePortfolioView (JObj
       [(''tenantId'', JStr tenantId),
        (''projects'', JArr (listProjectsByTenant r (JStr tenantId))),
        (''issues'', JArr (listIssuesByTenant r (JStr tenantId))),
        (''financeEvents'', JArr (of_tenant (JStr tenantId) syntheticGovernanceEvents)),
        (''permitPackages'', JArr (listPermitPackagesByTenant r (JStr tenantId)))]))) (\<lambda>view.
     give (item_response 200 [(''item'', view)]))))"

definition workspace_route :: "jsval \<Rightarrow> string \<Rightarrow> (api, response) act" where
  "workspace_route who tenantId = gated who tenantId ''project'' ''read''
    (seq (reading api_repo) (\<lambda>r.
     seq (from_res (createBlueprintWorkspacePayload
       \<lparr>ws_tenantId = tenantId,
        ws_projects = listProjectsByTenant r (JStr tenantId),
        ws_reviewSessions = listReviewSessionsByTenant r (JStr tenantId),
        ws_aiReviewRuns = listAiReviewRunsByTenant r (JStr tenantId),
        ws_aiFindings = listAiFindingsByTenant r (JStr tenantId),
        ws_issues = listIssuesByTenant r (JStr tenantId),
        ws_permits = listPermitPackagesByTenant r (JStr tenantId)\<rparr>)) (\<lambda>payload.
     give (item_response 200 [(''item'', payload)]))))"

definition audit_report_route :: "api_env \<Rightarrow> jsval \<Rightarrow> string \<Rightarrow> (api, response) act" where
  "audit_report_route env who tenantId = gated who tenantId ''audit_event'' ''read''
    (seq (reading (\<lambda>s. listAuditEventsByTenant (api_repo s) (JStr tenantId))) (\<lambda>events.
     seq (from_res (buildAuditVerificationReport (m_ctx (ae_mail env)) (ae_signingKey env) events)) (\<lambda>report.
     give (item_response 200 [(''item'', report)]))))"

definition transfers_route :: "jsval \<Rightarrow> string \<Rightarrow> (api, response) act" where
  "transfers_route who tenantId = gated who tenantId ''transfer'' ''read''
    (seq (from_res (buildTransferQueue (JObj [(''transferPackages'', JArr (of_tenant (JStr tenantId) syntheticTransferPackages))]))) (\<lambda>queue.
     give (item_response 200 [(''item'', queue)])))"

definition project_portal :: "api_env \<Rightarrow> string \<Rightarrow> jsval list \<Rightarrow> jsval list \<Rightarrow> jsval \<Rightarrow> jsval \<Rightarrow> jsval res" where
  "project_portal env tenantId reports files portalData project =
    (let ofProject = (\<lambda>v. strict_eq (fld v ''projectId'') (fld project ''id'')) in
     and_then (map_res toClientView (filter ofProject reports)) (\<lambda>views.
     and_then (if ofProject portalData then elements (coalesce (fld portalData ''updates'') (JArr [])) else Inr []) (\<lambda>stored.
     buildClientPortalView (ae_collate env) project (JArr (filter truthy views))
       (JArr (filter (\<lambda>f. strict_eq (fld f ''tenantId'') (JStr tenantId) \<and> ofProject f \<and> client_file f) files))
       (JArr (filter ofProject (of_tenant (JStr tenantId) syntheticPortalUpdates) @ stored)))))"

definition own_settings :: "string \<Rightarrow> jsval \<Rightarrow> jsval" where
  "own_settings tenantId v = (if strict_eq (fld v ''tenantId'') (JStr tenantId) then v else JNull)"

definition portal_route :: "api_env \<Rightarrow> jsval \<Rightarrow> string \<Rightarrow> (api, response) act" where
  "portal_route env who tenantId = gated who tenantId ''client_portal'' ''read''
    (seq (reading api_repo) (\<lambda>r.
     let portalData = own_settings tenantId (ae_portalData env tenantId) in
     seq (from_res (map_res (project_portal env tenantId (listFieldReportsByTenant r (JStr tenantId))
         (listFileRecordsByTenant r (JStr tenantId)) portalData) (listProjectsByTenant r (JStr tenantId)))) (\<lambda>portals.
     give (item_response 200
       [(''items'', JArr portals),
        (''configuration'', own_settings tenantId (ae_portalConfiguration env tenantId)),
        (''welcomeMessage'', coalesce (fld portalData ''welcomeMessage'') JNull)]))))"

section \<open>Routing\<close>

definition collection_route ::
    "api_env \<Rightarrow> request \<Rightarrow> jsval \<Rightarrow> string \<Rightarrow> string \<Rightarrow> query \<Rightarrow> collection \<Rightarrow> (api, response) act" where
  "collection_route env rq who tenantId pathname query c =
    gated who tenantId (c_resourceType c) (if rq_method rq = ''POST'' then ''create'' else ''read'')
     (if rq_method rq = ''POST''
      then withIdempotency (m_now (ae_mail env))
        (coalesce (fld (rq_headers rq) ''idempotency-key'') (fld (rq_headers rq) ''Idempotency-Key'')) tenantId pathname
        (handleCollectionCreate env c (rq_body rq) tenantId (fld who ''userId''))
      else seq (reading (\<lambda>s. c_list c (api_repo s) (JStr tenantId))) (\<lambda>found. give (page_response found query)))"

definition route_one ::
    "api_env \<Rightarrow> request \<Rightarrow> jsval \<Rightarrow> string \<Rightarrow> string \<Rightarrow> query \<Rightarrow> string \<Rightarrow> (api, response) act" where
  "route_one env rq who tenantId pathname query segment =
    (if rq_method rq = ''GET'' \<and> segment = ''email-deliveries''
     then gated who tenantId ''email_delivery'' ''read''
       (seq (reading (\<lambda>s. listEmailDeliveriesByTenant (api_repo s) (JStr tenantId))) (\<lambda>found. give (page_response found query)))
     else case (if rq_method rq \<in> {''GET'', ''POST''} then resource_for segment else None) of
       Some c \<Rightarrow> collection_route env rq who tenantId pathname query c
     | None \<Rightarrow>
         if rq_method rq \<noteq> ''GET'' then give no_route
         else if segment = ''blueprint-workspace'' then workspace_route who tenantId
         else if segment = ''audit-events''
         then gated who tenantId ''audit_event'' ''read''
           (seq (reading (\<lambda>s. listAuditEventsByTenant (api_repo s) (JStr tenantId))) (\<lambda>found. give (page_response found query)))
         else if segment = ''transfers'' then transfers_route who tenantId
         else if segment = ''client-portal'' then portal_route env who tenantId
         else give no_route)"

definition route_two :: "api_env \<Rightarrow> request \<Rightarrow> jsval \<Rightarrow> string \<Rightarrow> string \<Rightarrow> string \<Rightarrow> (api, response) act" where
  "route_two env rq who tenantId a b =
    (if rq_method rq \<noteq> ''GET'' then give no_route
     else if a = ''platform-blueprints''
     then gated who tenantId ''platform_blueprint'' ''read'' (item_by_id getPlatformBlueprintById ''Platform blueprint not found.'' tenantId b)
     else if a = ''field-reports''
     then gated who tenantId ''field_report'' ''read'' (item_by_id getFieldReportById ''Field report not found.'' tenantId b)
     else if a = ''dashboard'' \<and> b = ''executive'' then executive_route who tenantId
     else if a = ''audit-events'' \<and> b = ''verify'' then audit_report_route env who tenantId
     else give no_route)"

definition route_three :: "api_env \<Rightarrow> request \<Rightarrow> jsval \<Rightarrow> string \<Rightarrow> string \<Rightarrow> string \<Rightarrow> string \<Rightarrow> (api, response) act" where
  "route_three env rq who tenantId a b d =
    (if rq_method rq \<noteq> ''POST'' then give no_route
     else if a = ''field-reports'' \<and> d = ''draft'' then report_draft_route env who tenantId b
     else if a = ''field-reports'' \<and> d = ''review'' then report_review_route env rq who tenantId b
     else if a = ''ai-findings'' \<and> d = ''disposition'' then finding_route env rq who tenantId b
     else give no_route)"

definition route_tenant ::
    "api_env \<Rightarrow> request \<Rightarrow> jsval \<Rightarrow> string \<Rightarrow> string \<Rightarrow> query \<Rightarrow> string list \<Rightarrow> (api, response) act" where
  "route_tenant env rq who tenantId pathname query segments =
    (case segments of
       [] \<Rightarrow> give no_route
     | a # rest \<Rightarrow>
         if a = ''files'' then route_files env rq who tenantId rest
         else (case rest of
            [] \<Rightarrow> route_one env rq who tenantId pathname query a
          | [b] \<Rightarrow> route_two env rq who tenantId a b
          | [b, d] \<Rightarrow> route_three env rq who tenantId a b d
          | _ \<Rightarrow> give no_route))"

definition allowed_methods :: "string list" where
  "allowed_methods = [''GET'', ''POST'', ''PUT'', ''DELETE'']"

definition request_principal :: "request \<Rightarrow> jsval" where
  "request_principal rq = coalesce (rq_principal rq) (if rq_oidc rq then JNull else resolveStagedPrincipal (rq_headers rq) None)"

definition tenant_path :: "string \<Rightarrow> (string \<times> string list) option" where
  "tenant_path pathname =
    (case splitPath pathname of
       a # b # tenantId # segments \<Rightarrow> if a = ''v1'' \<and> b = ''tenants'' then Some (tenantId, segments) else None
     | _ \<Rightarrow> None)"

definition routeApiRequest :: "api_env \<Rightarrow> request \<Rightarrow> (api, response) act" where
  "routeApiRequest env rq =
    (if rq_method rq \<notin> set allowed_methods then give (refusal 405 ''method_not_allowed'' ''HTTP method is not enabled.'')
     else case ae_url env (rq_path rq) of
       None \<Rightarrow> from_res (Inl type_error)
     | Some (pathname, query) \<Rightarrow>
         if pathname = ''/health'' then give (item_response 200 [(''status'', JStr ''ok'')])
         else case tenant_path pathname of
           None \<Rightarrow> give no_route
         | Some (tenantId, segments) \<Rightarrow>
             (let who = request_principal rq in
              if \<not> truthy who then give (refusal 401 ''unauthorized'' ''Authentication required.'')
              else route_tenant env rq who tenantId pathname query segments))"

definition handleApiRequest :: "api_env \<Rightarrow> request \<Rightarrow> (api, response) act" where
  "handleApiRequest env rq =
    attempt (routeApiRequest env rq)
     (\<lambda>e. give (if err_code e = Some ''SyntaxError'' then badRequest ''Malformed JSON request body.''
                else refusal 500 ''internal_error'' ''Staged runtime failed to process the request.''))"

end
