(* ===== verification/ApiSound.thy ===== *)
theory ApiSound
  imports ApiHandlers
begin

text \<open>
  What a request leaves behind. Every operation of the API stays inside one relation: from a sound state it
  leads to a sound state, and it changes nothing that another tenant can read. A state is sound when the
  stored reports, findings and files are plain data under their own identifiers and every tenant's audit
  chain verifies. The relation is an instance of the locale \<open>change\<close>.
\<close>

section \<open>Plain data\<close>

definition plain :: "jsval \<Rightarrow> bool" where
  "plain v = (json_clone v = v)"

lemma plain_clone [simp]: "plain (json_clone v)"
  by (simp add: plain_def json_clone_idem)

lemma plain_simps [simp]: "plain (JStr s)" "plain JNull" "plain (JBool b)" "plain (JNum n)" "plain JUndef"
  by (simp_all add: plain_def)

lemma clone_fields_shorter: "length (json_clone_fields fs) \<le> length fs"
proof (induction fs)
  case (Cons p fs)
  then show ?case by (cases p) auto
qed simp

lemma clone_fields_fixed:
  "json_clone_fields fs = fs \<longleftrightarrow> list_all (\<lambda>(k, v). \<not> json_absent v \<and> plain v) fs"
proof (induction fs)
  case (Cons p fs)
  then show ?case
    using clone_fields_shorter [of fs] by (cases p) (auto simp: plain_def dest: arg_cong [of _ _ length])
qed simp

lemma plain_obj: "plain (JObj fs) \<longleftrightarrow> list_all (\<lambda>(k, v). \<not> json_absent v \<and> plain v) fs"
  using clone_fields_fixed [of fs] by (simp add: plain_def)

lemma plain_fld:
  assumes "plain v"
  shows "plain (fld v k) \<and> (fld v k = JUndef \<or> \<not> json_absent (fld v k))"
proof (cases v)
  case (JObj fs)
  then show ?thesis
    using assms by (auto simp: plain_obj fld.simps(1) list_all_iff split: option.splits dest!: map_of_SomeD)
qed auto

lemma plain_set_fld: "plain v \<Longrightarrow> plain w \<Longrightarrow> \<not> json_absent w \<Longrightarrow> plain (set_fld k w v)"
proof (cases v)
  case (JObj fs)
  assume "plain v" "plain w" "\<not> json_absent w"
  moreover have "set (AList.update k w fs) \<subseteq> insert (k, w) (set fs)"
    by (induction fs) auto
  ultimately show ?thesis using JObj by (auto simp: plain_obj list_all_iff)
qed auto

lemma plain_spread:
  assumes "is_obj v" "plain v" "list_all (\<lambda>(k, w). plain w \<and> \<not> json_absent w) us"
  shows "plain (spread v us)"
proof -
  obtain fs where v: "v = JObj fs" using assms(1) by (cases v) (auto simp: is_obj_def)
  have "plain acc \<Longrightarrow> plain (fold (\<lambda>(k, w) acc. set_fld k w acc) us acc)" for acc
    using assms(3) by (induction us arbitrary: acc) (auto intro: plain_set_fld)
  with assms(2) v show ?thesis by (simp add: spread_def)
qed

lemma fld_clone: "\<not> json_absent (fld v k) \<Longrightarrow> fld (json_clone v) k = json_clone (fld v k)"
proof (cases v)
  case (JObj fs)
  assume "\<not> json_absent (fld v k)"
  then have "\<not> json_absent (fld (JObj fs) k)" by (simp add: JObj)
  then have "fld (JObj (json_clone_fields fs)) k = json_clone (fld (JObj fs) k)"
    by (induction fs) auto
  then show ?thesis by (simp add: JObj)
next
  case (JArr xs)
  moreover have "length (json_clone_elems xs) = length xs" by (induction xs) auto
  ultimately show ?thesis by simp
qed auto

lemma fld_clone_str [simp]: "fld v k = JStr s \<Longrightarrow> fld (json_clone v) k = JStr s"
  using fld_clone [of v k] by simp

section \<open>Stores\<close>

lemma values_of_set:
  assumes "store_get s k = None"
  shows "values_of (store_set k v s) = values_of s @ [v]"
proof (cases "is_array k \<or> is_obj k")
  case False
  with assms have "map_of s k = None" by (simp add: store_get_def)
  then have "AList.update k v s = s @ [(k, v)]" by (induction s) (auto split: if_splits)
  with False show ?thesis by (simp add: store_set_def values_of_def)
qed (simp add: store_set_def values_of_def)

text \<open>Replacing a record that a filter rejects by another such record does not change what the filter keeps.\<close>

lemma filter_values_set:
  assumes "\<not> P v" and "\<And>old. store_get s k = Some old \<Longrightarrow> \<not> P old"
  shows "filter P (values_of (store_set k v s)) = filter P (values_of s)"
proof (cases "is_array k \<or> is_obj k")
  case False
  then have "\<And>old. map_of s k = Some old \<Longrightarrow> \<not> P old" using assms(2) by (simp add: store_get_def)
  then have "filter P (map snd (AList.update k v s)) = filter P (map snd s)"
    using assms(1) by (induction s) (auto split: if_splits)
  with False show ?thesis by (simp add: store_set_def values_of_def)
qed (use assms(1) in \<open>simp add: store_set_def values_of_def\<close>)

lemma store_get_set: "store_get (store_set k v s) k' = (if k' = k \<and> \<not> is_array k \<and> \<not> is_obj k then Some v else store_get s k')"
proof (cases "is_array k \<or> is_obj k")
  case True
  then show ?thesis by (auto simp: store_get_def store_set_def map_add_def split: option.splits)
qed (auto simp: store_get_def store_set_def)

lemma set_store_set: "set (store_set k v s) \<subseteq> insert (k, v) (set s)"
proof -
  have "set (AList.update k v s) \<subseteq> insert (k, v) (set s)" by (induction s) auto
  then show ?thesis by (auto simp: store_set_def)
qed

text \<open>Plain records, and records under their own identifier.\<close>

definition plain_store :: "store \<Rightarrow> bool" where
  "plain_store s = list_all (\<lambda>(k, v). plain v) s"

definition keyed_store :: "store \<Rightarrow> bool" where
  "keyed_store s = list_all (\<lambda>(k, v). fld v ''id'' = k \<or> is_array k \<or> is_obj k) s"

lemma plain_store_set: "plain_store s \<Longrightarrow> plain v \<Longrightarrow> plain_store (store_set k v s)"
  using set_store_set [of k v s] by (auto simp: plain_store_def list_all_iff)

lemma keyed_store_set: "keyed_store s \<Longrightarrow> fld v ''id'' = k \<or> is_array k \<or> is_obj k \<Longrightarrow> keyed_store (store_set k v s)"
  using set_store_set [of k v s] by (auto simp: keyed_store_def list_all_iff)

text \<open>Records under their own names, no two under one.\<close>

definition named_store :: "store \<Rightarrow> bool" where
  "named_store s = (distinct (map fst s) \<and> list_all (\<lambda>(k, v). fld v ''id'' = k \<and> (\<exists>i. k = JStr i)) s)"

lemma named_store_set:
  assumes "named_store s" "fld v ''id'' = JStr i"
  shows "named_store (store_set (JStr i) v s)"
proof -
  have "store_set (JStr i) v s = AList.update (JStr i) v s" by (simp add: store_set_def is_array_def is_obj_def)
  then show ?thesis
    using assms set_store_set [of "JStr i" v s] by (auto simp: named_store_def list_all_iff distinct_update)
qed

lemma named_store_member:
  assumes "named_store s" "(k, v) \<in> set s"
  shows "fld v ''id'' = k \<and> store_get s k = Some v"
proof -
  obtain i where "k = JStr i" "fld v ''id'' = k" using assms by (auto simp: named_store_def list_all_iff)
  then show ?thesis using assms by (auto simp: named_store_def store_get_def is_array_def is_obj_def)
qed

lemma store_get_member: "store_get s k = Some v \<Longrightarrow> (k, v) \<in> set s \<and> \<not> is_array k \<and> \<not> is_obj k"
  by (auto simp: store_get_def split: if_splits dest: map_of_SomeD)

lemma keyed_store_get: "keyed_store s \<Longrightarrow> store_get s k = Some v \<Longrightarrow> fld v ''id'' = k"
  using store_get_member [of s k v] by (auto simp: keyed_store_def list_all_iff)

lemma plain_store_get: "plain_store s \<Longrightarrow> store_get s k = Some v \<Longrightarrow> plain v"
  using store_get_member [of s k v] by (auto simp: plain_store_def list_all_iff)

section \<open>What another tenant reads\<close>

definition tenant_lists :: "string \<Rightarrow> repo \<Rightarrow> jsval list list" where
  "tenant_lists T r =
    [listProjectsByTenant r (JStr T), listIssuesByTenant r (JStr T), listRfisByTenant r (JStr T),
     listPermitPackagesByTenant r (JStr T), listReviewSessionsByTenant r (JStr T), listAiReviewRunsByTenant r (JStr T),
     listAiFindingsByTenant r (JStr T), listPlatformBlueprintsByTenant r (JStr T), listFieldReportsByTenant r (JStr T),
     listFileRecordsByTenant r (JStr T), listEmailDeliveriesByTenant r (JStr T), listAuditEventsByTenant r (JStr T)]"

definition tenant_jobs :: "string \<Rightarrow> outbox \<Rightarrow> job list" where
  "tenant_jobs T q = filter (\<lambda>j. strict_eq (j_tenant j) (JStr T)) (all_jobs q)"

text \<open>The owner of a value of a collection; the owner of the values of a changed store stays in the tenant.\<close>

lemma of_tenant_set:
  assumes "fld v ''tenantId'' = JStr t" "t \<noteq> T"
    and "\<And>old. store_get s k = Some old \<Longrightarrow> fld old ''tenantId'' = JStr t"
  shows "of_tenant (JStr T) (values_of (store_set k v s)) = of_tenant (JStr T) (values_of s)"
  unfolding of_tenant_def using assms by (intro filter_values_set) auto

section \<open>Audit chains\<close>

text \<open>A chain verifies, whatever identifiers the verifier's context would draw.\<close>

definition chain_ok :: "(string \<Rightarrow> string) \<Rightarrow> (string \<Rightarrow> string \<Rightarrow> string) \<Rightarrow> jsval \<Rightarrow> jsval list \<Rightarrow> bool" where
  "chain_ok sha hmac key es =
    (\<forall>c. ctx_sha256 c = sha \<longrightarrow> ctx_hmac c = hmac \<longrightarrow> verifyAuditChain c key es = Inr verdict_ok)"

lemma chain_ok_append:
  assumes "chain_ok (ctx_sha256 c) (ctx_hmac c) key es" "createAuditEvent c input = Inr ev"
    and "fld input ''previousHash'' = last_hash JNull es" "fld input ''signingKey'' = key" "\<And>k m. ctx_hmac c k m \<noteq> []"
  shows "chain_ok (ctx_sha256 c) (ctx_hmac c) key (es @ [ev])"
proof -
  have "verifyAuditChain c' key (es @ [ev]) = Inr verdict_ok"
    if c': "ctx_sha256 c' = ctx_sha256 c" "ctx_hmac c' = ctx_hmac c" for c'
    using recheck_created [OF assms(2-4), of "(later ^^ length es) c'"] c' assms(1,5)
    by (simp add: chain_ok_def verifyAuditChain_def verify_append)
  then show ?thesis by (simp add: chain_ok_def)
qed

text \<open>Plain values that an object literal may hold as they are.\<close>

definition datum :: "jsval \<Rightarrow> bool" where
  "datum v = (plain v \<and> (v = JUndef \<or> \<not> json_absent v))"

lemma datum_simps [simp]: "datum (JStr s)" "datum JNull" "datum JUndef" "datum (JBool b)"
  by (simp_all add: datum_def)

lemma datum_fld [intro]: "plain v \<Longrightarrow> datum (fld v k)"
  using plain_fld by (simp add: datum_def)

lemma datum_coalesce: "datum a \<Longrightarrow> datum b \<Longrightarrow> datum (coalesce a b)"
  by (simp add: coalesce_def)

lemma datum_default: "datum a \<Longrightarrow> datum b \<Longrightarrow> datum (default_arg a b)"
  by (simp add: default_arg_def)

text \<open>An event made from plain parts is plain, so that storing it keeps every property the hash covers.\<close>

lemma created_event_plain:
  assumes "createAuditEvent c input = Inr ev" and "\<And>k. k \<noteq> ''signingKey'' \<Longrightarrow> datum (fld input k)"
  shows "plain ev"
proof -
  have f: "plain (coalesce (fld input k) w) \<and> \<not> json_absent (coalesce (fld input k) w)"
    if "k \<noteq> ''signingKey''" "plain w" "\<not> json_absent w" for k w
    using assms(2) [OF that(1)] that by (auto simp: coalesce_def datum_def)
  have g: "plain (fld input k) \<and> \<not> json_absent (fld input k)" if "k \<noteq> ''signingKey''" "truthy (fld input k)" for k
    using assms(2) [OF that(1)] that by (auto simp: datum_def)
  show ?thesis
  proof (rule created_event [OF assms(1)], goal_cases)
    case (1 t sig)
    then show ?thesis
      by (cases "truthy (fld input ''signingKey'')")
         (auto simp: plain_obj audit_covered_def audit_base_def f g)
  qed
qed

lemma created_event_tenant: "createAuditEvent c input = Inr ev \<Longrightarrow> fld ev ''tenantId'' = fld input ''tenantId''"
  by (erule created_event) (simp add: audit_covered_def audit_base_def)

section \<open>The change relation\<close>

definition repo_sound :: "api_env \<Rightarrow> repo \<Rightarrow> bool" where
  "repo_sound env r =
    (plain_store (fieldReportStore r) \<and> plain_store (aiFindingStore r) \<and> plain_store (fileRecordStore r)
     \<and> plain_store (emailDeliveryStore r) \<and> keyed_store (fieldReportStore r) \<and> keyed_store (fileRecordStore r)
     \<and> named_store (emailDeliveryStore r) \<and> list_all plain (auditEventStore r)
     \<and> (\<forall>T. chain_ok (ctx_sha256 (m_ctx (ae_mail env))) (ctx_hmac (m_ctx (ae_mail env))) (ae_signingKey env)
           (listAuditEventsByTenant r (JStr T))))"

text \<open>A place is owned when it is free or holds a record of the tenant; a place for files stays so.\<close>

definition owned :: "string \<Rightarrow> store \<Rightarrow> jsval \<Rightarrow> bool" where
  "owned tid s k = (\<forall>old. store_get s k = Some old \<longrightarrow> fld old ''tenantId'' = JStr tid)"

definition repo_kept :: "api_env \<Rightarrow> string \<Rightarrow> repo \<Rightarrow> repo \<Rightarrow> bool" where
  "repo_kept env tid r r' =
    (repo_sound env r \<longrightarrow> repo_sound env r' \<and> (\<forall>T. T \<noteq> tid \<longrightarrow> tenant_lists T r' = tenant_lists T r)
       \<and> (\<forall>k. owned tid (fileRecordStore r) k \<longrightarrow> owned tid (fileRecordStore r') k))"

definition kept :: "api_env \<Rightarrow> string \<Rightarrow> api \<Rightarrow> api \<Rightarrow> bool" where
  "kept env tid s s' =
    (repo_sound env (api_repo s) \<longrightarrow> repo_kept env tid (api_repo s) (api_repo s')
       \<and> (\<forall>T. T \<noteq> tid \<longrightarrow> tenant_jobs T (api_outbox s') = tenant_jobs T (api_outbox s)))"

interpretation kept: change "kept env tid" for env tid
  by unfold_locales (auto simp: kept_def repo_kept_def)

lemma kept_refl [simp]: "kept env tid s s"
  by (rule kept.stay)

lemma kept_same_data: "api_repo s' = api_repo s \<Longrightarrow> api_outbox s' = api_outbox s \<Longrightarrow> kept env tid s s'"
  by (simp add: kept_def repo_kept_def)

lemma kept_if_sound: "(repo_sound env (api_repo s) \<Longrightarrow> kept env tid s s') \<Longrightarrow> kept env tid s s'"
  by (auto simp: kept_def)

text \<open>Steps in sequence: the second starts in the sound state that the first has left.\<close>

lemma kept_seq:
  assumes "kept env tid s (fst (m s))"
    and "\<And>s' v. m s = (s', Inr v) \<Longrightarrow> repo_sound env (api_repo s') \<Longrightarrow> kept env tid s' (fst (f v s'))"
  shows "kept env tid s (fst (seq m f s))"
proof (rule kept_if_sound)
  assume sound: "repo_sound env (api_repo s)"
  obtain s' r where m: "m s = (s', r)" by (cases "m s")
  then have "repo_sound env (api_repo s')" using assms(1) sound by (simp add: kept_def repo_kept_def)
  then show ?thesis
    using assms m by (cases r) (auto simp: seq_def intro: kept.compose)
qed

lemma kept_attempt:
  assumes "kept env tid s (fst (m s))"
    and "\<And>s' e. m s = (s', Inl e) \<Longrightarrow> repo_sound env (api_repo s') \<Longrightarrow> kept env tid s' (fst (h e s'))"
  shows "kept env tid s (fst (attempt m h s))"
proof (rule kept_if_sound)
  assume sound: "repo_sound env (api_repo s)"
  obtain s' r where m: "m s = (s', r)" by (cases "m s")
  then have "repo_sound env (api_repo s')" using assms(1) sound by (simp add: kept_def repo_kept_def)
  then show ?thesis
    using assms m by (cases r) (auto simp: attempt_def intro: kept.compose)
qed

lemma kept_give [simp, intro]: "kept env tid s (fst (give v s))" "kept env tid s (fst (from_res x s))" "kept env tid s (fst (reading g s))"
  by (simp_all add: kept.stay)

lemma kept_on_repo:
  assumes "\<And>r r' v. api_repo s = r \<Longrightarrow> f r = Inr (r', v) \<Longrightarrow> repo_kept env tid r r'"
  shows "kept env tid s (fst (on_repo (transition f) s))"
  using assms by (auto simp: kept_def repo_kept_def on_part_def transition_def split: sum.splits prod.splits)

text \<open>Appending an audit event of the tenant that links to the tenant's last event.\<close>

lemma tenant_last_hash_eq: "tenant_last_hash r T = last_hash JNull (listAuditEventsByTenant r (JStr T))"
  by (simp add: tenant_last_hash_def last_hash_def split: list.splits)

definition entry_ok :: "audit_entry \<Rightarrow> bool" where
  "entry_ok entry = (datum (an_actorId entry) \<and> datum (an_resourceId entry) \<and> datum (an_before entry) \<and> datum (an_after entry))"

definition same_hashes :: "api_env \<Rightarrow> ctx \<Rightarrow> bool" where
  "same_hashes env c = (ctx_sha256 c = ctx_sha256 (m_ctx (ae_mail env)) \<and> ctx_hmac c = ctx_hmac (m_ctx (ae_mail env)))"

lemma same_hashes_later [simp]: "same_hashes env (m_ctx (ae_mail env))" "same_hashes env ((later ^^ n) (m_ctx (ae_mail env)))"
  by (simp_all add: same_hashes_def)

definition hmac_nonempty :: "api_env \<Rightarrow> bool" where
  "hmac_nonempty env = (\<forall>k m. ctx_hmac (m_ctx (ae_mail env)) k m \<noteq> [])"

lemma audit_appended:
  assumes "buildTenantAuditEvent c (ae_signingKey env) entry r = Inr ev" "entry_ok entry"
  shows "plain ev \<and> fld ev ''tenantId'' = JStr (an_tenantId entry)"
proof -
  have ev: "createAuditEvent c (audit_input entry (tenant_last_hash r (an_tenantId entry)) (ae_signingKey env)) = Inr ev"
    using assms(1) by (simp add: buildTenantAuditEvent_def)
  have "datum (tenant_last_hash r (an_tenantId entry))"
    by (auto simp: tenant_last_hash_def listAuditEventsByTenant_def last_map split: list.splits)
  then have "plain ev"
    using assms(2) by (intro created_event_plain [OF ev])
      (auto simp: audit_input_def entry_ok_def datum_coalesce datum_default)
  then show ?thesis using created_event_tenant [OF ev] by (simp add: audit_input_def)
qed

text \<open>Appending a plain event of the tenant that continues the tenant's chain.\<close>

lemma repo_kept_event:
  assumes p: "plain ev" "fld ev ''tenantId'' = JStr tid"
    and chain: "chain_ok (ctx_sha256 (m_ctx (ae_mail env))) (ctx_hmac (m_ctx (ae_mail env))) (ae_signingKey env)
        (listAuditEventsByTenant r (JStr tid)) \<Longrightarrow>
      chain_ok (ctx_sha256 (m_ctx (ae_mail env))) (ctx_hmac (m_ctx (ae_mail env))) (ae_signingKey env)
        (listAuditEventsByTenant r (JStr tid) @ [ev])"
  shows "repo_kept env tid r (fst (appendAuditEvent ev r))"
proof -
  let ?r = "fst (appendAuditEvent ev r)"
  have lists: "listAuditEventsByTenant ?r (JStr T) = listAuditEventsByTenant r (JStr T) @ (if T = tid then [ev] else [])" for T
    using p by (auto simp: plain_def listAuditEventsByTenant_def appendAuditEvent_def of_tenant_def)
  have same: "fieldReportStore ?r = fieldReportStore r" "aiFindingStore ?r = aiFindingStore r" "fileRecordStore ?r = fileRecordStore r"
    "emailDeliveryStore ?r = emailDeliveryStore r"
    by (simp_all add: appendAuditEvent_def)
  have "tenant_lists T ?r = tenant_lists T r" if "T \<noteq> tid" for T
    using lists [of T] that
    by (simp add: tenant_lists_def) (simp add: appendAuditEvent_def listProjectsByTenant_def listIssuesByTenant_def listRfisByTenant_def
        listPermitPackagesByTenant_def listReviewSessionsByTenant_def listAiReviewRunsByTenant_def listAiFindingsByTenant_def
        finding_tenant_def listPlatformBlueprintsByTenant_def listFieldReportsByTenant_def listFileRecordsByTenant_def
        listEmailDeliveriesByTenant_def)
  moreover have "list_all plain (auditEventStore r) \<Longrightarrow> list_all plain (auditEventStore ?r)"
    by (simp add: appendAuditEvent_def)
  ultimately show ?thesis
    using lists same chain by (auto simp: repo_kept_def repo_sound_def)
qed

lemma repo_kept_append:
  assumes b: "buildTenantAuditEvent c (ae_signingKey env) entry r = Inr ev"
    and e: "entry_ok entry" "an_tenantId entry = tid" and h: "same_hashes env c" "hmac_nonempty env"
  shows "repo_kept env tid r (fst (appendAuditEvent ev r))"
proof (rule repo_kept_event)
  show "plain ev" "fld ev ''tenantId'' = JStr tid" using audit_appended [OF b e(1)] e(2) by auto
  assume "chain_ok (ctx_sha256 (m_ctx (ae_mail env))) (ctx_hmac (m_ctx (ae_mail env))) (ae_signingKey env) (listAuditEventsByTenant r (JStr tid))"
  then show "chain_ok (ctx_sha256 (m_ctx (ae_mail env))) (ctx_hmac (m_ctx (ae_mail env))) (ae_signingKey env) (listAuditEventsByTenant r (JStr tid) @ [ev])"
    using b e h chain_ok_append [of c "ae_signingKey env" "listAuditEventsByTenant r (JStr tid)"]
    by (auto simp: buildTenantAuditEvent_def audit_input_def tenant_last_hash_eq same_hashes_def hmac_nonempty_def)
qed

lemma kept_appendTenantAuditEvent:
  assumes "entry_ok entry" "an_tenantId entry = tid" "same_hashes env c" "hmac_nonempty env"
  shows "kept env tid s (fst (appendTenantAuditEvent c (ae_signingKey env) entry s))"
  unfolding appendTenantAuditEvent_def
  by (rule kept_on_repo) (auto simp: guard_simps intro!: repo_kept_append [OF _ assms])

text \<open>Putting a job of the tenant into the outbox.\<close>

lemma tenant_jobs_enqueue:
  assumes "enqueueOutboxEvent q event key now = Inr (q', j)" "fld event ''tenantId'' = JStr tid" "T \<noteq> tid"
  shows "tenant_jobs T q' = tenant_jobs T q"
proof -
  have upd: "AList.update i v xs = xs @ [(i, v)]" if "map_of xs i = None" for i :: string and v :: job and xs
    using that by (induction xs) (auto split: if_splits)
  have new: "newJob event k now = Inr j' \<Longrightarrow> j_tenant j' = JStr tid" for k j'
    using assms(2) by (auto simp: newJob_def guard_simps Let_def)
  show ?thesis
    using assms(1,3) new
    by (auto simp: enqueueOutboxEvent_def enqueue_def guard_simps tenant_jobs_def all_jobs_def upd split: option.splits if_splits)
qed

lemma kept_put_in_outbox:
  assumes "fld event ''tenantId'' = JStr tid"
  shows "kept env tid s (fst (put_in_outbox env' event key s))"
  using tenant_jobs_enqueue [OF _ assms]
  by (auto simp: put_in_outbox_def on_part_def transition_def kept_def repo_kept_def guard_simps split: sum.splits prod.splits)

lemma tenant_event_tenant: "tenant_event c tid action rt i = Inr event \<Longrightarrow> fld event ''tenantId'' = JStr tid"
  by (auto simp: tenant_event_def createOutboxEvent_def guard_simps)

lemma kept_enqueueTenantOutbox: "kept env tid s (fst (enqueueTenantOutbox env' c tid action rt i scope s))"
  by (auto simp: enqueueTenantOutbox_def kept_put_in_outbox tenant_event_tenant kept.stay split: sum.splits)

lemma kept_enqueueFileOutbox: "kept env tid s (fst (enqueueFileOutbox env' c tid action i s))"
  by (auto simp: enqueueFileOutbox_def fileOutboxEvent_def kept_put_in_outbox tenant_event_tenant kept.stay split: sum.splits)

section \<open>Changing one store\<close>

lemmas list_defs = listProjectsByTenant_def listIssuesByTenant_def listRfisByTenant_def
  listPermitPackagesByTenant_def listReviewSessionsByTenant_def listAiReviewRunsByTenant_def listAiFindingsByTenant_def
  listPlatformBlueprintsByTenant_def listFieldReportsByTenant_def listFileRecordsByTenant_def listEmailDeliveriesByTenant_def
  listAuditEventsByTenant_def

text \<open>A record of the tenant goes to a place that is free or holds a record of the tenant.\<close>

definition fits :: "string \<Rightarrow> store \<Rightarrow> jsval \<Rightarrow> jsval \<Rightarrow> bool" where
  "fits tid s k v = (fld v ''tenantId'' = JStr tid \<and> owned tid s k)"

lemma fits_of_tenant: "fits t s k v \<Longrightarrow> T \<noteq> t \<Longrightarrow> of_tenant (JStr T) (values_of (store_set k v s)) = of_tenant (JStr T) (values_of s)"
  by (rule of_tenant_set) (auto simp: fits_def owned_def)

lemma repo_kept_set:
  "fits tid (projectStore r) k v \<Longrightarrow> repo_kept env tid r (r\<lparr>projectStore := store_set k v (projectStore r)\<rparr>)"
  "fits tid (issueStore r) k v \<Longrightarrow> repo_kept env tid r (r\<lparr>issueStore := store_set k v (issueStore r)\<rparr>)"
  "fits tid (rfiStore r) k v \<Longrightarrow> repo_kept env tid r (r\<lparr>rfiStore := store_set k v (rfiStore r)\<rparr>)"
  "fits tid (permitStore r) k v \<Longrightarrow> repo_kept env tid r (r\<lparr>permitStore := store_set k v (permitStore r)\<rparr>)"
  "fits tid (reviewSessionStore r) k v \<Longrightarrow> repo_kept env tid r (r\<lparr>reviewSessionStore := store_set k v (reviewSessionStore r)\<rparr>)"
  "fits tid (platformBlueprintStore r) k v \<Longrightarrow> repo_kept env tid r (r\<lparr>platformBlueprintStore := store_set k v (platformBlueprintStore r)\<rparr>)"
  by (auto simp: repo_kept_def repo_sound_def tenant_lists_def list_defs finding_tenant_def fits_of_tenant)

lemma repo_kept_set_report:
  assumes "fits tid (fieldReportStore r) k v" "plain v" "fld v ''id'' = k"
  shows "repo_kept env tid r (r\<lparr>fieldReportStore := store_set k v (fieldReportStore r)\<rparr>)"
  using assms
  by (auto simp: repo_kept_def repo_sound_def tenant_lists_def list_defs finding_tenant_def fits_of_tenant
      intro: plain_store_set keyed_store_set)

lemma repo_kept_set_delivery:
  assumes "fits tid (emailDeliveryStore r) (JStr i) v" "plain v" "fld v ''id'' = JStr i"
  shows "repo_kept env tid r (r\<lparr>emailDeliveryStore := store_set (JStr i) v (emailDeliveryStore r)\<rparr>)"
  using assms
  by (auto simp: repo_kept_def repo_sound_def tenant_lists_def list_defs finding_tenant_def fits_of_tenant
      intro: plain_store_set named_store_set)

lemma owned_set: "fld v ''tenantId'' = JStr tid \<Longrightarrow> owned tid s k' \<Longrightarrow> owned tid (store_set k v s) k'"
  by (auto simp: owned_def store_get_set)

lemma repo_kept_set_file:
  assumes "fits tid (fileRecordStore r) k v" "plain v" "fld v ''id'' = k"
  shows "repo_kept env tid r (r\<lparr>fileRecordStore := store_set k v (fileRecordStore r)\<rparr>)"
  using assms
  by (auto simp: repo_kept_def repo_sound_def tenant_lists_def list_defs finding_tenant_def fits_of_tenant
      intro: plain_store_set keyed_store_set owned_set) (simp add: fits_def owned_set)

lemma repo_kept_set_run:
  assumes "fld v ''tenantId'' = JStr tid" "store_get (aiReviewRunStore r) k = None"
  shows "repo_kept env tid r (r\<lparr>aiReviewRunStore := store_set k v (aiReviewRunStore r)\<rparr>)"
proof -
  have "fits tid (aiReviewRunStore r) k v" using assms by (simp add: fits_def owned_def)
  moreover have "strict_eq (finding_tenant (r\<lparr>aiReviewRunStore := store_set k v (aiReviewRunStore r)\<rparr>) f) (JStr T)
      = strict_eq (finding_tenant r f) (JStr T)" if "T \<noteq> tid" for T f
    using assms that by (auto simp: finding_tenant_def store_get_set)
  ultimately show ?thesis
    by (simp add: repo_kept_def repo_sound_def tenant_lists_def list_defs fits_of_tenant)
qed

lemma repo_kept_set_finding:
  assumes "finding_tenant r v = JStr tid" "plain v"
    and "\<And>old. store_get (aiFindingStore r) k = Some old \<Longrightarrow> finding_tenant r old = JStr tid"
  shows "repo_kept env tid r (r\<lparr>aiFindingStore := store_set k v (aiFindingStore r)\<rparr>)"
proof -
  have f: "finding_tenant (r\<lparr>aiFindingStore := s\<rparr>) = finding_tenant r" for s
    by (simp add: finding_tenant_def fun_eq_iff)
  have "filter (\<lambda>f. strict_eq (finding_tenant r f) (JStr T)) (values_of (store_set k v (aiFindingStore r)))
      = filter (\<lambda>f. strict_eq (finding_tenant r f) (JStr T)) (values_of (aiFindingStore r))" if "T \<noteq> tid" for T
    using assms that by (intro filter_values_set) (auto dest: assms(3))
  then show ?thesis
    using assms(2) by (auto simp: repo_kept_def repo_sound_def tenant_lists_def list_defs f intro: plain_store_set)
qed

section \<open>Creating a record of a collection\<close>

lemma factories_keep_tenant:
  "createProject x = Inr v \<Longrightarrow> fld v ''tenantId'' = fld x ''tenantId''"
  "createCoordinationIssue x = Inr v \<Longrightarrow> fld v ''tenantId'' = fld x ''tenantId''"
  "createRfi x = Inr v \<Longrightarrow> fld v ''tenantId'' = fld x ''tenantId''"
  "createPermitPackage x = Inr v \<Longrightarrow> fld v ''tenantId'' = fld x ''tenantId''"
  "createReviewSession x = Inr v \<Longrightarrow> fld v ''tenantId'' = fld x ''tenantId''"
  "createReviewRun x = Inr v \<Longrightarrow> fld v ''tenantId'' = fld x ''tenantId''"
  by (auto simp: createProject_def createCoordinationIssue_def createRfi_def createPermitPackage_def createReviewSession_def
      createReviewRun_def guard_simps Let_def split: if_splits)

lemma blueprint_keeps_tenant:
  "generatePlatformBlueprint x = Inr v \<Longrightarrow> fld x ''tenantId'' = JStr t \<Longrightarrow> fld v ''tenantId'' = JStr t"
  by (auto simp: generatePlatformBlueprint_def createBlueprintIntake_def guard_simps Let_def)

lemma create_in_Inr:
  "create_in factory taken part put input r = Inr (r', v) \<longleftrightarrow>
    (\<exists>w. factory (spread input [(''staged'', JBool True)]) = Inr w \<and> store_get (part r) (fld w ''id'') = None
      \<and> r' = put (store_set (fld w ''id'') (json_clone w) (part r)) r \<and> v = json_clone w)"
  by (auto simp: create_in_def guard_simps store_has_def)

lemma staged_tenant_field: "fld (spread (JObj fs) [(''staged'', JBool True)]) k = (if k = ''staged'' then JBool True else fld (JObj fs) k)"
  by (simp add: fld_spread)

lemma fits_new: "fld v ''tenantId'' = JStr tid \<Longrightarrow> store_get s k = None \<Longrightarrow> fits tid s k v"
  by (simp add: fits_def owned_def)

lemmas resource_defs = projects_resource_def issues_resource_def rfis_resource_def permits_resource_def
  review_sessions_resource_def ai_review_runs_resource_def ai_findings_resource_def platform_blueprints_resource_def
  field_reports_resource_def

lemmas repo_create_defs = repo_createProject_def repo_createIssue_def repo_createRfi_def repo_createPermitPackage_def
  repo_createReviewSession_def repo_createAiReviewRun_def repo_createAiFinding_def repo_createPlatformBlueprint_def
  repo_createFieldReport_def

lemma created_report: "createFieldReport x = Inr v \<Longrightarrow> fld v ''tenantId'' = fld x ''tenantId'' \<and> (\<exists>i. fld v ''id'' = JStr i)"
  by (auto simp: createFieldReport_def guard_simps Let_def split: if_splits dest!: nonblank_str)

text \<open>Every resource creates records of the tenant of the path.\<close>

definition creates_own :: "collection \<Rightarrow> bool" where
  "creates_own c = (\<forall>env parsed tid r r' v. c_guard c parsed tid r = None \<longrightarrow> c_create c (c_build c parsed tid) r = Inr (r', v)
     \<longrightarrow> repo_kept env tid r r' \<and> plain v)"

lemma creates_own_simple:
  "creates_own projects_resource" "creates_own issues_resource" "creates_own rfis_resource" "creates_own permits_resource"
  "creates_own review_sessions_resource"
  by (auto simp: creates_own_def resource_defs repo_create_defs create_in_Inr staged_tenant_field
      intro!: repo_kept_set fits_new fld_clone_str dest!: factories_keep_tenant)

lemma creates_own_blueprint: "creates_own platform_blueprints_resource"
  by (auto simp: creates_own_def resource_defs repo_create_defs create_in_Inr staged_tenant_field
      intro!: repo_kept_set fits_new fld_clone_str elim!: blueprint_keeps_tenant)

lemma creates_own_run: "creates_own ai_review_runs_resource"
  by (auto simp: creates_own_def resource_defs repo_create_defs create_in_Inr staged_tenant_field
      intro!: repo_kept_set_run fld_clone_str dest!: factories_keep_tenant)

lemma creates_own_report: "creates_own field_reports_resource"
  by (auto simp: creates_own_def resource_defs repo_create_defs create_in_Inr staged_tenant_field
      intro!: repo_kept_set_report fits_new fld_clone_str dest!: created_report)

lemma created_finding: "createFinding x = Inr v \<Longrightarrow> fld v ''reviewRunId'' = fld x ''reviewRunId'' \<and> (\<exists>i. fld x ''reviewRunId'' = JStr i)"
  by (auto simp: createFinding_def guard_simps Let_def split: if_splits dest!: nonblank_str)

lemma created_finding_run:
  assumes "in_tenant (getAiReviewRunById r (JStr i)) tid" "fld v ''reviewRunId'' = JStr i"
  shows "finding_tenant r (json_clone v) = JStr tid"
  using assms
  by (auto simp: finding_tenant_def getAiReviewRunById_def by_id_def in_tenant_def split: option.splits dest: strict_eq_eq)

lemma creates_own_finding: "creates_own ai_findings_resource"
  by (auto simp: creates_own_def resource_defs repo_create_defs create_in_Inr staged_tenant_field no_review_run_def
      intro!: repo_kept_set_finding created_finding_run dest!: created_finding split: if_splits)

lemma collections_create_own: "c \<in> set collectionResources \<Longrightarrow> creates_own c"
  using creates_own_simple creates_own_blueprint creates_own_run creates_own_report creates_own_finding
  by (auto simp: collectionResources_def)

end
