(* ===== verification/ApiKept.thy ===== *)
theory ApiKept
  imports ApiSound
begin

text \<open>
  Every route of the API stays inside the change relation of its tenant (theory \<open>ApiSound\<close>), whatever the
  request and whether it succeeds, refuses or throws.
\<close>

section \<open>Collections\<close>

lemma on_repo_Inr: "on_repo (transition f) s = (s', Inr v) \<longleftrightarrow> (\<exists>r'. f (api_repo s) = Inr (r', v) \<and> s' = s\<lparr>api_repo := r'\<rparr>)"
  by (auto simp: on_part_def transition_def split: sum.splits prod.splits)

lemma kept_persist:
  assumes c: "c \<in> set collectionResources" "c_guard c parsed tid (api_repo s) = None"
    and actor: "datum actor" and h: "hmac_nonempty env"
  shows "kept env tid s (fst (persist env c tid actor (c_build c parsed tid) s))"
proof -
  note own = collections_create_own [OF c(1), unfolded creates_own_def, rule_format, OF c(2)]
  show ?thesis
    unfolding persist_def
  proof (rule kept_seq)
    show "kept env tid s (fst (on_repo (transition (c_create c (c_build c parsed tid))) s))"
      by (rule kept_on_repo) (use own in blast)
  next
    fix s' created
    assume "on_repo (transition (c_create c (c_build c parsed tid))) s = (s', Inr created)"
    then have "plain created" using own by (auto simp: on_repo_Inr)
    then have "entry_ok (creation_entry c tid actor created)"
      using actor by (simp add: entry_ok_def creation_entry_def datum_fld)
    then show "kept env tid s' (fst (seq (appendTenantAuditEvent (m_ctx (ae_mail env)) (ae_signingKey env) (creation_entry c tid actor created)) (\<lambda>_.
        seq (from_res (tenant_event (later (m_ctx (ae_mail env))) tid (c_action c) (c_resourceType c) (fld created ''id''))) (\<lambda>event.
        seq (put_in_outbox env event (creation_key c tid created)) (\<lambda>_. give created))) s'))"
      by (intro kept_seq kept_appendTenantAuditEvent)
         (auto simp: h creation_entry_def intro: kept_put_in_outbox tenant_event_tenant)
  qed
qed

lemma kept_handleCollectionCreate:
  assumes "c \<in> set collectionResources" "datum actor" "hmac_nonempty env"
  shows "kept env tid s (fst (handleCollectionCreate env c body tid actor s))"
  unfolding handleCollectionCreate_def
  by (rule kept_seq)
     (auto split: option.split intro!: kept_attempt kept_seq kept_persist assms)

lemma kept_withIdempotency:
  assumes "\<And>s. kept env tid s (fst (compute s))"
  shows "kept env tid s (fst (withIdempotency now key t path compute s))"
  unfolding withIdempotency_def Let_def
  by (auto simp: assms kept_same_data on_part_def split: option.split prod.split intro!: kept_seq)

lemma kept_gated: "kept env tid s (fst (k s)) \<Longrightarrow> kept env tid s (fst (gated who t res act k s))"
  by (simp add: gated_def kept.stay split: option.split)

section \<open>Reports\<close>

lemma in_tenant_obj: "in_tenant v tid \<Longrightarrow> fld v ''tenantId'' = JStr tid \<and> is_obj v"
  by (cases v) (auto simp: in_tenant_def is_obj_def dest: strict_eq_eq)

lemma fld_spread_rest:
  "k \<notin> fst ` set us \<Longrightarrow> is_obj v \<Longrightarrow> fld (spread v us) k = fld v k"
  by (cases v) (auto simp: is_obj_def fld_spread split: option.split dest!: map_of_SomeD intro: rev_image_eqI)

lemma stored_report:
  assumes "repo_sound env (api_repo s)" "in_tenant (getFieldReportById (api_repo s) (JStr i)) tid"
  shows "store_get (fieldReportStore (api_repo s)) (JStr i) = Some (getFieldReportById (api_repo s) (JStr i))
    \<and> plain (getFieldReportById (api_repo s) (JStr i)) \<and> fld (getFieldReportById (api_repo s) (JStr i)) ''id'' = JStr i"
proof -
  obtain v where "store_get (fieldReportStore (api_repo s)) (JStr i) = Some v"
    using assms(2) by (auto simp: getFieldReportById_def by_id_def in_tenant_def split: option.splits)
  then show ?thesis
    using assms(1) keyed_store_get plain_store_get
    by (auto simp: getFieldReportById_def by_id_def repo_sound_def)
qed

lemma report_operations_keep:
  assumes "in_tenant report tid" "fld report ''id'' = JStr i"
  shows "generateReportDraft report = Inr new \<Longrightarrow> fld new ''tenantId'' = JStr tid \<and> fld new ''id'' = JStr i"
    and "setReviewStatus report nxt who remark = Inr new \<Longrightarrow> fld new ''tenantId'' = JStr tid \<and> fld new ''id'' = JStr i"
  using assms in_tenant_obj [OF assms(1)]
  by (auto simp: generateReportDraft_def setReviewStatus_def guard_simps fld_spread_rest split: if_splits)

lemma kept_persist_report:
  assumes report: "store_get (fieldReportStore (api_repo s)) (JStr i) = Some report" "plain report" "fld report ''tenantId'' = JStr tid"
    and new: "\<And>new. changed = Inr new \<Longrightarrow> fld new ''tenantId'' = JStr tid \<and> fld new ''id'' = JStr i"
    and who: "plain who" and h: "hmac_nonempty env"
  shows "kept env tid s (fst (persist_report env tid who action report changed scoped s))"
  unfolding persist_report_def
proof (rule kept_seq)
  fix s' new assume "from_res changed s = (s', Inr new)"
  then have s': "s' = s" "changed = Inr new" by auto
  note n = new [OF s'(2)]
  have saved: "kept env tid s (fst (on_repo (transition (saveFieldReport new)) s))"
    using n report by (intro kept_on_repo)
      (auto simp: saveFieldReport_def guard_simps get_fld_def fits_def owned_def intro!: repo_kept_set_report split: if_splits)
  show "kept env tid s' (fst (seq (on_repo (transition (saveFieldReport new))) (\<lambda>saved.
      seq (appendTenantAuditEvent (m_ctx (ae_mail env)) (ae_signingKey env)
         (route_entry tid who action ''field_report'' (fld saved ''id'') (fld report ''status'') (fld saved ''status''))) (\<lambda>_.
      seq (enqueueTenantOutbox env (later (m_ctx (ae_mail env))) tid action ''field_report'' (fld saved ''id'')
         (if scoped then fld saved ''status'' else JNull)) (\<lambda>_. give saved))) s'))"
    unfolding s'(1)
  proof (rule kept_seq, rule saved)
    fix s'' saved assume "on_repo (transition (saveFieldReport new)) s = (s'', Inr saved)"
    then have "plain saved" by (auto simp: on_repo_Inr saveFieldReport_def guard_simps)
    then have "entry_ok (route_entry tid who action ''field_report'' (fld saved ''id'') (fld report ''status'') (fld saved ''status''))"
      using report(2) who by (simp add: entry_ok_def route_entry_def datum_fld)
    then show "kept env tid s'' (fst (seq (appendTenantAuditEvent (m_ctx (ae_mail env)) (ae_signingKey env)
         (route_entry tid who action ''field_report'' (fld saved ''id'') (fld report ''status'') (fld saved ''status''))) (\<lambda>_.
      seq (enqueueTenantOutbox env (later (m_ctx (ae_mail env))) tid action ''field_report'' (fld saved ''id'')
         (if scoped then fld saved ''status'' else JNull)) (\<lambda>_. give saved)) s''))"
      by (intro kept_seq kept_appendTenantAuditEvent kept_enqueueTenantOutbox)
         (auto simp: h route_entry_def)
  qed
qed simp

lemma kept_on_report:
  assumes "\<And>report. repo_sound env (api_repo s) \<Longrightarrow> in_tenant report tid \<Longrightarrow>
      store_get (fieldReportStore (api_repo s)) (JStr i) = Some report \<Longrightarrow> plain report \<Longrightarrow> fld report ''id'' = JStr i \<Longrightarrow>
      kept env tid s (fst (k report s))"
  shows "kept env tid s (fst (on_report i tid k s))"
proof (rule kept_if_sound)
  assume sound: "repo_sound env (api_repo s)"
  show ?thesis
    using assms [OF sound] stored_report [OF sound]
    by (cases "in_tenant (getFieldReportById (api_repo s) (JStr i)) tid") (simp_all add: on_report_def)
qed

lemma kept_draft_route:
  assumes "plain who" "hmac_nonempty env"
  shows "kept env tid s (fst (report_draft_route env who tid i s))"
  unfolding report_draft_route_def
proof (rule kept_gated, rule kept_on_report)
  fix report
  assume r: "in_tenant report tid" "store_get (fieldReportStore (api_repo s)) (JStr i) = Some report" "plain report" "fld report ''id'' = JStr i"
  have "kept env tid s (fst (persist_report env tid who ''api.field_report.draft_generated'' report (generateReportDraft report) False s))"
    using r in_tenant_obj [OF r(1)] report_operations_keep(1) [OF r(1,4)] by (intro kept_persist_report [OF _ _ _ _ assms]) auto
  then show "kept env tid s (fst (attempt
      (seq (persist_report env tid who ''api.field_report.draft_generated'' report (generateReportDraft report) False) (\<lambda>drafted.
       give (item_response 200 [(''item'', drafted)])))
      (\<lambda>e. give (badRequest (err_message e))) s))"
    by (intro kept_attempt kept_seq) (auto simp: kept.stay)
qed

section \<open>Notifications\<close>

lemma report_delivery_fields:
  assumes "report_delivery env tid report user = Inr d" "js_trim tid = tid"
  shows "fld d ''tenantId'' = JStr tid \<and> (\<exists>i. fld d ''id'' = JStr i) \<and> fld d ''status'' = JStr ''queued''"
  using assms by (auto simp: report_delivery_def createEmailDelivery_def requiredString_def guard_simps Let_def)

lemma delivery_event_tenant:
  "createEmailDeliveryOutboxEvent env d = Inr event \<Longrightarrow> fld d ''tenantId'' = JStr tid \<Longrightarrow> fld event ''tenantId'' = JStr tid"
  by (auto simp: createEmailDeliveryOutboxEvent_def createOutboxEvent_def guard_simps)

lemma repo_kept_delivery:
  assumes "repo_createEmailDelivery d r = Inr (r', created, stored)" "fld d ''tenantId'' = JStr tid" "\<exists>i. fld d ''id'' = JStr i"
  shows "repo_kept env tid r r'"
proof -
  obtain i where i: "fld d ''id'' = JStr i" using assms(3) by blast
  then have "store_get (emailDeliveryStore r) (JStr i) = None \<Longrightarrow>
    repo_kept env tid r (r\<lparr>emailDeliveryStore := store_set (JStr i) (json_clone d) (emailDeliveryStore r)\<rparr>)"
    using assms(2) by (intro repo_kept_set_delivery fits_new) auto
  then show ?thesis
    using assms(1) i
    by (auto simp: repo_createEmailDelivery_def guard_simps store_has_def repo_kept_def split: option.splits if_splits)
qed

lemma kept_notify_user:
  assumes "plain who" "hmac_nonempty env" "js_trim tid = tid"
  shows "kept env tid s (fst (notify_user env tid who report (n, user) s))"
  unfolding notify_user_def Let_def prod.case
proof (rule kept_seq)
  fix s' d assume "from_res (report_delivery env tid report user) s = (s', Inr d)"
  then have d: "fld d ''tenantId'' = JStr tid" "\<exists>i. fld d ''id'' = JStr i" "fld d ''status'' = JStr ''queued''"
    using report_delivery_fields [OF _ assms(3)] by auto
  let ?entry = "route_entry tid who ''email.delivery.queued'' ''email_delivery'' (fld d ''id'') JNull (fld d ''status'')"
  have e: "entry_ok ?entry" "an_tenantId ?entry = tid"
    using d assms(1) by (auto simp: entry_ok_def route_entry_def datum_fld)
  note ok = kept_appendTenantAuditEvent [OF e same_hashes_later(2) assms(2)]
  show "kept env tid s' (fst (seq (on_repo (transition (\<lambda>r. and_then (repo_createEmailDelivery d r) (\<lambda>(r', created, stored). Inr (r', created))))) (\<lambda>created.
      if \<not> created then give ()
      else seq (appendTenantAuditEvent ((later ^^ (2 + 2 * n)) (m_ctx (ae_mail env))) (ae_signingKey env) ?entry) (\<lambda>_.
        seq (from_res (createEmailDeliveryOutboxEvent ((ae_mail env)\<lparr>m_ctx := later ((later ^^ (2 + 2 * n)) (m_ctx (ae_mail env)))\<rparr>) d)) (\<lambda>event.
        put_in_outbox env event (fld d ''idempotencyKey'')))) s'))"
  proof (rule kept_seq)
    show "kept env tid s' (fst (on_repo (transition (\<lambda>r. and_then (repo_createEmailDelivery d r) (\<lambda>(r', created, stored). Inr (r', created)))) s'))"
      by (rule kept_on_repo) (auto simp: guard_simps intro: repo_kept_delivery d)
    fix s'' created
    show "kept env tid s'' (fst ((if \<not> created then give ()
      else seq (appendTenantAuditEvent ((later ^^ (2 + 2 * n)) (m_ctx (ae_mail env))) (ae_signingKey env) ?entry) (\<lambda>_.
        seq (from_res (createEmailDeliveryOutboxEvent ((ae_mail env)\<lparr>m_ctx := later ((later ^^ (2 + 2 * n)) (m_ctx (ae_mail env)))\<rparr>) d)) (\<lambda>event.
        put_in_outbox env event (fld d ''idempotencyKey'')))) s''))"
      by (cases created)
        (use d(1) in \<open>auto simp del: funpow.simps intro!: kept_seq [OF ok] kept_put_in_outbox delivery_event_tenant split: sum.split\<close>)
  qed
qed simp

lemma kept_for_each: "(\<And>x s. x \<in> set xs \<Longrightarrow> kept env tid s (fst (f x s))) \<Longrightarrow> kept env tid s (fst (for_each f xs s))"
  by (induction xs arbitrary: s) (auto intro!: kept_seq)

lemma kept_notify_clients:
  assumes "plain who" "hmac_nonempty env" "js_trim tid = tid"
  shows "kept env tid s (fst (notify_clients env tid who report s))"
  by (auto simp: notify_clients_def intro!: kept_for_each kept_notify_user [OF assms] split: option.split)

lemma kept_with_body:
  assumes "\<And>parsed. parseBody env (rq_body rq) = Inr parsed \<Longrightarrow> kept env tid s (fst (k parsed s))"
  shows "kept env tid s (fst (with_body env rq needed k s))"
  unfolding with_body_def using assms by (auto split: sum.split option.split)

lemma kept_review_route:
  assumes "plain who" "hmac_nonempty env" "js_trim tid = tid"
  shows "kept env tid s (fst (report_review_route env rq who tid i s))"
  unfolding report_review_route_def
proof (rule kept_gated, rule kept_on_report, rule kept_with_body)
  fix report parsed
  assume r: "in_tenant report tid" "store_get (fieldReportStore (api_repo s)) (JStr i) = Some report" "plain report" "fld report ''id'' = JStr i"
  let ?new = "setReviewStatus report (fld parsed ''nextStatus'') (coalesce (fld parsed ''reviewedBy'') (fld who ''userId''))
             (coalesce (fld parsed ''reviewNote'') JNull)"
  have p: "kept env tid s (fst (persist_report env tid who ''api.field_report.reviewed'' report ?new True s))"
    using r in_tenant_obj [OF r(1)] report_operations_keep(2) [OF r(1,4)] by (intro kept_persist_report [OF _ _ _ _ assms(1,2)]) auto
  show "kept env tid s (fst (attempt
      (seq (persist_report env tid who ''api.field_report.reviewed'' report ?new True) (\<lambda>reviewed.
       seq (notify_clients env tid who reviewed) (\<lambda>_.
       give (item_response 200 [(''item'', reviewed)]))))
      (\<lambda>e. give (badRequest (err_message e))) s))"
    by (rule kept_attempt, rule kept_seq, rule p) (auto intro!: kept_seq kept_notify_clients [OF assms])
qed

section \<open>Findings\<close>

lemma fld_clone_spread:
  assumes "plain v" "k \<notin> fst ` set us" "k \<noteq> ''length''"
  shows "fld (json_clone (spread v us)) k = fld v k"
proof -
  define fs where "fs = own_fields v"
  have v: "fld v k = fld (JObj fs) k" "plain (JObj fs)" "spread v us = spread (JObj fs) us"
    using assms(1,3) by (cases v; simp add: fs_def spread_def plain_obj)+
  have "fold (\<lambda>(k, w) acc. set_fld k w acc) us (JObj gs) = JObj (fold (\<lambda>(k, w). AList.update k w) us gs)" for gs
    by (induction us arbitrary: gs) auto
  then have s: "spread v us = JObj (fold (\<lambda>(k, w). AList.update k w) us fs)"
    unfolding v(3) by (simp add: spread_def)
  have m: "map_of (fold (\<lambda>(k, w). AList.update k w) us gs) k = map_of gs k" for gs
    using assms(2) by (induction us arbitrary: gs) (auto simp: map_of_update)
  have none: "map_of gs k = None \<Longrightarrow> map_of (json_clone_fields gs) k = None" for gs
    by (induction gs) (auto split: if_splits)
  show ?thesis
  proof (cases "map_of fs k")
    case None
    then show ?thesis using m [of fs] none unfolding s by (simp add: v fld.simps(1))
  next
    case (Some w)
    then have "plain w" "\<not> json_absent w" using v(2) by (auto simp: plain_obj list_all_iff dest!: map_of_SomeD)
    moreover have "fld (spread v us) k = w" unfolding s using Some m by (simp add: fld.simps(1))
    ultimately show ?thesis using fld_clone [of "spread v us" k] Some by (simp add: v plain_def fld.simps(1))
  qed
qed

lemma finding_disposition_kept:
  assumes "store_get (aiFindingStore r) (JStr i) = Some finding" "plain finding" "finding_tenant r finding = JStr tid"
    and "setAiFindingDisposition (JStr i) nxt related r = Inr (r', v)"
  shows "repo_kept env tid r r' \<and> plain v"
proof -
  obtain updated where u: "setHumanDisposition JNull finding nxt (default_arg related JNull) = Inr updated"
    "r' = r\<lparr>aiFindingStore := store_set (JStr i) (json_clone updated) (aiFindingStore r)\<rparr>" "v = json_clone updated"
    using assms(1,4) by (auto simp: setAiFindingDisposition_def guard_simps)
  have "fld (json_clone updated) ''reviewRunId'' = fld finding ''reviewRunId''"
    using u(1) assms(2) by (auto simp: setHumanDisposition_def guard_simps Let_def intro!: fld_clone_spread)
  then have "finding_tenant r (json_clone updated) = JStr tid"
    using assms(3) by (simp add: finding_tenant_def)
  then show ?thesis
    using u assms by (auto intro!: repo_kept_set_finding)
qed

lemma kept_finding_update:
  assumes f: "store_get (aiFindingStore (api_repo s)) (JStr i) = Some finding" "plain finding"
      "finding_tenant (api_repo s) finding = JStr tid"
    and who: "plain who" and h: "hmac_nonempty env"
  shows "kept env tid s (fst (finding_update env who tid i finding parsed s))"
  unfolding finding_update_def
proof (rule kept_attempt, rule kept_seq)
  show "kept env tid s (fst (on_repo (transition (setAiFindingDisposition (JStr i) (fld parsed ''nextDisposition'')
      (coalesce (fld parsed ''relatedIssueId'') JNull))) s))"
    by (rule kept_on_repo) (use finding_disposition_kept f in blast)
next
  fix s' updated
  assume "on_repo (transition (setAiFindingDisposition (JStr i) (fld parsed ''nextDisposition'')
      (coalesce (fld parsed ''relatedIssueId'') JNull))) s = (s', Inr updated)"
  then have "plain updated"
    using finding_disposition_kept f by (auto simp: on_repo_Inr)
  then have e: "entry_ok (route_entry tid who ''api.ai_finding.disposition_updated'' ''ai_finding'' (fld updated ''id'')
      (fld finding ''humanDisposition'') (fld updated ''humanDisposition''))"
    using f(2) who by (simp add: entry_ok_def route_entry_def datum_fld)
  show "kept env tid s' (fst (seq (appendTenantAuditEvent (m_ctx (ae_mail env)) (ae_signingKey env)
      (route_entry tid who ''api.ai_finding.disposition_updated'' ''ai_finding'' (fld updated ''id'')
        (fld finding ''humanDisposition'') (fld updated ''humanDisposition''))) (\<lambda>_. give (item_response 200 [(''item'', updated)])) s'))"
    by (rule kept_seq, rule kept_appendTenantAuditEvent [OF e]) (auto simp: h route_entry_def)
qed simp

lemma kept_finding_route:
  assumes "plain who" "hmac_nonempty env"
  shows "kept env tid s (fst (finding_route env rq who tid i s))"
  unfolding finding_route_def
proof (rule kept_gated, rule kept_if_sound)
  assume sound: "repo_sound env (api_repo s)"
  define finding where "finding = getAiFindingById (api_repo s) (JStr i)"
  show "kept env tid s (fst (seq (reading (\<lambda>s. getAiFindingById (api_repo s) (JStr i))) (\<lambda>finding.
     if \<not> truthy finding then give (notFound ''AI finding not found.'')
     else seq (reading (\<lambda>s. getAiReviewRunById (api_repo s) (fld finding ''reviewRunId''))) (\<lambda>reviewRun.
     if \<not> in_tenant reviewRun tid then give (forbidden ''AI finding disposition requires in-tenant access.'')
     else with_body env rq ''nextDisposition'' (\<lambda>parsed.
     seq (reading (\<lambda>s. listIssuesByTenant (api_repo s) (JStr tid))) (\<lambda>tenantIssues.
     if truthy (fld parsed ''relatedIssueId'') \<and> \<not> (\<exists>issue \<in> set tenantIssues. strict_eq (fld issue ''id'') (fld parsed ''relatedIssueId''))
     then give (forbidden ''Related issue must exist in-tenant.'')
     else finding_update env who tid i finding parsed)))) s))"
  proof (cases "truthy finding \<and> in_tenant (getAiReviewRunById (api_repo s) (fld finding ''reviewRunId'')) tid")
    case True
    then have f: "store_get (aiFindingStore (api_repo s)) (JStr i) = Some finding"
      by (auto simp: finding_def getAiFindingById_def by_id_def split: option.splits)
    moreover have "plain finding"
      using sound plain_store_get [OF _ f] by (simp add: repo_sound_def)
    moreover have "finding_tenant (api_repo s) finding = JStr tid"
      using True by (auto simp: finding_tenant_def getAiReviewRunById_def by_id_def in_tenant_def dest: strict_eq_eq split: option.splits)
    ultimately show ?thesis
      using True by (auto simp flip: finding_def intro!: kept_with_body kept_finding_update [OF _ _ _ assms])
  qed (auto simp flip: finding_def)
qed

section \<open>Files\<close>

text \<open>A file record that a route has read: a record of the tenant at its place.\<close>

definition held_file :: "string \<Rightarrow> api \<Rightarrow> jsval \<Rightarrow> bool" where
  "held_file tid s file =
    (fld file ''tenantId'' = JStr tid \<and> is_obj file \<and> (\<exists>i. fld file ''id'' = JStr i)
     \<and> owned tid (fileRecordStore (api_repo s)) (fld file ''id''))"

lemma held_file_read:
  assumes "repo_sound env (api_repo s)" "in_tenant (getFileRecordById (api_repo s) (JStr i)) tid"
  shows "held_file tid s (getFileRecordById (api_repo s) (JStr i)) \<and> plain (getFileRecordById (api_repo s) (JStr i))"
proof -
  obtain v where v: "store_get (fileRecordStore (api_repo s)) (JStr i) = Some v"
    using assms(2) by (auto simp: getFileRecordById_def in_tenant_def split: option.splits)
  then have "plain v" "fld v ''id'' = JStr i"
    using assms(1) plain_store_get keyed_store_get by (auto simp: repo_sound_def)
  then show ?thesis
    using v assms(2) in_tenant_obj [OF assms(2)] by (auto simp: getFileRecordById_def held_file_def owned_def plain_def)
qed

lemma held_file_kept: "kept env tid s s' \<Longrightarrow> repo_sound env (api_repo s) \<Longrightarrow> held_file tid s file \<Longrightarrow> held_file tid s' file"
  by (auto simp: held_file_def kept_def repo_kept_def)

lemma held_file_update:
  assumes "held_file tid s file" "''id'' \<notin> fst ` set us" "''tenantId'' \<notin> fst ` set us"
  shows "held_file tid s (spread file us)"
proof -
  obtain fs where "spread file us = JObj fs" using spread_is_obj by blast
  then have "is_obj (spread file us)" by (simp add: is_obj_def)
  then show ?thesis using assms by (auto simp: held_file_def fld_spread_rest)
qed

lemma repo_kept_file:
  assumes "held_file tid s file"
  shows "repo_kept env tid (api_repo s) ((api_repo s)\<lparr>fileRecordStore := store_set (fld file ''id'') (json_clone file) (fileRecordStore (api_repo s))\<rparr>)"
  using assms by (intro repo_kept_set_file) (auto simp: held_file_def fits_def)

lemma kept_saveFileRecord:
  assumes "held_file tid s file"
  shows "kept env tid s (fst (on_repo (transition (saveFileRecord file)) s))"
  by (rule kept_on_repo) (use repo_kept_file [OF assms] in \<open>auto simp: saveFileRecord_def put_existing_def guard_simps\<close>)

lemma kept_finalize_file:
  assumes f: "held_file tid s file" and who: "plain who" and d: "datum before" "datum after" and h: "hmac_nonempty env"
  shows "kept env tid s (fst (finalize_file env tid who action file before after s))"
proof -
  let ?entry = "\<lparr>an_tenantId = tid, an_actorId = fld who ''userId'', an_action = action, an_resourceType = ''file_record'',
     an_resourceId = fld file ''id'', an_before = before, an_after = after\<rparr>"
  have e: "entry_ok ?entry" "an_tenantId ?entry = tid"
    using f who d by (auto simp: entry_ok_def held_file_def datum_fld)
  have fin: "kept env tid s (fst (on_repo (transition (finalizeFileRecord file event)) s))"
    if b: "buildTenantAuditEvent (m_ctx (ae_mail env)) (ae_signingKey env) ?entry (api_repo s) = Inr event" for event
  proof (rule kept_on_repo)
    fix r r' v assume r: "api_repo s = r" and fin: "finalizeFileRecord file event r = Inr (r', v)"
    let ?r = "r\<lparr>fileRecordStore := store_set (fld file ''id'') (json_clone file) (fileRecordStore r)\<rparr>"
    have "buildTenantAuditEvent (m_ctx (ae_mail env)) (ae_signingKey env) ?entry ?r = Inr event"
      using b r by (simp add: buildTenantAuditEvent_def tenant_last_hash_def listAuditEventsByTenant_def)
    then have "repo_kept env tid ?r (fst (appendAuditEvent event ?r))"
      using repo_kept_append [OF _ e same_hashes_later(1) h] by blast
    moreover have "r' = fst (appendAuditEvent event ?r)"
      using fin by (auto simp: finalizeFileRecord_def saveFileRecord_def put_existing_def guard_simps)
    ultimately show "repo_kept env tid r r'"
      using repo_kept_file [OF f] r by (auto simp: repo_kept_def)
  qed
  show ?thesis
    unfolding finalize_file_def Let_def
    by (auto simp: public_item_def fileOutboxEvent_def intro!: kept_seq fin kept_put_in_outbox tenant_event_tenant split: sum.split)
qed

lemma storage_keeps:
  "kept env tid s (fst (storage_headObject st file s))" "kept env tid s (fst (storage_putObject env' st file body t s))"
  "kept env tid s (fst (storage_getObject st file s))" "kept env tid s (fst (storage_deleteObject st file s))"
  by (auto simp: storage_headObject_def storage_putObject_def storage_getObject_def storage_deleteObject_def on_part_def
      split: storage.split prod.split intro!: kept_same_data)

lemma kept_completeFileUpload:
  assumes f: "held_file tid s file" "plain file" and who: "plain who" and h: "hmac_nonempty env"
  shows "kept env tid s (fst (completeFileUpload env tid who file s))"
proof (rule kept_if_sound)
  assume sound: "repo_sound env (api_repo s)"
  have fin: "kept env tid s' (fst (finalize_file env tid who ''api.file.upload_completed''
      (spread file [(''status'', JStr ''ready''), (''checksumSha256'', c), (''updatedAt'', now_text (ae_mail env))])
      (fld file ''status'') after s'))"
    if m: "storage_headObject st file s = (s', v)" and a: "datum after" for st s' v c after
  proof -
    have "kept env tid s (fst (storage_headObject st file s))" by (rule storage_keeps)
    with m have "held_file tid s' file" using held_file_kept [OF _ sound f(1)] by simp
    then show ?thesis using a f who
    by (intro kept_finalize_file [OF _ _ _ _ h] held_file_update) (auto simp: datum_fld)
  qed
  show "kept env tid s (fst (completeFileUpload env tid who file s))"
    unfolding completeFileUpload_def Let_def
    by (auto intro!: kept_seq storage_keeps fin split: sum.split)
qed

lemma kept_or_answer: "kept env tid s (fst (m s)) \<Longrightarrow> (\<And>s. kept env tid s (fst (k s))) \<Longrightarrow> kept env tid s (fst (or_answer m r k s))"
  unfolding or_answer_def by (auto intro!: kept_seq kept_attempt)

lemma kept_public_item [simp]: "kept env tid s (fst (public_item file extra n s))"
  by (auto simp: public_item_def split: sum.split)

lemma pending_fields:
  assumes "createPendingFileRecord menv (spread parsed [(''tenantId'', JStr tid), (''createdBy'', u)]) cfg = Inr file" "js_trim tid = tid"
  shows "fld file ''tenantId'' = JStr tid \<and> (\<exists>i. fld file ''id'' = JStr i)"
proof -
  have "fld (spread parsed [(''tenantId'', JStr tid), (''createdBy'', u)]) ''tenantId'' = JStr tid"
    by (simp add: spread_def)
  then show ?thesis
    using assms by (auto simp: createPendingFileRecord_def trimmedString_def guard_simps Let_def split: if_splits)
qed

lemma kept_createFileRecord:
  assumes "fld file ''tenantId'' = JStr tid" "\<exists>i. fld file ''id'' = JStr i"
  shows "kept env tid s (fst (on_repo (transition (repo_createFileRecord file)) s))"
  by (rule kept_on_repo) (use assms in \<open>auto simp: repo_createFileRecord_def guard_simps store_has_def intro!: repo_kept_set_file fits_new\<close>)

lemma kept_upload_intent:
  assumes "js_trim tid = tid"
  shows "kept env tid s (fst (upload_intent env who tid parsed s))"
  unfolding upload_intent_def Let_def
  using pending_fields [OF _ assms]
  by (auto intro!: kept_attempt kept_seq kept_createFileRecord split: sum.split)

lemma kept_file_intent:
  assumes "js_trim tid = tid"
  shows "kept env tid s (fst (file_intent env rq who tid s))"
  unfolding file_intent_def
  by (rule kept_gated) (auto intro!: kept_upload_intent [OF assms] split: sum.split option.split)

lemma kept_on_file:
  assumes "\<And>file. repo_sound env (api_repo s) \<Longrightarrow> (in_tenant file tid \<Longrightarrow> held_file tid s file \<and> plain file) \<Longrightarrow> kept env tid s (fst (k file s))"
  shows "kept env tid s (fst (on_file i k s))"
proof (rule kept_if_sound)
  assume sound: "repo_sound env (api_repo s)"
  show ?thesis using assms [OF sound held_file_read [OF sound]] by (simp add: on_file_def)
qed

lemma kept_file_complete:
  assumes "in_tenant file tid \<Longrightarrow> held_file tid s file \<and> plain file" "plain who" "hmac_nonempty env"
  shows "kept env tid s (fst (file_complete env who tid file s))"
  unfolding file_complete_def
  by (rule kept_gated) (use assms in \<open>auto intro!: kept_or_answer kept_enqueueFileOutbox kept_attempt kept_completeFileUpload\<close>)

lemma kept_file_upload:
  assumes "in_tenant file tid \<Longrightarrow> held_file tid s file \<and> plain file" "repo_sound env (api_repo s)" "plain who" "hmac_nonempty env"
  shows "kept env tid s (fst (file_upload env rq who tid file s))"
  unfolding file_upload_def
proof (rule kept_gated)
  have put: "kept env tid s (fst (attempt (seq (storage_putObject env st file body t) (\<lambda>_. completeFileUpload env tid who file)) (\<lambda>e. give r) s))"
    if own: "in_tenant file tid" for st body t r
  proof (rule kept_attempt, rule kept_seq, rule storage_keeps)
    fix s' v assume m: "storage_putObject env st file body t s = (s', Inr v)"
    have "kept env tid s (fst (storage_putObject env st file body t s))" by (rule storage_keeps)
    with m have "kept env tid s s'" by simp
    then have "held_file tid s' file" using held_file_kept assms(1) [OF own] assms(2) by blast
    then show "kept env tid s' (fst (completeFileUpload env tid who file s'))"
      using assms(1) [OF own] assms(3,4) by (intro kept_completeFileUpload) auto
  qed simp
  show "kept env tid s (fst ((if \<not> in_tenant file tid then give file_missing
     else if \<not> status_is ''pending_upload'' file then give (badRequest ''File is not awaiting content.'')
     else seq (from_res (ae_storage env)) (\<lambda>st.
     if \<not> is_local st then give (badRequest ''Direct API uploads are disabled for object storage.'')
     else case rq_body rq of
       BinaryBody body \<Rightarrow>
         (if \<not> strict_eq (JNum (of_nat (length body))) (fld file ''sizeBytes'')
          then give (badRequest ''Uploaded content length does not match the declared file size.'')
          else let contentType = header_type (rq_headers rq) in
          if \<not> strict_eq (JStr contentType) (fld file ''mimeType'')
          then give (badRequest ''Uploaded content type does not match the declared MIME type.'')
          else attempt
            (seq (storage_putObject env st file body (JStr contentType)) (\<lambda>_. completeFileUpload env tid who file))
            (\<lambda>e. give (unavailable ''file_storage_unavailable'' ''File storage could not persist or verify the uploaded object.'')))
     | _ \<Rightarrow> give (badRequest ''File content must be sent as a binary request body.''))) s))"
    by (auto simp: Let_def put split: sum.split req_body.split)
qed

lemma kept_file_reads:
  "kept env tid s (fst (file_list who tid s))" "kept env tid s (fst (file_download env who tid file s))"
  "kept env tid s (fst (file_content env who tid file s))"
proof -
  show "kept env tid s (fst (file_list who tid s))"
    unfolding file_list_def by (rule kept_gated) (auto split: sum.split)
  show "kept env tid s (fst (file_download env who tid file s))"
    unfolding file_download_def by (auto split: sum.split option.split)
  show "kept env tid s (fst (file_content env who tid file s))"
    unfolding file_content_def Let_def by (auto intro!: kept_seq storage_keeps split: sum.split option.split)
qed

lemma kept_remove_object:
  assumes f: "held_file tid s file" "held_file tid s deleting" and sound: "repo_sound env (api_repo s)"
  shows "kept env tid s (fst (remove_object env file deleting s))"
  unfolding remove_object_def
proof (rule kept_attempt)
  let ?m = "seq (if status_is ''deleting'' file then give file else on_repo (transition (saveFileRecord deleting))) (\<lambda>_.
      seq (from_res (ae_storage env)) (\<lambda>st. seq (storage_deleteObject st deleting) (\<lambda>_. give True)))"
  show m: "kept env tid s (fst (?m s))"
    by (rule kept_seq) (auto intro!: kept_seq storage_keeps kept_saveFileRecord f split: sum.split)
  fix s' e assume "?m s = (s', Inl e)"
  then have "kept env tid s s'" using m by simp
  then have "held_file tid s' file" using held_file_kept [OF _ sound f(1)] by simp
  then show "kept env tid s' (fst (seq (if status_is ''deleting'' file then give file else on_repo (transition (saveFileRecord file))) (\<lambda>_. give False) s'))"
    by (intro kept_seq) (auto intro: kept_saveFileRecord)
qed

lemma kept_file_delete:
  assumes f: "in_tenant file tid \<Longrightarrow> held_file tid s file \<and> plain file" and sound: "repo_sound env (api_repo s)"
    and who: "plain who" and h: "hmac_nonempty env"
  shows "kept env tid s (fst (file_delete env who tid file s))"
proof -
  define deleting where "deleting = spread file [(''status'', JStr ''deleting''), (''updatedAt'', now_text (ae_mail env))]"
  have remove: "kept env tid s (fst (seq (remove_object env file deleting) (\<lambda>removed.
     if \<not> removed then give (unavailable ''file_storage_unavailable'' ''File storage could not delete the object.'')
     else attempt (finalize_file env tid who ''api.file.deleted''
         (spread deleting [(''status'', JStr ''deleted''), (''deletedAt'', now_text (ae_mail env)), (''updatedAt'', now_text (ae_mail env))])
         (fld file ''status'') (JStr ''deleted''))
         (\<lambda>e. give (unavailable ''file_delete_finalization_pending''
            ''Object deletion succeeded; retry DELETE to finalize metadata and audit evidence.''))) s))" if "in_tenant file tid"
  proof -
    have d: "held_file tid s deleting"
      unfolding deleting_def using f [OF that] by (intro held_file_update) auto
    have k: "kept env tid s (fst (remove_object env file deleting s))"
      using f [OF that] d sound by (intro kept_remove_object) auto
    show ?thesis
    proof (rule kept_seq, rule k)
      fix s' removed assume "remove_object env file deleting s = (s', Inr removed)"
      then have "kept env tid s s'" using k by simp
      then have d': "held_file tid s' deleting" using held_file_kept sound d by blast
      show "kept env tid s' (fst ((if \<not> removed then give (unavailable ''file_storage_unavailable'' ''File storage could not delete the object.'')
         else attempt (finalize_file env tid who ''api.file.deleted''
           (spread deleting [(''status'', JStr ''deleted''), (''deletedAt'', now_text (ae_mail env)), (''updatedAt'', now_text (ae_mail env))])
           (fld file ''status'') (JStr ''deleted''))
           (\<lambda>e. give (unavailable ''file_delete_finalization_pending''
            ''Object deletion succeeded; retry DELETE to finalize metadata and audit evidence.''))) s'))"
        using d' who h f [OF that] by (auto intro!: kept_attempt kept_finalize_file held_file_update datum_fld)
    qed
  qed
  show ?thesis
    unfolding file_delete_def Let_def deleting_def [symmetric]
    by (rule kept_gated) (auto intro!: kept_or_answer kept_enqueueFileOutbox remove)
qed

lemma kept_route_files:
  assumes "plain who" "hmac_nonempty env" "js_trim tid = tid"
  shows "kept env tid s (fst (route_files env rq who tid segs s))"
  unfolding route_files_def
  by (auto simp: kept_file_reads intro!: kept_on_file kept_file_intent kept_file_complete kept_file_upload kept_file_delete assms
      split: list.split)

section \<open>All routes\<close>

lemma kept_reads:
  "kept env tid s (fst (item_by_id getter missing t i s))" "kept env tid s (fst (executive_route who t s))"
  "kept env tid s (fst (workspace_route who t s))" "kept env tid s (fst (audit_report_route env' who t s))"
  "kept env tid s (fst (transfers_route who t s))" "kept env tid s (fst (portal_route env' who t s))"
  by (auto simp: item_by_id_def executive_route_def workspace_route_def audit_report_route_def transfers_route_def
      portal_route_def Let_def intro!: kept_gated split: sum.split)

lemma resource_for_member: "resource_for seg = Some c \<Longrightarrow> c \<in> set collectionResources"
  by (simp add: resource_for_def find_SomeD)

lemma kept_collection_route:
  assumes "c \<in> set collectionResources" "plain who" "hmac_nonempty env"
  shows "kept env tid s (fst (collection_route env rq who tid pathname query c s))"
  unfolding collection_route_def
  by (rule kept_gated) (auto intro!: kept_withIdempotency kept_handleCollectionCreate datum_fld assms)

lemma kept_route_tenant:
  assumes "plain who" "hmac_nonempty env" "js_trim tid = tid"
  shows "kept env tid s (fst (route_tenant env rq who tid pathname query segs s))"
proof -
  have one: "kept env tid s (fst (route_one env rq who tid pathname query seg s))" for seg
  proof (cases "if rq_method rq \<in> {''GET'', ''POST''} then resource_for seg else None")
    case None
    then show ?thesis
      unfolding route_one_def by (simp only: option.case) (simp add: kept_gated kept_reads)
  next
    case (Some c)
    then have "c \<in> set collectionResources" by (auto intro: resource_for_member split: if_splits)
    then show ?thesis
      unfolding route_one_def Some using assms by (simp add: kept_gated kept_collection_route)
  qed
  have two: "kept env tid s (fst (route_two env rq who tid a b s))" for a b
    unfolding route_two_def by (auto intro!: kept_gated kept_reads)
  have three: "kept env tid s (fst (route_three env rq who tid a b d s))" for a b d
    unfolding route_three_def by (auto intro!: kept_draft_route kept_review_route kept_finding_route assms)
  show ?thesis
    unfolding route_tenant_def by (auto simp: one two three kept_route_files [OF assms] split: list.split)
qed

end
