(* ===== verification/ApiSecurity.thy ===== *)
theory ApiSecurity
  imports ApiKept
begin

text \<open>
  The security properties of the API: what a request needs to succeed or to change anything, what it
  leaves untouched, and that every tenant's audit chain verifies after any sequence of requests.
\<close>

section \<open>The permission a route needs\<close>

text \<open>The resource and the action of every route; no route for anything else.\<close>

definition file_permission :: "string \<Rightarrow> string list \<Rightarrow> (string \<times> string) option" where
  "file_permission verb segments =
    (case segments of
       [] \<Rightarrow> if verb = ''GET'' then Some (''file_record'', ''read'') else None
     | [a] \<Rightarrow>
         if verb = ''POST'' \<and> a = ''upload-intents'' then Some (''file_record'', ''create'')
         else if verb = ''DELETE'' then Some (''file_record'', ''delete'') else None
     | [a, b] \<Rightarrow>
         if verb = ''POST'' \<and> b = ''complete'' \<or> verb = ''PUT'' \<and> b = ''content'' then Some (''file_record'', ''update'')
         else if verb = ''GET'' \<and> (b = ''download'' \<or> b = ''content'') then Some (''file_record'', ''read'') else None
     | _ \<Rightarrow> None)"

definition collection_permission :: "string \<Rightarrow> string \<Rightarrow> (string \<times> string) option" where
  "collection_permission verb segment =
    (if verb = ''GET'' \<or> verb = ''POST''
     then map_option (\<lambda>c. (c_resourceType c, if verb = ''POST'' then ''create'' else ''read'')) (resource_for segment) else None)"

definition single_permission :: "string \<Rightarrow> string \<Rightarrow> (string \<times> string) option" where
  "single_permission verb segment =
    (if verb = ''GET'' \<and> segment = ''email-deliveries'' then Some (''email_delivery'', ''read'')
     else case collection_permission verb segment of Some p \<Rightarrow> Some p
     | None \<Rightarrow> if verb \<noteq> ''GET'' then None else map_of
         [(''blueprint-workspace'', (''project'', ''read'')), (''audit-events'', (''audit_event'', ''read'')),
          (''transfers'', (''transfer'', ''read'')), (''client-portal'', (''client_portal'', ''read''))] segment)"

definition route_permission :: "string \<Rightarrow> string list \<Rightarrow> (string \<times> string) option" where
  "route_permission verb segments =
    (case segments of
       [] \<Rightarrow> None
     | a # rest \<Rightarrow>
         if a = ''files'' then file_permission verb rest
         else (case rest of
            [] \<Rightarrow> single_permission verb a
          | [b] \<Rightarrow> if verb \<noteq> ''GET'' then None
              else if a = ''platform-blueprints'' then Some (''platform_blueprint'', ''read'')
              else if a = ''field-reports'' then Some (''field_report'', ''read'')
              else if a = ''dashboard'' \<and> b = ''executive'' then Some (''executive_dashboard'', ''read'')
              else if a = ''audit-events'' \<and> b = ''verify'' then Some (''audit_event'', ''read'') else None
          | [b, d] \<Rightarrow> if verb \<noteq> ''POST'' then None
              else if a = ''field-reports'' \<and> (d = ''draft'' \<or> d = ''review'') then Some (''field_report'', ''update'')
              else if a = ''ai-findings'' \<and> d = ''disposition'' then Some (''ai_finding'', ''update'') else None
          | _ \<Rightarrow> None))"

text \<open>A route that only refuses: it answers without success and changes nothing.\<close>

definition refuses :: "(api, response) act \<Rightarrow> api \<Rightarrow> bool" where
  "refuses m s = (\<exists>r. m s = (s, Inr r) \<and> \<not> successful r)"

lemma refusal_status [simp]: "rs_status (refusal n a b) = n" "rs_status (badRequest m) = 400" "rs_status (notFound m) = 404"
  "rs_status (forbidden m) = 403" "rs_status (unavailable a b) = 503"
  by (simp_all add: refusal_def badRequest_def notFound_def forbidden_def unavailable_def json_def)

lemma refuses_give: "\<not> successful r \<Longrightarrow> refuses (give r) s"
  by (simp add: refuses_def)

lemma refuses_no_route [simp]: "refuses (give no_route) s"
  by (simp add: refuses_def successful_def no_route_def)

lemma authorize_refusal: "authorize who tid res act = Some d \<Longrightarrow> \<not> successful d"
  by (auto simp: authorize_def successful_def Let_def split: if_splits)

lemma refuses_gated: "authorize who tid res act \<noteq> None \<Longrightarrow> refuses (gated who tid res act k) s"
  by (auto simp: gated_def refuses_def dest: authorize_refusal)

lemma refuses_reading: "(\<And>v. refuses (f v) s) \<Longrightarrow> refuses (seq (reading g) f) s"
  by (simp add: refuses_def)

lemma refuses_file_read:
  assumes "authorize who tid ''file_record'' ''read'' \<noteq> None"
  shows "refuses (file_download env who tid file) s" "refuses (file_content env who tid file) s"
  using assms
  by (auto simp: file_download_def file_content_def canReadFile_def refuses_def successful_def file_missing_def
      dest: authorize_refusal [unfolded successful_def] split: option.splits)

text \<open>A conditional chain of routes refuses when each of its routes does under the permission of its condition.\<close>

definition needs :: "jsval \<Rightarrow> string \<Rightarrow> (string \<times> string) option \<Rightarrow> bool" where
  "needs who tid p = (case p of None \<Rightarrow> True | Some (res, act) \<Rightarrow> authorize who tid res act \<noteq> None)"

lemma needs_simps [simp]: "needs who tid None" "needs who tid (Some (res, act)) \<longleftrightarrow> authorize who tid res act \<noteq> None"
  by (simp_all add: needs_def)

lemma refuses_if:
  assumes "needs who tid (if b then p else q)" "b \<Longrightarrow> needs who tid p \<Longrightarrow> refuses m s" "\<not> b \<Longrightarrow> needs who tid q \<Longrightarrow> refuses n s"
  shows "refuses (if b then m else n) s"
  using assms by (cases b) auto

lemma refuses_on_file: "(\<And>file. refuses (k file) s) \<Longrightarrow> refuses (on_file i k) s"
  unfolding on_file_def by (rule refuses_reading)

lemma refused_files:
  assumes "needs who tid (file_permission (rq_method rq) segs)"
  shows "refuses (route_files env rq who tid segs) s"
proof -
  have simple: "authorize who tid ''file_record'' ''read'' \<noteq> None \<Longrightarrow> refuses (file_list who tid) s"
    "authorize who tid ''file_record'' ''create'' \<noteq> None \<Longrightarrow> refuses (file_intent env rq who tid) s"
    "authorize who tid ''file_record'' ''delete'' \<noteq> None \<Longrightarrow> refuses (on_file i (file_delete env who tid)) s"
    "authorize who tid ''file_record'' ''update'' \<noteq> None \<Longrightarrow> refuses (on_file i (file_complete env who tid)) s"
    "authorize who tid ''file_record'' ''update'' \<noteq> None \<Longrightarrow> refuses (on_file i (file_upload env rq who tid)) s"
    "authorize who tid ''file_record'' ''read'' \<noteq> None \<Longrightarrow> refuses (on_file i (file_download env who tid)) s"
    "authorize who tid ''file_record'' ''read'' \<noteq> None \<Longrightarrow> refuses (on_file i (file_content env who tid)) s" for i
    by (simp_all add: refuses_on_file refuses_gated refuses_file_read file_list_def file_intent_def file_delete_def
        file_complete_def file_upload_def)
  note rules = route_files_def file_permission_def list.case
  show ?thesis
  proof (cases segs)
    case Nil
    then show ?thesis using assms simple(1) by (simp add: rules split: if_splits)
  next
    case (Cons a rest)
    note c = this
    show ?thesis
    proof (cases rest)
      case Nil
      then show ?thesis using assms simple(2) simple(3) [of a] by (auto simp: c rules split: if_splits)
    next
      case (Cons b rest')
      then show ?thesis using assms simple(4-7) [of a] by (cases rest') (auto simp: c rules split: if_splits)
    qed
  qed
qed

lemma refused_single:
  assumes "needs who tid (single_permission (rq_method rq) seg)"
  shows "refuses (route_one env rq who tid pathname query seg) s"
proof (cases "rq_method rq = ''GET'' \<and> seg = ''email-deliveries''")
  case True
  then show ?thesis using assms by (simp add: single_permission_def route_one_def refuses_gated)
next
  case False
  note not_email = this
  show ?thesis
  proof (cases "if rq_method rq \<in> {''GET'', ''POST''} then resource_for seg else None")
    case None
    then have p: "collection_permission (rq_method rq) seg = None" by (auto simp: collection_permission_def split: if_splits)
    show ?thesis
      unfolding route_one_def None using assms not_email
      by (auto simp: single_permission_def p workspace_route_def transfers_route_def portal_route_def intro!: refuses_gated split: if_splits)
  next
    case (Some c)
    then have p: "collection_permission (rq_method rq) seg = Some (c_resourceType c, if rq_method rq = ''POST'' then ''create'' else ''read'')"
      by (auto simp: collection_permission_def split: if_splits)
    show ?thesis
      unfolding route_one_def Some using assms not_email
      by (auto simp: single_permission_def p collection_route_def refuses_gated)
  qed
qed

lemma refused_route:
  assumes "needs who tid (route_permission (rq_method rq) segs)"
  shows "refuses (route_tenant env rq who tid pathname query segs) s"
  using assms
  by (auto simp: route_tenant_def route_permission_def route_two_def route_three_def executive_route_def audit_report_route_def
      report_draft_route_def report_review_route_def finding_route_def
      intro!: refused_files refused_single refuses_gated split: list.splits if_splits)

lemma authorize_None:
  "authorize who tid res act = None \<longleftrightarrow>
    fld who ''tenantId'' = JStr tid \<and> tid \<noteq> [] \<and> allowed (canPerform (gate_request who tid res act))"
  by (auto simp: authorize_def Let_def)

section \<open>The gate\<close>

text \<open>Where a request goes: to the public health check, to the routes of a tenant, or nowhere.\<close>

definition routed :: "api_env \<Rightarrow> request \<Rightarrow> (string \<times> string \<times> query \<times> string list) option" where
  "routed env rq =
    (case ae_url env (rq_path rq) of
       None \<Rightarrow> None
     | Some (pathname, query) \<Rightarrow> map_option (\<lambda>(tid, segments). (tid, pathname, query, segments)) (tenant_path pathname))"

definition health_check :: "api_env \<Rightarrow> request \<Rightarrow> bool" where
  "health_check env rq = (\<exists>query. ae_url env (rq_path rq) = Some (''/health'', query))"

lemma handle_cases:
  "(\<exists>r. handleApiRequest env rq s = (s, Inr r) \<and> (successful r \<longrightarrow> health_check env rq))
   \<or> (\<exists>tid pathname query segs. routed env rq = Some (tid, pathname, query, segs)
        \<and> handleApiRequest env rq s = attempt (route_tenant env rq (request_principal rq) tid pathname query segs)
            (\<lambda>e. give (if err_code e = Some ''SyntaxError'' then badRequest ''Malformed JSON request body.''
                else refusal 500 ''internal_error'' ''Staged runtime failed to process the request.'')) s)"
  by (auto simp: handleApiRequest_def routeApiRequest_def routed_def health_check_def attempt_def Let_def successful_def
      no_route_def split: option.splits)

lemma handle_routed:
  assumes "routed env rq = Some (tid, pathname, query, segs)"
    and "needs (request_principal rq) tid (route_permission (rq_method rq) segs)"
  shows "refuses (handleApiRequest env rq) s \<or> health_check env rq \<and> fst (handleApiRequest env rq s) = s"
  using handle_cases [of env rq s] assms refused_route [of "request_principal rq" tid rq segs env pathname query s]
  by (auto simp: refuses_def attempt_def)

lemma handle_answers: "\<exists>s' r. handleApiRequest env rq s = (s', Inr r)"
  by (auto simp: handleApiRequest_def attempt_def split: prod.split sum.split)

lemma request_gate:
  "\<exists>s' a. handleApiRequest env rq s = (s', Inr a)
    \<and> (s' = s \<and> \<not> successful a
     \<or> s' = s \<and> health_check env rq
     \<or> (\<exists>tid pathname query segs res act. routed env rq = Some (tid, pathname, query, segs)
         \<and> route_permission (rq_method rq) segs = Some (res, act)
         \<and> fld (request_principal rq) ''tenantId'' = JStr tid
         \<and> allowed (canPerform (gate_request (request_principal rq) tid res act))))"
proof -
  obtain s' a where a: "handleApiRequest env rq s = (s', Inr a)" using handle_answers by blast
  show ?thesis
  proof (cases "routed env rq")
    case None
    then show ?thesis using handle_cases [of env rq s] a by auto
  next
    case (Some p)
    then obtain tid pathname query segs where p: "routed env rq = Some (tid, pathname, query, segs)" by (cases p) auto
    show ?thesis
    proof (cases "needs (request_principal rq) tid (route_permission (rq_method rq) segs)")
      case True
      then show ?thesis using handle_routed [OF p True, of s] a by (auto simp: refuses_def)
    next
      case False
      then obtain res act where "route_permission (rq_method rq) segs = Some (res, act)"
        "authorize (request_principal rq) tid res act = None"
        by (auto simp: needs_def split: option.splits)
      then show ?thesis using p a by (auto simp: authorize_None)
    qed
  qed
qed

text \<open>
  C5. Every request is answered, and a request that succeeds or changes anything at all is the public
  health check, or was permitted: its path names a tenant, the tenant of the signed-in user is that
  tenant, and the access matrix grants the user's role the action on the resource that the route needs.
\<close>

theorem request_needs_permission:
  "\<exists>s' a. handleApiRequest env rq s = (s', Inr a)
    \<and> (s' = s \<and> \<not> successful a
     \<or> s' = s \<and> health_check env rq
     \<or> (\<exists>tid pathname query segs res act. routed env rq = Some (tid, pathname, query, segs)
         \<and> route_permission (rq_method rq) segs = Some (res, act)
         \<and> fld (request_principal rq) ''tenantId'' = JStr tid
         \<and> allowed (canPerform (gate_request (request_principal rq) tid res act))))"
  by (rule request_gate)

section \<open>Tenant isolation\<close>

text \<open>
  What the environment is relied on for: paths that the URL parser hands out have no white space (it is
  percent-encoded), digests are not empty, and header and principal are plain data.
\<close>

definition clean_env :: "api_env \<Rightarrow> bool" where
  "clean_env env = (hmac_nonempty env
     \<and> (\<forall>p pathname query. ae_url env p = Some (pathname, query) \<longrightarrow> list_all (\<lambda>c. \<not> js_ws c) pathname))"

definition plain_request :: "request \<Rightarrow> bool" where
  "plain_request rq = (plain (rq_principal rq) \<and> plain (rq_headers rq))"

lemma plain_principal:
  assumes "plain_request rq"
  shows "plain (request_principal rq)"
proof -
  have h: "datum (staged_user (rq_headers rq))" "datum (staged_tenant (rq_headers rq) None)"
    using assms by (auto simp: plain_request_def staged_user_def staged_tenant_def intro!: datum_coalesce datum_fld)
  moreover have "staged_user (rq_headers rq) \<noteq> JUndef" "staged_tenant (rq_headers rq) None \<noteq> JUndef"
    by (auto simp: staged_user_def staged_tenant_def coalesce_def nullish_def)
  ultimately show ?thesis
    using assms by (auto simp: request_principal_def resolveStagedPrincipal_def coalesce_def plain_request_def plain_obj datum_def)
qed

lemma split_chars: "x \<in> set (split c s) \<Longrightarrow> set x \<subseteq> set s"
proof (induction s arbitrary: x rule: split.induct)
  case (2 c y s)
  then show ?case by (cases "y = c") (auto split: list.splits, fastforce+)
qed simp

lemma routed_tenant:
  assumes "routed env rq = Some (tid, pathname, query, segs)" "clean_env env"
  shows "js_trim tid = tid"
proof -
  obtain q where u: "ae_url env (rq_path rq) = Some (pathname, q)" and t: "tenant_path pathname = Some (tid, segs)"
    using assms(1) by (auto simp: routed_def split: option.splits)
  have "tid \<in> set (splitPath pathname)"
    using t by (auto simp: tenant_path_def split: list.splits if_splits)
  then have "set tid \<subseteq> set (strip_slashes pathname)"
    by (auto simp: splitPath_def dest: split_chars)
  then have "set tid \<subseteq> set pathname"
    by (auto simp: strip_slashes_def dest!: set_dropWhileD)
  then have "list_all (\<lambda>c. \<not> js_ws c) tid"
    using assms(2) u unfolding clean_env_def list_all_iff by blast
  then have "dropWhile js_ws tid = tid" "dropWhile js_ws (rev tid) = rev tid"
    by (auto simp: list_all_iff dropWhile_eq_self_iff hd_rev)
  then show ?thesis by (simp add: js_trim_def)
qed

text \<open>A request leads from a sound state to a sound one and leaves the other tenants alone.\<close>

lemma request_kept:
  assumes "clean_env env" "plain_request rq" "routed env rq = Some (tid, pathname, query, segs)"
  shows "kept env tid s (fst (handleApiRequest env rq s))"
  using handle_cases [of env rq s]
proof (elim disjE exE conjE)
  fix tid' pathname' query' segs'
  assume "routed env rq = Some (tid', pathname', query', segs')"
    and h: "handleApiRequest env rq s = attempt (route_tenant env rq (request_principal rq) tid' pathname' query' segs')
            (\<lambda>e. give (if err_code e = Some ''SyntaxError'' then badRequest ''Malformed JSON request body.''
                else refusal 500 ''internal_error'' ''Staged runtime failed to process the request.'')) s"
  then have "tid' = tid" using assms(3) by simp
  then show ?thesis
    using assms(1) routed_tenant [OF assms(3,1)] plain_principal [OF assms(2)] unfolding h
    by (auto simp: clean_env_def intro!: kept_attempt kept_route_tenant)
qed simp

lemma request_sound:
  assumes "clean_env env" "plain_request rq" "repo_sound env (api_repo s)"
  shows "repo_sound env (api_repo (fst (handleApiRequest env rq s)))"
proof (cases "routed env rq")
  case None
  then show ?thesis using handle_cases [of env rq s] assms by auto
next
  case (Some p)
  then obtain tid pathname query segs where "routed env rq = Some (tid, pathname, query, segs)" by (cases p) auto
  from request_kept [OF assms(1,2) this, of s] assms(3) show ?thesis by (simp add: kept_def repo_kept_def)
qed

lemma request_isolated:
  assumes "clean_env env" "plain_request rq" "repo_sound env (api_repo s)"
    and "fld (request_principal rq) ''tenantId'' \<noteq> JStr T"
  shows "tenant_lists T (api_repo (fst (handleApiRequest env rq s))) = tenant_lists T (api_repo s)
    \<and> tenant_jobs T (api_outbox (fst (handleApiRequest env rq s))) = tenant_jobs T (api_outbox s)"
  using request_gate [of env rq s]
proof (elim exE conjE disjE)
  fix s' a tid pathname query segs res act
  assume h: "handleApiRequest env rq s = (s', Inr a)" and r: "routed env rq = Some (tid, pathname, query, segs)"
    and "fld (request_principal rq) ''tenantId'' = JStr tid"
  then have "T \<noteq> tid" using assms(4) by auto
  then show ?thesis
    using request_kept [OF assms(1,2) r, of s] assms(3) by (simp add: kept_def repo_kept_def)
qed simp_all

section \<open>Any sequence of requests\<close>

definition same_trust :: "api_env \<Rightarrow> api_env \<Rightarrow> bool" where
  "same_trust env env' = (ctx_sha256 (m_ctx (ae_mail env')) = ctx_sha256 (m_ctx (ae_mail env))
     \<and> ctx_hmac (m_ctx (ae_mail env')) = ctx_hmac (m_ctx (ae_mail env)) \<and> ae_signingKey env' = ae_signingKey env)"

definition initial_api :: "disk \<Rightarrow> api" where
  "initial_api d = \<lparr>api_repo = createMemoryRepository createSeedState, api_outbox = createOutboxStore, api_idempotency = [], api_disk = d\<rparr>"

inductive served :: "api_env \<Rightarrow> api \<Rightarrow> bool" for base where
  start: "served base (initial_api d)"
| request: "served base s \<Longrightarrow> same_trust base env \<Longrightarrow> clean_env env \<Longrightarrow> plain_request rq \<Longrightarrow>
    served base (fst (handleApiRequest env rq s))"

lemma sound_same_trust: "same_trust base env \<Longrightarrow> repo_sound env r = repo_sound base r"
  by (simp add: repo_sound_def same_trust_def)

lemma seed_plain: "plain_store (seed_store vs)"
proof -
  have "plain_store s \<Longrightarrow> plain_store (fold (\<lambda>v. store_set (fld v ''id'') (json_clone v)) vs s)" for s
    by (induction vs arbitrary: s) (auto simp: plain_store_set)
  then show ?thesis by (simp add: seed_store_def plain_store_def)
qed

lemma seed_keyed: "(\<And>v. v \<in> set vs \<Longrightarrow> \<exists>i. fld v ''id'' = JStr i) \<Longrightarrow> keyed_store (seed_store vs)"
proof -
  assume k: "\<And>v. v \<in> set vs \<Longrightarrow> \<exists>i. fld v ''id'' = JStr i"
  have "keyed_store s \<Longrightarrow> keyed_store (fold (\<lambda>v. store_set (fld v ''id'') (json_clone v)) vs s)" for s
    using k
  proof (induction vs arbitrary: s)
    case (Cons v vs)
    then obtain i where "fld v ''id'' = JStr i" by auto
    then have "keyed_store (store_set (fld v ''id'') (json_clone v) s)"
      using Cons.prems(1) by (intro keyed_store_set) auto
    then show ?case using Cons by simp
  qed simp
  then show ?thesis by (simp add: seed_store_def keyed_store_def named_store_def)
qed

lemma report_fixtures_named: "list_all (\<lambda>v. case fld v ''id'' of JStr i \<Rightarrow> True | _ \<Rightarrow> False) syntheticFieldReports"
  by code_simp

lemma initial_sound: "repo_sound env (api_repo (initial_api d))"
proof -
  have "\<exists>i. fld v ''id'' = JStr i" if "v \<in> set (map json_clone syntheticFieldReports)" for v
  proof -
    from that obtain w where w: "v = json_clone w" "w \<in> set syntheticFieldReports" by auto
    have "case fld w ''id'' of JStr i \<Rightarrow> True | _ \<Rightarrow> False" using report_fixtures_named w(2) by (simp only: list_all_iff)
    then obtain i where "fld w ''id'' = JStr i" by (cases "fld w ''id''") auto
    then show ?thesis using w(1) by auto
  qed
  then show ?thesis
    using seed_plain seed_keyed [of "map json_clone syntheticFieldReports"]
    by (simp add: repo_sound_def initial_api_def createMemoryRepository_def createSeedState_def seed_list_def cloned_def
        listAuditEventsByTenant_def of_tenant_def chain_ok_def verifyAuditChain_def)
       (simp add: seed_store_def keyed_store_def named_store_def)
qed

lemma served_sound: "served base s \<Longrightarrow> repo_sound base (api_repo s)"
proof (induction rule: served.induct)
  case (request s env rq)
  then show ?case using request_sound [of env rq s] sound_same_trust [of base env] by simp
qed (rule initial_sound)

text \<open>An environment for examples, its start and a request.\<close>

definition demo_api_env :: api_env where
  "demo_api_env = \<lparr>ae_mail = \<lparr>m_ctx = \<lparr>ctx_uuid = (\<lambda>n. ''u'' @ nat_string n), ctx_now = ''2026-01-01T00:00:00.000Z'',
       ctx_sha256 = (\<lambda>s. ''h'' @ s), ctx_hmac = (\<lambda>k s. ''m'' @ k @ s)\<rparr>,
       m_now = 1767225600000, m_legacy = (\<lambda>_. None), m_url = (\<lambda>_. None)\<rparr>,
     ae_json = (\<lambda>_. None), ae_url = (\<lambda>p. if list_all (\<lambda>c. \<not> js_ws c) p then Some (p, Map.empty) else None),
     ae_collate = (\<lambda>a b. length a \<le> length b), ae_signingKey = JStr ''key'', ae_webAppUrl = ''https://x'',
     ae_storage = Inl type_error, ae_directory = None, ae_portalConfiguration = (\<lambda>_. JNull), ae_portalData = (\<lambda>_. JNull)\<rparr>"

definition demo_request :: request where
  "demo_request = \<lparr>rq_method = ''POST'', rq_path = ''/v1/tenants/t1/issues'', rq_headers = JObj [(''x-staged-tenant-id'', JStr ''t1'')],
     rq_body = ValueBody (JObj [(''title'', JStr ''Leak'')]), rq_principal = JNull, rq_oidc = False\<rparr>"

definition demo_disk :: disk where
  "demo_disk = \<lparr>d_objects = [], d_metadata = []\<rparr>"

lemma demo_trust: "same_trust demo_api_env demo_api_env" "clean_env demo_api_env" "plain_request demo_request"
  by (simp_all add: same_trust_def clean_env_def hmac_nonempty_def demo_api_env_def plain_request_def demo_request_def plain_obj)

lemma demo_served: "served demo_api_env (fst (handleApiRequest demo_api_env demo_request (initial_api demo_disk)))"
  by (rule served.request [OF served.start demo_trust])

text \<open>
  From the start of the in-memory API, after any sequence of requests of any users, under environments with
  the same hash functions and signing key, the audit trail of every tenant verifies: the verification
  report of the API says so. No route, on any path and error, appends an event that breaks a chain.
\<close>

theorem served_audit_verifies:
  assumes "served base s" and "same_trust base env"
  shows "\<exists>report. buildAuditVerificationReport (m_ctx (ae_mail env)) (ae_signingKey env)
      (listAuditEventsByTenant (api_repo s) (JStr T)) = Inr report \<and> fld report ''valid'' = JBool True"
  using served_sound [OF assms(1)] assms(2)
  by (auto simp: repo_sound_def chain_ok_def same_trust_def buildAuditVerificationReport_def verdict_ok_def)

lemma served_audit_verifies_witness:
  "\<exists>report. buildAuditVerificationReport (m_ctx (ae_mail demo_api_env)) (ae_signingKey demo_api_env)
      (listAuditEventsByTenant (api_repo (fst (handleApiRequest demo_api_env demo_request (initial_api demo_disk)))) (JStr ''t1'')) = Inr report
    \<and> fld report ''valid'' = JBool True"
  by (rule served_audit_verifies [OF demo_served demo_trust(1)])

text \<open>
  C3. Tenant isolation. In every state that requests can reach, a request of a user of one tenant
  changes nothing that belongs to another: no list of records, files, deliveries or audit events of the other tenant,
  and none of its outbox jobs, whatever the path and body of the request and whether it succeeds or fails half-way.
\<close>

theorem tenant_isolation:
  assumes "served env s" "clean_env env" "plain_request rq"
    and "fld (request_principal rq) ''tenantId'' \<noteq> JStr T"
  shows "tenant_lists T (api_repo (fst (handleApiRequest env rq s))) = tenant_lists T (api_repo s)
    \<and> tenant_jobs T (api_outbox (fst (handleApiRequest env rq s))) = tenant_jobs T (api_outbox s)"
  by (rule request_isolated [OF assms(2,3) served_sound [OF assms(1)] assms(4)])

lemma tenant_isolation_witness:
  "let s = fst (handleApiRequest demo_api_env demo_request (initial_api demo_disk)) in
   tenant_lists ''t2'' (api_repo (fst (handleApiRequest demo_api_env demo_request s))) = tenant_lists ''t2'' (api_repo s)
    \<and> tenant_jobs ''t2'' (api_outbox (fst (handleApiRequest demo_api_env demo_request s))) = tenant_jobs ''t2'' (api_outbox s)"
  unfolding Let_def
proof (rule tenant_isolation [OF demo_served demo_trust(2,3)])
  show "fld (request_principal demo_request) ''tenantId'' \<noteq> JStr ''t2''"
    by code_simp
qed

end
