(* ===== verification/ApiPages.thy ===== *)
theory ApiPages
  imports ApiSecurity
begin

text \<open>
  Lists of the API for its clients (\<open>paginate\<close> in apps/api/src/handlers.js): walking through the pages.
\<close>

section \<open>Pages\<close>

lemma digit_char_int: "n < 10 \<Longrightarrow> (of_char (char_of (48 + n) :: char) :: int) = 48 + int n"
  using digit_char [of n] by (metis of_nat_of_char of_nat_add of_nat_numeral)

lemma decimal_value_nat_string: "decimal_value (nat_string n) = int n"
proof (induction n rule: nat_string.induct)
  case (1 n)
  show ?case
  proof (cases "n < 10")
    case True
    then show ?thesis by (simp add: nat_string.simps decimal_value_def digit_char_int)
  next
    case False
    have "10 * int (n div 10) + int (n mod 10) = int n" by (metis mult_div_mod_eq of_nat_add of_nat_mult of_nat_numeral)
    then show ?thesis using False 1 by (subst nat_string.simps) (simp add: decimal_value_snoc digit_char_int)
  qed
qed

lemma number_of_nat_string:
  assumes "n < 2 ^ 32"
  shows "number_of_string (nat_string n) = JNum (of_nat n)"
proof -
  have "(of_int (int n) :: rat) < double_limit"
  proof -
    have "(2 ^ 32 :: rat) \<le> 2 ^ 970" "(2 ^ 970 :: rat) * 2 \<le> 2 ^ 1024" by simp_all
    moreover have "(of_nat n :: rat) < of_nat (2 ^ 32)" using assms by (rule of_nat_less_iff [THEN iffD2])
    ultimately show ?thesis unfolding double_limit_def by simp
  qed
  then show ?thesis
    using number_of_digits [of "nat_string n"] nat_string_digits [of n] by (simp add: decimal_value_nat_string finite_double_def)
qed

text \<open>The query of a client that asks for the page at an offset.\<close>

definition at_offset :: "query \<Rightarrow> nat \<Rightarrow> query" where
  "at_offset query i = query(''offset'' \<mapsto> nat_string i)"

lemma at_offset_simps:
  "page_limit (at_offset query i) = page_limit query" "with_status (at_offset query i) vs = with_status query vs"
  "i < 2 ^ 32 \<Longrightarrow> page_offset (at_offset query i) = int i"
  by (auto simp: page_limit_def with_status_def query_get_def at_offset_def page_offset_def js_number_def number_of_nat_string)

text \<open>The walk through the pages: the items of all of them, none if the fuel does not last.\<close>

fun walk :: "nat \<Rightarrow> jsval list \<Rightarrow> query \<Rightarrow> nat \<Rightarrow> jsval list option" where
  "walk 0 vs query i = None"
| "walk (Suc n) vs query i =
    (let p = paginate vs (at_offset query i) in
     case pg_next p of None \<Rightarrow> Some (pg_items p) | Some j \<Rightarrow> map_option ((@) (pg_items p)) (walk n vs query (nat j)))"

lemma walk_from:
  assumes "1 \<le> page_limit query" "length vs < 2 ^ 32" "i \<le> length (with_status query vs)"
    and "length (with_status query vs) - i < n"
  shows "walk n vs query i = Some (drop i (with_status query vs))"
  using assms(3,4)
proof (induction n arbitrary: i)
  case (Suc n)
  let ?xs = "with_status query vs"
  have "length ?xs \<le> length vs" by (simp add: with_status_def Let_def)
  then have i: "i < 2 ^ 32" using Suc.prems(1) assms(2) by linarith
  define l where "l = nat (page_limit query)"
  have l: "page_limit query = int l" "1 \<le> l" using assms(1) by (simp_all add: l_def)
  show ?case
  proof (cases "i + l < length ?xs")
    case True
    then have "walk n vs query (i + l) = Some (drop (i + l) ?xs)" using l Suc.prems by (intro Suc.IH) auto
    moreover have "nat (int i + int l) = i + l" by simp
    moreover have parts: "take l (drop i ?xs) @ drop (i + l) ?xs = drop i ?xs"
      by (metis add.commute append_take_drop_id drop_drop)
    ultimately show ?thesis
      using True i parts by (simp add: paginate_def at_offset_simps l(1) slice_list_def Let_def)
  next
    case False
    then show ?thesis using i by (simp add: paginate_def at_offset_simps l(1) slice_list_def Let_def)
  qed
qed simp

text \<open>
  C23. Pages are complete. A client that starts at the first page and follows \<open>nextOffset\<close> until it is
  null gets every item that matches the status filter exactly once and in order, and is done after
  at most one request per item and one more, for every limit of at least one.
\<close>

theorem pages_complete:
  assumes "1 \<le> page_limit query" "length vs < 2 ^ 32"
  shows "walk (length vs + 1) vs query 0 = Some (with_status query vs)"
proof -
  have "length (with_status query vs) \<le> length vs" by (simp add: with_status_def Let_def)
  then show ?thesis using walk_from [OF assms, of 0 "length vs + 1"] by simp
qed

lemma pages_complete_witness:
  "walk 4 [JStr ''a'', JStr ''b'', JStr ''c''] [''limit'' \<mapsto> ''2''] 0 = Some [JStr ''a'', JStr ''b'', JStr ''c'']"
proof -
  have "page_limit [''limit'' \<mapsto> ''2''] = 2" by code_simp
  then have "walk (length [JStr ''a'', JStr ''b'', JStr ''c''] + 1) [JStr ''a'', JStr ''b'', JStr ''c''] [''limit'' \<mapsto> ''2''] 0
      = Some (with_status [''limit'' \<mapsto> ''2''] [JStr ''a'', JStr ''b'', JStr ''c''])"
    by (intro pages_complete) simp_all
  moreover have "length [JStr ''a'', JStr ''b'', JStr ''c''] + 1 = 4" by simp
  ultimately show ?thesis by (simp only: with_status_def query_get_def Let_def) simp
qed

text \<open>A limit between zero and one is rounded down to zero: every page is empty and names itself as the next one.\<close>

lemma page_limit_half: "page_limit [''limit'' \<mapsto> ''0.5''] = 0"
  by code_simp

lemma pages_stuck:
  assumes "vs \<noteq> []"
  shows "walk n vs [''limit'' \<mapsto> ''0.5''] 0 = None"
proof -
  define q where "q = [''limit'' \<mapsto> ''0.5'']"
  have limit: "page_limit q = 0" unfolding q_def by (rule page_limit_half)
  have status: "with_status q vs = vs" by (simp add: with_status_def query_get_def q_def)
  have stuck: "paginate vs (at_offset q 0) = \<lparr>pg_items = [], pg_total = length vs, pg_limit = 0, pg_offset = 0, pg_next = Some 0\<rparr>"
    using assms by (simp add: paginate_def slice_list_def Let_def at_offset_simps limit status)
  have "walk n vs q 0 = None"
    by (induction n) (simp_all add: stuck Let_def)
  then show ?thesis by (simp add: q_def)
qed

end
