(* ===== verification/ApiReplay.thy ===== *)
theory ApiReplay
  imports ApiSecurity
begin

text \<open>
  Repeating a request under its idempotency key (apps/api/src/reliability/idempotency.js and its use in apps/api/src/handlers.js):
  an answer that was kept stays kept until it expires, whatever other requests come in between, and is
  what every repetition gets, without a second write.
\<close>

section \<open>A kept answer\<close>

definition kept_answer :: "string \<Rightarrow> int \<Rightarrow> api \<Rightarrow> response option" where
  "kept_answer k now s =
    (case map_of (api_idempotency s) k of Some (r, until) \<Rightarrow> if now < until then Some r else None | None \<Rightarrow> None)"

definition answer_stays :: "string \<Rightarrow> int \<Rightarrow> api \<Rightarrow> api \<Rightarrow> bool" where
  "answer_stays k now s s' =
    (kept_answer k now s \<noteq> None \<longrightarrow> map_of (api_idempotency s') k = map_of (api_idempotency s) k)"

lemma kept_answer_stays: "answer_stays k now s s' \<Longrightarrow> kept_answer k now s \<noteq> None \<Longrightarrow> kept_answer k t s' = kept_answer k t s"
  by (simp add: answer_stays_def kept_answer_def)

interpretation stays: change "answer_stays k now" for k now
proof (unfold_locales)
  show "answer_stays k now s s" for s by (simp add: answer_stays_def)
  show "answer_stays k now s s' \<Longrightarrow> answer_stays k now s' s'' \<Longrightarrow> answer_stays k now s s''" for s s' s''
    by (cases "kept_answer k now s") (auto simp: answer_stays_def kept_answer_def split: option.splits)
qed

text \<open>Operations on the repository, the outbox and the disk leave the answers alone.\<close>

lemma stays_on_parts [intro!]:
  "stays.stays_in k now (on_repo m)" "stays.stays_in k now (on_outbox m')" "stays.stays_in k now (on_disk m'')"
  by (auto simp: stays.stays_in_def answer_stays_def on_part_def split: prod.split)

lemma stays_basics [intro!]:
  "stays.stays_in k now (give v)" "stays.stays_in k now (from_res r)" "stays.stays_in k now (reading f)"
  by (rule stays.stays_in_give)+

lemmas stays_steps [intro!] = stays.stays_in_seq stays.stays_in_attempt stays.stays_in_for_each

lemma stays_gated [intro!]: "stays.stays_in k now m \<Longrightarrow> stays.stays_in k now (gated who tid res act m)"
  by (auto simp: gated_def split: option.split)

lemma stays_storage [intro!]:
  "stays.stays_in k now (storage_headObject st file)" "stays.stays_in k now (storage_putObject env st file body ct)"
  "stays.stays_in k now (storage_getObject st file)" "stays.stays_in k now (storage_deleteObject st file)"
  by (auto simp: storage_headObject_def storage_putObject_def storage_getObject_def storage_deleteObject_def split: storage.split)

lemma stays_evidence [intro!]:
  "stays.stays_in k now (appendTenantAuditEvent c key entry)" "stays.stays_in k now (put_in_outbox env event okey)"
  "stays.stays_in k now (enqueueTenantOutbox env c tid action res i scope)" "stays.stays_in k now (enqueueFileOutbox env c tid action i)"
  "stays.stays_in k now (public_item file extra n)"
  by (auto simp: appendTenantAuditEvent_def put_in_outbox_def enqueueTenantOutbox_def enqueueFileOutbox_def public_item_def)

lemma stays_remove_object [intro!]: "stays.stays_in k now (remove_object env file deleting)"
  by (auto simp: remove_object_def simp del: seq_give seq_from_res)

lemma stays_files [intro!]:
  "stays.stays_in k now (file_list who tid)" "stays.stays_in k now (file_intent env rq who tid)"
  "stays.stays_in k now (file_complete env who tid file)" "stays.stays_in k now (file_upload env rq who tid file)"
  "stays.stays_in k now (file_download env who tid file)" "stays.stays_in k now (file_content env who tid file)"
  "stays.stays_in k now (file_delete env who tid file)"
  by (auto simp: file_list_def file_intent_def upload_intent_def file_complete_def file_upload_def file_download_def
      file_content_def file_delete_def or_answer_def completeFileUpload_def finalize_file_def Let_def
      split: option.split req_body.split)

lemma stays_route_files [intro!]: "stays.stays_in k now (route_files env rq who tid segs)"
  by (auto simp: route_files_def on_file_def split: list.split)

lemma stays_reports [intro!]:
  "stays.stays_in k now (report_draft_route env who tid i)" "stays.stays_in k now (report_review_route env rq who tid i)"
  "stays.stays_in k now (finding_route env rq who tid i)"
  by (auto simp: report_draft_route_def report_review_route_def on_report_def persist_report_def with_body_def notify_clients_def
      notify_user_def finding_route_def finding_update_def Let_def split: option.split prod.split)

lemma stays_reads [intro!]:
  "stays.stays_in k now (item_by_id g m tid i)" "stays.stays_in k now (executive_route who tid)" "stays.stays_in k now (workspace_route who tid)"
  "stays.stays_in k now (audit_report_route env who tid)" "stays.stays_in k now (transfers_route who tid)"
  "stays.stays_in k now (portal_route env who tid)"
  by (auto simp: item_by_id_def executive_route_def workspace_route_def audit_report_route_def transfers_route_def
      portal_route_def Let_def)

lemma stays_create [intro!]: "stays.stays_in k now (handleCollectionCreate env c body tid actor)"
  by (auto simp: handleCollectionCreate_def persist_def split: option.split)

section \<open>The store of answers\<close>

lemma seq_answer: "seq m (\<lambda>r. seq (if f r then writing (w r) else give ()) (\<lambda>_. give r)) s =
    (case m s of (s', Inl e) \<Rightarrow> (s', Inl e) | (s', Inr r) \<Rightarrow> (if f r then w r s' else s', Inr r))"
  by (simp add: seq_def split: sum.split prod.split)

lemma withIdempotency_run:
  assumes "truthy key"
  shows "withIdempotency now key tid path compute s =
    (let k = idempotencyKeyFor tid path (js_string key); (entries, cached) = idempotency_get k now (api_idempotency s);
         s0 = s\<lparr>api_idempotency := entries\<rparr> in
     case cached of Some r \<Rightarrow> (s0, Inr r)
     | None \<Rightarrow> (case compute s0 of
         (s', Inl e) \<Rightarrow> (s', Inl e)
       | (s', Inr r) \<Rightarrow>
           (if successful r then s'\<lparr>api_idempotency := idempotency_set day_ms k r now (api_idempotency s')\<rparr> else s', Inr r)))"
  using assms
  by (auto simp: withIdempotency_def seq_answer seq_def on_part_def Let_def split: option.split prod.split sum.split)

lemma idempotency_get_kept:
  "idempotency_get k now (api_idempotency s) =
    (case kept_answer k now s of
       Some r \<Rightarrow> (api_idempotency s, Some r)
     | None \<Rightarrow> (if map_of (api_idempotency s) k = None then api_idempotency s else AList.delete k (api_idempotency s), None))"
  by (auto simp: idempotency_get_def kept_answer_def split: option.split)

text \<open>An answer that is still kept is given again, and nothing is changed.\<close>

lemma withIdempotency_again:
  assumes "truthy key" "kept_answer (idempotencyKeyFor tid path (js_string key)) now s = Some r"
  shows "withIdempotency now key tid path compute s = (s, Inr r)"
  using assms by (simp add: withIdempotency_run idempotency_get_kept)

text \<open>A new successful answer is kept for a day.\<close>

lemma withIdempotency_keeps:
  assumes "withIdempotency now key tid path compute s = (s', Inr r)" "truthy key" "successful r"
    and "kept_answer (idempotencyKeyFor tid path (js_string key)) now s = None" "t < now + day_ms"
  shows "kept_answer (idempotencyKeyFor tid path (js_string key)) t s' = Some r"
  using assms
  by (auto simp: withIdempotency_run idempotency_get_kept kept_answer_def idempotency_set_def update_conv' Let_def
      split: prod.splits sum.splits)

lemma stays_withIdempotency:
  assumes "\<And>t. stays.stays_in k t compute"
  shows "stays.stays_in k now (withIdempotency now key tid path compute)"
proof (cases "truthy key")
  case True
  let ?k = "idempotencyKeyFor tid path (js_string key)"
  show ?thesis
  proof (rule stays.stays_inI)
    fix s
    show "answer_stays k now s (fst (withIdempotency now key tid path compute s))"
    proof (cases "kept_answer ?k now s")
      case (Some r)
      then show ?thesis by (simp add: withIdempotency_again [OF True] stays.stay)
    next
      case None
      let ?s = "s\<lparr>api_idempotency := fst (idempotency_get ?k now (api_idempotency s))\<rparr>"
      obtain s' a where run: "compute ?s = (s', a)" by (cases "compute ?s")
      then have s': "answer_stays k now ?s s'" using assms stays.stays_inD by blast
      show ?thesis
      proof (cases "kept_answer k now s")
        case old: None
        then show ?thesis by (simp add: answer_stays_def)
      next
        case old: (Some r)
        then have "k \<noteq> ?k" using None by auto
        then show ?thesis
          using None run s' old
          by (auto simp: withIdempotency_run [OF True] idempotency_get_kept answer_stays_def kept_answer_def delete_conv'
              idempotency_set_def update_conv' Let_def split: prod.splits sum.splits)
      qed
    qed
  qed
qed (simp add: withIdempotency_def assms)

section \<open>Repeating a request\<close>

lemma list_two_cases: "(xs = [] \<Longrightarrow> P) \<Longrightarrow> (\<And>a. xs = [a] \<Longrightarrow> P) \<Longrightarrow> (\<And>a b. xs = [a, b] \<Longrightarrow> P)
    \<Longrightarrow> (\<And>a b c r. xs = a # b # c # r \<Longrightarrow> P) \<Longrightarrow> P"
  by (metis list.exhaust)

lemma stays_collection_route [intro!]: "stays.stays_in k (m_now (ae_mail env)) (collection_route env rq who tid pathname query c)"
  by (auto simp: collection_route_def intro!: stays_withIdempotency)

lemma stays_routes [intro!]:
  "stays.stays_in k (m_now (ae_mail env)) (route_one env rq who tid pathname query a)" "stays.stays_in k (m_now (ae_mail env)) (route_two env rq who tid a b)"
  "stays.stays_in k (m_now (ae_mail env)) (route_three env rq who tid a b d)"
  unfolding route_one_def route_two_def route_three_def by (auto split: option.split)

lemma stays_route_tenant [intro!]: "stays.stays_in k (m_now (ae_mail env)) (route_tenant env rq who tid pathname query segs)"
proof (cases segs)
  case (Cons a rest)
  then show ?thesis
    by (cases rest rule: list_two_cases) (auto simp: route_tenant_def)
qed (auto simp: route_tenant_def)

lemma stays_request: "stays.stays_in k (m_now (ae_mail env)) (handleApiRequest env rq)"
  by (auto simp: handleApiRequest_def routeApiRequest_def Let_def split: option.split)

text \<open>The key under which a request asks for its answer to be kept.\<close>

definition client_key :: "request \<Rightarrow> jsval" where
  "client_key rq = coalesce (fld (rq_headers rq) ''idempotency-key'') (fld (rq_headers rq) ''Idempotency-Key'')"

definition answer_key :: "request \<Rightarrow> string \<Rightarrow> string \<Rightarrow> string" where
  "answer_key rq tid pathname = idempotencyKeyFor tid pathname (js_string (client_key rq))"

text \<open>A request that creates a record, under a key.\<close>

definition keyed_creation :: "api_env \<Rightarrow> request \<Rightarrow> string \<Rightarrow> string \<Rightarrow> bool" where
  "keyed_creation env rq tid pathname =
    (rq_method rq = ''POST'' \<and> truthy (client_key rq)
     \<and> (\<exists>query seg. routed env rq = Some (tid, pathname, query, [seg]) \<and> resource_for seg \<noteq> None))"

lemma files_no_resource: "resource_for ''files'' = None"
  by code_simp

lemma health_no_tenant: "tenant_path ''/health'' = None"
  by code_simp

lemma creation_run:
  assumes "keyed_creation env rq tid pathname" "truthy (request_principal rq)"
  obtains c where
    "routeApiRequest env rq = gated (request_principal rq) tid (c_resourceType c) ''create''
      (withIdempotency (m_now (ae_mail env)) (client_key rq) tid pathname
        (handleCollectionCreate env c (rq_body rq) tid (fld (request_principal rq) ''userId'')))"
    "\<And>env' b. ae_url env' = ae_url env \<Longrightarrow> routeApiRequest env' (rq\<lparr>rq_body := b\<rparr>) =
      gated (request_principal rq) tid (c_resourceType c) ''create''
      (withIdempotency (m_now (ae_mail env')) (client_key rq) tid pathname
        (handleCollectionCreate env' c b tid (fld (request_principal rq) ''userId'')))"
proof -
  obtain query seg c where r: "routed env rq = Some (tid, pathname, query, [seg])" and c: "resource_for seg = Some c"
    using assms(1) by (auto simp: keyed_creation_def)
  then have u: "ae_url env (rq_path rq) = Some (pathname, query)" "tenant_path pathname = Some (tid, [seg])"
    by (auto simp: routed_def split: option.splits)
  have s: "seg \<noteq> ''files''" "pathname \<noteq> ''/health''" using c u(2) files_no_resource health_no_tenant by auto
  have m: "rq_method rq = ''POST''" "rq_method rq \<in> set allowed_methods" using assms(1) by (simp_all add: keyed_creation_def allowed_methods_def)
  have p: "request_principal (rq\<lparr>rq_body := b\<rparr>) = request_principal rq" for b by (simp add: request_principal_def)
  note run = routeApiRequest_def route_tenant_def route_one_def collection_route_def client_key_def Let_def
  show ?thesis
  proof
    show "routeApiRequest env rq = gated (request_principal rq) tid (c_resourceType c) ''create''
      (withIdempotency (m_now (ae_mail env)) (client_key rq) tid pathname
        (handleCollectionCreate env c (rq_body rq) tid (fld (request_principal rq) ''userId'')))"
      using u s m c assms(2) by (simp add: run)
    show "ae_url env' = ae_url env \<Longrightarrow> routeApiRequest env' (rq\<lparr>rq_body := b\<rparr>) =
      gated (request_principal rq) tid (c_resourceType c) ''create''
      (withIdempotency (m_now (ae_mail env')) (client_key rq) tid pathname
        (handleCollectionCreate env' c b tid (fld (request_principal rq) ''userId'')))" for env' b
      using u s m c assms(2) by (simp add: run p)
  qed
qed

text \<open>Any requests, one after the other, each with its environment.\<close>

definition serve :: "(api_env \<times> request) list \<Rightarrow> api \<Rightarrow> api" where
  "serve requests s = fold (\<lambda>(env, rq) s. fst (handleApiRequest env rq s)) requests s"

lemma serve_keeps_answer:
  assumes "\<And>t. t < until \<Longrightarrow> kept_answer k t s = Some r" "\<forall>(env, rq) \<in> set requests. m_now (ae_mail env) < until"
  shows "t < until \<Longrightarrow> kept_answer k t (serve requests s) = Some r"
  using assms
proof (induction requests arbitrary: s t)
  case (Cons q requests)
  obtain env rq where q: "q = (env, rq)" by (cases q)
  let ?s = "fst (handleApiRequest env rq s)"
  have "answer_stays k (m_now (ae_mail env)) s ?s" using stays_request stays.stays_inD by (metis prod.collapse)
  moreover have "kept_answer k (m_now (ae_mail env)) s = Some r" using Cons.prems(2,3) q by simp
  ultimately have "kept_answer k t ?s = Some r" if "t < until" for t
    using that Cons.prems(2) kept_answer_stays by force
  then show ?case using Cons q by (simp add: serve_def)
qed (simp add: serve_def)

lemma creation_accepted:
  assumes "keyed_creation env rq tid pathname" "handleApiRequest env rq s = (s', Inr r)" "successful r"
  obtains "truthy (request_principal rq)" "routeApiRequest env rq s = (s', Inr r)"
proof
  show run: "routeApiRequest env rq s = (s', Inr r)"
    using assms(2,3) by (auto simp: handleApiRequest_def attempt_def successful_def split: prod.splits sum.splits if_splits)
  show "truthy (request_principal rq)"
    using run assms(1,3) health_no_tenant
    by (auto simp: routeApiRequest_def keyed_creation_def routed_def successful_def Let_def split: option.splits if_splits)
qed

lemma creation_answer:
  assumes "keyed_creation env rq tid pathname" "handleApiRequest env rq s = (s', Inr r)" "successful r"
    and "kept_answer (answer_key rq tid pathname) (m_now (ae_mail env)) s = None"
    and "t < m_now (ae_mail env) + day_ms"
  shows "kept_answer (answer_key rq tid pathname) t s' = Some r"
proof -
  from creation_accepted [OF assms(1-3)] obtain who: "truthy (request_principal rq)" and run: "routeApiRequest env rq s = (s', Inr r)" .
  obtain c where
    "routeApiRequest env rq = gated (request_principal rq) tid (c_resourceType c) ''create''
      (withIdempotency (m_now (ae_mail env)) (client_key rq) tid pathname
        (handleCollectionCreate env c (rq_body rq) tid (fld (request_principal rq) ''userId'')))"
    using creation_run [OF assms(1) who] by blast
  with run have "withIdempotency (m_now (ae_mail env)) (client_key rq) tid pathname
      (handleCollectionCreate env c (rq_body rq) tid (fld (request_principal rq) ''userId'')) s = (s', Inr r)"
    using assms(3) by (auto simp: gated_def dest: authorize_refusal split: option.splits)
  then show ?thesis
    using withIdempotency_keeps assms by (auto simp: answer_key_def keyed_creation_def)
qed

text \<open>
  C12. A creation under an idempotency key happens once. After a creation that succeeded under a key that was not in use, and after
  any other requests of anybody, a repetition within a day gets the very same answer and changes nothing, whatever its body says.
\<close>

theorem idempotent_replay:
  assumes "keyed_creation env rq tid pathname" "handleApiRequest env rq s = (s1, Inr r)" "successful r"
    and "kept_answer (answer_key rq tid pathname) (m_now (ae_mail env)) s = None"
    and "\<forall>(e, q) \<in> set between. m_now (ae_mail e) < m_now (ae_mail env) + day_ms"
    and "ae_url env' = ae_url env" "m_now (ae_mail env') < m_now (ae_mail env) + day_ms"
  shows "handleApiRequest env' (rq\<lparr>rq_body := b\<rparr>) (serve between s1) = (serve between s1, Inr r)"
proof -
  note kept = creation_answer [OF assms(1-4)]
  have now: "kept_answer (answer_key rq tid pathname) (m_now (ae_mail env')) (serve between s1) = Some r"
    by (rule serve_keeps_answer [OF kept assms(5,7)])
  from creation_accepted [OF assms(1-3)] obtain who: "truthy (request_principal rq)" and first: "routeApiRequest env rq s = (s1, Inr r)" .
  obtain c where c:
    "routeApiRequest env rq = gated (request_principal rq) tid (c_resourceType c) ''create''
      (withIdempotency (m_now (ae_mail env)) (client_key rq) tid pathname
        (handleCollectionCreate env c (rq_body rq) tid (fld (request_principal rq) ''userId'')))"
    "routeApiRequest env' (rq\<lparr>rq_body := b\<rparr>) = gated (request_principal rq) tid (c_resourceType c) ''create''
      (withIdempotency (m_now (ae_mail env')) (client_key rq) tid pathname
        (handleCollectionCreate env' c b tid (fld (request_principal rq) ''userId'')))"
    using creation_run [OF assms(1) who] assms(6) by metis
  have "authorize (request_principal rq) tid (c_resourceType c) ''create'' = None"
    using c(1) first assms(3) by (auto simp: gated_def dest: authorize_refusal split: option.splits)
  moreover have "truthy (client_key rq)" using assms(1) by (simp add: keyed_creation_def)
  ultimately have "routeApiRequest env' (rq\<lparr>rq_body := b\<rparr>) (serve between s1) = (serve between s1, Inr r)"
    using now by (simp add: c(2) gated_def withIdempotency_again answer_key_def)
  then show ?thesis by (simp add: handleApiRequest_def attempt_def)
qed

definition demo_empty :: api where
  "demo_empty = \<lparr>api_repo = createMemoryRepository (JObj []), api_outbox = createOutboxStore, api_idempotency = [], api_disk = demo_disk\<rparr>"

definition demo_creation :: request where
  "demo_creation = \<lparr>rq_method = ''POST'', rq_path = ''/v1/tenants/t1/projects'',
     rq_headers = JObj [(''x-staged-tenant-id'', JStr ''t1''), (''idempotency-key'', JStr ''k1'')],
     rq_body = ValueBody (JObj [(''id'', JStr ''p1''), (''name'', JStr ''Tower'')]), rq_principal = JNull, rq_oidc = False\<rparr>"

definition demo_created :: api where
  "demo_created = fst (handleApiRequest demo_api_env demo_creation demo_empty)"

definition demo_answer :: response where
  "demo_answer = (case snd (handleApiRequest demo_api_env demo_creation demo_empty) of Inr r \<Rightarrow> r | Inl e \<Rightarrow> no_route)"

lemma demo_creation_done: "handleApiRequest demo_api_env demo_creation demo_empty = (demo_created, Inr demo_answer)"
  using handle_answers [of demo_api_env demo_creation demo_empty] by (auto simp: demo_created_def demo_answer_def)

lemma demo_creation_status: "rs_status demo_answer = 201"
  by code_simp

lemma demo_creation_keyed: "keyed_creation demo_api_env demo_creation ''t1'' ''/v1/tenants/t1/projects''"
proof -
  have "tenant_path ''/v1/tenants/t1/projects'' = Some (''t1'', [''projects''])" by code_simp
  moreover have "case resource_for ''projects'' of Some c \<Rightarrow> True | None \<Rightarrow> False" "truthy (client_key demo_creation)" by code_simp+
  moreover have "ae_url demo_api_env (rq_path demo_creation) = Some (''/v1/tenants/t1/projects'', Map.empty)"
    by (simp add: demo_api_env_def demo_creation_def js_ws_def)
  ultimately show ?thesis by (auto simp: keyed_creation_def routed_def demo_creation_def split: option.splits)
qed

lemma idempotent_replay_witness:
  "handleApiRequest demo_api_env (demo_creation\<lparr>rq_body := NoBody\<rparr>) (serve [(demo_api_env, demo_request)] demo_created)
    = (serve [(demo_api_env, demo_request)] demo_created, Inr demo_answer)"
proof (rule idempotent_replay [OF demo_creation_keyed demo_creation_done])
  show "successful demo_answer" by (simp add: successful_def demo_creation_status)
  show "kept_answer (answer_key demo_creation ''t1'' ''/v1/tenants/t1/projects'') (m_now (ae_mail demo_api_env)) demo_empty = None"
    by (simp add: kept_answer_def demo_empty_def)
qed (simp_all add: day_ms_def)

end
