(* ===== verification/EmailWorker.thy ===== *)
theory EmailWorker
  imports EmailLife ApiSecurity
begin

text \<open>
  Delivering email (apps/worker/src/worker.js, \<open>createEmailDeliveryHandler\<close>) and receiving the reports of
  the provider (apps/api/src/email-webhook.js). Both work on the repository of the API; the handler also
  on the provider, whose client is a parameter with a state of its own. A run sees one time; what it did
  before it threw stays done.
\<close>

section \<open>The delivery handler\<close>

record 'p mail_system =
  ms_repo :: repo
  ms_provider :: 'p

record 'p provider =
  pv_name :: jsval
  pv_send :: "jsval \<Rightarrow> jsval \<Rightarrow> ('p, jsval) act"

abbreviation on_mail_repo :: "(repo, 'a) act \<Rightarrow> ('p mail_system, 'a) act" where
  "on_mail_repo m \<equiv> on_part ms_repo (\<lambda>r s. s\<lparr>ms_repo := r\<rparr>) m"

abbreviation on_provider :: "('p, 'a) act \<Rightarrow> ('p mail_system, 'a) act" where
  "on_provider m \<equiv> on_part ms_provider (\<lambda>p s. s\<lparr>ms_provider := p\<rparr>) m"

definition settled_statuses :: "string list" where
  "settled_statuses = [''accepted'', ''delivered'', ''bounced'', ''complained'', ''suppressed'']"

definition unresolved_delivery :: js_error where
  "unresolved_delivery = JsError ''Email delivery event does not resolve to an in-tenant delivery record.''
     (Some ''email_delivery_not_found'') (Some False)"

text \<open>The factory of the audit event of a transition; it is given the tenant's last hash.\<close>

definition worker_evidence :: "mail_env \<Rightarrow> jsval \<Rightarrow> string \<Rightarrow> string \<Rightarrow> jsval \<Rightarrow> jsval \<Rightarrow> jsval res" where
  "worker_evidence env signingKey action suffix delivery previousHash =
    createEmailDeliveryAuditEvent env delivery
      \<lparr>a_action = JStr action, a_actorId = JStr ''email-worker'', a_previousHash = previousHash, a_signingKey = signingKey,
       a_timestamp = fld delivery ''updatedAt'', a_suffix = suffix\<rparr>"

text \<open>The three ways a delivery is finalized: its new record, and the action and suffix of its evidence.\<close>

definition finalize_as ::
    "mail_env \<Rightarrow> jsval \<Rightarrow> string \<Rightarrow> string \<Rightarrow> jsval \<Rightarrow> ('p mail_system, jsval) act" where
  "finalize_as env signingKey action suffix delivery =
    on_mail_repo (finalizeEmailDelivery delivery (worker_evidence env signingKey action suffix delivery))"

definition suppress_delivery :: "mail_env \<Rightarrow> jsval \<Rightarrow> jsval \<Rightarrow> jsval \<Rightarrow> jsval \<Rightarrow> ('p mail_system, unit) act" where
  "suppress_delivery env signingKey delivery suppression attemptNo =
    seq (from_res (markEmailDeliverySuppressed env delivery suppression attemptNo)) (\<lambda>suppressed.
    seq (finalize_as env signingKey ''email.delivery.suppressed'' (''suppression-'' @ js_string (fld suppression ''id'')) suppressed) (\<lambda>_.
    give ()))"

definition accept_delivery ::
    "mail_env \<Rightarrow> jsval \<Rightarrow> 'p provider \<Rightarrow> jsval \<Rightarrow> jsval \<Rightarrow> ('p mail_system, unit) act" where
  "accept_delivery env signingKey provider sending idempotencyKey =
    seq (on_provider (pv_send provider sending idempotencyKey)) (\<lambda>result.
    seq (from_res (get_fld result ''id'')) (\<lambda>messageId.
    seq (from_res (markEmailDeliveryAccepted env sending (pv_name provider) messageId)) (\<lambda>accepted.
    seq (finalize_as env signingKey ''email.delivery.accepted'' ''accepted'' accepted) (\<lambda>_.
    give ()))))"

definition record_failure :: "mail_env \<Rightarrow> jsval \<Rightarrow> jsval \<Rightarrow> jsval \<Rightarrow> js_error \<Rightarrow> ('p mail_system, unit) act" where
  "record_failure env signingKey sending attemptNo e =
    seq (from_res (markEmailDeliveryFailed env sending e attemptNo)) (\<lambda>failed.
    seq (finalize_as env signingKey ''email.delivery.failed'' (''attempt-'' @ js_string (fld failed ''attempts'') @ ''-failed'') failed) (\<lambda>_.
    from_res (Inl e)))"

definition send_delivery ::
    "mail_env \<Rightarrow> jsval \<Rightarrow> 'p provider \<Rightarrow> jsval \<Rightarrow> jsval \<Rightarrow> ('p mail_system, unit) act" where
  "send_delivery env signingKey provider delivery event =
    seq (from_res (markEmailDeliverySending env delivery (fld event ''attempt''))) (\<lambda>sending.
    seq (on_mail_repo (transition (saveEmailDelivery sending))) (\<lambda>_.
    attempt (accept_delivery env signingKey provider sending (fld event ''idempotencyKey''))
      (record_failure env signingKey sending (fld event ''attempt''))))"

definition createEmailDeliveryHandler ::
    "mail_env \<Rightarrow> jsval \<Rightarrow> 'p provider \<Rightarrow> jsval \<Rightarrow> ('p mail_system, unit) act" where
  "createEmailDeliveryHandler env signingKey provider event =
    (if \<not> strict_eq (fld event ''eventType'') (JStr ''email.delivery.requested'') then give ()
     else seq (reading (\<lambda>s. getEmailDeliveryById (ms_repo s) (fld event ''aggregateId''))) (\<lambda>delivery.
     if \<not> truthy delivery \<or> \<not> strict_eq (fld delivery ''tenantId'') (fld event ''tenantId'') then from_res (Inl unresolved_delivery)
     else if one_of settled_statuses (fld delivery ''status'') then give ()
     else seq (on_mail_repo (\<lambda>r. (r, getEmailSuppression r (fld delivery ''tenantId'') (fld delivery ''recipientEmail'')))) (\<lambda>suppression.
     if truthy suppression then suppress_delivery env signingKey delivery suppression (fld event ''attempt'')
     else send_delivery env signingKey provider delivery event)))"

text \<open>The local sink as a provider.\<close>

definition sink_provider :: "mail_env \<Rightarrow> sink provider" where
  "sink_provider env = \<lparr>pv_name = JStr ''sink'', pv_send = (\<lambda>delivery key. transition (\<lambda>s. sink_send env s delivery key))\<rparr>"

section \<open>Reports of the provider\<close>

definition webhook_evidence :: "mail_env \<Rightarrow> jsval \<Rightarrow> string \<Rightarrow> jsval \<Rightarrow> jsval \<Rightarrow> jsval \<Rightarrow> jsval \<Rightarrow> jsval res" where
  "webhook_evidence env signingKey webhookId event status delivery previousHash =
    createEmailDeliveryAuditEvent env delivery
      \<lparr>a_action = JStr (''email.delivery.'' @ js_string status), a_actorId = JStr ''resend-webhook'', a_previousHash = previousHash,
       a_signingKey = signingKey, a_timestamp = fld event ''created_at'', a_suffix = ''webhook-'' @ webhookId\<rparr>"

definition webhook_reply :: "nat \<Rightarrow> (string \<times> jsval) list \<Rightarrow> nat \<times> jsval" where
  "webhook_reply status fs = (status, JObj fs)"

definition webhook_matched :: "webhook_result \<Rightarrow> nat \<times> jsval" where
  "webhook_matched result =
    webhook_reply (if truthy (wr_delivery result) \<or> wr_duplicate result then 200 else 503)
      [(''accepted'', JBool True), (''duplicate'', JBool (wr_duplicate result)), (''matched'', JBool (truthy (wr_delivery result))),
       (''status'', coalesce (fld (wr_delivery result) ''status'') JNull)]"

definition handleEmailWebhook ::
    "mail_env \<Rightarrow> signature_check \<Rightarrow> jsval \<Rightarrow> jsval \<Rightarrow> jsval \<Rightarrow> jsval \<Rightarrow> (repo, nat \<times> jsval) act" where
  "handleEmailWebhook env check rawBody headers webhookSecret signingKey =
    (case verifyResendWebhook env check rawBody headers webhookSecret of
       Inl e \<Rightarrow> give (webhook_reply 401 [(''accepted'', JBool False), (''code'', JStr ''invalid_email_webhook''), (''message'', JStr (err_message e))])
     | Inr (webhookId, event) \<Rightarrow>
         seq (from_res (get_fld event ''type'')) (\<lambda>eventType.
         let status = emailWebhookStatus eventType in
         if \<not> truthy status then give (webhook_reply 202 [(''accepted'', JBool True), (''ignored'', JBool True)])
         else if \<not> truthy (fld (fld event ''data'') ''email_id'')
         then give (webhook_reply 400 [(''accepted'', JBool False), (''code'', JStr ''invalid_email_webhook_payload'')])
         else seq (applyEmailWebhook env webhookId event (webhook_evidence env signingKey webhookId event status)) (\<lambda>result.
           give (webhook_matched result))))"

section \<open>Evidence continues the chain\<close>

lemma chain_last_string:
  assumes "chain_ok sha hmac key (es @ [e])"
  shows "\<exists>x. fld e ''eventHash'' = JStr x"
proof -
  let ?c = "\<lparr>ctx_uuid = (\<lambda>_. []), ctx_now = [], ctx_sha256 = sha, ctx_hmac = hmac\<rparr>"
  have "verifyAuditChain ?c key (es @ [e]) = Inr verdict_ok" using assms by (simp add: chain_ok_def)
  then show ?thesis using accepted_hash_string by (auto simp: verifyAuditChain_def verify_append)
qed

lemma plain_events: "repo_sound env r \<Longrightarrow> listAuditEventsByTenant r t = of_tenant t (auditEventStore r)"
  by (auto simp: repo_sound_def listAuditEventsByTenant_def of_tenant_def list_all_iff plain_def intro!: map_idI)

lemma previous_hash_last:
  assumes "repo_sound env r"
  shows "previous_hash r (JStr T) = last_hash JNull (listAuditEventsByTenant r (JStr T)) \<and> datum (previous_hash r (JStr T))"
proof (cases "of_tenant (JStr T) (auditEventStore r)" rule: rev_cases)
  case Nil
  then show ?thesis using plain_events [OF assms] by (simp add: previous_hash_def)
next
  case (snoc es e)
  then have l: "listAuditEventsByTenant r (JStr T) = es @ [e]" using plain_events [OF assms] by simp
  have "chain_ok (ctx_sha256 (m_ctx (ae_mail env))) (ctx_hmac (m_ctx (ae_mail env))) (ae_signingKey env) (es @ [e])"
    using assms l unfolding repo_sound_def by metis
  from chain_last_string [OF this] obtain x where "fld e ''eventHash'' = JStr x" by blast
  then have "previous_hash r (JStr T) = JStr x" using snoc by (cases es) (simp_all add: previous_hash_def)
  then show ?thesis using l \<open>fld e ''eventHash'' = JStr x\<close> by simp
qed

text \<open>The parts of an event that come from the caller are plain.\<close>

definition options_ok :: "api_env \<Rightarrow> audit_options \<Rightarrow> bool" where
  "options_ok env opts = (datum (a_action opts) \<and> datum (a_actorId opts) \<and> datum (a_timestamp opts) \<and> a_signingKey opts = ae_signingKey env)"

lemma datum_field:
  assumes "list_all (\<lambda>(k, v). k = ''signingKey'' \<or> datum v) fs" "k \<noteq> ''signingKey''"
  shows "datum (fld (JObj fs) k)"
  using assms by (auto simp: fld.simps(1) list_all_iff split: option.split dest!: map_of_SomeD)

lemma evidence_kept:
  assumes ev: "createEmailDeliveryAuditEvent menv d opts = Inr ev" and d: "fld d ''tenantId'' = JStr tid" "\<exists>i. fld d ''id'' = JStr i"
    and o: "options_ok env opts" "a_previousHash opts = previous_hash r (JStr tid)"
    and h: "same_hashes env (m_ctx menv)" "hmac_nonempty env"
  shows "repo_kept env tid r (add_evidence ev r)"
proof -
  define input where "input = JObj
      [(''eventId'', JStr (js_string (fld d ''id'') @ ''-'' @ a_suffix opts @ ''-audit'')), (''tenantId'', fld d ''tenantId''),
       (''actorType'', JStr ''system''), (''actorId'', a_actorId opts), (''action'', a_action opts), (''resourceType'', JStr ''email_delivery''),
       (''resourceId'', fld d ''id''), (''afterStateRef'', fld d ''status''), (''correlationId'', fld d ''id''), (''requestId'', fld d ''id''),
       (''timestamp'', a_timestamp opts), (''previousHash'', a_previousHash opts), (''signingKey'', a_signingKey opts)]"
  have v: "assertEmailDelivery d = Inr d" and c: "createAuditEvent (m_ctx menv) input = Inr ev"
    using ev assert_Inr by (auto simp: createEmailDeliveryAuditEvent_def guard_simps input_def)
  have st: "one_of email_delivery_statuses (fld d ''status'')"
    using v unfolding assertEmailDelivery_def guard_simps and_then_Inr list.pred_inject fst_conv by blast
  then have status: "datum (fld d ''status'')" by (cases "fld d ''status''") (auto dest: one_ofD)
  show ?thesis
  proof (cases "repo_sound env r")
    case sound: True
    have prev: "a_previousHash opts = last_hash JNull (listAuditEventsByTenant r (JStr tid))" "datum (a_previousHash opts)"
      using o(2) previous_hash_last [OF sound, of tid] by auto
    obtain i where i: "fld d ''id'' = JStr i" using d(2) by blast
    have "datum (fld input k)" if "k \<noteq> ''signingKey''" for k
      using o(1) status prev(2) unfolding input_def by (intro datum_field [OF _ that]) (simp add: d(1) i options_ok_def)
    then have "plain ev" by (rule created_event_plain [OF c])
    moreover have "fld ev ''tenantId'' = JStr tid" using created_event_tenant [OF c] d(1) by (simp add: input_def)
    moreover have "chain_ok (ctx_sha256 (m_ctx menv)) (ctx_hmac (m_ctx menv)) (ae_signingKey env) (listAuditEventsByTenant r (JStr tid) @ [ev])"
      if "chain_ok (ctx_sha256 (m_ctx menv)) (ctx_hmac (m_ctx menv)) (ae_signingKey env) (listAuditEventsByTenant r (JStr tid))"
      using that o prev h by (intro chain_ok_append [OF _ c]) (auto simp: input_def options_ok_def same_hashes_def hmac_nonempty_def)
    ultimately have "repo_kept env tid r (fst (appendAuditEvent ev r))"
      using h(1) by (intro repo_kept_event) (auto simp: same_hashes_def)
    then show ?thesis by (simp add: add_evidence_def repo_kept_def)
  qed (simp add: repo_kept_def)
qed

section \<open>The handler and the webhook stay inside the tenant\<close>

text \<open>A delivery of the tenant as the repository hands it out.\<close>

definition own_delivery :: "string \<Rightarrow> repo \<Rightarrow> jsval \<Rightarrow> bool" where
  "own_delivery tid r d = (fld d ''tenantId'' = JStr tid \<and> (\<exists>i. fld d ''id'' = JStr i) \<and> owned tid (emailDeliveryStore r) (fld d ''id''))"

definition mail_kept :: "api_env \<Rightarrow> string \<Rightarrow> repo \<Rightarrow> repo \<Rightarrow> bool" where
  "mail_kept env tid r r' = (repo_kept env tid r r' \<and> (\<forall>d. own_delivery tid r d \<longrightarrow> own_delivery tid r' d))"

interpretation mail: change "mail_kept env tid" for env tid
  by unfold_locales (auto simp: mail_kept_def repo_kept_def)

lemma mail_kept_set:
  assumes "own_delivery tid r v"
  shows "mail_kept env tid r (r\<lparr>emailDeliveryStore := store_set (fld v ''id'') (json_clone v) (emailDeliveryStore r)\<rparr>)"
proof -
  obtain i where i: "fld v ''id'' = JStr i" using assms by (auto simp: own_delivery_def)
  have v: "fld (json_clone v) ''tenantId'' = JStr tid" using assms by (simp add: own_delivery_def)
  then have "repo_kept env tid r (r\<lparr>emailDeliveryStore := store_set (JStr i) (json_clone v) (emailDeliveryStore r)\<rparr>)"
    using assms i by (intro repo_kept_set_delivery) (auto simp: own_delivery_def fits_def)
  then show ?thesis using owned_set [OF v] i by (auto simp: mail_kept_def own_delivery_def)
qed

lemma mail_kept_same: "repo_kept env tid r r' \<Longrightarrow> emailDeliveryStore r' = emailDeliveryStore r \<Longrightarrow> mail_kept env tid r r'"
  by (simp add: mail_kept_def own_delivery_def)

lemma add_evidence_store: "emailDeliveryStore (add_evidence ev r) = emailDeliveryStore r"
  by (simp add: add_evidence_def appendAuditEvent_def)

lemma mail_kept_save:
  assumes "own_delivery tid r v"
  shows "mail_kept env tid r (fst (transition (saveEmailDelivery v) r))"
  using mail_kept_set [OF assms] by (auto simp: transition_def saveEmailDelivery_def put_existing_def guard_simps mail.stay split: sum.splits)

lemma mail_kept_finalize:
  assumes own: "own_delivery tid r v"
    and factory: "\<And>prev ev. factory prev = Inr ev \<Longrightarrow>
      \<exists>menv opts. createEmailDeliveryAuditEvent menv v opts = Inr ev \<and> options_ok env opts \<and> a_previousHash opts = prev \<and> same_hashes env (m_ctx menv)"
    and h: "hmac_nonempty env"
  shows "mail_kept env tid r (fst (finalizeEmailDelivery v factory r))"
proof (cases "saveEmailDelivery v r")
  case (Inr p)
  then obtain r' saved where save: "saveEmailDelivery v r = Inr (r', saved)" by (cases p) auto
  then have r': "mail_kept env tid r r'" using mail_kept_save [OF own, of env] by (simp add: transition_def)
  have t: "fld v ''tenantId'' = JStr tid" "\<exists>i. fld v ''id'' = JStr i" using own by (simp_all add: own_delivery_def)
  show ?thesis
  proof (cases "factory (previous_hash r' (JStr tid))")
    case (Inr ev)
    from factory [OF this] have "repo_kept env tid r' (add_evidence ev r')"
      using evidence_kept [OF _ t] h by blast
    then have "mail_kept env tid r' (add_evidence ev r')" by (rule mail_kept_same) (rule add_evidence_store)
    then have "mail_kept env tid r (add_evidence ev r')" using r' mail.compose by blast
    then show ?thesis using save Inr t by (simp add: finalizeEmailDelivery_def)
  next
    case (Inl e)
    then show ?thesis using save r' t by (simp add: finalizeEmailDelivery_def)
  qed
qed (simp add: finalizeEmailDelivery_def mail.stay)

text \<open>Every transition keeps the identity of the delivery.\<close>

lemma allowed_keeps_owner:
  assumes "assertEmailDelivery d = Inr d" "EmailLife.allowed_update us" "own_delivery tid r d"
  shows "own_delivery tid r (spread d us)"
proof -
  have "same_delivery d (spread d us)" using update_keeps(2) [OF assms(1,2)] .
  then have "fld (spread d us) ''id'' = fld d ''id''" "fld (spread d us) ''tenantId'' = fld d ''tenantId''"
    by (simp_all add: same_delivery_def identity_fields_def)
  then show ?thesis using assms(3) by (simp add: own_delivery_def)
qed

lemma step_keeps_owner: "delivery_step d d' \<Longrightarrow> own_delivery tid r d \<Longrightarrow> own_delivery tid r d'"
  using step_update [of d d'] allowed_keeps_owner by blast

lemmas mark_steps = step_sending step_accepted step_failed step_suppressed

lemma asserted_delivery:
  assumes "assertEmailDelivery d = Inr d'"
  shows "(\<exists>i. fld d ''id'' = JStr i) \<and> (\<exists>t. fld d ''tenantId'' = JStr t)"
proof -
  have "nonblank (fld d ''id'')" "nonblank (fld d ''tenantId'')"
    using assms unfolding assertEmailDelivery_def guard_simps and_then_Inr requiredString_Inr by blast+
  then show ?thesis by (auto dest: nonblank_str)
qed

lemma read_delivery:
  assumes "repo_sound env r" "truthy (getEmailDeliveryById r k)"
    and "fld (getEmailDeliveryById r k) ''tenantId'' = JStr tid" "assertEmailDelivery (getEmailDeliveryById r k) = Inr d"
  shows "own_delivery tid r (getEmailDeliveryById r k) \<and> plain (getEmailDeliveryById r k)"
proof -
  obtain v where v: "store_get (emailDeliveryStore r) k = Some v"
    using assms(2) by (auto simp: getEmailDeliveryById_def split: option.splits)
  have s: "plain_store (emailDeliveryStore r)" "named_store (emailDeliveryStore r)" using assms(1) by (simp_all add: repo_sound_def)
  have p: "plain v" "fld v ''id'' = k"
    using plain_store_get [OF s(1) v] named_store_member [OF s(2)] store_get_member [OF v] by blast+
  then have "getEmailDeliveryById r k = v" using v by (simp add: getEmailDeliveryById_def plain_def)
  then show ?thesis
    using v p assms(3) asserted_delivery [OF assms(4)] by (auto simp: own_delivery_def owned_def)
qed

text \<open>A marked delivery is the given one or has a new time of its last change.\<close>

lemma marked_time:
  assumes "datum (fld d ''updatedAt'')"
  shows "markEmailDeliverySending menv d a = Inr d' \<Longrightarrow> datum (fld d' ''updatedAt'')"
    and "markEmailDeliveryAccepted menv d p i = Inr d' \<Longrightarrow> datum (fld d' ''updatedAt'')"
    and "markEmailDeliveryFailed menv d e a = Inr d' \<Longrightarrow> datum (fld d' ''updatedAt'')"
    and "markEmailDeliverySuppressed menv d s a = Inr d' \<Longrightarrow> datum (fld d' ''updatedAt'')"
proof -
  have new: "datum (fld (spread d us) ''updatedAt'')" if "map_of (rev us) ''updatedAt'' = Some (now_text menv)" "assertEmailDelivery d = Inr d2" for us d2
    using that assert_Inr [OF that(2)] by (auto simp: fld_spread)
  show "markEmailDeliverySending menv d a = Inr d' \<Longrightarrow> datum (fld d' ''updatedAt'')"
    "markEmailDeliveryAccepted menv d p i = Inr d' \<Longrightarrow> datum (fld d' ''updatedAt'')"
    "markEmailDeliveryFailed menv d e a = Inr d' \<Longrightarrow> datum (fld d' ''updatedAt'')"
    "markEmailDeliverySuppressed menv d s a = Inr d' \<Longrightarrow> datum (fld d' ''updatedAt'')"
    unfolding markEmailDeliverySending_def markEmailDeliveryAccepted_def markEmailDeliveryFailed_def markEmailDeliverySuppressed_def
    using assms by (auto simp: guard_simps intro!: new split: if_splits)
qed

context change
begin

lemma step_seq:
  assumes "R s (fst (m s))" "\<And>s' v. m s = (s', Inr v) \<Longrightarrow> R s s' \<Longrightarrow> R s' (fst (f v s'))"
  shows "R s (fst (seq m f s))"
proof -
  obtain s' r where m: "m s = (s', r)" by (cases "m s")
  show ?thesis using assms m compose by (cases r) (auto simp: seq_def)
qed

lemma step_attempt:
  assumes "R s (fst (m s))" "\<And>s' e. m s = (s', Inl e) \<Longrightarrow> R s s' \<Longrightarrow> R s' (fst (h e s'))"
  shows "R s (fst (attempt m h s))"
proof -
  obtain s' r where m: "m s = (s', r)" by (cases "m s")
  show ?thesis using assms m compose by (cases r) (auto simp: attempt_def)
qed

end

definition system_kept :: "api_env \<Rightarrow> string \<Rightarrow> 'p mail_system \<Rightarrow> 'p mail_system \<Rightarrow> bool" where
  "system_kept env tid s s' = mail_kept env tid (ms_repo s) (ms_repo s')"

interpretation system: change "system_kept env tid" for env tid
  unfolding system_kept_def by unfold_locales (auto intro: mail.stay mail.compose)

lemma system_simps [simp]:
  "system_kept env tid s s" "system_kept env tid s (fst (on_provider m s))"
  by (simp_all add: system_kept_def mail.stay on_part_def split: prod.split)

lemma system_on_repo: "mail_kept env tid (ms_repo s) (fst (m (ms_repo s))) \<Longrightarrow> system_kept env tid s (fst (on_mail_repo m s))"
  by (cases "m (ms_repo s)") (simp add: system_kept_def on_part_def)

lemma system_owner: "system_kept env tid s s' \<Longrightarrow> own_delivery tid (ms_repo s) d \<Longrightarrow> own_delivery tid (ms_repo s') d"
  by (simp add: system_kept_def mail_kept_def)

lemma system_finalize:
  assumes "own_delivery tid (ms_repo s) v" "datum (fld v ''updatedAt'')" "hmac_nonempty env"
  shows "system_kept env tid s (fst (finalize_as (ae_mail env) (ae_signingKey env) action suffix v s))"
  unfolding finalize_as_def
proof (rule system_on_repo, rule mail_kept_finalize [OF assms(1) _ assms(3)])
  fix prev ev assume "worker_evidence (ae_mail env) (ae_signingKey env) action suffix v prev = Inr ev"
  then show "\<exists>menv opts. createEmailDeliveryAuditEvent menv v opts = Inr ev \<and> options_ok env opts \<and> a_previousHash opts = prev
      \<and> same_hashes env (m_ctx menv)"
    unfolding worker_evidence_def using assms(2) by (intro exI conjI) (assumption, simp_all add: options_ok_def)
qed

lemma system_suppress:
  assumes "own_delivery tid (ms_repo s) d" "datum (fld d ''updatedAt'')" "hmac_nonempty env"
  shows "system_kept env tid s (fst (suppress_delivery (ae_mail env) (ae_signingKey env) d suppression n s))"
  unfolding suppress_delivery_def
  using assms step_keeps_owner [OF step_suppressed] marked_time(4)
  by (intro system.step_seq) (auto intro: system_finalize)

lemma system_accept:
  assumes "own_delivery tid (ms_repo s) d" "datum (fld d ''updatedAt'')" "hmac_nonempty env"
  shows "system_kept env tid s (fst (accept_delivery (ae_mail env) (ae_signingKey env) prov d key s))"
  unfolding accept_delivery_def
  using assms step_keeps_owner [OF step_accepted] marked_time(2)
  by (intro system.step_seq) (auto intro!: system_finalize dest: system_owner)

lemma system_failure:
  assumes "own_delivery tid (ms_repo s) d" "datum (fld d ''updatedAt'')" "hmac_nonempty env"
  shows "system_kept env tid s (fst (record_failure (ae_mail env) (ae_signingKey env) d n e s))"
  unfolding record_failure_def
  using assms step_keeps_owner [OF step_failed] marked_time(3)
  by (intro system.step_seq) (auto intro!: system_finalize dest: system_owner)

lemma marked_assert:
  "markEmailDeliverySending menv d a = Inr d' \<Longrightarrow> assertEmailDelivery d = Inr d"
  "markEmailDeliverySuppressed menv d s a = Inr d' \<Longrightarrow> assertEmailDelivery d = Inr d"
  using step_update [OF step_sending] step_update [OF step_suppressed] by blast+

lemma system_send:
  assumes "own_delivery tid (ms_repo s) d" "datum (fld d ''updatedAt'')" "hmac_nonempty env"
  shows "system_kept env tid s (fst (send_delivery (ae_mail env) (ae_signingKey env) prov d event s))"
  unfolding send_delivery_def
proof (rule system.step_seq)
  fix s1 sending
  assume "from_res (markEmailDeliverySending (ae_mail env) d (fld event ''attempt'')) s = (s1, Inr sending)"
  then have m: "markEmailDeliverySending (ae_mail env) d (fld event ''attempt'') = Inr sending" and s1: "s1 = s" by auto
  have own: "own_delivery tid (ms_repo s) sending" "datum (fld sending ''updatedAt'')"
    using step_keeps_owner [OF step_sending [OF m] assms(1)] marked_time(1) [OF assms(2) m] by auto
  show "system_kept env tid s1 (fst (seq (on_mail_repo (transition (saveEmailDelivery sending))) (\<lambda>_.
      attempt (accept_delivery (ae_mail env) (ae_signingKey env) prov sending (fld event ''idempotencyKey''))
        (record_failure (ae_mail env) (ae_signingKey env) sending (fld event ''attempt''))) s1))"
    unfolding s1
  proof (rule system.step_seq)
    show "system_kept env tid s (fst (on_mail_repo (transition (saveEmailDelivery sending)) s))"
      by (rule system_on_repo) (rule mail_kept_save [OF own(1)])
    fix s2 v
    assume "system_kept env tid s s2"
    then have own2: "own_delivery tid (ms_repo s2) sending" using own(1) by (rule system_owner)
    show "system_kept env tid s2 (fst (attempt (accept_delivery (ae_mail env) (ae_signingKey env) prov sending (fld event ''idempotencyKey''))
        (record_failure (ae_mail env) (ae_signingKey env) sending (fld event ''attempt'')) s2))"
      by (rule system.step_attempt) (use own2 own(2) assms(3) system_owner in \<open>blast intro: system_accept system_failure\<close>)+
  qed
qed simp

text \<open>An event of the worker changes only what belongs to the tenant of its delivery.\<close>

lemma handler_kept:
  assumes "repo_sound env (ms_repo s)" "hmac_nonempty env" "fld event ''tenantId'' = JStr tid"
  shows "system_kept env tid s (fst (createEmailDeliveryHandler (ae_mail env) (ae_signingKey env) prov event s))"
proof -
  let ?d = "getEmailDeliveryById (ms_repo s) (fld event ''aggregateId'')"
  have own: "own_delivery tid (ms_repo s) ?d \<and> datum (fld ?d ''updatedAt'')"
    if "truthy ?d" "strict_eq (fld ?d ''tenantId'') (JStr tid)" "assertEmailDelivery ?d = Inr ?d"
    using read_delivery [OF assms(1) that(1) _ that(3)] that(2) strict_eq_eq by blast
  have send: "system_kept env tid s (fst (send_delivery (ae_mail env) (ae_signingKey env) prov ?d event s))"
    if "truthy ?d" "strict_eq (fld ?d ''tenantId'') (JStr tid)"
  proof (cases "markEmailDeliverySending (ae_mail env) ?d (fld event ''attempt'')")
    case (Inr d')
    then show ?thesis using own [OF that marked_assert(1)] system_send assms(2) by blast
  qed (simp add: send_delivery_def)
  have suppress: "system_kept env tid s (fst (suppress_delivery (ae_mail env) (ae_signingKey env) ?d sup n s))"
    if "truthy ?d" "strict_eq (fld ?d ''tenantId'') (JStr tid)" for sup n
  proof (cases "markEmailDeliverySuppressed (ae_mail env) ?d sup n")
    case (Inr d')
    then show ?thesis using own [OF that marked_assert(2)] system_suppress assms(2) by blast
  qed (simp add: suppress_delivery_def)
  show ?thesis
    unfolding createEmailDeliveryHandler_def assms(3)
    by (auto simp: seq_def on_part_def send suppress split: sum.split)
qed

lemma handler_without_tenant:
  assumes "\<And>tid. fld event ''tenantId'' \<noteq> JStr tid"
  shows "ms_repo (fst (createEmailDeliveryHandler menv key prov event s)) = ms_repo s"
proof -
  have no: "fld event ''tenantId'' \<noteq> fld d ''tenantId''" if "assertEmailDelivery d = Inr d'" for d d'
    using asserted_delivery [OF that] assms by metis
  have "ms_repo (fst (send_delivery menv key prov d event s)) = ms_repo s" if "strict_eq (fld d ''tenantId'') (fld event ''tenantId'')" for d
    using no [OF marked_assert(1)] strict_eq_eq [OF that]
    by (cases "markEmailDeliverySending menv d (fld event ''attempt'')") (fastforce simp: send_delivery_def)+
  moreover have "ms_repo (fst (suppress_delivery menv key d sup n s)) = ms_repo s" if "strict_eq (fld d ''tenantId'') (fld event ''tenantId'')" for d sup n
    using no [OF marked_assert(2)] strict_eq_eq [OF that]
    by (cases "markEmailDeliverySuppressed menv d sup n") (fastforce simp: suppress_delivery_def)+
  ultimately show ?thesis
    by (auto simp: createEmailDeliveryHandler_def seq_def on_part_def split: sum.split)
qed

section \<open>Reports of the provider stay inside the tenant of their delivery\<close>

lemma matched_delivery:
  assumes "repo_sound env r" "delivery_with r k m = Some d" "assertEmailDelivery d = Inr d'"
  shows "\<exists>tid. own_delivery tid r d"
proof -
  obtain t where t: "fld d ''tenantId'' = JStr t" using asserted_delivery [OF assms(3)] by blast
  obtain k' where "(k', d) \<in> set (emailDeliveryStore r)"
    using assms(2) by (auto simp: delivery_with_def values_of_def dest!: find_SomeD)
  moreover have "named_store (emailDeliveryStore r)" using assms(1) by (simp add: repo_sound_def)
  ultimately have "store_get (emailDeliveryStore r) (fld d ''id'') = Some d"
    using named_store_member by blast
  then show ?thesis using t asserted_delivery [OF assms(3)] by (auto simp: own_delivery_def owned_def)
qed

text \<open>The report moves the delivery within its tenant.\<close>

lemma reported_owner:
  assumes "applyEmailWebhookStatus menv d event = Inr d'" "own_delivery tid r d"
  shows "own_delivery tid r d'"
proof -
  have "d' = d \<or> (\<exists>us. d' = spread d us \<and> map_of (rev us) ''id'' = None \<and> map_of (rev us) ''tenantId'' = None)"
    using assms(1) by (auto simp: applyEmailWebhookStatus_def guard_simps Let_def split: if_splits)
  moreover obtain fs where "d = JObj fs"
    using assms(1) assert_Inr by (auto simp: applyEmailWebhookStatus_def guard_simps Let_def)
  ultimately show ?thesis using assms(2) by (auto simp: own_delivery_def fld_spread)
qed

text \<open>Webhook payloads are parsed JSON, and the clock context is that of the environment.\<close>

lemma mail_kept_records [simp]:
  "mail_kept env tid r (r\<lparr>emailSuppressionStore := x\<rparr>)" "mail_kept env tid r (record_webhook i updated event r)"
  by (auto simp: mail_kept_def own_delivery_def record_webhook_def repo_kept_def repo_sound_def tenant_lists_def list_defs finding_tenant_def)

lemma mail_kept_suppression: "mail_kept env tid r (fst (suppression_step menv incoming r))"
  unfolding suppression_step_def Let_def
  by (auto simp: mail.stay split: sum.split)

lemma fst_seq_give: "fst (seq m (\<lambda>x. give (f x)) s) = fst (m s)"
  by (simp add: seq_def split: sum.split prod.split)

lemma webhook_kept:
  assumes sound: "repo_sound env r" and h: "hmac_nonempty env"
    and parsed: "\<And>secret payload parts event. check secret payload parts = Inr event \<Longrightarrow> plain event"
  shows "\<exists>tid. mail_kept env tid r (fst (handleEmailWebhook (ae_mail env) check rawBody headers secret (ae_signingKey env) r))"
proof (cases "verifyResendWebhook (ae_mail env) check rawBody headers secret")
  case (Inl e)
  then show ?thesis by (simp add: handleEmailWebhook_def mail.stay)
next
  case (Inr p)
  then obtain i event where p: "verifyResendWebhook (ae_mail env) check rawBody headers secret = Inr (i, event)" by (cases p) auto
  have event: "plain event"
    using p parsed by (auto simp: verifyResendWebhook_def guard_simps split: jsval.splits)
  let ?factory = "\<lambda>status. webhook_evidence (ae_mail env) (ae_signingKey env) i event status"
  have "\<exists>tid. mail_kept env tid r (fst (applyEmailWebhook (ae_mail env) i event (?factory status) r))" for status
  proof (cases "store_has (emailWebhookEventStore r) (JStr i) \<or> delivery_with r ''providerMessageId'' (fld (fld event ''data'') ''email_id'') = None")
    case True
    then show ?thesis by (auto simp: applyEmailWebhook_def mail.stay)
  next
    case False
    then obtain d where new: "\<not> store_has (emailWebhookEventStore r) (JStr i)"
      and d: "delivery_with r ''providerMessageId'' (fld (fld event ''data'') ''email_id'') = Some d" by auto
    show ?thesis
    proof (cases "applyEmailWebhookStatus (ae_mail env) d event")
      case (Inl e)
      then show ?thesis using new d by (simp add: applyEmailWebhook_def mail.stay)
    next
      case (Inr updated)
      then have "\<exists>x. assertEmailDelivery d = Inr x" by (auto simp: applyEmailWebhookStatus_def guard_simps Let_def)
      then obtain tid where own: "own_delivery tid r updated" using matched_delivery [OF sound d] reported_owner [OF Inr] by blast
      then have t: "fld updated ''tenantId'' = JStr tid" "\<exists>i. fld updated ''id'' = JStr i" by (simp_all add: own_delivery_def)
      have stored: "mail_kept env tid r (r\<lparr>emailDeliveryStore := store_set (JStr i) (json_clone updated) (emailDeliveryStore r)\<rparr>)"
        if "fld updated ''id'' = JStr i" for i
        using mail_kept_set [OF own] that by simp
      have evidence: "mail_kept env tid r' (add_evidence ev r')" if "?factory status updated (previous_hash r' (JStr tid)) = Inr ev" for r' ev
        using that t h event unfolding webhook_evidence_def
        by (intro mail_kept_same add_evidence_store evidence_kept [OF that [unfolded webhook_evidence_def]])
           (auto simp: options_ok_def same_hashes_def datum_fld)
      have "mail_kept env tid r (fst (applyEmailWebhook (ae_mail env) i event (?factory status) r))"
        unfolding applyEmailWebhook_def
        using new d Inr t
        by (auto simp: mail.stay intro!: mail.step_seq mail_kept_suppression stored evidence split: sum.split
            simp del: seq_writing seq_from_res)
      then show ?thesis by blast
    qed
  qed
  then show ?thesis
    using p by (auto simp: handleEmailWebhook_def Let_def mail.stay fst_seq_give split: sum.split)
qed

section \<open>The whole platform\<close>

text \<open>
  The API, the worker and the provider's reports over one repository: requests of any users, reports of
  any content, and deliveries for any events and with any provider, each under an environment with the
  same hash functions and signing key. The outbox may change in any way in between.
\<close>

record 'p platform =
  pl_api :: api
  pl_provider :: 'p

definition pl_mail :: "'p platform \<Rightarrow> 'p mail_system" where
  "pl_mail s = \<lparr>ms_repo = api_repo (pl_api s), ms_provider = pl_provider s\<rparr>"

definition after_delivery :: "'p mail_system \<Rightarrow> 'p platform \<Rightarrow> 'p platform" where
  "after_delivery m s = s\<lparr>pl_api := (pl_api s)\<lparr>api_repo := ms_repo m\<rparr>, pl_provider := ms_provider m\<rparr>"

definition parsed_json :: "signature_check \<Rightarrow> bool" where
  "parsed_json check = (\<forall>secret payload parts event. check secret payload parts = Inr event \<longrightarrow> plain event)"

inductive running :: "api_env \<Rightarrow> 'p platform \<Rightarrow> bool" for base where
  start: "running base \<lparr>pl_api = initial_api d, pl_provider = p\<rparr>"
| request: "running base s \<Longrightarrow> same_trust base env \<Longrightarrow> clean_env env \<Longrightarrow> plain_request rq \<Longrightarrow>
    running base (s\<lparr>pl_api := fst (handleApiRequest env rq (pl_api s))\<rparr>)"
| report: "running base s \<Longrightarrow> same_trust base env \<Longrightarrow> clean_env env \<Longrightarrow> parsed_json check \<Longrightarrow>
    running base (s\<lparr>pl_api := (pl_api s)\<lparr>api_repo :=
      fst (handleEmailWebhook (ae_mail env) check body headers secret (ae_signingKey env) (api_repo (pl_api s)))\<rparr>\<rparr>)"
| deliver: "running base s \<Longrightarrow> same_trust base env \<Longrightarrow> clean_env env \<Longrightarrow>
    running base (after_delivery (fst (createEmailDeliveryHandler (ae_mail env) (ae_signingKey env) provider event (pl_mail s))) s)"
| queue: "running base s \<Longrightarrow> running base (s\<lparr>pl_api := (pl_api s)\<lparr>api_outbox := q\<rparr>\<rparr>)"

lemma running_sound: "running base s \<Longrightarrow> repo_sound base (api_repo (pl_api s))"
proof (induction rule: running.induct)
  case (request s env rq)
  then show ?case using request_sound [of env rq "pl_api s"] sound_same_trust [of base env] by simp
next
  case (report s env check body headers secret)
  then have sound: "repo_sound env (api_repo (pl_api s))" using sound_same_trust by blast
  have "\<And>secret payload parts event. check secret payload parts = Inr event \<Longrightarrow> plain event"
    using report.hyps(4) unfolding parsed_json_def by blast
  then obtain tid where "mail_kept env tid (api_repo (pl_api s))
      (fst (handleEmailWebhook (ae_mail env) check body headers secret (ae_signingKey env) (api_repo (pl_api s))))"
    using webhook_kept [OF sound] report.hyps(3) unfolding clean_env_def by blast
  then show ?case using sound sound_same_trust [OF report.hyps(2)] by (simp add: mail_kept_def repo_kept_def)
next
  case (deliver s env provider event)
  then have sound: "repo_sound env (ms_repo (pl_mail s))" using sound_same_trust by (auto simp: pl_mail_def)
  let ?m = "fst (createEmailDeliveryHandler (ae_mail env) (ae_signingKey env) provider event (pl_mail s))"
  have "repo_sound env (ms_repo ?m)"
  proof (cases "\<exists>tid. fld event ''tenantId'' = JStr tid")
    case True
    then obtain tid where "fld event ''tenantId'' = JStr tid" by blast
    from handler_kept [OF sound _ this] deliver.hyps(3) sound show ?thesis
      by (auto simp: clean_env_def system_kept_def mail_kept_def repo_kept_def)
  next
    case False
    then show ?thesis using handler_without_tenant sound by metis
  qed
  then show ?case using sound_same_trust [OF deliver.hyps(2)] by (simp add: after_delivery_def)
qed (simp_all add: initial_sound)

text \<open>
  C7. From the start of the platform, after any sequence of API requests of any users, reports of the email
  provider, and runs of the worker on any events and with any provider, under environments with the same hash functions and
  signing key, the audit trail of every tenant verifies: the verification report says so. No step, on any path and
  error, appends an event that breaks a chain.
\<close>

theorem platform_audit_verifies:
  assumes "running base s" "same_trust base env"
  shows "\<exists>report. buildAuditVerificationReport (m_ctx (ae_mail env)) (ae_signingKey env)
      (listAuditEventsByTenant (api_repo (pl_api s)) (JStr T)) = Inr report \<and> fld report ''valid'' = JBool True"
  using running_sound [OF assms(1)] assms(2)
  by (auto simp: repo_sound_def chain_ok_def same_trust_def buildAuditVerificationReport_def verdict_ok_def)

definition demo_platform :: "unit platform" where
  "demo_platform = \<lparr>pl_api = initial_api demo_disk, pl_provider = ()\<rparr>"

lemma platform_audit_verifies_witness:
  "\<exists>report. buildAuditVerificationReport (m_ctx (ae_mail demo_api_env)) (ae_signingKey demo_api_env)
      (listAuditEventsByTenant (api_repo (fst (handleApiRequest demo_api_env demo_request (initial_api demo_disk)))) (JStr ''t1'')) = Inr report
    \<and> fld report ''valid'' = JBool True"
proof -
  have "running demo_api_env (demo_platform\<lparr>pl_api := fst (handleApiRequest demo_api_env demo_request (pl_api demo_platform))\<rparr>)"
    using running.request [OF running.start demo_trust] by (simp add: demo_platform_def)
  from platform_audit_verifies [OF this demo_trust(1)] show ?thesis by (simp add: demo_platform_def)
qed

end
