(* ===== verification/EmailOnce.thy ===== *)
theory EmailOnce
  imports EmailWorker
begin

text \<open>
  What the delivery handler and the webhook promise about repetition: only due mail reaches the provider,
  a delivery that was handled is not sent again, and a report that was taken in changes nothing when it comes again.
\<close>

section \<open>Sending once\<close>

text \<open>
  C15. Mail reaches the provider only when it should. Whatever the event, the handler leaves the provider untouched unless the event
  requests an email, resolves to a delivery of the event's own tenant that is neither accepted nor ended,
  and the tenant has no suppression for its recipient.
\<close>

theorem provider_only_for_due_mail:
  "ms_provider (fst (createEmailDeliveryHandler env key provider event s)) = ms_provider s
   \<or> (let d = getEmailDeliveryById (ms_repo s) (fld event ''aggregateId'') in
      fld event ''eventType'' = JStr ''email.delivery.requested'' \<and> truthy d \<and> fld d ''tenantId'' = fld event ''tenantId''
      \<and> one_of settled_statuses (fld d ''status'') = False
      \<and> (\<exists>none. getEmailSuppression (ms_repo s) (fld d ''tenantId'') (fld d ''recipientEmail'') = Inr none \<and> truthy none = False))"
proof -
  have finalize: "ms_provider (fst (finalize_as env key action suffix v s)) = ms_provider s" for action suffix v
    by (simp add: finalize_as_def on_part_def split: prod.split)
  have suppress: "ms_provider (fst (suppress_delivery env key d w n s)) = ms_provider s" for d w n
    using finalize by (auto simp: suppress_delivery_def fst_seq_give split: sum.split)
  show ?thesis
    unfolding createEmailDeliveryHandler_def
    by (auto simp: Let_def seq_def on_part_def suppress dest: strict_eq_eq split: sum.split)
qed

lemma read_back: "getEmailDeliveryById (r\<lparr>emailDeliveryStore := store_set (JStr i) v st\<rparr>) (JStr i) = json_clone v"
  by (simp add: getEmailDeliveryById_def store_get_set is_array_def is_obj_def)

lemma finalized_read:
  assumes "finalizeEmailDelivery v factory r = (r', Inr x)" "fld v ''id'' = JStr i"
  shows "getEmailDeliveryById r' (JStr i) = json_clone v"
proof -
  have evidence: "getEmailDeliveryById (add_evidence ev q) k = getEmailDeliveryById q k" for ev q k
    by (simp add: getEmailDeliveryById_def add_evidence_store)
  show ?thesis
    using assms
    by (auto simp: finalizeEmailDelivery_def saveEmailDelivery_def put_existing_def guard_simps evidence read_back json_clone_idem
        split: sum.splits)
qed

lemma settled_marks:
  "markEmailDeliveryAccepted env d p i = Inr d' \<Longrightarrow> one_of settled_statuses (fld d' ''status'')"
  "markEmailDeliverySuppressed env d w n = Inr d' \<Longrightarrow> one_of settled_statuses (fld d' ''status'')"
proof -
  have terminal: "is_terminal d \<Longrightarrow> one_of settled_statuses (fld d ''status'')"
    by (cases "fld d ''status''") (auto simp: is_terminal_def terminal_statuses_def settled_statuses_def one_of_def)
  show "markEmailDeliveryAccepted env d p i = Inr d' \<Longrightarrow> one_of settled_statuses (fld d' ''status'')"
    using terminal by (auto simp: markEmailDeliveryAccepted_def guard_simps settled_statuses_def fld_spread dest!: assert_Inr split: if_splits)
  show "markEmailDeliverySuppressed env d w n = Inr d' \<Longrightarrow> one_of settled_statuses (fld d' ''status'')"
    using terminal by (auto simp: markEmailDeliverySuppressed_def guard_simps settled_statuses_def fld_spread dest!: assert_Inr split: if_splits)
qed

text \<open>After a run that returned, the delivery of the event is settled.\<close>

definition settled_for :: "jsval \<Rightarrow> repo \<Rightarrow> bool" where
  "settled_for event r =
    (let d = getEmailDeliveryById r (fld event ''aggregateId'') in
     truthy d \<and> strict_eq (fld d ''tenantId'') (fld event ''tenantId'') \<and> one_of settled_statuses (fld d ''status''))"

lemma settled_run:
  assumes "settled_for event (ms_repo s)"
  shows "createEmailDeliveryHandler env key provider event s = (s, Inr ())"
  using assms by (simp add: createEmailDeliveryHandler_def settled_for_def Let_def)

lemma one_of_clone: "one_of xs (fld v k) \<Longrightarrow> one_of xs (fld (json_clone v) k)"
  by (auto dest: one_ofD)

lemma finalize_settles:
  assumes "finalize_as env key action suffix v s = (s', Inr x)" "fld v ''id'' = fld event ''aggregateId''" "fld v ''id'' = JStr i"
    and "fld v ''tenantId'' = JStr t" "fld event ''tenantId'' = JStr t" "one_of settled_statuses (fld v ''status'')"
  shows "settled_for event (ms_repo s')"
proof -
  obtain r' where r': "finalizeEmailDelivery v (worker_evidence env key action suffix v) (ms_repo s) = (r', Inr x)" "ms_repo s' = r'"
    using assms(1) by (auto simp: finalize_as_def on_part_def split: prod.splits)
  have "getEmailDeliveryById r' (fld event ''aggregateId'') = json_clone v"
    using finalized_read [OF r'(1) assms(3)] assms(2,3) by simp
  moreover have "truthy (json_clone v)" using assms(3) by (cases v) auto
  ultimately show ?thesis
    using r'(2) assms(4-6) one_of_clone by (auto simp: settled_for_def Let_def)
qed

lemma step_same_names: "delivery_step d d' \<Longrightarrow> fld d' ''id'' = fld d ''id'' \<and> fld d' ''tenantId'' = fld d ''tenantId''"
proof -
  assume "delivery_step d d'"
  then consider "d' = d" | us where "assertEmailDelivery d = Inr d" "d' = spread d us" "EmailLife.allowed_update us"
    using step_update by blast
  then show ?thesis
    by cases (auto dest: update_keeps(2) simp: same_delivery_def identity_fields_def)
qed

lemma handler_settles:
  assumes named: "named_store (emailDeliveryStore (ms_repo s))"
    and run: "createEmailDeliveryHandler env key provider event s = (s', Inr ())"
    and mail: "fld event ''eventType'' = JStr ''email.delivery.requested''"
  shows "settled_for event (ms_repo s')"
proof -
  define d where "d = getEmailDeliveryById (ms_repo s) (fld event ''aggregateId'')"
  have d: "truthy d" "fld d ''tenantId'' = fld event ''tenantId''"
    using run mail by (auto simp: createEmailDeliveryHandler_def d_def dest: strict_eq_eq split: if_splits)
  obtain v where v: "store_get (emailDeliveryStore (ms_repo s)) (fld event ''aggregateId'') = Some v"
    using d(1) by (auto simp: d_def getEmailDeliveryById_def split: option.splits)
  obtain i where i: "fld event ''aggregateId'' = JStr i" "fld v ''id'' = JStr i"
    using named store_get_member [OF v] by (auto simp: named_store_def list_all_iff)
  then have id: "fld d ''id'' = fld event ''aggregateId''" using v by (simp add: d_def getEmailDeliveryById_def)
  show ?thesis
  proof (cases "one_of settled_statuses (fld d ''status'')")
    case True
    then show ?thesis using run mail d by (auto simp: createEmailDeliveryHandler_def settled_for_def Let_def d_def split: if_splits)
  next
    case False
    obtain w where w: "getEmailSuppression (ms_repo s) (fld d ''tenantId'') (fld d ''recipientEmail'') = Inr w"
      and rest: "(if truthy w then suppress_delivery env key d w (fld event ''attempt'') else send_delivery env key provider d event) s = (s', Inr ())"
      using run mail d False
      by (auto simp: createEmailDeliveryHandler_def d_def [symmetric] seq_def on_part_def split: if_splits sum.splits)
    show ?thesis
    proof (cases "truthy w")
      case True
      then obtain d' where m: "markEmailDeliverySuppressed env d w (fld event ''attempt'') = Inr d'"
        using rest by (auto simp: suppress_delivery_def split: sum.splits)
      then obtain x where "finalize_as env key ''email.delivery.suppressed'' (''suppression-'' @ js_string (fld w ''id'')) d' s = (s', Inr x)"
        using rest True by (auto simp: suppress_delivery_def seq_def split: sum.splits prod.splits)
      then show ?thesis
        using finalize_settles settled_marks(2) [OF m] step_same_names [OF step_suppressed [OF m]] id d(2)
          asserted_delivery [OF marked_assert(2) [OF m]] i(1) by metis
    next
      case False
      then obtain sending s1 where m: "markEmailDeliverySending env d (fld event ''attempt'') = Inr sending"
        and a: "accept_delivery env key provider sending (fld event ''idempotencyKey'') s1 = (s', Inr ())"
        using rest
        by (auto simp: send_delivery_def record_failure_def seq_def attempt_def on_part_def transition_def split: sum.splits prod.splits)
      then obtain s2 mid accepted x where acc: "markEmailDeliveryAccepted env sending (pv_name provider) mid = Inr accepted"
        and f: "finalize_as env key ''email.delivery.accepted'' ''accepted'' accepted s2 = (s', Inr x)"
        by (auto simp: accept_delivery_def seq_def split: sum.splits prod.splits)
      show ?thesis
        using finalize_settles [OF f] settled_marks(1) [OF acc] step_same_names [OF step_accepted [OF acc]]
          step_same_names [OF step_sending [OF m]] id d(2) asserted_delivery [OF marked_assert(1) [OF m]] i(1) by metis
    qed
  qed
qed


lemma running_named: "running base p \<Longrightarrow> named_store (emailDeliveryStore (ms_repo (pl_mail p)))"
  by (drule running_sound) (simp add: repo_sound_def pl_mail_def)

definition demo_mail_system :: "sink mail_system" where
  "demo_mail_system = \<lparr>ms_repo = (createMemoryRepository (JObj []))\<lparr>emailDeliveryStore := [(JStr ''d1'', demo_delivery)]\<rparr>, ms_provider = demo_sink\<rparr>"

definition demo_due :: "rat \<Rightarrow> jsval" where
  "demo_due n = JObj [(''eventType'', JStr ''email.delivery.requested''), (''aggregateId'', JStr ''d1''), (''tenantId'', JStr ''t1''),
     (''attempt'', JNum n), (''idempotencyKey'', JStr ''k1'')]"

definition demo_run :: "sink mail_system \<times> (js_error + unit)" where
  "demo_run = createEmailDeliveryHandler demo_mail_env JNull (sink_provider demo_mail_env) (demo_due 1) demo_mail_system"


section \<open>Reports once\<close>

lemma report_recorded:
  assumes "applyEmailWebhook env i event factory r = (r', Inr result)" "wr_duplicate result \<or> truthy (wr_delivery result)"
  shows "store_has (emailWebhookEventStore r') (JStr i)"
proof (cases "store_has (emailWebhookEventStore r) (JStr i)")
  case True
  then show ?thesis using assms(1) by (auto simp: applyEmailWebhook_def)
next
  case False
  have kept: "emailWebhookEventStore (add_evidence ev q) = emailWebhookEventStore q" for ev q
    by (simp add: add_evidence_def appendAuditEvent_def)
  have "store_has (emailWebhookEventStore (record_webhook i u event q)) (JStr i)" for u q
    by (simp add: record_webhook_def store_has_def store_get_set is_array_def is_obj_def)
  then show ?thesis
    using assms False
    by (auto simp: applyEmailWebhook_def seq_def kept split: option.splits sum.splits prod.splits)
qed

text \<open>
  C18. A report of the provider is taken in once: after a report was answered with 200, the same report, delivered again
  by the provider with whatever signature it verifies under, is acknowledged as a duplicate and changes nothing.
\<close>

theorem report_taken_once:
  assumes "handleEmailWebhook env check body headers secret key r = (r', Inr (200, answer))"
    and "verifyResendWebhook env check body headers secret = Inr (i, event)"
    and "verifyResendWebhook env' check' body' headers' secret' = Inr (i, event)"
  shows "handleEmailWebhook env' check' body' headers' secret' key' r'
    = (r', Inr (webhook_matched \<lparr>wr_duplicate = True, wr_delivery = JNull\<rparr>))"
proof -
  obtain ty where ty: "get_fld event ''type'' = Inr ty" and status: "truthy (emailWebhookStatus ty)"
    and mid: "truthy (fld (fld event ''data'') ''email_id'')"
    using assms(1,2) by (auto simp: handleEmailWebhook_def Let_def webhook_reply_def split: sum.splits if_splits)
  then obtain result where run: "applyEmailWebhook env i event (webhook_evidence env key i event (emailWebhookStatus ty)) r = (r', Inr result)"
    and code: "fst (webhook_matched result) = 200"
    using assms(1,2) by (auto simp: handleEmailWebhook_def Let_def seq_def split: sum.splits prod.splits)
  have "store_has (emailWebhookEventStore r') (JStr i)"
    using report_recorded [OF run] code by (auto simp: webhook_matched_def webhook_reply_def split: if_splits)
  then have again: "applyEmailWebhook env' i event factory r' = (r', Inr \<lparr>wr_duplicate = True, wr_delivery = JNull\<rparr>)" for factory
    by (simp add: applyEmailWebhook_def)
  show ?thesis
    using assms(3) ty status mid by (simp add: handleEmailWebhook_def Let_def seq_def again)
qed

definition demo_mail_repo :: repo where
  "demo_mail_repo = (createMemoryRepository (JObj []))\<lparr>emailDeliveryStore := [(JStr ''d1'', demo_plain)]\<rparr>"

definition demo_report_check :: signature_check where
  "demo_report_check = (\<lambda>secret payload (i, ts, sg). if sg = ''v1'' then Inr demo_e1 else Inl type_error)"

definition demo_reported :: "repo \<times> (js_error + nat \<times> jsval)" where
  "demo_reported = handleEmailWebhook demo_mail_env demo_report_check (JStr ''{}'') demo_headers (JStr ''s'') JNull demo_mail_repo"

lemma report_taken_once_witness:
  "handleEmailWebhook demo_mail_env demo_report_check (JStr ''{}'') demo_headers (JStr ''s'') JNull (fst demo_reported)
    = (fst demo_reported, Inr (webhook_matched \<lparr>wr_duplicate = True, wr_delivery = JNull\<rparr>))"
proof -
  have "(case snd demo_reported of Inr (n, b) \<Rightarrow> n | Inl e \<Rightarrow> 0) = 200" by code_simp
  then obtain b where "snd demo_reported = Inr (200, b)" by (auto split: sum.splits prod.splits)
  then have first: "handleEmailWebhook demo_mail_env demo_report_check (JStr ''{}'') demo_headers (JStr ''s'') JNull demo_mail_repo
      = (fst demo_reported, Inr (200, b))" by (simp add: demo_reported_def prod_eq_iff)
  have verified: "verifyResendWebhook demo_mail_env demo_report_check (JStr ''{}'') demo_headers (JStr ''s'') = Inr (''m'', demo_e1)"
    by code_simp
  show ?thesis by (rule report_taken_once [OF first verified verified])
qed

end
