(* ===== verification/ProductionConfig.thy ===== *)
theory ProductionConfig
  imports Auth
begin

text \<open>
  The start-up gate of production and staging (packages/production-config/src/index.js): the variables each
  service must have, the checks on hosts, URLs, secrets and numbers, and the numeric options read from the environment. The
  environment is an object of texts; the URL parser is a parameter, with the parts of a URL the checks read.
\<close>

section \<open>Limits and required variables\<close>

record bounds =
  minimum :: int
  maximum :: int

definition limits_of :: "(string \<times> int \<times> int) list \<Rightarrow> (string \<times> bounds) list" where
  "limits_of xs = map (\<lambda>(name, lo, hi). (name, \<lparr>minimum = lo, maximum = hi\<rparr>)) xs"

definition worker_numeric_limits :: "(string \<times> bounds) list" where
  "worker_numeric_limits = limits_of
    [(''XYGO_WORKER_INTERVAL_MS'', 100, 60000), (''XYGO_WORKER_MAX_ATTEMPTS'', 1, 20),
     (''XYGO_WORKER_BASE_BACKOFF_MS'', 100, 900000), (''XYGO_WORKER_MAX_BACKOFF_MS'', 100, 86400000),
     (''XYGO_WORKER_CONCURRENCY'', 1, 64), (''XYGO_WORKER_STALE_AFTER_MS'', 1000, 3600000),
     (''XYGO_WORKER_SHUTDOWN_TIMEOUT_MS'', 1000, 120000), (''XYGO_WORKER_MAX_DEAD_JOBS'', 0, 100000)]"

definition monitoring_numeric_limits :: "(string \<times> bounds) list" where
  "monitoring_numeric_limits = limits_of
    [(''XYGO_ALERT_OUTBOX_BACKLOG_MAX'', 0, 1000000), (''XYGO_ALERT_OUTBOX_OLDEST_PENDING_SEC'', 1, 86400),
     (''XYGO_ALERT_EMAIL_FAILED_MAX'', 0, 100000), (''XYGO_ALERT_EMAIL_STALE_SEC'', 60, 604800),
     (''XYGO_ALERT_DATABASE_LATENCY_MS'', 50, 30000), (''XYGO_ALERT_WORKER_HEARTBEAT_SEC'', 5, 3600)]"

definition postgres_pool_environment :: "(string \<times> bounds) list" where
  "postgres_pool_environment = limits_of
    [(''XYGO_PG_POOL_MAX'', 1, 50), (''XYGO_PG_IDLE_TIMEOUT_MS'', 1000, 300000), (''XYGO_PG_CONNECTION_TIMEOUT_MS'', 1000, 30000)]"

definition postgres_pool_defaults :: "(string \<times> int) list" where
  "postgres_pool_defaults =
    [(''XYGO_PG_POOL_MAX'', 10), (''XYGO_PG_IDLE_TIMEOUT_MS'', 30000), (''XYGO_PG_CONNECTION_TIMEOUT_MS'', 5000)]"

definition postgres_pool_env_vars :: "string list" where
  "postgres_pool_env_vars = map fst postgres_pool_environment"

definition public_web_runtime_env_vars :: "string list" where
  "public_web_runtime_env_vars =
    [''XYGO_DEPLOY_ENVIRONMENT'', ''XYGO_RELEASE'', ''XYGO_WEB_APP_URL'', ''XYGO_WEB_API_BASE_URL'', ''XYGO_AUTH_MODE'',
     ''XYGO_OIDC_PROVIDER'', ''XYGO_OIDC_ISSUER'', ''XYGO_OIDC_AUDIENCE'', ''XYGO_WEB_OIDC_CLIENT_ID'',
     ''XYGO_WEB_OIDC_AUTHORIZATION_ENDPOINT'', ''XYGO_WEB_OIDC_TOKEN_ENDPOINT'',
     ''XYGO_WEB_OIDC_END_SESSION_ENDPOINT'', ''XYGO_WEB_OIDC_SCOPES'', ''XYGO_WEB_TOKEN_RENEW_BEFORE_SEC'',
     ''XYGO_WEB_MONITORING_ENDPOINT'']"

definition private_production_env_vars :: "string list" where
  "private_production_env_vars =
    [''XYGO_API_PG_URL'', ''XYGO_AUDIT_SIGNING_KEY'', ''XYGO_EMAIL_RESEND_API_KEY'', ''XYGO_EMAIL_WEBHOOK_SECRET'',
     ''XYGO_STORAGE_ACCESS_KEY_ID'', ''XYGO_STORAGE_SECRET_ACCESS_KEY'', ''XYGO_MONITORING_AUTH_TOKEN'',
     ''XYGO_OIDC_BINDING_ADMIN_TOKEN'', ''XYGO_WEB_SESSION_SECRET'', ''XYGO_WEB_SESSION_ENCRYPTION_KEY'',
     ''XYGO_WEB_SESSION_PG_URL'']"

definition server_only_web_auth_env_vars :: "string list" where
  "server_only_web_auth_env_vars =
    [''XYGO_WEB_SESSION_SECRET'', ''XYGO_WEB_SESSION_ENCRYPTION_KEY'', ''XYGO_WEB_SESSION_STORE'',
     ''XYGO_WEB_SESSION_PG_URL'', ''XYGO_WEB_SESSION_COOKIE_NAME'', ''XYGO_WEB_SESSION_COOKIE_SECURE'',
     ''XYGO_WEB_SESSION_COOKIE_HTTP_ONLY'', ''XYGO_WEB_SESSION_COOKIE_SAME_SITE'', ''XYGO_WEB_SESSION_IDLE_SEC'',
     ''XYGO_WEB_SESSION_ABSOLUTE_SEC'', ''XYGO_WEB_AUTH_TRANSACTION_TTL_SEC'', ''XYGO_WEB_TOKEN_REQUEST_TIMEOUT_MS'',
     ''XYGO_WEB_TOKEN_CLOCK_TOLERANCE_SEC'', ''XYGO_WEB_REQUIRE_REFRESH_TOKEN'', ''XYGO_WEB_ALLOWED_ORIGIN'']"

definition server_only_email_monitoring_env_vars :: "string list" where
  "server_only_email_monitoring_env_vars =
    [''XYGO_EMAIL_TRANSPORT'', ''XYGO_EMAIL_FROM'', ''XYGO_EMAIL_REPLY_TO'', ''XYGO_EMAIL_RESEND_API_URL'',
     ''XYGO_EMAIL_RESEND_API_KEY'', ''XYGO_EMAIL_WEBHOOK_SECRET'', ''XYGO_EMAIL_REQUEST_TIMEOUT_MS'',
     ''XYGO_EMAIL_SINK_PATH'', ''XYGO_MONITORING_ENABLED'', ''XYGO_MONITORING_OTLP_ENDPOINT'',
     ''XYGO_MONITORING_AUTH_TOKEN'']
    @ map fst monitoring_numeric_limits"

definition server_only_storage_env_vars :: "string list" where
  "server_only_storage_env_vars =
    [''XYGO_STORAGE_DRIVER'', ''XYGO_STORAGE_BUCKET'', ''XYGO_STORAGE_REGION'', ''XYGO_STORAGE_ENDPOINT'',
     ''XYGO_STORAGE_ACCESS_KEY_ID'', ''XYGO_STORAGE_SECRET_ACCESS_KEY'', ''XYGO_STORAGE_FORCE_PATH_STYLE'',
     ''XYGO_STORAGE_PUBLIC_ACCESS'', ''XYGO_STORAGE_SERVER_SIDE_ENCRYPTION'', ''XYGO_STORAGE_MAX_FILE_BYTES'',
     ''XYGO_STORAGE_ALLOWED_MIME_TYPES'', ''XYGO_STORAGE_SIGNED_URL_TTL_SEC'', ''XYGO_STORAGE_RETENTION_DAYS'']"

definition server_only_outbox_env_vars :: "string list" where
  "server_only_outbox_env_vars =
    [''XYGO_OUTBOX_BACKEND'']
    @ map fst worker_numeric_limits"

definition api_required_env_vars :: "string list" where
  "api_required_env_vars =
    [''NODE_ENV'', ''STAGED_MODE'', ''XYGO_DEPLOY_ENVIRONMENT'', ''XYGO_RELEASE'', ''XYGO_AUTH_MODE'',
     ''XYGO_API_REPOSITORY_MODE'', ''XYGO_API_PG_URL'']
    @ postgres_pool_env_vars
    @ [''XYGO_OIDC_PROVIDER'', ''XYGO_OIDC_ISSUER'', ''XYGO_OIDC_AUDIENCE'', ''XYGO_OIDC_JWKS_URI'',
     ''XYGO_OIDC_ALLOWED_ALGORITHMS'', ''XYGO_OIDC_CLOCK_TOLERANCE_SEC'', ''XYGO_AUDIT_SIGNING_KEY'',
     ''XYGO_WEB_APP_URL'', ''XYGO_WEB_API_BASE_URL'', ''XYGO_EMAIL_TRANSPORT'', ''XYGO_EMAIL_FROM'',
     ''XYGO_EMAIL_REPLY_TO'', ''XYGO_EMAIL_RESEND_API_URL'', ''XYGO_EMAIL_RESEND_API_KEY'',
     ''XYGO_EMAIL_WEBHOOK_SECRET'', ''XYGO_EMAIL_REQUEST_TIMEOUT_MS'', ''XYGO_STORAGE_DRIVER'',
     ''XYGO_STORAGE_BUCKET'', ''XYGO_STORAGE_REGION'', ''XYGO_STORAGE_ENDPOINT'', ''XYGO_STORAGE_ACCESS_KEY_ID'',
     ''XYGO_STORAGE_SECRET_ACCESS_KEY'', ''XYGO_STORAGE_FORCE_PATH_STYLE'', ''XYGO_STORAGE_PUBLIC_ACCESS'',
     ''XYGO_STORAGE_SERVER_SIDE_ENCRYPTION'', ''XYGO_STORAGE_MAX_FILE_BYTES'', ''XYGO_STORAGE_ALLOWED_MIME_TYPES'',
     ''XYGO_STORAGE_SIGNED_URL_TTL_SEC'', ''XYGO_STORAGE_RETENTION_DAYS'', ''XYGO_OUTBOX_BACKEND'',
     ''XYGO_MONITORING_ENABLED'', ''XYGO_MONITORING_OTLP_ENDPOINT'', ''XYGO_MONITORING_AUTH_TOKEN'']
    @ map fst monitoring_numeric_limits"

definition web_required_env_vars :: "string list" where
  "web_required_env_vars =
    [''NODE_ENV'', ''STAGED_MODE'']
    @ public_web_runtime_env_vars
    @ server_only_web_auth_env_vars"

definition worker_required_env_vars :: "string list" where
  "worker_required_env_vars =
    [''NODE_ENV'', ''STAGED_MODE'', ''XYGO_DEPLOY_ENVIRONMENT'', ''XYGO_RELEASE'', ''XYGO_API_PG_URL'']
    @ postgres_pool_env_vars
    @ [''XYGO_AUDIT_SIGNING_KEY'', ''XYGO_WEB_APP_URL'', ''XYGO_EMAIL_TRANSPORT'', ''XYGO_EMAIL_FROM'',
     ''XYGO_EMAIL_REPLY_TO'', ''XYGO_EMAIL_RESEND_API_URL'', ''XYGO_EMAIL_RESEND_API_KEY'',
     ''XYGO_EMAIL_WEBHOOK_SECRET'', ''XYGO_EMAIL_REQUEST_TIMEOUT_MS'', ''XYGO_STORAGE_DRIVER'',
     ''XYGO_STORAGE_BUCKET'', ''XYGO_STORAGE_REGION'', ''XYGO_STORAGE_ENDPOINT'', ''XYGO_STORAGE_ACCESS_KEY_ID'',
     ''XYGO_STORAGE_SECRET_ACCESS_KEY'', ''XYGO_STORAGE_FORCE_PATH_STYLE'', ''XYGO_STORAGE_PUBLIC_ACCESS'',
     ''XYGO_STORAGE_SERVER_SIDE_ENCRYPTION'', ''XYGO_STORAGE_MAX_FILE_BYTES'', ''XYGO_STORAGE_ALLOWED_MIME_TYPES'',
     ''XYGO_STORAGE_SIGNED_URL_TTL_SEC'', ''XYGO_STORAGE_RETENTION_DAYS'', ''XYGO_OUTBOX_BACKEND'',
     ''XYGO_WORKER_INTERVAL_MS'', ''XYGO_WORKER_MAX_ATTEMPTS'', ''XYGO_WORKER_BASE_BACKOFF_MS'',
     ''XYGO_WORKER_MAX_BACKOFF_MS'', ''XYGO_WORKER_CONCURRENCY'', ''XYGO_WORKER_STALE_AFTER_MS'',
     ''XYGO_WORKER_SHUTDOWN_TIMEOUT_MS'', ''XYGO_WORKER_MAX_DEAD_JOBS'', ''XYGO_MONITORING_ENABLED'',
     ''XYGO_MONITORING_OTLP_ENDPOINT'', ''XYGO_MONITORING_AUTH_TOKEN'']
    @ map fst monitoring_numeric_limits"

definition secure_postgres_ssl_modes :: "string list" where
  "secure_postgres_ssl_modes = [''require'', ''verify-ca'', ''verify-full'']"

definition reserved_production_host_suffixes :: "string list" where
  "reserved_production_host_suffixes = [''.example'', ''.invalid'', ''.test'', ''.localhost'', ''.local'',
     ''.example.com'', ''.example.net'', ''.example.org'']"

section \<open>Checks\<close>

definition option_default :: "'a \<Rightarrow> 'a option \<Rightarrow> 'a" where
  "option_default d ov = (case ov of None \<Rightarrow> d | Some v \<Rightarrow> v)"

text \<open>What the checks read of a URL beyond its parts for storage and mail.\<close>

record page_url = full_url +
  u_origin :: string
  u_pathname :: string
  u_sslmode :: jsval

type_synonym url_parser = "string \<Rightarrow> page_url option"

definition plain_parser :: "url_parser \<Rightarrow> string \<Rightarrow> full_url option" where
  "plain_parser parse s = map_option full_url.truncate (parse s)"

text \<open>Checks in the order of the code; the first that fails throws.\<close>

fun all_checks :: "unit res list \<Rightarrow> unit res" where
  "all_checks [] = Inr ()"
| "all_checks (c # cs) = (case c of Inl e \<Rightarrow> Inl e | Inr _ \<Rightarrow> all_checks cs)"

definition config_failure :: "string \<Rightarrow> string \<Rightarrow> js_error" where
  "config_failure service message = Err (''Production '' @ service @ '' configuration error: '' @ message)"

definition require :: "bool \<Rightarrow> string \<Rightarrow> string \<Rightarrow> unit res" where
  "require ok service message = (if ok then Inr () else Inl (config_failure service message))"

definition normal_value :: "jsval \<Rightarrow> string \<Rightarrow> jsval" where
  "normal_value env name = normalizedString (fld env name)"

text \<open>A word at the start, followed by the end or a separator, in any case.\<close>

definition word_start :: "string \<Rightarrow> string \<Rightarrow> bool" where
  "word_start w s = (starts_with w (js_lower s) \<and> (let rest = drop (length w) s in rest = [] \<or> hd rest \<in> set ''-_: ''))"

definition isPlaceholderValue :: "jsval \<Rightarrow> bool" where
  "isPlaceholderValue value =
    (case normalizedString value of
       JStr s \<Rightarrow> isPlaceholder s \<or> word_start ''your'' s
     | _ \<Rightarrow> False)"

definition placeholder_label :: "string \<Rightarrow> bool" where
  "placeholder_label l = list_ex (\<lambda>w. l = w \<or> starts_with (w @ ''-'') l) [''example'', ''sample'', ''placeholder'']"

definition production_hostname :: "string \<Rightarrow> string" where
  "production_hostname h = (let s = js_lower h in if s \<noteq> [] \<and> last s = CHR ''.'' then butlast s else s)"

definition reserved_hostname :: "string \<Rightarrow> bool" where
  "reserved_hostname h =
    (let s = production_hostname h in
     s \<in> set [''localhost'', ''example.com'', ''example.net'', ''example.org'', ''0.0.0.0'', ''[::1]'', ''[::]'']
     \<or> starts_with ''127.'' s \<or> list_ex placeholder_label (split (CHR ''.'') s)
     \<or> list_ex (\<lambda>suffix. ends_with suffix s) reserved_production_host_suffixes)"

definition requireProductionHostname :: "string \<Rightarrow> string \<Rightarrow> string \<Rightarrow> unit res" where
  "requireProductionHostname hostname name service =
    require (\<not> reserved_hostname hostname) service
      (name @ '' must not use a reserved example, test, local, invalid, or loopback hostname.'')"

definition requireValues :: "jsval \<Rightarrow> string list \<Rightarrow> string \<Rightarrow> unit res" where
  "requireValues env names service =
    (let missing = filter (\<lambda>name. \<not> truthy (normal_value env name)) names;
         placeholders = filter (\<lambda>name. isPlaceholderValue (fld env name)) names in
     all_checks
      [require (missing = []) service (''missing required environment variables: '' @ join '', '' missing @ ''.''),
       require (placeholders = []) service (''placeholder values are forbidden for: '' @ join '', '' placeholders @ ''.'')])"

definition requireExact :: "jsval \<Rightarrow> string \<Rightarrow> string \<Rightarrow> string \<Rightarrow> unit res" where
  "requireExact env name expected service =
    require (normal_value env name = JStr expected) service (name @ '' must be '' @ expected @ ''.'')"

definition requireHttpsUrl :: "url_parser \<Rightarrow> jsval \<Rightarrow> string \<Rightarrow> string \<Rightarrow> bool \<Rightarrow> unit res" where
  "requireHttpsUrl parse env name service allowQuery =
    (case parse (js_string (normal_value env name)) of
       None \<Rightarrow> Inl (config_failure service (name @ '' must be an absolute HTTPS URL.''))
     | Some url \<Rightarrow> all_checks
        [require (u_protocol url = ''https:'' \<and> u_hostname url \<noteq> [] \<and> u_username url = [] \<and> u_password url = []
            \<and> u_hash url = [] \<and> (allowQuery \<or> u_search url = [])) service
          (name @ '' must be an HTTPS URL without credentials, a fragment, or unsupported URL components.''),
         requireProductionHostname (u_hostname url) name service])"

definition requirePostgresUrl :: "url_parser \<Rightarrow> jsval \<Rightarrow> string \<Rightarrow> string \<Rightarrow> unit res" where
  "requirePostgresUrl parse env service name =
    (case parse (js_string (normal_value env name)) of
       None \<Rightarrow> Inl (config_failure service (name @ '' must be a valid PostgreSQL connection URL.''))
     | Some url \<Rightarrow> all_checks
        [require (u_protocol url \<in> set [''postgres:'', ''postgresql:''] \<and> u_hostname url \<noteq> []) service
          (name @ '' must use the postgres or postgresql scheme and name a host.''),
         requireProductionHostname (u_hostname url) name service,
         require (one_of secure_postgres_ssl_modes (u_sslmode url)) service
          (name @ '' must set sslmode=require, verify-ca, or verify-full.'')])"

definition requireSecret :: "jsval \<Rightarrow> string \<Rightarrow> string \<Rightarrow> nat \<Rightarrow> unit res" where
  "requireSecret env name service minimumLength =
    require (case normal_value env name of JStr s \<Rightarrow> minimumLength \<le> length s \<and> \<not> isPlaceholderValue (JStr s) | _ \<Rightarrow> False) service
      (name @ '' must be a non-placeholder secret of at least '' @ nat_string minimumLength @ '' characters.'')"

definition integer_within :: "bounds \<Rightarrow> string \<Rightarrow> bool" where
  "integer_within b raw =
    (let value = number_of_string raw in
     raw \<noteq> [] \<and> list_all is_digit raw \<and> is_safe_integer value
     \<and> \<not> num_less value (JNum (of_int (minimum b))) \<and> \<not> num_less (JNum (of_int (maximum b))) value)"

definition must_be_within :: "string \<Rightarrow> bounds \<Rightarrow> string" where
  "must_be_within name b = name @ '' must be an integer between '' @ int_string (minimum b) @ '' and '' @ int_string (maximum b) @ ''.''"

definition requireInteger :: "jsval \<Rightarrow> string \<Rightarrow> string \<Rightarrow> bounds \<Rightarrow> unit res" where
  "requireInteger env name service b =
    require (case normal_value env name of JStr raw \<Rightarrow> integer_within b raw | _ \<Rightarrow> False) service (must_be_within name b)"

section \<open>Numeric options\<close>

definition environment_integer :: "string \<Rightarrow> jsval \<Rightarrow> (string \<times> int) list \<Rightarrow> string \<times> bounds \<Rightarrow> (string \<times> int) res" where
  "environment_integer what env defaults entry =
    (let (name, b) = entry;
         raw = js_string (coalesce (normal_value env name) (JStr (int_string (option_default 0 (map_of defaults name))))) in
     guard [(integer_within b raw, what @ '' configuration error: '' @ must_be_within name b)] (Inr (name, decimal_value raw)))"

definition option_value :: "(string \<times> int) list \<Rightarrow> string \<Rightarrow> int" where
  "option_value values name = option_default 0 (map_of values name)"

record pool_options =
  po_max :: int
  po_idleTimeoutMillis :: int
  po_connectionTimeoutMillis :: int

definition postgresPoolOptionsFromEnvironment :: "jsval \<Rightarrow> pool_options res" where
  "postgresPoolOptionsFromEnvironment env =
    and_then (map_res (environment_integer ''Postgres pool'' env postgres_pool_defaults) postgres_pool_environment) (\<lambda>values.
    Inr \<lparr>po_max = option_value values ''XYGO_PG_POOL_MAX'', po_idleTimeoutMillis = option_value values ''XYGO_PG_IDLE_TIMEOUT_MS'',
      po_connectionTimeoutMillis = option_value values ''XYGO_PG_CONNECTION_TIMEOUT_MS''\<rparr>)"

record worker_options =
  wo_intervalMs :: int
  wo_maxAttempts :: int
  wo_baseBackoffMs :: int
  wo_maxBackoffMs :: int
  wo_concurrency :: int
  wo_staleAfterMs :: int
  wo_shutdownTimeoutMs :: int
  wo_maxDeadJobs :: int

definition worker_defaults :: "(string \<times> int) list" where
  "worker_defaults =
    [(''XYGO_WORKER_INTERVAL_MS'', 1000), (''XYGO_WORKER_MAX_ATTEMPTS'', 5), (''XYGO_WORKER_BASE_BACKOFF_MS'', 1000),
     (''XYGO_WORKER_MAX_BACKOFF_MS'', 900000), (''XYGO_WORKER_CONCURRENCY'', 4), (''XYGO_WORKER_STALE_AFTER_MS'', 60000),
     (''XYGO_WORKER_SHUTDOWN_TIMEOUT_MS'', 30000), (''XYGO_WORKER_MAX_DEAD_JOBS'', 0)]"

definition workerRuntimeOptionsFromEnvironment :: "jsval \<Rightarrow> worker_options res" where
  "workerRuntimeOptionsFromEnvironment env =
    and_then (map_res (environment_integer ''Worker'' env worker_defaults) worker_numeric_limits) (\<lambda>values.
    guard [(option_value values ''XYGO_WORKER_BASE_BACKOFF_MS'' \<le> option_value values ''XYGO_WORKER_MAX_BACKOFF_MS'',
            ''Worker configuration error: XYGO_WORKER_MAX_BACKOFF_MS must be greater than or equal to XYGO_WORKER_BASE_BACKOFF_MS.'')]
    (Inr \<lparr>wo_intervalMs = option_value values ''XYGO_WORKER_INTERVAL_MS'', wo_maxAttempts = option_value values ''XYGO_WORKER_MAX_ATTEMPTS'',
      wo_baseBackoffMs = option_value values ''XYGO_WORKER_BASE_BACKOFF_MS'', wo_maxBackoffMs = option_value values ''XYGO_WORKER_MAX_BACKOFF_MS'',
      wo_concurrency = option_value values ''XYGO_WORKER_CONCURRENCY'', wo_staleAfterMs = option_value values ''XYGO_WORKER_STALE_AFTER_MS'',
      wo_shutdownTimeoutMs = option_value values ''XYGO_WORKER_SHUTDOWN_TIMEOUT_MS'',
      wo_maxDeadJobs = option_value values ''XYGO_WORKER_MAX_DEAD_JOBS''\<rparr>))"

record monitoring_options =
  mo_outboxBacklogMax :: int
  mo_outboxOldestPendingMs :: int
  mo_emailFailedMax :: int
  mo_emailStaleAfterMs :: int
  mo_databaseLatencyMs :: int
  mo_workerHeartbeatStaleMs :: int

definition monitoring_defaults :: "(string \<times> int) list" where
  "monitoring_defaults =
    [(''XYGO_ALERT_OUTBOX_BACKLOG_MAX'', 1000), (''XYGO_ALERT_OUTBOX_OLDEST_PENDING_SEC'', 900), (''XYGO_ALERT_EMAIL_FAILED_MAX'', 0),
     (''XYGO_ALERT_EMAIL_STALE_SEC'', 900), (''XYGO_ALERT_DATABASE_LATENCY_MS'', 2000), (''XYGO_ALERT_WORKER_HEARTBEAT_SEC'', 120)]"

definition monitoringRuntimeOptionsFromEnvironment :: "jsval \<Rightarrow> monitoring_options res" where
  "monitoringRuntimeOptionsFromEnvironment env =
    and_then (map_res (environment_integer ''Monitoring'' env monitoring_defaults) monitoring_numeric_limits) (\<lambda>values.
    Inr \<lparr>mo_outboxBacklogMax = option_value values ''XYGO_ALERT_OUTBOX_BACKLOG_MAX'',
      mo_outboxOldestPendingMs = option_value values ''XYGO_ALERT_OUTBOX_OLDEST_PENDING_SEC'' * 1000,
      mo_emailFailedMax = option_value values ''XYGO_ALERT_EMAIL_FAILED_MAX'',
      mo_emailStaleAfterMs = option_value values ''XYGO_ALERT_EMAIL_STALE_SEC'' * 1000,
      mo_databaseLatencyMs = option_value values ''XYGO_ALERT_DATABASE_LATENCY_MS'',
      mo_workerHeartbeatStaleMs = option_value values ''XYGO_ALERT_WORKER_HEARTBEAT_SEC'' * 1000\<rparr>)"

section \<open>Mail, storage and the services\<close>

definition validEmailAddress :: "string \<Rightarrow> bool" where
  "validEmailAddress v =
    (length v \<le> 320 \<and>
     (case split (CHR ''@'') v of
        [l, d] \<Rightarrow> l \<noteq> [] \<and> length l \<le> 64 \<and> 3 \<le> length d \<and> \<not> starts_with ''.'' d \<and> \<not> ends_with ''.'' d \<and> CHR ''.'' \<in> set d
      | _ \<Rightarrow> False)
     \<and> list_all (\<lambda>c. c \<notin> set [CHR '' '', CHR 0x09, CHR 0x0D, CHR 0x0A]) v)"

text \<open>The parts of a text before and after the last \<open>c\<close>.\<close>

definition last_split :: "char \<Rightarrow> string \<Rightarrow> (string \<times> string) option" where
  "last_split c s = (case dropWhile (\<lambda>x. x \<noteq> c) (rev s) of
     [] \<Rightarrow> None | _ # before \<Rightarrow> Some (rev before, rev (takeWhile (\<lambda>x. x \<noteq> c) (rev s))))"

text \<open>\<open>/^.{1,200}\s<([^<>]+)>$/\<close>: the address inside the brackets after a display name.\<close>

definition bracketed :: "string \<Rightarrow> string option" where
  "bracketed s =
    (if \<not> ends_with ''>'' s then None
     else (case last_split (CHR ''<'') (butlast s) of
        None \<Rightarrow> None
      | Some (before, inner) \<Rightarrow>
          if inner \<noteq> [] \<and> CHR ''>'' \<notin> set inner \<and> 2 \<le> length before \<and> length before \<le> 201 \<and> js_ws (last before)
             \<and> list_all line_char (butlast before)
          then Some inner else None))"

definition after_at :: "string \<Rightarrow> string" where
  "after_at s = (case last_split (CHR ''@'') s of Some (_, d) \<Rightarrow> d | None \<Rightarrow> s)"

definition require_address :: "string option \<Rightarrow> string \<Rightarrow> string \<Rightarrow> unit res" where
  "require_address value name service =
    (case value of
       Some v \<Rightarrow> all_checks
         [require (validEmailAddress v) service (name @ '' must be a valid email address.''),
          requireProductionHostname (after_at v) name service]
     | None \<Rightarrow> Inl (config_failure service (name @ '' must be a valid email address.'')))"

definition text_of :: "jsval \<Rightarrow> string option" where
  "text_of v = (case v of JStr s \<Rightarrow> Some s | _ \<Rightarrow> None)"

definition requireEmail :: "jsval \<Rightarrow> string \<Rightarrow> unit res" where
  "requireEmail env service =
    all_checks
      [require_address (map_option (\<lambda>m. option_default m (bracketed m)) (text_of (normal_value env ''XYGO_EMAIL_FROM''))) ''XYGO_EMAIL_FROM'' service,
       require_address (text_of (normal_value env ''XYGO_EMAIL_REPLY_TO'')) ''XYGO_EMAIL_REPLY_TO'' service]"

definition rejectReservedUrlAudience :: "url_parser \<Rightarrow> jsval \<Rightarrow> string \<Rightarrow> unit res" where
  "rejectReservedUrlAudience parse env service =
    (case parse (js_string (normal_value env ''XYGO_OIDC_AUDIENCE'')) of
       None \<Rightarrow> Inr ()
     | Some url \<Rightarrow> if u_hostname url = [] then Inr () else requireProductionHostname (u_hostname url) ''XYGO_OIDC_AUDIENCE'' service)"

definition isProductionEnvironment :: "jsval \<Rightarrow> bool" where
  "isProductionEnvironment env =
    ((case normal_value env ''NODE_ENV'' of JStr s \<Rightarrow> js_lower s = ''production'' | _ \<Rightarrow> False)
     \<or> normal_value env ''STAGED_MODE'' = JStr ''false'')"

definition baseline_checks :: "jsval \<Rightarrow> string list \<Rightarrow> string \<Rightarrow> unit res list" where
  "baseline_checks env names service =
    [requireValues env names service,
     requireExact env ''NODE_ENV'' ''production'' service,
     requireExact env ''STAGED_MODE'' ''false'' service,
     require (one_of [''staging'', ''production''] (normal_value env ''XYGO_DEPLOY_ENVIRONMENT'')) service
       ''XYGO_DEPLOY_ENVIRONMENT must be staging or production.'']"

definition key_char :: "string \<Rightarrow> char \<Rightarrow> bool" where
  "key_char others c = (lower_alnum (lower_char c) \<and> (of_char c :: nat) < 128 \<or> c \<in> set others)"

definition key_format :: "string \<Rightarrow> string \<Rightarrow> nat \<Rightarrow> jsval \<Rightarrow> bool" where
  "key_format prefix others least v =
    (case v of JStr s \<Rightarrow> starts_with prefix s \<and> least \<le> length (drop (length prefix) s) \<and> list_all (key_char others) (drop (length prefix) s)
     | _ \<Rightarrow> False)"

definition backend_checks :: "url_parser \<Rightarrow> jsval \<Rightarrow> string \<Rightarrow> unit res list" where
  "backend_checks parse env service =
    [requirePostgresUrl parse env service ''XYGO_API_PG_URL'']
    @ map (\<lambda>(name, b). requireInteger env name service b) postgres_pool_environment
    @ [requireSecret env ''XYGO_AUDIT_SIGNING_KEY'' service 32,
       requireExact env ''XYGO_EMAIL_TRANSPORT'' ''resend'' service,
       requireEmail env service,
       requireExact env ''XYGO_EMAIL_RESEND_API_URL'' ''https://api.resend.com'' service,
       requireSecret env ''XYGO_EMAIL_RESEND_API_KEY'' service 16,
       requireSecret env ''XYGO_EMAIL_WEBHOOK_SECRET'' service 24,
       require (key_format ''re_'' ''_-'' 12 (normal_value env ''XYGO_EMAIL_RESEND_API_KEY'')) service
         ''XYGO_EMAIL_RESEND_API_KEY must use the Resend re_ key format.'',
       require (key_format ''whsec_'' ''+/=_-'' 16 (normal_value env ''XYGO_EMAIL_WEBHOOK_SECRET'')) service
         ''XYGO_EMAIL_WEBHOOK_SECRET must use the signed-webhook whsec_ format.'',
       requireInteger env ''XYGO_EMAIL_REQUEST_TIMEOUT_MS'' service \<lparr>minimum = 1000, maximum = 30000\<rparr>,
       requireExact env ''XYGO_STORAGE_DRIVER'' ''s3'' service,
       (case storageConfigurationFromEnvironment id (plain_parser parse) env of
          Inl e \<Rightarrow> Inl (config_failure service (err_message e)) | Inr _ \<Rightarrow> Inr ()),
       requireExact env ''XYGO_OUTBOX_BACKEND'' ''postgres'' service,
       requireExact env ''XYGO_MONITORING_ENABLED'' ''true'' service,
       requireHttpsUrl parse env ''XYGO_MONITORING_OTLP_ENDPOINT'' service False,
       requireSecret env ''XYGO_MONITORING_AUTH_TOKEN'' service 16]
    @ map (\<lambda>(name, b). requireInteger env name service b) monitoring_numeric_limits"

text \<open>Outside production nothing is checked.\<close>

definition in_production :: "jsval \<Rightarrow> unit res list \<Rightarrow> unit res" where
  "in_production env checks = (if isProductionEnvironment env then all_checks checks else Inr ())"

definition assertProductionApiEnvironment :: "url_parser \<Rightarrow> jsval \<Rightarrow> unit res" where
  "assertProductionApiEnvironment parse env =
    in_production env
     (baseline_checks env api_required_env_vars ''API''
      @ [requireExact env ''XYGO_AUTH_MODE'' ''oidc'' ''API'',
         requireExact env ''XYGO_API_REPOSITORY_MODE'' ''postgres'' ''API'',
         requireHttpsUrl parse env ''XYGO_OIDC_ISSUER'' ''API'' False,
         requireHttpsUrl parse env ''XYGO_OIDC_JWKS_URI'' ''API'' True,
         requireHttpsUrl parse env ''XYGO_WEB_APP_URL'' ''API'' False,
         requireHttpsUrl parse env ''XYGO_WEB_API_BASE_URL'' ''API'' False,
         rejectReservedUrlAudience parse env ''API'',
         requireInteger env ''XYGO_OIDC_CLOCK_TOLERANCE_SEC'' ''API'' \<lparr>minimum = 0, maximum = 300\<rparr>,
         require (normal_value env ''XYGO_PG_SEED_SYNTHETIC_DATA'' \<noteq> JStr ''true'') ''API''
           ''XYGO_PG_SEED_SYNTHETIC_DATA must not be enabled in production.'']
      @ backend_checks parse env ''API'')"

definition web_numeric_limits :: "(string \<times> bounds) list" where
  "web_numeric_limits = limits_of
    [(''XYGO_WEB_SESSION_IDLE_SEC'', 300, 86400), (''XYGO_WEB_SESSION_ABSOLUTE_SEC'', 900, 86400),
     (''XYGO_WEB_AUTH_TRANSACTION_TTL_SEC'', 60, 900), (''XYGO_WEB_TOKEN_REQUEST_TIMEOUT_MS'', 1000, 30000),
     (''XYGO_WEB_TOKEN_CLOCK_TOLERANCE_SEC'', 0, 120), (''XYGO_WEB_TOKEN_RENEW_BEFORE_SEC'', 30, 600)]"

definition origin_matches :: "url_parser \<Rightarrow> jsval \<Rightarrow> unit res" where
  "origin_matches parse env =
    (case (parse (js_string (fld env ''XYGO_WEB_ALLOWED_ORIGIN'')), parse (js_string (fld env ''XYGO_WEB_APP_URL''))) of
       (Some allowed, Some app) \<Rightarrow> require (u_origin allowed = u_origin app \<and> u_pathname allowed = ''/'') ''web''
         ''XYGO_WEB_ALLOWED_ORIGIN must exactly match the XYGO_WEB_APP_URL origin.''
     | _ \<Rightarrow> Inl (JsError ''Invalid URL'' (Some ''ERR_INVALID_URL'') None))"

definition assertProductionWebEnvironment :: "url_parser \<Rightarrow> jsval \<Rightarrow> unit res" where
  "assertProductionWebEnvironment parse env =
    in_production env
     (baseline_checks env web_required_env_vars ''web''
      @ [requireExact env ''XYGO_AUTH_MODE'' ''oidc'' ''web'',
         requireHttpsUrl parse env ''XYGO_WEB_APP_URL'' ''web'' False,
         requireHttpsUrl parse env ''XYGO_WEB_API_BASE_URL'' ''web'' False,
         requireHttpsUrl parse env ''XYGO_OIDC_ISSUER'' ''web'' False,
         rejectReservedUrlAudience parse env ''web'',
         requireHttpsUrl parse env ''XYGO_WEB_OIDC_AUTHORIZATION_ENDPOINT'' ''web'' True,
         requireHttpsUrl parse env ''XYGO_WEB_OIDC_TOKEN_ENDPOINT'' ''web'' True,
         requireHttpsUrl parse env ''XYGO_WEB_OIDC_END_SESSION_ENDPOINT'' ''web'' True,
         requireHttpsUrl parse env ''XYGO_WEB_MONITORING_ENDPOINT'' ''web'' False,
         requireSecret env ''XYGO_WEB_SESSION_SECRET'' ''web'' 32,
         requireSecret env ''XYGO_WEB_SESSION_ENCRYPTION_KEY'' ''web'' 32,
         requireExact env ''XYGO_WEB_SESSION_STORE'' ''postgres'' ''web'',
         requirePostgresUrl parse env ''web'' ''XYGO_WEB_SESSION_PG_URL'',
         requireExact env ''XYGO_WEB_SESSION_COOKIE_SECURE'' ''true'' ''web'',
         requireExact env ''XYGO_WEB_SESSION_COOKIE_HTTP_ONLY'' ''true'' ''web'',
         require (map_option js_lower (text_of (normal_value env ''XYGO_WEB_SESSION_COOKIE_SAME_SITE'')) = Some ''lax'') ''web''
           ''XYGO_WEB_SESSION_COOKIE_SAME_SITE must be lax so the signed OAuth callback transaction cookie is returned.'',
         require (case normal_value env ''XYGO_WEB_SESSION_COOKIE_NAME'' of JStr s \<Rightarrow> starts_with ''__Host-'' s | _ \<Rightarrow> False) ''web''
           ''XYGO_WEB_SESSION_COOKIE_NAME must use the __Host- prefix.'',
         requireHttpsUrl parse env ''XYGO_WEB_ALLOWED_ORIGIN'' ''web'' False,
         origin_matches parse env]
      @ map (\<lambda>(name, b). requireInteger env name ''web'' b) web_numeric_limits
      @ [require (num_less (js_number (fld env ''XYGO_WEB_SESSION_IDLE_SEC'')) (js_number (fld env ''XYGO_WEB_SESSION_ABSOLUTE_SEC''))) ''web''
           ''XYGO_WEB_SESSION_IDLE_SEC must be less than XYGO_WEB_SESSION_ABSOLUTE_SEC.'',
         requireExact env ''XYGO_WEB_REQUIRE_REFRESH_TOKEN'' ''true'' ''web''])"

definition assertProductionWorkerEnvironment :: "url_parser \<Rightarrow> jsval \<Rightarrow> unit res" where
  "assertProductionWorkerEnvironment parse env =
    in_production env
     (baseline_checks env worker_required_env_vars ''worker''
      @ [requireHttpsUrl parse env ''XYGO_WEB_APP_URL'' ''worker'' False]
      @ backend_checks parse env ''worker''
      @ map (\<lambda>(name, b). requireInteger env name ''worker'' b) worker_numeric_limits
      @ [require (\<not> num_less (js_number (fld env ''XYGO_WORKER_MAX_BACKOFF_MS'')) (js_number (fld env ''XYGO_WORKER_BASE_BACKOFF_MS''))) ''worker''
           ''XYGO_WORKER_MAX_BACKOFF_MS must be greater than or equal to XYGO_WORKER_BASE_BACKOFF_MS.''])"

end
