(* ===== verification/WebSession.thy ===== *)
theory WebSession
  imports ProductionConfig Effects
begin

text \<open>
  Sign-in sessions of the web server: the in-memory session store (apps/web/src/session-store.js) and the
  session manager over it (apps/web/src/auth-session.js). Times are milliseconds. The keyed hash, the
  draws of the random source, the URL writer and the token endpoint of the identity provider are
  parameters. Handlers that wait for the identity provider are two steps, the one before and the one after
  the exchange, so that other requests can come in between.
\<close>

section \<open>The session store\<close>

datatype auth_data =
    LoginTransaction (at_state: string) (at_nonce: string) (at_verifier: string) (at_returnTo: string)
  | UserSession (as_accessToken: string) (as_refreshToken: jsval) (as_expiresAt: rat) (as_createdAt: int)

record auth_row =
  row_data :: auth_data
  idleExpiresAt :: int
  absoluteExpiresAt :: int

type_synonym auth_store = "(string \<times> auth_row) list"

definition is_user :: "auth_row \<Rightarrow> bool" where
  "is_user row = (case row_data row of UserSession t r x c \<Rightarrow> True | LoginTransaction s n v p \<Rightarrow> False)"

definition row_over :: "int \<Rightarrow> auth_row \<Rightarrow> bool" where
  "row_over now row = (idleExpiresAt row \<le> now \<or> absoluteExpiresAt row \<le> now)"

definition session_set :: "string \<Rightarrow> auth_row \<Rightarrow> (auth_store, unit) act" where
  "session_set i row = writing (AList.update i row)"

definition session_get :: "int \<Rightarrow> string \<Rightarrow> (auth_store, auth_row option) act" where
  "session_get now i rows =
    (case map_of rows i of
       None \<Rightarrow> (rows, Inr None)
     | Some row \<Rightarrow> if row_over now row then (AList.delete i rows, Inr None) else (rows, Inr (Some row)))"

definition session_delete :: "string \<Rightarrow> (auth_store, unit) act" where
  "session_delete i = writing (AList.delete i)"

definition session_cleanup :: "int \<Rightarrow> (auth_store, nat) act" where
  "session_cleanup now rows =
    (let kept = filter (\<lambda>(i, row). \<not> row_over now row) rows in (kept, Inr (length rows - length kept)))"

section \<open>Cookies\<close>

text \<open>Comparing two buffers of different sizes throws; a code unit from 128 on takes two bytes.\<close>

definition utf8_size :: "string \<Rightarrow> nat" where
  "utf8_size s = sum_list (map (\<lambda>c. if (of_char c :: nat) < 128 then 1 else 2) s)"

definition timingSafeEqual :: "string \<Rightarrow> string \<Rightarrow> bool res" where
  "timingSafeEqual a b =
    (if utf8_size a \<noteq> utf8_size b
     then Inl (JsError ''Input buffers must have the same byte length'' (Some ''ERR_CRYPTO_TIMING_SAFE_EQUAL_LENGTH'') None)
     else Inr (a = b))"

text \<open>What the manager takes from its surroundings.\<close>

record web_env =
  we_hmac :: "string \<Rightarrow> string \<Rightarrow> string"
  we_challenge :: "string \<Rightarrow> string"
  we_url :: "string \<Rightarrow> (string \<times> string) list \<Rightarrow> string res"

record web_config =
  wc_secret :: string
  wc_cookieName :: string
  wc_allowedOrigin :: string
  wc_idleTtlMs :: int
  wc_absoluteTtlMs :: int
  wc_transactionTtlMs :: int
  wc_clockToleranceSec :: int
  wc_requireRefreshToken :: bool
  wc_authorizationEndpoint :: string
  wc_endSessionEndpoint :: string
  wc_clientId :: string
  wc_redirectUri :: string
  wc_scopes :: "string list"
  wc_audience :: string
  wc_postLogoutRedirectUri :: string

definition cookieValue :: "jsval \<Rightarrow> string \<Rightarrow> string option" where
  "cookieValue headers name =
    map_option (\<lambda>cookie. join ''='' (tl (split (CHR ''='') cookie)))
      (find (\<lambda>cookie. hd (split (CHR ''='') cookie) = name)
        (map js_trim (split (CHR '';'') (js_string (coalesce (fld headers ''cookie'') (JStr []))))))"

definition signedValue :: "web_env \<Rightarrow> string \<Rightarrow> string \<Rightarrow> string" where
  "signedValue env value secret = value @ ''.'' @ we_hmac env secret value"

definition verifySigned :: "web_env \<Rightarrow> string option \<Rightarrow> string \<Rightarrow> string option res" where
  "verifySigned env value secret =
    (case Option.bind value (last_split (CHR ''.'')) of
       None \<Rightarrow> Inr None
     | Some (i, signature) \<Rightarrow>
         (let expected = we_hmac env secret i in
          if i = [] \<or> length signature \<noteq> length expected then Inr None
          else and_then (timingSafeEqual signature expected) (\<lambda>same. Inr (if same then Some i else None))))"

definition authCookie :: string where
  "authCookie = ''__Host-xygo-auth''"

definition cookie :: "string \<Rightarrow> string \<Rightarrow> int \<Rightarrow> string" where
  "cookie name value maxAge = name @ ''='' @ value @ ''; Path=/; Max-Age='' @ int_string maxAge @ ''; Secure; HttpOnly; SameSite=Lax''"

definition clearCookie :: "string \<Rightarrow> string" where
  "clearCookie name = name @ ''=; Path=/; Max-Age=0; Secure; HttpOnly; SameSite=Lax''"

section \<open>Tokens\<close>

text \<open>\<open>required(value, label)\<close>.\<close>

definition required_text :: "jsval \<Rightarrow> string \<Rightarrow> string res" where
  "required_text value label = (if nonblank value then Inr (js_trim (js_string value)) else Inl (Err (label @ '' is required.'')))"

definition tokenExpiry :: "jsval \<Rightarrow> int \<Rightarrow> int \<Rightarrow> rat res" where
  "tokenExpiry payload now clockToleranceSec =
    (case js_number (fld payload ''expires_in'') of
       JNum expiresIn \<Rightarrow>
         guard [(60 \<le> expiresIn \<and> expiresIn \<le> 86400, ''OIDC token response expires_in must be between 60 and 86400 seconds.''),
                (js_lower (js_string (coalesce (fld payload ''token_type'') (JStr []))) = ''bearer'' \<and> truthy (fld payload ''access_token''),
                 ''OIDC token response must contain a Bearer access token.'')]
           (Inr (of_int now + max 1 (expiresIn - of_int clockToleranceSec) * 1000))
     | _ \<Rightarrow> Inl (Err ''OIDC token response expires_in must be between 60 and 86400 seconds.''))"

text \<open>What the token endpoint answered: no answer, or a status and a body, which is \<open>{}\<close> when it is not JSON.\<close>

datatype token_reply = TokenUnreachable js_error | TokenReply int jsval

definition exchange :: "token_reply \<Rightarrow> jsval res" where
  "exchange reply =
    (case reply of
       TokenUnreachable e \<Rightarrow> Inl e
     | TokenReply status payload \<Rightarrow>
         if 200 \<le> status \<and> status \<le> 299 then Inr payload
         else Inl (Err (''OIDC token exchange failed with HTTP '' @ int_string status @ ''.'')))"

section \<open>Handlers\<close>

record web_reply =
  wr_status :: nat
  wr_headers :: "(string \<times> jsval) list"
  wr_body :: jsval

text \<open>\<open>/^\/[A-Za-z0-9/_-]*$/\<close> without a second slash at the front.\<close>

definition path_char :: "char \<Rightarrow> bool" where
  "path_char c = (c \<in> set ''ABCDEFGHIJKLMNOPQRSTUVWXYZabcdefghijklmnopqrstuvwxyz0123456789/_-'')"

definition local_path :: "string \<Rightarrow> bool" where
  "local_path p = (starts_with ''/'' p \<and> list_all path_char p \<and> \<not> starts_with ''//'' p)"

definition return_path :: "string \<Rightarrow> string" where
  "return_path returnTo = (if local_path returnTo then returnTo else ''/control-room'')"

record login_draws =
  ld_id :: string
  ld_state :: string
  ld_nonce :: string
  ld_verifier :: string

definition authorization_parameters :: "web_env \<Rightarrow> web_config \<Rightarrow> login_draws \<Rightarrow> (string \<times> string) list" where
  "authorization_parameters env cfg draws =
    [(''client_id'', wc_clientId cfg), (''redirect_uri'', wc_redirectUri cfg), (''response_type'', ''code''),
     (''scope'', join '' '' (wc_scopes cfg)), (''audience'', wc_audience cfg), (''state'', ld_state draws), (''nonce'', ld_nonce draws),
     (''code_challenge'', we_challenge env (ld_verifier draws)), (''code_challenge_method'', ''S256'')]"

definition beginLogin :: "web_env \<Rightarrow> web_config \<Rightarrow> int \<Rightarrow> login_draws \<Rightarrow> string \<Rightarrow> (auth_store, web_reply) act" where
  "beginLogin env cfg now draws returnTo =
    seq (session_cleanup now) (\<lambda>_.
    let until = now + wc_transactionTtlMs cfg in
    seq (session_set (ld_id draws)
      \<lparr>row_data = LoginTransaction (ld_state draws) (ld_nonce draws) (ld_verifier draws) (return_path returnTo),
       idleExpiresAt = until, absoluteExpiresAt = until\<rparr>) (\<lambda>_.
    seq (from_res (we_url env (wc_authorizationEndpoint cfg) (authorization_parameters env cfg draws))) (\<lambda>target.
    give \<lparr>wr_status = 302,
      wr_headers = [(''location'', JStr target),
        (''set-cookie'', JStr (cookie authCookie (signedValue env (ld_id draws) (wc_secret cfg)) (wc_transactionTtlMs cfg div 1000))),
        (''cache-control'', JStr ''no-store'')], wr_body = JUndef\<rparr>)))"

definition invalid_callback :: web_reply where
  "invalid_callback = \<lparr>wr_status = 400, wr_headers = [(''set-cookie'', JStr (clearCookie authCookie)), (''cache-control'', JStr ''no-store'')],
     wr_body = JObj [(''code'', JStr ''invalid_oidc_callback'')]\<rparr>"

text \<open>Reading the row a signed cookie names.\<close>

definition signed_row :: "web_env \<Rightarrow> web_config \<Rightarrow> int \<Rightarrow> string \<Rightarrow> jsval \<Rightarrow> (auth_store, (string \<times> auth_row) option) act" where
  "signed_row env cfg now name headers =
    seq (from_res (verifySigned env (cookieValue headers name) (wc_secret cfg))) (\<lambda>found.
    (case found of
       None \<Rightarrow> give None
     | Some i \<Rightarrow> seq (session_get now i) (\<lambda>row. give (map_option (Pair i) row))))"

text \<open>The callback before the exchange: the transaction it may complete, which it takes out of the store.\<close>

definition callback_check :: "web_env \<Rightarrow> web_config \<Rightarrow> int \<Rightarrow> query \<Rightarrow> jsval \<Rightarrow> (auth_store, auth_data option) act" where
  "callback_check env cfg now query headers =
    seq (signed_row env cfg now authCookie headers) (\<lambda>candidate.
    (case candidate of
       Some (i, row) \<Rightarrow>
         if \<not> is_user row \<and> truthy (query_get query ''state'') \<and> query_get query ''state'' = JStr (at_state (row_data row))
            \<and> truthy (query_get query ''code'') \<and> \<not> truthy (query_get query ''error'')
         then seq (session_delete i) (\<lambda>_. give (Some (row_data row))) else give None
     | None \<Rightarrow> give None))"

definition callback_finish ::
    "web_env \<Rightarrow> web_config \<Rightarrow> int \<Rightarrow> string \<Rightarrow> auth_data \<Rightarrow> jsval \<Rightarrow> (auth_store, web_reply) act" where
  "callback_finish env cfg now i transaction payload =
    seq (from_res (get_fld payload ''refresh_token'')) (\<lambda>refresh.
    seq (from_res (guard [(\<not> (wc_requireRefreshToken cfg \<and> \<not> truthy refresh), ''OIDC token response must contain a refresh token.'')] (Inr ()))) (\<lambda>_.
    seq (from_res (required_text (fld payload ''access_token'') ''OIDC access token'')) (\<lambda>accessToken.
    seq (from_res (tokenExpiry payload now (wc_clockToleranceSec cfg))) (\<lambda>expiresAt.
    seq (session_set i
      \<lparr>row_data = UserSession accessToken (coalesce refresh JNull) expiresAt now,
       idleExpiresAt = now + wc_idleTtlMs cfg, absoluteExpiresAt = now + wc_absoluteTtlMs cfg\<rparr>) (\<lambda>_.
    give \<lparr>wr_status = 302,
      wr_headers = [(''location'', JStr (at_returnTo transaction)),
        (''set-cookie'', JArr [JStr (clearCookie authCookie),
           JStr (cookie (wc_cookieName cfg) (signedValue env i (wc_secret cfg)) (wc_absoluteTtlMs cfg div 1000))]),
        (''cache-control'', JStr ''no-store'')], wr_body = JUndef\<rparr>)))))"

text \<open>\<open>now\<close> is the time of the request, \<open>replied\<close> the time when the token endpoint has answered.\<close>

definition completeCallback ::
    "web_env \<Rightarrow> web_config \<Rightarrow> int \<Rightarrow> int \<Rightarrow> string \<Rightarrow> token_reply \<Rightarrow> query \<Rightarrow> jsval \<Rightarrow> (auth_store, web_reply) act" where
  "completeCallback env cfg now replied i reply query headers =
    seq (callback_check env cfg now query headers) (\<lambda>transaction.
    (case transaction of
       None \<Rightarrow> give invalid_callback
     | Some t \<Rightarrow> seq (from_res (exchange reply)) (\<lambda>payload. callback_finish env cfg replied i t payload)))"

definition readSession :: "web_env \<Rightarrow> web_config \<Rightarrow> int \<Rightarrow> jsval \<Rightarrow> (auth_store, (string \<times> auth_row) option) act" where
  "readSession env cfg now headers =
    seq (signed_row env cfg now (wc_cookieName cfg) headers) (\<lambda>found.
    give (case found of Some (i, row) \<Rightarrow> if is_user row then Some (i, row) else None | None \<Rightarrow> None))"

definition authenticated :: "auth_row \<Rightarrow> web_reply res" where
  "authenticated row =
    (case time_clip (JsNumber.truncate (as_expiresAt (row_data row))) of
       None \<Rightarrow> Inl (JsError ''Invalid time value'' (Some ''RangeError'') None)
     | Some t \<Rightarrow> Inr \<lparr>wr_status = 200, wr_headers = [],
         wr_body = JObj [(''authenticated'', JBool True), (''accessToken'', JStr (as_accessToken (row_data row))),
           (''expiresAt'', JStr (iso_string t))]\<rparr>)"

definition not_authenticated :: "(string \<times> jsval) list \<Rightarrow> web_reply" where
  "not_authenticated extra = \<lparr>wr_status = 401, wr_headers = [], wr_body = JObj ((''authenticated'', JBool False) # extra)\<rparr>"

text \<open>\<open>Math.min(current + idleTtlMs, session.absoluteExpiresAt)\<close>.\<close>

definition extended :: "web_config \<Rightarrow> int \<Rightarrow> auth_row \<Rightarrow> auth_row" where
  "extended cfg now row = row\<lparr>idleExpiresAt := min (now + wc_idleTtlMs cfg) (absoluteExpiresAt row)\<rparr>"

definition session :: "web_env \<Rightarrow> web_config \<Rightarrow> int \<Rightarrow> jsval \<Rightarrow> (auth_store, web_reply) act" where
  "session env cfg now headers =
    seq (readSession env cfg now headers) (\<lambda>found.
    (case found of
       None \<Rightarrow> give (not_authenticated [])
     | Some (i, row) \<Rightarrow>
         seq (session_set i (extended cfg now row)) (\<lambda>_. from_res (authenticated (extended cfg now row)))))"

text \<open>A renewal before the exchange: the session it renews.\<close>

definition renew_check :: "web_env \<Rightarrow> web_config \<Rightarrow> int \<Rightarrow> jsval \<Rightarrow> (auth_store, (string \<times> auth_row) option) act" where
  "renew_check env cfg now headers =
    seq (readSession env cfg now headers) (\<lambda>found.
    give (case found of Some (i, row) \<Rightarrow> if truthy (as_refreshToken (row_data row)) then Some (i, row) else None | None \<Rightarrow> None))"

definition renew_finish :: "web_config \<Rightarrow> int \<Rightarrow> string \<Rightarrow> auth_row \<Rightarrow> jsval \<Rightarrow> (auth_store, web_reply) act" where
  "renew_finish cfg now i row payload =
    seq (from_res (get_fld payload ''access_token'')) (\<lambda>token.
    seq (from_res (required_text token ''OIDC access token'')) (\<lambda>accessToken.
    seq (from_res (tokenExpiry payload now (wc_clockToleranceSec cfg))) (\<lambda>expiresAt.
    let renewed = extended cfg now (row\<lparr>row_data := UserSession accessToken
          (coalesce (fld payload ''refresh_token'') (as_refreshToken (row_data row))) expiresAt (as_createdAt (row_data row))\<rparr>) in
    seq (session_set i renewed) (\<lambda>_. from_res (authenticated renewed)))))"

definition not_renewable :: web_reply where
  "not_renewable = not_authenticated [(''code'', JStr ''session_not_renewable'')]"

definition renew ::
    "web_env \<Rightarrow> web_config \<Rightarrow> int \<Rightarrow> int \<Rightarrow> token_reply \<Rightarrow> jsval \<Rightarrow> (auth_store, web_reply) act" where
  "renew env cfg now replied reply headers =
    seq (renew_check env cfg now headers) (\<lambda>found.
    (case found of
       None \<Rightarrow> give not_renewable
     | Some (i, row) \<Rightarrow> seq (from_res (exchange reply)) (\<lambda>payload. renew_finish cfg replied i row payload)))"

definition logout :: "web_env \<Rightarrow> web_config \<Rightarrow> jsval \<Rightarrow> (auth_store, web_reply) act" where
  "logout env cfg headers =
    seq (from_res (verifySigned env (cookieValue headers (wc_cookieName cfg)) (wc_secret cfg))) (\<lambda>found.
    seq (case found of Some i \<Rightarrow> session_delete i | None \<Rightarrow> give ()) (\<lambda>_.
    seq (from_res (we_url env (wc_endSessionEndpoint cfg)
      [(''client_id'', wc_clientId cfg), (''post_logout_redirect_uri'', wc_postLogoutRedirectUri cfg)])) (\<lambda>target.
    give \<lparr>wr_status = 302, wr_headers = [(''location'', JStr target), (''set-cookie'', JStr (clearCookie (wc_cookieName cfg))),
      (''cache-control'', JStr ''no-store'')], wr_body = JUndef\<rparr>)))"

definition checkOrigin :: "web_config \<Rightarrow> jsval \<Rightarrow> bool" where
  "checkOrigin cfg headers = strict_eq (fld headers ''origin'') (JStr (wc_allowedOrigin cfg))"

definition session_accessToken :: "web_env \<Rightarrow> web_config \<Rightarrow> int \<Rightarrow> jsval \<Rightarrow> (auth_store, string option) act" where
  "session_accessToken env cfg now headers =
    seq (readSession env cfg now headers) (\<lambda>found. give (map_option (\<lambda>(i, row). as_accessToken (row_data row)) found))"

end
