(* ===== verification/WebRuns.thy ===== *)
theory WebRuns
  imports WebSession
begin

text \<open>
  The session manager under any interleaving: a step relation whose steps are the parts of the handlers between
  two waits for the identity provider, its invariant, and what follows for the tokens that are handed out, the
  redirects, the end of a session, and the cookies that are accepted.
\<close>

section \<open>Cookies that are accepted\<close>

lemma last_split_append: "c \<notin> set b \<Longrightarrow> last_split c (a @ c # b) = Some (a, b)"
proof -
  assume b: "c \<notin> set b"
  have other: "x \<noteq> c" if "x \<in> set (rev b)" for x using b that by auto
  have "dropWhile (\<lambda>x. x \<noteq> c) (rev b @ c # rev a) = c # rev a"
    by (subst dropWhile_append2 [OF other]) simp_all
  moreover have "takeWhile (\<lambda>x. x \<noteq> c) (rev b @ c # rev a) = rev b"
    by (subst takeWhile_append2 [OF other]) simp_all
  ultimately show ?thesis by (simp add: last_split_def)
qed

lemma last_split_Some: "last_split c s = Some (a, b) \<Longrightarrow> s = a @ c # b \<and> c \<notin> set b"
proof -
  assume "last_split c s = Some (a, b)"
  then obtain d before where rest: "dropWhile (\<lambda>x. x \<noteq> c) (rev s) = d # before" "a = rev before"
    "b = rev (takeWhile (\<lambda>x. x \<noteq> c) (rev s))"
    by (auto simp: last_split_def split: list.splits)
  have d: "d = c" using rest(1) by (metis (mono_tags, lifting) dropWhile_eq_Cons_conv)
  have "rev s = rev b @ d # before" using rest by (metis rev_rev_ident takeWhile_dropWhile_id)
  then have "s = rev (rev b @ d # before)" by (metis rev_rev_ident)
  then show ?thesis using rest d by (auto dest: set_takeWhileD)
qed

lemma timingSafeEqual_same [simp]: "timingSafeEqual a a = Inr True"
  by (simp add: timingSafeEqual_def)

text \<open>
  A cookie is accepted as the session identifier it was signed for and as nothing else: signing and verifying are
  inverse to each other, for a keyed hash whose digests, being base64url, have no dot.
\<close>

theorem signed_cookie_iff:
  assumes "\<And>j. CHR ''.'' \<notin> set (we_hmac env secret j)"
  shows "verifySigned env (Some v) secret = Inr (Some i) \<longleftrightarrow> i \<noteq> [] \<and> v = signedValue env i secret"
proof
  assume "verifySigned env (Some v) secret = Inr (Some i)"
  then have "i \<noteq> []" "last_split (CHR ''.'') v = Some (i, we_hmac env secret i)"
    by (auto simp: verifySigned_def Let_def timingSafeEqual_def split: option.splits if_splits)
  then show "i \<noteq> [] \<and> v = signedValue env i secret" using last_split_Some by (fastforce simp: signedValue_def)
next
  assume "i \<noteq> [] \<and> v = signedValue env i secret"
  then show "verifySigned env (Some v) secret = Inr (Some i)"
    using last_split_append [OF assms, of i i] by (simp add: verifySigned_def signedValue_def)
qed

definition demo_web_env :: web_env where
  "demo_web_env = \<lparr>we_hmac = (\<lambda>secret i. ''mac-'' @ secret @ i), we_challenge = (\<lambda>v. v), we_url = (\<lambda>target ps. Inr target)\<rparr>"

text \<open>The hash of the example keeps its digests free of dots by dropping them.\<close>

definition dotless_env :: web_env where
  "dotless_env = demo_web_env\<lparr>we_hmac := (\<lambda>secret i. filter (\<lambda>c. c \<noteq> CHR ''.'') (secret @ i))\<rparr>"

lemma signed_cookie_iff_witness:
  "verifySigned dotless_env (Some ''s1.ks1'') ''k'' = Inr (Some ''s1'') \<and> verifySigned dotless_env (Some ''s1.ks2'') ''k'' \<noteq> Inr (Some ''s1'')"
proof -
  have dotless: "CHR ''.'' \<notin> set (we_hmac dotless_env ''k'' j)" for j by (simp add: dotless_env_def)
  show ?thesis
    unfolding signed_cookie_iff [OF dotless] by (simp add: signedValue_def dotless_env_def)
qed

text \<open>
  Reading a cookie throws on a signature of the right length in characters and the wrong length in bytes, and on nothing else.
\<close>

lemma cookie_check_throws:
  "isl (verifySigned env (Some v) secret) \<longleftrightarrow>
    (\<exists>i sg. last_split (CHR ''.'') v = Some (i, sg) \<and> i \<noteq> [] \<and> length sg = length (we_hmac env secret i) \<and> utf8_size sg \<noteq> utf8_size (we_hmac env secret i))"
  by (auto simp: verifySigned_def Let_def timingSafeEqual_def split: option.splits)

lemma utf8_ascii: "list_all (\<lambda>c. (of_char c :: nat) < 128) s \<Longrightarrow> utf8_size s = length s"
  by (induction s) (simp_all add: utf8_size_def)

section \<open>Steps\<close>

record web_state =
  ws_rows :: auth_store
  ws_callbacks :: "auth_data list"
  ws_renewals :: "(string \<times> auth_row) list"

definition with_rows :: "web_state \<Rightarrow> auth_store \<Rightarrow> web_state" where
  "with_rows s rows = s\<lparr>ws_rows := rows\<rparr>"

text \<open>
  One step at any time \<open>now\<close>, with any headers, queries and replies of the provider. \<open>fresh\<close> says which identifiers the
  random source may draw. A callback and a renewal that passed their check wait for the provider's reply; a
  reply may come in any order or not at all.
\<close>

inductive web_step :: "web_env \<Rightarrow> web_config \<Rightarrow> (string \<Rightarrow> bool) \<Rightarrow> web_state \<Rightarrow> web_state \<Rightarrow> bool"
  for env cfg fresh where
  login: "fresh (ld_id draws) \<Longrightarrow> web_step env cfg fresh s (with_rows s (fst (beginLogin env cfg now draws returnTo (ws_rows s))))"
| callback: "callback_check env cfg now query headers (ws_rows s) = (rows, r) \<Longrightarrow>
    web_step env cfg fresh s ((with_rows s rows)\<lparr>ws_callbacks := (case r of Inr (Some t) \<Rightarrow> t # ws_callbacks s | _ \<Rightarrow> ws_callbacks s)\<rparr>)"
| callback_reply: "t \<in> set (ws_callbacks s) \<Longrightarrow> fresh i \<Longrightarrow>
    web_step env cfg fresh s (with_rows s (fst (callback_finish env cfg now i t payload (ws_rows s)))\<lparr>ws_callbacks := remove1 t (ws_callbacks s)\<rparr>)"
| session: "web_step env cfg fresh s (with_rows s (fst (session env cfg now headers (ws_rows s))))"
| renewal: "renew_check env cfg now headers (ws_rows s) = (rows, r) \<Longrightarrow>
    web_step env cfg fresh s ((with_rows s rows)\<lparr>ws_renewals := (case r of Inr (Some p) \<Rightarrow> p # ws_renewals s | _ \<Rightarrow> ws_renewals s)\<rparr>)"
| renewal_reply: "(i, row) \<in> set (ws_renewals s) \<Longrightarrow>
    web_step env cfg fresh s (with_rows s (fst (renew_finish cfg now i row payload (ws_rows s)))\<lparr>ws_renewals := remove1 (i, row) (ws_renewals s)\<rparr>)"
| no_callback_reply: "web_step env cfg fresh s (s\<lparr>ws_callbacks := remove1 t (ws_callbacks s)\<rparr>)"
| no_renewal_reply: "web_step env cfg fresh s (s\<lparr>ws_renewals := remove1 p (ws_renewals s)\<rparr>)"
| logout: "web_step env cfg fresh s (with_rows s (fst (logout env cfg headers (ws_rows s))))"
| token: "web_step env cfg fresh s (with_rows s (fst (session_accessToken env cfg now headers (ws_rows s))))"

definition web_runs :: "web_env \<Rightarrow> web_config \<Rightarrow> (string \<Rightarrow> bool) \<Rightarrow> web_state \<Rightarrow> web_state \<Rightarrow> bool" where
  "web_runs env cfg fresh = (web_step env cfg fresh)\<^sup>*\<^sup>*"

definition web_start :: web_state where
  "web_start = \<lparr>ws_rows = [], ws_callbacks = [], ws_renewals = []\<rparr>"

section \<open>What the steps do to the rows\<close>

text \<open>
  A change of the store keeps, for a predicate on entries, that all entries satisfy it, when the entries it
  writes do. The predicates below are the invariant of a row and the absence of an identifier.
\<close>

definition all_rows :: "(string \<Rightarrow> auth_row \<Rightarrow> bool) \<Rightarrow> auth_store \<Rightarrow> bool" where
  "all_rows P rows = (\<forall>i row. (i, row) \<in> set rows \<longrightarrow> P i row)"

lemma all_rows_simps [simp]: "all_rows P []"
  by (simp add: all_rows_def)

lemma all_rows_update: "all_rows P rows \<Longrightarrow> P i row \<Longrightarrow> all_rows P (AList.update i row rows)"
  by (induction rows) (auto simp: all_rows_def split: if_splits)

lemma all_rows_subset: "all_rows P rows \<Longrightarrow> set rows' \<subseteq> set rows \<Longrightarrow> all_rows P rows'"
  by (auto simp: all_rows_def)

lemma all_rows_delete: "all_rows P rows \<Longrightarrow> all_rows P (AList.delete i rows)"
  by (auto simp: all_rows_def AList.delete_eq)

lemma all_rows_get:
  "session_get now i rows = (rows', r) \<Longrightarrow> all_rows P rows \<Longrightarrow> all_rows P rows' \<and> (\<forall>row. r = Inr (Some row) \<longrightarrow> P i row \<and> \<not> row_over now row)"
  using all_rows_delete [of P rows i]
  by (auto simp: session_get_def split: option.splits if_splits) (auto simp: all_rows_def dest: map_of_SomeD)

lemma all_rows_signed:
  assumes "signed_row env cfg now name headers rows = (rows', r)" "all_rows P rows"
  shows "all_rows P rows' \<and> (\<forall>i row. r = Inr (Some (i, row)) \<longrightarrow> P i row \<and> \<not> row_over now row)"
  using assms all_rows_get [of now _ rows _ _ P]
  by (auto simp: signed_row_def seq_def split: sum.splits option.splits prod.splits)

lemma all_rows_read:
  assumes "readSession env cfg now headers rows = (rows', r)" "all_rows P rows"
  shows "all_rows P rows' \<and> (\<forall>i row. r = Inr (Some (i, row)) \<longrightarrow> P i row \<and> \<not> row_over now row \<and> is_user row)"
  using assms all_rows_signed [of env cfg now "wc_cookieName cfg" headers rows _ _ P]
  by (auto simp: readSession_def seq_def split: sum.splits option.splits prod.splits if_splits)

section \<open>Invariants of the rows\<close>

text \<open>
  A rule for rows: a predicate that the rows the handlers write satisfy, where a session may be extended and
  renewed, with what it says of the login transactions that wait for a reply.
\<close>

locale row_rule =
  fixes cfg :: web_config
    and fresh :: "string \<Rightarrow> bool"
    and P :: "string \<Rightarrow> auth_row \<Rightarrow> bool"
    and waiting :: "auth_data \<Rightarrow> bool"
  assumes login_row: "fresh i \<Longrightarrow> local_path p \<Longrightarrow> P i \<lparr>row_data = LoginTransaction st n v p, idleExpiresAt = u, absoluteExpiresAt = u\<rparr>"
    and session_row: "fresh i \<Longrightarrow> P i \<lparr>row_data = UserSession t r x now, idleExpiresAt = u, absoluteExpiresAt = now + wc_absoluteTtlMs cfg\<rparr>"
    and extended_row: "P i row \<Longrightarrow> is_user row \<Longrightarrow> P i (extended cfg now row)"
    and renewed_row: "P i row \<Longrightarrow> is_user row \<Longrightarrow> P i (row\<lparr>row_data := UserSession t r x (as_createdAt (row_data row))\<rparr>)"
    and waiting_row: "P i row \<Longrightarrow> \<not> is_user row \<Longrightarrow> waiting (row_data row)"
begin

definition holds :: "web_state \<Rightarrow> bool" where
  "holds s = (all_rows P (ws_rows s) \<and> (\<forall>t \<in> set (ws_callbacks s). waiting t)
     \<and> (\<forall>(i, row) \<in> set (ws_renewals s). P i row \<and> is_user row))"

lemma rows_login: "fresh (ld_id draws) \<Longrightarrow> all_rows P rows \<Longrightarrow> all_rows P (fst (beginLogin env cfg now draws returnTo rows))"
proof -
  assume "fresh (ld_id draws)" "all_rows P rows"
  moreover have "local_path (return_path returnTo)" by (simp add: return_path_def) (simp add: local_path_def path_char_def starts_with_def)
  moreover have "all_rows P (filter f rows)" if "all_rows P rows" for f by (rule all_rows_subset [OF that]) auto
  ultimately show ?thesis
    by (auto simp: beginLogin_def seq_def session_cleanup_def session_set_def Let_def all_rows_update login_row split: sum.split)
qed

lemma rows_callback:
  assumes "callback_check env cfg now query headers rows = (rows', r)" "all_rows P rows"
  shows "all_rows P rows' \<and> (\<forall>t. r = Inr (Some t) \<longrightarrow> waiting t)"
proof -
  obtain rows1 r1 where s: "signed_row env cfg now authCookie headers rows = (rows1, r1)" by (cases "signed_row env cfg now authCookie headers rows")
  note kept = all_rows_signed [OF s assms(2)]
  show ?thesis
    using assms(1) s kept waiting_row
    by (auto simp: callback_check_def seq_def session_delete_def all_rows_delete split: sum.splits option.splits if_splits)
qed

lemma rows_finish: "fresh i \<Longrightarrow> all_rows P rows \<Longrightarrow> all_rows P (fst (callback_finish env cfg now i t payload rows))"
  by (auto simp: callback_finish_def seq_def session_set_def all_rows_update session_row split: sum.split)

lemma rows_session: "all_rows P rows \<Longrightarrow> all_rows P (fst (session env cfg now headers rows))"
proof -
  assume rows: "all_rows P rows"
  obtain rows1 r where s: "readSession env cfg now headers rows = (rows1, r)" by (cases "readSession env cfg now headers rows")
  note kept = all_rows_read [OF s rows]
  show ?thesis
    using s kept by (auto simp: session_def seq_def session_set_def all_rows_update extended_row split: sum.split option.split)
qed

lemma rows_renewal:
  assumes "renew_check env cfg now headers rows = (rows', r)" "all_rows P rows"
  shows "all_rows P rows' \<and> (\<forall>i row. r = Inr (Some (i, row)) \<longrightarrow> P i row \<and> is_user row)"
proof -
  obtain rows1 r1 where s: "readSession env cfg now headers rows = (rows1, r1)" by (cases "readSession env cfg now headers rows")
  note kept = all_rows_read [OF s assms(2)]
  show ?thesis
    using assms(1) s kept by (auto simp: renew_check_def seq_def split: sum.splits option.splits if_splits)
qed

lemma rows_renewed: "P i row \<Longrightarrow> is_user row \<Longrightarrow> all_rows P rows \<Longrightarrow> all_rows P (fst (renew_finish cfg now i row payload rows))"
proof -
  assume row: "P i row" "is_user row" and rows: "all_rows P rows"
  have "P i (extended cfg now (row\<lparr>row_data := UserSession t r x (as_createdAt (row_data row))\<rparr>))" for t r x
    by (rule extended_row [OF renewed_row [OF row]]) (simp add: is_user_def)
  then show ?thesis
    using rows by (auto simp: renew_finish_def seq_def session_set_def Let_def all_rows_update split: sum.split)
qed

lemma rows_logout: "all_rows P rows \<Longrightarrow> all_rows P (fst (logout env cfg headers rows))"
  by (auto simp: logout_def seq_def session_delete_def all_rows_delete split: sum.split option.split)

lemma rows_token: "all_rows P rows \<Longrightarrow> all_rows P (fst (session_accessToken env cfg now headers rows))"
proof -
  assume rows: "all_rows P rows"
  obtain rows1 r1 where s: "readSession env cfg now headers rows = (rows1, r1)" by (cases "readSession env cfg now headers rows")
  show ?thesis using s all_rows_read [OF s rows] by (simp add: session_accessToken_def seq_def split: sum.split)
qed

lemma waiting_less: "t' \<in> set (remove1 t ts) \<Longrightarrow> t' \<in> set ts"
  using set_remove1_subset [of t ts] by blast

lemma step_holds: "web_step env cfg fresh s s' \<Longrightarrow> holds s \<Longrightarrow> holds s'"
proof (induction rule: web_step.induct)
  case (callback now query headers s rows r)
  then show ?case using rows_callback by (fastforce simp: holds_def with_rows_def split: sum.split option.split)
next
  case (renewal now headers s rows r)
  then show ?case using rows_renewal by (fastforce simp: holds_def with_rows_def split: sum.split option.split)
next
  case (renewal_reply i row s now payload)
  then show ?case using rows_renewed by (fastforce simp: holds_def with_rows_def dest: waiting_less)
qed (auto simp: holds_def with_rows_def rows_login rows_finish rows_session rows_logout rows_token dest: waiting_less)

lemma runs_hold: "web_runs env cfg fresh s s' \<Longrightarrow> holds s \<Longrightarrow> holds s'"
  unfolding web_runs_def by (induction rule: rtranclp_induct) (auto intro: step_holds)

lemma start_holds: "holds web_start"
  by (simp add: holds_def web_start_def)

end

text \<open>
  A user session ends at a fixed time after its creation, which no extension and no renewal moves; a
  login transaction sends the browser back to a path of the site.
\<close>

definition row_ok :: "web_config \<Rightarrow> auth_row \<Rightarrow> bool" where
  "row_ok cfg row =
    (case row_data row of
       LoginTransaction st n v p \<Rightarrow> local_path p
     | UserSession t r x c \<Rightarrow> absoluteExpiresAt row = c + wc_absoluteTtlMs cfg)"

definition transaction_ok :: "auth_data \<Rightarrow> bool" where
  "transaction_ok t = (case t of LoginTransaction st n v p \<Rightarrow> local_path p | UserSession a r x c \<Rightarrow> False)"

interpretation bounded: row_rule cfg "\<lambda>_. True" "\<lambda>_. row_ok cfg" transaction_ok for cfg
  by unfold_locales (auto simp: row_ok_def transaction_ok_def extended_def is_user_def split: auth_data.splits)

text \<open>An identifier that is neither stored nor drawn again stays away.\<close>

interpretation away: row_rule cfg "\<lambda>i. i \<noteq> gone" "\<lambda>i _. i \<noteq> gone" "\<lambda>_. True" for cfg gone
  by unfold_locales auto

section \<open>What a reachable manager does\<close>

lemma reachable_bounded: "web_runs env cfg fresh web_start s \<Longrightarrow> bounded.holds cfg s"
proof -
  have "web_step env cfg fresh s s' \<Longrightarrow> web_step env cfg (\<lambda>_. True) s s'" for s s'
    by (induction rule: web_step.induct) (auto intro: web_step.intros)
  then have "web_runs env cfg fresh web_start s \<Longrightarrow> web_runs env cfg (\<lambda>_. True) web_start s"
    unfolding web_runs_def using rtranclp_mono [of "web_step env cfg fresh" "web_step env cfg (\<lambda>_. True)"] by blast
  then show "web_runs env cfg fresh web_start s \<Longrightarrow> bounded.holds cfg s"
    using bounded.runs_hold bounded.start_holds by blast
qed

lemma signed_row_Some:
  assumes "signed_row env cfg now name headers rows = (rows', Inr (Some (i, row)))"
  shows "verifySigned env (cookieValue headers name) (wc_secret cfg) = Inr (Some i) \<and> map_of rows i = Some row
    \<and> \<not> row_over now row \<and> rows' = rows"
  using assms by (auto simp: signed_row_def seq_def session_get_def split: sum.splits option.splits if_splits)

lemma readSession_Some:
  assumes "readSession env cfg now headers rows = (rows', Inr (Some (i, row)))"
  shows "verifySigned env (cookieValue headers (wc_cookieName cfg)) (wc_secret cfg) = Inr (Some i) \<and> map_of rows i = Some row
    \<and> \<not> row_over now row \<and> is_user row"
  using assms signed_row_Some
  by (fastforce simp: readSession_def seq_def split: sum.splits option.splits prod.splits if_splits)

lemma session_200:
  assumes "session env cfg now headers rows = (rows', Inr reply)" "wr_status reply = 200"
  shows "\<exists>i row. verifySigned env (cookieValue headers (wc_cookieName cfg)) (wc_secret cfg) = Inr (Some i) \<and> map_of rows i = Some row
    \<and> \<not> row_over now row \<and> is_user row \<and> fld (wr_body reply) ''accessToken'' = JStr (as_accessToken (row_data row))"
proof -
  obtain rows1 r where s: "readSession env cfg now headers rows = (rows1, r)" by (cases "readSession env cfg now headers rows")
  then obtain i row where r: "r = Inr (Some (i, row))" and reply: "authenticated (extended cfg now row) = Inr reply"
    using assms by (auto simp: session_def seq_def session_set_def not_authenticated_def split: sum.splits option.splits)
  show ?thesis
    using readSession_Some [OF s [unfolded r]] reply
    by (intro exI [of _ i] exI [of _ row]) (auto simp: authenticated_def extended_def split: option.splits)
qed


text \<open>
  Whatever a login was asked to return to, completing it redirects the browser to a path of the site: to no other host.
\<close>

theorem callback_stays_on_site:
  assumes "web_runs env cfg fresh web_start s" "t \<in> set (ws_callbacks s)"
    and "callback_finish env cfg now i t payload (ws_rows s) = (rows, Inr reply)"
  shows "\<exists>p. map_of (wr_headers reply) ''location'' = Some (JStr p) \<and> local_path p"
proof -
  have "transaction_ok t" using reachable_bounded [OF assms(1)] assms(2) by (auto simp: bounded.holds_def)
  then show ?thesis
    using assms(3)
    by (auto simp: callback_finish_def seq_def session_set_def transaction_ok_def split: sum.splits auth_data.splits)
qed

text \<open>
  C30. A callback creates a session only if its signed cookie names a login transaction that has not expired, with the state of the query,
  and the token endpoint accepted the code; the transaction is gone afterwards, so it completes one login at most.
\<close>

theorem callback_completes_own_login:
  assumes "completeCallback env cfg now replied i reply query headers rows = (rows', Inr answer)" "wr_status answer = 302"
  shows "\<exists>tx row payload. verifySigned env (cookieValue headers authCookie) (wc_secret cfg) = Inr (Some tx) \<and> map_of rows tx = Some row
    \<and> \<not> is_user row \<and> \<not> row_over now row \<and> query ''state'' = Some (at_state (row_data row)) \<and> exchange reply = Inr payload
    \<and> (tx \<noteq> i \<longrightarrow> map_of rows' tx = None)"
proof -
  obtain rows1 r where c: "callback_check env cfg now query headers rows = (rows1, r)" by (cases "callback_check env cfg now query headers rows")
  obtain rows2 r2 where sg: "signed_row env cfg now authCookie headers rows = (rows2, r2)" by (cases "signed_row env cfg now authCookie headers rows")
  obtain t payload where r: "r = Inr (Some t)" and p: "exchange reply = Inr payload"
      and fin: "callback_finish env cfg replied i t payload rows1 = (rows', Inr answer)"
    using assms c by (auto simp: completeCallback_def seq_def invalid_callback_def split: sum.splits option.splits)
  obtain tx row where r2: "r2 = Inr (Some (tx, row))" and own: "\<not> is_user row" "query_get query ''state'' = JStr (at_state (row_data row))"
      and rows1: "rows1 = AList.delete tx rows2"
    using c r sg by (auto simp: callback_check_def seq_def session_delete_def split: sum.splits option.splits if_splits)
  have st: "query ''state'' = Some (at_state (row_data row))"
    using own(2) by (auto simp: query_get_def split: option.splits)
  have "map_of rows' tx = None" if "tx \<noteq> i"
    using fin that rows1 by (auto simp: callback_finish_def seq_def session_set_def split: sum.splits)
  then show ?thesis using signed_row_Some [OF sg [unfolded r2]] own st p by blast
qed

text \<open>
  C31. Signing out is final: once a session was signed out while no renewal of it is waiting for the provider, and
  its identifier is not drawn again, its cookie opens nothing in any later state.
\<close>

theorem logout_is_final:
  assumes "web_runs env cfg fresh web_start s"
    and "verifySigned env (cookieValue headers (wc_cookieName cfg)) (wc_secret cfg) = Inr (Some i)"
    and "\<forall>row. (i, row) \<notin> set (ws_renewals s)"
    and "web_runs env cfg (\<lambda>j. j \<noteq> i) (with_rows s (fst (logout env cfg headers (ws_rows s)))) s'"
  shows "session env cfg now headers (ws_rows s') = (ws_rows s', Inr (not_authenticated []))"
proof -
  have "all_rows (\<lambda>j _. j \<noteq> i) (fst (logout env cfg headers (ws_rows s)))"
    using assms(2) by (auto simp: logout_def seq_def session_delete_def all_rows_def AList.delete_eq split: sum.split)
  moreover have "\<forall>(j, row) \<in> set (ws_renewals s). is_user row"
    using reachable_bounded [OF assms(1)] by (auto simp: bounded.holds_def)
  ultimately have "away.holds i (with_rows s (fst (logout env cfg headers (ws_rows s))))"
    using assms(3) by (auto simp: away.holds_def with_rows_def)
  then have "away.holds i s'" using away.runs_hold [OF assms(4)] by blast
  then have "map_of (ws_rows s') i = None" by (auto simp: away.holds_def all_rows_def map_of_eq_None_iff)
  then show ?thesis
    using assms(2) by (simp add: session_def readSession_def signed_row_def seq_def session_get_def)
qed

section \<open>A sign-in, step by step\<close>

definition demo_web_config :: web_config where
  "demo_web_config = \<lparr>wc_secret = ''k'', wc_cookieName = ''__Host-s'', wc_allowedOrigin = ''https://app'', wc_idleTtlMs = 8000,
     wc_absoluteTtlMs = 9000, wc_transactionTtlMs = 5000, wc_clockToleranceSec = 30, wc_requireRefreshToken = True,
     wc_authorizationEndpoint = ''https://idp/authorize'', wc_endSessionEndpoint = ''https://idp/logout'', wc_clientId = ''web'',
     wc_redirectUri = ''https://app/auth/callback'', wc_scopes = [''openid''], wc_audience = ''api'', wc_postLogoutRedirectUri = ''https://app/''\<rparr>"

definition demo_draws :: login_draws where
  "demo_draws = \<lparr>ld_id = ''t1'', ld_state = ''st'', ld_nonce = ''n'', ld_verifier = ''v''\<rparr>"

definition demo_login_query :: query where
  "demo_login_query = (\<lambda>k. if k = ''state'' then Some ''st'' else if k = ''code'' then Some ''c'' else None)"

definition demo_cookies :: jsval where
  "demo_cookies = JObj [(''cookie'', JStr ''__Host-xygo-auth=t1.kt1; __Host-s=s1.ks1'')]"

definition demo_token :: jsval where
  "demo_token = JObj [(''access_token'', JStr ''tok''), (''refresh_token'', JStr ''ref''), (''expires_in'', JNum 3600), (''token_type'', JStr ''Bearer'')]"

text \<open>A login that asks to return to another host, its callback, the provider's reply, and a renewal that waits.\<close>

definition demo_begun :: web_state where
  "demo_begun = with_rows web_start (fst (beginLogin dotless_env demo_web_config 0 demo_draws ''//evil.example'' (ws_rows web_start)))"

definition demo_checked :: web_state where
  "demo_checked = (let (rows, r) = callback_check dotless_env demo_web_config 1000 demo_login_query demo_cookies (ws_rows demo_begun) in
     (with_rows demo_begun rows)\<lparr>ws_callbacks := (case r of Inr (Some t) \<Rightarrow> t # ws_callbacks demo_begun | _ \<Rightarrow> ws_callbacks demo_begun)\<rparr>)"

definition demo_transaction :: auth_data where
  "demo_transaction = LoginTransaction ''st'' ''n'' ''v'' ''/control-room''"

definition demo_signed_in :: web_state where
  "demo_signed_in = with_rows demo_checked
       (fst (callback_finish dotless_env demo_web_config 2000 ''s1'' demo_transaction demo_token (ws_rows demo_checked)))
       \<lparr>ws_callbacks := remove1 demo_transaction (ws_callbacks demo_checked)\<rparr>"

lemma demo_run_begun: "web_runs dotless_env demo_web_config (\<lambda>_. True) web_start demo_begun"
  unfolding web_runs_def demo_begun_def by (intro r_into_rtranclp web_step.login) simp

lemma demo_run_checked: "web_runs dotless_env demo_web_config (\<lambda>_. True) web_start demo_checked"
proof -
  obtain rows r where c: "callback_check dotless_env demo_web_config 1000 demo_login_query demo_cookies (ws_rows demo_begun) = (rows, r)"
    by (cases "callback_check dotless_env demo_web_config 1000 demo_login_query demo_cookies (ws_rows demo_begun)")
  have "web_step dotless_env demo_web_config (\<lambda>_. True) demo_begun demo_checked"
    using web_step.callback [OF c] c by (simp add: demo_checked_def)
  then show ?thesis
    using demo_run_begun unfolding web_runs_def by (rule rtranclp.rtrancl_into_rtrancl [rotated])
qed

lemma demo_transaction_waits: "demo_transaction \<in> set (ws_callbacks demo_checked)"
  by code_simp

lemma demo_run_signed_in: "web_runs dotless_env demo_web_config (\<lambda>_. True) web_start demo_signed_in"
proof -
  have "web_step dotless_env demo_web_config (\<lambda>_. True) demo_checked demo_signed_in"
    unfolding demo_signed_in_def by (rule web_step.callback_reply [OF demo_transaction_waits]) simp
  then show ?thesis
    using demo_run_checked unfolding web_runs_def by (rule rtranclp.rtrancl_into_rtrancl [rotated])
qed

definition demo_session :: "auth_store \<times> web_reply res" where
  "demo_session = session dotless_env demo_web_config 3000 demo_cookies (ws_rows demo_signed_in)"

text \<open>What a run that succeeded answered.\<close>

definition answered :: "'a res \<Rightarrow> ('a \<Rightarrow> bool) \<Rightarrow> bool" where
  "answered r P = (case r of Inr v \<Rightarrow> P v | Inl e \<Rightarrow> False)"

lemma answered_run: "answered (snd p) P \<Longrightarrow> \<exists>rows v. p = (rows, Inr v) \<and> P v"
  by (cases p) (auto simp: answered_def split: sum.splits)


lemma callback_stays_on_site_witness:
  "\<exists>rows reply p. callback_finish dotless_env demo_web_config 2000 ''s1'' demo_transaction demo_token (ws_rows demo_checked) = (rows, Inr reply)
    \<and> map_of (wr_headers reply) ''location'' = Some (JStr p) \<and> local_path p"
proof -
  have "answered (snd (callback_finish dotless_env demo_web_config 2000 ''s1'' demo_transaction demo_token (ws_rows demo_checked))) (\<lambda>_. True)"
    by code_simp
  then obtain rows reply where c: "callback_finish dotless_env demo_web_config 2000 ''s1'' demo_transaction demo_token (ws_rows demo_checked) = (rows, Inr reply)"
    using answered_run by blast
  then show ?thesis using callback_stays_on_site [OF demo_run_checked demo_transaction_waits c] by blast
qed

lemma callback_completes_own_login_witness:
  "demo_login_query ''state'' = Some ''st'' \<and> (\<exists>rows' answer. completeCallback dotless_env demo_web_config 1000 2000 ''s1'' (TokenReply 200 demo_token)
     demo_login_query demo_cookies (ws_rows demo_begun) = (rows', Inr answer) \<and> map_of rows' ''t1'' = None)"
proof -
  have "answered (snd (completeCallback dotless_env demo_web_config 1000 2000 ''s1'' (TokenReply 200 demo_token)
     demo_login_query demo_cookies (ws_rows demo_begun))) (\<lambda>a. wr_status a = 302)" by code_simp
  then obtain rows' answer where c: "completeCallback dotless_env demo_web_config 1000 2000 ''s1'' (TokenReply 200 demo_token)
     demo_login_query demo_cookies (ws_rows demo_begun) = (rows', Inr answer)" "wr_status answer = 302"
    using answered_run by blast
  have "verifySigned dotless_env (cookieValue demo_cookies authCookie) (wc_secret demo_web_config) = Inr (Some ''t1'')"
    by code_simp
  then show ?thesis
    using callback_completes_own_login [OF c] c by (auto simp: demo_login_query_def)
qed

lemma logout_is_final_witness:
  "session dotless_env demo_web_config 3000 demo_cookies (fst (logout dotless_env demo_web_config demo_cookies (ws_rows demo_signed_in)))
    = (fst (logout dotless_env demo_web_config demo_cookies (ws_rows demo_signed_in)), Inr (not_authenticated []))"
proof -
  have signed: "verifySigned dotless_env (cookieValue demo_cookies (wc_cookieName demo_web_config)) (wc_secret demo_web_config) = Inr (Some ''s1'')"
    by code_simp
  have idle: "\<forall>row. (''s1'', row) \<notin> set (ws_renewals demo_signed_in)"
  proof -
    have "ws_renewals demo_signed_in = []" by code_simp
    then show ?thesis by simp
  qed
  have "web_runs dotless_env demo_web_config (\<lambda>j. j \<noteq> ''s1'') s s" for s by (simp add: web_runs_def)
  from logout_is_final [OF demo_run_signed_in signed idle this] show ?thesis by (simp add: with_rows_def)
qed

text \<open>
  The condition on waiting renewals is needed: a renewal that began before the session was signed out and
  whose reply comes afterwards stores the session again, and the cookie opens it.
\<close>

definition demo_resurrected :: auth_store where
  "demo_resurrected =
    (let (rows, r) = renew_check dotless_env demo_web_config 3000 demo_cookies (ws_rows demo_signed_in);
         rows' = fst (logout dotless_env demo_web_config demo_cookies rows) in
     case r of Inr (Some (i, row)) \<Rightarrow> fst (renew_finish demo_web_config 4000 i row demo_token rows') | _ \<Rightarrow> rows')"

lemma renewal_undoes_logout:
  "answered (snd (session dotless_env demo_web_config 5000 demo_cookies demo_resurrected)) (\<lambda>reply. wr_status reply = 200)"
  by code_simp

end
