(* ===== verification/WebConfig.thy ===== *)
theory WebConfig
  imports WebSession
begin

text \<open>
  The configuration of the web server (apps/web/src/runtime-config.js): what it reads from the environment, the
  checks at start-up, and the part it publishes to browsers at /runtime-config.json.
\<close>

section \<open>Reading the environment\<close>

definition managed_oidc_providers :: "string list" where
  "managed_oidc_providers = [''auth0'', ''clerk'', ''cognito'', ''entra'', ''okta'', ''other-managed-oidc'']"

definition web_stagedModeEnabled :: "jsval \<Rightarrow> bool res" where
  "web_stagedModeEnabled value =
    (if value = JUndef then Inr True
     else let normalized = js_lower (js_trim (js_string value)) in
       if normalized = ''true'' \<or> normalized = ''1'' then Inr True
       else if normalized = ''false'' \<or> normalized = ''0'' then Inr False
       else Inl (Err ''STAGED_MODE must be true or false.''))"

definition web_assertHttpsUrl :: "url_parser \<Rightarrow> string \<Rightarrow> string \<Rightarrow> bool \<Rightarrow> unit res" where
  "web_assertHttpsUrl parse value label allowQuery =
    (case parse value of
       None \<Rightarrow> Inl (Err (label @ '' must be an absolute HTTPS URL.''))
     | Some url \<Rightarrow> guard
        [(u_protocol url = ''https:'' \<and> u_hostname url \<noteq> [] \<and> u_username url = [] \<and> u_password url = [] \<and> u_hash url = []
            \<and> (allowQuery \<or> u_search url = []),
          label @ '' must be an HTTPS URL without credentials, a fragment, or unsupported URL components.'')] (Inr ()))"

definition web_integerSetting :: "jsval \<Rightarrow> int \<Rightarrow> bounds \<Rightarrow> string \<Rightarrow> int res" where
  "web_integerSetting value fallback b label =
    (let raw = (if value = JUndef \<or> value = JStr [] then int_string fallback else js_string value) in
     guard [(integer_within b raw, must_be_within label b)] (Inr (decimal_value raw)))"

text \<open>\<open>s.split(/\s+/).filter(Boolean)\<close>.\<close>

fun split_space :: "string \<Rightarrow> string list" where
  "split_space [] = [[]]"
| "split_space (c # s) =
    (if js_ws c then [] # split_space s else (case split_space s of [] \<Rightarrow> [[c]] | w # ws \<Rightarrow> (c # w) # ws))"

definition words_of :: "string \<Rightarrow> string list" where
  "words_of s = filter (\<lambda>w. w \<noteq> []) (split_space s)"

record web_oidc_settings =
  ow_provider :: jsval
  ow_issuer :: jsval
  ow_audience :: jsval
  ow_clientId :: jsval
  ow_authorizationEndpoint :: jsval
  ow_tokenEndpoint :: jsval
  ow_endSessionEndpoint :: jsval
  ow_scopes :: "string list"
  ow_redirectUri :: string
  ow_postLogoutRedirectUri :: string

record web_session_settings =
  sw_secret :: jsval
  sw_encryptionSecret :: jsval
  sw_storeBackend :: string
  sw_postgresUrl :: jsval
  sw_cookieName :: string
  sw_allowedOrigin :: string
  sw_idleTtlMs :: int
  sw_absoluteTtlMs :: int
  sw_transactionTtlMs :: int
  sw_tokenRequestTimeoutMs :: int
  sw_tokenClockToleranceSec :: int
  sw_renewBeforeSec :: int
  sw_requireRefreshToken :: bool

record web_runtime_config =
  rw_productionMode :: bool
  rw_environment :: string
  rw_release :: string
  rw_appUrl :: string
  rw_apiBaseUrl :: string
  rw_monitoringEndpoint :: jsval
  rw_mode :: string
  rw_oidc :: "(web_oidc_settings \<times> web_session_settings) option"

definition value_or :: "jsval \<Rightarrow> string \<Rightarrow> string \<Rightarrow> string" where
  "value_or env name d = js_string (coalesce (normal_value env name) (JStr d))"

definition load_web_oidc :: "jsval \<Rightarrow> string \<Rightarrow> web_oidc_settings" where
  "load_web_oidc env appUrl =
    \<lparr>ow_provider = normal_value env ''XYGO_OIDC_PROVIDER'', ow_issuer = normal_value env ''XYGO_OIDC_ISSUER'',
     ow_audience = normal_value env ''XYGO_OIDC_AUDIENCE'', ow_clientId = normal_value env ''XYGO_WEB_OIDC_CLIENT_ID'',
     ow_authorizationEndpoint = normal_value env ''XYGO_WEB_OIDC_AUTHORIZATION_ENDPOINT'',
     ow_tokenEndpoint = normal_value env ''XYGO_WEB_OIDC_TOKEN_ENDPOINT'',
     ow_endSessionEndpoint = normal_value env ''XYGO_WEB_OIDC_END_SESSION_ENDPOINT'',
     ow_scopes = words_of (value_or env ''XYGO_WEB_OIDC_SCOPES'' ''openid profile email''),
     ow_redirectUri = drop_last_slash appUrl @ ''/auth/callback'', ow_postLogoutRedirectUri = drop_last_slash appUrl @ ''/''\<rparr>"

definition web_setting :: "jsval \<Rightarrow> string \<Rightarrow> int \<Rightarrow> int \<Rightarrow> int \<Rightarrow> int res" where
  "web_setting env name fallback lo hi = web_integerSetting (fld env name) fallback \<lparr>minimum = lo, maximum = hi\<rparr> name"

definition load_web_session :: "url_parser \<Rightarrow> jsval \<Rightarrow> string \<Rightarrow> web_session_settings res" where
  "load_web_session parse env appUrl =
    and_then (case normal_value env ''XYGO_WEB_ALLOWED_ORIGIN'' of JStr s \<Rightarrow> Inr s
        | _ \<Rightarrow> (case parse appUrl of Some url \<Rightarrow> Inr (u_origin url) | None \<Rightarrow> Inl (JsError ''Invalid URL'' (Some ''ERR_INVALID_URL'') None))) (\<lambda>origin.
    and_then (web_setting env ''XYGO_WEB_SESSION_IDLE_SEC'' 1800 300 86400) (\<lambda>idle.
    and_then (web_setting env ''XYGO_WEB_SESSION_ABSOLUTE_SEC'' 28800 900 86400) (\<lambda>absolute.
    and_then (web_setting env ''XYGO_WEB_AUTH_TRANSACTION_TTL_SEC'' 300 60 900) (\<lambda>transaction.
    and_then (web_setting env ''XYGO_WEB_TOKEN_REQUEST_TIMEOUT_MS'' 10000 1000 30000) (\<lambda>timeout.
    and_then (web_setting env ''XYGO_WEB_TOKEN_CLOCK_TOLERANCE_SEC'' 30 0 120) (\<lambda>tolerance.
    and_then (web_setting env ''XYGO_WEB_TOKEN_RENEW_BEFORE_SEC'' 120 30 600) (\<lambda>renewBefore.
    Inr \<lparr>sw_secret = normal_value env ''XYGO_WEB_SESSION_SECRET'', sw_encryptionSecret = normal_value env ''XYGO_WEB_SESSION_ENCRYPTION_KEY'',
      sw_storeBackend = value_or env ''XYGO_WEB_SESSION_STORE'' ''memory'',
      sw_postgresUrl = coalesce (normal_value env ''XYGO_WEB_SESSION_PG_URL'') (normal_value env ''XYGO_API_PG_URL''),
      sw_cookieName = value_or env ''XYGO_WEB_SESSION_COOKIE_NAME'' ''__Host-xygo-session'', sw_allowedOrigin = origin,
      sw_idleTtlMs = idle * 1000, sw_absoluteTtlMs = absolute * 1000, sw_transactionTtlMs = transaction * 1000,
      sw_tokenRequestTimeoutMs = timeout, sw_tokenClockToleranceSec = tolerance, sw_renewBeforeSec = renewBefore,
      sw_requireRefreshToken = (js_lower (js_string (coalesce (fld env ''XYGO_WEB_REQUIRE_REFRESH_TOKEN'') (JStr ''false''))) = ''true'')\<rparr>)))))))"

definition web_productionMode :: "jsval \<Rightarrow> bool res" where
  "web_productionMode env =
    (if js_lower (js_trim (js_string (coalesce (fld env ''NODE_ENV'') (JStr [])))) = ''production'' then Inr True
     else and_then (web_stagedModeEnabled (fld env ''STAGED_MODE'')) (\<lambda>staged. Inr (\<not> staged)))"

definition loadWebRuntimeConfig :: "url_parser \<Rightarrow> jsval \<Rightarrow> web_runtime_config res" where
  "loadWebRuntimeConfig parse env =
    and_then (web_productionMode env) (\<lambda>productionMode.
    let mode = value_or env ''XYGO_AUTH_MODE'' ''staged''; appUrl = value_or env ''XYGO_WEB_APP_URL'' ''http://127.0.0.1:4173'' in
    and_then (if mode = ''oidc'' then and_then (load_web_session parse env appUrl) (\<lambda>s. Inr (Some (load_web_oidc env appUrl, s))) else Inr None) (\<lambda>oidc.
    Inr \<lparr>rw_productionMode = productionMode, rw_environment = value_or env ''XYGO_DEPLOY_ENVIRONMENT'' ''local'',
      rw_release = value_or env ''XYGO_RELEASE'' ''development'', rw_appUrl = appUrl,
      rw_apiBaseUrl = value_or env ''XYGO_WEB_API_BASE_URL'' ''http://127.0.0.1:3000'',
      rw_monitoringEndpoint = normal_value env ''XYGO_WEB_MONITORING_ENDPOINT'', rw_mode = mode, rw_oidc = oidc\<rparr>))"

section \<open>Checks at start-up\<close>

definition long_secret :: "jsval \<Rightarrow> bool" where
  "long_secret v = (case v of JStr s \<Rightarrow> 32 \<le> length s | _ \<Rightarrow> False)"

definition required_oidc_settings :: "web_oidc_settings \<Rightarrow> (jsval \<times> string) list" where
  "required_oidc_settings w =
    [(ow_provider w, ''XYGO_OIDC_PROVIDER''), (ow_issuer w, ''XYGO_OIDC_ISSUER''), (ow_audience w, ''XYGO_OIDC_AUDIENCE''),
     (ow_clientId w, ''XYGO_WEB_OIDC_CLIENT_ID''), (ow_authorizationEndpoint w, ''XYGO_WEB_OIDC_AUTHORIZATION_ENDPOINT''),
     (ow_tokenEndpoint w, ''XYGO_WEB_OIDC_TOKEN_ENDPOINT''), (ow_endSessionEndpoint w, ''XYGO_WEB_OIDC_END_SESSION_ENDPOINT'')]"

definition production_urls :: "web_runtime_config \<Rightarrow> web_oidc_settings \<Rightarrow> (string \<times> string \<times> bool) list" where
  "production_urls config w =
    [(rw_appUrl config, ''XYGO_WEB_APP_URL'', False), (rw_apiBaseUrl config, ''XYGO_WEB_API_BASE_URL'', False),
     (js_string (ow_issuer w), ''XYGO_OIDC_ISSUER'', False),
     (js_string (ow_authorizationEndpoint w), ''XYGO_WEB_OIDC_AUTHORIZATION_ENDPOINT'', True),
     (js_string (ow_tokenEndpoint w), ''XYGO_WEB_OIDC_TOKEN_ENDPOINT'', True),
     (js_string (ow_endSessionEndpoint w), ''XYGO_WEB_OIDC_END_SESSION_ENDPOINT'', True)]"

definition production_session :: "url_parser \<Rightarrow> web_runtime_config \<Rightarrow> web_session_settings \<Rightarrow> unit res" where
  "production_session parse config s =
    guard [(long_secret (sw_secret s), ''XYGO_WEB_SESSION_SECRET must contain at least 32 characters.''),
           (sw_storeBackend s = ''postgres'', ''XYGO_WEB_SESSION_STORE must be postgres in production mode.''),
           (truthy (sw_postgresUrl s), ''XYGO_WEB_SESSION_PG_URL or XYGO_API_PG_URL is required for the production session store.''),
           (long_secret (sw_encryptionSecret s), ''XYGO_WEB_SESSION_ENCRYPTION_KEY must contain at least 32 characters.''),
           (starts_with ''__Host-'' (sw_cookieName s) \<and> CHR ''='' \<notin> set (sw_cookieName s), ''XYGO_WEB_SESSION_COOKIE_NAME must use the __Host- prefix.'')]
     (case parse (rw_appUrl config) of
        None \<Rightarrow> Inl (JsError ''Invalid URL'' (Some ''ERR_INVALID_URL'') None)
      | Some url \<Rightarrow> guard
          [(sw_allowedOrigin s = u_origin url, ''XYGO_WEB_ALLOWED_ORIGIN must exactly match the application origin.''),
           (sw_idleTtlMs s < sw_absoluteTtlMs s, ''XYGO_WEB_SESSION_IDLE_SEC must be less than XYGO_WEB_SESSION_ABSOLUTE_SEC.''),
           (sw_requireRefreshToken s, ''XYGO_WEB_REQUIRE_REFRESH_TOKEN must be true in production mode.'')] (Inr ()))"

definition assertWebRuntimeConfig :: "url_parser \<Rightarrow> web_runtime_config \<Rightarrow> jsval \<Rightarrow> web_runtime_config res" where
  "assertWebRuntimeConfig parse config env =
    guard [(\<not> truthy (normal_value env ''XYGO_WEB_OIDC_CLIENT_SECRET''),
            ''XYGO_WEB_OIDC_CLIENT_SECRET is forbidden: the browser must use Authorization Code + PKCE as a public client.''),
           (\<not> (rw_productionMode config \<and> rw_mode config \<noteq> ''oidc''),
            ''Production web runtime requires XYGO_AUTH_MODE=oidc; staged headers are not a production sign-in method.''),
           (rw_mode config = ''staged'' \<or> rw_mode config = ''oidc'', ''Unknown XYGO_AUTH_MODE: '' @ rw_mode config @ ''.'')]
     (case rw_oidc config of
        None \<Rightarrow> Inr config
      | Some (w, s) \<Rightarrow>
          (let missing = map snd (filter (\<lambda>(v, label). \<not> truthy v) (required_oidc_settings w)) in
           guard [(missing = [], ''OIDC web runtime is missing required settings: '' @ join '', '' missing @ ''.''),
                  (one_of managed_oidc_providers (ow_provider w), ''Unsupported XYGO_OIDC_PROVIDER: '' @ js_string (ow_provider w) @ ''.''),
                  (''openid'' \<in> set (ow_scopes w), ''XYGO_WEB_OIDC_SCOPES must include openid.'')]
            (if rw_productionMode config
             then and_then (all_checks (map (\<lambda>(v, label, q). web_assertHttpsUrl parse v label q) (production_urls config w))) (\<lambda>_.
                  and_then (production_session parse config s) (\<lambda>_. Inr config))
             else Inr config)))"

section \<open>The public part\<close>

definition public_auth :: "web_runtime_config \<Rightarrow> jsval" where
  "public_auth config =
    (case rw_oidc config of
       None \<Rightarrow> JObj [(''mode'', JStr ''staged'')]
     | Some (w, s) \<Rightarrow> JObj
        [(''mode'', JStr (rw_mode config)), (''provider'', ow_provider w), (''issuer'', ow_issuer w), (''audience'', ow_audience w),
         (''clientId'', ow_clientId w), (''authorizationEndpoint'', ow_authorizationEndpoint w), (''tokenEndpoint'', ow_tokenEndpoint w),
         (''endSessionEndpoint'', ow_endSessionEndpoint w), (''scopes'', JArr (map JStr (ow_scopes w))),
         (''responseType'', JStr ''code''), (''pkceMethod'', JStr ''S256''), (''redirectUri'', JStr (ow_redirectUri w)),
         (''postLogoutRedirectUri'', JStr (ow_postLogoutRedirectUri w)), (''accessTokenStorage'', JStr ''memory''),
         (''sessionEndpoint'', JStr ''/auth/session''), (''renewEndpoint'', JStr ''/auth/session/renew''),
         (''loginEndpoint'', JStr ''/auth/login''), (''logoutEndpoint'', JStr ''/auth/logout''),
         (''renewBeforeSec'', JNum (of_int (sw_renewBeforeSec s)))])"

definition publicWebRuntimeConfig :: "web_runtime_config \<Rightarrow> jsval" where
  "publicWebRuntimeConfig config = JObj
    [(''environment'', JStr (rw_environment config)), (''release'', JStr (rw_release config)), (''appUrl'', JStr (rw_appUrl config)),
     (''apiBaseUrl'', JStr (rw_apiBaseUrl config)), (''monitoring'', JObj [(''endpoint'', rw_monitoringEndpoint config)]),
     (''auth'', public_auth config)]"

text \<open>
  C34. What the server publishes to every browser depends on the variables declared public and on nothing else, so that no
  secret of the environment can be read off it; and no variable is declared both public and private.
\<close>

theorem public_config_tells_no_secret:
  assumes "\<forall>name \<in> set public_web_runtime_env_vars. fld env1 name = fld env2 name"
    and "loadWebRuntimeConfig parse env1 = Inr config1" "loadWebRuntimeConfig parse env2 = Inr config2"
  shows "publicWebRuntimeConfig config1 = publicWebRuntimeConfig config2
    \<and> set public_web_runtime_env_vars \<inter> set private_production_env_vars = {}"
proof -
  have same: "normal_value env1 name = normal_value env2 name" "value_or env1 name d = value_or env2 name d"
    "web_setting env1 name n lo hi = web_setting env2 name n lo hi" if "name \<in> set public_web_runtime_env_vars" for name d n lo hi
    using assms(1) that by (simp_all add: normal_value_def value_or_def web_setting_def)
  define app where "app = value_or env1 ''XYGO_WEB_APP_URL'' ''http://127.0.0.1:4173''"
  have public: "load_web_oidc env1 app = load_web_oidc env2 app" and app: "app = value_or env2 ''XYGO_WEB_APP_URL'' ''http://127.0.0.1:4173''"
    unfolding app_def by (simp_all add: load_web_oidc_def same public_web_runtime_env_vars_def)
  have renew: "sw_renewBeforeSec s1 = sw_renewBeforeSec s2" if "load_web_session parse env1 app = Inr s1" "load_web_session parse env2 app = Inr s2" for s1 s2
    using that same(3) [of "''XYGO_WEB_TOKEN_RENEW_BEFORE_SEC''" 120 30 600]
    by (auto simp: load_web_session_def and_then_Inr public_web_runtime_env_vars_def)
  have auth: "public_auth config1 = public_auth config2"
    using assms(2,3) public renew same
    by (auto simp: loadWebRuntimeConfig_def public_auth_def and_then_Inr Let_def public_web_runtime_env_vars_def app_def [symmetric] app [symmetric]
        split: if_splits)
  have rest: "rw_environment config1 = rw_environment config2 \<and> rw_release config1 = rw_release config2 \<and> rw_appUrl config1 = rw_appUrl config2
      \<and> rw_apiBaseUrl config1 = rw_apiBaseUrl config2 \<and> rw_monitoringEndpoint config1 = rw_monitoringEndpoint config2"
    using assms(2,3) by (auto simp: loadWebRuntimeConfig_def and_then_Inr Let_def same public_web_runtime_env_vars_def)
  have "set public_web_runtime_env_vars \<inter> set private_production_env_vars = {}"
    by (simp add: public_web_runtime_env_vars_def private_production_env_vars_def)
  then show ?thesis using auth rest by (simp add: publicWebRuntimeConfig_def)
qed

definition demo_page :: "string \<Rightarrow> page_url option" where
  "demo_page s = Some \<lparr>u_protocol = ''https:'', u_username = [], u_password = [], u_hash = [], u_href = s, u_hostname = ''app'', u_search = [],
     u_origin = s, u_pathname = ''/'', u_sslmode = JNull\<rparr>"

definition demo_web_vars :: "(string \<times> string) list" where
  "demo_web_vars = [(''STAGED_MODE'', ''true''), (''XYGO_AUTH_MODE'', ''oidc''), (''XYGO_WEB_SESSION_IDLE_SEC'', ''600''), (''XYGO_WEB_SESSION_ABSOLUTE_SEC'', ''3600''),
     (''XYGO_WEB_AUTH_TRANSACTION_TTL_SEC'', ''300''), (''XYGO_WEB_TOKEN_REQUEST_TIMEOUT_MS'', ''5000''),
     (''XYGO_WEB_TOKEN_CLOCK_TOLERANCE_SEC'', ''0''), (''XYGO_WEB_TOKEN_RENEW_BEFORE_SEC'', ''60'')]"

definition demo_web_env_with :: "string \<Rightarrow> jsval" where
  "demo_web_env_with secret = JObj (map (\<lambda>(k, v). (k, JStr v)) ((''XYGO_WEB_SESSION_SECRET'', secret) # demo_web_vars))"

lemma demo_public_same: "\<forall>name \<in> set public_web_runtime_env_vars. fld (demo_web_env_with ''a'') name = fld (demo_web_env_with ''b'') name"
  by (simp add: public_web_runtime_env_vars_def demo_web_env_with_def)

lemma web_setting_text:
  "fld env name = JStr raw \<Longrightarrow> raw \<noteq> [] \<Longrightarrow> integer_within \<lparr>minimum = lo, maximum = hi\<rparr> raw
    \<Longrightarrow> web_setting env name d lo hi = Inr (decimal_value raw)"
  by (simp add: web_setting_def web_integerSetting_def Let_def)

lemma demo_settings:
  "integer_within \<lparr>minimum = 300, maximum = 86400\<rparr> ''600''" "integer_within \<lparr>minimum = 900, maximum = 86400\<rparr> ''3600''"
  "integer_within \<lparr>minimum = 60, maximum = 900\<rparr> ''300''" "integer_within \<lparr>minimum = 1000, maximum = 30000\<rparr> ''5000''"
  "integer_within \<lparr>minimum = 0, maximum = 120\<rparr> ''0''" "integer_within \<lparr>minimum = 30, maximum = 600\<rparr> ''60''"
  by code_simp+

lemma demo_web_loads: "\<exists>config. loadWebRuntimeConfig demo_page (demo_web_env_with secret) = Inr config"
proof -
  let ?env = "demo_web_env_with secret"
  have texts: "fld ?env ''XYGO_WEB_SESSION_IDLE_SEC'' = JStr ''600''" "fld ?env ''XYGO_WEB_SESSION_ABSOLUTE_SEC'' = JStr ''3600''"
    "fld ?env ''XYGO_WEB_AUTH_TRANSACTION_TTL_SEC'' = JStr ''300''" "fld ?env ''XYGO_WEB_TOKEN_REQUEST_TIMEOUT_MS'' = JStr ''5000''"
    "fld ?env ''XYGO_WEB_TOKEN_CLOCK_TOLERANCE_SEC'' = JStr ''0''" "fld ?env ''XYGO_WEB_TOKEN_RENEW_BEFORE_SEC'' = JStr ''60''"
    "fld ?env ''STAGED_MODE'' = JStr ''true''"
    by (simp_all add: demo_web_env_with_def demo_web_vars_def)
  have session: "\<exists>s. load_web_session demo_page ?env app = Inr s" for app
    using texts demo_settings
    by (auto simp: load_web_session_def web_setting_text demo_page_def split: jsval.split)
  obtain s where "load_web_session demo_page ?env (value_or ?env ''XYGO_WEB_APP_URL'' ''http://127.0.0.1:4173'') = Inr s"
    using session by blast
  moreover have "\<exists>b. web_productionMode ?env = Inr b"
  proof -
    have "web_stagedModeEnabled (JStr ''true'') = Inr True" by code_simp
    then show ?thesis using texts by (cases "js_lower (js_trim (js_string (coalesce (fld ?env ''NODE_ENV'') (JStr [])))) = ''production''") (auto simp: web_productionMode_def)
  qed
  ultimately show ?thesis
    by (cases "value_or ?env ''XYGO_AUTH_MODE'' ''staged'' = ''oidc''") (auto simp: loadWebRuntimeConfig_def Let_def)
qed

lemma public_config_tells_no_secret_witness:
  "\<exists>config1 config2. loadWebRuntimeConfig demo_page (demo_web_env_with ''a'') = Inr config1 \<and> loadWebRuntimeConfig demo_page (demo_web_env_with ''b'') = Inr config2
    \<and> publicWebRuntimeConfig config1 = publicWebRuntimeConfig config2"
proof -
  obtain config1 config2 where "loadWebRuntimeConfig demo_page (demo_web_env_with ''a'') = Inr config1" "loadWebRuntimeConfig demo_page (demo_web_env_with ''b'') = Inr config2"
    using demo_web_loads by blast
  with public_config_tells_no_secret [OF demo_public_same this] show ?thesis by blast
qed

section \<open>The session manager of a configuration\<close>

definition session_manager_config :: "web_runtime_config \<Rightarrow> web_config option" where
  "session_manager_config config = map_option (\<lambda>(w, s).
    \<lparr>wc_secret = js_string (sw_secret s), wc_cookieName = sw_cookieName s, wc_allowedOrigin = sw_allowedOrigin s,
     wc_idleTtlMs = sw_idleTtlMs s, wc_absoluteTtlMs = sw_absoluteTtlMs s, wc_transactionTtlMs = sw_transactionTtlMs s,
     wc_clockToleranceSec = sw_tokenClockToleranceSec s, wc_requireRefreshToken = sw_requireRefreshToken s,
     wc_authorizationEndpoint = js_string (ow_authorizationEndpoint w), wc_endSessionEndpoint = js_string (ow_endSessionEndpoint w),
     wc_clientId = js_string (ow_clientId w), wc_redirectUri = ow_redirectUri w, wc_scopes = ow_scopes w,
     wc_audience = js_string (ow_audience w), wc_postLogoutRedirectUri = ow_postLogoutRedirectUri w\<rparr>) (rw_oidc config)"

text \<open>A production configuration that passes the checks has a session manager with bounded, renewable sessions and a host-bound cookie.\<close>

lemma production_session_manager:
  assumes "loadWebRuntimeConfig parse env = Inr config" "assertWebRuntimeConfig parse config env = Inr config'" "rw_productionMode config"
  shows "\<exists>cfg. session_manager_config config' = Some cfg \<and> 32 \<le> length (wc_secret cfg) \<and> starts_with ''__Host-'' (wc_cookieName cfg)
    \<and> wc_idleTtlMs cfg < wc_absoluteTtlMs cfg \<and> wc_requireRefreshToken cfg"
proof -
  have mode: "rw_mode config = ''oidc''" using assms(2,3) by (simp add: assertWebRuntimeConfig_def guard_simps)
  then obtain w s where oidc: "rw_oidc config = Some (w, s)"
    using assms(1) by (auto simp: loadWebRuntimeConfig_def and_then_Inr Let_def split: if_splits)
  then have "config' = config" and "production_session parse config s = Inr ()"
    using assms(2,3) by (auto simp: assertWebRuntimeConfig_def guard_simps Let_def)
  then show ?thesis
    using oidc
    by (auto simp: session_manager_config_def production_session_def guard_simps long_secret_def split: option.splits jsval.splits)
qed

end
