(* ===== verification/WebRoutes.thy ===== *)
theory WebRoutes
  imports WebRuns WebConfig
begin

text \<open>
  The sign-in routes of the web server (apps/web/src/server.js): which handler a request reaches, which errors the
  server turns into an answer and which it does not. An operation that fails here is a rejected promise nobody
  handles, which ends the Node process. The files it serves are in theory \<open>WebStatic\<close>.
\<close>

section \<open>Routes\<close>

record web_request =
  wq_method :: string
  wq_path :: string
  wq_query :: query
  wq_headers :: jsval

text \<open>What a request meets: the two times, the draws, and the replies of the provider and of the API.\<close>

datatype upstream_reply = UpstreamFailed | UpstreamReply nat bool

record web_moment =
  wm_now :: int
  wm_replied :: int
  wm_draws :: login_draws
  wm_newId :: string
  wm_token :: token_reply
  wm_upstream :: upstream_reply

datatype web_answer = WebReply web_reply | EventStream string string | StaticFile

definition web_refusal :: "nat \<Rightarrow> string \<Rightarrow> (string \<times> jsval) list \<Rightarrow> web_answer" where
  "web_refusal status code headers = WebReply \<lparr>wr_status = status, wr_headers = headers, wr_body = JObj [(''code'', JStr code)]\<rparr>"

definition no_store :: "(string \<times> jsval) list" where
  "no_store = [(''cache-control'', JStr ''no-store'')]"

definition provider_failure :: "string \<Rightarrow> js_error \<Rightarrow> web_answer" where
  "provider_failure code e = WebReply \<lparr>wr_status = 502, wr_headers = no_store,
     wr_body = JObj [(''code'', JStr code), (''message'', JStr (err_message e))]\<rparr>"

definition answer_with :: "(auth_store, web_reply) act \<Rightarrow> (auth_store, web_answer) act" where
  "answer_with m = seq m (\<lambda>r. give (WebReply r))"

definition uncached :: "(auth_store, web_reply) act \<Rightarrow> (auth_store, web_answer) act" where
  "uncached m = seq m (\<lambda>r. give (WebReply (r\<lparr>wr_headers := no_store\<rparr>)))"

definition tenant_id_shape :: "string \<Rightarrow> bool" where
  "tenant_id_shape s = (s \<noteq> [] \<and> length s \<le> 128 \<and> list_all (\<lambda>c. path_char c \<and> c \<noteq> CHR ''/'') s)"

definition event_stream :: "web_env \<Rightarrow> web_config \<Rightarrow> web_moment \<Rightarrow> web_request \<Rightarrow> (auth_store, web_answer) act" where
  "event_stream env cfg m rq =
    (case wq_query rq ''tenantId'' of
       None \<Rightarrow> give (web_refusal 400 ''invalid_tenant_id'' [])
     | Some tenantId \<Rightarrow>
         if \<not> tenant_id_shape tenantId then give (web_refusal 400 ''invalid_tenant_id'' [])
         else seq (session_accessToken env cfg (wm_now m) (wq_headers rq)) (\<lambda>token.
           give (case token of
             None \<Rightarrow> web_refusal 401 ''authentication_required'' no_store
           | Some t \<Rightarrow>
               if t = [] then web_refusal 401 ''authentication_required'' no_store
               else (case wm_upstream m of
                  UpstreamFailed \<Rightarrow> web_refusal 502 ''event_stream_unavailable'' no_store
                | UpstreamReply status hasBody \<Rightarrow>
                    if 200 \<le> status \<and> status \<le> 299 \<and> hasBody then EventStream tenantId t
                    else web_refusal status ''event_stream_unavailable'' no_store))))"

definition auth_route :: "web_env \<Rightarrow> web_config \<Rightarrow> web_moment \<Rightarrow> web_request \<Rightarrow> (auth_store, web_answer) act" where
  "auth_route env cfg m rq =
    (let route = (wq_method rq, wq_path rq) in
     if route = (''GET'', ''/auth/login'')
     then answer_with (beginLogin env cfg (wm_now m) (wm_draws m) (option_default ''/control-room'' (wq_query rq ''returnTo'')))
     else if route = (''GET'', ''/auth/callback'')
     then attempt (answer_with (completeCallback env cfg (wm_now m) (wm_replied m) (wm_newId m) (wm_token m) (wq_query rq) (wq_headers rq)))
            (\<lambda>e. give (provider_failure ''oidc_callback_failed'' e))
     else if route = (''GET'', ''/auth/session'') then uncached (session env cfg (wm_now m) (wq_headers rq))
     else if route = (''POST'', ''/auth/session/renew'')
     then if \<not> checkOrigin cfg (wq_headers rq) then give (web_refusal 403 ''invalid_origin'' [])
          else attempt (uncached (renew env cfg (wm_now m) (wm_replied m) (wm_token m) (wq_headers rq)))
                 (\<lambda>e. give (provider_failure ''oidc_renewal_failed'' e))
     else if route = (''POST'', ''/auth/logout'')
     then if \<not> checkOrigin cfg (wq_headers rq) then give (web_refusal 403 ''invalid_origin'' [])
          else answer_with (logout env cfg (wq_headers rq))
     else if route = (''GET'', ''/auth/events/stream'') then event_stream env cfg m rq
     else give StaticFile)"

text \<open>The server has these routes only when it signs in through a provider; then it publishes its configuration.\<close>

definition web_server :: "web_env \<Rightarrow> web_runtime_config \<Rightarrow> web_moment \<Rightarrow> web_request \<Rightarrow> (auth_store, web_answer) act" where
  "web_server env config m rq =
    seq (case session_manager_config config of Some cfg \<Rightarrow> auth_route env cfg m rq | None \<Rightarrow> give StaticFile) (\<lambda>answer.
    give (if answer = StaticFile \<and> wq_method rq = ''GET'' \<and> wq_path rq = ''/runtime-config.json''
          then WebReply \<lparr>wr_status = 200, wr_headers = [(''content-type'', JStr ''application/json; charset=utf-8''), (''cache-control'', JStr ''no-store'')],
             wr_body = publicWebRuntimeConfig config\<rparr>
          else answer))"

section \<open>Every request is answered\<close>

definition ascii :: "string \<Rightarrow> bool" where
  "ascii s = list_all (\<lambda>c. (of_char c :: nat) < 128) s"

definition dates_ok :: "auth_store \<Rightarrow> bool" where
  "dates_ok rows = all_rows (\<lambda>_ row. time_clip (JsNumber.truncate (as_expiresAt (row_data row))) \<noteq> None \<or> \<not> is_user row) rows"

lemma cookie_read:
  assumes "\<And>i. ascii (we_hmac env secret i)" "\<And>v. cv = Some v \<Longrightarrow> ascii v"
  shows "\<exists>x. verifySigned env cv secret = Inr x"
proof (cases "isl (verifySigned env cv secret)")
  case True
  then obtain v where v: "cv = Some v" by (cases cv) (auto simp: verifySigned_def)
  then obtain i sg where bad: "last_split (CHR ''.'') v = Some (i, sg)" "length sg = length (we_hmac env secret i)"
      "utf8_size sg \<noteq> utf8_size (we_hmac env secret i)"
    using True cookie_check_throws by blast
  have "ascii sg" using assms(2) [OF v] last_split_Some [OF bad(1)] by (simp add: ascii_def)
  then show ?thesis using bad(2,3) assms(1) [of i] by (simp add: ascii_def utf8_ascii)
next
  case False
  then show ?thesis by (metis isl_def sum.exhaust_sel sum.collapse(2))
qed

lemma row_read:
  assumes "\<exists>x. verifySigned env (cookieValue headers name) (wc_secret cfg) = Inr x"
  shows "\<exists>rows' x. signed_row env cfg now name headers rows = (rows', Inr x)"
  using assms by (auto simp: signed_row_def seq_def session_get_def split: option.splits)

lemma session_read:
  assumes "\<exists>x. verifySigned env (cookieValue headers (wc_cookieName cfg)) (wc_secret cfg) = Inr x"
  shows "\<exists>rows' x. readSession env cfg now headers rows = (rows', Inr x)"
proof -
  obtain rows' x where "signed_row env cfg now (wc_cookieName cfg) headers rows = (rows', Inr x)" using row_read [OF assms] by blast
  then show ?thesis by (simp add: readSession_def seq_def)
qed

lemma session_answers:
  assumes "\<exists>x. verifySigned env (cookieValue headers (wc_cookieName cfg)) (wc_secret cfg) = Inr x" "dates_ok rows"
  shows "\<exists>rows' a. session env cfg now headers rows = (rows', Inr a)"
proof -
  obtain rows' x where r: "readSession env cfg now headers rows = (rows', Inr x)" using session_read [OF assms(1)] by blast
  show ?thesis
  proof (cases x)
    case (Some p)
    obtain i row where p: "p = (i, row)" by (cases p)
    have "is_user row" "map_of rows i = Some row" using readSession_Some r Some p by blast+
    then have "time_clip (JsNumber.truncate (as_expiresAt (row_data row))) \<noteq> None"
      using assms(2) by (auto simp: dates_ok_def all_rows_def dest: map_of_SomeD)
    then show ?thesis using r Some p by (auto simp: session_def seq_def session_set_def authenticated_def extended_def)
  qed (use r in \<open>auto simp: session_def seq_def\<close>)
qed



section \<open>Examples\<close>

text \<open>A keyed hash whose digests are ASCII without dots, as base64url is.\<close>

definition plain_hash_env :: web_env where
  "plain_hash_env = dotless_env\<lparr>we_hmac := (\<lambda>secret i. ''mac'')\<rparr>"

definition demo_web_request :: web_request where
  "demo_web_request = \<lparr>wq_method = ''GET'', wq_path = ''/auth/session'', wq_query = (\<lambda>_. None),
     wq_headers = JObj [(''cookie'', JStr ''__Host-s=s1.mac'')]\<rparr>"

definition demo_moment :: web_moment where
  "demo_moment = \<lparr>wm_now = 0, wm_replied = 0, wm_draws = demo_draws, wm_newId = ''n1'', wm_token = TokenReply 200 demo_token, wm_upstream = UpstreamFailed\<rparr>"

lemma demo_cookie_ascii: "cookieValue (wq_headers demo_web_request) name = Some v \<Longrightarrow> ascii v"
proof -
  assume "cookieValue (wq_headers demo_web_request) name = Some v"
  moreover have "js_trim ''__Host-s=s1.mac'' = ''__Host-s=s1.mac''" by code_simp
  ultimately have "v = ''s1.mac''" by (auto simp: cookieValue_def demo_web_request_def coalesce_def nullish_def split: if_splits)
  then show "ascii v" by (simp add: ascii_def)
qed



text \<open>
  The condition on the cookies is needed: one byte above 127 in a signature of the right length makes the
  comparison throw, and the request for the session, which needs no sign-in, ends in an error nobody handles.
\<close>

lemma cookie_ends_process:
  "auth_route plain_hash_env demo_web_config demo_moment
     (demo_web_request\<lparr>wq_headers := JObj [(''cookie'', JStr (''__Host-s=s1.ma'' @ [CHR 0xE9]))]\<rparr>) []
    = ([], Inl (JsError ''Input buffers must have the same byte length'' (Some ''ERR_CRYPTO_TIMING_SAFE_EQUAL_LENGTH'') None))"
  by code_simp

end
