(* ===== verification/WebStatic.thy ===== *)
theory WebStatic
  imports WebRoutes
begin

text \<open>
  The files the web server hands out (apps/web/src/server.js): the file a path names, its headers, and the cases in
  which the handler fails. The file system is a parameter; paths are absolute POSIX paths.
\<close>

section \<open>Paths\<close>

fun normal_steps :: "string list \<Rightarrow> string list \<Rightarrow> string list" where
  "normal_steps acc [] = rev acc"
| "normal_steps acc (s # ss) =
    (if s = [] \<or> s = ''.'' then normal_steps acc ss
     else if s = ''..'' then normal_steps (drop 1 acc) ss else normal_steps (s # acc) ss)"

text \<open>\<open>path.normalize\<close> of an absolute path, and \<open>path.join\<close> of an absolute directory and a relative path.\<close>

definition path_normalize :: "string \<Rightarrow> string" where
  "path_normalize p =
    (let segments = normal_steps [] (split CHR ''/'' p) in
     ''/'' @ join ''/'' segments @ (if segments \<noteq> [] \<and> ends_with ''/'' p then ''/'' else []))"

definition path_join :: "string \<Rightarrow> string \<Rightarrow> string" where
  "path_join a b = path_normalize (if b = [] then a else a @ ''/'' @ b)"

text \<open>\<open>path.extname\<close>: from the last dot of the last part, when the part does not begin there.\<close>

definition extname :: "string \<Rightarrow> string" where
  "extname p =
    (let file = basename p in
     case last_split (CHR ''.'') file of
       None \<Rightarrow> []
     | Some (stem, e) \<Rightarrow> if stem = [] \<or> file = ''..'' then [] else CHR ''.'' # e)"

section \<open>Files\<close>

datatype file_entry = DirectoryEntry | FileEntry string

type_synonym file_system = "string \<Rightarrow> file_entry option"

definition publicDir :: "string \<Rightarrow> string" where
  "publicDir appRoot = path_join appRoot ''public''"

definition srcDir :: "string \<Rightarrow> string" where
  "srcDir appRoot = path_join appRoot ''src''"

definition mime_types :: "(string \<times> string) list" where
  "mime_types =
    [(''.html'', ''text/html; charset=utf-8''), (''.css'', ''text/css; charset=utf-8''), (''.js'', ''application/javascript; charset=utf-8''),
     (''.json'', ''application/json; charset=utf-8''), (''.webmanifest'', ''application/manifest+json; charset=utf-8''),
     (''.txt'', ''text/plain; charset=utf-8''), (''.xml'', ''application/xml; charset=utf-8''), (''.png'', ''image/png''), (''.jpg'', ''image/jpeg''),
     (''.jpeg'', ''image/jpeg''), (''.webp'', ''image/webp''), (''.svg'', ''image/svg+xml'')]"

definition resolveFile :: "file_system \<Rightarrow> string \<Rightarrow> string \<Rightarrow> string" where
  "resolveFile fs appRoot urlPath =
    (if urlPath = ''/'' \<or> urlPath = [] then path_join (publicDir appRoot) ''index.html''
     else if starts_with ''/src/'' urlPath then path_join (srcDir appRoot) (drop (length ''/src/'') urlPath)
     else let publicPath = path_join (publicDir appRoot) (dropWhile (\<lambda>c. c = CHR ''/'') urlPath) in
       if extname publicPath = [] \<and> fs (publicPath @ ''.html'') \<noteq> None then publicPath @ ''.html'' else publicPath)"

record static_reply =
  st_status :: nat
  st_file :: string
  st_headers :: "(string \<times> string) list"
  st_body :: string

text \<open>Reading a directory, or a file that is not there, throws inside the request handler, which nothing catches.\<close>

definition read_file :: "file_system \<Rightarrow> string \<Rightarrow> string res" where
  "read_file fs file =
    (case fs file of
       Some (FileEntry content) \<Rightarrow> Inr content
     | Some DirectoryEntry \<Rightarrow> Inl (JsError ''EISDIR: illegal operation on a directory, read'' (Some ''EISDIR'') None)
     | None \<Rightarrow> Inl (JsError (''ENOENT: no such file or directory, open '' @ quote file) (Some ''ENOENT'') None))"

definition static_headers :: "string \<Rightarrow> string \<Rightarrow> (string \<times> string) list" where
  "static_headers urlPath file =
    (let ext = extname file in
     [(''content-type'', option_default ''application/octet-stream'' (map_of mime_types ext)),
      (''cache-control'', if starts_with ''/auth/'' urlPath \<or> urlPath = ''/runtime-config.json'' then ''no-store''
         else if ext \<in> set [''.html'', ''.js'', ''.css'', ''.webmanifest''] then ''no-cache'' else ''public, max-age=86400'')])"

definition serve_static :: "file_system \<Rightarrow> string \<Rightarrow> string \<Rightarrow> static_reply res" where
  "serve_static fs appRoot urlPath =
    (let file = resolveFile fs appRoot urlPath in
     if \<not> (starts_with (publicDir appRoot) file \<or> starts_with (srcDir appRoot) file) \<or> fs file = None
     then let missing = path_join (publicDir appRoot) ''404.html'' in
       and_then (read_file fs missing) (\<lambda>content.
         Inr \<lparr>st_status = 404, st_file = missing, st_headers = [(''content-type'', ''text/html; charset=utf-8'')], st_body = content\<rparr>)
     else and_then (read_file fs file) (\<lambda>content.
         Inr \<lparr>st_status = 200, st_file = file, st_headers = static_headers urlPath file, st_body = content\<rparr>))"

section \<open>Nothing outside the two directories is handed out\<close>

definition segment_ok :: "string \<Rightarrow> bool" where
  "segment_ok s = (s \<noteq> [] \<and> s \<noteq> ''.'' \<and> s \<noteq> ''..'' \<and> CHR ''/'' \<notin> set s)"

text \<open>A normal absolute path of a directory below the root, and a file at or below a directory.\<close>

definition clean_dir :: "string \<Rightarrow> bool" where
  "clean_dir d = (case split CHR ''/'' d of [] # ds \<Rightarrow> ds \<noteq> [] \<and> list_all segment_ok ds | _ \<Rightarrow> False)"

definition beneath :: "string \<Rightarrow> string \<Rightarrow> bool" where
  "beneath d file = (file = d \<or> starts_with (d @ ''/'') file)"

lemma split_glue: "split c (a @ c # b) = split c a @ split c b"
  by (induction a) (auto split: list.splits)

lemma steps_up:
  assumes "''..'' \<notin> set ss"
  shows "normal_steps acc ss = rev acc @ filter (\<lambda>s. s \<noteq> [] \<and> s \<noteq> ''.'') ss"
  using assms by (induction ss arbitrary: acc) auto

lemma join_Cons: "join sep (x # xs) = (if xs = [] then x else x @ sep @ join sep xs)"
  by (cases xs) simp_all

lemma join_append: "ys \<noteq> [] \<Longrightarrow> join sep (xs @ ys) = (if xs = [] then join sep ys else join sep xs @ sep @ join sep ys)"
  by (induction xs) (auto simp: join_Cons)

lemma clean_dir_segments:
  assumes "clean_dir d"
  obtains ds where "split CHR ''/'' d = [] # ds" "ds \<noteq> []" "list_all segment_ok ds" "d = ''/'' @ join ''/'' ds"
proof -
  obtain ds where ds: "split CHR ''/'' d = [] # ds" "ds \<noteq> []" "list_all segment_ok ds"
    using assms by (auto simp: clean_dir_def split: list.splits)
  then have "d = ''/'' @ join ''/'' ds" using join_split [of "CHR ''/''" d] by (simp add: join_Cons)
  then show thesis using ds that by blast
qed

lemma segments_kept: "list_all segment_ok ds \<Longrightarrow> filter (\<lambda>s. s \<noteq> [] \<and> s \<noteq> ''.'') ds = ds \<and> ''..'' \<notin> set ds"
  by (induction ds) (auto simp: segment_ok_def)

lemma join_beneath:
  assumes "clean_dir d" "''..'' \<notin> set (split CHR ''/'' b)"
  shows "beneath d (path_join d b)"
proof -
  obtain ds where ds: "split CHR ''/'' d = [] # ds" "ds \<noteq> []" "list_all segment_ok ds" "d = ''/'' @ join ''/'' ds"
    using clean_dir_segments [OF assms(1)] .
  define rest where "rest = (if b = [] then [] else filter (\<lambda>s. s \<noteq> [] \<and> s \<noteq> ''.'') (split CHR ''/'' b))"
  have "normal_steps [] (split CHR ''/'' (if b = [] then d else d @ ''/'' @ b)) = ds @ rest"
    using assms(2) segments_kept [OF ds(3)] steps_up [of "ds @ (if b = [] then [] else split CHR ''/'' b)" "[]"]
    by (cases "b = []") (simp_all add: split_glue ds(1) rest_def)
  moreover define p where "p = (if b = [] then d else d @ ''/'' @ b)"
  moreover define tr where "tr = (if ds @ rest \<noteq> [] \<and> ends_with ''/'' p then ''/'' else [])"
  ultimately have "path_join d b = ''/'' @ join ''/'' (ds @ rest) @ tr" by (simp add: path_join_def path_normalize_def Let_def)
  then show ?thesis
    using ds(2) by (cases "rest = []"; cases "ends_with ''/'' p") (auto simp: ds(4) beneath_def starts_with_def join_append tr_def)
qed

lemma join_clean:
  assumes "clean_dir d" "segment_ok s"
  shows "path_join d s = d @ ''/'' @ s \<and> clean_dir (path_join d s)"
proof -
  obtain ds where ds: "split CHR ''/'' d = [] # ds" "ds \<noteq> []" "list_all segment_ok ds" "d = ''/'' @ join ''/'' ds"
    using clean_dir_segments [OF assms(1)] .
  have one: "split CHR ''/'' s = [s]" using assms(2) by (simp add: segment_ok_def split_no_sep)
  have steps: "normal_steps [] (split CHR ''/'' (d @ ''/'' @ s)) = ds @ [s]"
    using segments_kept [OF ds(3)] assms(2) steps_up [of "ds @ [s]" "[]"] by (auto simp: split_glue ds(1) one segment_ok_def)
  have "last s \<noteq> CHR ''/''" using assms(2) by (metis last_in_set segment_ok_def)
  have "\<not> ends_with ''/'' (d @ ''/'' @ s)"
  proof
    assume "ends_with ''/'' (d @ ''/'' @ s)"
    then obtain t where "d @ ''/'' @ s = t @ ''/''" unfolding ends_with_def by (metis append_take_drop_id)
    then have "last (d @ ''/'' @ s) = CHR ''/''" by (metis last_snoc)
    then show False using assms(2) \<open>last s \<noteq> CHR ''/''\<close> by (simp add: segment_ok_def)
  qed
  moreover have "join ''/'' (ds @ [s]) = join ''/'' ds @ ''/'' @ s" using ds(2) by (simp add: join_append)
  ultimately have "path_normalize (d @ ''/'' @ s) = ''/'' @ join ''/'' ds @ ''/'' @ s"
    unfolding path_normalize_def Let_def steps by simp
  moreover have "s \<noteq> []" using assms(2) by (simp add: segment_ok_def)
  ultimately have "path_join d s = d @ ''/'' @ s" unfolding path_join_def using ds(4) by simp
  then show ?thesis using ds assms(2) by (simp add: clean_dir_def split_glue one)
qed

lemma web_dirs:
  assumes "clean_dir appRoot"
  shows "clean_dir (publicDir appRoot)" "clean_dir (srcDir appRoot)"
proof -
  have "segment_ok ''public''" "segment_ok ''src''" by code_simp+
  then show "clean_dir (publicDir appRoot)" "clean_dir (srcDir appRoot)"
    using join_clean [OF assms] unfolding publicDir_def srcDir_def by blast+
qed

lemma split_drop_slashes: "set (split c (dropWhile (\<lambda>x. x = c) s)) \<subseteq> set (split c s)"
  by (induction s) auto

lemma resolved_beneath:
  assumes "clean_dir appRoot" "''..'' \<notin> set (split CHR ''/'' urlPath)"
  shows "beneath (publicDir appRoot) (resolveFile fs appRoot urlPath) \<or> beneath (srcDir appRoot) (resolveFile fs appRoot urlPath)
    \<or> resolveFile fs appRoot urlPath = publicDir appRoot @ ''.html''"
proof -
  have index: "''..'' \<notin> set (split CHR ''/'' ''index.html'')" by code_simp
  have src: "''..'' \<notin> set (split CHR ''/'' (drop (length ''/src/'') urlPath))" if "starts_with ''/src/'' urlPath"
  proof -
    have "urlPath = ''/src'' @ ''/'' @ drop (length ''/src/'') urlPath"
      using that append_take_drop_id [of "length ''/src/''" urlPath] by (auto simp: starts_with_def)
    then show ?thesis using assms(2) split_glue [of "CHR ''/''" "''/src''" "drop (length ''/src/'') urlPath"] by auto
  qed
  have page: "''..'' \<notin> set (split CHR ''/'' (dropWhile (\<lambda>c. c = CHR ''/'') urlPath))"
    using assms(2) split_drop_slashes [of "CHR ''/''" urlPath] by blast
  have html: "beneath d (p @ ''.html'') \<or> p @ ''.html'' = d @ ''.html''" if "beneath d p" for d p
    using that by (auto simp: beneath_def starts_with_iff)
  show ?thesis
    unfolding resolveFile_def Let_def
    using join_beneath [OF web_dirs(1) [OF assms(1)] index] join_beneath [OF web_dirs(2) [OF assms(1)] src]
      join_beneath [OF web_dirs(1) [OF assms(1)] page] html
    by auto
qed


definition demo_files :: file_system where
  "demo_files file =
    (if file = ''/app/public/about.html'' then Some (FileEntry ''about'')
     else if file \<in> {''/app/public'', ''/app/src''} then Some DirectoryEntry else None)"


text \<open>A request for a directory ends the process: reading it throws after the head of the answer is written.\<close>

lemma directory_ends_process: "serve_static demo_files ''/app'' ''/src/'' = Inl (JsError ''EISDIR: illegal operation on a directory, read'' (Some ''EISDIR'') None)"
proof -
  have "resolveFile demo_files ''/app'' ''/src/'' = ''/app/src''" "srcDir ''/app'' = ''/app/src''" by code_simp+
  then show ?thesis by (simp add: serve_static_def Let_def starts_with_def demo_files_def read_file_def and_then_def)
qed

end
