(* ===== verification/ProductionDemo.thy ===== *)
theory ProductionDemo
  imports ProductionConfig
begin

text \<open>
  A concrete production environment of the worker and the API that passes their start-up gates: it shows that the conditions
  of the gate can be met together, and what every check of the gate reads of it.
\<close>

declare all_checks.simps(2) [simp del]

lemma all_checks_Inr [guard_simps]: "all_checks cs = Inr () \<longleftrightarrow> (\<forall>c \<in> set cs. c = Inr ())"
  by (induction cs) (auto simp: all_checks.simps(2) split: sum.splits)

lemma require_Inr [guard_simps]: "require ok service message = Inr () \<longleftrightarrow> ok"
  by (simp add: require_def)

section \<open>Texts that are used as they are\<close>

definition plain_text :: "string \<Rightarrow> bool" where
  "plain_text v = (v \<noteq> [] \<and> \<not> js_ws (hd v) \<and> \<not> js_ws (last v) \<and> hd v \<noteq> CHR ''<''
     \<and> take 3 (js_lower v) \<notin> set (map (take 3) (''your'' # placeholder_words)))"

lemma starts_take: "starts_with w s \<Longrightarrow> n \<le> length w \<Longrightarrow> take n s = take n w"
  by (metis min.absorb1 starts_with_def take_take)

lemma word_start_take:
  assumes "starts_with w (js_lower v)" "w \<in> set (''your'' # placeholder_words)"
  shows "take 3 (js_lower v) \<in> set (map (take 3) (''your'' # placeholder_words))"
proof -
  have "\<forall>w \<in> set (''your'' # placeholder_words). 3 \<le> length w" by (simp add: placeholder_words_def)
  then have "take 3 (js_lower v) = take 3 w" using assms starts_take by blast
  then show ?thesis using assms(2) by (metis image_eqI set_map)
qed

lemma plain_trim:
  assumes "plain_text v"
  shows "js_trim v = v"
proof -
  have kept: "dropWhile js_ws s = s" if "s \<noteq> []" "\<not> js_ws (hd s)" for s using that by (cases s) simp_all
  have "dropWhile js_ws v = v" "dropWhile js_ws (rev v) = rev v"
    using assms kept [of v] kept [of "rev v"] by (simp_all add: plain_text_def hd_rev)
  then show ?thesis by (simp add: js_trim_def)
qed

lemma plain_placeholder: "plain_text v \<Longrightarrow> \<not> isPlaceholder v"
  using word_start_take [of _ v] by (auto simp: plain_text_def isPlaceholder_def list_ex_iff starts_with_def neq_Nil_conv)

lemma plain_normal: "fld env k = JStr v \<Longrightarrow> plain_text v \<Longrightarrow> normal_value env k = JStr v"
  by (simp add: normal_value_def normalizedString_def nonblank_def plain_trim js_string.simps) (simp add: plain_text_def)

lemma plain_value: "plain_text v \<Longrightarrow> \<not> isPlaceholderValue (JStr v)"
  using plain_placeholder word_start_take [of "''your''" v]
  by (auto simp: isPlaceholderValue_def normalizedString_def nonblank_def plain_trim word_start_def plain_text_def)

section \<open>An environment\<close>

definition production_vars :: "(string \<times> string) list" where
  "production_vars =
    [(''NODE_ENV'', ''production''), (''STAGED_MODE'', ''false''), (''XYGO_DEPLOY_ENVIRONMENT'', ''production''),
     (''XYGO_RELEASE'', ''r1''), (''XYGO_AUTH_MODE'', ''oidc''), (''XYGO_API_REPOSITORY_MODE'', ''postgres''),
     (''XYGO_API_PG_URL'', ''postgres://db''), (''XYGO_PG_POOL_MAX'', ''5''), (''XYGO_PG_IDLE_TIMEOUT_MS'', ''5000''),
     (''XYGO_PG_CONNECTION_TIMEOUT_MS'', ''5000''), (''XYGO_OIDC_PROVIDER'', ''auth0''),
     (''XYGO_OIDC_ISSUER'', ''https://idp''), (''XYGO_OIDC_AUDIENCE'', ''api''),
     (''XYGO_OIDC_JWKS_URI'', ''https://idp/keys''), (''XYGO_OIDC_ALLOWED_ALGORITHMS'', ''RS256''),
     (''XYGO_OIDC_CLOCK_TOLERANCE_SEC'', ''30''), (''XYGO_AUDIT_SIGNING_KEY'', ''kkkkkkkkkkkkkkkkkkkkkkkkkkkkkkkk''),
     (''XYGO_WEB_APP_URL'', ''https://app''), (''XYGO_WEB_API_BASE_URL'', ''https://api''),
     (''XYGO_EMAIL_TRANSPORT'', ''resend''), (''XYGO_EMAIL_FROM'', ''a@acme.io''), (''XYGO_EMAIL_REPLY_TO'', ''a@acme.io''),
     (''XYGO_EMAIL_RESEND_API_URL'', ''https://api.resend.com''), (''XYGO_EMAIL_RESEND_API_KEY'', ''re_kkkkkkkkkkkkk''),
     (''XYGO_EMAIL_WEBHOOK_SECRET'', ''whsec_kkkkkkkkkkkkkkkkkk''), (''XYGO_EMAIL_REQUEST_TIMEOUT_MS'', ''5000''),
     (''XYGO_STORAGE_DRIVER'', ''s3''), (''XYGO_STORAGE_BUCKET'', ''acme-files''), (''XYGO_STORAGE_REGION'', ''eu-1''),
     (''XYGO_STORAGE_ENDPOINT'', ''https://s3''), (''XYGO_STORAGE_ACCESS_KEY_ID'', ''AAAAAAAA''),
     (''XYGO_STORAGE_SECRET_ACCESS_KEY'', ''ssssssssssssssss''), (''XYGO_STORAGE_FORCE_PATH_STYLE'', ''true''),
     (''XYGO_STORAGE_PUBLIC_ACCESS'', ''blocked''), (''XYGO_STORAGE_SERVER_SIDE_ENCRYPTION'', ''AES256''),
     (''XYGO_STORAGE_MAX_FILE_BYTES'', ''2048''), (''XYGO_STORAGE_ALLOWED_MIME_TYPES'', ''text/plain''),
     (''XYGO_STORAGE_SIGNED_URL_TTL_SEC'', ''60''), (''XYGO_STORAGE_RETENTION_DAYS'', ''30''),
     (''XYGO_OUTBOX_BACKEND'', ''postgres''), (''XYGO_MONITORING_ENABLED'', ''true''),
     (''XYGO_MONITORING_OTLP_ENDPOINT'', ''https://otlp''), (''XYGO_MONITORING_AUTH_TOKEN'', ''tttttttttttttttt''),
     (''XYGO_ALERT_OUTBOX_BACKLOG_MAX'', ''100''), (''XYGO_ALERT_OUTBOX_OLDEST_PENDING_SEC'', ''60''),
     (''XYGO_ALERT_EMAIL_FAILED_MAX'', ''0''), (''XYGO_ALERT_EMAIL_STALE_SEC'', ''60''),
     (''XYGO_ALERT_DATABASE_LATENCY_MS'', ''500''), (''XYGO_ALERT_WORKER_HEARTBEAT_SEC'', ''60''),
     (''XYGO_WORKER_INTERVAL_MS'', ''1000''), (''XYGO_WORKER_MAX_ATTEMPTS'', ''5''),
     (''XYGO_WORKER_BASE_BACKOFF_MS'', ''1000''), (''XYGO_WORKER_MAX_BACKOFF_MS'', ''60000''),
     (''XYGO_WORKER_CONCURRENCY'', ''4''), (''XYGO_WORKER_STALE_AFTER_MS'', ''60000''),
     (''XYGO_WORKER_SHUTDOWN_TIMEOUT_MS'', ''5000''), (''XYGO_WORKER_MAX_DEAD_JOBS'', ''0'')]"

definition production_env :: jsval where
  "production_env = JObj (map (\<lambda>(k, v). (k, JStr v)) production_vars)"

definition production_parse :: url_parser where
  "production_parse s = Some \<lparr>u_protocol = if starts_with ''postgres'' s then ''postgres:'' else ''https:'', u_username = [], u_password = [], u_hash = [],
     u_href = s, u_hostname = ''acme.io'', u_search = [], u_origin = s, u_pathname = ''/'', u_sslmode = JStr ''require''\<rparr>"

lemma production_distinct: "distinct (map fst production_vars)"
  by code_simp

lemma production_plain: "list_all (\<lambda>(k, v). plain_text v) production_vars"
  by code_simp

lemma production_value:
  assumes "(k, v) \<in> set production_vars"
  shows "fld production_env k = JStr v \<and> normal_value production_env k = JStr v \<and> \<not> isPlaceholderValue (fld production_env k)"
proof -
  have "fld production_env k = JStr v"
    using map_of_map [of JStr production_vars] map_of_is_SomeI [OF production_distinct assms] unfolding production_env_def fld.simps by simp
  moreover have "plain_text v" using assms production_plain by (auto simp: list_all_iff)
  ultimately show ?thesis by (simp add: plain_normal plain_value)
qed

lemma production_values: "list_all (\<lambda>(k, v). normal_value production_env k = JStr v) production_vars"
  using production_value by (auto simp: list_all_iff)

text \<open>What the checks read.\<close>

lemma integer_withinI:
  assumes "raw \<noteq> []" "list_all is_digit raw" "minimum b \<le> decimal_value raw" "decimal_value raw \<le> maximum b" "maximum b \<le> 9007199254740991"
  shows "integer_within b raw"
proof -
  have "0 \<le> decimal_value raw" "decimal_value raw \<le> 9007199254740991" using assms decimal_value_nonneg by auto
  moreover have "number_of_string raw = JNum (of_int (decimal_value raw))"
    using number_of_digits [OF assms(1,2)] calculation by (simp add: finite_double_code)
  ultimately show ?thesis using assms by (simp add: integer_within_def Let_def num_less_def is_safe_integer_def is_integer_def)
qed

lemma integer_checked:
  assumes "(k, raw) \<in> set production_vars"
    and "raw \<noteq> [] \<and> list_all is_digit raw \<and> minimum b \<le> decimal_value raw \<and> decimal_value raw \<le> maximum b \<and> maximum b \<le> 9007199254740991"
  shows "requireInteger production_env k service b = Inr ()"
  using assms production_value integer_withinI by (simp add: requireInteger_def require_Inr)

definition production_integers :: "(string \<times> bounds) list \<Rightarrow> bool" where
  "production_integers limits =
    list_all (\<lambda>(k, b). case map_of production_vars k of None \<Rightarrow> False
      | Some raw \<Rightarrow> raw \<noteq> [] \<and> list_all is_digit raw \<and> minimum b \<le> decimal_value raw \<and> decimal_value raw \<le> maximum b
          \<and> maximum b \<le> 9007199254740991) limits"

lemma integers_checked:
  assumes "production_integers limits" "(k, b) \<in> set limits"
  shows "requireInteger production_env k service b = Inr ()"
proof -
  obtain raw where "map_of production_vars k = Some raw"
    and "raw \<noteq> [] \<and> list_all is_digit raw \<and> minimum b \<le> decimal_value raw \<and> decimal_value raw \<le> maximum b \<and> maximum b \<le> 9007199254740991"
    using assms by (fastforce simp: production_integers_def list_all_iff split: option.splits)
  then show ?thesis using integer_checked map_of_SomeD by metis
qed

lemma production_limits:
  "production_integers worker_numeric_limits" "production_integers monitoring_numeric_limits" "production_integers postgres_pool_environment"
  "production_integers [(''XYGO_EMAIL_REQUEST_TIMEOUT_MS'', \<lparr>minimum = 1000, maximum = 30000\<rparr>),
     (''XYGO_OIDC_CLOCK_TOLERANCE_SEC'', \<lparr>minimum = 0, maximum = 300\<rparr>)]"
  by code_simp+

lemma production_names:
  "list_all (\<lambda>k. k \<in> set (map fst production_vars)) api_required_env_vars"
  "list_all (\<lambda>k. k \<in> set (map fst production_vars)) worker_required_env_vars"
  by code_simp+

lemma values_checked:
  assumes "list_all (\<lambda>k. k \<in> set (map fst production_vars)) names"
  shows "requireValues production_env names service = Inr ()"
proof -
  have "truthy (normal_value production_env k) \<and> \<not> isPlaceholderValue (fld production_env k)" if k: "k \<in> set names" for k
  proof -
    obtain v where v: "(k, v) \<in> set production_vars" using assms k by (fastforce simp: list_all_iff)
    then have "v \<noteq> []" using production_plain by (fastforce simp: list_all_iff plain_text_def)
    then show ?thesis using production_value [OF v] by (elim conjE) simp
  qed
  then have "filter (\<lambda>k. \<not> truthy (normal_value production_env k)) names = []" "filter (\<lambda>k. isPlaceholderValue (fld production_env k)) names = []"
    by (simp_all add: filter_empty_conv)
  then show ?thesis by (simp only: requireValues_def Let_def) (simp add: all_checks_Inr require_Inr)
qed

lemma production_fields: "list_all (\<lambda>(k, v). fld production_env k = JStr v) production_vars"
  using production_value by (auto simp: list_all_iff)

lemmas production_texts = production_values [unfolded production_vars_def list.pred_inject prod.case]
  production_fields [unfolded production_vars_def list.pred_inject prod.case]

lemma storage_setting:
  assumes "raw \<noteq> []" "list_all is_digit raw" "lo \<le> decimal_value raw" "decimal_value raw \<le> hi" "hi \<le> 9007199254740991"
  shows "storage_integerSetting (JStr raw) label d lo hi = Inr (decimal_value raw)"
proof -
  have "raw_setting (JStr raw) x = raw" for x using assms(1) by (simp add: raw_setting_def)
  moreover have "integer_within \<lparr>minimum = lo, maximum = hi\<rparr> raw" using assms by (intro integer_withinI) simp_all
  ultimately show ?thesis by (simp add: storage_integerSetting_def integer_within_def Let_def guard_simps)
qed

lemma storage_settings:
  "storage_integerSetting (JStr ''2048'') label d 1024 262144000 = Inr 2048"
  "storage_integerSetting (JStr ''60'') label d 60 900 = Inr 60"
  "storage_integerSetting (JStr ''30'') label d 1 3650 = Inr 30"
proof -
  have v: "decimal_value ''2048'' = 2048" "decimal_value ''60'' = 60" "decimal_value ''30'' = 30"
    "is_digit CHR ''0''" "is_digit CHR ''2''" "is_digit CHR ''3''" "is_digit CHR ''4''" "is_digit CHR ''6''" "is_digit CHR ''8''" by code_simp+
  show "storage_integerSetting (JStr ''2048'') label d 1024 262144000 = Inr 2048"
    "storage_integerSetting (JStr ''60'') label d 60 900 = Inr 60" "storage_integerSetting (JStr ''30'') label d 1 3650 = Inr 30"
    by (subst storage_setting; simp add: v)+
qed

lemma production_trims:
  "js_lower (js_trim ''s3'') = ''s3''" "js_trim ''acme-files'' = ''acme-files''" "js_trim ''eu-1'' = ''eu-1''" "js_trim ''https://s3'' = ''https://s3''"
  "js_trim ''AAAAAAAA'' = ''AAAAAAAA''" "js_trim ''ssssssssssssssss'' = ''ssssssssssssssss''" "js_trim ''blocked'' = ''blocked''"
  "js_trim ''AES256'' = ''AES256''" "allowedMimeTypes (JStr ''text/plain'') = Inr [''text/plain'']" "bucket_shape ''acme-files''"
  "region_shape ''eu-1''" "\<not> weak_credential 8 ''AAAAAAAA''" "\<not> weak_credential 16 ''ssssssssssssssss''" "\<not> reserved_host (js_lower ''acme.io'')"
  "starts_with ''postgres'' ''https://s3'' = False"
  by code_simp+

lemma storage_checked: "\<exists>c. storageConfigurationFromEnvironment resolve (plain_parser production_parse) production_env = Inr c"
  by (simp add: storageConfigurationFromEnvironment_def Let_def production_texts production_trims storage_settings coalesce_def nullish_def
      trimmedString_def nonblank_def booleanSetting_def raw_setting_def guard_simps assertS3Configuration_def plain_parser_def production_parse_def full_url.truncate_def)

section \<open>The gate lets it pass\<close>

lemma production_words:
  "validEmailAddress ''a@acme.io''" "bracketed ''a@acme.io'' = None" "after_at ''a@acme.io'' = ''acme.io''" "\<not> reserved_hostname ''acme.io''"
  "starts_with ''postgres'' ''postgres://db''" "starts_with ''postgres'' ''api'' = False" "starts_with ''postgres'' ''https://otlp'' = False"
  "starts_with ''postgres'' ''https://idp'' = False" "starts_with ''postgres'' ''https://idp/keys'' = False"
  "starts_with ''postgres'' ''https://app'' = False" "starts_with ''postgres'' ''https://api'' = False"
  "key_format ''re_'' ''_-'' 12 (JStr ''re_kkkkkkkkkkkkk'')" "key_format ''whsec_'' ''+/=_-'' 16 (JStr ''whsec_kkkkkkkkkkkkkkkkkk'')"
  "js_lower ''production'' = ''production''"
  by code_simp+

lemma production_secrets:
  assumes "(case map_of production_vars k of Some v \<Rightarrow> n \<le> length v | None \<Rightarrow> False)"
  shows "requireSecret production_env k service n = Inr ()"
proof -
  obtain v where v: "(k, v) \<in> set production_vars" "n \<le> length v" using assms by (auto split: option.splits dest: map_of_SomeD)
  show ?thesis using production_value [OF v(1)] v(2) by (elim conjE) (simp add: requireSecret_def require_Inr)
qed

lemma production_urls:
  assumes "(case map_of production_vars k of Some v \<Rightarrow> \<not> starts_with ''postgres'' v | None \<Rightarrow> False)"
  shows "requireHttpsUrl production_parse production_env k service allowQuery = Inr ()"
proof -
  obtain v where v: "(k, v) \<in> set production_vars" "\<not> starts_with ''postgres'' v" using assms by (auto split: option.splits dest: map_of_SomeD)
  show ?thesis using production_value [OF v(1)] v(2)
    by (simp add: requireHttpsUrl_def production_parse_def all_checks_Inr require_Inr requireProductionHostname_def production_words)
qed

lemma is_production: "isProductionEnvironment production_env"
  by (simp add: isProductionEnvironment_def production_texts)

lemma baseline_checked:
  assumes "list_all (\<lambda>k. k \<in> set (map fst production_vars)) names"
  shows "\<forall>c \<in> set (baseline_checks production_env names service). c = Inr ()"
  using values_checked [OF assms] by (simp add: baseline_checks_def requireExact_def require_Inr production_texts one_of_def)

lemma backend_checked: "\<forall>c \<in> set (backend_checks production_parse production_env service). c = Inr ()"
proof -
  have "requirePostgresUrl production_parse production_env service ''XYGO_API_PG_URL'' = Inr ()"
    by (simp add: requirePostgresUrl_def production_texts production_parse_def production_words all_checks_Inr require_Inr
        requireProductionHostname_def one_of_def secure_postgres_ssl_modes_def)
  moreover have "requireEmail production_env service = Inr ()"
    by (simp add: requireEmail_def production_texts text_of_def require_address_def production_words option_default_def all_checks_Inr require_Inr
        requireProductionHostname_def)
  moreover have "requireInteger production_env ''XYGO_EMAIL_REQUEST_TIMEOUT_MS'' service \<lparr>minimum = 1000, maximum = 30000\<rparr> = Inr ()"
    using production_limits(4) by (rule integers_checked) simp
  moreover have "requireSecret production_env ''XYGO_AUDIT_SIGNING_KEY'' service 32 = Inr ()"
    "requireSecret production_env ''XYGO_EMAIL_RESEND_API_KEY'' service 16 = Inr ()"
    "requireSecret production_env ''XYGO_EMAIL_WEBHOOK_SECRET'' service 24 = Inr ()"
    "requireSecret production_env ''XYGO_MONITORING_AUTH_TOKEN'' service 16 = Inr ()"
    by (rule production_secrets, code_simp)+
  moreover have "requireHttpsUrl production_parse production_env ''XYGO_MONITORING_OTLP_ENDPOINT'' service False = Inr ()"
    by (rule production_urls, code_simp)
  ultimately show ?thesis
    using storage_checked [of id] integers_checked [OF production_limits(2)] integers_checked [OF production_limits(3)]
    by (auto simp: backend_checks_def requireExact_def require_Inr production_texts production_words)
qed

lemma worker_passes: "assertProductionWorkerEnvironment production_parse production_env = Inr ()"
proof -
  have "requireHttpsUrl production_parse production_env ''XYGO_WEB_APP_URL'' ''worker'' False = Inr ()"
    by (rule production_urls, code_simp)
  moreover have "\<not> num_less (js_number (fld production_env ''XYGO_WORKER_MAX_BACKOFF_MS'')) (js_number (fld production_env ''XYGO_WORKER_BASE_BACKOFF_MS''))"
    unfolding production_texts by code_simp
  ultimately show ?thesis
    using baseline_checked [OF production_names(2)] backend_checked integers_checked [OF production_limits(1)]
    by (auto simp: assertProductionWorkerEnvironment_def in_production_def is_production all_checks_Inr require_Inr)
qed

lemma api_passes: "assertProductionApiEnvironment production_parse production_env = Inr ()"
proof -
  have "requireHttpsUrl production_parse production_env ''XYGO_OIDC_ISSUER'' ''API'' False = Inr ()"
    "requireHttpsUrl production_parse production_env ''XYGO_OIDC_JWKS_URI'' ''API'' True = Inr ()"
    "requireHttpsUrl production_parse production_env ''XYGO_WEB_APP_URL'' ''API'' False = Inr ()"
    "requireHttpsUrl production_parse production_env ''XYGO_WEB_API_BASE_URL'' ''API'' False = Inr ()"
    by (rule production_urls, code_simp)+
  moreover have "requireInteger production_env ''XYGO_OIDC_CLOCK_TOLERANCE_SEC'' ''API'' \<lparr>minimum = 0, maximum = 300\<rparr> = Inr ()"
    using production_limits(4) by (rule integers_checked) simp
  moreover have "rejectReservedUrlAudience production_parse production_env ''API'' = Inr ()"
    by (simp add: rejectReservedUrlAudience_def production_texts production_parse_def production_words requireProductionHostname_def require_Inr)
  moreover have "normal_value production_env ''XYGO_PG_SEED_SYNTHETIC_DATA'' \<noteq> JStr ''true''"
  proof -
    have "map_of production_vars ''XYGO_PG_SEED_SYNTHETIC_DATA'' = None" by code_simp
    then have "fld production_env ''XYGO_PG_SEED_SYNTHETIC_DATA'' = JUndef"
      using map_of_map [of JStr production_vars] unfolding production_env_def fld.simps by simp
    then show ?thesis by (simp add: normal_value_def normalizedString_def nonblank_def)
  qed
  ultimately show ?thesis
    using baseline_checked [OF production_names(1)] backend_checked
    by (auto simp: assertProductionApiEnvironment_def in_production_def is_production all_checks_Inr require_Inr requireExact_def production_texts)
qed

end
