(* ===== verification/ProductionGate.thy ===== *)
theory ProductionGate
  imports ProductionDemo
begin

text \<open>
  What an environment that passes the start-up gate gives the services: numbers inside their limits, options that can
  be read, an API that signs in through the identity provider, and where the gate and the services disagree on what
  production is.
\<close>

section \<open>Checks that pass\<close>

lemma integer_value:
  assumes "integer_within b raw"
  shows "number_of_string raw = JNum (of_int (decimal_value raw)) \<and> minimum b \<le> decimal_value raw \<and> decimal_value raw \<le> maximum b"
proof -
  have digits: "raw \<noteq> []" "list_all is_digit raw" using assms by (simp_all add: integer_within_def Let_def)
  have "number_of_string raw = JNum (of_int (decimal_value raw))"
    using number_of_digits [OF digits] assms
    by (auto simp: integer_within_def Let_def is_safe_integer_def is_integer_def finite_double_def split: if_splits)
  then show ?thesis using assms by (simp add: integer_within_def Let_def num_less_def)
qed

lemma required_integer:
  assumes "requireInteger env name service b = Inr ()"
  shows "\<exists>raw. normal_value env name = JStr raw \<and> integer_within b raw"
  using assms by (auto simp: requireInteger_def guard_simps split: jsval.splits)

lemma integer_trimmed:
  assumes "normal_value env name = JStr raw" "integer_within b raw"
  shows "js_number (fld env name) = JNum (of_int (decimal_value raw))"
proof -
  obtain s where s: "fld env name = JStr s" "raw = js_trim s"
    using assms(1) by (auto simp: normal_value_def normalizedString_def nonblank_def split: if_splits jsval.splits)
  have "number_of_string s = number_of_string (js_trim s)"
    using assms(2) s by (simp add: number_of_string_def trim_digits integer_within_def Let_def)
  then show ?thesis using integer_value [OF assms(2)] s by (simp add: js_number_def)
qed

text \<open>Numbers that were checked are read: every option is the number of the environment, inside its limits.\<close>

lemma options_read:
  assumes "\<forall>(name, b) \<in> set limits. requireInteger env name service b = Inr ()"
  shows "\<exists>vals. map_res (environment_integer what env defaults) limits = Inr vals
    \<and> list_all2 (\<lambda>(name, b) (name', v). name' = name \<and> minimum b \<le> v \<and> v \<le> maximum b \<and> js_number (fld env name) = JNum (of_int v)) limits vals"
  using assms
proof (induction limits)
  case (Cons e limits)
  obtain name b where e: "e = (name, b)" by (cases e)
  then obtain raw where raw: "normal_value env name = JStr raw" "integer_within b raw"
    using Cons.prems required_integer by fastforce
  have "environment_integer what env defaults e = Inr (name, decimal_value raw)"
    using raw e by (simp add: environment_integer_def Let_def coalesce_def nullish_def guard_simps)
  then show ?case using Cons integer_value [OF raw(2)] integer_trimmed [OF raw] e by auto
qed simp

definition in_limits :: "(string \<times> bounds) list \<Rightarrow> (string \<times> int) list \<Rightarrow> bool" where
  "in_limits limits vals = (\<forall>(name, b) \<in> set limits. minimum b \<le> option_value vals name \<and> option_value vals name \<le> maximum b)"

lemma option_value_Cons [simp]: "option_value ((n, v) # vals) x = (if x = n then v else option_value vals x)"
  by (simp add: option_value_def option_default_def)

lemma values_within:
  assumes "list_all2 (\<lambda>(name, b) (name', v). name' = name \<and> minimum b \<le> v \<and> v \<le> maximum b \<and> js_number (fld env name) = JNum (of_int v)) limits vals"
    and "distinct (map fst limits)"
  shows "in_limits limits vals \<and> (\<forall>name \<in> fst ` set limits. js_number (fld env name) = JNum (of_int (option_value vals name)))"
  using assms
proof (induction limits vals rule: list_all2_induct)
  case (Cons e limits p vals)
  obtain name b v where e: "e = (name, b)" and p: "p = (name, v)" and v: "minimum b \<le> v" "v \<le> maximum b" "js_number (fld env name) = JNum (of_int v)"
    using Cons.hyps(1) by (cases e; cases p) auto
  have other: "(name, b') \<notin> set limits" for b' using Cons.prems e by force
  have IH: "in_limits limits vals" "\<forall>n \<in> fst ` set limits. js_number (fld env n) = JNum (of_int (option_value vals n))"
    using Cons.IH Cons.prems by simp_all
  have "in_limits (e # limits) (p # vals)"
    using IH(1) v other unfolding e p in_limits_def by (auto split: prod.splits)
  moreover have "js_number (fld env n) = JNum (of_int (option_value (p # vals) n))" if "n \<in> fst ` set (e # limits)" for n
    using IH(2) v(3) that unfolding e p by auto
  ultimately show ?case by blast
qed (simp add: in_limits_def)

lemma worker_limits_distinct: "distinct (map fst worker_numeric_limits)" "distinct (map fst monitoring_numeric_limits)" "distinct (map fst postgres_pool_environment)"
  by (simp_all add: worker_numeric_limits_def monitoring_numeric_limits_def postgres_pool_environment_def limits_of_def)



section \<open>What production means\<close>

text \<open>
  An API that passes the gate of production, and whose configuration loads, signs in through the identity provider and
  never on the word of the client, has Postgres behind it, no synthetic data, and its signing key is a long, real secret.
\<close>

theorem production_api_signs_in:
  assumes "isProductionEnvironment env" "assertProductionApiEnvironment parse env = Inr ()" "loadAuthConfig env = Inr config"
  shows "ac_mode config = ''oidc'' \<and> ac_productionMode config \<and> \<not> ac_stagedModeEnabled config
    \<and> normal_value env ''XYGO_API_REPOSITORY_MODE'' = JStr ''postgres'' \<and> normal_value env ''XYGO_PG_SEED_SYNTHETIC_DATA'' \<noteq> JStr ''true''
    \<and> (\<exists>key. normal_value env ''XYGO_AUDIT_SIGNING_KEY'' = JStr key \<and> 32 \<le> length key \<and> \<not> isPlaceholderValue (JStr key))
    \<and> (\<exists>url. parse (js_string (normal_value env ''XYGO_API_PG_URL'')) = Some url \<and> one_of secure_postgres_ssl_modes (u_sslmode url)
         \<and> \<not> reserved_hostname (u_hostname url))"
proof -
  have facts: "normal_value env ''STAGED_MODE'' = JStr ''false''" "normal_value env ''XYGO_AUTH_MODE'' = JStr ''oidc''"
    "normal_value env ''XYGO_API_REPOSITORY_MODE'' = JStr ''postgres''" "normal_value env ''XYGO_PG_SEED_SYNTHETIC_DATA'' \<noteq> JStr ''true''"
    "requireSecret env ''XYGO_AUDIT_SIGNING_KEY'' ''API'' 32 = Inr ()" "requirePostgresUrl parse env ''API'' ''XYGO_API_PG_URL'' = Inr ()"
    using assms(1,2) by (auto simp: assertProductionApiEnvironment_def in_production_def guard_simps backend_checks_def baseline_checks_def requireExact_def)
  obtain s where staged: "fld env ''STAGED_MODE'' = JStr s" "js_trim s = ''false''"
    using facts(1) by (auto simp: normal_value_def normalizedString_def nonblank_def split: if_splits jsval.splits)
  have "parseStagedMode (JStr s) = Inr False"
  proof -
    have "js_lower ''false'' = ''false''" by code_simp
    then show ?thesis using staged(2) by (simp add: parseStagedMode_def)
  qed
  then have off: "\<not> ac_stagedModeEnabled config" "ac_productionMode config"
    using assms(3) staged(1) by (auto simp: loadAuthConfig_def guard_simps Let_def)
  have mode: "ac_mode config = ''oidc''"
  proof -
    obtain m where m: "fld env ''XYGO_AUTH_MODE'' = JStr m" "js_trim m = ''oidc''"
      using facts(2) by (auto simp: normal_value_def normalizedString_def nonblank_def split: if_splits jsval.splits)
    have "js_trim ''staged'' = ''staged''" by code_simp
    then have "m \<noteq> ''staged''" using m(2) by auto
    then show ?thesis using assms(3) m(1) by (auto simp: loadAuthConfig_def guard_simps Let_def coalesce_def nullish_def strict_eq_def)
  qed
  have "\<exists>key. normal_value env ''XYGO_AUDIT_SIGNING_KEY'' = JStr key \<and> 32 \<le> length key \<and> \<not> isPlaceholderValue (JStr key)"
    using facts(5) by (auto simp: requireSecret_def guard_simps split: jsval.splits)
  moreover have "\<exists>url. parse (js_string (normal_value env ''XYGO_API_PG_URL'')) = Some url \<and> one_of secure_postgres_ssl_modes (u_sslmode url)
         \<and> \<not> reserved_hostname (u_hostname url)"
    using facts(6) by (auto simp: requirePostgresUrl_def guard_simps requireProductionHostname_def split: option.splits)
  ultimately show ?thesis using facts off mode by blast
qed

theorem production_api_signs_in_witness:
  "\<exists>config. loadAuthConfig production_env = Inr config \<and> ac_mode config = ''oidc'' \<and> ac_productionMode config \<and> \<not> ac_stagedModeEnabled config"
proof -
  have "parseStagedMode (JStr ''false'') = Inr False" by code_simp
  then obtain config where "loadAuthConfig production_env = Inr config"
    by (simp add: loadAuthConfig_def production_texts coalesce_def nullish_def strict_eq_def guard_simps Let_def)
  then show ?thesis using production_api_signs_in [OF is_production api_passes] by blast
qed

text \<open>
  The gate and the services read the switch differently: with \<open>STAGED_MODE=0\<close> the API runs in production mode and the gate checks nothing.
\<close>

definition switched_off :: jsval where
  "switched_off = JObj [(''STAGED_MODE'', JStr ''0''), (''XYGO_AUTH_MODE'', JStr ''oidc'')]"

lemma gate_misses_zero:
  "assertProductionApiEnvironment parse switched_off = Inr () \<and> (\<exists>config. loadAuthConfig switched_off = Inr config \<and> ac_productionMode config)"
proof -
  have "isProductionEnvironment switched_off = False" by code_simp
  moreover have "(case loadAuthConfig switched_off of Inr config \<Rightarrow> ac_productionMode config | Inl e \<Rightarrow> False)" by code_simp
  ultimately show ?thesis by (auto simp: assertProductionApiEnvironment_def in_production_def split: sum.splits)
qed

end
