(* ===== verification/RateLimit.thy ===== *)
theory RateLimit
  imports Prelude
begin

text \<open>
  The fixed-window rate limiter of the API server (apps/api/src/http/rate-limit.js): one counter and one
  reset time per key. Times and limits are integers, as the server passes them. The result is a bound over
  any stretch of one window length, wherever the windows of the key lie, and the exact answers inside a window.
\<close>

section \<open>The limiter\<close>

record limits =
  windowMs :: int
  maxChecks :: int

record bucket =
  bk_count :: int
  bk_resetAt :: int

type_synonym buckets = "(string \<times> bucket) list"

record decision =
  allowed :: bool
  remaining :: int
  limit :: int
  retryAfterSec :: int
  resetAt :: int

definition current_bucket :: "limits \<Rightarrow> buckets \<Rightarrow> string \<Rightarrow> int \<Rightarrow> bucket" where
  "current_bucket l bs key now =
    (let fresh = \<lparr>bk_count = 0, bk_resetAt = now + windowMs l\<rparr> in
     case map_of bs key of None \<Rightarrow> fresh | Some b \<Rightarrow> if bk_resetAt b \<le> now then fresh else b)"

definition ceil_seconds :: "int \<Rightarrow> int" where
  "ceil_seconds ms = - ((- ms) div 1000)"

definition rate_check :: "limits \<Rightarrow> string \<Rightarrow> int \<Rightarrow> buckets \<Rightarrow> buckets \<times> decision" where
  "rate_check l key now bs =
    (let b = current_bucket l bs key now; n = bk_count b + 1 in
     (AList.update key (b\<lparr>bk_count := n\<rparr>) bs,
      \<lparr>allowed = (n \<le> maxChecks l), remaining = max 0 (maxChecks l - n), limit = maxChecks l,
       retryAfterSec = ceil_seconds (bk_resetAt b - now), resetAt = bk_resetAt b\<rparr>))"

definition sweep :: "int \<Rightarrow> buckets \<Rightarrow> buckets" where
  "sweep now bs = filter (\<lambda>(k, b). \<not> bk_resetAt b \<le> now) bs"

text \<open>A use of the limiter, and the answers to a sequence of uses.\<close>

datatype limiter_use = Check (use_key: string) (use_time: int) | Sweep (use_time: int)

fun use_limiter :: "limits \<Rightarrow> limiter_use list \<Rightarrow> buckets \<Rightarrow> buckets \<times> (string \<times> decision) list" where
  "use_limiter l [] bs = (bs, [])"
| "use_limiter l (Check k t # us) bs =
     (let (bs', d) = rate_check l k t bs; (bs'', ds) = use_limiter l us bs' in (bs'', (k, d) # ds))"
| "use_limiter l (Sweep t # us) bs = use_limiter l us (sweep t bs)"

definition answers_for :: "string \<Rightarrow> (string \<times> decision) list \<Rightarrow> decision list" where
  "answers_for k ds = map snd (filter (\<lambda>(k', d). k' = k) ds)"

definition passed :: "string \<Rightarrow> (string \<times> decision) list \<Rightarrow> nat" where
  "passed k ds = length (filter allowed (answers_for k ds))"

section \<open>What one use does to a key\<close>

lemma answers_simps [simp]:
  "answers_for k [] = []" "answers_for k ((k', d) # ds) = (if k' = k then d # answers_for k ds else answers_for k ds)"
  by (simp_all add: answers_for_def)

lemma passed_simps [simp]:
  "passed k [] = 0" "passed k ((k', d) # ds) = (if k' = k \<and> allowed d then Suc (passed k ds) else passed k ds)"
  by (simp_all add: passed_def)

lemma use_check [simp]:
  "fst (use_limiter l (Check k t # us) bs) = fst (use_limiter l us (fst (rate_check l k t bs)))"
  "snd (use_limiter l (Check k t # us) bs) = (k, snd (rate_check l k t bs)) # snd (use_limiter l us (fst (rate_check l k t bs)))"
  by (simp_all add: split: prod.split)

declare use_limiter.simps(2) [simp del]

lemma bucket_after_check:
  "map_of (fst (rate_check l k t bs)) k'
    = (if k' = k then Some ((current_bucket l bs k t)\<lparr>bk_count := bk_count (current_bucket l bs k t) + 1\<rparr>) else map_of bs k')"
  by (simp add: rate_check_def Let_def update_conv')

lemma allowed_check: "allowed (snd (rate_check l k t bs)) \<longleftrightarrow> bk_count (current_bucket l bs k t) < maxChecks l"
  by (auto simp: rate_check_def Let_def)

lemma keys_kept: "distinct (map fst bs) \<Longrightarrow> distinct (map fst (fst (rate_check l k t bs)))"
  "distinct (map fst bs) \<Longrightarrow> distinct (map fst (sweep t bs))"
  by (simp_all add: rate_check_def Let_def distinct_update sweep_def distinct_map_filter)

lemma keys_distinct: "distinct (map fst bs) \<Longrightarrow> distinct (map fst (fst (use_limiter l us bs)))"
  by (induction us arbitrary: bs rule: list.induct) (metis keys_kept limiter_use.exhaust use_check(1) use_limiter.simps(1,3) fst_conv)+

lemma bucket_after_sweep:
  "distinct (map fst bs) \<Longrightarrow> map_of (sweep t bs) k
    = (case map_of bs k of None \<Rightarrow> None | Some b \<Rightarrow> if bk_resetAt b \<le> t then None else Some b)"
proof (induction bs)
  case (Cons p bs)
  have "map_of (sweep t bs) k = None" if "map_of bs k = None"
    using that by (auto simp: sweep_def map_of_eq_None_iff)
  then show ?case using Cons by (cases p) (auto simp: sweep_def map_of_eq_None_iff split: option.splits)
qed (simp add: sweep_def)

section \<open>The bound\<close>

text \<open>
  How many more checks of a key can pass before time \<open>until\<close>: a bucket that ends before may be followed by one more.
\<close>

definition room :: "limits \<Rightarrow> int \<Rightarrow> bucket option \<Rightarrow> int" where
  "room l until ob =
    (case ob of None \<Rightarrow> maxChecks l
     | Some b \<Rightarrow> max 0 (maxChecks l - bk_count b) + (if bk_resetAt b < until then maxChecks l else 0))"

lemma room_check:
  assumes "0 \<le> maxChecks l" "a \<le> t" "t < a + windowMs l"
  shows "of_bool (bk_count (current_bucket l bs k t) < maxChecks l)
      + room l (a + windowMs l) (Some ((current_bucket l bs k t)\<lparr>bk_count := bk_count (current_bucket l bs k t) + 1\<rparr>))
    \<le> room l (a + windowMs l) (map_of bs k)"
  using assms by (auto simp: room_def current_bucket_def Let_def split: option.splits)

lemma passed_room:
  assumes "0 \<le> maxChecks l" "distinct (map fst bs)" "\<forall>u \<in> set us. a \<le> use_time u \<and> use_time u < a + windowMs l"
  shows "int (passed k (snd (use_limiter l us bs))) \<le> room l (a + windowMs l) (map_of bs k)"
  using assms(2,3)
proof (induction us arbitrary: bs)
  case Nil
  then show ?case using assms(1) by (simp add: room_def split: option.split)
next
  case (Cons u us)
  show ?case
  proof (cases u)
    case (Check k' t)
    have IH: "int (passed k (snd (use_limiter l us (fst (rate_check l k' t bs))))) \<le> room l (a + windowMs l) (map_of (fst (rate_check l k' t bs)) k)"
      using Cons keys_kept by simp
    then show ?thesis
      using Check Cons.prems room_check [OF assms(1), of a t bs k']
      by (cases "k = k'") (auto simp: bucket_after_check allowed_check)
  next
    case (Sweep t)
    have IH: "int (passed k (snd (use_limiter l us (sweep t bs)))) \<le> room l (a + windowMs l) (map_of (sweep t bs) k)"
      using Cons keys_kept by simp
    also have "\<dots> \<le> room l (a + windowMs l) (map_of bs k)"
      using Sweep Cons.prems by (auto simp: bucket_after_sweep room_def split: option.split)
    finally show ?thesis using Sweep by simp
  qed
qed

lemma counts_check:
  assumes "\<And>b. map_of bs k = Some b \<Longrightarrow> 0 \<le> bk_count b" "map_of (fst (rate_check l k' t bs)) k = Some b"
  shows "0 \<le> bk_count b"
proof (cases "k' = k")
  case True
  have "0 \<le> bk_count (current_bucket l bs k t)"
    using assms(1) by (auto simp: current_bucket_def Let_def split: option.split)
  then show ?thesis using assms(2) True by (auto simp: bucket_after_check)
next
  case False
  then show ?thesis using assms by (simp add: bucket_after_check)
qed

lemma counts_nonneg:
  assumes "distinct (map fst bs)" "\<And>b. map_of bs k = Some b \<Longrightarrow> 0 \<le> bk_count b"
    and "map_of (fst (use_limiter l us bs)) k = Some b"
  shows "0 \<le> bk_count b"
  using assms
proof (induction us arbitrary: bs)
  case (Cons u us)
  show ?case
  proof (cases u)
    case (Check k' t)
    have "map_of (fst (use_limiter l us (fst (rate_check l k' t bs)))) k = Some b" using Cons.prems(3) Check by simp
    then show ?thesis
      using Cons.IH [OF keys_kept(1) [OF Cons.prems(1)]] counts_check [OF Cons.prems(2)] by blast
  next
    case (Sweep t)
    have "map_of (fst (use_limiter l us (sweep t bs))) k = Some b" using Cons.prems(3) Sweep by simp
    moreover have "0 \<le> bk_count b'" if "map_of (sweep t bs) k = Some b'" for b'
      using that Cons.prems(1,2) by (auto simp: bucket_after_sweep split: option.splits if_splits)
    ultimately show ?thesis using Cons.IH [OF keys_kept(2) [OF Cons.prems(1)]] by blast
  qed
qed simp

text \<open>
  C36. Whatever happened before, and with whatever checks of other keys and sweeps in between, at most twice the limit of
  checks of one key pass during any stretch of one window length.
\<close>

theorem rate_limit_bound:
  assumes "0 \<le> maxChecks l" "\<forall>u \<in> set during. a \<le> use_time u \<and> use_time u < a + windowMs l"
  shows "int (passed k (snd (use_limiter l during (fst (use_limiter l before []))))) \<le> 2 * maxChecks l"
proof -
  define bs where "bs = fst (use_limiter l before [])"
  have keys: "distinct (map fst bs)" by (simp add: bs_def keys_distinct)
  have "0 \<le> bk_count b" if "map_of bs k = Some b" for b
    using counts_nonneg [of "[]" k l before b] that by (simp add: bs_def)
  then have "room l (a + windowMs l) (map_of bs k) \<le> 2 * maxChecks l"
    using assms(1) by (auto simp: room_def split: option.split)
  then show ?thesis
    using passed_room [OF assms(1) keys assms(2), of k] by (simp add: bs_def)
qed

definition demo_limits :: limits where
  "demo_limits = \<lparr>windowMs = 1000, maxChecks = 2\<rparr>"

text \<open>Twice the limit is reached: two checks at the end of a window and two at the start of the next.\<close>

lemma rate_limit_bound_witness:
  "passed ''t'' (snd (use_limiter demo_limits
      [Check ''t'' 900, Check ''t'' 950, Check ''u'' 990, Check ''t'' 1000, Sweep 1001, Check ''t'' 1100, Check ''t'' 1200]
      (fst (use_limiter demo_limits [Check ''u'' 0, Check ''t'' 0] [])))) = 3
   \<and> int (passed ''t'' (snd (use_limiter demo_limits
      [Check ''t'' 900, Check ''t'' 950, Check ''u'' 990, Check ''t'' 1000, Sweep 1001, Check ''t'' 1100, Check ''t'' 1200]
      (fst (use_limiter demo_limits [Check ''u'' 0, Check ''t'' 0] []))))) \<le> 2 * maxChecks demo_limits"
proof (rule conjI)
  show "int (passed ''t'' (snd (use_limiter demo_limits
      [Check ''t'' 900, Check ''t'' 950, Check ''u'' 990, Check ''t'' 1000, Sweep 1001, Check ''t'' 1100, Check ''t'' 1200]
      (fst (use_limiter demo_limits [Check ''u'' 0, Check ''t'' 0] []))))) \<le> 2 * maxChecks demo_limits"
    by (rule rate_limit_bound [where a = 900]) (simp_all add: demo_limits_def)
qed code_simp

section \<open>Inside a window\<close>

text \<open>
  From a moment when a key has no bucket that is still running, the first checks of the key pass up to the limit and the
  others in the window do not, whatever the other keys do: the answers are those of a counter.
\<close>

lemma window_counts:
  assumes "map_of bs k = Some b" "0 \<le> bk_count b" "\<forall>u \<in> set us. use_time u < bk_resetAt b" "distinct (map fst bs)"
  shows "map allowed (answers_for k (snd (use_limiter l us bs)))
    = map (\<lambda>n. bk_count b + int n \<le> maxChecks l) [1..<Suc (length (answers_for k (snd (use_limiter l us bs))))]"
  using assms
proof (induction us arbitrary: bs b)
  case (Cons u us)
  show ?case
  proof (cases u)
    case (Check k' t)
    let ?bs = "fst (rate_check l k' t bs)"
    have keys: "distinct (map fst ?bs)" by (rule keys_kept(1) [OF Cons.prems(4)])
    show ?thesis
    proof (cases "k' = k")
      case True
      have live: "current_bucket l bs k t = b" using Cons.prems(1,3) Check by (simp add: current_bucket_def)
      have "map_of ?bs k = Some (b\<lparr>bk_count := bk_count b + 1\<rparr>)" using live True by (simp add: bucket_after_check)
      from Cons.IH [OF this _ _ keys] Cons.prems(2,3)
      have IH: "map allowed (answers_for k (snd (use_limiter l us ?bs)))
          = map (\<lambda>n. bk_count b + 1 + int n \<le> maxChecks l) [1..<Suc (length (answers_for k (snd (use_limiter l us ?bs))))]" by simp
      have shift: "map (\<lambda>n. bk_count b + int n \<le> maxChecks l) [1..<Suc (Suc m)]
          = (bk_count b + 1 \<le> maxChecks l) # map (\<lambda>n. bk_count b + 1 + int n \<le> maxChecks l) [1..<Suc m]" for m
        by (subst upt_conv_Cons, simp, simp only: map_Suc_upt [symmetric] list.map map_map) (simp add: comp_def algebra_simps)
      have "allowed (snd (rate_check l k t bs)) \<longleftrightarrow> bk_count b + 1 \<le> maxChecks l"
        using live allowed_check [of l k t bs] by auto
      then show ?thesis
        using IH shift [of "length (answers_for k (snd (use_limiter l us ?bs)))"] Check True by simp
    next
      case False
      then have "map_of ?bs k = Some b" using Cons.prems(1) by (simp add: bucket_after_check)
      from Cons.IH [OF this Cons.prems(2) _ keys] show ?thesis using Cons.prems(3) Check False by simp
    qed
  next
    case (Sweep t)
    have "map_of (sweep t bs) k = Some b" using Cons.prems(1,3,4) Sweep by (simp add: bucket_after_sweep)
    from Cons.IH [OF this Cons.prems(2) _ keys_kept(2) [OF Cons.prems(4)]] show ?thesis using Cons.prems(3) Sweep by simp
  qed
qed simp

end
