(* ===== verification/Telemetry.thy ===== *)
theory Telemetry
  imports Json JsNumber
begin

text \<open>
  Telemetry of the API: the metrics registry with its text form (apps/api/src/telemetry/metrics.js), the lines of
  the structured logger (apps/api/src/telemetry/logger.js) and the frames of the event stream
  (apps/api/src/realtime.js). Durations and values are exact numbers.
\<close>

section \<open>Metrics\<close>

definition duration_buckets_ms :: "rat list" where
  "duration_buckets_ms = [5, 10, 25, 50, 100, 250, 500, 1000, 2500]"

definition gauge_help :: "(string \<times> string) list" where
  "gauge_help =
    [(''xygo_dependency_ready'', ''Dependency readiness (1 ready, 0 not ready).''),
     (''xygo_outbox_backlog'', ''Current pending and retryable outbox jobs.''),
     (''xygo_email_delivery_failures'',
      ''Current failed, bounced, or complained email deliveries; intentional suppression skips are excluded.'')]"

type_synonym labels = "(string \<times> string) list"

record metric =
  mt_name :: string
  mt_labels :: labels
  mt_value :: rat

record durations =
  du_buckets :: "(rat \<times> nat) list"
  du_sum :: rat
  du_count :: nat

record metrics =
  me_counters :: "(string \<times> metric) list"
  me_gauges :: "(string \<times> metric) list"
  me_durations :: durations

definition escape_quotes :: "string \<Rightarrow> string" where
  "escape_quotes v = concat (map (\<lambda>c. if c = CHR 0x22 then [CHR 0x5C, CHR 0x22] else [c]) v)"

definition labelKey :: "labels \<Rightarrow> string" where
  "labelKey ls = join '','' (map (\<lambda>(k, v). k @ ''='' @ [CHR 0x22] @ escape_quotes v @ [CHR 0x22]) (sort_key fst ls))"

definition metric_key :: "string \<Rightarrow> labels \<Rightarrow> string" where
  "metric_key name ls = name @ ''|'' @ labelKey ls"

definition createMetrics :: metrics where
  "createMetrics = \<lparr>me_counters = [], me_gauges = [],
     me_durations = \<lparr>du_buckets = map (\<lambda>b. (b, 0)) duration_buckets_ms, du_sum = 0, du_count = 0\<rparr>\<rparr>"

definition metric_inc :: "string \<Rightarrow> labels \<Rightarrow> rat \<Rightarrow> metrics \<Rightarrow> metrics" where
  "metric_inc name ls amount m =
    (let key = metric_key name ls in
     m\<lparr>me_counters := AList.update key
        (case map_of (me_counters m) key of
           Some existing \<Rightarrow> existing\<lparr>mt_value := mt_value existing + amount\<rparr>
         | None \<Rightarrow> \<lparr>mt_name = name, mt_labels = ls, mt_value = amount\<rparr>) (me_counters m)\<rparr>)"

definition observe :: "rat \<Rightarrow> durations \<Rightarrow> durations" where
  "observe ms d = d\<lparr>du_sum := du_sum d + ms, du_count := Suc (du_count d),
     du_buckets := fold (\<lambda>b bs. if ms \<le> b then AList.update b (case map_of bs b of Some n \<Rightarrow> Suc n | None \<Rightarrow> 1) bs else bs)
       duration_buckets_ms (du_buckets d)\<rparr>"

definition observeDurationMs :: "rat \<Rightarrow> metrics \<Rightarrow> metrics" where
  "observeDurationMs ms m = m\<lparr>me_durations := observe ms (me_durations m)\<rparr>"

definition setGauge :: "string \<Rightarrow> labels \<Rightarrow> rat \<Rightarrow> metrics \<Rightarrow> metrics" where
  "setGauge name ls v m =
    m\<lparr>me_gauges := AList.update (metric_key name ls) \<lparr>mt_name = name, mt_labels = ls, mt_value = v\<rparr> (me_gauges m)\<rparr>"

record http_sample =
  sm_method :: string
  sm_status :: nat
  sm_durationMs :: "rat option"

definition request_labels :: "http_sample \<Rightarrow> labels" where
  "request_labels s = [(''method'', sm_method s), (''status'', nat_string (sm_status s))]"

definition recordRequest :: "http_sample \<Rightarrow> metrics \<Rightarrow> metrics" where
  "recordRequest s m =
    (let counted = metric_inc ''xygo_http_requests_total'' (request_labels s) 1 m in
     case sm_durationMs s of Some ms \<Rightarrow> observeDurationMs ms counted | None \<Rightarrow> counted)"

definition sample_line :: "metric \<Rightarrow> string" where
  "sample_line s =
    (let lk = labelKey (mt_labels s) in mt_name s @ (if lk = [] then [] else ''{'' @ lk @ ''}'') @ '' '' @ num_string (mt_value s))"

definition bucket_line :: "string \<Rightarrow> string \<Rightarrow> string" where
  "bucket_line le n = ''xygo_http_request_duration_ms_bucket{le='' @ [CHR 0x22] @ le @ [CHR 0x22] @ ''} '' @ n"

definition gauge_lines :: "metrics \<Rightarrow> string \<Rightarrow> string list" where
  "gauge_lines m name =
    [''# HELP '' @ name @ '' '' @ js_string (coalesce (table_get gauge_help (JStr name)) (JStr ''Application gauge.'')),
     ''# TYPE '' @ name @ '' gauge'']
    @ map sample_line (filter (\<lambda>g. mt_name g = name) (map snd (me_gauges m)))"

definition metric_lines :: "metrics \<Rightarrow> string list" where
  "metric_lines m =
    [''# HELP xygo_http_requests_total Total HTTP requests.'', ''# TYPE xygo_http_requests_total counter'']
    @ map (\<lambda>(_, c). sample_line c) (me_counters m)
    @ concat (map (gauge_lines m) (rev (remdups (rev (map (\<lambda>(_, g). mt_name g) (me_gauges m))))))
    @ [''# HELP xygo_http_request_duration_ms Request duration histogram (ms).'', ''# TYPE xygo_http_request_duration_ms histogram'']
    @ map (\<lambda>b. bucket_line (num_string b) (case map_of (du_buckets (me_durations m)) b of Some n \<Rightarrow> nat_string n | None \<Rightarrow> ''undefined''))
        duration_buckets_ms
    @ [bucket_line ''+Inf'' (nat_string (du_count (me_durations m))),
       ''xygo_http_request_duration_ms_sum '' @ num_string (du_sum (me_durations m)),
       ''xygo_http_request_duration_ms_count '' @ nat_string (du_count (me_durations m))]"

definition render_metrics :: "metrics \<Rightarrow> string" where
  "render_metrics m = join [CHR 0x0A] (metric_lines m) @ [CHR 0x0A]"

section \<open>Logs and event frames\<close>

text \<open>One object per line: the fields of the logger come after the time, level and message, those of the call last.\<close>

record logger =
  lg_base :: jsval

definition log_line :: "string \<Rightarrow> logger \<Rightarrow> string \<Rightarrow> string \<Rightarrow> jsval \<Rightarrow> string option" where
  "log_line ts lg level message fs =
    json_stringify (spread (spread (JObj [(''ts'', JStr ts), (''level'', JStr level), (''msg'', JStr message)]) (own_fields (lg_base lg))) (own_fields fs))"

definition child :: "jsval \<Rightarrow> logger \<Rightarrow> logger" where
  "child fs lg = lg\<lparr>lg_base := spread (lg_base lg) (own_fields fs)\<rparr>"

definition formatSseEvent :: "string \<Rightarrow> jsval \<Rightarrow> string" where
  "formatSseEvent event data =
    ''event: '' @ event @ [CHR 0x0A] @ ''data: '' @ (case json_stringify data of Some s \<Rightarrow> s | None \<Rightarrow> ''undefined'') @ [CHR 0x0A, CHR 0x0A]"

section \<open>The histogram is exact\<close>

lemma observe_buckets:
  assumes "distinct bs"
  shows "map_of (fold (\<lambda>b al. if ms \<le> b then AList.update b (case map_of al b of Some n \<Rightarrow> Suc n | None \<Rightarrow> 1) al else al) bs al) b
    = (if b \<in> set bs \<and> ms \<le> b then Some (case map_of al b of Some n \<Rightarrow> Suc n | None \<Rightarrow> 1) else map_of al b)"
  using assms by (induction bs arbitrary: al) auto

lemma distinct_buckets: "distinct duration_buckets_ms"
  by (simp add: duration_buckets_ms_def)

lemma histogram_of:
  assumes "b \<in> set duration_buckets_ms"
  shows "map_of (du_buckets (fold observe ds d)) b
    = (case map_of (du_buckets d) b of
         Some n \<Rightarrow> Some (n + length (filter (\<lambda>x. x \<le> b) ds))
       | None \<Rightarrow> if filter (\<lambda>x. x \<le> b) ds = [] then None else Some (length (filter (\<lambda>x. x \<le> b) ds)))"
  using assms
  by (induction ds arbitrary: d) (auto simp: observe_def observe_buckets [OF distinct_buckets] split: option.splits)

lemma totals_of: "du_sum (fold observe ds d) = du_sum d + sum_list ds" "du_count (fold observe ds d) = du_count d + length ds"
  by (induction ds arbitrary: d) (auto simp: observe_def)

text \<open>
  The duration histogram is exact: after any observations each bucket counts those that are at most its bound, so that
  the counts are cumulative, and the sum and the count are those of all observations.
\<close>

theorem histogram_exact:
  "du_buckets (me_durations (fold observeDurationMs ds createMetrics)) = map (\<lambda>b. (b, length (filter (\<lambda>d. d \<le> b) ds))) duration_buckets_ms
   \<and> du_sum (me_durations (fold observeDurationMs ds createMetrics)) = sum_list ds
   \<and> du_count (me_durations (fold observeDurationMs ds createMetrics)) = length ds"
proof -
  have inner: "me_durations (fold observeDurationMs ds m) = fold observe ds (me_durations m)" for m
    by (induction ds arbitrary: m) (simp_all add: observeDurationMs_def)
  have keys: "map fst (fold (\<lambda>b al. if ms \<le> b then AList.update b (f al b) al else al) bs al) = map fst al"
    if "set bs \<subseteq> fst ` set al" for bs and ms :: rat and f and al :: "(rat \<times> nat) list"
    using that
  proof (induction bs arbitrary: al)
    case (Cons b bs)
    have same: "map fst (AList.update b n al) = map fst al" for n
      using Cons.prems by (simp add: AList.update_keys)
    then have "fst ` set (AList.update b n al) = fst ` set al" for n by (metis set_map)
    then show ?case using Cons same by simp
  qed simp
  have all: "map fst (du_buckets (fold observe ds d)) = duration_buckets_ms" if "map fst (du_buckets d) = duration_buckets_ms" for d
    using that
  proof (induction ds arbitrary: d)
    case (Cons x ds)
    have "set duration_buckets_ms \<subseteq> fst ` set (du_buckets d)" using Cons.prems by (metis order_refl set_map)
    then have "map fst (du_buckets (observe x d)) = duration_buckets_ms" using keys Cons.prems by (simp add: observe_def)
    then show ?case using Cons.IH by simp
  qed simp
  define start where "start = me_durations createMetrics"
  define final where "final = du_buckets (fold observe ds start)"
  have start: "map fst (du_buckets start) = duration_buckets_ms" by (simp add: start_def createMetrics_def comp_def)
  have names: "map fst final = duration_buckets_ms" using all [OF start] by (simp add: final_def)
  have zero: "map_of (du_buckets start) b = Some 0" if "b \<in> set duration_buckets_ms" for b
    using that by (simp add: start_def createMetrics_def map_of_map_keys [symmetric] map_of_map_restrict)
  have found: "map_of final b = Some (length (filter (\<lambda>d. d \<le> b) ds))" if "b \<in> set duration_buckets_ms" for b
    using histogram_of [OF that, of ds start] zero [OF that] by (simp add: final_def)
  have "map (\<lambda>b. (b, the (map_of final b))) (map fst final) = final"
    unfolding map_map comp_def
  proof (rule map_idI)
    fix p assume "p \<in> set final"
    moreover have "distinct (map fst final)" using distinct_buckets names by simp
    ultimately have "map_of final (fst p) = Some (snd p)" by (metis map_of_is_SomeI prod.collapse)
    then show "(fst p, the (map_of final (fst p))) = p"
      by simp
  qed
  then have "final = map (\<lambda>b. (b, length (filter (\<lambda>d. d \<le> b) ds))) duration_buckets_ms"
    using found names by (metis (mono_tags, lifting) map_eq_conv option.sel)
  then show ?thesis
    by (simp add: inner final_def start_def totals_of) (simp add: createMetrics_def)
qed

section \<open>One line each\<close>

lemma digit_not_control: "is_digit c \<Longrightarrow> \<not> is_control c"
  by (simp add: is_digit_code is_control_def)

lemma hex_not_control: "n < 16 \<Longrightarrow> \<not> is_control (hex_digit n)"
proof -
  assume "n < 16"
  then have "hex_digit n \<in> set ''0123456789abcdef''" unfolding hex_digit_def by (intro nth_mem) simp
  then show ?thesis by (auto simp: is_control_def)
qed

lemma quote_char_plain: "\<forall>x \<in> set (quote_char c). \<not> is_control x"
proof -
  have "(of_char c :: nat) < 256" by simp
  then have "of_char c div 16 < (16 :: nat)" "of_char c mod 16 < (16 :: nat)" by (simp_all add: less_mult_imp_div_less)
  then show ?thesis using hex_not_control by (auto simp: quote_char_def is_control_code)
qed

lemma quote_plain: "\<forall>x \<in> set (quote s). \<not> is_control x"
  using quote_char_plain by (auto simp: quote_def is_control_code)

lemma nat_string_plain: "\<forall>x \<in> set (nat_string n). \<not> is_control x"
  using nat_string_digits [of n] digit_not_control by (auto simp: list_all_iff)

lemma frac_digits_plain: "0 \<le> r \<Longrightarrow> r < 1 \<Longrightarrow> \<forall>x \<in> set (frac_digits n r). \<not> is_control x"
proof (induction n arbitrary: r)
  case (Suc n)
  define d where "d = \<lfloor>r * 10\<rfloor>"
  have d: "0 \<le> d" "d < 10" using Suc.prems by (auto simp: d_def floor_less_iff)
  have "0 \<le> r * 10 - of_int d" "r * 10 - of_int d < 1" by (simp_all add: d_def) linarith
  from Suc.IH [OF this] show ?case
    using d digit_not_control [OF is_digit_char [of "nat d"]] by (auto simp: Let_def d_def [symmetric])
qed simp

lemma num_string_plain: "\<forall>x \<in> set (num_string r). \<not> is_control x"
proof -
  have "0 \<le> \<bar>r\<bar> - of_int \<lfloor>\<bar>r\<bar>\<rfloor>" "\<bar>r\<bar> - of_int \<lfloor>\<bar>r\<bar>\<rfloor> < 1" by simp_all linarith
  then show ?thesis
    using frac_digits_plain [of "\<bar>r\<bar> - of_int \<lfloor>\<bar>r\<bar>\<rfloor>" 20] nat_string_plain [of "nat \<lfloor>\<bar>r\<bar>\<rfloor>"]
    by (auto simp: num_string_def Let_def is_control_code)
qed

text \<open>JSON text has no control characters: they are all escaped.\<close>

lemma json_plain:
  "\<forall>x \<in> set (json_text v). \<not> is_control x" "\<forall>x \<in> set (json_elems vs). \<not> is_control x" "\<forall>x \<in> set (json_fields fs). \<not> is_control x"
  by (induction v and vs and fs rule: json_text_json_elems_json_fields.induct)
    (use quote_plain num_string_plain in \<open>auto simp: is_control_code\<close>)

lemma newline_control: "is_control CHR 0x0A"
  by (simp add: is_control_code)

lemma stringify_one_line: "json_stringify v = Some s \<Longrightarrow> CHR 0x0A \<notin> set s"
  using json_plain(1) newline_control by (auto simp: json_stringify_def split: if_splits)

lemma split_newline: "c \<notin> set a \<Longrightarrow> split c (a @ c # b) = a # split c b"
  by (induction a) auto

lemma split_none: "c \<notin> set a \<Longrightarrow> split c a = [a]"
  by (induction a) auto

text \<open>
  An event of the stream is framed so that a client that reads lines gets it back: one line with its name, one with
  its data, whatever the data hold, and an empty line that ends it.
\<close>

theorem sse_frame_lines:
  assumes "CHR 0x0A \<notin> set event" "json_stringify data = Some s"
  shows "split (CHR 0x0A) (formatSseEvent event data) = [''event: '' @ event, ''data: '' @ s, [], []]"
proof -
  have data: "CHR 0x0A \<notin> set s" by (rule stringify_one_line [OF assms(2)])
  have "split (CHR 0x0A) (''event: '' @ event @ [CHR 0x0A] @ (''data: '' @ s) @ [CHR 0x0A, CHR 0x0A])
      = (''event: '' @ event) # split (CHR 0x0A) ((''data: '' @ s) @ [CHR 0x0A, CHR 0x0A])"
    using assms(1) split_newline [of "CHR 0x0A" "''event: '' @ event" "(''data: '' @ s) @ [CHR 0x0A, CHR 0x0A]"] by simp
  also have "split (CHR 0x0A) ((''data: '' @ s) @ [CHR 0x0A, CHR 0x0A]) = (''data: '' @ s) # split (CHR 0x0A) [CHR 0x0A]"
    using data split_newline [of "CHR 0x0A" "''data: '' @ s" "[CHR 0x0A]"] by simp
  finally show ?thesis using assms(2) by (simp add: formatSseEvent_def)
qed

lemma sse_frame_lines_witness:
  "split (CHR 0x0A) (formatSseEvent ''snapshot'' (JObj [(''note'', JStr [CHR 0x0A])]))
    = [''event: snapshot'', ''data: {'' @ [CHR 0x22] @ ''note'' @ [CHR 0x22] @ '':'' @ [CHR 0x22, CHR 0x5C, CHR ''n'', CHR 0x22] @ ''}'', [], []]"
proof -
  have "json_stringify (JObj [(''note'', JStr [CHR 0x0A])])
      = Some (''{'' @ [CHR 0x22] @ ''note'' @ [CHR 0x22] @ '':'' @ [CHR 0x22, CHR 0x5C, CHR ''n'', CHR 0x22] @ ''}'')"
    by code_simp
  from sse_frame_lines [OF _ this, of "''snapshot''"] show ?thesis by simp
qed

text \<open>A log record is one line, whatever its fields hold.\<close>

lemma log_line_single: "log_line ts lg level message fs = Some s \<Longrightarrow> CHR 0x0A \<notin> set s"
  unfolding log_line_def by (rule stringify_one_line)

end
