(* ===== verification/Activation.thy ===== *)
theory Activation
  imports Blueprint Contracts FileStorage EmailLife "HOL-Library.Multiset"
begin

text \<open>
  Provisioning a client (packages/activation/src/provision-tenant.js): normalising the request and deriving every
  record of the new tenant from it. The order of \<open>localeCompare\<close> is a parameter.
\<close>

section \<open>Normalising the request\<close>

definition paid_roles :: "string list" where
  "paid_roles = [''xygo_admin'', ''client_owner'', ''client_staff'', ''client_viewer'']"

definition activation_requiredString :: "jsval \<Rightarrow> string \<Rightarrow> string res" where
  "activation_requiredString v label = guard [(nonblank v, label @ '' is required.'')] (Inr (js_trim (js_string v)))"

definition slug_shape :: "string \<Rightarrow> bool" where
  "slug_shape s = list_all (\<lambda>w. w \<noteq> [] \<and> list_all lower_alnum w) (split (CHR ''-'') s)"

definition assertSlug :: "jsval \<Rightarrow> string res" where
  "assertSlug v =
    and_then (activation_requiredString v ''Tenant slug'') (\<lambda>slug.
    guard [(slug_shape slug, ''Tenant slug must contain lowercase letters, numbers, and single hyphens only.'')] (Inr slug))"

record paid_user =
  pu_email :: string
  pu_displayName :: string
  pu_role :: string
  pu_oidcSubject :: "string option"

definition user_label :: "nat \<Rightarrow> string \<Rightarrow> string" where
  "user_label index what = ''User '' @ nat_string (index + 1) @ '' '' @ what"

definition normalize_user :: "nat \<times> jsval \<Rightarrow> paid_user res" where
  "normalize_user iu =
    (let (index, user) = iu in
     and_then (activation_requiredString (fld user ''email'') (user_label index ''email'')) (\<lambda>email.
     and_then (activation_requiredString (fld user ''displayName'') (user_label index ''displayName'')) (\<lambda>displayName.
     and_then (activation_requiredString (fld user ''role'') (user_label index ''role'')) (\<lambda>role.
     guard [(role \<in> set paid_roles, ''Unknown paid-client role: '' @ role)]
     (and_then (if nullish (fld user ''oidcSubject'') then Inr None
                else and_then (activation_requiredString (fld user ''oidcSubject'') (user_label index ''oidcSubject'')) (\<lambda>s. Inr (Some s))) (\<lambda>subject.
      Inr \<lparr>pu_email = js_lower email, pu_displayName = displayName, pu_role = role, pu_oidcSubject = subject\<rparr>))))))"

definition subjects_of :: "paid_user list \<Rightarrow> string list" where
  "subjects_of us = List.map_filter pu_oidcSubject us"

text \<open>The stable order of \<open>sort((a, b) => a.email.localeCompare(b.email))\<close>; \<open>collate a b\<close> for \<open>a\<close> not after \<open>b\<close>.\<close>

fun insert_user :: "(string \<Rightarrow> string \<Rightarrow> bool) \<Rightarrow> paid_user \<Rightarrow> paid_user list \<Rightarrow> paid_user list" where
  "insert_user collate u [] = [u]"
| "insert_user collate u (v # vs) = (if collate (pu_email u) (pu_email v) then u # v # vs else v # insert_user collate u vs)"

definition sort_users :: "(string \<Rightarrow> string \<Rightarrow> bool) \<Rightarrow> paid_user list \<Rightarrow> paid_user list" where
  "sort_users collate us = foldr (insert_user collate) us []"

definition normalizeUsers :: "(string \<Rightarrow> string \<Rightarrow> bool) \<Rightarrow> jsval \<Rightarrow> paid_user list res" where
  "normalizeUsers collate users =
    (case users of
       JArr (u # us) \<Rightarrow>
         and_then (map_res normalize_user (enumerate 0 (u # us))) (\<lambda>normalized.
         guard [(\<exists>v \<in> set normalized. pu_role v = ''client_owner'', ''At least one client_owner is required.''),
                (distinct (map pu_email normalized), ''User emails must be unique within a tenant.''),
                (distinct (subjects_of normalized), ''OIDC subjects must be unique within a tenant.'')]
           (Inr (sort_users collate normalized)))
     | _ \<Rightarrow> Inl (Err ''At least one user is required.''))"

record provisioning_config =
  pc_slug :: string
  pc_businessName :: string
  pc_projectName :: string
  pc_brandName :: string
  pc_primaryColor :: jsval
  pc_users :: "paid_user list"
  pc_oidcIssuer :: "string option"

definition normalizeProvisioningInput :: "(string \<Rightarrow> string \<Rightarrow> bool) \<Rightarrow> jsval \<Rightarrow> provisioning_config res" where
  "normalizeProvisioningInput collate input =
    guard [(is_true (fld input ''staged''), ''Provisioning requires staged=true.'')]
    (and_then (normalizeUsers collate (fld input ''users'')) (\<lambda>users.
     and_then (assertSlug (fld input ''slug'')) (\<lambda>slug.
     and_then (activation_requiredString (fld input ''businessName'') ''Business name'') (\<lambda>businessName.
     and_then (activation_requiredString (fld input ''projectName'') ''Project name'') (\<lambda>projectName.
     and_then (activation_requiredString (coalesce (fld input ''brandName'') (fld input ''businessName'')) ''Brand name'') (\<lambda>brandName.
     and_then (if nullish (fld input ''oidcIssuer'') then Inr None
               else and_then (activation_requiredString (fld input ''oidcIssuer'') ''OIDC issuer'') (\<lambda>s. Inr (Some s))) (\<lambda>issuer.
     guard [(\<not> (subjects_of users \<noteq> [] \<and> issuer = None), ''OIDC issuer is required when a user has an oidcSubject.'')]
     (Inr \<lparr>pc_slug = slug, pc_businessName = businessName, pc_projectName = projectName, pc_brandName = brandName,
        pc_primaryColor = coalesce (fld input ''primaryColor'') (JStr ''#17324d''), pc_users = users, pc_oidcIssuer = issuer\<rparr>))))))))"

text \<open>The configuration as the object whose text is hashed.\<close>

definition user_value :: "paid_user \<Rightarrow> jsval" where
  "user_value u = JObj ([(''email'', JStr (pu_email u)), (''displayName'', JStr (pu_displayName u)), (''role'', JStr (pu_role u))]
     @ (case pu_oidcSubject u of Some s \<Rightarrow> [(''oidcSubject'', JStr s)] | None \<Rightarrow> []))"

definition config_value :: "provisioning_config \<Rightarrow> jsval" where
  "config_value c = JObj
    ([(''slug'', JStr (pc_slug c)), (''businessName'', JStr (pc_businessName c)), (''projectName'', JStr (pc_projectName c)),
      (''brandName'', JStr (pc_brandName c)), (''primaryColor'', pc_primaryColor c), (''users'', JArr (map user_value (pc_users c)))]
     @ (case pc_oidcIssuer c of Some s \<Rightarrow> [(''oidcIssuer'', JStr s)] | None \<Rightarrow> []))"

section \<open>The records of the tenant\<close>

record provisioning =
  pv_config :: provisioning_config
  pv_provisioningKey :: string
  pv_tenant :: jsval
  pv_users :: "jsval list"
  pv_roleAssignments :: "jsval list"
  pv_oidcIdentities :: "jsval list"
  pv_businessProfile :: jsval
  pv_project :: jsval
  pv_blueprint :: jsval
  pv_portalConfiguration :: jsval
  pv_portalData :: jsval
  pv_provisioningEvent :: jsval

definition strings :: "string list \<Rightarrow> jsval" where
  "strings ss = JArr (map JStr ss)"

definition numbered :: "string \<Rightarrow> string \<Rightarrow> nat \<Rightarrow> jsval" where
  "numbered tenantId what index = JStr (tenantId @ what @ nat_string (index + 1))"

definition service_line :: jsval where
  "service_line = JStr ''Contractor Field Reports + Client Portal''"

definition tenant_user :: "string \<Rightarrow> nat \<times> paid_user \<Rightarrow> jsval res" where
  "tenant_user tenantId iu = createUser (JObj
     [(''id'', numbered tenantId ''-user-'' (fst iu)), (''tenantId'', JStr tenantId), (''email'', JStr (pu_email (snd iu))),
      (''displayName'', JStr (pu_displayName (snd iu))), (''staged'', JBool True)])"

definition role_assignment :: "string \<Rightarrow> nat \<times> paid_user \<Rightarrow> jsval" where
  "role_assignment tenantId iu = JObj
     [(''id'', numbered tenantId ''-role-'' (fst iu)), (''tenantId'', JStr tenantId), (''userId'', numbered tenantId ''-user-'' (fst iu)),
      (''role'', JStr (pu_role (snd iu))), (''staged'', JBool True)]"

definition oidc_identity :: "string \<Rightarrow> string option \<Rightarrow> nat \<times> paid_user \<Rightarrow> jsval option" where
  "oidc_identity tenantId issuer iu = map_option (\<lambda>subject. JObj
     [(''id'', numbered tenantId ''-oidc-'' (fst iu)), (''tenantId'', JStr tenantId), (''userId'', numbered tenantId ''-user-'' (fst iu)),
      (''issuer'', case issuer of Some s \<Rightarrow> JStr s | None \<Rightarrow> JUndef), (''subject'', JStr subject), (''staged'', JBool True)])
     (pu_oidcSubject (snd iu))"

definition provisioning_intake :: "string \<Rightarrow> provisioning_config \<Rightarrow> jsval" where
  "provisioning_intake tenantId c = JObj
    [(''id'', JStr (tenantId @ ''-blueprint-1'')), (''tenantId'', JStr tenantId), (''businessName'', JStr (pc_businessName c)),
     (''industry'', JStr ''construction''), (''serviceLine'', service_line), (''roles'', strings (map pu_role (pc_users c))),
     (''workflows'', strings [''field report capture'', ''human review'', ''share reports'']),
     (''painPoints'', strings [''manual field report compilation'', ''client status updates'']),
     (''portalRequirements'', strings [''approved reports only'', ''branded client portal'']),
     (''dashboardRequirements'', strings [''report status'']), (''aiAgentRequirements'', JArr []),
     (''documentReportingNeeds'', strings [''daily field reports'']), (''integrationNeeds'', JArr []),
     (''selectedModules'', strings [''field_reporting'', ''client_portal'']), (''staged'', JBool True)]"

definition portal_starter :: "string \<Rightarrow> provisioning_config \<Rightarrow> jsval \<Rightarrow> string \<Rightarrow> jsval" where
  "portal_starter tenantId c projectId createdAt = JObj
    [(''id'', JStr (tenantId @ ''-portal-starter'')), (''tenantId'', JStr tenantId), (''projectId'', projectId),
     (''welcomeMessage'', JStr (''Welcome to the '' @ pc_brandName c @ '' project portal.'')), (''approvedReports'', JArr []),
     (''updates'', JArr [JObj [(''id'', JStr (tenantId @ ''-portal-update-1'')), (''at'', JStr createdAt),
        (''message'', JStr (pc_brandName c @ '' staged portal provisioned.''))]]),
     (''staged'', JBool True)]"

definition tenant_id_of :: "provisioning_config \<Rightarrow> string" where
  "tenant_id_of c = ''tenant-'' @ pc_slug c"

definition provisioning_key :: "ctx \<Rightarrow> provisioning_config \<Rightarrow> string" where
  "provisioning_key cx c = ctx_sha256 cx (case json_stringify (config_value c) of Some t \<Rightarrow> t | None \<Rightarrow> [])"

definition buildStagedTenantProvisioning :: "ctx \<Rightarrow> (string \<Rightarrow> string \<Rightarrow> bool) \<Rightarrow> jsval \<Rightarrow> provisioning res" where
  "buildStagedTenantProvisioning cx collate input =
    and_then (normalizeProvisioningInput collate input) (\<lambda>config.
    let tenantId = tenant_id_of config; createdAt = ctx_now cx; numberedUsers = enumerate 0 (pc_users config) in
    and_then (createTenant cx (JObj [(''id'', JStr tenantId), (''name'', JStr (pc_businessName config)), (''staged'', JBool True),
        (''createdAt'', JStr createdAt)])) (\<lambda>tenant.
    and_then (map_res (tenant_user tenantId) numberedUsers) (\<lambda>users.
    and_then (createProject (JObj [(''id'', JStr (tenantId @ ''-project-1'')), (''tenantId'', JStr tenantId), (''name'', JStr (pc_projectName config)),
        (''projectType'', JStr ''commercial''), (''status'', JStr ''draft''), (''staged'', JBool True)])) (\<lambda>project.
    and_then (generatePlatformBlueprint (provisioning_intake tenantId config)) (\<lambda>blueprint.
    Inr \<lparr>pv_config = config, pv_provisioningKey = provisioning_key cx config, pv_tenant = tenant, pv_users = users,
      pv_roleAssignments = map (role_assignment tenantId) numberedUsers,
      pv_oidcIdentities = List.map_filter (oidc_identity tenantId (pc_oidcIssuer config)) numberedUsers,
      pv_businessProfile = JObj [(''id'', JStr (tenantId @ ''-business-profile'')), (''tenantId'', JStr tenantId),
        (''legalName'', JStr (pc_businessName config)), (''serviceLine'', service_line), (''staged'', JBool True)],
      pv_project = project, pv_blueprint = blueprint,
      pv_portalConfiguration = JObj [(''id'', JStr (tenantId @ ''-portal-config'')), (''tenantId'', JStr tenantId),
        (''brandName'', JStr (pc_brandName config)), (''primaryColor'', pc_primaryColor config), (''approvedContentOnly'', JBool True),
        (''staged'', JBool True)],
      pv_portalData = portal_starter tenantId config (fld project ''id'') createdAt,
      pv_provisioningEvent = JObj [(''id'', JStr (tenantId @ ''-provisioned'')), (''tenantId'', JStr tenantId),
        (''action'', JStr ''staged_tenant.provisioned''), (''createdAt'', JStr createdAt), (''staged'', JBool True)]\<rparr>)))))"

section \<open>The users of a configuration\<close>

lemma insert_user_mset: "mset (insert_user collate u us) = mset (u # us)"
  by (induction us) auto

lemma sort_users_mset: "mset (sort_users collate us) = mset us"
  by (induction us) (auto simp: sort_users_def insert_user_mset)

lemma sort_users_set: "set (sort_users collate us) = set us"
  using sort_users_mset by (metis set_mset_mset)

lemma sort_users_map: "mset (map f (sort_users collate us)) = mset (map f us)"
  by (simp add: sort_users_mset)

lemma nonblank_text: "nonblank v \<Longrightarrow> nonblank (JStr (js_trim (js_string v)))"
  by (cases v) (auto simp: nonblank_def js_trim_idem)

text \<open>
  What provisioning accepts has an owner, users with texts and known roles, each email and each subject once.
\<close>

definition users_ok :: "paid_user list \<Rightarrow> bool" where
  "users_ok us = (us \<noteq> [] \<and> (\<exists>u \<in> set us. pu_role u = ''client_owner'') \<and> distinct (map pu_email us) \<and> distinct (subjects_of us)
     \<and> list_all (\<lambda>u. nonblank (JStr (pu_email u)) \<and> nonblank (JStr (pu_displayName u)) \<and> pu_role u \<in> set paid_roles) us)"

lemma lower_blank: "js_trim (js_lower s) = [] \<longleftrightarrow> js_trim s = []"
  by (simp add: js_lower_trim) (simp add: js_lower_def)

lemma normalize_user_ok:
  assumes "normalize_user iu = Inr u"
  shows "nonblank (JStr (pu_email u)) \<and> nonblank (JStr (pu_displayName u)) \<and> pu_role u \<in> set paid_roles"
  using assms nonblank_text
  by (cases iu) (auto simp: normalize_user_def activation_requiredString_def guard_simps nonblank_def lower_blank split: if_splits)

lemma subjects_mset: "mset us = mset vs \<Longrightarrow> mset (subjects_of us) = mset (subjects_of vs)"
proof -
  have "mset (subjects_of us) = image_mset (\<lambda>u. the (pu_oidcSubject u)) (filter_mset (\<lambda>u. pu_oidcSubject u \<noteq> None) (mset us))" for us
    by (induction us) (auto simp: subjects_of_def List.map_filter_simps)
  then show "mset us = mset vs \<Longrightarrow> mset (subjects_of us) = mset (subjects_of vs)" by simp
qed

lemma users_ok_mset: "mset us = mset vs \<Longrightarrow> users_ok us = users_ok vs"
proof -
  assume same: "mset us = mset vs"
  have "distinct (map pu_email us) = distinct (map pu_email vs)"
    using same by (metis mset_map mset_eq_imp_distinct_iff)
  moreover have "distinct (subjects_of us) = distinct (subjects_of vs)"
    using subjects_mset [OF same] by (rule mset_eq_imp_distinct_iff)
  moreover have sets: "set us = set vs" using same by (rule mset_eq_setD)
  moreover have "us = [] \<longleftrightarrow> vs = []" using sets by (metis set_empty)
  ultimately show "users_ok us = users_ok vs" by (simp add: users_ok_def list_all_iff)
qed

lemma normalizeUsers_form:
  assumes "normalizeUsers collate users = Inr us"
  shows "\<exists>xs ns. users = JArr xs \<and> map_res normalize_user (enumerate 0 xs) = Inr ns \<and> us = sort_users collate ns \<and> users_ok ns"
proof -
  obtain x xs where users: "users = JArr (x # xs)"
    using assms by (auto simp: normalizeUsers_def split: jsval.splits list.splits)
  then obtain ns where ns: "map_res normalize_user (enumerate 0 (x # xs)) = Inr ns" "us = sort_users collate ns"
      "\<exists>v \<in> set ns. pu_role v = ''client_owner''" "distinct (map pu_email ns)" "distinct (subjects_of ns)"
    using assms by (auto simp: normalizeUsers_def guard_simps simp del: enumerate_simps)
  then have "users_ok ns"
    using map_res_member [OF ns(1)] normalize_user_ok by (fastforce simp: users_ok_def list_all_iff)
  then show ?thesis using users ns by blast
qed

lemma normalizeUsers_ok: "normalizeUsers collate users = Inr us \<Longrightarrow> users_ok us"
  using normalizeUsers_form users_ok_mset sort_users_mset by metis

section \<open>The result does not depend on the order of the users\<close>

lemma insert_user_sorted:
  assumes "transp collate" "totalp collate" "reflp collate" "sorted_wrt (\<lambda>u v. collate (pu_email u) (pu_email v)) us"
  shows "sorted_wrt (\<lambda>u v. collate (pu_email u) (pu_email v)) (insert_user collate u us)"
  using assms(4)
proof (induction us)
  case (Cons v vs)
  have members: "set (insert_user collate u vs) = insert u (set vs)"
    using insert_user_mset [of collate u vs] by (metis set_mset_mset list.simps(15))
  show ?case
  proof (cases "collate (pu_email u) (pu_email v)")
    case True
    then show ?thesis using Cons.prems assms(1) by (auto dest: transpD)
  next
    case False
    then have "collate (pu_email v) (pu_email u)"
      using assms(2,3) by (metis reflpD totalpD)
    then show ?thesis using False Cons members by auto
  qed
qed simp

lemma sort_users_sorted:
  assumes "transp collate" "totalp collate" "reflp collate"
  shows "sorted_wrt (\<lambda>u v. collate (pu_email u) (pu_email v)) (sort_users collate us)"
  unfolding sort_users_def by (induction us) (simp_all add: insert_user_sorted [OF assms])

lemma sorted_unique:
  assumes "antisymp collate" "mset us = mset vs" "distinct (map pu_email us)"
    and "sorted_wrt (\<lambda>u v. collate (pu_email u) (pu_email v)) us" "sorted_wrt (\<lambda>u v. collate (pu_email u) (pu_email v)) vs"
  shows "us = vs"
  using assms(2-)
proof (induction us arbitrary: vs)
  case (Cons u us)
  obtain v vs' where vs: "vs = v # vs'" using Cons.prems(1) by (cases vs) auto
  have dv: "distinct (map pu_email vs)" using Cons.prems(1,2) by (metis mset_map mset_eq_imp_distinct_iff)
  have sets: "insert u (set us) = insert v (set vs')" using Cons.prems(1) vs by (metis list.simps(15) mset_eq_setD)
  have "u = v"
  proof (rule ccontr)
    assume "u \<noteq> v"
    then have "v \<in> set us" "u \<in> set vs'" using sets by auto
    then have "collate (pu_email u) (pu_email v)" "collate (pu_email v) (pu_email u)" using Cons.prems(3,4) vs by auto
    then have "pu_email u = pu_email v" using assms(1) by (metis antisympD)
    then show False using \<open>v \<in> set us\<close> Cons.prems(2) by (metis distinct.simps(2) image_eqI list.simps(9) set_map)
  qed
  then show ?case using Cons vs by auto
qed simp

text \<open>
  Listing the users of a client in another order makes no difference: two requests that are accepted and whose users
  normalise to the same ones have the same configuration of users, hence, with the other texts equal, the same key, so that
  provisioning again is recognised. The comparison of emails is a total order.
\<close>

theorem user_order_irrelevant:
  assumes "transp collate" "totalp collate" "reflp collate" "antisymp collate"
    and "normalizeUsers collate (JArr xs) = Inr us" "normalizeUsers collate (JArr ys) = Inr vs"
    and "map_res normalize_user (enumerate 0 xs) = Inr ns" "map_res normalize_user (enumerate 0 ys) = Inr ms" "mset ns = mset ms"
  shows "us = vs \<and> provisioning_key cx (c\<lparr>pc_users := us\<rparr>) = provisioning_key cx (c\<lparr>pc_users := vs\<rparr>)"
proof -
  have us: "us = sort_users collate ns" "users_ok ns" using normalizeUsers_form [OF assms(5)] assms(7) by auto
  have vs: "vs = sort_users collate ms" using normalizeUsers_form [OF assms(6)] assms(8) by auto
  have "mset us = mset vs" using us vs assms(9) by (simp add: sort_users_mset)
  moreover have "distinct (map pu_email us)"
    using users_ok_mset [of us ns] us by (simp add: sort_users_mset users_ok_def)
  ultimately have "us = vs"
    using sorted_unique [OF assms(4)] sort_users_sorted [OF assms(1-3)] us vs by metis
  then show ?thesis by simp
qed

definition demo_owner :: jsval where
  "demo_owner = JObj [(''email'', JStr ''A@x.io''), (''displayName'', JStr ''Ann''), (''role'', JStr ''client_owner'')]"

definition demo_staff :: jsval where
  "demo_staff = JObj [(''email'', JStr ''b@x.io''), (''displayName'', JStr ''Bo''), (''role'', JStr ''client_staff''), (''oidcSubject'', JStr ''s-1'')]"

definition demo_normal :: "paid_user list" where
  "demo_normal = [\<lparr>pu_email = ''a@x.io'', pu_displayName = ''Ann'', pu_role = ''client_owner'', pu_oidcSubject = None\<rparr>,
     \<lparr>pu_email = ''b@x.io'', pu_displayName = ''Bo'', pu_role = ''client_staff'', pu_oidcSubject = Some ''s-1''\<rparr>]"

lemma demo_orders:
  "normalizeUsers (\<le>) (JArr [demo_owner, demo_staff]) = Inr demo_normal" "normalizeUsers (\<le>) (JArr [demo_staff, demo_owner]) = Inr demo_normal"
  "map_res normalize_user (enumerate 0 [demo_owner, demo_staff]) = Inr demo_normal"
  "map_res normalize_user (enumerate 0 [demo_staff, demo_owner]) = Inr (rev demo_normal)"
  by code_simp+

definition demo_provisioning_ctx :: ctx where
  "demo_provisioning_ctx = \<lparr>ctx_uuid = (\<lambda>n. ''u''), ctx_now = ''2026-01-01T00:00:00.000Z'', ctx_sha256 = (\<lambda>s. s), ctx_hmac = (\<lambda>k s. s)\<rparr>"

definition demo_client :: "paid_user list \<Rightarrow> provisioning_config" where
  "demo_client us = \<lparr>pc_slug = ''acme-1'', pc_businessName = ''Acme'', pc_projectName = ''P'', pc_brandName = ''Acme'', pc_primaryColor = JStr ''#17324d'',
     pc_users = us, pc_oidcIssuer = Some ''https://idp''\<rparr>"

lemma user_order_irrelevant_witness:
  "\<exists>us. normalizeUsers (\<le>) (JArr [demo_staff, demo_owner]) = Inr us
    \<and> provisioning_key demo_provisioning_ctx (demo_client demo_normal) = provisioning_key demo_provisioning_ctx (demo_client us)"
proof -
  have "demo_normal = demo_normal \<and> provisioning_key demo_provisioning_ctx ((demo_client [])\<lparr>pc_users := demo_normal\<rparr>)
      = provisioning_key demo_provisioning_ctx ((demo_client [])\<lparr>pc_users := demo_normal\<rparr>)"
    by (rule user_order_irrelevant [OF _ _ _ _ demo_orders]) (simp_all add: transp_def totalp_on_def reflp_def antisymp_def, auto)
  then show ?thesis using demo_orders(2) by (auto simp: demo_client_def)
qed

section \<open>What is provisioned\<close>

lemma nonblank_start: "\<not> js_ws c \<Longrightarrow> nonblank (JStr (c # s))"
proof -
  assume "\<not> js_ws c"
  then have "c \<in> set (rev (c # s))" "\<not> js_ws c" by simp_all
  then have "dropWhile js_ws (rev (c # s)) \<noteq> []" by (metis dropWhile_eq_Nil_conv)
  then show ?thesis using \<open>\<not> js_ws c\<close> by (simp add: nonblank_def js_trim_def)
qed

lemma map_res_all: "(\<And>x. x \<in> set xs \<Longrightarrow> f x = Inr (g x)) \<Longrightarrow> map_res f xs = Inr (map g xs)"
  by (induction xs) auto

definition of_client :: "string \<Rightarrow> jsval \<Rightarrow> bool" where
  "of_client tenantId v = (fld v ''tenantId'' = JStr tenantId \<and> fld v ''staged'' = JBool True)"

definition user_record :: "string \<Rightarrow> nat \<times> paid_user \<Rightarrow> jsval" where
  "user_record tenantId iu = JObj
     [(''id'', numbered tenantId ''-user-'' (fst iu)), (''tenantId'', JStr tenantId), (''email'', JStr (pu_email (snd iu))),
      (''displayName'', JStr (pu_displayName (snd iu))), (''staged'', JBool True), (''status'', JStr ''active'')]"

lemma tenant_text: "nonblank (JStr (tenant_id_of c @ s))" "nonblank (JStr (tenant_id_of c))"
proof -
  have "\<not> js_ws CHR ''t''" by (simp add: js_ws_def)
  then show "nonblank (JStr (tenant_id_of c @ s))" "nonblank (JStr (tenant_id_of c))"
    by (simp_all add: tenant_id_of_def nonblank_start)
qed

lemma tenant_user_made:
  "users_ok us \<Longrightarrow> iu \<in> set (enumerate 0 us) \<Longrightarrow> tenant_user (tenant_id_of c) iu = Inr (user_record (tenant_id_of c) iu)"
proof -
  assume ok: "users_ok us" and member: "iu \<in> set (enumerate 0 us)"
  then have "snd iu \<in> set us" by (cases iu) (auto simp: in_set_enumerate_eq)
  then have "nonblank (JStr (pu_email (snd iu)))" "nonblank (JStr (pu_displayName (snd iu)))"
    using ok by (auto simp: users_ok_def list_all_iff)
  then show ?thesis
    using tenant_text by (simp add: tenant_user_def createUser_def numbered_def user_record_def guard_all coalesce_def nullish_def)
qed

lemma normalized_config:
  assumes "normalizeProvisioningInput collate input = Inr c"
  shows "users_ok (pc_users c) \<and> nonblank (JStr (pc_businessName c)) \<and> nonblank (JStr (pc_projectName c)) \<and> slug_shape (pc_slug c)
    \<and> (subjects_of (pc_users c) \<noteq> [] \<longrightarrow> pc_oidcIssuer c \<noteq> None)"
  using assms normalizeUsers_ok nonblank_text
  by (fastforce simp: normalizeProvisioningInput_def assertSlug_def activation_requiredString_def guard_simps split: if_splits)

lemma oidc_subjects:
  "map (\<lambda>i. fld i ''subject'') (List.map_filter (oidc_identity t iss) (enumerate n us)) = map JStr (subjects_of us)"
  by (induction us arbitrary: n) (auto simp: subjects_of_def List.map_filter_simps oidc_identity_def split: option.split)

lemma map_filter_member: "y \<in> set (List.map_filter f xs) \<longleftrightarrow> (\<exists>x \<in> set xs. f x = Some y)"
  by (induction xs) (auto simp: List.map_filter_simps split: option.split)

lemma enumerate_snd: "map (\<lambda>iu. f (snd iu)) (enumerate n us) = map f us"
  by (induction us arbitrary: n) auto

lemma numbered_distinct: "distinct (map (\<lambda>iu. numbered t what (fst iu)) (enumerate n us))"
proof -
  have "inj_on (numbered t what) A" for A by (auto simp: inj_on_def numbered_def nat_string_inj)
  then have "distinct (map (numbered t what) (map fst (enumerate n us)))" by (simp add: distinct_map)
  then show ?thesis by (simp only: map_map comp_def)
qed

text \<open>
  A request that is accepted is provisioned: every record belongs to the tenant of the slug and is staged, every user has an
  own identifier and exactly one role, there is an owner, identities of the provider refer to users and have an issuer and
  different subjects, and the portal starts without reports and shows approved content only.
\<close>

theorem provisioning_complete:
  assumes "normalizeProvisioningInput collate input = Inr c"
  shows "\<exists>p. buildStagedTenantProvisioning cx collate input = Inr p
    \<and> map (\<lambda>u. fld u ''email'') (pv_users p) = map (\<lambda>u. JStr (pu_email u)) (pc_users c) \<and> distinct (map (\<lambda>u. fld u ''id'') (pv_users p))
    \<and> map (\<lambda>a. fld a ''userId'') (pv_roleAssignments p) = map (\<lambda>u. fld u ''id'') (pv_users p)
    \<and> (\<exists>a \<in> set (pv_roleAssignments p). fld a ''role'' = JStr ''client_owner'')
    \<and> (\<forall>i \<in> set (pv_oidcIdentities p). (\<exists>s. pc_oidcIssuer c = Some s \<and> fld i ''issuer'' = JStr s)
         \<and> (\<exists>u \<in> set (pv_users p). fld u ''id'' = fld i ''userId''))
    \<and> distinct (map (\<lambda>i. fld i ''subject'') (pv_oidcIdentities p))
    \<and> fld (pv_tenant p) ''id'' = JStr (tenant_id_of c)
    \<and> list_all (of_client (tenant_id_of c)) (pv_users p @ pv_roleAssignments p @ pv_oidcIdentities p
         @ [pv_businessProfile p, pv_project p, pv_blueprint p, pv_portalConfiguration p, pv_portalData p, pv_provisioningEvent p])
    \<and> fld (pv_portalData p) ''approvedReports'' = JArr [] \<and> fld (pv_portalConfiguration p) ''approvedContentOnly'' = JBool True"
proof -
  let ?t = "tenant_id_of c"
  note c = normalized_config [OF assms]
  have users: "map_res (tenant_user ?t) (enumerate 0 (pc_users c)) = Inr (map (user_record ?t) (enumerate 0 (pc_users c)))"
    using c by (intro map_res_all tenant_user_made) auto
  obtain tenant where tenant: "createTenant cx (JObj [(''id'', JStr ?t), (''name'', JStr (pc_businessName c)), (''staged'', JBool True),
        (''createdAt'', JStr (ctx_now cx))]) = Inr tenant" "fld tenant ''id'' = JStr ?t"
    using c tenant_text by (simp add: createTenant_def guard_all)
  obtain project where project: "createProject (JObj [(''id'', JStr (?t @ ''-project-1'')), (''tenantId'', JStr ?t), (''name'', JStr (pc_projectName c)),
        (''projectType'', JStr ''commercial''), (''status'', JStr ''draft''), (''staged'', JBool True)]) = Inr project" "of_client ?t project"
    using c tenant_text by (simp add: createProject_def guard_all of_client_def)
  have "nonblank (JStr ''construction'')" "one_of industry_set (JStr ''construction'')"
    by (simp_all add: nonblank_start js_ws_def one_of_def industry_set_def)
  then obtain intake where intake: "createBlueprintIntake (provisioning_intake ?t c) = Inr intake"
    using c tenant_text by (simp add: createBlueprintIntake_def provisioning_intake_def guard_all)
  then obtain bp where bp: "generatePlatformBlueprint (provisioning_intake ?t c) = Inr bp" using generate_total by blast
  have "fld intake ''tenantId'' = JStr ?t"
    using intake by (auto simp: createBlueprintIntake_def provisioning_intake_def guard_simps)
  then have own: "of_client ?t bp"
    using bp intake by (auto simp: generatePlatformBlueprint_def guard_simps of_client_def Let_def)
  let ?n = "enumerate 0 (pc_users c)"
  obtain p where p: "buildStagedTenantProvisioning cx collate input = Inr p" "pv_users p = map (user_record ?t) ?n"
      "pv_roleAssignments p = map (role_assignment ?t) ?n" "pv_oidcIdentities p = List.map_filter (oidc_identity ?t (pc_oidcIssuer c)) ?n"
      "pv_tenant p = tenant" "pv_project p = project" "pv_blueprint p = bp"
      "list_all (of_client ?t) [pv_businessProfile p, pv_portalConfiguration p, pv_portalData p, pv_provisioningEvent p]"
      "fld (pv_portalData p) ''approvedReports'' = JArr []" "fld (pv_portalConfiguration p) ''approvedContentOnly'' = JBool True"
    using assms users tenant(1) project(1) bp
    by (simp add: buildStagedTenantProvisioning_def Let_def of_client_def portal_starter_def)
  have members: "snd iu \<in> set (pc_users c)" if "iu \<in> set ?n" for iu
    using that by (simp add: in_set_enumerate_eq) (metis nth_mem)
  have identity: "(\<exists>s. pc_oidcIssuer c = Some s \<and> fld i ''issuer'' = JStr s) \<and> (\<exists>u \<in> set (pv_users p). fld u ''id'' = fld i ''userId'') \<and> of_client ?t i"
    if member: "i \<in> set (pv_oidcIdentities p)" for i
  proof -
    obtain iu where iu: "iu \<in> set ?n" "oidc_identity ?t (pc_oidcIssuer c) iu = Some i"
      using member unfolding p(4) map_filter_member by blast
    obtain s where s: "pu_oidcSubject (snd iu) = Some s" using iu(2) by (auto simp: oidc_identity_def)
    then have "s \<in> set (subjects_of (pc_users c))" using members [OF iu(1)] unfolding subjects_of_def map_filter_member by blast
    then have "subjects_of (pc_users c) \<noteq> []" by (metis empty_iff empty_set)
    then obtain iss where "pc_oidcIssuer c = Some iss" using c by blast
    moreover have "user_record ?t iu \<in> set (pv_users p)" using iu(1) p(2) by simp
    ultimately show ?thesis using iu(2) s by (auto simp: oidc_identity_def of_client_def user_record_def intro!: bexI [of _ "user_record ?t iu"])
  qed
  have owner: "\<exists>a \<in> set (pv_roleAssignments p). fld a ''role'' = JStr ''client_owner''"
  proof -
    obtain u where "u \<in> set (pc_users c)" "pu_role u = ''client_owner''" using c by (auto simp: users_ok_def)
    then obtain k where "k < length (pc_users c)" "pc_users c ! k = u" by (auto simp: in_set_conv_nth)
    then have "(k, u) \<in> set ?n" by (simp add: in_set_enumerate_eq)
    then have "role_assignment ?t (k, u) \<in> set (pv_roleAssignments p)" using p(3) by simp
    then show ?thesis using \<open>pu_role u = ''client_owner''\<close> by (auto simp: role_assignment_def intro!: bexI [of _ "role_assignment ?t (k, u)"])
  qed
  have "map (\<lambda>u. fld u ''email'') (pv_users p) = map (\<lambda>u. JStr (pu_email u)) (pc_users c)"
    using enumerate_snd [of "\<lambda>u. JStr (pu_email u)" 0 "pc_users c"] by (simp add: p(2) user_record_def comp_def)
  moreover have "distinct (map (\<lambda>u. fld u ''id'') (pv_users p))"
    using numbered_distinct [of ?t "''-user-''" 0 "pc_users c"] by (simp add: p(2) user_record_def comp_def)
  moreover have "map (\<lambda>a. fld a ''userId'') (pv_roleAssignments p) = map (\<lambda>u. fld u ''id'') (pv_users p)"
    by (simp add: p(2,3) user_record_def role_assignment_def comp_def)
  moreover have "distinct (map (\<lambda>i. fld i ''subject'') (pv_oidcIdentities p))"
    using c by (simp add: p(4) oidc_subjects users_ok_def distinct_map inj_on_def)
  moreover have "list_all (of_client ?t) (pv_users p @ pv_roleAssignments p @ pv_oidcIdentities p
         @ [pv_businessProfile p, pv_project p, pv_blueprint p, pv_portalConfiguration p, pv_portalData p, pv_provisioningEvent p])"
    using identity p(8) project(2) own p(6,7)
    by (auto simp: list_all_iff p(2,3) of_client_def user_record_def role_assignment_def)
  ultimately show ?thesis using p identity owner tenant(2) by (intro exI [of _ p]) simp
qed

definition demo_provisioning_input :: jsval where
  "demo_provisioning_input = JObj [(''staged'', JBool True), (''slug'', JStr ''acme-1''), (''businessName'', JStr ''Acme''), (''projectName'', JStr ''P''),
     (''oidcIssuer'', JStr ''https://idp''), (''users'', JArr [demo_staff, demo_owner])]"

lemma provisioning_complete_witness:
  "\<exists>p. buildStagedTenantProvisioning demo_provisioning_ctx (\<le>) demo_provisioning_input = Inr p \<and> fld (pv_tenant p) ''id'' = JStr ''tenant-acme-1''"
proof -
  have "isl (normalizeProvisioningInput (\<le>) demo_provisioning_input) = False" by code_simp
  then obtain c where c: "normalizeProvisioningInput (\<le>) demo_provisioning_input = Inr c" by (metis isl_def sum.exhaust_sel sum.collapse(2))
  have "(case normalizeProvisioningInput (\<le>) demo_provisioning_input of Inr c \<Rightarrow> tenant_id_of c | Inl e \<Rightarrow> []) = ''tenant-acme-1''" by code_simp
  then have "tenant_id_of c = ''tenant-acme-1''" by (simp add: c)
  then show ?thesis using provisioning_complete [OF c] by auto
qed

end
