(* ===== verification/ApiServer.thy ===== *)
theory ApiServer
  imports EmailWorker RateLimit Telemetry
begin

text \<open>
  The HTTP server of the API (apps/api/src/server.js) and the snapshots of the event stream (apps/api/src/realtime.js): the
  order in which a request meets the public endpoints, the drain switch, the rate limiter, the event stream, the size limit,
  the mail webhook and the authenticated API; and the readiness report over its dependencies. Sockets and timers are not
  modelled: a request comes with the chunks of its body that were read and whether its timer ran out first. The request
  identifier, the log lines and the count of requests in flight are left out.
\<close>

section \<open>Requests and the state of the server\<close>

record http_request =
  hr_method :: string
  hr_target :: string
  hr_headers :: jsval
  hr_remoteAddress :: jsval
  hr_chunks :: "string list"
  hr_timedOut :: bool
  hr_durationMs :: rat

record server =
  sv_api :: api
  sv_draining :: bool
  sv_buckets :: buckets
  sv_metrics :: metrics

text \<open>
  What the server is built with, and what a request meets: the time in milliseconds, the key set, the directory of identities,
  and what each dependency reports, in the order database, storage, outbox, mail, worker.
\<close>

record server_env =
  se_api :: api_env
  se_token :: token_env
  se_auth :: auth_config
  se_keys :: "jsval res"
  se_directory :: directory
  se_limits :: limits
  se_maxBodyBytes :: int
  se_emailTransport :: jsval
  se_webhookSecret :: jsval
  se_signature :: signature_check
  se_utf8 :: "string \<Rightarrow> string"
  se_now :: int
  se_reports :: "jsval res list"
  se_requireHealthy :: bool
  se_databaseLatencyMs :: int
  se_release :: jsval

abbreviation on_api :: "(api, 'a) act \<Rightarrow> (server, 'a) act" where
  "on_api m \<equiv> on_part sv_api (\<lambda>a s. s\<lparr>sv_api := a\<rparr>) m"

section \<open>Readiness\<close>

definition captured :: "jsval res \<Rightarrow> jsval" where
  "captured report = (case report of
     Inr readiness \<Rightarrow> readiness
   | Inl e \<Rightarrow> JObj [(''ready'', JBool False),
       (''reason'', JStr (case err_code e of Some c \<Rightarrow> c | None \<Rightarrow> ''dependency_not_ready''))])"

text \<open>A database that answers too slowly is not ready.\<close>

definition latency_checked :: "int \<Rightarrow> jsval \<Rightarrow> jsval" where
  "latency_checked maximumMs readiness =
    (if truthy (fld readiness ''ready'') \<and> num_less (JNum (of_int maximumMs)) (js_number (fld readiness ''latencyMs''))
     then spread readiness [(''ready'', JBool False), (''reason'', JStr ''database_latency_unhealthy'')] else readiness)"

definition dependency_names :: "string list" where
  "dependency_names = [''database'', ''storage'', ''outbox'', ''email_delivery'', ''worker'']"

text \<open>The order of the dependencies in the object the loops go over.\<close>

definition dependencies :: "server_env \<Rightarrow> (string \<times> jsval) list" where
  "dependencies env =
    (let of_name = (\<lambda>n. case map_of (zip dependency_names (map captured (se_reports env))) n of Some r \<Rightarrow> r | None \<Rightarrow> JUndef) in
     [(''database'', latency_checked (se_databaseLatencyMs env) (of_name ''database'')), (''storage'', of_name ''storage''),
      (''outbox'', of_name ''outbox''), (''worker'', of_name ''worker''), (''email_delivery'', of_name ''email_delivery'')])"

definition dependency :: "server_env \<Rightarrow> string \<Rightarrow> jsval" where
  "dependency env name = (case map_of (dependencies env) name of Some r \<Rightarrow> r | None \<Rightarrow> JUndef)"

definition number_or_zero :: "jsval \<Rightarrow> rat" where
  "number_or_zero v = (case js_number (coalesce v (JNum 0)) of JNum n \<Rightarrow> n | _ \<Rightarrow> 0)"

definition set_gauges :: "server_env \<Rightarrow> metrics \<Rightarrow> metrics" where
  "set_gauges env m =
    setGauge ''xygo_email_delivery_failures'' [] (number_or_zero (fld (dependency env ''email_delivery'') ''failures''))
     (setGauge ''xygo_outbox_backlog'' [] (number_or_zero (fld (dependency env ''outbox'') ''backlog''))
       (fold (\<lambda>(name, readiness). setGauge ''xygo_dependency_ready'' [(''dependency'', name)] (if is_true (fld readiness ''ready'') then 1 else 0))
         (dependencies env) m))"

definition draining :: js_error where
  "draining = JsError ''Server is draining.'' (Some ''server_draining'') None"

definition unhealthy :: "string \<times> jsval \<Rightarrow> js_error" where
  "unhealthy entry = JsError (fst entry @ '' readiness failed.'')
     (Some (js_string (coalesce (fld (snd entry) ''reason'') (JStr (fst entry @ ''_unhealthy''))))) None"

definition readiness_report :: "server_env \<Rightarrow> jsval res" where
  "readiness_report env =
    (case find isl (se_reports env) of
       Some (Inl e) \<Rightarrow> Inl e
     | _ \<Rightarrow> (case find (\<lambda>(name, readiness). \<not> is_true (fld readiness ''ready'')) (dependencies env) of
         Some entry \<Rightarrow> if se_requireHealthy env then Inl (unhealthy entry) else Inr JUndef
       | None \<Rightarrow> Inr JUndef))"

definition server_checkReadiness :: "server_env \<Rightarrow> (server, jsval) act" where
  "server_checkReadiness env =
    seq (reading sv_draining) (\<lambda>d.
    if d then from_res (Inl draining)
    else seq (writing (\<lambda>s. s\<lparr>sv_metrics := set_gauges env (sv_metrics s)\<rparr>)) (\<lambda>_.
      seq (from_res (readiness_report env)) (\<lambda>_.
      give (JObj [(''ready'', JBool True),
        (''api'', JObj [(''ready'', JBool True), (''release'', coalesce (se_release env) (JStr ''local''))]),
        (''database'', dependency env ''database''), (''storage'', dependency env ''storage''), (''outbox'', dependency env ''outbox''),
        (''worker'', dependency env ''worker''), (''emailDelivery'', dependency env ''email_delivery'')]))))"

definition ready_endpoint :: "server_env \<Rightarrow> (server, response) act" where
  "ready_endpoint env =
    attempt (seq (server_checkReadiness env) (\<lambda>readiness. give (json 200 (spread readiness [(''staged'', JBool True)]))))
     (\<lambda>e. give (json 503 (JObj [(''ready'', JBool False),
        (''reason'', JStr (case err_code e of Some c \<Rightarrow> c | None \<Rightarrow> ''dependency_not_ready'')), (''staged'', JBool True)])))"

definition metrics_endpoint :: "server_env \<Rightarrow> (server, response) act" where
  "metrics_endpoint env =
    seq (attempt (server_checkReadiness env) (\<lambda>_. give JNull)) (\<lambda>_.
    seq (reading sv_metrics) (\<lambda>m.
    give \<lparr>rs_status = 200, rs_headers = baseResponseHeaders [(''content-type'', ''text/plain; version=0.0.4'')], rs_body = JStr (render_metrics m)\<rparr>))"

section \<open>Authentication and the event stream\<close>

text \<open>The errors of the class AuthError are the ones with its codes.\<close>

definition auth_error_codes :: "string list" where
  "auth_error_codes =
    [''ambiguous_key'', ''audience_mismatch'', ''bad_signature'', ''config_error'', ''disallowed_alg'', ''identity_ambiguous'',
     ''identity_invalid'', ''identity_not_provisioned'', ''invalid_expiration'', ''invalid_key'', ''invalid_not_before'', ''issuer_mismatch'',
     ''jwks_empty'', ''jwks_invalid'', ''jwks_unavailable'', ''key_alg_mismatch'', ''malformed_token'', ''missing_key_id'', ''missing_subject'',
     ''missing_token'', ''token_expired'', ''token_not_yet_valid'', ''unknown_key'', ''unsafe_config'', ''unsupported_alg'', ''verification_config'']"

definition authErrorResponse :: "js_error \<Rightarrow> response" where
  "authErrorResponse e = json 401 (JObj [(''error'', JStr ''unauthorized''), (''message'', JStr (err_message e)),
     (''code'', case err_code e of Some c \<Rightarrow> JStr c | None \<Rightarrow> JUndef), (''staged'', JBool True)])"

definition failed_request :: "string \<Rightarrow> js_error \<Rightarrow> response" where
  "failed_request message e =
    (if (\<exists>c \<in> set auth_error_codes. err_code e = Some c) then authErrorResponse e else refusal 500 ''internal_error'' message)"

definition principal_of :: "server_env \<Rightarrow> jsval \<Rightarrow> query \<Rightarrow> bool \<Rightarrow> jsval res" where
  "principal_of env headers query allowQueryAuth =
    resolvePrincipal (se_token env) headers (if allowQueryAuth then Some query else None) (se_auth env) (se_keys env) (se_directory env)
      allowQueryAuth (JNum (of_int (se_now env)))"

definition buildTenantEventSnapshot :: "string \<Rightarrow> repo \<Rightarrow> jsval" where
  "buildTenantEventSnapshot tenantId r =
    (let count = (\<lambda>list. JNum (of_nat (length (list r (JStr tenantId))))) in
     JObj [(''tenantId'', JStr tenantId), (''projects'', count listProjectsByTenant), (''issues'', count listIssuesByTenant),
       (''rfis'', count listRfisByTenant), (''permitPackages'', count listPermitPackagesByTenant),
       (''reviewSessions'', count listReviewSessionsByTenant), (''aiReviewRuns'', count listAiReviewRunsByTenant),
       (''aiFindings'', count listAiFindingsByTenant), (''staged'', JBool True)])"

definition stream_tenant :: "string \<Rightarrow> string \<Rightarrow> string option" where
  "stream_tenant verb path =
    (case splitPath path of
       a # b # tenantId # c # d # rest \<Rightarrow>
         if verb = ''GET'' \<and> a = ''v1'' \<and> b = ''tenants'' \<and> c = ''events'' \<and> d = ''stream'' then Some tenantId else None
     | _ \<Rightarrow> None)"

definition event_stream_headers :: "(string \<times> string) list" where
  "event_stream_headers = [(''content-type'', ''text/event-stream''), (''cache-control'', ''no-cache''), (''connection'', ''keep-alive'')]"

definition open_stream :: "server_env \<Rightarrow> jsval \<Rightarrow> query \<Rightarrow> string \<Rightarrow> (server, response) act" where
  "open_stream env headers query tenantId =
    attempt (seq (from_res (principal_of env headers query True)) (\<lambda>who.
      if \<not> truthy (fld who ''tenantId'') \<or> \<not> strict_eq (fld who ''tenantId'') (JStr tenantId)
      then give (forbidden ''Tenant access denied.'')
      else seq (reading (\<lambda>s. api_repo (sv_api s))) (\<lambda>r.
        give \<lparr>rs_status = 200, rs_headers = baseResponseHeaders event_stream_headers,
          rs_body = JStr (formatSseEvent ''snapshot'' (buildTenantEventSnapshot tenantId r))\<rparr>)))
     (\<lambda>e. give (failed_request ''Stream setup failed.'' e))"

section \<open>Bodies\<close>

definition file_content_path :: "string \<Rightarrow> string \<Rightarrow> bool" where
  "file_content_path verb path =
    (verb = ''PUT'' \<and> (case split CHR ''/'' path of
       [e, v, t, tenantId, f, fileId, c] \<Rightarrow>
         e = [] \<and> v = ''v1'' \<and> t = ''tenants'' \<and> tenantId \<noteq> [] \<and> f = ''files'' \<and> fileId \<noteq> [] \<and> c = ''content''
     | _ \<Rightarrow> False))"

definition requestBodyLimit :: "server_env \<Rightarrow> string \<Rightarrow> string \<Rightarrow> int" where
  "requestBodyLimit env verb path =
    (if file_content_path verb path
     then (case ae_storage (se_api env) of Inr st \<Rightarrow> sc_maxFileBytes (storage_configuration st) | Inl _ \<Rightarrow> se_maxBodyBytes env)
     else se_maxBodyBytes env)"

text \<open>Chunks are taken until their sizes pass the limit; then the rest of the body is not looked at.\<close>

fun read_chunks :: "int \<Rightarrow> int \<Rightarrow> string list \<Rightarrow> string option" where
  "read_chunks maximumBytes received [] = Some []"
| "read_chunks maximumBytes received (c # cs) =
    (let total = received + int (length c) in
     if maximumBytes < total then None else map_option ((@) c) (read_chunks maximumBytes total cs))"

definition body_of :: "server_env \<Rightarrow> http_request \<Rightarrow> string \<Rightarrow> string \<Rightarrow> req_body" where
  "body_of env hr path content =
    (if file_content_path (hr_method hr) path then BinaryBody content
     else if hr_chunks hr = [] then NoBody else TextBody (se_utf8 env content))"

definition body_text :: "req_body \<Rightarrow> jsval" where
  "body_text body = (case body of TextBody s \<Rightarrow> JStr s | BinaryBody s \<Rightarrow> JStr s | _ \<Rightarrow> JStr [])"

section \<open>The pipeline\<close>

text \<open>A body that is a buffer is sent with its own headers, any other as JSON.\<close>

definition send_result :: "response \<Rightarrow> response" where
  "send_result r = (case rs_body r of
     JStr _ \<Rightarrow> r
   | _ \<Rightarrow> r\<lparr>rs_headers := baseResponseHeaders ((''content-type'', ''application/json'') # rs_headers r)\<rparr>)"

definition rateLimitKey :: "http_request \<Rightarrow> string" where
  "rateLimitKey hr = js_string (coalesce (fld (hr_headers hr) ''x-staged-tenant-id'') (coalesce (fld (hr_headers hr) ''authorization'')
     (coalesce (hr_remoteAddress hr) (JStr ''anonymous''))))"

definition rate_limited :: "decision \<Rightarrow> response" where
  "rate_limited d =
    \<lparr>rs_status = 429, rs_headers = baseResponseHeaders [(''content-type'', ''application/json''), (''retry-after'', int_string (retryAfterSec d)),
       (''x-ratelimit-limit'', int_string (limit d)), (''x-ratelimit-remaining'', int_string (remaining d))],
     rs_body = JObj [(''error'', JStr ''rate_limited''), (''message'', JStr ''Too many requests.''), (''staged'', JBool True)]\<rparr>"

definition limited :: "server_env \<Rightarrow> http_request \<Rightarrow> (server, decision) act" where
  "limited env hr s =
    (let (bs, d) = rate_check (se_limits env) (rateLimitKey hr) (se_now env) (sv_buckets s) in (s\<lparr>sv_buckets := bs\<rparr>, Inr d))"

definition webhook_endpoint :: "server_env \<Rightarrow> jsval \<Rightarrow> req_body \<Rightarrow> (server, response) act" where
  "webhook_endpoint env headers body =
    (if js_lower (js_string (coalesce (se_emailTransport env) (JStr ''sink''))) \<noteq> ''resend''
     then give (notFound ''Email webhook is not configured.'')
     else attempt (seq (on_api (on_repo (handleEmailWebhook (ae_mail (se_api env)) (se_signature env) (body_text body) headers
              (se_webhookSecret env) (ae_signingKey (se_api env)))))
            (\<lambda>(status, answer). give (json status answer)))
       (\<lambda>e. give (refusal 500 ''internal_error'' ''Email webhook processing failed.'')))"

definition api_request :: "server_env \<Rightarrow> http_request \<Rightarrow> req_body \<Rightarrow> jsval \<Rightarrow> request" where
  "api_request env hr body who =
    \<lparr>rq_method = hr_method hr, rq_path = hr_target hr, rq_headers = hr_headers hr, rq_body = body, rq_principal = who,
     rq_oidc = (ac_mode (se_auth env) = ''oidc'')\<rparr>"

definition api_endpoint :: "server_env \<Rightarrow> http_request \<Rightarrow> req_body \<Rightarrow> (server, response) act" where
  "api_endpoint env hr body =
    attempt (seq (from_res (principal_of env (hr_headers hr) (\<lambda>_. None) False)) (\<lambda>who.
      seq (on_api (handleApiRequest (se_api env) (api_request env hr body who))) (\<lambda>r. give (send_result r))))
     (\<lambda>e. give (failed_request ''Staged runtime failed to process the request.'' e))"

definition body_endpoint :: "server_env \<Rightarrow> http_request \<Rightarrow> string \<Rightarrow> (server, response) act" where
  "body_endpoint env hr path =
    (case read_chunks (requestBodyLimit env (hr_method hr) path) 0 (hr_chunks hr) of
       None \<Rightarrow> give (refusal 413 ''payload_too_large'' ''Request body exceeds limit.'')
     | Some content \<Rightarrow>
         if hr_timedOut hr then give (refusal 408 ''request_timeout'' ''Request timed out.'')
         else let body = body_of env hr path content in
           if hr_method hr = ''POST'' \<and> path = ''/webhooks/email'' then webhook_endpoint env (hr_headers hr) body
           else api_endpoint env hr body)"

definition serve_http :: "server_env \<Rightarrow> http_request \<Rightarrow> (server, response) act" where
  "serve_http env hr =
    (if hr_method hr = ''OPTIONS'' then give \<lparr>rs_status = 204, rs_headers = cors_headers, rs_body = JUndef\<rparr>
     else case ae_url (se_api env) (hr_target hr) of
       None \<Rightarrow> from_res (Inl (JsError ''Invalid URL'' (Some ''ERR_INVALID_URL'') None))
     | Some (path, query) \<Rightarrow>
         if hr_method hr = ''GET'' \<and> path = ''/health'' then give (item_response 200 [(''status'', JStr ''ok'')])
         else if hr_method hr = ''GET'' \<and> path = ''/ready'' then ready_endpoint env
         else if hr_method hr = ''GET'' \<and> path = ''/metrics'' then metrics_endpoint env
         else seq (reading sv_draining) (\<lambda>d.
           if d then give (unavailable ''shutting_down'' ''Server is draining.'')
           else seq (limited env hr) (\<lambda>decision.
             if \<not> allowed decision
             then seq (writing (\<lambda>s. s\<lparr>sv_metrics := metric_inc ''xygo_rate_limited_total'' [] 1 (sv_metrics s)\<rparr>)) (\<lambda>_. give (rate_limited decision))
             else (case stream_tenant (hr_method hr) path of
                Some tenantId \<Rightarrow> open_stream env (hr_headers hr) query tenantId
              | None \<Rightarrow> body_endpoint env hr path))))"

text \<open>A finished answer is counted.\<close>

definition http_exchange :: "server_env \<Rightarrow> http_request \<Rightarrow> (server, response) act" where
  "http_exchange env hr =
    seq (serve_http env hr) (\<lambda>r.
    seq (writing (\<lambda>s. s\<lparr>sv_metrics := recordRequest \<lparr>sm_method = hr_method hr, sm_status = rs_status r, sm_durationMs = Some (hr_durationMs hr)\<rparr> (sv_metrics s)\<rparr>))
      (\<lambda>_. give r))"

definition beginShutdown :: "(server, unit) act" where
  "beginShutdown = writing (\<lambda>s. s\<lparr>sv_draining := True\<rparr>)"

section \<open>Every request is answered\<close>

definition answers :: "('s, 'a) act \<Rightarrow> bool" where
  "answers m = (\<forall>s. \<exists>s' v. m s = (s', Inr v))"

lemma answering_simps [simp]:
  "answers (give v)" "answers (reading f)" "answers (writing g)"
  by (simp_all add: answers_def)

lemma answers_seq: "answers m \<Longrightarrow> (\<And>v. answers (f v)) \<Longrightarrow> answers (seq m f)"
  unfolding answers_def seq_def by (metis (no_types, lifting) case_prod_conv old.sum.simps(6))

lemma answers_attempt: "(\<And>e. answers (h e)) \<Longrightarrow> answers (attempt m h)"
  by (auto simp: answers_def attempt_def split: prod.splits sum.splits)

lemma answers_limited: "answers (limited env hr)"
  by (simp add: answers_def limited_def split_beta)

lemmas answers_intros = answers_seq answers_attempt answers_limited answering_simps

lemma body_answered: "answers (body_endpoint env hr path)"
  unfolding body_endpoint_def webhook_endpoint_def api_endpoint_def Let_def
  by (auto intro!: answers_intros split: option.splits)

text \<open>
  Every request whose target can be parsed is answered, whatever the identity provider, the repository and the
  dependencies report.
\<close>

theorem parsed_request_answered:
  assumes "ae_url (se_api env) (hr_target hr) \<noteq> None"
  shows "\<exists>s' a. http_exchange env hr s = (s', Inr a)"
proof -
  have "answers (serve_http env hr)"
    unfolding serve_http_def ready_endpoint_def metrics_endpoint_def open_stream_def
    using assms body_answered by (auto intro!: answers_intros split: option.splits)
  then have "answers (http_exchange env hr)" unfolding http_exchange_def by (auto intro!: answers_intros)
  then show ?thesis by (simp add: answers_def)
qed

section \<open>What a request may change\<close>

interpretation api_kept: change "\<lambda>s s'. sv_api s' = sv_api s"
  by unfold_locales simp_all

lemma kept_readiness: "api_kept.stays_in (server_checkReadiness env)"
  unfolding server_checkReadiness_def
  by (auto intro!: api_kept.stays_in_seq api_kept.stays_in_give api_kept.stays_in_writing)

lemma kept_public: "api_kept.stays_in (ready_endpoint env)" "api_kept.stays_in (metrics_endpoint env)" "api_kept.stays_in (open_stream env headers query t)"
  unfolding ready_endpoint_def metrics_endpoint_def open_stream_def
  by (auto intro!: api_kept.stays_in_seq api_kept.stays_in_attempt api_kept.stays_in_give kept_readiness)

lemma on_api_run: "on_api m s = (let (a, r) = m (sv_api s) in (s\<lparr>sv_api := a\<rparr>, r))"
  by (simp add: on_part_def split_beta)

lemma api_endpoint_change:
  "sv_api (fst (api_endpoint env hr body s)) = sv_api s
   \<or> (\<exists>p. principal_of env (hr_headers hr) (\<lambda>_. None) False = Inr p
        \<and> sv_api (fst (api_endpoint env hr body s)) = fst (handleApiRequest (se_api env) (api_request env hr body p) (sv_api s)))"
proof (cases "principal_of env (hr_headers hr) (\<lambda>_. None) False")
  case (Inl e)
  then show ?thesis by (simp add: api_endpoint_def attempt_def)
next
  case (Inr p)
  obtain a r where "handleApiRequest (se_api env) (api_request env hr body p) (sv_api s) = (a, Inr r)" using handle_answers by blast
  then show ?thesis using Inr by (simp add: api_endpoint_def attempt_def seq_def on_part_def)
qed

lemma webhook_endpoint_change:
  assumes "sv_api (fst (webhook_endpoint env headers body s)) \<noteq> sv_api s"
  shows "\<exists>event. verifyResendWebhook (ae_mail (se_api env)) (se_signature env) (body_text body) headers (se_webhookSecret env) = Inr event"
proof (cases "verifyResendWebhook (ae_mail (se_api env)) (se_signature env) (body_text body) headers (se_webhookSecret env)")
  case (Inl e)
  then show ?thesis
    using assms by (simp add: webhook_endpoint_def handleEmailWebhook_def webhook_reply_def attempt_def seq_def on_part_def split: if_splits)
qed simp

lemma body_endpoint_change:
  assumes "sv_api (fst (body_endpoint env hr path s)) \<noteq> sv_api s"
  shows "(\<exists>payload event. hr_method hr = ''POST'' \<and> path = ''/webhooks/email''
        \<and> verifyResendWebhook (ae_mail (se_api env)) (se_signature env) payload (hr_headers hr) (se_webhookSecret env) = Inr event)
   \<or> (\<exists>body p. principal_of env (hr_headers hr) (\<lambda>_. None) False = Inr p
        \<and> fst (handleApiRequest (se_api env) (api_request env hr body p) (sv_api s)) \<noteq> sv_api s)"
proof -
  obtain content where content: "read_chunks (requestBodyLimit env (hr_method hr) path) 0 (hr_chunks hr) = Some content" "\<not> hr_timedOut hr"
    using assms by (auto simp: body_endpoint_def split: option.splits if_splits)
  let ?body = "body_of env hr path content"
  show ?thesis
  proof (cases "hr_method hr = ''POST'' \<and> path = ''/webhooks/email''")
    case True
    then have "sv_api (fst (webhook_endpoint env (hr_headers hr) ?body s)) \<noteq> sv_api s" using assms content by (simp add: body_endpoint_def Let_def)
    then show ?thesis using True webhook_endpoint_change by blast
  next
    case False
    then have "sv_api (fst (api_endpoint env hr ?body s)) \<noteq> sv_api s" using assms content by (auto simp: body_endpoint_def Let_def)
    then show ?thesis using api_endpoint_change by metis
  qed
qed

lemma limited_run: "limited env hr s = (s\<lparr>sv_buckets := fst (rate_check (se_limits env) (rateLimitKey hr) (se_now env) (sv_buckets s))\<rparr>,
    Inr (snd (rate_check (se_limits env) (rateLimitKey hr) (se_now env) (sv_buckets s))))"
  by (simp add: limited_def split_beta)

definition let_through :: "server_env \<Rightarrow> http_request \<Rightarrow> server \<Rightarrow> bool" where
  "let_through env hr s =
    (\<not> sv_draining s \<and> allowed (snd (rate_check (se_limits env) (rateLimitKey hr) (se_now env) (sv_buckets s))))"

lemma serve_change:
  assumes "sv_api (fst (serve_http env hr s)) \<noteq> sv_api s"
  shows "let_through env hr s \<and> (\<exists>path query. ae_url (se_api env) (hr_target hr) = Some (path, query)
    \<and> (\<exists>s1. sv_api s1 = sv_api s \<and> sv_api (fst (body_endpoint env hr path s1)) \<noteq> sv_api s))"
proof -
  note kept = kept_public [of env, unfolded api_kept.stays_in_def]
  obtain path query where url: "ae_url (se_api env) (hr_target hr) = Some (path, query)"
    using assms by (auto simp: serve_http_def split: option.splits if_splits)
  show ?thesis
    using assms url kept by (auto simp: serve_http_def let_through_def seq_run(1) [OF limited_run] split: if_splits option.splits
      intro!: exI [of _ "s\<lparr>sv_buckets := fst (rate_check (se_limits env) (rateLimitKey hr) (se_now env) (sv_buckets s))\<rparr>"])
qed

lemma exchange_api: "sv_api (fst (http_exchange env hr s)) = sv_api (fst (serve_http env hr s))"
  by (auto simp: http_exchange_def seq_def split: prod.splits sum.splits)


definition demo_empty_api :: api where
  "demo_empty_api = \<lparr>api_repo = createMemoryRepository (JObj []), api_outbox = createOutboxStore, api_idempotency = [], api_disk = demo_disk\<rparr>"

definition demo_owner_directory :: "jsval \<Rightarrow> string \<Rightarrow> jsval res" where
  "demo_owner_directory issuer subject = Inr (JObj [(''status'', JStr ''active''), (''userId'', JStr ''u1''), (''tenantId'', JStr ''t1''),
     (''organizationRole'', JStr ''client_owner'')])"

definition demo_server_env :: server_env where
  "demo_server_env = \<lparr>se_api = demo_api_env\<lparr>ae_json := (\<lambda>_. Some (JObj [(''id'', JStr ''p1''), (''name'', JStr ''Tower'')]))\<rparr>,
     se_token = example_token_env, se_auth = example_auth_config, se_keys = Inr example_keys, se_directory = Some demo_owner_directory,
     se_limits = \<lparr>windowMs = 60000, maxChecks = 3\<rparr>, se_maxBodyBytes = 9, se_emailTransport = JUndef, se_webhookSecret = JUndef,
     se_signature = (\<lambda>_ _ _. Inl type_error), se_utf8 = id, se_now = 1500000, se_reports = [], se_requireHealthy = True,
     se_databaseLatencyMs = 2000, se_release = JUndef\<rparr>"

definition demo_http :: http_request where
  "demo_http = \<lparr>hr_method = ''POST'', hr_target = ''/v1/tenants/t1/projects'', hr_headers = JObj [(''authorization'', JStr ''Bearer h.p.s'')],
     hr_remoteAddress = JUndef, hr_chunks = [''{}''], hr_timedOut = False, hr_durationMs = 2\<rparr>"

definition demo_server :: server where
  "demo_server = \<lparr>sv_api = demo_empty_api, sv_draining = False, sv_buckets = [], sv_metrics = createMetrics\<rparr>"

lemma demo_server_created: "length (listProjectsByTenant (api_repo (sv_api (fst (serve_http demo_server_env demo_http demo_server)))) (JStr ''t1'')) = 1"
  by code_simp


text \<open>A target that is no URL, such as \<open>//\<close>, throws in the request handler, outside every promise.\<close>

lemma bad_target_throws:
  assumes "hr_method hr \<noteq> ''OPTIONS''" "ae_url (se_api env) (hr_target hr) = None"
  shows "isl (snd (http_exchange env hr s)) \<and> fst (http_exchange env hr s) = s"
  using assms by (simp add: http_exchange_def serve_http_def seq_def)

section \<open>Readiness\<close>

text \<open>
  C37. The server reports that it is ready exactly while it is not draining, every dependency could be asked, and, where
  healthy dependencies are required, each of them is ready and the database fast enough.
\<close>

theorem ready_exactly:
  "\<exists>s' a. ready_endpoint env s = (s', Inr a) \<and> sv_api s' = sv_api s
    \<and> rs_status a = (if \<not> sv_draining s \<and> list_all (\<lambda>r. \<not> isl r) (se_reports env)
         \<and> (if se_requireHealthy env then list_all (\<lambda>(n, r). is_true (fld r ''ready'')) (dependencies env) else True) then 200 else 503)"
proof -
  have ok: "isl (readiness_report env) \<longleftrightarrow> \<not> (list_all (\<lambda>r. \<not> isl r) (se_reports env)
      \<and> (if se_requireHealthy env then list_all (\<lambda>(n, r). is_true (fld r ''ready'')) (dependencies env) else True))"
  proof (cases "find isl (se_reports env)")
    case None
    have "list_all (\<lambda>(n, r). is_true (fld r ''ready'')) (dependencies env)
        \<longleftrightarrow> find (\<lambda>(n, r). \<not> is_true (fld r ''ready'')) (dependencies env) = None"
      by (auto simp: find_None_iff list_all_iff split_beta)
    moreover have "list_all (\<lambda>r. \<not> isl r) (se_reports env)" using None by (simp add: find_None_iff list_all_iff)
    ultimately show ?thesis unfolding readiness_report_def None by (auto split: option.splits)
  next
    case (Some r)
    then have "isl r" "r \<in> set (se_reports env)" by (auto simp: find_Some_iff)
    then have "\<not> list_all (\<lambda>r. \<not> isl r) (se_reports env)" by (auto simp: list_all_iff)
    then show ?thesis using Some \<open>isl r\<close> by (cases r) (simp_all add: readiness_report_def)
  qed
  have kept: "sv_api (fst (ready_endpoint env s)) = sv_api s" using kept_public(1) [of env] by (simp add: api_kept.stays_in_def)
  have "\<exists>s' a. ready_endpoint env s = (s', Inr a) \<and> rs_status a = (if \<not> sv_draining s \<and> \<not> isl (readiness_report env) then 200 else 503)"
    by (cases "readiness_report env") (auto simp: ready_endpoint_def server_checkReadiness_def attempt_def seq_def json_def)
  then show ?thesis unfolding ok using kept by fastforce
qed

end
