(* ===== verification/Spec2Isabelle.thy ===== *)
theory Spec2Isabelle
  imports Lifecycle FieldReports Communication OutboxWorker OutboxTime EmailLife Coordination Documents
    AiReview Integrations Blueprint Portal Repository FileStorage Auth ApiPages ApiReplay EmailOnce
    WebStatic ProductionGate RateLimit Telemetry Activation ApiServer
begin

text \<open>
  A verification development of the construction-coordination platform: an API with an audit trail, an outbox and
  mail delivery, a web server with sign-in sessions, and the domain packages both rest on. Paths are below src/.

  \<^bold>\<open>The parts and how they work together.\<close> The API server (apps/api/src/server.js, theory \<open>ApiServer\<close>) takes a request
  through the drain switch, the rate limiter (\<open>RateLimit\<close>), the size limit and the identity of the caller (apps/api/src/auth, \<open>Auth\<close>)
  to the request handlers (apps/api/src/handlers.js, theories \<open>ApiSupport\<close>, \<open>ApiCollections\<close>, \<open>ApiRoutes\<close>, \<open>ApiHandlers\<close>). A handler
  asks the access matrix (packages/authorization, \<open>Policy\<close>), calls the domain packages, writes to the repository
  (apps/api/src/repositories/memory.js, \<open>Repository\<close>), appends an event to the audit trail (packages/audit, \<open>AuditTrail\<close>) and puts
  jobs into the outbox (apps/api/src/reliability/outbox.js, \<open>Outbox\<close>). The worker takes jobs out of the outbox (\<open>OutboxWorker\<close>)
  and sends mail (apps/worker/src/worker.js, \<open>EmailWorker\<close>); the provider reports back through the webhook
  (apps/api/src/email-webhook.js, \<open>EmailWorker\<close>). The web server (apps/web/src, theories \<open>WebSession\<close>, \<open>WebConfig\<close>, \<open>WebRoutes\<close>,
  \<open>WebStatic\<close>) signs users in at the identity provider and keeps their tokens in sessions. Before a service starts, the gate
  of packages/production-config (\<open>ProductionConfig\<close>) checks its environment.

  \<^bold>\<open>Foundations.\<close> \<open>Prelude\<close> (strings, errors as values of the type \<open>'a res\<close>, guard lists, association lists), \<open>JsValue\<close> (the
  dynamic values of the source language with \<open>===\<close>, \<open>??\<close>, spread), \<open>JsNumber\<close> (conversion to numbers and dates), \<open>Json\<close> (JSON
  text and the canonical form that is hashed), \<open>DateTime\<close> (ISO dates), \<open>Effects\<close> (operations on a state that may throw and keep
  what they did before; the locale \<open>change\<close> for what an operation may change, interpreted for tenant isolation, audit chains,
  idempotency and the server).

  \<^bold>\<open>The domain.\<close> \<open>Contracts\<close> (shared-contracts, sessions, staged mode), \<open>Lifecycle\<close> (projects, permits), \<open>FieldReports\<close>,
  \<open>Communication\<close>, \<open>Coordination\<close> (coordination, construction, finance), \<open>Documents\<close> (documents, drawings, models, knowledge),
  \<open>AiReview\<close>, \<open>Integrations\<close>, \<open>Blueprint\<close>, \<open>Portal\<close> (dashboards, client portal, observability), \<open>FileStorage\<close>, \<open>Activation\<close>
  (provisioning a client), \<open>Fixtures\<close> (the synthetic data). Each has the entity constructors and operations of its package by their
  names, with every guard in the order of the code.

  \<^bold>\<open>The outbox.\<close> \<open>Outbox\<close> is the in-memory store with its consistency invariant over all reachable states, leases, retries
  and final states; \<open>OutboxSql\<close> the SQLite backend as a refinement of it; \<open>OutboxWorker\<close> one run of the worker, proved once in the
  locale \<open>outbox_backend\<close> and interpreted for both; \<open>OutboxTime\<close> the ISO texts the SQL statements compare.

  \<^bold>\<open>Mail.\<close> \<open>EmailMessages\<close> and \<open>EmailDelivery\<close> are packages/email-delivery; \<open>EmailLife\<close> and \<open>EmailOnce\<close> show what holds of a
  delivery over its life and under repetition.

  \<^bold>\<open>The API.\<close> \<open>ApiSound\<close> and \<open>ApiKept\<close> prove for every route one relation between the state before and after: soundness is kept and
  other tenants see no change. \<open>ApiSecurity\<close> has the gate and tenant isolation, \<open>ApiReplay\<close> idempotency keys, \<open>ApiPages\<close> paging,
  \<open>EmailWorker\<close> the audit chains of the whole platform (requests, webhooks and deliveries in any order), \<open>ApiServer\<close> the
  composition with authentication, rate limiter and drain switch. \<open>Telemetry\<close> has metrics, log lines and event frames.

  \<^bold>\<open>The web server.\<close> \<open>WebRuns\<close> is a step relation in which handlers interleave at their waits for the provider; tokens, logins and
  sign-outs are proved over all its runs through the locale \<open>row_rule\<close>. \<open>WebConfig\<close>, \<open>WebRoutes\<close>, \<open>WebStatic\<close> show what is published,
  that sign-in requests are answered, and which files can be read. \<open>ProductionGate\<close> shows what an environment that passes
  the gate gives; \<open>ProductionDemo\<close> is such an environment.

  \<^bold>\<open>Conventions and bounds.\<close> Strings are lists of code units below 256. Numbers are exact rationals; texts of numbers overflow
  to infinity at the limit of doubles, and \<open>Number.isSafeInteger\<close> is kept. An API request, a webhook and a delivery are atomic and see
  one time; the runs of the outbox worker interleave, and so do the steps of web sessions. Loops over lists are structural or
  have a termination proof; there is no fuel, except the bound of 20 digits on printed fractions. Random draws, clocks, hash
  functions, URL and JSON parsers, the text order \<open>localeCompare\<close>, the identity provider, the mail provider and the
  file system are parameters.

  \<^bold>\<open>Not modelled.\<close> The Postgres backends and the SQLite repository, which are SQL text for databases outside the repository; the file
  repository, which is the in-memory one behind file input and output; sockets, timers and signals of the processes; pages in the
  browser (apps/web/public), which build DOM trees; scripts, and the checklist of packages/staging-readiness.
\<close>

end
